(* ===== verification/Prelude.thy ===== *)
theory Prelude
  imports Main "HOL-Library.Word" "HOL-Library.AList"
begin

text \<open>
  The vocabulary shared by every component of the development: Go's \<open>uint\<close>, the
  result of a fallible Go call, Go maps as association lists, and the parts of Go's
  standard library (\<open>strconv\<close>, \<open>strings\<close>, \<open>fmt\<close>) that the program
  relies on, each written out as the library documents it.
\<close>

section \<open>Hint collections\<close>

named_theorems step_simps \<open>unfolding equations of handler and middleware steps\<close>
named_theorems wf_intros \<open>introduction rules for well-formedness predicates\<close>

section \<open>Numbers, results and Go maps\<close>

text \<open>Go's \<open>uint\<close> on a 64-bit target; \<open>uint64\<close> is the same type here.\<close>

type_synonym uint = "64 word"

text \<open>A call that returns \<open>(value, error)\<close>: \<open>Inl\<close> is the error.\<close>

type_synonym ('e, 'a) go_result = "'e + 'a"

text \<open>
  A Go map is an association list read with \<open>map_of\<close>; its length counts distinct
  keys, so a list with a repeated key stands for the map in which the first entry wins.
\<close>

type_synonym ('k, 'v) go_map = "('k \<times> 'v) list"

definition go_len :: "('k, 'v) go_map \<Rightarrow> nat" where
  "go_len m = length (remdups (map fst m))"

definition go_has :: "('k, 'v) go_map \<Rightarrow> 'k \<Rightarrow> bool" where
  "go_has m k = (k \<in> set (map fst m))"

text \<open>A lookup in a map of pointers: an absent key and a nil pointer both give nil.\<close>

definition go_ptr :: "('k, 'v option) go_map \<Rightarrow> 'k \<Rightarrow> 'v option" where
  "go_ptr m k = (case map_of m k of None \<Rightarrow> None | Some p \<Rightarrow> p)"

lemma go_len_card: "go_len m = card (fst ` set m)"
  by (simp add: go_len_def length_remdups_card_conv)

lemma go_has_iff: "go_has m k \<longleftrightarrow> k \<in> fst ` set m"
  by (simp add: go_has_def)

lemma go_len_Nil [simp]: "go_len [] = 0"
  by (simp add: go_len_def)

lemma go_ptr_Nil [simp]: "go_ptr [] k = None"
  by (simp add: go_ptr_def)

lemma go_ptr_Cons [simp]: "go_ptr ((k', p) # m) k = (if k = k' then p else go_ptr m k)"
  by (auto simp: go_ptr_def)

lemma go_ptr_absent: "k \<notin> fst ` set m \<Longrightarrow> go_ptr m k = None"
  by (simp add: go_ptr_def map_of_eq_None_iff [THEN iffD2])

text \<open>Counting the keys of a duplicate-free list that occur in a map.\<close>

lemma count_keys_eq_len:
  assumes "distinct ks"
  shows "length (filter (go_has m) ks) = go_len m \<longleftrightarrow> fst ` set m \<subseteq> set ks"
proof -
  have "length (filter (go_has m) ks) = card (set ks \<inter> fst ` set m)"
    using assms by (simp add: distinct_card [symmetric] Int_def go_has_iff)
  moreover have "card (set ks \<inter> fst ` set m) = card (fst ` set m) \<longleftrightarrow> fst ` set m \<subseteq> set ks"
  proof
    assume "card (set ks \<inter> fst ` set m) = card (fst ` set m)"
    then have "set ks \<inter> fst ` set m = fst ` set m"
      by (intro card_subset_eq) auto
    then show "fst ` set m \<subseteq> set ks" by blast
  qed (simp add: Int_absorb1)
  ultimately show ?thesis by (simp add: go_len_card)
qed

section \<open>The largest 64-bit number\<close>

lemma unat_max: "unat (- 1 :: uint) = 2 ^ 64 - 1"
  by (simp add: unsigned_minus_1_eq_mask mask_eq_exp_minus_1)

lemma unat_succ: "n \<noteq> - 1 \<Longrightarrow> unat (n + 1) = unat n + 1" for n :: uint
proof -
  assume "n \<noteq> - 1"
  then have "unat n \<noteq> unat (- 1 :: uint)"
    by (simp only: word_unat_eq_iff [symmetric] simp_thms)
  then have "unat n + 1 < 2 ^ LENGTH(64)"
    unfolding unat_max using unsigned_less [of n, where ?'a = nat] by simp
  moreover have "n + 1 = word_of_nat (unat n + 1)" by simp
  ultimately show ?thesis by (simp only: unat_of_nat mod_less)
qed

section \<open>Pointwise related lists\<close>

lemma list_all2_map_eq: "list_all2 (\<lambda>x y. f x = g y) xs ys \<Longrightarrow> map f xs = map g ys"
  by (induction rule: list_all2_induct) auto

lemma list_all2_list_all_eq: "list_all2 (\<lambda>x y. P x = Q y) xs ys \<Longrightarrow> list_all P xs = list_all Q ys"
  by (induction rule: list_all2_induct) auto

section \<open>Decimal numbers: \<open>strconv.ParseUint(s, 10, 64)\<close> and \<open>%d\<close>\<close>

definition digit_char :: "nat \<Rightarrow> char" where
  "digit_char d = char_of (48 + d)"

definition char_digit :: "char \<Rightarrow> nat option" where
  "char_digit c =
     (let v = (of_char c :: nat) in if 48 \<le> v \<and> v \<le> 57 then Some (v - 48) else None)"

fun show_nat :: "nat \<Rightarrow> string" where
  "show_nat n = (if n < 10 then [digit_char n] else show_nat (n div 10) @ [digit_char (n mod 10)])"

declare show_nat.simps [simp del]

fun parse_digits :: "nat \<Rightarrow> string \<Rightarrow> nat option" where
  "parse_digits acc [] = Some acc"
| "parse_digits acc (c # cs) =
     (case char_digit c of None \<Rightarrow> None | Some d \<Rightarrow> parse_digits (10 * acc + d) cs)"

definition ParseUint :: "string \<Rightarrow> nat option" where
  "ParseUint s =
     (if s = [] then None
      else case parse_digits 0 s of
             None \<Rightarrow> None
           | Some n \<Rightarrow> if n < 2 ^ 64 then Some n else None)"

lemma char_digit_digit_char [simp]: "d < 10 \<Longrightarrow> char_digit (digit_char d) = Some d"
  by (simp add: char_digit_def digit_char_def)

lemma parse_digits_append:
  "parse_digits acc (xs @ ys) =
     (case parse_digits acc xs of None \<Rightarrow> None | Some n \<Rightarrow> parse_digits n ys)"
  by (induction acc xs rule: parse_digits.induct) (auto split: option.splits)

lemma show_nat_not_Nil [simp]: "show_nat n \<noteq> []"
  by (subst show_nat.simps) simp

lemma parse_digits_show_nat: "parse_digits 0 (show_nat n) = Some n"
proof (induction n rule: show_nat.induct)
  case (1 n)
  show ?case
  proof (cases "n < 10")
    case True
    then show ?thesis by (simp add: show_nat.simps [of n])
  next
    case False
    with 1 have "parse_digits 0 (show_nat (n div 10)) = Some (n div 10)" by simp
    with False show ?thesis
      by (simp add: show_nat.simps [of n] parse_digits_append)
  qed
qed

lemma ParseUint_show_nat [simp]: "n < 2 ^ 64 \<Longrightarrow> ParseUint (show_nat n) = Some n"
  by (simp add: ParseUint_def parse_digits_show_nat)

lemma ParseUint_small: "ParseUint ''1'' = Some 1" "ParseUint ''2'' = Some 2"
  by (simp_all add: ParseUint_def char_digit_def)

lemma ParseUint_Nil [simp]: "ParseUint [] = None"
  by (simp add: ParseUint_def)

lemma ParseUint_bound: "ParseUint s = Some n \<Longrightarrow> n < 2 ^ 64"
  by (auto simp: ParseUint_def split: if_splits option.splits)

lemma ParseUint_nonempty: "ParseUint s = Some n \<Longrightarrow> s \<noteq> []"
  by (auto simp: ParseUint_def)

section \<open>\<open>strings\<close>: lower case, trimming, splitting\<close>

text \<open>ASCII lower case; \<open>strings.ToLower\<close> agrees with it on ASCII input.\<close>

definition lower_char :: "char \<Rightarrow> char" where
  "lower_char c = (let v = (of_char c :: nat) in if 65 \<le> v \<and> v \<le> 90 then char_of (v + 32) else c)"

definition ToLower :: "string \<Rightarrow> string" where
  "ToLower = map lower_char"

text \<open>ASCII white space as \<open>strings.TrimSpace\<close> sees it.\<close>

definition is_space :: "char \<Rightarrow> bool" where
  "is_space c = ((of_char c :: nat) \<in> {9, 10, 11, 12, 13, 32})"

definition TrimSpace :: "string \<Rightarrow> string" where
  "TrimSpace s = rev (dropWhile is_space (rev (dropWhile is_space s)))"

fun has_prefix :: "string \<Rightarrow> string \<Rightarrow> bool" where
  "has_prefix s [] = True"
| "has_prefix [] (p # ps) = False"
| "has_prefix (c # cs) (p # ps) = (c = p \<and> has_prefix cs ps)"

text \<open>\<open>strings.Split(s, sep)\<close> for a non-empty separator; \<open>cur\<close> holds the current piece reversed.\<close>

function split_aux :: "string \<Rightarrow> string \<Rightarrow> string \<Rightarrow> string list" where
  "split_aux sep cur [] = [rev cur]"
| "split_aux sep cur (c # cs) =
     (if sep \<noteq> [] \<and> has_prefix (c # cs) sep
      then rev cur # split_aux sep [] (drop (length sep) (c # cs))
      else split_aux sep (c # cur) cs)"
  by pat_completeness auto
termination
  by (relation "measure (\<lambda>(sep, cur, s). length s)") (auto simp: neq_Nil_conv)

definition Split :: "string \<Rightarrow> string \<Rightarrow> string list" where
  "Split s sep = split_aux sep [] s"

fun contains_str :: "string \<Rightarrow> string \<Rightarrow> bool" where
  "contains_str [] sub = (sub = [])"
| "contains_str (c # cs) sub = (has_prefix (c # cs) sub \<or> contains_str cs sub)"

lemma Split_not_Nil [simp]: "Split s sep \<noteq> []"
proof -
  have "split_aux sep cur s \<noteq> []" for cur
    by (induction sep cur s rule: split_aux.induct) auto
  then show ?thesis by (simp add: Split_def)
qed

end
