(* ===== verification/Api_Types.thy ===== *)
theory Api_Types
  imports Prelude
begin

text \<open>
  The request vocabulary of \<open>api/types\<close>: verbs, permission scopes, URL parameters,
  policy documents with the three preset policies, the scope hierarchy and the metadata of an
  endpoint, and the request errors of \<open>api/server/shared/apierrors\<close>. Go's string-typed
  enumerations become datatypes whose last constructor carries every other string, because
  policies are read from JSON and can hold any text.
\<close>

section \<open>Verbs (\<open>api/types/request.go\<close>)\<close>

datatype api_verb =
    APIVerbGet
  | APIVerbCreate
  | APIVerbList
  | APIVerbUpdate
  | APIVerbDelete
  | OtherVerb string

definition ReadVerbGroup :: "api_verb list" where
  "ReadVerbGroup = [APIVerbGet, APIVerbList]"

definition ReadWriteVerbGroup :: "api_verb list" where
  "ReadWriteVerbGroup =
     [APIVerbGet, APIVerbList, APIVerbCreate, APIVerbUpdate, APIVerbDelete]"

datatype http_verb = HTTPVerbGet | HTTPVerbPost | HTTPVerbPut | HTTPVerbPatch | HTTPVerbDelete

section \<open>URL parameters (\<open>api/types/request.go\<close>)\<close>

definition URLParamProjectID :: string where "URLParamProjectID = ''project_id''"
definition URLParamClusterID :: string where "URLParamClusterID = ''cluster_id''"
definition URLParamRegistryID :: string where "URLParamRegistryID = ''registry_id''"
definition URLParamHelmRepoID :: string where "URLParamHelmRepoID = ''helm_repo_id''"
definition URLParamGitInstallationID :: string where
  "URLParamGitInstallationID = ''git_installation_id''"
definition URLParamInfraID :: string where "URLParamInfraID = ''infra_id''"
definition URLParamOperationID :: string where "URLParamOperationID = ''operation_id''"
definition URLParamInviteID :: string where "URLParamInviteID = ''invite_id''"
definition URLParamNamespace :: string where "URLParamNamespace = ''namespace''"
definition URLParamReleaseName :: string where "URLParamReleaseName = ''name''"
definition URLParamStackID :: string where "URLParamStackID = ''stack_id''"
definition URLParamReleaseVersion :: string where "URLParamReleaseVersion = ''version''"
definition URLParamIntegrationID :: string where "URLParamIntegrationID = ''integration_id''"

lemmas url_param_defs =
  URLParamProjectID_def URLParamClusterID_def URLParamRegistryID_def URLParamHelmRepoID_def
  URLParamGitInstallationID_def URLParamInfraID_def URLParamOperationID_def URLParamInviteID_def
  URLParamNamespace_def URLParamReleaseName_def URLParamStackID_def URLParamReleaseVersion_def
  URLParamIntegrationID_def

section \<open>Scopes and policy documents (\<open>api/types/policy.go\<close>)\<close>

datatype permission_scope =
    UserScope
  | ProjectScope
  | ClusterScope
  | RegistryScope
  | InviteScope
  | HelmRepoScope
  | InfraScope
  | OperationScope
  | GitInstallationScope
  | NamespaceScope
  | SettingsScope
  | ReleaseScope
  | StackScope
  | GitlabIntegrationScope
  | OtherScope string

record name_or_uint =
  Name :: string
  UInt :: uint

datatype policy_document =
  PolicyDocument
    (Scope: permission_scope)
    (Resources: "name_or_uint list")
    (Verbs: "api_verb list")
    (Children: "(permission_scope \<times> policy_document option) list")

type_synonym policy = "policy_document option list"

datatype scope_tree = ScopeTree "(permission_scope \<times> scope_tree) list"

fun subtrees :: "scope_tree \<Rightarrow> (permission_scope \<times> scope_tree) list" where
  "subtrees (ScopeTree kids) = kids"

definition ScopeHeirarchy :: scope_tree where
  "ScopeHeirarchy =
     ScopeTree [(ProjectScope, ScopeTree [
       (ClusterScope, ScopeTree [
         (NamespaceScope, ScopeTree [
           (StackScope, ScopeTree []),
           (ReleaseScope, ScopeTree [])])]),
       (RegistryScope, ScopeTree []),
       (HelmRepoScope, ScopeTree []),
       (GitInstallationScope, ScopeTree []),
       (InfraScope, ScopeTree [
         (OperationScope, ScopeTree [])]),
       (SettingsScope, ScopeTree [])])]"

text \<open>A child document of a preset policy: a scope and its verbs, no resources, no children.\<close>

definition leaf_doc :: "permission_scope \<Rightarrow> api_verb list \<Rightarrow> permission_scope \<times> policy_document option" where
  "leaf_doc s vs = (s, Some (PolicyDocument s [] vs []))"

definition AdminPolicy :: policy where
  "AdminPolicy = [Some (PolicyDocument ProjectScope [] ReadWriteVerbGroup
     [leaf_doc ClusterScope ReadWriteVerbGroup,
      leaf_doc RegistryScope ReadWriteVerbGroup,
      leaf_doc HelmRepoScope ReadWriteVerbGroup,
      leaf_doc GitInstallationScope ReadWriteVerbGroup,
      leaf_doc InfraScope ReadWriteVerbGroup,
      leaf_doc SettingsScope ReadWriteVerbGroup])]"

definition DeveloperPolicy :: policy where
  "DeveloperPolicy = [Some (PolicyDocument ProjectScope [] ReadWriteVerbGroup
     [leaf_doc ClusterScope ReadWriteVerbGroup,
      leaf_doc RegistryScope ReadWriteVerbGroup,
      leaf_doc HelmRepoScope ReadWriteVerbGroup,
      leaf_doc GitInstallationScope ReadWriteVerbGroup,
      leaf_doc InfraScope ReadWriteVerbGroup,
      leaf_doc SettingsScope ReadVerbGroup])]"

definition ViewerPolicy :: policy where
  "ViewerPolicy = [Some (PolicyDocument ProjectScope [] ReadVerbGroup
     [leaf_doc ClusterScope ReadVerbGroup,
      leaf_doc RegistryScope ReadVerbGroup,
      leaf_doc HelmRepoScope ReadVerbGroup,
      leaf_doc GitInstallationScope ReadVerbGroup,
      leaf_doc InfraScope ReadVerbGroup,
      leaf_doc SettingsScope []])]"

lemmas preset_defs =
  AdminPolicy_def DeveloperPolicy_def ViewerPolicy_def leaf_doc_def
  ReadWriteVerbGroup_def ReadVerbGroup_def

record request_action =
  ra_Verb :: api_verb
  ra_Resource :: name_or_uint

text \<open>\<open>map[PermissionScope]*RequestAction\<close>, only ever read by key.\<close>

type_synonym req_scopes = "permission_scope \<Rightarrow> request_action option"

section \<open>Endpoint metadata (\<open>api/types/request.go\<close>)\<close>

datatype usage_metric = CPU | Memory | Clusters | Users | OtherMetric string

text \<open>A route pattern is the list of its segments: fixed text, or a \<open>{name}\<close> parameter.\<close>

datatype path_segment = Lit string | Par string

record api_request_metadata =
  md_Verb :: api_verb
  md_Method :: http_verb
  md_RelativePath :: "path_segment list"
  md_Scopes :: "permission_scope list"
  md_ShouldRedirect :: bool
  md_Quiet :: bool
  md_IsWebsocket :: bool
  md_CheckUsage :: bool
  md_UsageMetric :: usage_metric

section \<open>Roles (\<open>api/types/role.go\<close>)\<close>

datatype role_kind = RoleAdmin | RoleDeveloper | RoleViewer | RoleCustom | OtherRole string

section \<open>Request errors (\<open>api/server/shared/apierrors/errors.go\<close>)\<close>

datatype request_error =
    ErrInternal string
  | ErrForbidden string
  | ErrPassThroughToClient string nat "string list"
  | ErrNotFound string

fun ExternalError :: "request_error \<Rightarrow> string" where
  "ExternalError (ErrInternal e) = ''An internal error occurred.''"
| "ExternalError (ErrForbidden e) = ''Forbidden''"
| "ExternalError (ErrPassThroughToClient e code details) = e"
| "ExternalError (ErrNotFound e) = ''Resource not found.''"

fun join_commas :: "string list \<Rightarrow> string" where
  "join_commas [] = []"
| "join_commas [x] = x"
| "join_commas (x # xs) = x @ '','' @ join_commas xs"

fun InternalError :: "request_error \<Rightarrow> string" where
  "InternalError (ErrInternal e) = e"
| "InternalError (ErrForbidden e) = e"
| "InternalError (ErrPassThroughToClient e code details) = e @ join_commas details"
| "InternalError (ErrNotFound e) = e"

fun GetStatusCode :: "request_error \<Rightarrow> nat" where
  "GetStatusCode (ErrInternal e) = 500"
| "GetStatusCode (ErrForbidden e) = 403"
| "GetStatusCode (ErrPassThroughToClient e code details) = code"
| "GetStatusCode (ErrNotFound e) = 404"

text \<open>
  \<open>HandleAPIError\<close>: what it logs, whether it alerts, and the response it writes (the status
  and the JSON body's error text and code), if it is asked to write one. A code of 0 is omitted
  from the body.
\<close>

record handled_error =
  he_logged :: "string \<times> string"
  he_alerted :: bool
  he_response :: "(nat \<times> string \<times> uint) option"

definition HandleAPIError ::
  "bool \<Rightarrow> request_error \<Rightarrow> bool \<Rightarrow> uint list \<Rightarrow> handled_error" where
  "HandleAPIError has_alerter err writeErr opts =
     \<lparr>he_logged = (InternalError err, ExternalError err),
      he_alerted = (GetStatusCode err = 500 \<and> has_alerter),
      he_response =
        (if writeErr
         then Some (GetStatusCode err, ExternalError err,
                    (case opts of [] \<Rightarrow> 0 | code # _ \<Rightarrow> code))
         else None)\<rparr>"

text \<open>
  Error confidentiality: whatever the internal text of an internal, forbidden or not-found
  error is, the response the client gets is the same, so the response carries none of it; and
  the alerter fires exactly on status 500.
\<close>

theorem HandleAPIError_hides_internal_text:
  "he_response (HandleAPIError al (ErrInternal e1) w opts) =
     he_response (HandleAPIError al (ErrInternal e2) w opts) \<and>
   he_response (HandleAPIError al (ErrForbidden e1) w opts) =
     he_response (HandleAPIError al (ErrForbidden e2) w opts) \<and>
   he_response (HandleAPIError al (ErrNotFound e1) w opts) =
     he_response (HandleAPIError al (ErrNotFound e2) w opts) \<and>
   (he_alerted (HandleAPIError al err w opts) \<longleftrightarrow> al \<and> GetStatusCode err = 500)"
  by (auto simp: HandleAPIError_def)

end
