(* ===== verification/Repository.thy ===== *)
theory Repository
  imports Api_Types
begin

text \<open>
  The rows the API server's authorization reads (\<open>internal/models\<close>) and the read methods
  of the repositories (\<open>internal/repository/gorm\<close>). GORM and the database are not part of
  the repository: a table is the function that answers \<open>db.Where(P).First(&row)\<close>, and what the
  code relies on is \<open>first_law\<close>, GORM's documented behaviour that a row it returns satisfies the
  condition. AES-GCM decryption with the server's key and the credential backend are functions of
  the environment too. \<open>scoped_read\<close> is the contract every project-scoped read offers the
  middlewares.
\<close>

section \<open>Rows\<close>

type_synonym bytes = string

datatype go_error = ErrRecordNotFound | GoError string

record role =
  ro_ID :: uint
  ro_Kind :: role_kind
  ro_UserID :: uint
  ro_ProjectID :: uint

record user =
  us_ID :: uint
  us_Email :: string
  us_EmailVerified :: bool
  us_GithubAppIntegrationID :: uint

record project =
  pr_ID :: uint
  pr_Name :: string
  pr_Roles :: "role list"
  pr_APITokensEnabled :: bool

record token_cache =
  tc_ID :: uint
  tc_Token :: bytes

record cluster =
  cl_ID :: uint
  cl_ProjectID :: uint
  cl_Name :: string
  cl_CertificateAuthorityData :: bytes
  cl_TokenCacheID :: uint
  cl_TokenCache :: token_cache

record registry =
  rg_ID :: uint
  rg_ProjectID :: uint
  rg_TokenCache :: token_cache

record helm_repo =
  hr_ID :: uint
  hr_ProjectID :: uint
  hr_TokenCache :: token_cache

record infra =
  in_ID :: uint
  in_ProjectID :: uint
  in_LastApplied :: bytes

record operation =
  op_UID :: string
  op_InfraID :: uint
  op_LastApplied :: bytes

record invite =
  iv_ID :: uint
  iv_ProjectID :: uint
  iv_Token :: string
  iv_Email :: string
  iv_Kind :: string
  iv_UserID :: uint
  iv_Expiry :: "int option"

record stack =
  st_ID :: uint
  st_UID :: string
  st_ProjectID :: uint

record gitlab_integration =
  gi_ID :: uint
  gi_ProjectID :: uint
  gi_AppClientID :: bytes
  gi_AppClientSecret :: bytes

record github_app_installation =
  ga_AccountID :: int
  ga_InstallationID :: int

record github_app_oauth =
  go_ID :: uint
  go_AccessToken :: bytes
  go_RefreshToken :: bytes
  go_Expiry :: "int option"

record policy_row =
  pol_UniqueID :: string
  pol_ProjectID :: uint
  pol_CreatedByUserID :: uint
  pol_Name :: string
  pol_PolicyBytes :: bytes

record api_token =
  at_UniqueID :: string
  at_ProjectID :: uint
  at_CreatedByUserID :: uint
  at_Expiry :: "int option"
  at_Revoked :: bool
  at_PolicyUID :: string
  at_PolicyName :: string
  at_Name :: string
  at_SecretKey :: bytes

record project_usage_cache =
  uc_ProjectID :: uint
  uc_ResourceCPU :: uint
  uc_ResourceMemory :: uint
  uc_Clusters :: uint
  uc_Users :: uint
  uc_Exceeded :: bool
  uc_ExceededSince :: "int option"
  uc_UpdatedAt :: int

section \<open>The database\<close>

type_synonym 'row first_query = "('row \<Rightarrow> bool) \<Rightarrow> (go_error, 'row) go_result"
type_synonym 'row find_query = "('row \<Rightarrow> bool) \<Rightarrow> (go_error, 'row list) go_result"

definition first_law :: "'row first_query \<Rightarrow> bool" where
  "first_law q \<longleftrightarrow> (\<forall>P r. q P = Inr r \<longrightarrow> P r)"

definition find_law :: "'row find_query \<Rightarrow> bool" where
  "find_law q \<longleftrightarrow> (\<forall>P rs r. q P = Inr rs \<longrightarrow> r \<in> set rs \<longrightarrow> P r)"

record repo =
  q_users :: "user first_query"
  q_projects :: "project first_query"
  q_roles :: "role first_query"
  q_clusters :: "cluster first_query"
  find_clusters :: "cluster find_query"
  q_cluster_token_caches :: "token_cache first_query"
  q_registries :: "registry first_query"
  q_helm_repos :: "helm_repo first_query"
  q_infras :: "infra first_query"
  q_operations :: "operation first_query"
  q_invites :: "invite first_query"
  q_stacks :: "stack first_query"
  q_gitlab_integrations :: "gitlab_integration first_query"
  q_github_app_installations :: "github_app_installation first_query"
  find_github_app_installations :: "github_app_installation find_query"
  q_github_app_oauths :: "github_app_oauth first_query"
  q_policies :: "policy_row first_query"
  q_api_tokens :: "api_token first_query"
  q_usage_caches :: "project_usage_cache first_query"
  aes_decrypt :: "bytes \<Rightarrow> (go_error, bytes) go_result"
  gitlab_storage ::
    "(gitlab_integration \<Rightarrow> (go_error, bytes \<times> bytes) go_result) option"

definition lawful_repo :: "repo \<Rightarrow> bool" where
  "lawful_repo db \<longleftrightarrow>
     first_law (q_users db) \<and> first_law (q_projects db) \<and> first_law (q_roles db) \<and>
     first_law (q_clusters db) \<and> first_law (q_cluster_token_caches db) \<and>
     first_law (q_registries db) \<and> first_law (q_helm_repos db) \<and> first_law (q_infras db) \<and>
     first_law (q_operations db) \<and> first_law (q_invites db) \<and> first_law (q_stacks db) \<and>
     first_law (q_gitlab_integrations db) \<and> first_law (q_github_app_installations db) \<and>
     find_law (find_github_app_installations db) \<and> first_law (q_github_app_oauths db) \<and>
     first_law (q_policies db) \<and> first_law (q_api_tokens db) \<and>
     find_law (find_clusters db) \<and> first_law (q_usage_caches db)"

text \<open>A table held as a list of rows, in primary-key order, obeys the laws.\<close>

definition table_first :: "'row list \<Rightarrow> 'row first_query" where
  "table_first rows P = (case find P rows of None \<Rightarrow> Inl ErrRecordNotFound | Some r \<Rightarrow> Inr r)"

definition table_find :: "'row list \<Rightarrow> 'row find_query" where
  "table_find rows P = Inr (filter P rows)"

lemma first_law_table_first [simp]: "first_law (table_first rows)"
  by (auto simp: first_law_def table_first_def find_Some_iff split: option.splits)

lemma find_law_table_find [simp]: "find_law (table_find rows)"
  by (auto simp: find_law_def table_find_def)

lemma first_lawD: "first_law q \<Longrightarrow> q P = Inr r \<Longrightarrow> P r"
  by (auto simp: first_law_def)

section \<open>Decryption of what a row stores (\<open>Decrypt*Data\<close>)\<close>

text \<open>The data of a cluster: a bad certificate is an error, a bad cached token becomes empty.\<close>

definition DecryptClusterData :: "repo \<Rightarrow> cluster \<Rightarrow> (go_error, cluster) go_result" where
  "DecryptClusterData db c =
     (let c1 = (if cl_CertificateAuthorityData c \<noteq> []
                then case aes_decrypt db (cl_CertificateAuthorityData c) of
                       Inl e \<Rightarrow> Inl e
                     | Inr plain \<Rightarrow> Inr (c\<lparr>cl_CertificateAuthorityData := plain\<rparr>)
                else Inr c)
      in case c1 of
           Inl e \<Rightarrow> Inl e
         | Inr c \<Rightarrow>
             let tok = tc_Token (cl_TokenCache c)
             in if tok \<noteq> []
                then Inr (c\<lparr>cl_TokenCache := (cl_TokenCache c)\<lparr>tc_Token :=
                       (case aes_decrypt db tok of Inl e \<Rightarrow> [] | Inr plain \<Rightarrow> plain)\<rparr>\<rparr>)
                else Inr c)"

definition DecryptRegistryData :: "repo \<Rightarrow> registry \<Rightarrow> registry \<times> go_error option" where
  "DecryptRegistryData db r =
     (let tok = tc_Token (rg_TokenCache r)
      in if tok \<noteq> []
         then case aes_decrypt db tok of
                Inl e \<Rightarrow> (r, Some e)
              | Inr plain \<Rightarrow> (r\<lparr>rg_TokenCache := (rg_TokenCache r)\<lparr>tc_Token := plain\<rparr>\<rparr>, None)
         else (r, None))"

definition DecryptHelmRepoData :: "repo \<Rightarrow> helm_repo \<Rightarrow> helm_repo \<times> go_error option" where
  "DecryptHelmRepoData db r =
     (let tok = tc_Token (hr_TokenCache r)
      in if tok \<noteq> []
         then case aes_decrypt db tok of
                Inl e \<Rightarrow> (r, Some e)
              | Inr plain \<Rightarrow> (r\<lparr>hr_TokenCache := (hr_TokenCache r)\<lparr>tc_Token := plain\<rparr>\<rparr>, None)
         else (r, None))"

definition DecryptInfraData :: "repo \<Rightarrow> infra \<Rightarrow> (go_error, infra) go_result" where
  "DecryptInfraData db i =
     (if in_LastApplied i \<noteq> []
      then case aes_decrypt db (in_LastApplied i) of
             Inl e \<Rightarrow> Inl e
           | Inr plain \<Rightarrow> Inr (i\<lparr>in_LastApplied := plain\<rparr>)
      else Inr i)"

definition DecryptOperationData :: "repo \<Rightarrow> operation \<Rightarrow> (go_error, operation) go_result" where
  "DecryptOperationData db x =
     (if op_LastApplied x \<noteq> []
      then case aes_decrypt db (op_LastApplied x) of
             Inl e \<Rightarrow> Inl e
           | Inr plain \<Rightarrow> Inr (x\<lparr>op_LastApplied := plain\<rparr>)
      else Inr x)"

definition DecryptGitlabIntegrationData ::
  "repo \<Rightarrow> gitlab_integration \<Rightarrow> (go_error, gitlab_integration) go_result" where
  "DecryptGitlabIntegrationData db g =
     (let g1 = (if gi_AppClientID g \<noteq> []
                then case aes_decrypt db (gi_AppClientID g) of
                       Inl e \<Rightarrow> Inl e
                     | Inr plain \<Rightarrow> Inr (g\<lparr>gi_AppClientID := plain\<rparr>)
                else Inr g)
      in case g1 of
           Inl e \<Rightarrow> Inl e
         | Inr g \<Rightarrow>
             if gi_AppClientSecret g \<noteq> []
             then case aes_decrypt db (gi_AppClientSecret g) of
                    Inl e \<Rightarrow> Inl e
                  | Inr plain \<Rightarrow> Inr (g\<lparr>gi_AppClientSecret := plain\<rparr>)
             else Inr g)"

section \<open>Reads\<close>

definition ReadUser :: "repo \<Rightarrow> uint \<Rightarrow> (go_error, user) go_result" where
  "ReadUser db i = q_users db (\<lambda>u. us_ID u = i)"

definition ReadProject :: "repo \<Rightarrow> uint \<Rightarrow> (go_error, project) go_result" where
  "ReadProject db i = q_projects db (\<lambda>p. pr_ID p = i)"

definition ListProjectRoles :: "repo \<Rightarrow> uint \<Rightarrow> (go_error, role list) go_result" where
  "ListProjectRoles db projID =
     (case q_projects db (\<lambda>p. pr_ID p = projID) of Inl e \<Rightarrow> Inl e | Inr p \<Rightarrow> Inr (pr_Roles p))"

definition ReadProjectRole :: "repo \<Rightarrow> uint \<Rightarrow> uint \<Rightarrow> (go_error, role) go_result" where
  "ReadProjectRole db projID userID =
     q_roles db (\<lambda>r. ro_ProjectID r = projID \<and> ro_UserID r = userID)"

definition empty_token_cache :: token_cache where
  "empty_token_cache = \<lparr>tc_ID = 0, tc_Token = []\<rparr>"

definition ReadCluster :: "repo \<Rightarrow> uint \<Rightarrow> uint \<Rightarrow> (go_error, cluster) go_result" where
  "ReadCluster db projectID clusterID =
     (case q_clusters db (\<lambda>c. cl_ProjectID c = projectID \<and> cl_ID c = clusterID) of
        Inl e \<Rightarrow> Inl e
      | Inr c \<Rightarrow>
          case (if cl_TokenCacheID c \<noteq> 0
                then q_cluster_token_caches db (\<lambda>t. tc_ID t = cl_TokenCacheID c)
                else Inr empty_token_cache) of
            Inl e \<Rightarrow> Inl e
          | Inr cache \<Rightarrow> DecryptClusterData db (c\<lparr>cl_TokenCache := cache\<rparr>))"

text \<open>The list ignores decryption errors: such a cluster stays as it is stored.\<close>

definition ListClustersByProjectID :: "repo \<Rightarrow> uint \<Rightarrow> (go_error, cluster list) go_result" where
  "ListClustersByProjectID db projectID =
     (case find_clusters db (\<lambda>c. cl_ProjectID c = projectID) of
        Inl e \<Rightarrow> Inl e
      | Inr cs \<Rightarrow> Inr (map (\<lambda>c. let c = c\<lparr>cl_TokenCache := empty_token_cache\<rparr>
                                in case DecryptClusterData db c of Inl e \<Rightarrow> c | Inr c' \<Rightarrow> c') cs))"

definition ReadRegistry :: "repo \<Rightarrow> uint \<Rightarrow> uint \<Rightarrow> (go_error, registry) go_result" where
  "ReadRegistry db projectID regID =
     (case q_registries db (\<lambda>r. rg_ProjectID r = projectID \<and> rg_ID r = regID) of
        Inl e \<Rightarrow> Inl e
      | Inr r \<Rightarrow> Inr (fst (DecryptRegistryData db r)))"

definition ReadHelmRepo :: "repo \<Rightarrow> uint \<Rightarrow> uint \<Rightarrow> (go_error, helm_repo) go_result" where
  "ReadHelmRepo db projectID hrID =
     (case q_helm_repos db (\<lambda>r. hr_ProjectID r = projectID \<and> hr_ID r = hrID) of
        Inl e \<Rightarrow> Inl e
      | Inr r \<Rightarrow> Inr (fst (DecryptHelmRepoData db r)))"

definition ReadInfra :: "repo \<Rightarrow> uint \<Rightarrow> uint \<Rightarrow> (go_error, infra) go_result" where
  "ReadInfra db projectID infraID =
     (case q_infras db (\<lambda>i. in_ProjectID i = projectID \<and> in_ID i = infraID) of
        Inl e \<Rightarrow> Inl e
      | Inr i \<Rightarrow> DecryptInfraData db i)"

definition ReadOperation :: "repo \<Rightarrow> uint \<Rightarrow> string \<Rightarrow> (go_error, operation) go_result" where
  "ReadOperation db infraID uid =
     (case q_operations db (\<lambda>x. op_InfraID x = infraID \<and> op_UID x = uid) of
        Inl e \<Rightarrow> Inl e
      | Inr x \<Rightarrow> DecryptOperationData db x)"

definition ReadInvite :: "repo \<Rightarrow> uint \<Rightarrow> uint \<Rightarrow> (go_error, invite) go_result" where
  "ReadInvite db projectID inviteID =
     q_invites db (\<lambda>i. iv_ProjectID i = projectID \<and> iv_ID i = inviteID)"

definition ReadInviteByToken :: "repo \<Rightarrow> string \<Rightarrow> (go_error, invite) go_result" where
  "ReadInviteByToken db tok = q_invites db (\<lambda>i. iv_Token i = tok)"

definition ReadStackByStringID :: "repo \<Rightarrow> uint \<Rightarrow> string \<Rightarrow> (go_error, stack) go_result" where
  "ReadStackByStringID db projectID stackID =
     q_stacks db (\<lambda>s. st_ProjectID s = projectID \<and> st_UID s = stackID)"

definition ReadGitlabIntegration ::
  "repo \<Rightarrow> uint \<Rightarrow> uint \<Rightarrow> (go_error, gitlab_integration) go_result" where
  "ReadGitlabIntegration db projectID i =
     (case q_gitlab_integrations db (\<lambda>g. gi_ProjectID g = projectID \<and> gi_ID g = i) of
        Inl e \<Rightarrow> Inl e
      | Inr g \<Rightarrow>
          case (case gitlab_storage db of
                  None \<Rightarrow> Inr g
                | Some get \<Rightarrow>
                    case get g of
                      Inl e \<Rightarrow> Inl e
                    | Inr (cid, secret) \<Rightarrow>
                        Inr (g\<lparr>gi_AppClientID := cid, gi_AppClientSecret := secret\<rparr>)) of
            Inl e \<Rightarrow> Inl e
          | Inr g \<Rightarrow> DecryptGitlabIntegrationData db g)"

definition ReadGithubAppInstallationByInstallationID ::
  "repo \<Rightarrow> uint \<Rightarrow> (go_error, github_app_installation) go_result" where
  "ReadGithubAppInstallationByInstallationID db gaID =
     q_github_app_installations db (\<lambda>g. ga_InstallationID g = uint gaID)"

definition ReadGithubAppInstallationByAccountIDs ::
  "repo \<Rightarrow> int list \<Rightarrow> (go_error, github_app_installation list) go_result" where
  "ReadGithubAppInstallationByAccountIDs db accountIDs =
     find_github_app_installations db (\<lambda>g. ga_AccountID g \<in> set accountIDs)"

definition ReadGithubAppOauthIntegration :: "repo \<Rightarrow> uint \<Rightarrow> (go_error, github_app_oauth) go_result" where
  "ReadGithubAppOauthIntegration db i = q_github_app_oauths db (\<lambda>g. go_ID g = i)"

definition ReadPolicy :: "repo \<Rightarrow> uint \<Rightarrow> string \<Rightarrow> (go_error, policy_row) go_result" where
  "ReadPolicy db projectID uid =
     q_policies db (\<lambda>p. pol_ProjectID p = projectID \<and> pol_UniqueID p = uid)"

definition ReadProjectUsageCache :: "repo \<Rightarrow> uint \<Rightarrow> (go_error, project_usage_cache) go_result" where
  "ReadProjectUsageCache db projID = q_usage_caches db (\<lambda>c. uc_ProjectID c = projID)"

definition ReadAPIToken :: "repo \<Rightarrow> uint \<Rightarrow> string \<Rightarrow> (go_error, api_token) go_result" where
  "ReadAPIToken db projectID uid =
     q_api_tokens db (\<lambda>t. at_ProjectID t = projectID \<and> at_UniqueID t = uid)"

end
