(* ===== verification/Scoped_Reads.thy ===== *)
theory Scoped_Reads
  imports Repository
begin

text \<open>
  The contract of a scoped read, as a locale, and its interpretation on every repository read
  that is given the id of an owner (a project, or the infra of an operation): what the read
  returns belongs to that owner and has the requested id. The middlewares rest on this contract.
\<close>

section \<open>The contract\<close>

locale scoped_read =
  fixes lawful :: "'env \<Rightarrow> bool"
    and read :: "'env \<Rightarrow> uint \<Rightarrow> 'id \<Rightarrow> (go_error, 'row) go_result"
    and owner :: "'row \<Rightarrow> uint"
    and ident :: "'row \<Rightarrow> 'id"
  assumes read_owner: "lawful db \<Longrightarrow> read db p i = Inr r \<Longrightarrow> owner r = p"
    and read_ident: "lawful db \<Longrightarrow> read db p i = Inr r \<Longrightarrow> ident r = i"
begin

lemma no_cross_owner:
  "lawful db \<Longrightarrow> read db p i = Inr r \<Longrightarrow> owner r \<noteq> p' \<Longrightarrow> p \<noteq> p'"
  using read_owner by blast

lemma same_row:
  "lawful db \<Longrightarrow> read db p i = Inr r \<Longrightarrow> read db p' i' = Inr r \<Longrightarrow> p = p' \<and> i = i'"
  using read_owner read_ident by blast

end

section \<open>Decryption keeps the identity of a row\<close>

lemma DecryptClusterData_ident:
  "DecryptClusterData db c = Inr c' \<Longrightarrow> cl_ID c' = cl_ID c \<and> cl_ProjectID c' = cl_ProjectID c"
  by (auto simp: DecryptClusterData_def Let_def split: if_splits sum.splits)

lemma DecryptRegistryData_ident:
  "rg_ID (fst (DecryptRegistryData db r)) = rg_ID r \<and>
   rg_ProjectID (fst (DecryptRegistryData db r)) = rg_ProjectID r"
  by (auto simp: DecryptRegistryData_def Let_def split: sum.splits)

lemma DecryptHelmRepoData_ident:
  "hr_ID (fst (DecryptHelmRepoData db r)) = hr_ID r \<and>
   hr_ProjectID (fst (DecryptHelmRepoData db r)) = hr_ProjectID r"
  by (auto simp: DecryptHelmRepoData_def Let_def split: sum.splits)

lemma DecryptInfraData_ident:
  "DecryptInfraData db i = Inr i' \<Longrightarrow> in_ID i' = in_ID i \<and> in_ProjectID i' = in_ProjectID i"
  by (auto simp: DecryptInfraData_def split: if_splits sum.splits)

lemma DecryptOperationData_ident:
  "DecryptOperationData db x = Inr x' \<Longrightarrow> op_UID x' = op_UID x \<and> op_InfraID x' = op_InfraID x"
  by (auto simp: DecryptOperationData_def split: if_splits sum.splits)

lemma DecryptGitlabIntegrationData_ident:
  "DecryptGitlabIntegrationData db g = Inr g' \<Longrightarrow> gi_ID g' = gi_ID g \<and> gi_ProjectID g' = gi_ProjectID g"
  by (auto simp: DecryptGitlabIntegrationData_def Let_def split: if_splits sum.splits)

lemmas decrypt_ident =
  DecryptClusterData_ident DecryptInfraData_ident DecryptOperationData_ident
  DecryptGitlabIntegrationData_ident

section \<open>The reads satisfy the contract\<close>

lemma lawful_repoD:
  assumes "lawful_repo db"
  shows "q_projects db P = Inr p \<Longrightarrow> P p"
    and "q_users db Q = Inr u \<Longrightarrow> Q u"
    and "q_roles db R = Inr r \<Longrightarrow> R r"
    and "q_clusters db C = Inr c \<Longrightarrow> C c"
    and "q_registries db G = Inr g \<Longrightarrow> G g"
    and "q_helm_repos db H = Inr h \<Longrightarrow> H h"
    and "q_infras db I = Inr i \<Longrightarrow> I i"
    and "q_operations db X = Inr x \<Longrightarrow> X x"
    and "q_invites db V = Inr v \<Longrightarrow> V v"
    and "q_stacks db S = Inr s \<Longrightarrow> S s"
    and "q_gitlab_integrations db L = Inr l \<Longrightarrow> L l"
    and "q_policies db Y = Inr y \<Longrightarrow> Y y"
    and "q_api_tokens db T = Inr t \<Longrightarrow> T t"
    and "q_github_app_installations db A = Inr a \<Longrightarrow> A a"
  using assms by (auto simp: lawful_repo_def first_law_def)

lemma lawful_repo_find:
  "lawful_repo db \<Longrightarrow> find_github_app_installations db B = Inr bs \<Longrightarrow> b \<in> set bs \<Longrightarrow> B b"
  unfolding lawful_repo_def find_law_def by blast

interpretation cluster_read: scoped_read lawful_repo ReadCluster cl_ProjectID cl_ID
  by unfold_locales
     (auto simp: ReadCluster_def dest!: lawful_repoD(4) decrypt_ident split: sum.splits if_splits)

interpretation registry_read: scoped_read lawful_repo ReadRegistry rg_ProjectID rg_ID
  by unfold_locales
     (auto simp: ReadRegistry_def DecryptRegistryData_ident dest!: lawful_repoD(5) split: sum.splits)

interpretation helm_repo_read: scoped_read lawful_repo ReadHelmRepo hr_ProjectID hr_ID
  by unfold_locales
     (auto simp: ReadHelmRepo_def DecryptHelmRepoData_ident dest!: lawful_repoD(6) split: sum.splits)

interpretation infra_read: scoped_read lawful_repo ReadInfra in_ProjectID in_ID
  by unfold_locales
     (auto simp: ReadInfra_def dest!: lawful_repoD(7) decrypt_ident split: sum.splits)

interpretation operation_read: scoped_read lawful_repo ReadOperation op_InfraID op_UID
  by unfold_locales
     (auto simp: ReadOperation_def dest!: lawful_repoD(8) decrypt_ident split: sum.splits)

interpretation invite_read: scoped_read lawful_repo ReadInvite iv_ProjectID iv_ID
  by unfold_locales (auto simp: ReadInvite_def dest!: lawful_repoD(9))

interpretation stack_read: scoped_read lawful_repo ReadStackByStringID st_ProjectID st_UID
  by unfold_locales (auto simp: ReadStackByStringID_def dest!: lawful_repoD(10))

interpretation policy_read: scoped_read lawful_repo ReadPolicy pol_ProjectID pol_UniqueID
  by unfold_locales (auto simp: ReadPolicy_def dest!: lawful_repoD(12))

interpretation api_token_read: scoped_read lawful_repo ReadAPIToken at_ProjectID at_UniqueID
  by unfold_locales (auto simp: ReadAPIToken_def dest!: lawful_repoD(13))

text \<open>
  A GitLab integration is read through the credential backend too, which replaces only the
  credentials.
\<close>

interpretation gitlab_read: scoped_read lawful_repo ReadGitlabIntegration gi_ProjectID gi_ID
  by unfold_locales
     (auto simp: ReadGitlabIntegration_def dest!: lawful_repoD(11) decrypt_ident
           split: sum.splits option.splits)

lemma ReadProject_ID: "lawful_repo db \<Longrightarrow> ReadProject db i = Inr p \<Longrightarrow> pr_ID p = i"
  by (auto simp: ReadProject_def dest: lawful_repoD(1))

lemma ReadUser_ID: "lawful_repo db \<Longrightarrow> ReadUser db i = Inr u \<Longrightarrow> us_ID u = i"
  by (auto simp: ReadUser_def dest: lawful_repoD(2))

lemma ReadProjectRole_ID:
  "lawful_repo db \<Longrightarrow> ReadProjectRole db p u = Inr r \<Longrightarrow> ro_ProjectID r = p \<and> ro_UserID r = u"
  by (auto simp: ReadProjectRole_def dest: lawful_repoD(3))

end
