(* ===== verification/Token.thy ===== *)
theory Token
  imports Repository
begin

text \<open>
  \<open>internal/auth/token/token.go\<close>: how a Porter token becomes a JWT and comes back. The JWT
  library is not part of the repository: signing and parsing are arguments. Its claims are JSON
  values, so a number comes back as a float64, which \<open>fmt.Sprintf("%v", ...)\<close> prints with an
  exponent from 10^6 on; \<open>strconv.ParseUint\<close> then rejects it. The theory proves the round trip
  for the ids below that bound and its failure above it.
\<close>

section \<open>Tokens\<close>

datatype subject = UserSubject | APISubject | OtherSubject string

record token =
  to_SubKind :: subject
  to_Sub :: string
  to_ProjectID :: uint
  to_IBy :: uint
  to_IAt :: int
  to_TokenID :: string
  to_Secret :: string

definition subject_string :: "subject \<Rightarrow> string" where
  "subject_string k =
     (case k of UserSubject \<Rightarrow> ''user'' | APISubject \<Rightarrow> ''api'' | OtherSubject s \<Rightarrow> s)"

definition string_subject :: "string \<Rightarrow> subject" where
  "string_subject s =
     (if s = ''user'' then UserSubject else if s = ''api'' then APISubject else OtherSubject s)"

definition GetTokenForUser :: "int \<Rightarrow> uint \<Rightarrow> (string, token) go_result" where
  "GetTokenForUser now userID =
     (if userID = 0 then Inl ''id cannot be 0''
      else Inr \<lparr>to_SubKind = UserSubject, to_Sub = show_nat (unat userID), to_ProjectID = 0,
                to_IBy = userID, to_IAt = now, to_TokenID = [], to_Secret = []\<rparr>)"

definition GetTokenForAPI :: "int \<Rightarrow> uint \<Rightarrow> uint \<Rightarrow> (string, token) go_result" where
  "GetTokenForAPI now userID projID =
     (if userID = 0 \<or> projID = 0 then Inl ''id cannot be 0''
      else Inr \<lparr>to_SubKind = APISubject, to_Sub = subject_string APISubject, to_ProjectID = projID,
                to_IBy = userID, to_IAt = now, to_TokenID = [], to_Secret = []\<rparr>)"

definition GetStoredTokenForAPI ::
  "int \<Rightarrow> uint \<Rightarrow> uint \<Rightarrow> string \<Rightarrow> string \<Rightarrow> (string, token) go_result" where
  "GetStoredTokenForAPI now userID projID tokenID secret =
     (if userID = 0 \<or> projID = 0 then Inl ''id cannot be 0''
      else Inr \<lparr>to_SubKind = APISubject, to_Sub = subject_string APISubject, to_ProjectID = projID,
                to_IBy = userID, to_IAt = now, to_TokenID = tokenID, to_Secret = secret\<rparr>)"

section \<open>Claims\<close>

text \<open>
  A JSON value as the claims hold it: a non-negative integral number (a float64 once parsed),
  any other number by the text \<open>%v\<close> gives it, a string, or something else by its text.
\<close>

datatype json_claim = JNum nat | JOtherNum string | JStr string | JOther string

type_synonym claims = "(string, json_claim) go_map"

definition show_int :: "int \<Rightarrow> string" where
  "show_int i = (if i < 0 then ''-'' @ show_nat (nat (- i)) else show_nat (nat i))"

text \<open>
  \<open>%e\<close> of an integral float64 with the shortest mantissa: the digits without their trailing
  zeros, a point after the first, and an exponent of at least two digits.
\<close>

definition show_exponent :: "nat \<Rightarrow> string" where
  "show_exponent e = ''e+'' @ (if e < 10 then ''0'' else []) @ show_nat e"

definition show_scientific :: "nat \<Rightarrow> string" where
  "show_scientific n =
     (let ds = show_nat n;
          mant = rev (dropWhile (\<lambda>c. c = CHR ''0'') (rev ds))
      in (case mant of [] \<Rightarrow> [] | d # ds' \<Rightarrow> if ds' = [] then [d] else d # CHR ''.'' # ds')
         @ show_exponent (length ds - 1))"

definition fmt_v :: "json_claim option \<Rightarrow> string" where
  "fmt_v c =
     (case c of
        None \<Rightarrow> ''<nil>''
      | Some (JNum n) \<Rightarrow> if n < 10 ^ 6 then show_nat n else show_scientific n
      | Some (JOtherNum s) \<Rightarrow> s
      | Some (JStr s) \<Rightarrow> s
      | Some (JOther s) \<Rightarrow> s)"

text \<open>\<open>strconv.ParseInt(s, 10, 64)\<close>: an optional sign, then digits, in range.\<close>

definition ParseInt :: "string \<Rightarrow> int option" where
  "ParseInt s =
     (let (neg, ds) =
            (case s of
               [] \<Rightarrow> (False, [])
             | c # cs \<Rightarrow> if c = CHR ''-'' then (True, cs) else if c = CHR ''+'' then (False, cs)
                         else (False, s))
      in case (if ds = [] then None else parse_digits 0 ds) of
           None \<Rightarrow> None
         | Some n \<Rightarrow>
             if neg then (if n \<le> 2 ^ 63 then Some (- int n) else None)
             else (if n < 2 ^ 63 then Some (int n) else None))"

definition claims_of :: "token \<Rightarrow> claims" where
  "claims_of t =
     [(''sub_kind'', JStr (subject_string (to_SubKind t))),
      (''sub'', JStr (to_Sub t)),
      (''iby'', JNum (unat (to_IBy t))),
      (''iat'', JStr (show_int (to_IAt t))),
      (''project_id'', JNum (unat (to_ProjectID t))),
      (''token_id'', JStr (to_TokenID t)),
      (''secret'', JStr (to_Secret t))]"

definition EncodeToken ::
  "(claims \<Rightarrow> string \<Rightarrow> (string, string) go_result) \<Rightarrow> string \<Rightarrow> token \<Rightarrow> (string, string) go_result" where
  "EncodeToken sign secret t = sign (claims_of t) secret"

definition string_claim :: "json_claim option \<Rightarrow> string" where
  "string_claim c = (case c of Some (JStr s) \<Rightarrow> s | _ \<Rightarrow> [])"

text \<open>
  \<open>GetTokenFromEncoded\<close>: \<open>parse\<close> is \<open>jwt.Parse\<close> with the HMAC check and the key, and gives
  the claims of a valid token.
\<close>

definition GetTokenFromEncoded ::
  "(string \<Rightarrow> string \<Rightarrow> (string, claims) go_result) \<Rightarrow> string \<Rightarrow> string \<Rightarrow> (string, token) go_result" where
  "GetTokenFromEncoded parse secret tokenString =
     (case parse tokenString secret of
        Inl e \<Rightarrow> Inl (''could not parse token: '' @ e)
      | Inr cs \<Rightarrow>
          case ParseUint (fmt_v (map_of cs ''iby'')) of
            None \<Rightarrow> Inl ''invalid iby claim''
          | Some iby \<Rightarrow>
              case ParseUint (fmt_v (map_of cs ''project_id'')) of
                None \<Rightarrow> Inl ''invalid project_id claim''
              | Some projID \<Rightarrow>
                  case ParseInt (fmt_v (map_of cs ''iat'')) of
                    None \<Rightarrow> Inl ''invalid iat claim''
                  | Some iat \<Rightarrow>
                      Inr \<lparr>to_SubKind = string_subject (fmt_v (map_of cs ''sub_kind'')),
                           to_Sub = fmt_v (map_of cs ''sub''),
                           to_ProjectID = word_of_nat projID,
                           to_IBy = word_of_nat iby,
                           to_IAt = iat,
                           to_TokenID = string_claim (map_of cs ''token_id''),
                           to_Secret = string_claim (map_of cs ''secret'')\<rparr>)"

section \<open>Printing and parsing\<close>

lemma char_digit_e [simp]: "char_digit (CHR ''e'') = None"
  by (simp add: char_digit_def)

lemma parse_digits_None: "c \<in> set s \<Longrightarrow> char_digit c = None \<Longrightarrow> parse_digits acc s = None"
  by (induction acc s rule: parse_digits.induct) (auto split: option.splits)

lemma ParseUint_scientific: "ParseUint (show_scientific n) = None"
proof -
  have "CHR ''e'' \<in> set (show_scientific n)"
    by (simp add: show_scientific_def show_exponent_def Let_def)
  then have "parse_digits 0 (show_scientific n) = None"
    by (rule parse_digits_None) simp
  then show ?thesis by (simp add: ParseUint_def)
qed

lemma ParseUint_fmt_v_JNum:
  "ParseUint (fmt_v (Some (JNum n))) = (if n < 10 ^ 6 then Some n else None)"
  by (simp add: fmt_v_def ParseUint_scientific)

lemma show_nat_digits: "c \<in> set (show_nat n) \<Longrightarrow> \<exists>d<10. c = digit_char d"
proof (induction n rule: show_nat.induct)
  case (1 n)
  show ?case
  proof (cases "n < 10")
    case True
    with "1.prems" show ?thesis by (auto simp: show_nat.simps [of n])
  next
    case False
    with "1.prems" have "c \<in> set (show_nat (n div 10)) \<or> c = digit_char (n mod 10)"
      by (auto simp: show_nat.simps [of n])
    with "1.IH" [OF False] show ?thesis
      by (metis mod_less_divisor zero_less_numeral)
  qed
qed

lemma show_nat_no_sign:
  "show_nat n = c # cs \<Longrightarrow> c \<noteq> CHR ''-'' \<and> c \<noteq> CHR ''+''"
proof -
  assume "show_nat n = c # cs"
  then obtain d where "d < 10" "c = digit_char d" using show_nat_digits [of c n] by auto
  moreover from this have "char_digit c \<noteq> None" by simp
  ultimately show ?thesis by (auto simp: char_digit_def)
qed

lemma ParseInt_show_int: "- (2 ^ 63) \<le> i \<Longrightarrow> i < 2 ^ 63 \<Longrightarrow> ParseInt (show_int i) = Some i"
proof (cases "i < 0")
  case True
  moreover assume "- (2 ^ 63) \<le> i"
  ultimately show ?thesis
    by (simp add: ParseInt_def show_int_def parse_digits_show_nat)
next
  case False
  assume "i < 2 ^ 63"
  obtain c cs where c: "show_nat (nat i) = c # cs" by (cases "show_nat (nat i)") auto
  with show_nat_no_sign [OF c] have "ParseInt (show_nat (nat i)) =
      (case parse_digits 0 (show_nat (nat i)) of None \<Rightarrow> None
       | Some n \<Rightarrow> if n < 2 ^ 63 then Some (int n) else None)"
    by (simp add: ParseInt_def c split: option.split)
  with False \<open>i < 2 ^ 63\<close> show ?thesis
    by (simp add: show_int_def parse_digits_show_nat)
qed

lemma string_subject_string: "(\<And>s. k = OtherSubject s \<Longrightarrow> s \<noteq> ''user'' \<and> s \<noteq> ''api'') \<Longrightarrow>
    string_subject (subject_string k) = k"
  by (cases k) (auto simp: subject_string_def string_subject_def)

section \<open>Round trip\<close>

lemma ParseUint_fmt_v_word:
  "ParseUint (fmt_v (Some (JNum (unat (w :: uint))))) = (if w < 10 ^ 6 then Some (unat w) else None)"
  by (simp add: ParseUint_fmt_v_JNum word_less_nat_alt)

lemma fmt_v_JStr [simp]: "fmt_v (Some (JStr s)) = s"
  by (simp add: fmt_v_def)

lemma GetTokenFromEncoded_claims_iff:
  assumes "parse jwt secret = Inr (claims_of t)" and "to_SubKind t \<in> {UserSubject, APISubject}"
    and "- (2 ^ 63) \<le> to_IAt t" "to_IAt t < 2 ^ 63"
  shows "GetTokenFromEncoded parse secret jwt =
    (if \<not> to_IBy t < 10 ^ 6 then Inl ''invalid iby claim''
     else if \<not> to_ProjectID t < 10 ^ 6 then Inl ''invalid project_id claim'' else Inr t)"
proof -
  have iby: "map_of (claims_of t) ''iby'' = Some (JNum (unat (to_IBy t)))"
    and proj: "map_of (claims_of t) ''project_id'' = Some (JNum (unat (to_ProjectID t)))"
    and iat: "map_of (claims_of t) ''iat'' = Some (JStr (show_int (to_IAt t)))"
    and kind: "map_of (claims_of t) ''sub_kind'' = Some (JStr (subject_string (to_SubKind t)))"
    and sub: "map_of (claims_of t) ''sub'' = Some (JStr (to_Sub t))"
    and tid: "map_of (claims_of t) ''token_id'' = Some (JStr (to_TokenID t))"
    and sec: "map_of (claims_of t) ''secret'' = Some (JStr (to_Secret t))"
    by (simp_all add: claims_of_def)
  have time: "ParseInt (fmt_v (Some (JStr (show_int (to_IAt t))))) = Some (to_IAt t)"
    using assms(3,4) by (simp add: fmt_v_def ParseInt_show_int)
  have subj: "string_subject (subject_string (to_SubKind t)) = to_SubKind t"
    using assms(2) by (intro string_subject_string) auto
  show ?thesis
    using assms(1) subj time
    by (cases "to_IBy t < 10 ^ 6"; cases "to_ProjectID t < 10 ^ 6")
       (simp_all add: GetTokenFromEncoded_def iby proj iat kind sub tid sec ParseUint_fmt_v_word string_claim_def)
qed

lemma GetTokenFromEncoded_claims:
  assumes "parse jwt secret = Inr (claims_of t)" and "to_SubKind t \<in> {UserSubject, APISubject}"
    and "- (2 ^ 63) \<le> to_IAt t" "to_IAt t < 2 ^ 63" and "to_IBy t < 10 ^ 6" "to_ProjectID t < 10 ^ 6"
  shows "GetTokenFromEncoded parse secret jwt = Inr t"
  using GetTokenFromEncoded_claims_iff [of parse jwt secret t, OF assms(1-4)] assms(5,6) by simp

text \<open>
  C38. Decoding an encoded token gives the token back exactly when both ids are below one
  million; from one million on the token is rejected, so a user or a project with such an id
  can not authenticate with a token.
\<close>

theorem token_round_trip:
  assumes "sign (claims_of t) secret = Inr jwt" and "parse jwt secret = Inr (claims_of t)"
    and "to_SubKind t \<in> {UserSubject, APISubject}"
    and "- (2 ^ 63) \<le> to_IAt t" "to_IAt t < 2 ^ 63"
  shows "EncodeToken sign secret t = Inr jwt \<and>
    (GetTokenFromEncoded parse secret jwt = Inr t \<longleftrightarrow> to_IBy t < 10 ^ 6 \<and> to_ProjectID t < 10 ^ 6) \<and>
    (\<not> (to_IBy t < 10 ^ 6 \<and> to_ProjectID t < 10 ^ 6) \<longrightarrow>
       (\<exists>e. GetTokenFromEncoded parse secret jwt = Inl e))"
  using assms(1) GetTokenFromEncoded_claims_iff [of parse jwt secret t, OF assms(2-5)] by (auto simp: EncodeToken_def)

definition sample_token :: "uint \<Rightarrow> token" where
  "sample_token iby =
     \<lparr>to_SubKind = APISubject, to_Sub = ''api'', to_ProjectID = 7, to_IBy = iby,
      to_IAt = 1660000000, to_TokenID = ''tid'', to_Secret = ''s3cret''\<rparr>"

theorem token_round_trip_witness:
  "GetTokenFromEncoded (\<lambda>_ _. Inr (claims_of (sample_token 42))) ''k'' ''jwt'' = Inr (sample_token 42) \<and>
   (\<exists>e. GetTokenFromEncoded (\<lambda>_ _. Inr (claims_of (sample_token 1000000))) ''k'' ''jwt'' = Inl e)"
proof -
  have "GetTokenFromEncoded (\<lambda>_ _. Inr (claims_of (sample_token 42))) ''k'' ''jwt'' = Inr (sample_token 42)"
    using token_round_trip [of "\<lambda>_ _. Inr ''jwt''" "sample_token 42" "''k''" "''jwt''"
        "\<lambda>_ _. Inr (claims_of (sample_token 42))"]
    by (simp add: sample_token_def)
  moreover have "\<exists>e. GetTokenFromEncoded (\<lambda>_ _. Inr (claims_of (sample_token 1000000))) ''k'' ''jwt'' = Inl e"
    using token_round_trip [of "\<lambda>_ _. Inr ''jwt''" "sample_token 1000000" "''k''" "''jwt''"
        "\<lambda>_ _. Inr (claims_of (sample_token 1000000))"]
    by (simp add: sample_token_def)
  ultimately show ?thesis by blast
qed

end
