(* ===== verification/Http.thy ===== *)
theory Http
  imports Scoped_Reads Token
begin

text \<open>
  Requests, the request context the middlewares fill in, what serving a request can come to, the
  server configuration, and \<open>api/server/shared/requestutils/url_param.go\<close>. A middleware is a
  function from requests to outcomes; \<open>Next\<close> is its call of the next handler with the cloned
  request, and a chain runs middlewares in the order in which \<open>chi\<close> registered them.
\<close>

section \<open>Requests and their context\<close>

text \<open>Helm releases and the session store's values, as far as the middlewares read them.\<close>

record helm_release =
  rel_Name :: string
  rel_Namespace :: string
  rel_Version :: int

record session =
  se_authenticated :: "bool option"
  se_user_id :: "uint option"
  se_redirect_uri :: "string option"

record request_ctx =
  ctx_api_token :: "api_token option"
  ctx_user :: "user option"
  ctx_req_scopes :: "req_scopes option"
  ctx_project :: "project option"
  ctx_cluster :: "cluster option"
  ctx_registry :: "registry option"
  ctx_helm_repo :: "helm_repo option"
  ctx_infra :: "infra option"
  ctx_operation :: "operation option"
  ctx_invite :: "invite option"
  ctx_git_installation :: "github_app_installation option"
  ctx_gitlab_integration :: "gitlab_integration option"
  ctx_namespace :: "string option"
  ctx_release :: "helm_release option"
  ctx_stack :: "stack option"
  ctx_websocket :: bool

definition empty_ctx :: request_ctx where
  "empty_ctx = \<lparr>ctx_api_token = None, ctx_user = None, ctx_req_scopes = None, ctx_project = None,
     ctx_cluster = None, ctx_registry = None, ctx_helm_repo = None, ctx_infra = None,
     ctx_operation = None, ctx_invite = None, ctx_git_installation = None,
     ctx_gitlab_integration = None, ctx_namespace = None, ctx_release = None, ctx_stack = None,
     ctx_websocket = False\<rparr>"

record request =
  rq_Authorization :: string
  rq_Cookie :: string
  rq_Path :: string
  rq_RawQuery :: string
  rq_params :: "string \<Rightarrow> string"
  rq_ctx :: request_ctx

text \<open>The middlewares never touch what came over the wire, only the context.\<close>

definition same_wire :: "request \<Rightarrow> request \<Rightarrow> bool" where
  "same_wire r r' \<longleftrightarrow>
     rq_Authorization r' = rq_Authorization r \<and> rq_Cookie r' = rq_Cookie r \<and>
     rq_Path r' = rq_Path r \<and> rq_RawQuery r' = rq_RawQuery r \<and> rq_params r' = rq_params r"

lemma same_wire_refl [simp]: "same_wire r r"
  by (simp add: same_wire_def)

lemma same_wire_trans: "same_wire a b \<Longrightarrow> same_wire b c \<Longrightarrow> same_wire a c"
  by (simp add: same_wire_def)

section \<open>Outcomes, effects and chains\<close>

text \<open>
  A middleware calls the next handler, writes a reply, only logs an error (the connection is
  gone), panics, or never returns. What it writes on the way, to the session cookie or to the
  database, is a list of effects.
\<close>

datatype reply = ApiError request_error | LoggedError request_error | HttpRedirect string nat

datatype outcome = Next request | Reply reply | Panic | Diverges

datatype effect =
    SaveSession session
  | UpdateGithubAppOauth github_app_oauth
  | CreateUsageCache project_usage_cache
  | UpdateUsageCache project_usage_cache

type_synonym middleware = "request \<Rightarrow> outcome \<times> effect list"

definition no_effect :: "(request \<Rightarrow> outcome) \<Rightarrow> middleware" where
  "no_effect m r = (m r, [])"

fun run_chain :: "middleware list \<Rightarrow> middleware" where
  "run_chain [] r = (Next r, [])"
| "run_chain (m # ms) r =
     (case m r of
        (Next r', w) \<Rightarrow> (case run_chain ms r' of (out, w') \<Rightarrow> (out, w @ w'))
      | (stop, w) \<Rightarrow> (stop, w))"

lemma fst_no_effect [simp]: "fst (no_effect m r) = m r"
  by (simp add: no_effect_def)

lemma fst_run_chain_Cons [simp]:
  "fst (run_chain (m # ms) r) =
     (case fst (m r) of Next r' \<Rightarrow> fst (run_chain ms r') | stop \<Rightarrow> stop)"
  by (simp split: prod.split outcome.split)

declare run_chain.simps(2) [simp del]

lemma fst_run_chain_append:
  "fst (run_chain (ms @ ns) r) =
     (case fst (run_chain ms r) of Next r' \<Rightarrow> fst (run_chain ns r') | stop \<Rightarrow> stop)"
  by (induction ms arbitrary: r) (simp_all split: outcome.split)

text \<open>
  The panic middleware in front of every chain (\<open>router/middleware/panic.go\<close>): a panic becomes
  an internal error.
\<close>

definition PanicMiddleware :: "middleware \<Rightarrow> middleware" where
  "PanicMiddleware next r =
     (case next r of
        (Panic, w) \<Rightarrow> (Reply (ApiError (ErrInternal ''panic'')), w)
      | done \<Rightarrow> done)"

section \<open>The server configuration\<close>

text \<open>
  What the middlewares call outside the repository: the JWT library, the cookie session store,
  the JSON decoder of stored policies, Helm and Kubernetes, the GitHub API (whose answers may
  differ from call to call, so they are indexed by the call), and the websocket upgrader.
\<close>

type_synonym oauth_token = "bytes \<times> bytes \<times> int option"

record github_api =
  gh_app_conf :: bool
  gh_token_source :: "oauth_token \<Rightarrow> (go_error, oauth_token) go_result"
  gh_current_user :: "github_app_oauth \<Rightarrow> (go_error, int) go_result"
  gh_list_orgs :: "github_app_oauth \<Rightarrow> nat \<Rightarrow> nat \<Rightarrow> (go_error, int list \<times> nat) go_result"

record server_env =
  ev_repo :: repo
  ev_now :: int
  ev_jwt_parse :: "string \<Rightarrow> string \<Rightarrow> (string, claims) go_result"
  ev_token_secret :: string
  ev_store_get :: "string \<Rightarrow> session \<times> go_error option"
  ev_json_policy :: "bytes \<Rightarrow> (go_error, policy) go_result"
  ev_helm_agent :: "cluster \<Rightarrow> string \<Rightarrow> go_error option"
  ev_get_release :: "cluster \<Rightarrow> string \<Rightarrow> string \<Rightarrow> int \<Rightarrow> (go_error, helm_release) go_result"
  ev_github :: github_api
  ev_save_oauth :: "github_app_oauth \<Rightarrow> go_error option"
  ev_ws_check_origin :: "request \<Rightarrow> bool"
  ev_ws_upgrade :: "request \<Rightarrow> go_error option"
  ev_usage_tracking :: bool
  ev_whitelisted :: "uint \<Rightarrow> bool"
  ev_nodes :: "cluster \<Rightarrow> (go_error, (uint \<times> uint) list) go_result"
  ev_save_usage_cache :: "project_usage_cache \<Rightarrow> go_error option"

fun go_error_text :: "go_error \<Rightarrow> string" where
  "go_error_text ErrRecordNotFound = ''record not found''"
| "go_error_text (GoError e) = e"

definition api_error :: "request_error \<Rightarrow> outcome" where
  "api_error e = Reply (ApiError e)"

text \<open>The two lines every project-scoped middleware ends a failed read with.\<close>

definition read_failed :: "string \<Rightarrow> go_error \<Rightarrow> outcome" where
  "read_failed msg e =
     (if e = ErrRecordNotFound then api_error (ErrForbidden msg)
      else api_error (ErrInternal (go_error_text e)))"

lemma api_error_not_Next [simp]: "api_error e \<noteq> Next r" "Next r \<noteq> api_error e"
  "api_error e \<noteq> Panic" "api_error e \<noteq> Diverges"
  by (simp_all add: api_error_def)

lemma read_failed_not_Next [simp]: "read_failed msg e \<noteq> Next r" "Next r \<noteq> read_failed msg e"
  "read_failed msg e \<noteq> Panic" "read_failed msg e \<noteq> Diverges"
  by (simp_all add: read_failed_def)

section \<open>URL parameters (\<open>requestutils/url_param.go\<close>)\<close>

text \<open>\<open>chi.URLParam\<close> gives the empty string for a parameter the route does not have.\<close>

definition GetURLParamString :: "request \<Rightarrow> string \<Rightarrow> (request_error, string) go_result" where
  "GetURLParamString r param =
     (let urlParam = rq_params r param
      in if urlParam = [] then Inl (ErrInternal (''could not find url param '' @ param))
         else Inr urlParam)"

definition GetURLParamUint :: "request \<Rightarrow> string \<Rightarrow> (request_error, uint) go_result" where
  "GetURLParamUint r param =
     (case GetURLParamString r param of
        Inl e \<Rightarrow> Inl e
      | Inr urlParam \<Rightarrow>
          case ParseUint urlParam of
            None \<Rightarrow> Inl (ErrPassThroughToClient
              (''could not convert url parameter '' @ param @ '' to uint, got '' @ urlParam) 400 [])
          | Some n \<Rightarrow> Inr (word_of_nat n))"

text \<open>
  Parsing a numeric URL parameter is exact: it yields an id only for the decimal text of that
  very id (no sign, no overflow), and every id can be written.
\<close>

theorem GetURLParamUint_exact:
  "(GetURLParamUint r param = Inr w \<longleftrightarrow> ParseUint (rq_params r param) = Some (unat w)) \<and>
   GetURLParamUint (r\<lparr>rq_params := (rq_params r)(param := show_nat (unat w))\<rparr>) param = Inr w"
proof
  have "word_of_nat n = w \<longleftrightarrow> n = unat w" if "ParseUint (rq_params r param) = Some n" for n
    using ParseUint_bound [OF that] by (auto simp: unat_of_nat take_bit_nat_eq_self)
  then show "GetURLParamUint r param = Inr w \<longleftrightarrow> ParseUint (rq_params r param) = Some (unat w)"
    by (auto simp: GetURLParamUint_def GetURLParamString_def Let_def split: option.splits)
  have "unat w < 2 ^ 64" using unsigned_less [of w, where ?'a = nat] by simp
  then show "GetURLParamUint (r\<lparr>rq_params := (rq_params r)(param := show_nat (unat w))\<rparr>) param = Inr w"
    by (simp add: GetURLParamUint_def GetURLParamString_def)
qed

end
