(* ===== verification/Sample_Server.thy ===== *)
theory Sample_Server
  imports Http
begin

text \<open>
  A concrete server on which the properties' hypotheses are checked: a database of list tables
  with one user who administers project 1, a stored API token of that project, and one resource
  of each kind in project 1 beside resources of project 9; a session store with one session; and
  a JWT library that knows two tokens.
\<close>

definition sample_user :: user where
  "sample_user = \<lparr>us_ID = 5, us_Email = ''a@b.co'', us_EmailVerified = True, us_GithubAppIntegrationID = 3\<rparr>"

definition sample_role :: role where
  "sample_role = \<lparr>ro_ID = 1, ro_Kind = RoleAdmin, ro_UserID = 5, ro_ProjectID = 1\<rparr>"

definition sample_project :: "uint \<Rightarrow> project" where
  "sample_project i = \<lparr>pr_ID = i, pr_Name = ''p'',
     pr_Roles = (if i = 1 then [sample_role] else []), pr_APITokensEnabled = True\<rparr>"

definition no_cache :: token_cache where
  "no_cache = \<lparr>tc_ID = 0, tc_Token = []\<rparr>"

definition sample_cluster :: "uint \<Rightarrow> uint \<Rightarrow> cluster" where
  "sample_cluster p i = \<lparr>cl_ID = i, cl_ProjectID = p, cl_Name = ''c'',
     cl_CertificateAuthorityData = [], cl_TokenCacheID = 0, cl_TokenCache = no_cache\<rparr>"

definition sample_api_token :: api_token where
  "sample_api_token = \<lparr>at_UniqueID = ''t1'', at_ProjectID = 1, at_CreatedByUserID = 5,
     at_Expiry = Some 2000, at_Revoked = False, at_PolicyUID = ''developer'', at_PolicyName = ''developer'', at_Name = ''ci'', at_SecretKey = ''hash''\<rparr>"

definition sample_repo :: repo where
  "sample_repo =
     \<lparr>q_users = table_first [sample_user],
      q_projects = table_first [sample_project 1, sample_project 9],
      q_roles = table_first [sample_role],
      q_clusters = table_first [sample_cluster 9 4, sample_cluster 1 2],
      find_clusters = table_find [sample_cluster 9 4, sample_cluster 1 2],
      q_cluster_token_caches = table_first [],
      q_registries = table_first [\<lparr>rg_ID = 6, rg_ProjectID = 1, rg_TokenCache = no_cache\<rparr>],
      q_helm_repos = table_first [\<lparr>hr_ID = 7, hr_ProjectID = 1, hr_TokenCache = no_cache\<rparr>],
      q_infras = table_first [\<lparr>in_ID = 8, in_ProjectID = 1, in_LastApplied = []\<rparr>],
      q_operations = table_first [\<lparr>op_UID = ''op'', op_InfraID = 8, op_LastApplied = []\<rparr>],
      q_invites = table_first [],
      q_stacks = table_first [\<lparr>st_ID = 1, st_UID = ''st'', st_ProjectID = 1\<rparr>],
      q_gitlab_integrations = table_first [],
      q_github_app_installations = table_first [\<lparr>ga_AccountID = 11, ga_InstallationID = 12\<rparr>],
      find_github_app_installations = table_find [\<lparr>ga_AccountID = 11, ga_InstallationID = 12\<rparr>],
      q_github_app_oauths =
        table_first [\<lparr>go_ID = 3, go_AccessToken = ''a'', go_RefreshToken = ''r'', go_Expiry = None\<rparr>],
      q_policies = table_first [],
      q_api_tokens = table_first [sample_api_token],
      q_usage_caches = table_first [],
      aes_decrypt = Inr,
      gitlab_storage = None\<rparr>"

definition sample_claims :: "string \<Rightarrow> claims" where
  "sample_claims tid =
     [(''sub_kind'', JStr ''api''), (''sub'', JStr ''api''), (''iby'', JNum 5), (''iat'', JStr ''1''),
      (''project_id'', JNum 1), (''token_id'', JStr tid), (''secret'', JStr ''s'')]"

definition sample_env :: server_env where
  "sample_env =
     \<lparr>ev_repo = sample_repo, ev_now = 1000,
      ev_jwt_parse = (\<lambda>s _. if s = ''good'' then Inr (sample_claims ''t1'') else Inl ''bad token''),
      ev_token_secret = ''k'',
      ev_store_get = (\<lambda>c. if c = ''cookie''
         then (\<lparr>se_authenticated = Some True, se_user_id = Some 5, se_redirect_uri = None\<rparr>, None)
         else (\<lparr>se_authenticated = None, se_user_id = None, se_redirect_uri = None\<rparr>, None)),
      ev_json_policy = (\<lambda>_. Inl (GoError ''json'')),
      ev_helm_agent = (\<lambda>c ns. None),
      ev_get_release = (\<lambda>c ns n v. Inr \<lparr>rel_Name = n, rel_Namespace = ns, rel_Version = v\<rparr>),
      ev_github = \<lparr>gh_app_conf = True, gh_token_source = Inr, gh_current_user = (\<lambda>_. Inr 11),
                   gh_list_orgs = (\<lambda>_ _ _. Inr ([], 0))\<rparr>,
      ev_save_oauth = (\<lambda>_. None), ev_ws_check_origin = (\<lambda>_. True), ev_ws_upgrade = (\<lambda>_. None), ev_usage_tracking = True,
      ev_whitelisted = (\<lambda>_. False), ev_nodes = (\<lambda>_. Inr []), ev_save_usage_cache = (\<lambda>_. None)\<rparr>"

definition sample_request :: "string \<Rightarrow> string \<Rightarrow> request" where
  "sample_request auth cookie =
     \<lparr>rq_Authorization = auth, rq_Cookie = cookie, rq_Path = ''/api'', rq_RawQuery = [],
      rq_params = (\<lambda>p. if p = ''project_id'' then ''1'' else if p = ''cluster_id'' then ''2''
                       else if p = ''namespace'' then ''default'' else if p = ''name'' then ''web'' else []),
      rq_ctx = empty_ctx\<rparr>"

text \<open>An endpoint of a cluster: \<open>GET /projects/{project_id}/clusters/{cluster_id}\<close>.\<close>

definition sample_meta :: api_request_metadata where
  "sample_meta = \<lparr>md_Verb = APIVerbGet, md_Method = HTTPVerbGet,
     md_RelativePath = [Lit ''clusters'', Par URLParamClusterID],
     md_Scopes = [UserScope, ProjectScope, ClusterScope], md_ShouldRedirect = False,
     md_Quiet = False, md_IsWebsocket = False, md_CheckUsage = False, md_UsageMetric = OtherMetric []\<rparr>"

lemma sample_params:
  "rq_params (sample_request a c) ''project_id'' = ''1''"
  "rq_params (sample_request a c) ''cluster_id'' = ''2''"
  by (simp_all add: sample_request_def)

lemma sample_repo_lawful [simp]: "lawful_repo (ev_repo sample_env)"
  by (simp add: sample_env_def sample_repo_def lawful_repo_def)

lemma sample_request_ctx [simp]: "rq_ctx (sample_request a c) = empty_ctx"
  by (simp add: sample_request_def)

lemma sample_token_fields [simp]:
  "at_ProjectID sample_api_token = 1" "at_Revoked sample_api_token = False"
  "at_Expiry sample_api_token = Some 2000" "at_PolicyUID sample_api_token = ''developer''"
  "ev_now sample_env = 1000"
  by (simp_all add: sample_api_token_def sample_env_def)

lemma sample_token_read [simp]:
  "ReadAPIToken (ev_repo sample_env) 1 ''t1'' = Inr sample_api_token"
  by (simp add: ReadAPIToken_def sample_env_def sample_repo_def table_first_def)
     (simp add: sample_api_token_def)

lemma sample_role_read:
  "ReadProjectRole (ev_repo sample_env) 1 5 = Inr sample_role"
  "ReadProjectRole (ev_repo sample_env) 9 5 = Inl ErrRecordNotFound"
  by (simp_all add: ReadProjectRole_def sample_env_def sample_repo_def table_first_def sample_role_def)

lemma sample_user_read [simp]: "ReadUser (ev_repo sample_env) 5 = Inr sample_user"
  by (simp add: ReadUser_def sample_env_def sample_repo_def table_first_def sample_user_def)

lemma sample_user_ID [simp]: "us_ID sample_user = 5"
  by (simp add: sample_user_def)

lemmas sample_defs =
  sample_env_def sample_repo_def sample_user_def sample_role_def sample_project_def no_cache_def
  sample_cluster_def sample_api_token_def sample_claims_def sample_request_def

end
