(* ===== verification/Authn.thy ===== *)
theory Authn
  imports Sample_Server
begin

text \<open>
  \<open>api/server/authn/handler.go\<close>: the authentication middleware. A bearer token is looked at
  first; only when the header holds none does the session cookie count. The theory proves what a
  request that passes carries (a live stored token of its project, or an existing user), that
  nothing else passes, and when the middleware panics.
\<close>

section \<open>The code\<close>

datatype auth_error = errInvalidToken | errInvalidAuthHeader

fun auth_error_text :: "auth_error \<Rightarrow> string" where
  "auth_error_text errInvalidToken = ''authorization header exists, but token is not valid''"
| "auth_error_text errInvalidAuthHeader = ''invalid authorization header in request''"

definition getTokenFromRequest :: "server_env \<Rightarrow> request \<Rightarrow> (auth_error, token) go_result" where
  "getTokenFromRequest env r =
     (let splitToken = Split (rq_Authorization r) ''Bearer''
      in if length splitToken \<noteq> 2 then Inl errInvalidAuthHeader
         else case GetTokenFromEncoded (ev_jwt_parse env) (ev_token_secret env)
                     (TrimSpace (splitToken ! 1)) of
                Inl e \<Rightarrow> Inl errInvalidToken
              | Inr tok \<Rightarrow> Inr tok)"

definition sendForbiddenError :: "string \<Rightarrow> outcome" where
  "sendForbiddenError e = api_error (ErrForbidden e)"

text \<open>\<open>APIToken.IsExpired\<close> dereferences the expiry: \<open>None\<close> is the panic on a nil one.\<close>

definition IsExpired :: "int \<Rightarrow> api_token \<Rightarrow> bool option" where
  "IsExpired now t = map_option (\<lambda>expiry. expiry - now < 0) (at_Expiry t)"

definition service_account :: "api_token \<Rightarrow> user" where
  "service_account tok =
     \<lparr>us_ID = 0, us_Email = at_Name tok @ ''-'' @ show_nat (unat (at_ProjectID tok)),
      us_EmailVerified = True, us_GithubAppIntegrationID = 0\<rparr>"

definition nextWithAPIToken :: "request \<Rightarrow> api_token \<Rightarrow> outcome" where
  "nextWithAPIToken r tok =
     Next (r\<lparr>rq_ctx := (rq_ctx r)\<lparr>ctx_api_token := Some tok,
                                 ctx_user := Some (service_account tok)\<rparr>\<rparr>)"

definition nextWithUserID :: "server_env \<Rightarrow> request \<Rightarrow> uint \<Rightarrow> outcome" where
  "nextWithUserID env r userID =
     (case ReadUser (ev_repo env) userID of
        Inl e \<Rightarrow> sendForbiddenError
                   (''user with id '' @ show_nat (unat userID) @ '' not found in database'')
      | Inr user \<Rightarrow> Next (r\<lparr>rq_ctx := (rq_ctx r)\<lparr>ctx_user := Some user\<rparr>\<rparr>))"

definition verifyTokenWithNext :: "server_env \<Rightarrow> request \<Rightarrow> token \<Rightarrow> outcome" where
  "verifyTokenWithNext env r tok =
     (if to_Secret tok \<noteq> [] \<and> to_TokenID tok \<noteq> []
      then case ReadAPIToken (ev_repo env) (to_ProjectID tok) (to_TokenID tok) of
             Inl e \<Rightarrow> sendForbiddenError (''token with id '' @ to_TokenID tok @ '' not valid'')
           | Inr apiToken \<Rightarrow>
               (if at_Revoked apiToken
                then sendForbiddenError (''token with id '' @ to_TokenID tok @ '' not valid'')
                else case IsExpired (ev_now env) apiToken of
                       None \<Rightarrow> Panic
                     | Some True \<Rightarrow>
                         sendForbiddenError (''token with id '' @ to_TokenID tok @ '' not valid'')
                     | Some False \<Rightarrow> nextWithAPIToken r apiToken)
      else nextWithUserID env r (to_IBy tok))"

definition handleForbiddenForSession ::
  "bool \<Rightarrow> request \<Rightarrow> string \<Rightarrow> session \<Rightarrow> outcome \<times> effect list" where
  "handleForbiddenForSession redirect r err session =
     (if redirect
      then (Reply (HttpRedirect ''/dashboard'' 302),
            [SaveSession (session\<lparr>se_redirect_uri := Some
               (if rq_RawQuery r = [] then rq_Path r else rq_Path r @ ''?'' @ rq_RawQuery r)\<rparr>)])
      else (sendForbiddenError err, []))"

definition AuthN :: "bool \<Rightarrow> server_env \<Rightarrow> middleware" where
  "AuthN redirect env r =
     (case getTokenFromRequest env r of
        Inl errInvalidToken \<Rightarrow> (sendForbiddenError (auth_error_text errInvalidToken), [])
      | Inr tok \<Rightarrow> (verifyTokenWithNext env r tok, [])
      | Inl errInvalidAuthHeader \<Rightarrow>
          (case ev_store_get env (rq_Cookie r) of
             (session, Some err) \<Rightarrow>
               (sendForbiddenError (go_error_text err),
                [SaveSession (session\<lparr>se_authenticated := Some False\<rparr>)])
           | (session, None) \<Rightarrow>
               if se_authenticated session \<noteq> Some True
               then handleForbiddenForSession redirect r ''stored cookie was not authenticated'' session
               else case se_user_id session of
                      None \<Rightarrow>
                        handleForbiddenForSession redirect r ''could not cast user_id to uint'' session
                    | Some userID \<Rightarrow> (nextWithUserID env r userID, [])))"

section \<open>What a request that passes carries\<close>

text \<open>
  The three ways in: a stored token that is live, a token issued by an existing user, or an
  authenticated session of an existing user.
\<close>

definition live_token :: "server_env \<Rightarrow> token \<Rightarrow> api_token \<Rightarrow> bool" where
  "live_token env tok t \<longleftrightarrow>
     to_Secret tok \<noteq> [] \<and> to_TokenID tok \<noteq> [] \<and>
     ReadAPIToken (ev_repo env) (to_ProjectID tok) (to_TokenID tok) = Inr t \<and>
     \<not> at_Revoked t \<and> (case at_Expiry t of None \<Rightarrow> False | Some e \<Rightarrow> ev_now env \<le> e)"

definition user_token :: "token \<Rightarrow> bool" where
  "user_token tok \<longleftrightarrow> to_Secret tok = [] \<or> to_TokenID tok = []"

definition session_user :: "server_env \<Rightarrow> request \<Rightarrow> uint option" where
  "session_user env r =
     (case ev_store_get env (rq_Cookie r) of
        (session, None) \<Rightarrow> if se_authenticated session = Some True then se_user_id session else None
      | (session, Some e) \<Rightarrow> None)"

definition claimed_user :: "server_env \<Rightarrow> request \<Rightarrow> uint option" where
  "claimed_user env r =
     (case getTokenFromRequest env r of
        Inr tok \<Rightarrow> if user_token tok then Some (to_IBy tok) else None
      | Inl errInvalidToken \<Rightarrow> None
      | Inl errInvalidAuthHeader \<Rightarrow> session_user env r)"

definition stored_token :: "server_env \<Rightarrow> request \<Rightarrow> api_token option" where
  "stored_token env r =
     (case getTokenFromRequest env r of
        Inl e \<Rightarrow> None
      | Inr tok \<Rightarrow>
          if user_token tok then None
          else case ReadAPIToken (ev_repo env) (to_ProjectID tok) (to_TokenID tok) of
                 Inl e \<Rightarrow> None
               | Inr t \<Rightarrow> Some t)"

lemma sendForbiddenError_not_Next [simp]:
  "sendForbiddenError e \<noteq> Next r" "sendForbiddenError e \<noteq> Panic" "sendForbiddenError e \<noteq> Diverges"
  by (simp_all add: sendForbiddenError_def)

lemma handleForbiddenForSession_stops [simp]:
  "fst (handleForbiddenForSession redirect r e s) \<noteq> Next r'"
  "fst (handleForbiddenForSession redirect r e s) \<noteq> Panic"
  "fst (handleForbiddenForSession redirect r e s) \<noteq> Diverges"
  by (simp_all add: handleForbiddenForSession_def)

lemma nextWithUserID_Next:
  "nextWithUserID env r i = Next r' \<longleftrightarrow>
     (\<exists>u. ReadUser (ev_repo env) i = Inr u \<and> r' = r\<lparr>rq_ctx := (rq_ctx r)\<lparr>ctx_user := Some u\<rparr>\<rparr>)"
  by (auto simp: nextWithUserID_def split: sum.splits)

lemma nextWithUserID_total [simp]: "nextWithUserID env r i \<noteq> Panic" "nextWithUserID env r i \<noteq> Diverges"
  by (simp_all add: nextWithUserID_def split: sum.splits)

definition with_token :: "request \<Rightarrow> api_token \<Rightarrow> request" where
  "with_token r t = r\<lparr>rq_ctx := (rq_ctx r)\<lparr>ctx_api_token := Some t, ctx_user := Some (service_account t)\<rparr>\<rparr>"

lemma verifyTokenWithNext_Next:
  "verifyTokenWithNext env r tok = Next r' \<longleftrightarrow>
     (\<exists>t. live_token env tok t \<and> r' = with_token r t) \<or>
     (user_token tok \<and> nextWithUserID env r (to_IBy tok) = Next r')"
  by (auto simp: verifyTokenWithNext_def live_token_def user_token_def IsExpired_def
        nextWithAPIToken_def with_token_def split: sum.splits option.splits bool.splits)

lemma verifyTokenWithNext_Panic:
  "verifyTokenWithNext env r tok = Panic \<longleftrightarrow>
     \<not> user_token tok \<and>
     (\<exists>t. ReadAPIToken (ev_repo env) (to_ProjectID tok) (to_TokenID tok) = Inr t \<and>
          \<not> at_Revoked t \<and> at_Expiry t = None)"
  by (auto simp: verifyTokenWithNext_def user_token_def IsExpired_def nextWithAPIToken_def
        split: sum.splits option.splits bool.splits)

lemma verifyTokenWithNext_returns [simp]: "verifyTokenWithNext env r tok \<noteq> Diverges"
  by (auto simp: verifyTokenWithNext_def nextWithAPIToken_def split: sum.splits option.splits bool.splits)

lemma AuthN_Next:
  "fst (AuthN redirect env r) = Next r' \<longleftrightarrow>
     (\<exists>tok t. getTokenFromRequest env r = Inr tok \<and> live_token env tok t \<and> r' = with_token r t) \<or>
     (\<exists>i. claimed_user env r = Some i \<and> nextWithUserID env r i = Next r')"
  by (auto simp: AuthN_def claimed_user_def session_user_def verifyTokenWithNext_Next
        split: sum.splits auth_error.splits prod.splits option.splits if_splits)


lemma with_token_wire [simp]: "same_wire r (with_token r t)"
  by (simp add: same_wire_def with_token_def)

lemma AuthN_same_wire: "fst (AuthN redirect env r) = Next r' \<Longrightarrow> same_wire r r'"
  by (auto simp: AuthN_Next nextWithUserID_Next same_wire_def with_token_def)

lemma AuthN_Panic:
  "fst (AuthN redirect env r) = Panic \<longleftrightarrow>
     (\<exists>t. stored_token env r = Some t \<and> \<not> at_Revoked t \<and> at_Expiry t = None)"
  by (auto simp: AuthN_def stored_token_def verifyTokenWithNext_Panic
        split: sum.splits auth_error.splits prod.splits option.splits if_splits)

lemma AuthN_returns [simp]: "fst (AuthN redirect env r) \<noteq> Diverges"
  by (auto simp: AuthN_def split: sum.splits auth_error.splits prod.splits option.splits if_splits)

text \<open>
  The context of an authenticated request: either a stored API token of the very project and id
  the JWT names, unrevoked and unexpired, with the token's service account as the user, or no
  token and an existing user with the id the JWT or the authenticated session names.
\<close>

definition authenticated :: "server_env \<Rightarrow> request \<Rightarrow> request_ctx \<Rightarrow> bool" where
  "authenticated env r ctx \<longleftrightarrow>
     (\<exists>tok t. getTokenFromRequest env r = Inr tok \<and> live_token env tok t \<and>
        at_ProjectID t = to_ProjectID tok \<and> at_UniqueID t = to_TokenID tok \<and>
        ctx_api_token ctx = Some t \<and> ctx_user ctx = Some (service_account t)) \<or>
     (\<exists>u. claimed_user env r = Some (us_ID u) \<and> ReadUser (ev_repo env) (us_ID u) = Inr u \<and>
        ctx_api_token ctx = None \<and> ctx_user ctx = Some u)"

lemma AuthN_authenticated:
  assumes "lawful_repo (ev_repo env)" and "ctx_api_token (rq_ctx r) = None"
    and "fst (AuthN redirect env r) = Next r'"
  shows "authenticated env r (rq_ctx r')"
proof -
  consider (token) tok t where "getTokenFromRequest env r = Inr tok" "live_token env tok t"
      "r' = with_token r t"
    | (user) i u where "claimed_user env r = Some i" "ReadUser (ev_repo env) i = Inr u"
      "r' = r\<lparr>rq_ctx := (rq_ctx r)\<lparr>ctx_user := Some u\<rparr>\<rparr>"
    using assms(3) by (auto simp: AuthN_Next nextWithUserID_Next)
  then show ?thesis
  proof cases
    case token
    then have "at_ProjectID t = to_ProjectID tok \<and> at_UniqueID t = to_TokenID tok"
      using api_token_read.read_owner [OF assms(1)] api_token_read.read_ident [OF assms(1)]
      by (auto simp: live_token_def)
    with token show ?thesis by (auto simp: with_token_def authenticated_def)
  next
    case user
    then have "us_ID u = i" using ReadUser_ID assms(1) by blast
    with user assms(2) show ?thesis by (auto simp: authenticated_def)
  qed
qed

text \<open>
  C13. A request that passes authentication carries either a stored API token of the very
  project and id its JWT names, unrevoked and unexpired, with the token's service account as the
  user, or no token and an existing user with the id the JWT or the authenticated session names;
  and nothing that came over the wire is changed.
\<close>

theorem AuthN_sound:
  assumes "lawful_repo (ev_repo env)" and "ctx_api_token (rq_ctx r) = None"
    and "fst (AuthN redirect env r) = Next r'"
  shows "same_wire r r' \<and>
        ((\<exists>tok t. getTokenFromRequest env r = Inr tok \<and> live_token env tok t \<and>
            at_ProjectID t = to_ProjectID tok \<and> at_UniqueID t = to_TokenID tok \<and>
            ctx_api_token (rq_ctx r') = Some t \<and> ctx_user (rq_ctx r') = Some (service_account t)) \<or>
         (\<exists>u. claimed_user env r = Some (us_ID u) \<and> ReadUser (ev_repo env) (us_ID u) = Inr u \<and>
            ctx_api_token (rq_ctx r') = None \<and> ctx_user (rq_ctx r') = Some u))"
  using AuthN_authenticated [OF assms] AuthN_same_wire [OF assms(3)] unfolding authenticated_def by blast

lemma sample_bearer:
  "getTokenFromRequest sample_env (sample_request ''Bearer good'' c) =
     Inr \<lparr>to_SubKind = APISubject, to_Sub = ''api'', to_ProjectID = 1, to_IBy = 5, to_IAt = 1,
          to_TokenID = ''t1'', to_Secret = ''s''\<rparr>"
  by (simp add: getTokenFromRequest_def sample_defs Split_def TrimSpace_def is_space_def
      GetTokenFromEncoded_def fmt_v_def ParseUint_def ParseInt_def show_nat.simps digit_char_def
      char_digit_def string_subject_def string_claim_def Let_def)

lemma sample_authenticated:
  "fst (AuthN redirect sample_env (sample_request ''Bearer good'' c)) =
     Next (with_token (sample_request ''Bearer good'' c) sample_api_token)"
  by (simp add: AuthN_def sample_bearer verifyTokenWithNext_def IsExpired_def
      nextWithAPIToken_def with_token_def)

theorem AuthN_sound_witness:
  "\<exists>r'. fst (AuthN False sample_env (sample_request ''Bearer good'' [])) = Next r' \<and>
        ctx_api_token (rq_ctx r') = Some sample_api_token"
proof -
  let ?r = "sample_request ''Bearer good'' []"
  have passes: "fst (AuthN False sample_env ?r) = Next (with_token ?r sample_api_token)"
    by (rule sample_authenticated)
  have "ctx_api_token (rq_ctx ?r) = None" by (simp add: empty_ctx_def)
  from AuthN_sound [OF sample_repo_lawful this passes] passes show ?thesis
    by (auto simp: with_token_def)
qed

text \<open>
  What a middleware that refuses may do: answer 403; or, on a route that redirects and without a
  bearer token, redirect to the dashboard after saving the requested address in the session. A
  call that does not refuse has no effect.
\<close>

definition requested_uri :: "request \<Rightarrow> string" where
  "requested_uri r = (if rq_RawQuery r = [] then rq_Path r else rq_Path r @ ''?'' @ rq_RawQuery r)"

definition proper_refusal :: "bool \<Rightarrow> server_env \<Rightarrow> request \<Rightarrow> outcome \<times> effect list \<Rightarrow> bool" where
  "proper_refusal redirect env r done =
     (case done of
        (Reply (ApiError (ErrForbidden e)), w) \<Rightarrow> True
      | (Reply (HttpRedirect uri code), w) \<Rightarrow>
          redirect \<and> uri = ''/dashboard'' \<and> code = 302 \<and>
          getTokenFromRequest env r = Inl errInvalidAuthHeader \<and>
          (case w of [SaveSession s] \<Rightarrow> se_redirect_uri s = Some (requested_uri r) | _ \<Rightarrow> False)
      | (Reply rep, w) \<Rightarrow> False
      | (out, w) \<Rightarrow> w = [])"

lemma refusal_forbidden [simp]: "proper_refusal redirect env r (sendForbiddenError e, w)"
  by (simp add: proper_refusal_def sendForbiddenError_def api_error_def)

lemma refusal_Next [simp]: "proper_refusal redirect env r (Next r', [])"
  and refusal_Panic [simp]: "proper_refusal redirect env r (Panic, [])"
  by (simp_all add: proper_refusal_def)

lemma refusal_user [simp]: "proper_refusal redirect env r (nextWithUserID env r i, [])"
  by (simp add: nextWithUserID_def split: sum.split)

lemma refusal_token [simp]: "proper_refusal redirect env r (verifyTokenWithNext env r tok, [])"
  by (simp add: verifyTokenWithNext_def nextWithAPIToken_def split: sum.split option.split bool.split)

lemma refusal_session:
  "getTokenFromRequest env r = Inl errInvalidAuthHeader \<Longrightarrow>
     proper_refusal redirect env r (handleForbiddenForSession redirect r e s)"
  by (simp add: handleForbiddenForSession_def)
     (simp add: proper_refusal_def requested_uri_def)

text \<open>
  What a request that does not pass gets: 403, or, when the route redirects and there is no
  bearer token, a redirect to the dashboard that saves the requested address in the session. The
  middleware panics exactly on a stored, unrevoked token without an expiry, and always returns.
\<close>

theorem AuthN_rejects:
  "proper_refusal redirect env r (AuthN redirect env r) \<and>
   fst (AuthN redirect env r) \<noteq> Diverges \<and>
   (fst (AuthN redirect env r) = Panic \<longleftrightarrow>
      (\<exists>t. stored_token env r = Some t \<and> \<not> at_Revoked t \<and> at_Expiry t = None))"
proof (intro conjI)
  show "fst (AuthN redirect env r) = Panic \<longleftrightarrow>
      (\<exists>t. stored_token env r = Some t \<and> \<not> at_Revoked t \<and> at_Expiry t = None)"
    by (rule AuthN_Panic)
  show "proper_refusal redirect env r (AuthN redirect env r)"
    using refusal_session by (auto simp: AuthN_def split: sum.split auth_error.split prod.split option.split)
qed simp

end
