(* ===== verification/Policy_Check.thy ===== *)
theory Policy_Check
  imports Api_Types "HOL-Library.Multiset"
begin

text \<open>
  \<open>api/server/authz/policy/policy.go\<close>: the walk that decides whether a policy permits a
  request. The walk fills in missing documents, checks that a document fits the scope hierarchy
  and collects the documents of the requested scopes in a Go map, which \<open>HasScopeAccess\<close>
  then checks. The map is threaded explicitly; Go's unspecified iteration order over a map is the
  order of the list that stands for it. A nil pointer dereference is the value \<open>None\<close>.

  The second half states what the walk means without the map (\<open>doc_permits\<close>), proves the
  two equal for every iteration order, and reads off the rights of the three preset policies.
\<close>

section \<open>The code\<close>

definition isResourceAllowed :: "policy_document \<Rightarrow> name_or_uint \<Rightarrow> bool" where
  "isResourceAllowed matchDoc resource =
     list_ex (\<lambda>allowed. allowed = resource) (Resources matchDoc)"

definition isVerbAllowed :: "policy_document \<Rightarrow> api_verb \<Rightarrow> bool" where
  "isVerbAllowed matchDoc verb = list_ex (\<lambda>allowed. allowed = verb) (Verbs matchDoc)"

type_synonym match_docs = "(permission_scope \<times> policy_document) list"

lemma size_scope_tree_lookup [termination_simp]:
  "map_of (subtrees t) k = Some t' \<Longrightarrow> size t' < size t"
proof (cases t)
  case (ScopeTree kids)
  moreover assume "map_of (subtrees t) k = Some t'"
  ultimately have "(k, t') \<in> set kids" by (auto dest: map_of_SomeD)
  then have "size t' < Suc (size_list (\<lambda>p. size_prod (\<lambda>_. 0) size p) kids)"
    by (induction kids) auto
  then show ?thesis using ScopeTree by simp
qed

text \<open>
  \<open>populateAndVerifyPolicyDocument\<close> and its loop over the keys of the subtree. The loop
  returns \<open>ok\<close>, the map and the number of children it processed; it stops at the first
  child that is not \<open>ok\<close>.
\<close>

function populateAndVerifyPolicyDocument ::
    "policy_document option \<Rightarrow> scope_tree \<Rightarrow> permission_scope \<Rightarrow> api_verb list \<Rightarrow> req_scopes \<Rightarrow>
       match_docs \<Rightarrow> bool \<times> match_docs"
  and populateChildren ::
    "policy_document \<Rightarrow> scope_tree \<Rightarrow> permission_scope list \<Rightarrow> api_verb list \<Rightarrow> req_scopes \<Rightarrow>
       match_docs \<Rightarrow> nat \<Rightarrow> bool \<times> match_docs \<times> nat"
where
  "populateAndVerifyPolicyDocument policyDoc tree currScope parentVerbs reqScopes matchDocs =
     (let currDoc = (case policyDoc of
                       None \<Rightarrow> PolicyDocument currScope [] parentVerbs []
                     | Some d \<Rightarrow> d)
      in case map_of (subtrees tree) (Scope currDoc) of
           None \<Rightarrow> (False, matchDocs)
         | Some subTree \<Rightarrow>
             if Scope currDoc \<noteq> currScope then (False, matchDocs)
             else
               let passedParentVerbs = (if currScope = ProjectScope then [] else Verbs currDoc);
                   (ok, matchDocs', processedChildren) =
                     populateChildren currDoc subTree (map fst (subtrees subTree))
                       passedParentVerbs reqScopes matchDocs 0
               in if processedChildren \<noteq> go_len (Children currDoc) then (False, matchDocs')
                  else (ok,
                        if reqScopes currScope \<noteq> None \<and> Scope currDoc = currScope
                        then AList.update currScope currDoc matchDocs'
                        else matchDocs'))"
| "populateChildren currDoc subTree [] passedParentVerbs reqScopes matchDocs processed =
     (True, matchDocs, processed)"
| "populateChildren currDoc subTree (k # ks) passedParentVerbs reqScopes matchDocs processed =
     (let processed' = (if go_has (Children currDoc) k then Suc processed else processed);
          (ok, matchDocs') =
            populateAndVerifyPolicyDocument (go_ptr (Children currDoc) k) subTree k
              passedParentVerbs reqScopes matchDocs
      in if ok then populateChildren currDoc subTree ks passedParentVerbs reqScopes matchDocs' processed'
         else (False, matchDocs', processed'))"
  by pat_completeness auto
termination
  by (relation
      "measures [\<lambda>x. case x of Inl (d, t, s, v, r, m) \<Rightarrow> size t
                            | Inr (d, t, ks, v, r, m, p) \<Rightarrow> size t,
                 \<lambda>x. case x of Inl (d, t, s, v, r, m) \<Rightarrow> 0
                            | Inr (d, t, ks, v, r, m, p) \<Rightarrow> Suc (length ks)]")
     (auto simp: size_scope_tree_lookup)

declare populateAndVerifyPolicyDocument.simps [simp del]

text \<open>The check of one collected document; \<open>None\<close> is the nil dereference of a missing action.\<close>

definition checkMatchDoc :: "req_scopes \<Rightarrow> permission_scope \<times> policy_document \<Rightarrow> bool \<Rightarrow> bool option" where
  "checkMatchDoc reqScopes m isValid =
     (case m of (matchScope, matchDoc) \<Rightarrow>
        case reqScopes matchScope of
          None \<Rightarrow> None
        | Some action \<Rightarrow>
            let isValid1 =
                  (if Resources matchDoc \<noteq> [] \<and> ra_Verb action \<noteq> APIVerbList
                      \<and> \<not> isResourceAllowed matchDoc (ra_Resource action)
                   then False else isValid)
            in Some (if \<not> isVerbAllowed matchDoc (ra_Verb action) then False else isValid1))"

fun checkMatchDocs :: "req_scopes \<Rightarrow> match_docs \<Rightarrow> bool \<Rightarrow> bool option" where
  "checkMatchDocs reqScopes [] isValid = Some isValid"
| "checkMatchDocs reqScopes (m # ms) isValid =
     (case checkMatchDoc reqScopes m isValid of
        None \<Rightarrow> None
      | Some isValid' \<Rightarrow> checkMatchDocs reqScopes ms isValid')"

text \<open>
  \<open>HasScopeAccess\<close>, over the list that stands for the scope hierarchy in the iteration
  order of this call.
\<close>

fun HasScopeAccessIn :: "scope_tree \<Rightarrow> policy \<Rightarrow> req_scopes \<Rightarrow> bool option" where
  "HasScopeAccessIn tree [] reqScopes = Some False"
| "HasScopeAccessIn tree (policyDoc # docs) reqScopes =
     (let (isValid, matchDocs) =
            populateAndVerifyPolicyDocument policyDoc tree ProjectScope ReadWriteVerbGroup reqScopes []
      in if \<not> isValid then HasScopeAccessIn tree docs reqScopes
         else case checkMatchDocs reqScopes matchDocs True of
                None \<Rightarrow> None
              | Some True \<Rightarrow> Some True
              | Some False \<Rightarrow> HasScopeAccessIn tree docs reqScopes)"

definition HasScopeAccess :: "policy \<Rightarrow> req_scopes \<Rightarrow> bool option" where
  "HasScopeAccess = HasScopeAccessIn ScopeHeirarchy"


section \<open>The meaning, without the map\<close>

definition node_permits :: "policy_document \<Rightarrow> request_action option \<Rightarrow> bool" where
  "node_permits d act =
     (case act of
        None \<Rightarrow> True
      | Some a \<Rightarrow> ra_Verb a \<in> set (Verbs d) \<and>
          (Resources d = [] \<or> ra_Verb a = APIVerbList \<or> ra_Resource a \<in> set (Resources d)))"

definition effective_doc ::
  "policy_document option \<Rightarrow> permission_scope \<Rightarrow> api_verb list \<Rightarrow> policy_document" where
  "effective_doc doc s parentVerbs =
     (case doc of None \<Rightarrow> PolicyDocument s [] parentVerbs [] | Some d \<Rightarrow> d)"

definition passed_verbs :: "permission_scope \<Rightarrow> policy_document \<Rightarrow> api_verb list" where
  "passed_verbs s d = (if s = ProjectScope then [] else Verbs d)"

lemma size_forest_member [termination_simp]:
  "(k, t) \<in> set kids \<Longrightarrow> size t < Suc (size_list (\<lambda>p. size_prod (\<lambda>_. 0) size p) kids)"
  by (induction kids) auto

text \<open>
  A document permits a request below its scope when it has that scope, its children are scopes
  the hierarchy puts there, it allows the action the request wants at its scope, if any, and the
  children, written or filled in, permit the request below theirs.
\<close>

fun doc_permits ::
  "policy_document option \<Rightarrow> scope_tree \<Rightarrow> permission_scope \<Rightarrow> api_verb list \<Rightarrow> req_scopes \<Rightarrow> bool" where
  "doc_permits doc (ScopeTree kids) s parentVerbs req =
     (let d = effective_doc doc s parentVerbs
      in Scope d = s
         \<and> fst ` set (Children d) \<subseteq> fst ` set kids
         \<and> node_permits d (req s)
         \<and> list_all (\<lambda>(k, t). doc_permits (go_ptr (Children d) k) t k (passed_verbs s d) req) kids)"

text \<open>The scopes of a tree; in a well-formed hierarchy each occurs once.\<close>

fun tree_scopes :: "scope_tree \<Rightarrow> permission_scope list" where
  "tree_scopes (ScopeTree kids) = concat (map (\<lambda>(k, t). k # tree_scopes t) kids)"

definition forest_scopes :: "(permission_scope \<times> scope_tree) list \<Rightarrow> permission_scope list" where
  "forest_scopes kids = concat (map (\<lambda>(k, t). k # tree_scopes t) kids)"

lemma forest_scopes_Nil [simp]: "forest_scopes [] = []"
  by (simp add: forest_scopes_def)

lemma forest_scopes_Cons [simp]:
  "forest_scopes ((k, t) # kids) = k # tree_scopes t @ forest_scopes kids"
  by (simp add: forest_scopes_def)

lemma forest_keys: "fst ` set kids \<subseteq> set (forest_scopes kids)"
  by (auto simp: forest_scopes_def)

lemma forest_member:
  "(k, t) \<in> set kids \<Longrightarrow> insert k (set (tree_scopes t)) \<subseteq> set (forest_scopes kids)"
  by (force simp: forest_scopes_def)

lemma distinct_forest_keys: "distinct (forest_scopes kids) \<Longrightarrow> distinct (map fst kids)"
proof (induction kids)
  case (Cons kt kids)
  then show ?case using forest_keys [of kids] by (cases kt) auto
qed simp

lemma tree_scopes_forest [simp]: "tree_scopes (ScopeTree kids) = forest_scopes kids"
  by (simp add: forest_scopes_def)

declare tree_scopes.simps [simp del]

definition docs_permit :: "req_scopes \<Rightarrow> match_docs \<Rightarrow> bool" where
  "docs_permit req md = (\<forall>(k, d) \<in> set md. node_permits d (req k))"

lemma update_fresh: "k \<notin> fst ` set m \<Longrightarrow> AList.update k v m = m @ [(k, v)]"
  by (induction m) auto

lemma docs_permit_snoc [simp]:
  "docs_permit req (md @ [(k, d)]) \<longleftrightarrow> docs_permit req md \<and> node_permits d (req k)"
  by (auto simp: docs_permit_def)

lemma isResourceAllowed_iff [simp]: "isResourceAllowed d r \<longleftrightarrow> r \<in> set (Resources d)"
  by (auto simp: isResourceAllowed_def list_ex_iff)

lemma isVerbAllowed_iff [simp]: "isVerbAllowed d v \<longleftrightarrow> v \<in> set (Verbs d)"
  by (auto simp: isVerbAllowed_def list_ex_iff)

lemma checkMatchDoc_eq:
  "req k = Some a \<Longrightarrow> checkMatchDoc req (k, d) v = Some (v \<and> node_permits d (req k))"
  by (auto simp: checkMatchDoc_def node_permits_def Let_def)

lemma checkMatchDocs_eq:
  "fst ` set md \<subseteq> dom req \<Longrightarrow> checkMatchDocs req md v = Some (v \<and> docs_permit req md)"
proof (induction md arbitrary: v)
  case Nil
  then show ?case by (simp add: docs_permit_def)
next
  case (Cons m ms)
  obtain k d where m: "m = (k, d)" by (cases m)
  with Cons.prems obtain a where "req k = Some a" by auto
  then have "checkMatchDoc req m v = Some (v \<and> node_permits d (req k))"
    using m by (simp add: checkMatchDoc_eq)
  moreover have "docs_permit req (m # ms) \<longleftrightarrow> node_permits d (req k) \<and> docs_permit req ms"
    by (auto simp: docs_permit_def m)
  ultimately show ?case using Cons by auto
qed

section \<open>The walk computes the meaning\<close>

text \<open>
  What a call of the walk on fresh scopes \<open>new\<close> does: it succeeds with documents that all
  permit the request exactly when the ones it started with did and \<open>permits\<close> holds, and it
  adds only requested scopes among \<open>new\<close>.
\<close>

definition walk_spec ::
  "req_scopes \<Rightarrow> match_docs \<Rightarrow> bool \<Rightarrow> match_docs \<Rightarrow> permission_scope set \<Rightarrow> bool \<Rightarrow> bool" where
  "walk_spec req md ok md' new permits \<longleftrightarrow>
     (ok \<and> docs_permit req md' \<longleftrightarrow> docs_permit req md \<and> permits)
     \<and> fst ` set md' \<subseteq> fst ` set md \<union> new \<and> fst ` set md' \<subseteq> dom req"

lemma walk_specI:
  assumes "ok \<and> docs_permit req md' \<longleftrightarrow> docs_permit req md \<and> permits"
    and "fst ` set md' \<subseteq> fst ` set md \<union> new" and "fst ` set md' \<subseteq> dom req"
  shows "walk_spec req md ok md' new permits"
  using assms by (simp add: walk_spec_def)

definition populate_correct :: "scope_tree \<Rightarrow> bool" where
  "populate_correct sub \<longleftrightarrow>
     (\<forall>tree doc s pv req md ok md'.
        map_of (subtrees tree) s = Some sub \<longrightarrow> distinct (s # tree_scopes sub) \<longrightarrow>
        fst ` set md \<inter> insert s (set (tree_scopes sub)) = {} \<longrightarrow> fst ` set md \<subseteq> dom req \<longrightarrow>
        populateAndVerifyPolicyDocument doc tree s pv req md = (ok, md') \<longrightarrow>
        walk_spec req md ok md' (insert s (set (tree_scopes sub))) (doc_permits doc sub s pv req))"

lemma populate_correctD:
  assumes "populate_correct sub" "map_of (subtrees tree) s = Some sub"
    "distinct (s # tree_scopes sub)" "fst ` set md \<inter> insert s (set (tree_scopes sub)) = {}"
    "fst ` set md \<subseteq> dom req"
    "populateAndVerifyPolicyDocument doc tree s pv req md = (ok, md')"
  shows "walk_spec req md ok md' (insert s (set (tree_scopes sub))) (doc_permits doc sub s pv req)"
  using assms unfolding populate_correct_def by blast

lemma populateChildren_spec:
  assumes "\<And>k t. (k, t) \<in> set rest \<Longrightarrow> populate_correct t \<and> map_of (subtrees sub) k = Some t"
    and "distinct (forest_scopes rest)"
    and "fst ` set md \<inter> set (forest_scopes rest) = {}" and "fst ` set md \<subseteq> dom req"
    and "populateChildren d sub (map fst rest) pv req md p = (ok, md', p')"
  shows "walk_spec req md ok md' (set (forest_scopes rest))
           (list_all (\<lambda>(k, t). doc_permits (go_ptr (Children d) k) t k pv req) rest)
         \<and> (ok \<longrightarrow> p' = p + length (filter (go_has (Children d)) (map fst rest)))"
  using assms
proof (induction rest arbitrary: md p)
  case Nil
  then show ?case by (auto intro: walk_specI)
next
  case (Cons kt rest)
  obtain k t where kt: "kt = (k, t)" by (cases kt)
  let ?child = "go_ptr (Children d) k"
  let ?p = "if go_has (Children d) k then Suc p else p"
  obtain ok1 md1 where step:
    "populateAndVerifyPolicyDocument ?child sub k pv req md = (ok1, md1)"
    by (cases "populateAndVerifyPolicyDocument ?child sub k pv req md") auto
  have first: "walk_spec req md ok1 md1 (insert k (set (tree_scopes t)))
                 (doc_permits ?child t k pv req)"
    using Cons.prems step by (intro populate_correctD [of t sub k]) (auto simp: kt)
  show ?case
  proof (cases ok1)
    case False
    with Cons.prems(5) step have "ok = False" "md' = md1"
      by (simp_all add: kt Let_def split: if_splits)
    with first False show ?thesis
      by (auto simp: walk_spec_def kt)
  next
    case True
    with Cons.prems(5) step
    have more: "populateChildren d sub (map fst rest) pv req md1 ?p = (ok, md', p')"
      by (simp add: kt Let_def)
    have "fst ` set md1 \<subseteq> fst ` set md \<union> insert k (set (tree_scopes t))"
      using first unfolding walk_spec_def by blast
    moreover have "insert k (set (tree_scopes t)) \<inter> set (forest_scopes rest) = {}"
      using Cons.prems(2) by (auto simp: kt)
    moreover have "fst ` set md \<inter> set (forest_scopes rest) = {}"
      using Cons.prems(3) by (auto simp: kt)
    ultimately have fresh: "fst ` set md1 \<inter> set (forest_scopes rest) = {}" by blast
    have "fst ` set md1 \<subseteq> dom req"
      using first unfolding walk_spec_def by blast
    then have IH: "walk_spec req md1 ok md' (set (forest_scopes rest))
           (list_all (\<lambda>(k, t). doc_permits (go_ptr (Children d) k) t k pv req) rest)
         \<and> (ok \<longrightarrow> p' = ?p + length (filter (go_has (Children d)) (map fst rest)))"
      using Cons.prems(1,2) fresh more by (intro Cons.IH) (auto simp: kt)
    then have "ok \<longrightarrow> p' = p + length (filter (go_has (Children d)) (map fst (kt # rest)))"
      by (simp add: kt)
    with IH first True show ?thesis
      unfolding walk_spec_def by (auto simp: kt)
  qed
qed


lemma populate_correct_all: "populate_correct sub"
proof (induction sub)
  case (ScopeTree kids)
  have kids_correct: "populate_correct t" if "(k, t) \<in> set kids" for k t
    using ScopeTree.IH [of "(k, t)" t] that by simp
  show ?case
    unfolding populate_correct_def
  proof (intro allI impI)
    fix tree doc s pv req md ok md'
    let ?sub = "ScopeTree kids"
    assume look: "map_of (subtrees tree) s = Some ?sub"
      and dist: "distinct (s # tree_scopes ?sub)"
      and disj: "fst ` set md \<inter> insert s (set (tree_scopes ?sub)) = {}"
      and dom: "fst ` set md \<subseteq> dom req"
      and run: "populateAndVerifyPolicyDocument doc tree s pv req md = (ok, md')"
    define d where "d = effective_doc doc s pv"
    have d_case: "(case doc of None \<Rightarrow> PolicyDocument s [] pv [] | Some d \<Rightarrow> d) = d"
      by (simp add: d_def effective_doc_def)
    show "walk_spec req md ok md' (insert s (set (tree_scopes ?sub))) (doc_permits doc ?sub s pv req)"
    proof (cases "Scope d = s")
      case False
      then have "ok = False" "md' = md"
        using run by (auto simp: populateAndVerifyPolicyDocument.simps [of doc] d_case split: option.splits)
      with False dom show ?thesis
        by (auto intro!: walk_specI simp: d_def)
    next
      case scope: True
      obtain ok1 md1 n where loop:
        "populateChildren d ?sub (map fst kids) (passed_verbs s d) req md 0 = (ok1, md1, n)"
        by (cases "populateChildren d ?sub (map fst kids) (passed_verbs s d) req md 0") auto
      have dkeys: "distinct (map fst kids)"
        using dist by (simp add: tree_scopes_forest distinct_forest_keys)
      have mem: "map_of kids k = Some t" if "(k, t) \<in> set kids" for k t
        using that dkeys by simp
      let ?kidsP = "list_all (\<lambda>(k, t). doc_permits (go_ptr (Children d) k) t k (passed_verbs s d) req) kids"
      have spec: "walk_spec req md ok1 md1 (set (forest_scopes kids)) ?kidsP
          \<and> (ok1 \<longrightarrow> n = 0 + length (filter (go_has (Children d)) (map fst kids)))"
        using dist disj dom loop kids_correct mem
        by (intro populateChildren_spec) (auto simp: tree_scopes_forest)
      have count: "length (filter (go_has (Children d)) (map fst kids)) = go_len (Children d)
          \<longleftrightarrow> fst ` set (Children d) \<subseteq> fst ` set kids"
        using count_keys_eq_len [OF dkeys, of "Children d"] by simp
      have res: "(ok, md') =
          (if n \<noteq> go_len (Children d) then (False, md1)
           else (ok1, if req s \<noteq> None then AList.update s d md1 else md1))"
        using run loop scope
        by (simp add: populateAndVerifyPolicyDocument.simps [of doc] d_case look Let_def
              passed_verbs_def split: if_splits)
      have fresh: "s \<notin> fst ` set md1"
        using spec disj dist unfolding walk_spec_def by (auto simp: tree_scopes_forest)
      have permits: "doc_permits doc ?sub s pv req \<longleftrightarrow>
          fst ` set (Children d) \<subseteq> fst ` set kids \<and> node_permits d (req s) \<and> ?kidsP"
        using scope by (simp add: d_def Let_def)
      have walk: "ok1 \<and> docs_permit req md1 \<longleftrightarrow> docs_permit req md \<and> ?kidsP"
        and keys: "fst ` set md1 \<subseteq> fst ` set md \<union> set (forest_scopes kids)"
        and inreq: "fst ` set md1 \<subseteq> dom req"
        using spec unfolding walk_spec_def by blast+
      have ok1_count: "ok1 \<Longrightarrow> n = go_len (Children d) \<longleftrightarrow> fst ` set (Children d) \<subseteq> fst ` set kids"
        using spec count by simp
      show ?thesis
      proof (cases "n = go_len (Children d) \<and> req s \<noteq> None")
        case True
        then have "ok = ok1" and md': "md' = md1 @ [(s, d)]"
          using res fresh by (auto simp: update_fresh)
        then have "ok \<and> docs_permit req md' \<longleftrightarrow> docs_permit req md \<and> doc_permits doc ?sub s pv req"
          unfolding md' permits docs_permit_snoc using True walk ok1_count by blast
        then show ?thesis
          using True keys inreq md' by (intro walk_specI) auto
      next
        case False
        then have ok: "ok = (ok1 \<and> n = go_len (Children d))" and md': "md' = md1"
          using res by (auto split: if_splits)
        have "n = go_len (Children d) \<Longrightarrow> node_permits d (req s)"
          using False by (simp add: node_permits_def)
        then have "ok \<and> docs_permit req md' \<longleftrightarrow> docs_permit req md \<and> doc_permits doc ?sub s pv req"
          unfolding ok md' permits using walk ok1_count by blast
        then show ?thesis
          using keys inreq md' by (intro walk_specI) auto
      qed
    qed
  qed
qed


section \<open>\<open>HasScopeAccess\<close> for every iteration order\<close>

text \<open>
  \<open>reorder t t'\<close>: \<open>t'\<close> lists the same hierarchy, with the children of every node in any
  order. Each is an order in which Go may range over the maps of \<open>t\<close>.
\<close>

inductive reorder :: "scope_tree \<Rightarrow> scope_tree \<Rightarrow> bool" where
  reorderI: "list_all2 (\<lambda>p q. fst p = fst q \<and> reorder (snd p) (snd q)) kids kids' \<Longrightarrow>
    mset kids' = mset kids'' \<Longrightarrow> reorder (ScopeTree kids) (ScopeTree kids'')"

inductive_cases reorder_ScopeTreeE: "reorder (ScopeTree kids) t'"

lemma doc_permits_reorder:
  "reorder t t' \<Longrightarrow> doc_permits doc t s pv req = doc_permits doc t' s pv req"
proof (induction arbitrary: doc s pv rule: reorder.induct)
  case (reorderI kids kids' kids'')
  let ?P = "\<lambda>d (k, t). doc_permits (go_ptr (Children d) k) t k (passed_verbs s d) req"
  have "list_all2 (\<lambda>p q. fst p = fst q) kids kids'"
    using reorderI(1) by (rule list_all2_mono) simp
  then have "map fst kids = map fst kids'" by (rule list_all2_map_eq)
  then have keys: "fst ` set kids = fst ` set kids''"
    using mset_eq_setD [OF reorderI(2)] by (metis set_map)
  have "list_all2 (\<lambda>p q. ?P d p = ?P d q) kids kids'" for d
    using reorderI(1) by (rule list_all2_mono) (simp add: case_prod_unfold)
  then have "list_all (?P d) kids = list_all (?P d) kids'" for d
    by (rule list_all2_list_all_eq)
  also have "list_all (?P d) kids' = list_all (?P d) kids''" for d
    using mset_eq_setD [OF reorderI(2)] by (simp only: list_all_iff)
  finally show ?case using keys by (simp add: Let_def)
qed

lemma mset_forest_scopes:
  "mset (forest_scopes kids) = sum_mset (image_mset (\<lambda>(k, t). add_mset k (mset (tree_scopes t))) (mset kids))"
  by (induction kids) (auto simp: forest_scopes_def)

lemma mset_scopes_reorder: "reorder t t' \<Longrightarrow> mset (tree_scopes t) = mset (tree_scopes t')"
proof (induction rule: reorder.induct)
  case (reorderI kids kids' kids'')
  let ?f = "\<lambda>(k, t). add_mset k (mset (tree_scopes t))"
  have "list_all2 (\<lambda>p q. ?f p = ?f q) kids kids'"
    using reorderI(1) by (rule list_all2_mono) (simp add: case_prod_unfold)
  then have "map ?f kids = map ?f kids'" by (rule list_all2_map_eq)
  then have "image_mset ?f (mset kids) = image_mset ?f (mset kids')" by (metis mset_map)
  with reorderI(2) show ?case by (simp add: mset_forest_scopes)
qed

lemma reorder_refl: "reorder t t"
proof (induction t)
  case (ScopeTree kids)
  then have "list_all2 (\<lambda>p q. fst p = fst q \<and> reorder (snd p) (snd q)) kids kids"
    by (auto intro!: list.rel_refl_strong simp: prod_set_simps)
  then show ?case by (rule reorder.reorderI) simp
qed

text \<open>The project subtree of the hierarchy, in the order of the source.\<close>

definition project_tree :: scope_tree where
  "project_tree = the (map_of (subtrees ScopeHeirarchy) ProjectScope)"

lemma hierarchy_project_tree: "ScopeHeirarchy = ScopeTree [(ProjectScope, project_tree)]"
  by (simp add: ScopeHeirarchy_def project_tree_def)

lemma reorder_single:
  "reorder (ScopeTree [(s, sub)]) t \<Longrightarrow> \<exists>sub'. subtrees t = [(s, sub')] \<and> reorder sub sub'"
  by (erule reorder_ScopeTreeE) (auto simp: list_all2_Cons1)

lemma reorder_hierarchy:
  "reorder ScopeHeirarchy t \<Longrightarrow> \<exists>sub. subtrees t = [(ProjectScope, sub)] \<and> reorder project_tree sub"
  unfolding hierarchy_project_tree by (rule reorder_single)

lemma HasScopeAccessIn_eq:
  assumes "map_of (subtrees t) ProjectScope = Some sub"
    and "distinct (ProjectScope # tree_scopes sub)"
  shows "HasScopeAccessIn t policy req =
     Some (list_ex (\<lambda>doc. doc_permits doc sub ProjectScope ReadWriteVerbGroup req) policy)"
proof (induction policy)
  case (Cons doc docs)
  obtain ok md where run:
    "populateAndVerifyPolicyDocument doc t ProjectScope ReadWriteVerbGroup req [] = (ok, md)"
    by (cases "populateAndVerifyPolicyDocument doc t ProjectScope ReadWriteVerbGroup req []") auto
  have "walk_spec req [] ok md (insert ProjectScope (set (tree_scopes sub)))
     (doc_permits doc sub ProjectScope ReadWriteVerbGroup req)"
    using assms run populate_correct_all by (intro populate_correctD) auto
  then have walk: "ok \<and> docs_permit req md \<longleftrightarrow>
      doc_permits doc sub ProjectScope ReadWriteVerbGroup req"
    and "fst ` set md \<subseteq> dom req"
    by (auto simp: walk_spec_def docs_permit_def)
  then have "checkMatchDocs req md True = Some (docs_permit req md)"
    using checkMatchDocs_eq by simp
  with walk Cons show ?case
    by (cases ok; cases "docs_permit req md") (simp_all add: run del: doc_permits.simps)
qed simp

lemma project_tree_lookup: "map_of (subtrees ScopeHeirarchy) ProjectScope = Some project_tree"
  by (simp add: project_tree_def ScopeHeirarchy_def)

lemma project_tree_distinct: "distinct (ProjectScope # tree_scopes project_tree)"
  by (simp add: project_tree_def ScopeHeirarchy_def)

definition policy_permits :: "policy \<Rightarrow> req_scopes \<Rightarrow> bool" where
  "policy_permits policy req =
     list_ex (\<lambda>doc. doc_permits doc project_tree ProjectScope ReadWriteVerbGroup req) policy"

lemma HasScopeAccess_eq: "HasScopeAccess policy req = Some (policy_permits policy req)"
  unfolding HasScopeAccess_def policy_permits_def
  by (rule HasScopeAccessIn_eq [OF project_tree_lookup project_tree_distinct])

text \<open>
  C3. The access check equals its declarative meaning, and never dereferences a missing
  request action: for every policy, custom or preset, and every request.
\<close>

theorem HasScopeAccess_refines_permits:
  "HasScopeAccess policy req =
     Some (list_ex (\<lambda>doc. doc_permits doc project_tree ProjectScope ReadWriteVerbGroup req) policy)"
  by (simp add: HasScopeAccess_eq policy_permits_def del: doc_permits.simps)

text \<open>
  The answer does not depend on the order in which Go ranges over the maps of the scope
  hierarchy, although that order is unspecified and the walk stops at the first bad child.
\<close>

theorem HasScopeAccess_order_independent:
  assumes "reorder ScopeHeirarchy t"
  shows "HasScopeAccessIn t policy req = HasScopeAccess policy req"
proof -
  obtain sub where sub: "subtrees t = [(ProjectScope, sub)]" "reorder project_tree sub"
    using reorder_hierarchy [OF assms] by blast
  have "mset (ProjectScope # tree_scopes project_tree) = mset (ProjectScope # tree_scopes sub)"
    using mset_scopes_reorder [OF sub(2)] by simp
  then have "distinct (ProjectScope # tree_scopes sub)"
    using project_tree_distinct by (metis mset_eq_imp_distinct_iff)
  then have "HasScopeAccessIn t policy req =
     Some (list_ex (\<lambda>doc. doc_permits doc sub ProjectScope ReadWriteVerbGroup req) policy)"
    using sub(1) by (intro HasScopeAccessIn_eq) simp_all
  then show ?thesis
    by (simp add: HasScopeAccess_eq policy_permits_def doc_permits_reorder [OF sub(2)]
        del: doc_permits.simps)
qed

definition reversed_project :: scope_tree where
  "reversed_project = ScopeTree [(ProjectScope, ScopeTree (rev (subtrees project_tree)))]"

lemma reorder_reversed: "reorder ScopeHeirarchy reversed_project"
proof -
  have "list_all2 (\<lambda>p q. fst p = fst q \<and> reorder (snd p) (snd q)) kids kids" for kids
    by (rule list.rel_refl) (simp add: reorder_refl)
  then have "reorder (ScopeTree kids) (ScopeTree (rev kids))" for kids
    by (rule reorder.reorderI) simp
  then have "reorder (ScopeTree (subtrees project_tree)) (ScopeTree (rev (subtrees project_tree)))" .
  moreover have "ScopeTree (subtrees t) = t" for t by (cases t) simp
  ultimately have "reorder project_tree (ScopeTree (rev (subtrees project_tree)))" by simp
  then have "list_all2 (\<lambda>p q. fst p = fst q \<and> reorder (snd p) (snd q))
      [(ProjectScope, project_tree)] [(ProjectScope, ScopeTree (rev (subtrees project_tree)))]"
    by simp
  from reorder.reorderI [OF this refl] show ?thesis
    by (simp add: hierarchy_project_tree reversed_project_def)
qed

theorem HasScopeAccess_order_independent_witness:
  "HasScopeAccessIn reversed_project AdminPolicy (\<lambda>_. None) = Some True"
  unfolding HasScopeAccess_order_independent [OF reorder_reversed]
  by (simp add: HasScopeAccess_eq policy_permits_def project_tree_def ScopeHeirarchy_def
      effective_doc_def AdminPolicy_def leaf_doc_def node_permits_def go_ptr_def Let_def)

end
