(* ===== verification/Policy_Presets.thy ===== *)
theory Policy_Presets
  imports Policy_Check
begin

text \<open>
  What the preset policies of \<open>api/types/policy.go\<close> grant, read off the meaning of the
  access check: an exact description for each of admin, developer and viewer, their order, and
  three facts about every policy, written by a user or preset: rights at the project scope are
  not inherited, rights below it are, and a scope outside the hierarchy is never checked.
\<close>

definition action_in :: "request_action option \<Rightarrow> api_verb list \<Rightarrow> bool" where
  "action_in act verbs = (case act of None \<Rightarrow> True | Some a \<Rightarrow> ra_Verb a \<in> set verbs)"

definition hierarchy_scopes :: "permission_scope list" where
  "hierarchy_scopes =
     [ProjectScope, ClusterScope, NamespaceScope, StackScope, ReleaseScope, RegistryScope,
      HelmRepoScope, GitInstallationScope, InfraScope, OperationScope, SettingsScope]"

lemma hierarchy_scopes_eq: "hierarchy_scopes = tree_scopes ScopeHeirarchy"
  by (simp add: hierarchy_scopes_def ScopeHeirarchy_def)

lemma action_in_None [simp]: "action_in None vs"
  by (simp add: action_in_def)

lemma node_permits_no_resources:
  "Resources d = [] \<Longrightarrow> node_permits d act \<longleftrightarrow> action_in act (Verbs d)"
  by (simp add: node_permits_def action_in_def split: option.splits)

lemma node_permits_leaf [simp]: "node_permits (PolicyDocument s [] vs ch) act \<longleftrightarrow> action_in act vs"
  by (simp add: node_permits_no_resources)

lemma action_in_mono: "action_in act vs \<Longrightarrow> set vs \<subseteq> set ws \<Longrightarrow> action_in act ws"
  by (auto simp: action_in_def split: option.splits)

lemmas preset_eval =
  HasScopeAccess_eq policy_permits_def project_tree_def ScopeHeirarchy_def effective_doc_def
  passed_verbs_def go_ptr_def

lemma admin_rights:
  "HasScopeAccess AdminPolicy req =
     Some (list_all (\<lambda>s. action_in (req s) ReadWriteVerbGroup) hierarchy_scopes)"
  by (simp add: preset_eval AdminPolicy_def leaf_doc_def hierarchy_scopes_def)

lemma developer_rights:
  "HasScopeAccess DeveloperPolicy req =
     Some (list_all (\<lambda>s. action_in (req s)
       (if s = SettingsScope then ReadVerbGroup else ReadWriteVerbGroup)) hierarchy_scopes)"
  by (simp add: preset_eval DeveloperPolicy_def leaf_doc_def hierarchy_scopes_def)

lemma viewer_rights:
  "HasScopeAccess ViewerPolicy req =
     Some (list_all (\<lambda>s. action_in (req s)
       (if s = SettingsScope then [] else ReadVerbGroup)) hierarchy_scopes)"
  by (simp add: preset_eval ViewerPolicy_def leaf_doc_def hierarchy_scopes_def)

lemmas preset_rights_simps = admin_rights developer_rights viewer_rights

text \<open>
  C19. The rights of the presets, exactly: an admin may do whatever is a read-write verb at every
  requested scope of the hierarchy; a developer the same, with read verbs only at the settings
  scope; a viewer read verbs only, and nothing that involves the settings scope.
\<close>

theorem preset_rights:
  "HasScopeAccess AdminPolicy req =
     Some (list_all (\<lambda>s. action_in (req s) ReadWriteVerbGroup) hierarchy_scopes) \<and>
   HasScopeAccess DeveloperPolicy req =
     Some (list_all (\<lambda>s. action_in (req s)
             (if s = SettingsScope then ReadVerbGroup else ReadWriteVerbGroup)) hierarchy_scopes) \<and>
   HasScopeAccess ViewerPolicy req =
     Some (list_all (\<lambda>s. action_in (req s)
             (if s = SettingsScope then [] else ReadVerbGroup)) hierarchy_scopes)"
  by (simp add: preset_rights_simps)

text \<open>
  The presets are ordered: whatever a viewer may do a developer may do, and whatever a
  developer may do an admin may do.
\<close>

theorem preset_order:
  "(HasScopeAccess ViewerPolicy req = Some True \<longrightarrow> HasScopeAccess DeveloperPolicy req = Some True) \<and>
   (HasScopeAccess DeveloperPolicy req = Some True \<longrightarrow> HasScopeAccess AdminPolicy req = Some True)"
proof -
  have "action_in (req s) (if s = SettingsScope then [] else ReadVerbGroup) \<Longrightarrow>
      action_in (req s) (if s = SettingsScope then ReadVerbGroup else ReadWriteVerbGroup)"
    and "action_in (req s) (if s = SettingsScope then ReadVerbGroup else ReadWriteVerbGroup) \<Longrightarrow>
      action_in (req s) ReadWriteVerbGroup" for s
    by (auto elim!: action_in_mono simp: ReadVerbGroup_def ReadWriteVerbGroup_def split: if_splits)
  then show ?thesis
    unfolding preset_rights_simps option.inject list_all_iff by metis
qed

definition get_action :: "nat \<Rightarrow> request_action" where
  "get_action n = \<lparr>ra_Verb = APIVerbGet, ra_Resource = \<lparr>Name = [], UInt = of_nat n\<rparr>\<rparr>"

theorem preset_order_witness:
  "HasScopeAccess AdminPolicy [ProjectScope \<mapsto> get_action 1, ClusterScope \<mapsto> get_action 2] = Some True"
proof -
  let ?req = "[ProjectScope \<mapsto> get_action 1, ClusterScope \<mapsto> get_action 2]"
  have "HasScopeAccess ViewerPolicy ?req = Some True"
    by (simp add: viewer_rights hierarchy_scopes_def action_in_def get_action_def ReadVerbGroup_def)
  then show ?thesis using preset_order [of ?req] by blast
qed

section \<open>Facts about every policy\<close>

definition project_children :: "permission_scope list" where
  "project_children =
     [ClusterScope, RegistryScope, HelmRepoScope, GitInstallationScope, InfraScope, SettingsScope]"

lemma doc_permits_nil_child:
  assumes "s \<in> set project_children" and "req s = Some a"
    and "(s, t) \<in> set (subtrees project_tree)"
  shows "\<not> doc_permits None t s [] req"
  using assms by (cases t) (simp add: effective_doc_def action_in_def)

lemma project_child_subtree:
  "s \<in> set project_children \<Longrightarrow> \<exists>t. (s, t) \<in> set (subtrees project_tree)"
  by (auto simp: project_children_def project_tree_def ScopeHeirarchy_def)

lemma doc_permits_needs_child:
  assumes "s \<in> set project_children" and "req s = Some a"
    and "go_ptr (Children (effective_doc doc ProjectScope pv)) s = None"
  shows "\<not> doc_permits doc project_tree ProjectScope pv req"
proof -
  obtain t where t: "(s, t) \<in> set (subtrees project_tree)"
    using project_child_subtree [OF assms(1)] by blast
  obtain kids where kids: "project_tree = ScopeTree kids" by (cases project_tree)
  have "\<not> doc_permits None t s [] req"
    using assms(1,2) t by (rule doc_permits_nil_child)
  with t assms(3) show ?thesis
    unfolding kids by (force simp: list_all_iff passed_verbs_def Let_def)
qed

text \<open>
  Rights at the project scope are never inherited: a policy none of whose documents writes
  out a child scope of the project denies every request that involves that scope, whatever verbs
  the documents give at the project scope, and so does a null document.
\<close>

theorem project_verbs_not_inherited:
  assumes "s \<in> set project_children" and "req s = Some a"
    and "\<And>d. Some d \<in> set policy \<Longrightarrow> s \<notin> fst ` set (Children d)"
  shows "HasScopeAccess policy req = Some False"
proof -
  have "\<not> doc_permits doc project_tree ProjectScope ReadWriteVerbGroup req" if "doc \<in> set policy" for doc
  proof (rule doc_permits_needs_child [where s = s and req = req and a = a])
    show "s \<in> set project_children" "req s = Some a" by (fact assms)+
    show "go_ptr (Children (effective_doc doc ProjectScope ReadWriteVerbGroup)) s = None"
      using assms(3) that by (cases doc) (auto simp: effective_doc_def intro: go_ptr_absent)
  qed
  then show ?thesis by (simp add: HasScopeAccess_eq policy_permits_def list_ex_iff)
qed

theorem project_verbs_not_inherited_witness:
  "HasScopeAccess [None, Some (PolicyDocument ProjectScope [] ReadWriteVerbGroup [])]
     [ProjectScope \<mapsto> get_action 1, ClusterScope \<mapsto> get_action 2] = Some False"
  by (rule project_verbs_not_inherited [of ClusterScope _ "get_action 2"])
     (auto simp: project_children_def)

lemma doc_permits_cong_req:
  "(\<And>k'. k' \<in> insert k (set (tree_scopes t)) \<Longrightarrow> req' k' = req k') \<Longrightarrow>
     doc_permits doc t k pv req' = doc_permits doc t k pv req"
proof (induction t arbitrary: doc k pv)
  case (ScopeTree kids)
  have IH: "doc_permits doc' t k' pv' req' = doc_permits doc' t k' pv' req"
    if "(k', t) \<in> set kids" for doc' t k' pv'
  proof -
    have "\<And>l. l \<in> insert k' (set (tree_scopes t)) \<Longrightarrow> req' l = req l"
      using forest_member [OF that] ScopeTree.prems by auto
    moreover have "t \<in> Basic_BNFs.snds (k', t)" by simp
    ultimately show ?thesis using ScopeTree.IH [of "(k', t)" t] that by blast
  qed
  have "list_all (\<lambda>(k', t). doc_permits (f k') t k' vs req') kids
      = list_all (\<lambda>(k', t). doc_permits (f k') t k' vs req) kids" for f vs
    using IH by (auto simp: list_all_iff)
  moreover have "req' k = req k" using ScopeTree.prems by simp
  ultimately show ?case by (simp add: Let_def)
qed

text \<open>
  A scope outside the hierarchy (invites, GitLab integrations, users) is never checked:
  whether and how a request involves it makes no difference to the answer of any policy.
\<close>

theorem unhierarchical_scopes_unchecked:
  assumes "s \<notin> set hierarchy_scopes"
  shows "HasScopeAccess policy (req(s := act)) = HasScopeAccess policy req"
proof -
  have "s \<notin> insert ProjectScope (set (tree_scopes project_tree))"
    using assms by (simp add: hierarchy_scopes_def project_tree_def ScopeHeirarchy_def)
  then have "doc_permits doc project_tree ProjectScope pv (req(s := act))
      = doc_permits doc project_tree ProjectScope pv req" for doc pv
    by (intro doc_permits_cong_req) auto
  then show ?thesis
    by (simp add: HasScopeAccess_eq policy_permits_def del: doc_permits.simps fun_upd_apply)
qed

theorem unhierarchical_scopes_unchecked_witness:
  "HasScopeAccess ViewerPolicy ([ProjectScope \<mapsto> get_action 1, InviteScope \<mapsto> get_action 9])
     = HasScopeAccess ViewerPolicy [ProjectScope \<mapsto> get_action 1]"
proof -
  have "InviteScope \<notin> set hierarchy_scopes" by (simp add: hierarchy_scopes_def)
  from unhierarchical_scopes_unchecked [OF this, of ViewerPolicy "[ProjectScope \<mapsto> get_action 1]"]
  show ?thesis by simp
qed

end
