(* ===== verification/Policy_Middleware.thy ===== *)
theory Policy_Middleware
  imports Authn Policy_Presets
begin

text \<open>
  \<open>api/server/authz/policy/loader.go\<close> and \<open>api/server/authz/policy.go\<close>: which
  policy a subject has in a project, which action a request wants at each scope of its endpoint,
  and the middleware that puts the two to \<open>HasScopeAccess\<close>. The theorems say who passes
  and that the panics of its two unchecked dereferences need a route without a project or a user.
\<close>

section \<open>Loading a policy (\<open>policy/loader.go\<close>)\<close>

record policy_loader_opts =
  plo_ProjectID :: uint
  plo_UserID :: uint
  plo_ProjectToken :: "api_token option"

fun role_kind_text :: "role_kind \<Rightarrow> string" where
  "role_kind_text RoleAdmin = ''admin''"
| "role_kind_text RoleDeveloper = ''developer''"
| "role_kind_text RoleViewer = ''viewer''"
| "role_kind_text RoleCustom = ''custom''"
| "role_kind_text (OtherRole s) = s"

abbreviation show_id :: "uint \<Rightarrow> string" where
  "show_id i \<equiv> show_nat (unat i)"

record api_policy =
  ap_Name :: string
  ap_UID :: string
  ap_ProjectID :: uint
  ap_Policy :: policy

text \<open>\<open>Policy.ToAPIPolicyType\<close> (\<open>internal/models/policy.go\<close>); the decoder is \<open>encoding/json\<close>.\<close>

definition ToAPIPolicyType :: "server_env \<Rightarrow> policy_row \<Rightarrow> (go_error, api_policy) go_result" where
  "ToAPIPolicyType env p =
     (case ev_json_policy env (pol_PolicyBytes p) of
        Inl e \<Rightarrow> Inl e
      | Inr pol \<Rightarrow> Inr \<lparr>ap_Name = pol_Name p, ap_UID = pol_UniqueID p,
                       ap_ProjectID = pol_ProjectID p, ap_Policy = pol\<rparr>)"

definition GetAPIPolicyFromUID ::
  "server_env \<Rightarrow> uint \<Rightarrow> string \<Rightarrow> (request_error, api_policy) go_result" where
  "GetAPIPolicyFromUID env projectID uid =
     (if uid = ''admin'' then
        Inr \<lparr>ap_Name = ''admin'', ap_UID = ''admin'', ap_ProjectID = 0, ap_Policy = AdminPolicy\<rparr>
      else if uid = ''developer'' then
        Inr \<lparr>ap_Name = ''developer'', ap_UID = ''developer'', ap_ProjectID = 0, ap_Policy = DeveloperPolicy\<rparr>
      else if uid = ''viewer'' then
        Inr \<lparr>ap_Name = ''viewer'', ap_UID = ''viewer'', ap_ProjectID = 0, ap_Policy = ViewerPolicy\<rparr>
      else case ReadPolicy (ev_repo env) projectID uid of
             Inl e \<Rightarrow>
               if e = ErrRecordNotFound
               then Inl (ErrPassThroughToClient ''policy not found in project'' 400 [])
               else Inl (ErrInternal (go_error_text e))
           | Inr policyModel \<Rightarrow>
               case ToAPIPolicyType env policyModel of
                 Inl e \<Rightarrow> Inl (ErrInternal (go_error_text e))
               | Inr apiPolicy \<Rightarrow> Inr apiPolicy)"

definition LoadPolicyDocuments ::
  "server_env \<Rightarrow> policy_loader_opts \<Rightarrow> (request_error, policy) go_result" where
  "LoadPolicyDocuments env opts =
     (case plo_ProjectToken opts of
        Some tok \<Rightarrow>
          if plo_ProjectID opts = 0 \<or> at_ProjectID tok = 0 \<or> plo_ProjectID opts \<noteq> at_ProjectID tok
          then Inl (ErrForbidden (''project id '' @ show_id (plo_ProjectID opts) @
                 '' does not match token id '' @ show_id (at_ProjectID tok)))
          else (case GetAPIPolicyFromUID env (at_ProjectID tok) (at_PolicyUID tok) of
                  Inl e \<Rightarrow> Inl e
                | Inr apiPolicy \<Rightarrow> Inr (ap_Policy apiPolicy))
      | None \<Rightarrow>
          if plo_ProjectID opts \<noteq> 0 \<and> plo_UserID opts \<noteq> 0
          then (case ReadProjectRole (ev_repo env) (plo_ProjectID opts) (plo_UserID opts) of
                  Inl e \<Rightarrow>
                    if e = ErrRecordNotFound
                    then Inl (ErrForbidden (''user '' @ show_id (plo_UserID opts) @
                           '' does not have a role in project '' @ show_id (plo_ProjectID opts)))
                    else Inl (ErrInternal (go_error_text e))
                | Inr role \<Rightarrow>
                    (case ro_Kind role of
                       RoleAdmin \<Rightarrow> Inr AdminPolicy
                     | RoleDeveloper \<Rightarrow> Inr DeveloperPolicy
                     | RoleViewer \<Rightarrow> Inr ViewerPolicy
                     | kind \<Rightarrow> Inl (ErrForbidden (role_kind_text kind @ '' role not supported for user ''
                                 @ show_id (plo_UserID opts) @ '', project '' @ show_id (plo_ProjectID opts)))))
          else Inl (ErrForbidden ''policy loader called with invalid arguments''))"

section \<open>The actions a request wants (\<open>authz/policy.go\<close>)\<close>

definition name_resource :: "(request_error, string) go_result \<Rightarrow> (request_error, name_or_uint) go_result" where
  "name_resource res = map_sum id (\<lambda>n. \<lparr>Name = n, UInt = 0\<rparr>) res"

definition uint_resource :: "(request_error, uint) go_result \<Rightarrow> (request_error, name_or_uint) go_result" where
  "uint_resource res = map_sum id (\<lambda>i. \<lparr>Name = [], UInt = i\<rparr>) res"

definition scope_resource :: "request \<Rightarrow> permission_scope \<Rightarrow> (request_error, name_or_uint) go_result" where
  "scope_resource r scope =
     (case scope of
        ProjectScope \<Rightarrow> uint_resource (GetURLParamUint r URLParamProjectID)
      | ClusterScope \<Rightarrow> uint_resource (GetURLParamUint r URLParamClusterID)
      | RegistryScope \<Rightarrow> uint_resource (GetURLParamUint r URLParamRegistryID)
      | HelmRepoScope \<Rightarrow> uint_resource (GetURLParamUint r URLParamHelmRepoID)
      | GitInstallationScope \<Rightarrow> uint_resource (GetURLParamUint r URLParamGitInstallationID)
      | InfraScope \<Rightarrow> uint_resource (GetURLParamUint r URLParamInfraID)
      | OperationScope \<Rightarrow> name_resource (GetURLParamString r URLParamOperationID)
      | NamespaceScope \<Rightarrow> name_resource (GetURLParamString r URLParamNamespace)
      | ReleaseScope \<Rightarrow> name_resource (GetURLParamString r URLParamReleaseName)
      | StackScope \<Rightarrow> name_resource (GetURLParamString r URLParamStackID)
      | InviteScope \<Rightarrow> uint_resource (GetURLParamUint r URLParamInviteID)
      | GitlabIntegrationScope \<Rightarrow> uint_resource (GetURLParamUint r URLParamIntegrationID)
      | _ \<Rightarrow> Inr \<lparr>Name = [], UInt = 0\<rparr>)"

fun request_actions ::
  "request \<Rightarrow> api_verb \<Rightarrow> permission_scope list \<Rightarrow> req_scopes \<Rightarrow> (request_error, req_scopes) go_result" where
  "request_actions r verb [] res = Inr res"
| "request_actions r verb (scope # scopes) res =
     (case scope_resource r scope of
        Inl e \<Rightarrow> Inl e
      | Inr resource \<Rightarrow>
          request_actions r verb scopes (res(scope \<mapsto> \<lparr>ra_Verb = verb, ra_Resource = resource\<rparr>)))"

definition getRequestActionForEndpoint ::
  "request \<Rightarrow> api_request_metadata \<Rightarrow> (request_error, req_scopes) go_result" where
  "getRequestActionForEndpoint r endpointMeta =
     request_actions r (md_Verb endpointMeta) (md_Scopes endpointMeta) Map.empty"

section \<open>The middleware\<close>

definition policy_opts :: "request_ctx \<Rightarrow> uint \<Rightarrow> policy_loader_opts option" where
  "policy_opts ctx projID =
     (case ctx_api_token ctx of
        Some apiToken \<Rightarrow>
          Some \<lparr>plo_ProjectID = projID, plo_UserID = 0, plo_ProjectToken = Some apiToken\<rparr>
      | None \<Rightarrow>
          (case ctx_user ctx of
             None \<Rightarrow> None
           | Some user \<Rightarrow>
               Some \<lparr>plo_ProjectID = projID, plo_UserID = us_ID user, plo_ProjectToken = None\<rparr>))"

definition PolicyHandler :: "server_env \<Rightarrow> api_request_metadata \<Rightarrow> request \<Rightarrow> outcome" where
  "PolicyHandler env endpointMeta r =
     (case getRequestActionForEndpoint r endpointMeta of
        Inl e \<Rightarrow> api_error e
      | Inr reqScopes \<Rightarrow>
          (case reqScopes ProjectScope of
             None \<Rightarrow> Panic
           | Some action \<Rightarrow>
               (case policy_opts (rq_ctx r) (UInt (ra_Resource action)) of
                  None \<Rightarrow> Panic
                | Some opts \<Rightarrow>
                    (case LoadPolicyDocuments env opts of
                       Inl e \<Rightarrow> api_error e
                     | Inr policyDocs \<Rightarrow>
                         (case HasScopeAccess policyDocs reqScopes of
                            None \<Rightarrow> Panic
                          | Some False \<Rightarrow> api_error (ErrForbidden
                              (''policy forbids action in project '' @ show_id (plo_ProjectID opts)))
                          | Some True \<Rightarrow>
                              Next (r\<lparr>rq_ctx := (rq_ctx r)\<lparr>ctx_req_scopes := Some reqScopes\<rparr>\<rparr>))))))"

section \<open>What the actions are\<close>

lemma request_actions_Inr:
  "request_actions r verb scopes res = Inr req \<Longrightarrow>
     req s = (if s \<in> set scopes
              then (case scope_resource r s of
                      Inl e \<Rightarrow> None | Inr x \<Rightarrow> Some \<lparr>ra_Verb = verb, ra_Resource = x\<rparr>)
              else res s)"
proof (induction r verb scopes res rule: request_actions.induct)
  case (2 r verb scope scopes res)
  from "2.prems" obtain x where x: "scope_resource r scope = Inr x"
    and rest: "request_actions r verb scopes (res(scope \<mapsto> \<lparr>ra_Verb = verb, ra_Resource = x\<rparr>)) = Inr req"
    by (auto split: sum.splits)
  show ?case using "2.IH" [OF x rest] x by (cases "s = scope") (simp_all split: sum.split)
qed simp

lemma request_actions_defined:
  "request_actions r verb scopes res = Inr req \<Longrightarrow> s \<in> set scopes \<Longrightarrow> \<exists>x. scope_resource r s = Inr x"
  by (induction r verb scopes res rule: request_actions.induct) (auto split: sum.splits)

text \<open>
  What a request asks for, said of the URL itself: the parameter in which each scope finds its
  resource, by id or by name, the resource it gives, and the actions of an endpoint, which are the
  endpoint's verb on the resource of each of its scopes.
\<close>

definition id_params :: "(permission_scope \<times> string) list" where
  "id_params =
     [(ProjectScope, ''project_id''), (ClusterScope, ''cluster_id''), (RegistryScope, ''registry_id''),
      (HelmRepoScope, ''helm_repo_id''), (GitInstallationScope, ''git_installation_id''),
      (InfraScope, ''infra_id''), (InviteScope, ''invite_id''), (GitlabIntegrationScope, ''integration_id'')]"

definition name_params :: "(permission_scope \<times> string) list" where
  "name_params =
     [(OperationScope, ''operation_id''), (NamespaceScope, ''namespace''), (ReleaseScope, ''name''),
      (StackScope, ''stack_id'')]"

definition url_resource :: "request \<Rightarrow> permission_scope \<Rightarrow> name_or_uint option" where
  "url_resource r s =
     (case (map_of id_params s, map_of name_params s) of
        (Some param, _) \<Rightarrow>
          map_option (\<lambda>n. \<lparr>Name = [], UInt = word_of_nat n\<rparr>) (ParseUint (rq_params r param))
      | (None, Some param) \<Rightarrow>
          if rq_params r param = [] then None else Some \<lparr>Name = rq_params r param, UInt = 0\<rparr>
      | (None, None) \<Rightarrow> Some \<lparr>Name = [], UInt = 0\<rparr>)"

definition requested :: "request \<Rightarrow> api_request_metadata \<Rightarrow> req_scopes \<Rightarrow> bool" where
  "requested r meta req \<longleftrightarrow>
     (\<forall>s. req s = (if s \<in> set (md_Scopes meta)
                   then map_option (\<lambda>x. \<lparr>ra_Verb = md_Verb meta, ra_Resource = x\<rparr>) (url_resource r s)
                   else None))
     \<and> list_all (\<lambda>s. url_resource r s \<noteq> None) (md_Scopes meta)"

lemma scope_resource_url: "scope_resource r s = Inr x \<longleftrightarrow> url_resource r s = Some x"
  by (cases s)
     (auto simp: scope_resource_def url_resource_def id_params_def name_params_def uint_resource_def
       name_resource_def GetURLParamUint_def GetURLParamString_def url_param_defs Let_def
       split: option.splits sum.splits)

lemma request_actions_total:
  "list_all (\<lambda>s. url_resource r s \<noteq> None) scopes \<Longrightarrow> \<exists>req. request_actions r verb scopes res = Inr req"
proof (induction r verb scopes res rule: request_actions.induct)
  case (2 r verb scope scopes res)
  then obtain x where x: "scope_resource r scope = Inr x" by (auto simp: scope_resource_url)
  have "list_all (\<lambda>s. url_resource r s \<noteq> None) scopes" using "2.prems" by simp
  from "2.IH" [OF x this] x show ?case by (simp del: fun_upd_apply)
qed simp

lemma getRequestActionForEndpoint_requested:
  "getRequestActionForEndpoint r meta = Inr req \<longleftrightarrow> requested r meta req"
proof -
  have same: "requested r meta q" if "getRequestActionForEndpoint r meta = Inr q" for q
  proof -
    note run = that [unfolded getRequestActionForEndpoint_def]
    have "(case scope_resource r s of
            Inl e \<Rightarrow> None | Inr x \<Rightarrow> Some \<lparr>ra_Verb = md_Verb meta, ra_Resource = x\<rparr>) =
        map_option (\<lambda>x. \<lparr>ra_Verb = md_Verb meta, ra_Resource = x\<rparr>) (url_resource r s)"
      if "s \<in> set (md_Scopes meta)" for s
    proof -
      obtain x where "scope_resource r s = Inr x" using request_actions_defined [OF run \<open>s \<in> _\<close>] by blast
      moreover from this have "url_resource r s = Some x" by (simp add: scope_resource_url)
      ultimately show ?thesis by simp
    qed
    then show ?thesis
      using request_actions_Inr [OF run] request_actions_defined [OF run]
      by (auto simp: requested_def list_all_iff scope_resource_url)
  qed
  moreover have "getRequestActionForEndpoint r meta = Inr req" if req: "requested r meta req"
  proof -
    obtain q where q: "getRequestActionForEndpoint r meta = Inr q"
      using req request_actions_total unfolding requested_def getRequestActionForEndpoint_def by blast
    have "q = req" using same [OF q] req by (auto simp: requested_def fun_eq_iff)
    with q show ?thesis by simp
  qed
  ultimately show ?thesis by blast
qed

lemma getRequestActionForEndpoint_Inr:
  "getRequestActionForEndpoint r meta = Inr req \<Longrightarrow> requested r meta req"
  by (simp add: getRequestActionForEndpoint_requested)

lemma requested_action:
  "requested r meta req \<Longrightarrow> s \<in> set (md_Scopes meta) \<Longrightarrow>
     \<exists>x. scope_resource r s = Inr x \<and> req s = Some \<lparr>ra_Verb = md_Verb meta, ra_Resource = x\<rparr>"
  by (fastforce simp: requested_def list_all_iff scope_resource_url)

lemma requested_absent: "requested r meta req \<Longrightarrow> s \<notin> set (md_Scopes meta) \<Longrightarrow> req s = None"
  by (auto simp: requested_def)

section \<open>Whose policy: the meaning of the loader\<close>

fun role_policy :: "role_kind \<Rightarrow> policy option" where
  "role_policy RoleAdmin = Some AdminPolicy"
| "role_policy RoleDeveloper = Some DeveloperPolicy"
| "role_policy RoleViewer = Some ViewerPolicy"
| "role_policy kind = None"

definition preset_policy :: "string \<Rightarrow> policy option" where
  "preset_policy uid =
     (if uid = ''admin'' then Some AdminPolicy
      else if uid = ''developer'' then Some DeveloperPolicy
      else if uid = ''viewer'' then Some ViewerPolicy else None)"

text \<open>The policy a stored uid names in a project: a preset, or a row of that project.\<close>

definition named_policy :: "server_env \<Rightarrow> uint \<Rightarrow> string \<Rightarrow> policy option" where
  "named_policy env projectID uid =
     (case preset_policy uid of
        Some pol \<Rightarrow> Some pol
      | None \<Rightarrow>
          (case ReadPolicy (ev_repo env) projectID uid of
             Inl e \<Rightarrow> None
           | Inr row \<Rightarrow>
               (case ev_json_policy env (pol_PolicyBytes row) of Inl e \<Rightarrow> None | Inr pol \<Rightarrow> Some pol)))"

definition member_policy :: "server_env \<Rightarrow> uint \<Rightarrow> uint \<Rightarrow> policy option" where
  "member_policy env projID userID =
     (case ReadProjectRole (ev_repo env) projID userID of
        Inl e \<Rightarrow> None
      | Inr role \<Rightarrow> role_policy (ro_Kind role))"

text \<open>
  The policy of the authenticated subject in a project: of the API token if there is one, and
  only in the token's own project; otherwise of the user's role in the project.
\<close>

definition subject_policy :: "server_env \<Rightarrow> request_ctx \<Rightarrow> uint \<Rightarrow> policy option" where
  "subject_policy env ctx projID =
     (if projID = 0 then None
      else case ctx_api_token ctx of
             Some t \<Rightarrow>
               if at_ProjectID t = projID then named_policy env projID (at_PolicyUID t) else None
           | None \<Rightarrow>
               (case ctx_user ctx of
                  None \<Rightarrow> None
                | Some u \<Rightarrow> if us_ID u = 0 then None else member_policy env projID (us_ID u)))"

lemma GetAPIPolicyFromUID_policy:
  "(\<exists>p. GetAPIPolicyFromUID env i uid = Inr p \<and> ap_Policy p = pol) \<longleftrightarrow> named_policy env i uid = Some pol"
  by (auto simp: GetAPIPolicyFromUID_def named_policy_def preset_policy_def ToAPIPolicyType_def
      split: sum.splits)

lemma LoadPolicyDocuments_token:
  "LoadPolicyDocuments env \<lparr>plo_ProjectID = p, plo_UserID = u, plo_ProjectToken = Some t\<rparr> = Inr pol \<longleftrightarrow>
     p \<noteq> 0 \<and> at_ProjectID t = p \<and> named_policy env p (at_PolicyUID t) = Some pol"
  by (auto simp: LoadPolicyDocuments_def GetAPIPolicyFromUID_policy [symmetric] split: sum.splits)

lemma LoadPolicyDocuments_member:
  "LoadPolicyDocuments env \<lparr>plo_ProjectID = p, plo_UserID = u, plo_ProjectToken = None\<rparr> = Inr pol \<longleftrightarrow>
     p \<noteq> 0 \<and> u \<noteq> 0 \<and> member_policy env p u = Some pol"
  by (auto simp: LoadPolicyDocuments_def member_policy_def split: sum.splits role_kind.splits)

lemma LoadPolicyDocuments_subject:
  "(\<exists>opts. policy_opts ctx p = Some opts \<and> LoadPolicyDocuments env opts = Inr pol) \<longleftrightarrow>
     subject_policy env ctx p = Some pol"
  by (auto simp: policy_opts_def subject_policy_def LoadPolicyDocuments_token LoadPolicyDocuments_member
      split: option.splits)

definition project_of :: "req_scopes \<Rightarrow> uint option" where
  "project_of req = map_option (\<lambda>a. UInt (ra_Resource a)) (req ProjectScope)"

lemma PolicyHandler_Next:
  "PolicyHandler env meta r = Next r' \<longleftrightarrow>
     (\<exists>req p pol. getRequestActionForEndpoint r meta = Inr req \<and> project_of req = Some p \<and>
        subject_policy env (rq_ctx r) p = Some pol \<and> policy_permits pol req \<and>
        r' = r\<lparr>rq_ctx := (rq_ctx r)\<lparr>ctx_req_scopes := Some req\<rparr>\<rparr>)"
  unfolding LoadPolicyDocuments_subject [symmetric]
  by (auto simp: PolicyHandler_def project_of_def HasScopeAccess_eq
      split: sum.splits option.splits bool.splits)

lemma PolicyHandler_Panic:
  "PolicyHandler env meta r = Panic \<longleftrightarrow>
     (\<exists>req. getRequestActionForEndpoint r meta = Inr req \<and>
        (req ProjectScope = None \<or> ctx_api_token (rq_ctx r) = None \<and> ctx_user (rq_ctx r) = None))"
  by (auto simp: PolicyHandler_def policy_opts_def HasScopeAccess_eq
      split: sum.splits option.splits bool.splits)

lemma PolicyHandler_returns [simp]: "PolicyHandler env meta r \<noteq> Diverges"
  by (auto simp: PolicyHandler_def HasScopeAccess_eq split: sum.splits option.splits bool.splits)

lemma PolicyHandler_same_wire: "PolicyHandler env meta r = Next r' \<Longrightarrow> same_wire r r'"
  by (auto simp: PolicyHandler_Next same_wire_def)

lemma policy_permits_HasScopeAccess: "policy_permits pol req \<longleftrightarrow> HasScopeAccess pol req = Some True"
  by (simp add: HasScopeAccess_eq)

section \<open>A concrete request\<close>

definition sample_actions :: req_scopes where
  "sample_actions =
     [UserScope \<mapsto> \<lparr>ra_Verb = APIVerbGet, ra_Resource = \<lparr>Name = [], UInt = 0\<rparr>\<rparr>,
      ProjectScope \<mapsto> \<lparr>ra_Verb = APIVerbGet, ra_Resource = \<lparr>Name = [], UInt = 1\<rparr>\<rparr>,
      ClusterScope \<mapsto> \<lparr>ra_Verb = APIVerbGet, ra_Resource = \<lparr>Name = [], UInt = 2\<rparr>\<rparr>]"

definition with_user :: "request \<Rightarrow> user \<Rightarrow> request" where
  "with_user r u = r\<lparr>rq_ctx := (rq_ctx r)\<lparr>ctx_user := Some u\<rparr>\<rparr>"

lemma sample_actions_of:
  "rq_params r = rq_params (sample_request a c) \<Longrightarrow>
     getRequestActionForEndpoint r sample_meta = Inr sample_actions"
  by (simp add: getRequestActionForEndpoint_def sample_meta_def scope_resource_def uint_resource_def
      GetURLParamUint_def GetURLParamString_def url_param_defs sample_params ParseUint_small
      sample_actions_def)

lemma sample_actions_project [simp]: "project_of sample_actions = Some 1"
  by (simp add: project_of_def sample_actions_def)

lemma sample_actions_allowed:
  "policy_permits AdminPolicy sample_actions" "policy_permits DeveloperPolicy sample_actions"
  by (simp_all add: policy_permits_HasScopeAccess preset_rights_simps hierarchy_scopes_def action_in_def
      sample_actions_def ReadWriteVerbGroup_def)

lemma sample_member_passes:
  "PolicyHandler sample_env sample_meta (with_user (sample_request a c) sample_user) =
     Next ((with_user (sample_request a c) sample_user)\<lparr>rq_ctx :=
       empty_ctx\<lparr>ctx_user := Some sample_user, ctx_req_scopes := Some sample_actions\<rparr>\<rparr>)"
proof -
  let ?r = "with_user (sample_request a c) sample_user"
  have "getRequestActionForEndpoint ?r sample_meta = Inr sample_actions"
    by (rule sample_actions_of [of _ a c]) (simp add: with_user_def)
  moreover have "subject_policy sample_env (rq_ctx ?r) 1 = Some AdminPolicy"
    by (simp add: subject_policy_def with_user_def empty_ctx_def member_policy_def sample_role_read)
       (simp add: sample_role_def)
  ultimately show ?thesis
    using sample_actions_allowed(1) by (simp add: PolicyHandler_Next) (simp add: with_user_def)
qed

text \<open>
  C21. The policy middleware lets a request through exactly when every scope of the endpoint has
  its parameter in the URL (\<open>url_resource\<close>), the subject has a policy in the project the URL
  names (an API token its own policy, in its own project only; a user the policy of the role there:
  \<open>subject_policy\<close>), and that policy permits the endpoint's verb on the resources of the URL
  (\<open>policy_permits\<close>, the specification of \<open>HasScopeAccess\<close>). The request goes on with those
  actions recorded and is otherwise as it was.
\<close>

theorem PolicyHandler_exact:
  "PolicyHandler env meta r = Next r' \<longleftrightarrow>
     (\<exists>req p pol. requested r meta req \<and> project_of req = Some p \<and>
        subject_policy env (rq_ctx r) p = Some pol \<and> policy_permits pol req \<and>
        r' = r\<lparr>rq_ctx := (rq_ctx r)\<lparr>ctx_req_scopes := Some req\<rparr>\<rparr>)"
  unfolding getRequestActionForEndpoint_requested [symmetric] by (rule PolicyHandler_Next)

text \<open>
  Strangers are forbidden: on a route with a project, a user who has no role in the project
  the URL names gets 403 when the role is looked up, and so does an API token of another project.
\<close>

theorem PolicyHandler_forbids_strangers:
  assumes "getRequestActionForEndpoint r meta = Inr req" and "project_of req = Some p"
    and "case ctx_api_token (rq_ctx r) of
           Some t \<Rightarrow> at_ProjectID t \<noteq> p
         | None \<Rightarrow> \<exists>u. ctx_user (rq_ctx r) = Some u \<and>
             ReadProjectRole (ev_repo env) p (us_ID u) = Inl ErrRecordNotFound"
  shows "\<exists>msg. PolicyHandler env meta r = api_error (ErrForbidden msg)"
  using assms
  by (auto simp: PolicyHandler_def project_of_def policy_opts_def LoadPolicyDocuments_def
      split: option.splits)

theorem PolicyHandler_forbids_strangers_witness:
  "\<exists>msg. PolicyHandler sample_env sample_meta
      (with_token (sample_request [] []) (sample_api_token\<lparr>at_ProjectID := 9\<rparr>)) = api_error (ErrForbidden msg)"
proof (rule PolicyHandler_forbids_strangers [where p = 1 and req = sample_actions])
  show "getRequestActionForEndpoint
      (with_token (sample_request [] []) (sample_api_token\<lparr>at_ProjectID := 9\<rparr>)) sample_meta = Inr sample_actions"
    by (rule sample_actions_of [of _ "[]" "[]"]) (simp add: with_token_def)
qed (simp_all add: with_token_def)

section \<open>What a role can never do\<close>

definition role_allows :: "role_kind \<Rightarrow> api_request_metadata \<Rightarrow> bool" where
  "role_allows kind meta =
     (case kind of
        RoleAdmin \<Rightarrow> md_Verb meta \<in> set ReadWriteVerbGroup
      | RoleDeveloper \<Rightarrow> md_Verb meta \<in> set ReadWriteVerbGroup \<and>
          (SettingsScope \<notin> set (md_Scopes meta) \<or> md_Verb meta \<in> set ReadVerbGroup)
      | RoleViewer \<Rightarrow> md_Verb meta \<in> set ReadVerbGroup \<and> SettingsScope \<notin> set (md_Scopes meta)
      | _ \<Rightarrow> False)"

lemma role_bounds:
  assumes rq: "requested r meta req" and p: "project_of req = Some p"
    and pol: "subject_policy env ctx p = Some pol" "policy_permits pol req"
    and user: "ctx_api_token ctx = None" "ctx_user ctx = Some u"
  shows "\<exists>role. ReadProjectRole (ev_repo env) p (us_ID u) = Inr role \<and> role_allows (ro_Kind role) meta"
proof -
  obtain role where role: "ReadProjectRole (ev_repo env) p (us_ID u) = Inr role"
    and rp: "role_policy (ro_Kind role) = Some pol"
    using pol(1) user
    by (auto simp: subject_policy_def member_policy_def split: if_splits sum.splits)
  have verb: "ra_Verb a = md_Verb meta" if "req s = Some a" for s a
    using that requested_action [OF rq, of s] requested_absent [OF rq, of s]
    by (cases "s \<in> set (md_Scopes meta)") auto
  obtain a where a: "req ProjectScope = Some a" using p by (auto simp: project_of_def)
  have settings: "action_in (req SettingsScope) vs \<Longrightarrow>
      SettingsScope \<notin> set (md_Scopes meta) \<or> md_Verb meta \<in> set vs" for vs
    using requested_action [OF rq, of SettingsScope] by (auto simp: action_in_def)
  have project: "action_in (req ProjectScope) vs \<Longrightarrow> md_Verb meta \<in> set vs" for vs
    using verb [OF a] by (simp add: action_in_def a)
  have "role_allows (ro_Kind role) meta"
    using rp pol(2) settings [of ReadVerbGroup] settings [of "[]"] project [of ReadVerbGroup]
      project [of ReadWriteVerbGroup]
    by (cases "ro_Kind role")
       (auto simp: role_allows_def policy_permits_HasScopeAccess preset_rights_simps hierarchy_scopes_def)
  with role show ?thesis by auto
qed

text \<open>
  Roles bound the endpoints: a request that passes as a viewer reaches only an endpoint whose
  verb is get or list and whose scopes do not include the settings; as a developer, an endpoint
  with settings only for reading; as anybody with a preset role, an endpoint whose verb is known
  (\<open>role_allows\<close>).
\<close>

theorem role_bounds_endpoint:
  assumes "PolicyHandler env meta r = Next r'" and "ctx_api_token (rq_ctx r) = None"
    and "ctx_user (rq_ctx r) = Some u"
  shows "\<exists>p role req. ReadProjectRole (ev_repo env) p (us_ID u) = Inr role \<and>
     ctx_req_scopes (rq_ctx r') = Some req \<and> project_of req = Some p \<and>
     role_allows (ro_Kind role) meta"
proof -
  obtain req p pol where req: "getRequestActionForEndpoint r meta = Inr req" "project_of req = Some p"
    and pol: "subject_policy env (rq_ctx r) p = Some pol" "policy_permits pol req"
    and r': "r' = r\<lparr>rq_ctx := (rq_ctx r)\<lparr>ctx_req_scopes := Some req\<rparr>\<rparr>"
    using assms(1) unfolding PolicyHandler_Next by blast
  then show ?thesis
    using role_bounds [OF getRequestActionForEndpoint_Inr [OF req(1)] req(2) pol assms(2,3)] by auto
qed

theorem role_bounds_endpoint_witness:
  "\<exists>p role. ReadProjectRole (ev_repo sample_env) p (us_ID sample_user) = Inr role \<and>
     role_allows (ro_Kind role) sample_meta"
proof -
  have "ctx_api_token (rq_ctx (with_user (sample_request [] []) sample_user)) = None"
    "ctx_user (rq_ctx (with_user (sample_request [] []) sample_user)) = Some sample_user"
    by (simp_all add: with_user_def empty_ctx_def)
  from role_bounds_endpoint [OF sample_member_passes this] show ?thesis by force
qed

end
