(* ===== verification/Scoped_Middleware.thy ===== *)
theory Scoped_Middleware
  imports Policy_Middleware
begin

text \<open>
  The scope middlewares of \<open>api/server/authz\<close>: each reads the resource the URL names, through
  the project (or the infra) an earlier middleware attached, and attaches it to the context. The
  seven that share one shape share one contract, the locale \<open>scoped_middleware\<close>, which extends
  the contract of their read; releases and namespaces follow. A nil dereference is \<open>Panic\<close>.
\<close>

section \<open>The code\<close>

definition wanted :: "request_ctx \<Rightarrow> permission_scope \<Rightarrow> request_action option" where
  "wanted ctx scope = (case ctx_req_scopes ctx of None \<Rightarrow> None | Some reqScopes \<Rightarrow> reqScopes scope)"

definition attach :: "request \<Rightarrow> (request_ctx \<Rightarrow> request_ctx) \<Rightarrow> outcome" where
  "attach r put = Next (r\<lparr>rq_ctx := put (rq_ctx r)\<rparr>)"

definition ProjectScopedMiddleware :: "server_env \<Rightarrow> request \<Rightarrow> outcome" where
  "ProjectScopedMiddleware env r =
     (case wanted (rq_ctx r) ProjectScope of
        None \<Rightarrow> Panic
      | Some action \<Rightarrow>
          (let projID = UInt (ra_Resource action)
           in case ReadProject (ev_repo env) projID of
                Inl e \<Rightarrow> read_failed (''project not found with id '' @ show_id projID) e
              | Inr proj \<Rightarrow> attach r (\<lambda>ctx. ctx\<lparr>ctx_project := Some proj\<rparr>)))"

definition ClusterScopedMiddleware :: "server_env \<Rightarrow> request \<Rightarrow> outcome" where
  "ClusterScopedMiddleware env r =
     (case (ctx_project (rq_ctx r), wanted (rq_ctx r) ClusterScope) of
        (Some proj, Some action) \<Rightarrow>
          (let clusterID = UInt (ra_Resource action)
           in case ReadCluster (ev_repo env) (pr_ID proj) clusterID of
                Inl e \<Rightarrow> read_failed (''cluster with id '' @ show_id clusterID @
                           '' not found in project '' @ show_id (pr_ID proj)) e
              | Inr cluster \<Rightarrow> attach r (\<lambda>ctx. ctx\<lparr>ctx_cluster := Some cluster\<rparr>))
      | _ \<Rightarrow> Panic)"

definition RegistryScopedMiddleware :: "server_env \<Rightarrow> request \<Rightarrow> outcome" where
  "RegistryScopedMiddleware env r =
     (case (ctx_project (rq_ctx r), wanted (rq_ctx r) RegistryScope) of
        (Some proj, Some action) \<Rightarrow>
          (let registryID = UInt (ra_Resource action)
           in case ReadRegistry (ev_repo env) (pr_ID proj) registryID of
                Inl e \<Rightarrow> read_failed (''registry with id '' @ show_id registryID @
                           '' not found in project '' @ show_id (pr_ID proj)) e
              | Inr registry \<Rightarrow> attach r (\<lambda>ctx. ctx\<lparr>ctx_registry := Some registry\<rparr>))
      | _ \<Rightarrow> Panic)"

definition HelmRepoScopedMiddleware :: "server_env \<Rightarrow> request \<Rightarrow> outcome" where
  "HelmRepoScopedMiddleware env r =
     (case (ctx_project (rq_ctx r), wanted (rq_ctx r) HelmRepoScope) of
        (Some proj, Some action) \<Rightarrow>
          (let helmRepoID = UInt (ra_Resource action)
           in case ReadHelmRepo (ev_repo env) (pr_ID proj) helmRepoID of
                Inl e \<Rightarrow> read_failed (''helm repo with id '' @ show_id helmRepoID @
                           '' not found in project '' @ show_id (pr_ID proj)) e
              | Inr helmRepo \<Rightarrow> attach r (\<lambda>ctx. ctx\<lparr>ctx_helm_repo := Some helmRepo\<rparr>))
      | _ \<Rightarrow> Panic)"

definition InfraScopedMiddleware :: "server_env \<Rightarrow> request \<Rightarrow> outcome" where
  "InfraScopedMiddleware env r =
     (case (ctx_project (rq_ctx r), wanted (rq_ctx r) InfraScope) of
        (Some proj, Some action) \<Rightarrow>
          (let infraID = UInt (ra_Resource action)
           in case ReadInfra (ev_repo env) (pr_ID proj) infraID of
                Inl e \<Rightarrow> read_failed (''infra with id '' @ show_id infraID @
                           '' not found in project '' @ show_id (pr_ID proj)) e
              | Inr infra \<Rightarrow> attach r (\<lambda>ctx. ctx\<lparr>ctx_infra := Some infra\<rparr>))
      | _ \<Rightarrow> Panic)"

definition OperationScopedMiddleware :: "server_env \<Rightarrow> request \<Rightarrow> outcome" where
  "OperationScopedMiddleware env r =
     (case (ctx_infra (rq_ctx r), wanted (rq_ctx r) OperationScope) of
        (Some infra, Some action) \<Rightarrow>
          (case ReadOperation (ev_repo env) (in_ID infra) (Name (ra_Resource action)) of
             Inl e \<Rightarrow> read_failed (go_error_text e) e
           | Inr operation \<Rightarrow> attach r (\<lambda>ctx. ctx\<lparr>ctx_operation := Some operation\<rparr>))
      | _ \<Rightarrow> Panic)"

definition InviteScopedMiddleware :: "server_env \<Rightarrow> request \<Rightarrow> outcome" where
  "InviteScopedMiddleware env r =
     (case (ctx_project (rq_ctx r), wanted (rq_ctx r) InviteScope) of
        (Some proj, Some action) \<Rightarrow>
          (let inviteID = UInt (ra_Resource action)
           in case ReadInvite (ev_repo env) (pr_ID proj) inviteID of
                Inl e \<Rightarrow> read_failed (''invite with id '' @ show_id inviteID @
                           '' not found in project '' @ show_id (pr_ID proj)) e
              | Inr invite \<Rightarrow> attach r (\<lambda>ctx. ctx\<lparr>ctx_invite := Some invite\<rparr>))
      | _ \<Rightarrow> Panic)"

definition StackScopedMiddleware :: "server_env \<Rightarrow> request \<Rightarrow> outcome" where
  "StackScopedMiddleware env r =
     (case (ctx_project (rq_ctx r), wanted (rq_ctx r) StackScope) of
        (Some proj, Some action) \<Rightarrow>
          (let stackID = Name (ra_Resource action)
           in case ReadStackByStringID (ev_repo env) (pr_ID proj) stackID of
                Inl e \<Rightarrow> read_failed (''stack with id '' @ stackID @
                           '' not found in project '' @ show_id (pr_ID proj)) e
              | Inr stack \<Rightarrow> attach r (\<lambda>ctx. ctx\<lparr>ctx_stack := Some stack\<rparr>))
      | _ \<Rightarrow> Panic)"

definition GitlabIntegrationScopedMiddleware :: "server_env \<Rightarrow> request \<Rightarrow> outcome" where
  "GitlabIntegrationScopedMiddleware env r =
     (case (ctx_project (rq_ctx r), wanted (rq_ctx r) GitlabIntegrationScope) of
        (Some proj, Some action) \<Rightarrow>
          (let integrationID = UInt (ra_Resource action)
           in case ReadGitlabIntegration (ev_repo env) (pr_ID proj) integrationID of
                Inl e \<Rightarrow> read_failed (''gitlab integration not found with id '' @ show_id integrationID) e
              | Inr gi \<Rightarrow> attach r (\<lambda>ctx. ctx\<lparr>ctx_gitlab_integration := Some gi\<rparr>))
      | _ \<Rightarrow> Panic)"

definition NamespaceScopedMiddleware :: "server_env \<Rightarrow> request \<Rightarrow> outcome" where
  "NamespaceScopedMiddleware env r =
     (case wanted (rq_ctx r) NamespaceScope of
        None \<Rightarrow> Panic
      | Some action \<Rightarrow>
          (let namespace = Name (ra_Resource action);
               namespace = (if ToLower namespace = ''all'' then [] else namespace)
           in attach r (\<lambda>ctx. ctx\<lparr>ctx_namespace := Some namespace\<rparr>)))"

text \<open>
  The namespace a Helm agent works in, and the agent itself: the middleware asks for none, so it
  is the one of the request. \<open>GetAgent\<close> and \<open>GetHelmAgent\<close> look for an agent in the
  context first, but none is ever there: they store it in a copy of the request their caller
  does not see.
\<close>

definition getNamespaceFromRequest :: "request_ctx \<Rightarrow> string" where
  "getNamespaceFromRequest ctx =
     (let namespace = (case wanted ctx NamespaceScope of
                         None \<Rightarrow> ''default''
                       | Some nsPolicy \<Rightarrow> Name (ra_Resource nsPolicy))
      in if ToLower namespace = ''all'' then [] else namespace)"

definition GetHelmAgent :: "server_env \<Rightarrow> request_ctx \<Rightarrow> cluster \<Rightarrow> string \<Rightarrow> (go_error, string) go_result" where
  "GetHelmAgent env ctx cluster namespace =
     (let ns = (if namespace = [] then getNamespaceFromRequest ctx else namespace)
      in case ev_helm_agent env cluster ns of Some e \<Rightarrow> Inl e | None \<Rightarrow> Inr ns)"

definition ReleaseScopedMiddleware :: "server_env \<Rightarrow> request \<Rightarrow> outcome" where
  "ReleaseScopedMiddleware env r =
     (case ctx_cluster (rq_ctx r) of
        None \<Rightarrow> Panic
      | Some cluster \<Rightarrow>
          (case GetHelmAgent env (rq_ctx r) cluster [] of
             Inl e \<Rightarrow> api_error (ErrInternal (go_error_text e))
           | Inr ns \<Rightarrow>
               (case wanted (rq_ctx r) ReleaseScope of
                  None \<Rightarrow> Panic
                | Some action \<Rightarrow>
                    (let name = Name (ra_Resource action);
                         version = (case GetURLParamUint r URLParamReleaseVersion of
                                      Inl e \<Rightarrow> 0 | Inr v \<Rightarrow> v)
                     in case ev_get_release env cluster ns name (sint version) of
                          Inl e \<Rightarrow>
                            if contains_str (go_error_text e) ''not found''
                            then api_error (ErrPassThroughToClient ''release not found'' 404 [])
                            else api_error (ErrInternal (go_error_text e))
                        | Inr rel \<Rightarrow> attach r (\<lambda>ctx. ctx\<lparr>ctx_release := Some rel\<rparr>)))))"

section \<open>The contract of a scoped middleware\<close>

text \<open>The resource a request names at a scope satisfies \<open>P\<close>.\<close>

definition names :: "req_scopes \<Rightarrow> permission_scope \<Rightarrow> (name_or_uint \<Rightarrow> bool) \<Rightarrow> bool" where
  "names req s P = (case req s of None \<Rightarrow> False | Some a \<Rightarrow> P (ra_Resource a))"

locale scoped_middleware = scoped_read lawful_repo read owner ident
  for read :: "repo \<Rightarrow> uint \<Rightarrow> 'id \<Rightarrow> (go_error, 'row) go_result"
    and owner :: "'row \<Rightarrow> uint" and ident :: "'row \<Rightarrow> 'id" +
  fixes mw :: "server_env \<Rightarrow> request \<Rightarrow> outcome"
    and parent :: "request_ctx \<Rightarrow> uint option"
    and scope :: permission_scope
    and key :: "name_or_uint \<Rightarrow> 'id"
    and get :: "request_ctx \<Rightarrow> 'row option"
    and put :: "'row \<Rightarrow> request_ctx \<Rightarrow> request_ctx"
  assumes passes: "mw env r = Next r' \<longleftrightarrow>
      (\<exists>p a x. parent (rq_ctx r) = Some p \<and> wanted (rq_ctx r) scope = Some a \<and>
         read (ev_repo env) p (key (ra_Resource a)) = Inr x \<and> r' = r\<lparr>rq_ctx := put x (rq_ctx r)\<rparr>)"
    and panics: "mw env r = Panic \<longleftrightarrow> parent (rq_ctx r) = None \<or> wanted (rq_ctx r) scope = None"
    and returns: "mw env r \<noteq> Diverges"
    and missing: "parent (rq_ctx r) = Some p \<Longrightarrow> wanted (rq_ctx r) scope = Some a \<Longrightarrow>
      read (ev_repo env) p (key (ra_Resource a)) = Inl ErrRecordNotFound \<Longrightarrow>
      \<exists>msg. mw env r = api_error (ErrForbidden msg)"
    and get_put: "get (put x ctx) = Some x"
begin

text \<open>What a call that passes attached: the resource asked for, of its parent.\<close>

lemma attached_row:
  assumes "lawful_repo (ev_repo env)" and "mw env r = Next r'"
  shows "\<exists>p a x. parent (rq_ctx r) = Some p \<and> wanted (rq_ctx r) scope = Some a \<and>
    get (rq_ctx r') = Some x \<and> owner x = p \<and> ident x = key (ra_Resource a) \<and>
    r' = r\<lparr>rq_ctx := put x (rq_ctx r)\<rparr>"
  using assms read_owner read_ident by (auto simp: passes get_put)

lemma attached_named:
  assumes "lawful_repo (ev_repo env)" and "mw env r = Next r'" and "parent (rq_ctx r) = Some p"
    and "ctx_req_scopes (rq_ctx r) = Some req"
  obtains x where "owner x = p" "names req scope (\<lambda>a. key a = ident x)"
    "r' = r\<lparr>rq_ctx := put x (rq_ctx r)\<rparr>"
  using attached_row [OF assms(1,2)] assms(3,4) by (auto simp: names_def wanted_def)

lemma attached_read:
  assumes "lawful_repo (ev_repo env)" and "mw env r = Next r'" and "parent (rq_ctx r) = Some p"
    and "ctx_req_scopes (rq_ctx r) = Some req"
  obtains x where "owner x = p" "names req scope (\<lambda>a. key a = ident x)"
    "names req scope (\<lambda>a. read (ev_repo env) p (key a) = Inr x)" "r' = r\<lparr>rq_ctx := put x (rq_ctx r)\<rparr>"
  using assms read_owner read_ident by (fastforce simp: passes names_def wanted_def)

lemma wire: "mw env r = Next r' \<Longrightarrow> same_wire r r'"
  by (auto simp: passes same_wire_def)

lemma no_panic: "parent (rq_ctx r) \<noteq> None \<Longrightarrow> wanted (rq_ctx r) scope \<noteq> None \<Longrightarrow> mw env r \<noteq> Panic"
  by (simp add: panics)

text \<open>A resource of another parent is as good as none: the reply is 403.\<close>

lemma foreign_forbidden:
  "parent (rq_ctx r) = Some p \<Longrightarrow> wanted (rq_ctx r) scope = Some a \<Longrightarrow>
     read (ev_repo env) p (key (ra_Resource a)) = Inl ErrRecordNotFound \<Longrightarrow>
     mw env r \<noteq> Next r'"
  using missing by fastforce

end

definition project_id :: "request_ctx \<Rightarrow> uint option" where
  "project_id ctx = map_option pr_ID (ctx_project ctx)"

definition infra_id :: "request_ctx \<Rightarrow> uint option" where
  "infra_id ctx = map_option in_ID (ctx_infra ctx)"

lemmas scoped_mw_simps = attach_def project_id_def infra_id_def read_failed_def Let_def

interpretation cluster_mw: scoped_middleware ReadCluster cl_ProjectID cl_ID
  ClusterScopedMiddleware project_id ClusterScope UInt ctx_cluster "\<lambda>x. ctx_cluster_update (\<lambda>_. Some x)"
  by unfold_locales
     (auto simp: ClusterScopedMiddleware_def scoped_mw_simps split: option.splits sum.splits)

interpretation registry_mw: scoped_middleware ReadRegistry rg_ProjectID rg_ID
  RegistryScopedMiddleware project_id RegistryScope UInt ctx_registry "\<lambda>x. ctx_registry_update (\<lambda>_. Some x)"
  by unfold_locales
     (auto simp: RegistryScopedMiddleware_def scoped_mw_simps split: option.splits sum.splits)

interpretation helm_repo_mw: scoped_middleware ReadHelmRepo hr_ProjectID hr_ID
  HelmRepoScopedMiddleware project_id HelmRepoScope UInt ctx_helm_repo "\<lambda>x. ctx_helm_repo_update (\<lambda>_. Some x)"
  by unfold_locales
     (auto simp: HelmRepoScopedMiddleware_def scoped_mw_simps split: option.splits sum.splits)

interpretation infra_mw: scoped_middleware ReadInfra in_ProjectID in_ID
  InfraScopedMiddleware project_id InfraScope UInt ctx_infra "\<lambda>x. ctx_infra_update (\<lambda>_. Some x)"
  by unfold_locales
     (auto simp: InfraScopedMiddleware_def scoped_mw_simps split: option.splits sum.splits)

interpretation operation_mw: scoped_middleware ReadOperation op_InfraID op_UID
  OperationScopedMiddleware infra_id OperationScope Name ctx_operation "\<lambda>x. ctx_operation_update (\<lambda>_. Some x)"
  by unfold_locales
     (auto simp: OperationScopedMiddleware_def scoped_mw_simps split: option.splits sum.splits)

interpretation invite_mw: scoped_middleware ReadInvite iv_ProjectID iv_ID
  InviteScopedMiddleware project_id InviteScope UInt ctx_invite "\<lambda>x. ctx_invite_update (\<lambda>_. Some x)"
  by unfold_locales
     (auto simp: InviteScopedMiddleware_def scoped_mw_simps split: option.splits sum.splits)

interpretation stack_mw: scoped_middleware ReadStackByStringID st_ProjectID st_UID
  StackScopedMiddleware project_id StackScope Name ctx_stack "\<lambda>x. ctx_stack_update (\<lambda>_. Some x)"
  by unfold_locales
     (auto simp: StackScopedMiddleware_def scoped_mw_simps split: option.splits sum.splits)

interpretation gitlab_mw: scoped_middleware ReadGitlabIntegration gi_ProjectID gi_ID
  GitlabIntegrationScopedMiddleware project_id GitlabIntegrationScope UInt ctx_gitlab_integration
  "\<lambda>x. ctx_gitlab_integration_update (\<lambda>_. Some x)"
  by unfold_locales
     (auto simp: GitlabIntegrationScopedMiddleware_def scoped_mw_simps split: option.splits sum.splits)

end
