(* ===== verification/Git_Installation.thy ===== *)
theory Git_Installation
  imports Scoped_Middleware
begin

text \<open>
  \<open>api/server/authz/git_installation.go\<close> and \<open>GetAccessToken\<close> of
  \<open>internal/oauth/config.go\<close>: a user may use a GitHub App installation when it belongs to the
  user's own GitHub account or to an organisation GitHub lists for the user. The loop over the
  pages of organisations never advances its page; it is a partial function, with no value when
  it does not return.
\<close>

section \<open>Refreshing the OAuth token (\<open>internal/oauth/config.go\<close>)\<close>

text \<open>
  The token source is the OAuth library; \<open>updateToken\<close> gets a token that differs and may fail.
  The result is the error or the token, and the token that was handed to \<open>updateToken\<close>, if any.
  Go's zero time is \<open>None\<close>.
\<close>

definition GetAccessToken ::
  "int \<Rightarrow> bool \<Rightarrow> (oauth_token \<Rightarrow> (go_error, oauth_token) go_result) \<Rightarrow> oauth_token \<Rightarrow>
     (oauth_token \<Rightarrow> go_error option) \<Rightarrow> (go_error, oauth_token) go_result \<times> oauth_token option" where
  "GetAccessToken now is_do token_source prevToken updateToken =
     (case prevToken of (access, refresh, expiry) \<Rightarrow>
        (let expiry = (if is_do \<and> expiry = None then Some (now - 60) else expiry)
         in case token_source (access, refresh, expiry) of
              Inl e \<Rightarrow> (Inl e, None)
            | Inr token \<Rightarrow>
                if fst token \<noteq> access
                then (case updateToken token of
                        Some e \<Rightarrow> (Inl e, Some token)
                      | None \<Rightarrow> (Inr token, Some token))
                else (Inr token, None)))"

definition set_oauth_token :: "github_app_oauth \<Rightarrow> oauth_token \<Rightarrow> github_app_oauth" where
  "set_oauth_token oa tok =
     (case tok of (access, refresh, expiry) \<Rightarrow>
        oa\<lparr>go_AccessToken := access, go_RefreshToken := refresh, go_Expiry := expiry\<rparr>)"

section \<open>The access check\<close>

text \<open>The pages of organisations: call \<open>k\<close> of the API, always for page 1.\<close>

partial_function (option) list_accounts ::
  "github_api \<Rightarrow> github_app_oauth \<Rightarrow> nat \<Rightarrow> int list \<Rightarrow> (go_error, int list) go_result option" where
  "list_accounts gh oauth k accountIDs =
     (case gh_list_orgs gh oauth k 1 of
        Inl e \<Rightarrow> Some (Inl e)
      | Inr (orgs, nextPage) \<Rightarrow>
          if nextPage = 0 then Some (Inr (accountIDs @ orgs))
          else list_accounts gh oauth (Suc k) (accountIDs @ orgs))"

text \<open>
  \<open>doesUserHaveGitInstallationAccess\<close>: the part after the token is refreshed, then the whole.
  No result when it does not return, else its error, and the row it saved. An error of the last
  read is dropped: no installations.
\<close>

definition account_access ::
  "server_env \<Rightarrow> github_app_oauth \<Rightarrow> uint \<Rightarrow> string option option" where
  "account_access env oauthInt gitInstallationID =
     (case gh_current_user (ev_github env) oauthInt of
        Inl e \<Rightarrow> Some (Some (go_error_text e))
      | Inr userAccount \<Rightarrow>
          (case list_accounts (ev_github env) oauthInt 0 [userAccount] of
             None \<Rightarrow> None
           | Some (Inl e) \<Rightarrow> Some (Some (go_error_text e))
           | Some (Inr accountIDs) \<Rightarrow>
               (let installations =
                      (case ReadGithubAppInstallationByAccountIDs (ev_repo env) accountIDs of
                         Inl e \<Rightarrow> [] | Inr rows \<Rightarrow> rows)
                in if list_ex (\<lambda>i. word_of_int (ga_InstallationID i) = gitInstallationID) installations
                   then Some None
                   else Some (Some (''user does not have access to github app installation ''
                               @ show_id gitInstallationID)))))"

definition refreshed_oauth ::
  "server_env \<Rightarrow> github_app_oauth \<Rightarrow> (go_error, github_app_oauth) go_result \<times> effect list" where
  "refreshed_oauth env oauthInt =
     (case GetAccessToken (ev_now env) False (gh_token_source (ev_github env))
             (go_AccessToken oauthInt, go_RefreshToken oauthInt, go_Expiry oauthInt)
             (\<lambda>tok. ev_save_oauth env (set_oauth_token oauthInt tok)) of
        (res, updated) \<Rightarrow>
          (let oauthInt' = (case updated of None \<Rightarrow> oauthInt | Some tok \<Rightarrow> set_oauth_token oauthInt tok);
               w = (case updated of None \<Rightarrow> [] | Some tok \<Rightarrow> [UpdateGithubAppOauth oauthInt'])
           in (map_sum id (\<lambda>_. oauthInt') res, w)))"

definition doesUserHaveGitInstallationAccess ::
  "server_env \<Rightarrow> uint \<Rightarrow> uint \<Rightarrow> string option option \<times> effect list" where
  "doesUserHaveGitInstallationAccess env githubIntegrationID gitInstallationID =
     (case ReadGithubAppOauthIntegration (ev_repo env) githubIntegrationID of
        Inl e \<Rightarrow> (Some (Some (go_error_text e)), [])
      | Inr oauthInt \<Rightarrow>
          if \<not> gh_app_conf (ev_github env)
          then (Some (Some ''config has invalid GithubAppConf''), [])
          else (case refreshed_oauth env oauthInt of
                  (Inl e, w) \<Rightarrow> (Some (Some (go_error_text e)), w)
                | (Inr oauthInt', w) \<Rightarrow> (account_access env oauthInt' gitInstallationID, w)))"

definition GitInstallationScopedMiddleware :: "server_env \<Rightarrow> middleware" where
  "GitInstallationScopedMiddleware env r =
     (case wanted (rq_ctx r) GitInstallationScope of
        None \<Rightarrow> (Panic, [])
      | Some action \<Rightarrow>
          (let gitInstallationID = UInt (ra_Resource action)
           in case ReadGithubAppInstallationByInstallationID (ev_repo env) gitInstallationID of
                Inl e \<Rightarrow> (read_failed (go_error_text e) e, [])
              | Inr gitInstallation \<Rightarrow>
                  (case ctx_user (rq_ctx r) of
                     None \<Rightarrow> (Panic, [])
                   | Some user \<Rightarrow>
                       (case doesUserHaveGitInstallationAccess env
                               (us_GithubAppIntegrationID user) gitInstallationID of
                          (None, w) \<Rightarrow> (Diverges, w)
                        | (Some (Some e), w) \<Rightarrow> (api_error (ErrInternal e), w)
                        | (Some None, w) \<Rightarrow>
                            (attach r (\<lambda>ctx. ctx\<lparr>ctx_git_installation := Some gitInstallation\<rparr>), w)))))"

section \<open>The loop\<close>

text \<open>Whatever it returns, some answer was an error or the last page.\<close>

lemma list_accounts_returned:
  "list_accounts gh oauth k acc = Some y \<Longrightarrow>
     \<exists>j. case gh_list_orgs gh oauth j 1 of Inl e \<Rightarrow> True | Inr (orgs, nextPage) \<Rightarrow> nextPage = 0"
proof (induction rule: list_accounts.raw_induct [rotated 1, consumes 1, case_names step])
  case (step f gh oauth k acc y)
  show ?case
  proof (cases "gh_list_orgs gh oauth k 1")
    case (Inl e)
    then show ?thesis by (intro exI [where x = k]) simp
  next
    case (Inr page)
    obtain orgs nextPage where page: "page = (orgs, nextPage)" by (cases page)
    show ?thesis
    proof (cases "nextPage = 0")
      case True
      with Inr page show ?thesis by (intro exI [where x = k]) simp
    next
      case False
      with step(2) Inr page have "f gh oauth (Suc k) (acc @ orgs) = Some y" by simp
      then show ?thesis by (rule step(1))
    qed
  qed
qed

lemma list_accounts_diverges:
  assumes "\<And>k. \<exists>orgs pg. gh_list_orgs gh oauth k 1 = Inr (orgs, pg) \<and> pg \<noteq> 0"
  shows "list_accounts gh oauth k acc = None"
proof (cases "list_accounts gh oauth k acc")
  case (Some y)
  then obtain j where "case gh_list_orgs gh oauth j 1 of Inl e \<Rightarrow> True | Inr (orgs, nextPage) \<Rightarrow> nextPage = 0"
    using list_accounts_returned by blast
  with assms [of j] show ?thesis by auto
qed

text \<open>GitHub answers the same question the same way each time it is asked.\<close>

definition stable_github :: "github_api \<Rightarrow> bool" where
  "stable_github gh \<longleftrightarrow> (\<forall>oauth k page. gh_list_orgs gh oauth k page = gh_list_orgs gh oauth 0 page)"

lemma list_accounts_stable:
  assumes "stable_github gh"
  shows "list_accounts gh oauth k acc =
    (case gh_list_orgs gh oauth 0 1 of
       Inl e \<Rightarrow> Some (Inl e)
     | Inr (orgs, pg) \<Rightarrow> if pg = 0 then Some (Inr (acc @ orgs)) else None)"
proof (cases "\<exists>orgs pg. gh_list_orgs gh oauth 0 1 = Inr (orgs, pg) \<and> pg \<noteq> 0")
  case True
  then have "\<exists>orgs pg. gh_list_orgs gh oauth j 1 = Inr (orgs, pg) \<and> pg \<noteq> 0" for j
    using assms unfolding stable_github_def by metis
  then have "list_accounts gh oauth k acc = None" by (rule list_accounts_diverges)
  with True show ?thesis by auto
next
  case False
  have "gh_list_orgs gh oauth k 1 = gh_list_orgs gh oauth 0 1"
    using assms unfolding stable_github_def by metis
  with False show ?thesis
    by (subst list_accounts.simps) (auto split: sum.split)
qed

lemma list_accounts_from_github:
  "list_accounts gh oauth k acc = Some (Inr ids) \<Longrightarrow> x \<in> set ids \<Longrightarrow>
     x \<in> set acc \<or> (\<exists>j orgs pg. gh_list_orgs gh oauth j 1 = Inr (orgs, pg) \<and> x \<in> set orgs)"
proof (induction "Inr ids :: (go_error, int list) go_result" arbitrary: ids
    rule: list_accounts.raw_induct [rotated 1, consumes 1, case_names step])
  case (step f gh oauth k acc)
  show ?case
  proof (cases "gh_list_orgs gh oauth k 1")
    case (Inl e)
    with step(2) show ?thesis by simp
  next
    case (Inr page)
    obtain orgs pg where page: "page = (orgs, pg)" by (cases page)
    show ?thesis
    proof (cases "pg = 0")
      case True
      with step(2) Inr page have "ids = acc @ orgs" by simp
      with step(3) Inr page show ?thesis by auto
    next
      case False
      with step(2) Inr page have "f gh oauth (Suc k) (acc @ orgs) = Some (Inr ids)" by simp
      from step(1) [OF this step(3)] Inr page show ?thesis by auto
    qed
  qed
qed

section \<open>What the middleware guarantees\<close>

lemma github_find:
  "lawful_repo db \<Longrightarrow> ReadGithubAppInstallationByAccountIDs db ids = Inr rows \<Longrightarrow> i \<in> set rows \<Longrightarrow>
     ga_AccountID i \<in> set ids"
  unfolding ReadGithubAppInstallationByAccountIDs_def by (rule lawful_repo_find)

text \<open>
  GitHub lists for the user an account with that installation: asked with the credential stored
  for the user, it names the user's account, and one of the installations stored for that account
  or for an organisation it lists has the id.
\<close>

definition github_lists :: "server_env \<Rightarrow> user \<Rightarrow> uint \<Rightarrow> bool" where
  "github_lists env u gid \<longleftrightarrow>
     (\<exists>stored oauth account ids rows (i :: github_app_installation).
        ReadGithubAppOauthIntegration (ev_repo env) (us_GithubAppIntegrationID u) = Inr stored \<and>
        fst (refreshed_oauth env stored) = Inr oauth \<and>
        gh_current_user (ev_github env) oauth = Inr account \<and>
        ReadGithubAppInstallationByAccountIDs (ev_repo env) ids = Inr rows \<and> i \<in> set rows \<and>
        word_of_int (ga_InstallationID i) = gid \<and>
        (ga_AccountID i = account \<or>
         (\<exists>j orgs pg. gh_list_orgs (ev_github env) oauth j 1 = Inr (orgs, pg) \<and> ga_AccountID i \<in> set orgs)))"

lemma account_access_granted:
  assumes "lawful_repo (ev_repo env)" and "account_access env oauth gid = Some None"
  shows "\<exists>account ids rows (i :: github_app_installation). gh_current_user (ev_github env) oauth = Inr account \<and>
    ReadGithubAppInstallationByAccountIDs (ev_repo env) ids = Inr rows \<and> i \<in> set rows \<and>
    word_of_int (ga_InstallationID i) = gid \<and>
    (ga_AccountID i = account \<or>
     (\<exists>j orgs pg. gh_list_orgs (ev_github env) oauth j 1 = Inr (orgs, pg) \<and> ga_AccountID i \<in> set orgs))"
proof -
  obtain account ids rows i where
    user: "gh_current_user (ev_github env) oauth = Inr account"
    and orgs: "list_accounts (ev_github env) oauth 0 [account] = Some (Inr ids)"
    and rows: "ReadGithubAppInstallationByAccountIDs (ev_repo env) ids = Inr rows"
    and i: "i \<in> set rows" "word_of_int (ga_InstallationID i) = gid"
  proof -
    obtain account ids where 1: "gh_current_user (ev_github env) oauth = Inr account"
      "list_accounts (ev_github env) oauth 0 [account] = Some (Inr ids)"
      using assms(2) by (auto simp: account_access_def split: sum.splits option.splits)
    then obtain rows i where "ReadGithubAppInstallationByAccountIDs (ev_repo env) ids = Inr rows"
      "i \<in> set rows" "word_of_int (ga_InstallationID i) = gid"
      using assms(2) by (cases "ReadGithubAppInstallationByAccountIDs (ev_repo env) ids")
        (auto simp: account_access_def Let_def list_ex_iff split: if_splits)
    with 1 show thesis by (rule that)
  qed
  have "ga_AccountID i \<in> set ids" using assms(1) rows i(1) by (rule github_find)
  from list_accounts_from_github [OF orgs this]
  have "ga_AccountID i = account \<or> (\<exists>j orgs pg.
      gh_list_orgs (ev_github env) oauth j 1 = Inr (orgs, pg) \<and> ga_AccountID i \<in> set orgs)" by simp
  with user rows i show ?thesis by blast
qed

lemma doesUserHaveGitInstallationAccess_result:
  "fst (doesUserHaveGitInstallationAccess env integrationID gid) = res \<longleftrightarrow>
     (case ReadGithubAppOauthIntegration (ev_repo env) integrationID of
        Inl e \<Rightarrow> res = Some (Some (go_error_text e))
      | Inr stored \<Rightarrow>
          if \<not> gh_app_conf (ev_github env) then res = Some (Some ''config has invalid GithubAppConf'')
          else (case fst (refreshed_oauth env stored) of
                  Inl e \<Rightarrow> res = Some (Some (go_error_text e))
                | Inr oauth \<Rightarrow> res = account_access env oauth gid))"
  by (auto simp: doesUserHaveGitInstallationAccess_def split: sum.split prod.split)

lemma GitInstallation_Next:
  "fst (GitInstallationScopedMiddleware env r) = Next r' \<longleftrightarrow>
     (\<exists>a g u. wanted (rq_ctx r) GitInstallationScope = Some a \<and>
        ReadGithubAppInstallationByInstallationID (ev_repo env) (UInt (ra_Resource a)) = Inr g \<and>
        ctx_user (rq_ctx r) = Some u \<and>
        fst (doesUserHaveGitInstallationAccess env (us_GithubAppIntegrationID u) (UInt (ra_Resource a))) = Some None \<and>
        r' = r\<lparr>rq_ctx := (rq_ctx r)\<lparr>ctx_git_installation := Some g\<rparr>\<rparr>)"
  by (auto simp: GitInstallationScopedMiddleware_def Let_def attach_def
      split: option.splits sum.splits prod.splits)

lemma GitInstallation_Panic:
  "fst (GitInstallationScopedMiddleware env r) = Panic \<Longrightarrow>
     wanted (rq_ctx r) GitInstallationScope = None \<or> ctx_user (rq_ctx r) = None"
  by (auto simp: GitInstallationScopedMiddleware_def Let_def attach_def
      split: option.splits sum.splits prod.splits)

lemma GitInstallation_listed:
  assumes "lawful_repo (ev_repo env)" and "fst (GitInstallationScopedMiddleware env r) = Next r'"
    and "ctx_req_scopes (rq_ctx r) = Some req"
  shows "\<exists>g. names req GitInstallationScope (\<lambda>a. ga_InstallationID g = Word.uint (UInt a) \<and>
      (\<exists>u. ctx_user (rq_ctx r) = Some u \<and> github_lists env u (UInt a))) \<and>
    r' = r\<lparr>rq_ctx := (rq_ctx r)\<lparr>ctx_git_installation := Some g\<rparr>\<rparr>"
proof -
  obtain a g u where a: "wanted (rq_ctx r) GitInstallationScope = Some a"
    and g: "ReadGithubAppInstallationByInstallationID (ev_repo env) (UInt (ra_Resource a)) = Inr g"
    and u: "ctx_user (rq_ctx r) = Some u"
    and acc: "fst (doesUserHaveGitInstallationAccess env (us_GithubAppIntegrationID u)
                (UInt (ra_Resource a))) = Some None"
    and r': "r' = r\<lparr>rq_ctx := (rq_ctx r)\<lparr>ctx_git_installation := Some g\<rparr>\<rparr>"
    using assms(2) unfolding GitInstallation_Next by blast
  have id: "ga_InstallationID g = Word.uint (UInt (ra_Resource a))"
    using g lawful_repoD(14) [OF assms(1)] unfolding ReadGithubAppInstallationByInstallationID_def by blast
  obtain stored oauth where
    "ReadGithubAppOauthIntegration (ev_repo env) (us_GithubAppIntegrationID u) = Inr stored"
    "fst (refreshed_oauth env stored) = Inr oauth"
    "account_access env oauth (UInt (ra_Resource a)) = Some None"
    using acc by (auto simp: doesUserHaveGitInstallationAccess_result split: sum.splits if_splits)
  then have "github_lists env u (UInt (ra_Resource a))"
    using account_access_granted [OF assms(1)] unfolding github_lists_def by blast
  with a g id u r' assms(3) show ?thesis by (auto simp: names_def wanted_def)
qed

text \<open>
  A request reaches a git installation only when the installation is the one the URL names
  and belongs to the GitHub account of the user or to an organisation GitHub lists for the user.
\<close>

theorem GitInstallation_authorized:
  assumes "lawful_repo (ev_repo env)" and "fst (GitInstallationScopedMiddleware env r) = Next r'"
  shows "\<exists>a g oauth account (i :: github_app_installation). wanted (rq_ctx r) GitInstallationScope = Some a \<and>
    ctx_git_installation (rq_ctx r') = Some g \<and> ga_InstallationID g = Word.uint (UInt (ra_Resource a)) \<and>
    gh_current_user (ev_github env) oauth = Inr account \<and>
    word_of_int (ga_InstallationID i) = UInt (ra_Resource a) \<and>
    (ga_AccountID i = account \<or>
     (\<exists>j orgs pg. gh_list_orgs (ev_github env) oauth j 1 = Inr (orgs, pg) \<and> ga_AccountID i \<in> set orgs))"
proof -
  obtain a g u where a: "wanted (rq_ctx r) GitInstallationScope = Some a"
    and g: "ReadGithubAppInstallationByInstallationID (ev_repo env) (UInt (ra_Resource a)) = Inr g"
    and u: "ctx_user (rq_ctx r) = Some u"
    and acc: "fst (doesUserHaveGitInstallationAccess env (us_GithubAppIntegrationID u)
                (UInt (ra_Resource a))) = Some None"
    and r': "r' = r\<lparr>rq_ctx := (rq_ctx r)\<lparr>ctx_git_installation := Some g\<rparr>\<rparr>"
    using assms(2) unfolding GitInstallation_Next by blast
  have "ga_InstallationID g = Word.uint (UInt (ra_Resource a))"
    using g lawful_repoD(14) [OF assms(1)] unfolding ReadGithubAppInstallationByInstallationID_def by blast
  moreover obtain oauth where "account_access env oauth (UInt (ra_Resource a)) = Some None"
    using acc by (auto simp: doesUserHaveGitInstallationAccess_result split: sum.splits if_splits)
  ultimately show ?thesis using a r' account_access_granted [OF assms(1)] by fastforce
qed

text \<open>A user whose own account, 11, has the installation 12.\<close>

definition git_request :: request where
  "git_request = (sample_request [] [])\<lparr>rq_ctx := empty_ctx\<lparr>ctx_user := Some sample_user,
     ctx_req_scopes := Some [GitInstallationScope \<mapsto>
       \<lparr>ra_Verb = APIVerbGet, ra_Resource = \<lparr>Name = [], UInt = 12\<rparr>\<rparr>]\<rparr>\<rparr>"

lemma sample_git_reads:
  "ReadGithubAppInstallationByInstallationID (ev_repo sample_env) 12 =
     Inr \<lparr>ga_AccountID = 11, ga_InstallationID = 12\<rparr>"
  "ReadGithubAppOauthIntegration (ev_repo sample_env) 3 =
     Inr \<lparr>go_ID = 3, go_AccessToken = ''a'', go_RefreshToken = ''r'', go_Expiry = None\<rparr>"
  by (simp_all add: ReadGithubAppInstallationByInstallationID_def ReadGithubAppOauthIntegration_def
      sample_env_def sample_repo_def table_first_def)

lemma sample_git_user: "us_GithubAppIntegrationID sample_user = 3"
  by (simp add: sample_user_def)

lemma sample_refreshed:
  "refreshed_oauth sample_env oauth = (Inr oauth, [])"
  by (simp add: refreshed_oauth_def GetAccessToken_def sample_env_def)

lemma sample_git_access:
  "account_access sample_env oauth 12 = Some None"
  by (simp add: account_access_def list_accounts.simps sample_env_def sample_repo_def
      ReadGithubAppInstallationByAccountIDs_def table_find_def)

lemma sample_git_passes:
  "fst (GitInstallationScopedMiddleware sample_env git_request) =
     Next (git_request\<lparr>rq_ctx := (rq_ctx git_request)\<lparr>ctx_git_installation :=
       Some \<lparr>ga_AccountID = 11, ga_InstallationID = 12\<rparr>\<rparr>\<rparr>)"
proof -
  have "gh_app_conf (ev_github sample_env)" by (simp add: sample_env_def)
  then have "fst (doesUserHaveGitInstallationAccess sample_env 3 12) = Some None"
    by (simp add: doesUserHaveGitInstallationAccess_result sample_git_reads sample_refreshed sample_git_access)
  then show ?thesis
    by (simp add: GitInstallation_Next git_request_def wanted_def sample_git_reads sample_git_user)
qed

theorem GitInstallation_authorized_witness:
  "\<exists>oauth account. gh_current_user (ev_github sample_env) oauth = Inr account \<and>
     wanted (rq_ctx git_request) GitInstallationScope \<noteq> None"
  using GitInstallation_authorized [OF sample_repo_lawful sample_git_passes] by blast

definition asks_for_orgs :: "server_env \<Rightarrow> request \<Rightarrow> github_app_oauth \<Rightarrow> bool" where
  "asks_for_orgs env r oauth \<longleftrightarrow>
     (\<exists>a g u stored acc. wanted (rq_ctx r) GitInstallationScope = Some a \<and>
        ReadGithubAppInstallationByInstallationID (ev_repo env) (UInt (ra_Resource a)) = Inr g \<and>
        ctx_user (rq_ctx r) = Some u \<and>
        ReadGithubAppOauthIntegration (ev_repo env) (us_GithubAppIntegrationID u) = Inr stored \<and>
        gh_app_conf (ev_github env) \<and> fst (refreshed_oauth env stored) = Inr oauth \<and>
        gh_current_user (ev_github env) oauth = Inr acc)"

lemma account_access_diverges:
  "account_access env oauth gid = None \<longleftrightarrow>
     (\<exists>acc. gh_current_user (ev_github env) oauth = Inr acc \<and>
            list_accounts (ev_github env) oauth 0 [acc] = None)"
  by (auto simp: account_access_def Let_def split: sum.splits option.splits)

lemma doesUserHaveGitInstallationAccess_diverges:
  "fst (doesUserHaveGitInstallationAccess env integrationID gid) = None \<longleftrightarrow>
     (\<exists>stored oauth. ReadGithubAppOauthIntegration (ev_repo env) integrationID = Inr stored \<and>
        gh_app_conf (ev_github env) \<and> fst (refreshed_oauth env stored) = Inr oauth \<and>
        account_access env oauth gid = None)"
  unfolding doesUserHaveGitInstallationAccess_result by (auto split: sum.splits)

lemma GitInstallation_diverges_iff:
  "fst (GitInstallationScopedMiddleware env r) = Diverges \<longleftrightarrow>
     (\<exists>a g u. wanted (rq_ctx r) GitInstallationScope = Some a \<and>
        ReadGithubAppInstallationByInstallationID (ev_repo env) (UInt (ra_Resource a)) = Inr g \<and>
        ctx_user (rq_ctx r) = Some u \<and>
        fst (doesUserHaveGitInstallationAccess env (us_GithubAppIntegrationID u) (UInt (ra_Resource a))) = None)"
  by (auto simp: GitInstallationScopedMiddleware_def Let_def attach_def
      split: option.splits sum.splits prod.splits)

lemma GitInstallation_Diverges:
  "fst (GitInstallationScopedMiddleware env r) = Diverges \<longleftrightarrow>
     (\<exists>oauth acc. asks_for_orgs env r oauth \<and> gh_current_user (ev_github env) oauth = Inr acc \<and>
        list_accounts (ev_github env) oauth 0 [acc] = None)"
  unfolding GitInstallation_diverges_iff doesUserHaveGitInstallationAccess_diverges
    account_access_diverges asks_for_orgs_def by blast

text \<open>
  The paging loop never turns the page: when GitHub answers the same question the same way
  each time, the middleware does not return exactly if it gets as far as listing organisations
  and the first page is not the last.
\<close>

theorem GitInstallation_loops:
  assumes "stable_github (ev_github env)"
  shows "fst (GitInstallationScopedMiddleware env r) = Diverges \<longleftrightarrow>
    (\<exists>oauth orgs pg. asks_for_orgs env r oauth \<and>
       gh_list_orgs (ev_github env) oauth 0 1 = Inr (orgs, pg) \<and> pg \<noteq> 0)"
proof -
  have "list_accounts (ev_github env) oauth 0 [acc] = None \<longleftrightarrow>
      (\<exists>orgs pg. gh_list_orgs (ev_github env) oauth 0 1 = Inr (orgs, pg) \<and> pg \<noteq> 0)" for oauth acc
    unfolding list_accounts_stable [OF assms] by (auto split: sum.split)
  moreover have "asks_for_orgs env r oauth \<Longrightarrow> \<exists>acc. gh_current_user (ev_github env) oauth = Inr acc" for oauth
    by (auto simp: asks_for_orgs_def)
  ultimately show ?thesis unfolding GitInstallation_Diverges by blast
qed

text \<open>GitHub with two pages of organisations for everybody.\<close>

definition busy_env :: server_env where
  "busy_env = sample_env\<lparr>ev_github := (ev_github sample_env)\<lparr>gh_list_orgs := (\<lambda>_ _ page. Inr ([int page], 2))\<rparr>\<rparr>"

theorem GitInstallation_loops_witness:
  "fst (GitInstallationScopedMiddleware busy_env git_request) = Diverges"
proof -
  have stable: "stable_github (ev_github busy_env)"
    by (simp add: busy_env_def stable_github_def)
  have "asks_for_orgs busy_env git_request
      \<lparr>go_ID = 3, go_AccessToken = ''a'', go_RefreshToken = ''r'', go_Expiry = None\<rparr>"
    unfolding asks_for_orgs_def
    by (simp add: busy_env_def git_request_def wanted_def sample_git_user sample_git_reads)
       (simp add: refreshed_oauth_def GetAccessToken_def sample_env_def)
  moreover have "gh_list_orgs (ev_github busy_env) oauth 0 1 = Inr ([1], 2)" for oauth
    by (simp add: busy_env_def)
  ultimately show ?thesis
    unfolding GitInstallation_loops [OF stable] by fastforce
qed

end
