(* ===== verification/Usage.thy ===== *)
theory Usage
  imports Scoped_Middleware
begin

text \<open>
  Usage limits: the plans of \<open>api/types/usage.go\<close>, \<open>internal/usage\<close> (community edition)
  with its cached counts, and the usage middleware \<open>router/middleware/usage.go\<close>. Counts are
  64-bit and wrap, as in the code.
\<close>

section \<open>Plans (\<open>api/types/usage.go\<close>)\<close>

record project_usage =
  pu_ResourceCPU :: uint
  pu_ResourceMemory :: uint
  pu_Clusters :: uint
  pu_Users :: uint

definition BasicPlan :: project_usage where
  "BasicPlan = \<lparr>pu_ResourceCPU = 10, pu_ResourceMemory = 20000, pu_Clusters = 1, pu_Users = 1\<rparr>"

definition TeamPlan :: project_usage where
  "TeamPlan = \<lparr>pu_ResourceCPU = 20, pu_ResourceMemory = 40000, pu_Clusters = 3, pu_Users = 3\<rparr>"

definition GrowthPlan :: project_usage where
  "GrowthPlan = \<lparr>pu_ResourceCPU = 80, pu_ResourceMemory = 160000, pu_Clusters = 0, pu_Users = 5\<rparr>"

definition EnterprisePlan :: project_usage where
  "EnterprisePlan = \<lparr>pu_ResourceCPU = 0, pu_ResourceMemory = 0, pu_Clusters = 0, pu_Users = 0\<rparr>"

section \<open>Current usage (\<open>internal/usage/usage.go\<close>)\<close>

definition GetLimit :: "server_env \<Rightarrow> (go_error, project_usage) go_result" where
  "GetLimit env = Inr BasicPlan"

definition isUsageExceeded :: "project_usage_cache \<Rightarrow> project_usage \<Rightarrow> bool" where
  "isUsageExceeded usageCache limit =
     (let isCPUExceeded = pu_ResourceCPU limit \<noteq> 0 \<and> uc_ResourceCPU usageCache > pu_ResourceCPU limit;
          isMemExceeded = pu_ResourceMemory limit \<noteq> 0 \<and>
            uc_ResourceMemory usageCache > pu_ResourceMemory limit;
          isUsersExceeded = pu_Users limit \<noteq> 0 \<and> uc_Users usageCache > pu_Users limit;
          isClustersExceeded = pu_Clusters limit \<noteq> 0 \<and> uc_Clusters usageCache > pu_Clusters limit
      in isCPUExceeded \<or> isMemExceeded \<or> isUsersExceeded \<or> isClustersExceeded)"

definition isUsageChanged :: "project_usage_cache \<Rightarrow> project_usage_cache \<Rightarrow> bool" where
  "isUsageChanged oldUsageCache currUsageCache \<longleftrightarrow>
     uc_Exceeded oldUsageCache \<noteq> uc_Exceeded currUsageCache \<or>
     uc_Clusters oldUsageCache \<noteq> uc_Clusters currUsageCache \<or>
     uc_Users oldUsageCache \<noteq> uc_Users currUsageCache \<or>
     uc_ResourceCPU oldUsageCache \<noteq> uc_ResourceCPU currUsageCache \<or>
     uc_ResourceMemory oldUsageCache \<noteq> uc_ResourceMemory currUsageCache"

text \<open>Times are seconds here: an hour is 3600.\<close>

definition Is1HrOld :: "int \<Rightarrow> project_usage_cache \<Rightarrow> bool" where
  "Is1HrOld now c \<longleftrightarrow> now - uc_UpdatedAt c > 3600"

text \<open>
  \<open>nodes.GetAllocatableResources\<close>: the sum over the nodes of a cluster, of milli-CPUs and of
  bytes; \<open>ev_nodes\<close> is the agent and the node list, which may fail.
\<close>

definition GetAllocatableResources :: "server_env \<Rightarrow> cluster \<Rightarrow> (go_error, uint \<times> uint) go_result" where
  "GetAllocatableResources env cluster =
     (case ev_nodes env cluster of
        Inl e \<Rightarrow> Inl e
      | Inr nodes \<Rightarrow> Inr (foldl (\<lambda>(cpu, mem) (c, m). (cpu + c, mem + m)) (0, 0) nodes))"

fun sum_resources :: "server_env \<Rightarrow> cluster list \<Rightarrow> uint \<times> uint \<Rightarrow> uint \<times> uint" where
  "sum_resources env [] tot = tot"
| "sum_resources env (c # cs) tot =
     (case GetAllocatableResources env c of
        Inl e \<Rightarrow> sum_resources env cs tot
      | Inr alloc \<Rightarrow> sum_resources env cs (fst tot + fst alloc, snd tot + snd alloc))"

definition getResourceUsage :: "server_env \<Rightarrow> cluster list \<Rightarrow> uint \<times> uint" where
  "getResourceUsage env clusters =
     (case sum_resources env clusters (0, 0) of
        (totCPU, totMem) \<Rightarrow> (totCPU div 1000, totMem div (1000 * 1000)))"

definition new_usage_cache :: "uint \<Rightarrow> project_usage_cache" where
  "new_usage_cache projID = \<lparr>uc_ProjectID = projID, uc_ResourceCPU = 0, uc_ResourceMemory = 0,
     uc_Clusters = 0, uc_Users = 0, uc_Exceeded = False, uc_ExceededSince = None, uc_UpdatedAt = 0\<rparr>"

text \<open>
  The cache \<open>GetUsage\<close> computes from the stored one (\<open>None\<close> when there is none), the limit,
  the clusters and the counted roles; then \<open>GetUsage\<close> itself with its reads and its one write.
\<close>

definition refresh_cache ::
  "server_env \<Rightarrow> project_usage \<Rightarrow> uint \<Rightarrow> project_usage_cache option \<Rightarrow> cluster list \<Rightarrow> role list \<Rightarrow>
     project_usage_cache" where
  "refresh_cache env limit projID stored clusters countedRoles =
     (let oldUsageCache = (case stored of None \<Rightarrow> new_usage_cache projID | Some c \<Rightarrow> c);
          usageCache = oldUsageCache\<lparr>uc_Clusters := word_of_nat (length clusters),
                                    uc_Users := word_of_nat (length countedRoles)\<rparr>;
          usageCache =
            (if stored = None \<or> Is1HrOld (ev_now env) usageCache \<or> isUsageExceeded usageCache limit
                \<or> isUsageChanged oldUsageCache usageCache
             then (case getResourceUsage env clusters of
                     (cpu, memory) \<Rightarrow> usageCache\<lparr>uc_ResourceCPU := cpu, uc_ResourceMemory := memory\<rparr>)
             else usageCache);
          isExceeded = isUsageExceeded usageCache limit;
          usageCache =
            (if \<not> uc_Exceeded usageCache \<and> isExceeded
             then usageCache\<lparr>uc_ExceededSince := Some (ev_now env)\<rparr> else usageCache)
      in usageCache\<lparr>uc_Exceeded := isExceeded\<rparr>)"

definition usage_of :: "project_usage_cache \<Rightarrow> project_usage" where
  "usage_of c = \<lparr>pu_ResourceCPU = uc_ResourceCPU c, pu_ResourceMemory = uc_ResourceMemory c,
     pu_Clusters = uc_Clusters c, pu_Users = uc_Users c\<rparr>"

definition GetUsage ::
  "server_env \<Rightarrow> project \<Rightarrow>
     (go_error, project_usage \<times> project_usage \<times> project_usage_cache) go_result \<times> effect list" where
  "GetUsage env proj =
     (case GetLimit env of
        Inl e \<Rightarrow> (Inl e, [])
      | Inr limit \<Rightarrow>
          (let found = ReadProjectUsageCache (ev_repo env) (pr_ID proj)
           in case found of
                Inl (GoError e) \<Rightarrow> (Inl (GoError e), [])
              | _ \<Rightarrow>
                  (let stored = (case found of Inl e \<Rightarrow> None | Inr c \<Rightarrow> Some c)
                   in case ListClustersByProjectID (ev_repo env) (pr_ID proj) of
                        Inl e \<Rightarrow> (Inl e, [])
                      | Inr clusters \<Rightarrow>
                          (case ListProjectRoles (ev_repo env) (pr_ID proj) of
                             Inl e \<Rightarrow> (Inl e, [])
                           | Inr roles \<Rightarrow>
                               (let countedRoles = filter (\<lambda>role. \<not> ev_whitelisted env (ro_UserID role)) roles;
                                    usageCache = refresh_cache env limit (pr_ID proj) stored clusters countedRoles;
                                    saved = usageCache\<lparr>uc_UpdatedAt := ev_now env\<rparr>
                                in case stored of
                                     None \<Rightarrow>
                                       (case ev_save_usage_cache env usageCache of
                                          Some e \<Rightarrow> (Inl e, [CreateUsageCache usageCache])
                                        | None \<Rightarrow> (Inr (usage_of saved, limit, saved),
                                                  [CreateUsageCache usageCache]))
                                   | Some oldUsageCache \<Rightarrow>
                                       if isUsageChanged oldUsageCache usageCache
                                       then (case ev_save_usage_cache env usageCache of
                                               Some e \<Rightarrow> (Inl e, [UpdateUsageCache usageCache])
                                             | None \<Rightarrow> (Inr (usage_of saved, limit, saved),
                                                       [UpdateUsageCache usageCache]))
                                       else (Inr (usage_of usageCache, limit, usageCache), []))))))"

section \<open>The middleware (\<open>router/middleware/usage.go\<close>)\<close>

fun usage_metric_text :: "usage_metric \<Rightarrow> string" where
  "usage_metric_text CPU = ''cpu''"
| "usage_metric_text Memory = ''memory''"
| "usage_metric_text Clusters = ''clusters''"
| "usage_metric_text Users = ''users''"
| "usage_metric_text (OtherMetric s) = s"

definition allowUsage :: "project_usage \<Rightarrow> project_usage \<Rightarrow> usage_metric \<Rightarrow> bool" where
  "allowUsage plan current metric =
     (case metric of
        Users \<Rightarrow> pu_Users plan = 0 \<or> pu_Users plan \<ge> pu_Users current + 1
      | Clusters \<Rightarrow> pu_Clusters plan = 0 \<or> pu_Clusters plan \<ge> pu_Clusters current + 1
      | _ \<Rightarrow> False)"

definition getMetricUsage :: "project_usage \<Rightarrow> project_usage \<Rightarrow> usage_metric \<Rightarrow> uint \<times> uint" where
  "getMetricUsage plan current metric =
     (case metric of
        CPU \<Rightarrow> (pu_ResourceCPU plan, pu_ResourceCPU current)
      | Memory \<Rightarrow> (pu_ResourceMemory plan, pu_ResourceMemory current)
      | Users \<Rightarrow> (pu_Users plan, pu_Users current)
      | Clusters \<Rightarrow> (pu_Clusters plan, pu_Clusters current)
      | _ \<Rightarrow> (0, 0))"

definition usage_err :: "usage_metric \<Rightarrow> uint \<Rightarrow> uint \<Rightarrow> string" where
  "usage_err metric limit used =
     ''usage limit reached for metric '' @ usage_metric_text metric @ '': limit '' @ show_id limit @
     '', requested '' @ show_id used"

definition UsageMiddleware :: "server_env \<Rightarrow> usage_metric \<Rightarrow> middleware" where
  "UsageMiddleware env metric r =
     (case ctx_project (rq_ctx r) of
        None \<Rightarrow> (Panic, [])
      | Some proj \<Rightarrow>
          (case GetUsage env proj of
             (Inl e, w) \<Rightarrow> (api_error (ErrInternal (go_error_text e)), w)
           | (Inr (currentUsage, limit, _), w) \<Rightarrow>
               if allowUsage limit currentUsage metric then (Next r, w)
               else (case getMetricUsage limit currentUsage metric of
                       (lim, used) \<Rightarrow>
                         (api_error (ErrPassThroughToClient (usage_err metric lim used) 400 []), w))))"

section \<open>What the cache holds\<close>

definition counted_roles :: "server_env \<Rightarrow> role list \<Rightarrow> role list" where
  "counted_roles env roles = filter (\<lambda>role. \<not> ev_whitelisted env (ro_UserID role)) roles"

text \<open>A cache row as \<open>GetUsage\<close> leaves it: if it says exceeded it says since when.\<close>

definition cache_ok :: "project_usage_cache \<Rightarrow> bool" where
  "cache_ok c \<longleftrightarrow> (uc_Exceeded c \<longrightarrow> uc_ExceededSince c \<noteq> None)"

lemma refresh_cache_counts [simp]:
  "uc_Clusters (refresh_cache env limit p stored cs rs) = word_of_nat (length cs)"
  "uc_Users (refresh_cache env limit p stored cs rs) = word_of_nat (length rs)"
  by (simp_all add: refresh_cache_def Let_def split: prod.split)

lemma refresh_cache_exceeded [simp]:
  "uc_Exceeded (refresh_cache env limit p stored cs rs) \<longleftrightarrow>
     isUsageExceeded (refresh_cache env limit p stored cs rs) limit"
  by (simp add: refresh_cache_def Let_def isUsageExceeded_def split: prod.split)

lemma refresh_cache_ok:
  "(case stored of None \<Rightarrow> True | Some c \<Rightarrow> cache_ok c) \<Longrightarrow>
     cache_ok (refresh_cache env limit p stored cs rs)"
  by (auto simp: refresh_cache_def Let_def cache_ok_def new_usage_cache_def split: option.splits prod.split)

lemma isUsageExceeded_usage_of:
  "isUsageExceeded (c\<lparr>uc_UpdatedAt := t\<rparr>) limit = isUsageExceeded c limit"
  by (simp add: isUsageExceeded_def)

lemma GetUsage_Inr:
  assumes "GetUsage env proj = (Inr (current, limit, cache), w)"
  shows "\<exists>stored clusters roles c.
    limit = BasicPlan \<and>
    (case ReadProjectUsageCache (ev_repo env) (pr_ID proj) of
       Inl e \<Rightarrow> e = ErrRecordNotFound \<and> stored = None | Inr old \<Rightarrow> stored = Some old) \<and>
    ListClustersByProjectID (ev_repo env) (pr_ID proj) = Inr clusters \<and>
    ListProjectRoles (ev_repo env) (pr_ID proj) = Inr roles \<and>
    c = refresh_cache env limit (pr_ID proj) stored clusters (counted_roles env roles) \<and>
    current = usage_of c \<and> (\<exists>t. cache = c\<lparr>uc_UpdatedAt := t\<rparr>) \<and>
    w = (case stored of
           None \<Rightarrow> [CreateUsageCache c]
         | Some old \<Rightarrow> if isUsageChanged old c then [UpdateUsageCache c] else [])"
proof (cases "ReadProjectUsageCache (ev_repo env) (pr_ID proj)")
  case (Inl e)
  with assms show ?thesis
    by (intro exI [where x = None]) (auto simp: GetUsage_def GetLimit_def Let_def counted_roles_def usage_of_def
        split: sum.splits go_error.splits option.splits)
next
  case (Inr old)
  have keep: "\<exists>t. c = c\<lparr>uc_UpdatedAt := t\<rparr>" for c :: project_usage_cache
    by (intro exI [where x = "uc_UpdatedAt c"]) simp
  from Inr assms show ?thesis
    by (intro exI [where x = "Some old"]) (auto simp: GetUsage_def GetLimit_def Let_def counted_roles_def usage_of_def
        keep split: sum.splits if_splits option.splits)
qed

text \<open>
  The usage of a project: its cluster and user counts are always those of the database now
  (whitelisted users apart), whatever the cache held; the cache says exceeded exactly when the
  usage is over the limit, and then since when; and it writes one row, unless a stored row has not
  changed.
\<close>

theorem GetUsage_fresh:
  assumes "GetUsage env proj = (Inr (current, limit, cache), w)"
    and "case ReadProjectUsageCache (ev_repo env) (pr_ID proj) of Inl e \<Rightarrow> True | Inr old \<Rightarrow> cache_ok old"
  shows "\<exists>clusters roles.
    ListClustersByProjectID (ev_repo env) (pr_ID proj) = Inr clusters \<and>
    ListProjectRoles (ev_repo env) (pr_ID proj) = Inr roles \<and>
    pu_Clusters current = word_of_nat (length clusters) \<and>
    pu_Users current = word_of_nat (length (counted_roles env roles)) \<and>
    current = usage_of cache \<and> uc_Exceeded cache = isUsageExceeded cache limit \<and> cache_ok cache \<and>
    (w = [] \<longleftrightarrow> (\<exists>old. ReadProjectUsageCache (ev_repo env) (pr_ID proj) = Inr old \<and>
                       \<not> isUsageChanged old cache)) \<and> length w \<le> 1"
proof -
  obtain stored clusters roles c t where *:
    "case ReadProjectUsageCache (ev_repo env) (pr_ID proj) of
       Inl e \<Rightarrow> e = ErrRecordNotFound \<and> stored = None | Inr old \<Rightarrow> stored = Some old"
    "ListClustersByProjectID (ev_repo env) (pr_ID proj) = Inr clusters"
    "ListProjectRoles (ev_repo env) (pr_ID proj) = Inr roles"
    "c = refresh_cache env limit (pr_ID proj) stored clusters (counted_roles env roles)"
    "current = usage_of c" "cache = c\<lparr>uc_UpdatedAt := t\<rparr>"
    "w = (case stored of None \<Rightarrow> [CreateUsageCache c]
          | Some old \<Rightarrow> if isUsageChanged old c then [UpdateUsageCache c] else [])"
    using GetUsage_Inr [OF assms(1)] by blast
  have "case stored of None \<Rightarrow> True | Some old \<Rightarrow> cache_ok old"
    using *(1) assms(2) by (auto split: sum.splits)
  then have "cache_ok cache" using refresh_cache_ok *(4,6) by (simp add: cache_ok_def)
  moreover have "uc_Exceeded cache = isUsageExceeded cache limit"
    using *(4,6) by (simp add: isUsageExceeded_usage_of)
  moreover have "isUsageChanged old cache = isUsageChanged old c" for old
    by (simp add: *(6) isUsageChanged_def)
  ultimately show ?thesis
    using * by (auto simp: usage_of_def split: sum.splits)
qed

section \<open>What the limit lets through\<close>

lemma succ_le_word: "n + 1 \<le> limit \<longleftrightarrow> n < limit \<or> n = - 1" for n limit :: uint
proof (cases "n = - 1")
  case False
  with unat_succ [OF False] show ?thesis by (auto simp: word_le_nat_alt word_less_nat_alt)
qed simp

text \<open>
  The limit check, exactly: users and clusters pass when the plan has no limit, or the count
  is below it, or at the largest 64-bit count, where adding one wraps to zero; every other metric
  is always refused.
\<close>

theorem allowUsage_exact:
  "(allowUsage plan current Users \<longleftrightarrow>
      pu_Users plan = 0 \<or> pu_Users current < pu_Users plan \<or> pu_Users current = - 1) \<and>
   (allowUsage plan current Clusters \<longleftrightarrow>
      pu_Clusters plan = 0 \<or> pu_Clusters current < pu_Clusters plan \<or> pu_Clusters current = - 1) \<and>
   \<not> allowUsage plan current CPU \<and> \<not> allowUsage plan current Memory \<and>
   \<not> allowUsage plan current (OtherMetric m)"
  by (simp add: allowUsage_def succ_le_word)

text \<open>
  The guard of the endpoints that add a user or a cluster: in the community edition a request
  passes only if the project has no counted user, or no cluster, at all, and it passes unchanged.
\<close>

theorem UsageMiddleware_guards:
  assumes "fst (UsageMiddleware env metric r) = Next r'"
    and "\<And>p cs. ListClustersByProjectID (ev_repo env) p = Inr cs \<Longrightarrow> length cs < 2 ^ 64 - 1"
    and "\<And>p rs. ListProjectRoles (ev_repo env) p = Inr rs \<Longrightarrow> length rs < 2 ^ 64 - 1"
  shows "r' = r \<and> (\<exists>proj. ctx_project (rq_ctx r) = Some proj \<and>
     (metric = Clusters \<and> ListClustersByProjectID (ev_repo env) (pr_ID proj) = Inr [] \<or>
      metric = Users \<and> (\<exists>roles. ListProjectRoles (ev_repo env) (pr_ID proj) = Inr roles \<and>
                               counted_roles env roles = [])))"
proof -
  obtain proj current limit cache w where proj: "ctx_project (rq_ctx r) = Some proj" "r' = r"
    and get: "GetUsage env proj = (Inr (current, limit, cache), w)"
    and allow: "allowUsage limit current metric"
    using assms(1) by (auto simp: UsageMiddleware_def split: option.splits prod.splits sum.splits if_splits)
  obtain stored clusters roles where
    clusters: "ListClustersByProjectID (ev_repo env) (pr_ID proj) = Inr clusters"
    and roles: "ListProjectRoles (ev_repo env) (pr_ID proj) = Inr roles"
    and c: "current = usage_of (refresh_cache env limit (pr_ID proj) stored clusters (counted_roles env roles))"
    and limit: "limit = BasicPlan"
    using GetUsage_Inr [OF get] by blast
  have small: "(word_of_nat n :: uint) \<noteq> - 1 \<and> ((word_of_nat n :: uint) < 1 \<longleftrightarrow> n = 0)" if "n < 2 ^ 64 - 1" for n
  proof -
    have n: "unat (word_of_nat n :: uint) = n"
      using that by (simp add: unat_of_nat take_bit_nat_eq_self)
    moreover have "unat (- 1 :: uint) = 2 ^ 64 - 1"
      by (rule unat_max)
    ultimately show ?thesis using that by (auto simp: word_less_nat_alt)
  qed
  have "length (counted_roles env roles) < 2 ^ 64 - 1"
    using le_less_trans [OF length_filter_le assms(3) [OF roles]] by (simp add: counted_roles_def)
  with small [of "length clusters"] small [of "length (counted_roles env roles)"] assms(2) [OF clusters]
    allow c limit clusters roles proj
  show ?thesis
    by (cases metric) (auto simp: allowUsage_def succ_le_word usage_of_def BasicPlan_def)
qed

text \<open>Project 9 of the sample server has a cluster and no member.\<close>

lemma sample_usage_reads:
  "ReadProjectUsageCache (ev_repo sample_env) p = Inl ErrRecordNotFound"
  "ListProjectRoles (ev_repo sample_env) 9 = Inr []"
  "ListClustersByProjectID (ev_repo sample_env) 9 = Inr [(sample_cluster 9 4)\<lparr>cl_TokenCache := empty_token_cache\<rparr>]"
  by (simp_all add: ReadProjectUsageCache_def ListProjectRoles_def ListClustersByProjectID_def
      DecryptClusterData_def sample_env_def sample_repo_def table_first_def table_find_def Let_def)
     (simp_all add: sample_project_def sample_cluster_def empty_token_cache_def)

definition usage_request :: request where
  "usage_request = (sample_request [] [])\<lparr>rq_ctx := empty_ctx\<lparr>ctx_project := Some (sample_project 9)\<rparr>\<rparr>"

definition sample_usage :: project_usage_cache where
  "sample_usage = refresh_cache sample_env BasicPlan 9 None
     [(sample_cluster 9 4)\<lparr>cl_TokenCache := empty_token_cache\<rparr>] []"

lemma sample_project_ID [simp]: "pr_ID (sample_project i) = i"
  by (simp add: sample_project_def)

lemma sample_GetUsage:
  "GetUsage sample_env (sample_project 9) =
     (Inr (usage_of sample_usage, BasicPlan, sample_usage\<lparr>uc_UpdatedAt := 1000\<rparr>),
      [CreateUsageCache sample_usage])"
proof -
  have "ev_save_usage_cache sample_env c = None" for c by (simp add: sample_env_def)
  then show ?thesis
    by (simp add: GetUsage_def GetLimit_def sample_usage_reads sample_usage_def usage_of_def Let_def)
qed

theorem GetUsage_fresh_witness:
  "pu_Clusters (usage_of sample_usage) = 1 \<and> cache_ok (sample_usage\<lparr>uc_UpdatedAt := 1000\<rparr>)"
  using GetUsage_fresh [OF sample_GetUsage]
  by (auto simp: sample_usage_reads usage_of_def)

theorem UsageMiddleware_guards_witness:
  "fst (UsageMiddleware sample_env Users usage_request) = Next usage_request \<and>
   counted_roles sample_env [] = []"
proof -
  have passes: "fst (UsageMiddleware sample_env Users usage_request) = Next usage_request"
    by (simp add: UsageMiddleware_def usage_request_def sample_GetUsage allowUsage_def BasicPlan_def
        usage_of_def sample_usage_def)
  have clusters: "length cs < 2 ^ 64 - 1" if "ListClustersByProjectID (ev_repo sample_env) p = Inr cs" for p cs
    using that length_filter_le [of "\<lambda>c. cl_ProjectID c = p" "[sample_cluster 9 4, sample_cluster 1 2]"]
    by (auto simp: ListClustersByProjectID_def sample_env_def sample_repo_def table_find_def)
  have roles: "length rs < 2 ^ 64 - 1" if "ListProjectRoles (ev_repo sample_env) p = Inr rs" for p rs
    using that by (auto simp: ListProjectRoles_def sample_env_def sample_repo_def table_first_def
        sample_project_def split: if_splits option.splits)
  from UsageMiddleware_guards [OF passes clusters roles] show ?thesis
    using passes by (simp add: counted_roles_def)
qed

end
