(* ===== verification/Request_Chain.thy ===== *)
theory Request_Chain
  imports Git_Installation Usage
begin

text \<open>
  \<open>registerRoutes\<close> of \<open>api/server/router/router.go\<close>: the chain of middlewares the server
  puts in front of a handler, computed from the metadata of its endpoint, with the websocket
  middleware. For every chain whose scopes come in an order in which each has what it needs, the
  theory proves what the handler is given, by induction over the scopes.
\<close>

section \<open>The code\<close>

definition WebsocketMiddleware :: "server_env \<Rightarrow> request \<Rightarrow> outcome" where
  "WebsocketMiddleware env r =
     (if \<not> ev_ws_check_origin env r
      then api_error (ErrForbidden ''request origin not allowed by Upgrader.CheckOrigin'')
      else case ev_ws_upgrade env r of
             Some e \<Rightarrow> Reply (LoggedError (ErrInternal (go_error_text e)))
           | None \<Rightarrow> Next (r\<lparr>rq_ctx := (rq_ctx r)\<lparr>ctx_websocket := True\<rparr>\<rparr>))"

definition RequestLoggerMiddleware :: "request \<Rightarrow> outcome" where
  "RequestLoggerMiddleware r = Next r"

text \<open>The switch over a scope of the endpoint: the middlewares it adds.\<close>

definition scope_middlewares :: "server_env \<Rightarrow> api_request_metadata \<Rightarrow> permission_scope \<Rightarrow> middleware list" where
  "scope_middlewares env meta scope =
     (case scope of
        UserScope \<Rightarrow> [AuthN (md_ShouldRedirect meta) env]
      | ProjectScope \<Rightarrow> [no_effect (PolicyHandler env meta), no_effect (ProjectScopedMiddleware env)]
      | ClusterScope \<Rightarrow> [no_effect (ClusterScopedMiddleware env)]
      | NamespaceScope \<Rightarrow> [no_effect (NamespaceScopedMiddleware env)]
      | HelmRepoScope \<Rightarrow> [no_effect (HelmRepoScopedMiddleware env)]
      | RegistryScope \<Rightarrow> [no_effect (RegistryScopedMiddleware env)]
      | InviteScope \<Rightarrow> [no_effect (InviteScopedMiddleware env)]
      | GitInstallationScope \<Rightarrow> [GitInstallationScopedMiddleware env]
      | InfraScope \<Rightarrow> [no_effect (InfraScopedMiddleware env)]
      | OperationScope \<Rightarrow> [no_effect (OperationScopedMiddleware env)]
      | ReleaseScope \<Rightarrow> [no_effect (ReleaseScopedMiddleware env)]
      | StackScope \<Rightarrow> [no_effect (StackScopedMiddleware env)]
      | GitlabIntegrationScope \<Rightarrow> [no_effect (GitlabIntegrationScopedMiddleware env)]
      | _ \<Rightarrow> [])"

definition scopes_chain :: "server_env \<Rightarrow> api_request_metadata \<Rightarrow> permission_scope list \<Rightarrow> middleware list" where
  "scopes_chain env meta scopes = concat (map (scope_middlewares env meta) scopes)"

definition flags_chain :: "server_env \<Rightarrow> api_request_metadata \<Rightarrow> middleware list" where
  "flags_chain env meta =
     (if \<not> md_Quiet meta then [no_effect RequestLoggerMiddleware] else []) @
     (if md_IsWebsocket meta then [no_effect (WebsocketMiddleware env)] else []) @
     (if md_CheckUsage meta \<and> ev_usage_tracking env then [UsageMiddleware env (md_UsageMetric meta)] else [])"

definition route_chain :: "server_env \<Rightarrow> api_request_metadata \<Rightarrow> middleware list" where
  "route_chain env meta = scopes_chain env meta (md_Scopes meta) @ flags_chain env meta"

text \<open>Serving a request: \<open>Next r'\<close> is the call of the route's handler with \<open>r'\<close>.\<close>

definition serve :: "server_env \<Rightarrow> api_request_metadata \<Rightarrow> middleware" where
  "serve env meta = PanicMiddleware (run_chain (route_chain env meta))"

section \<open>Contexts\<close>

text \<open>
  The resource of a scope is attached; everything attached belongs to the project; everything
  attached is what the URL asked for.
\<close>

definition attached :: "permission_scope \<Rightarrow> request_ctx \<Rightarrow> bool" where
  "attached scope ctx =
     (case scope of
        UserScope \<Rightarrow> ctx_user ctx \<noteq> None
      | ProjectScope \<Rightarrow> ctx_project ctx \<noteq> None
      | ClusterScope \<Rightarrow> ctx_cluster ctx \<noteq> None
      | RegistryScope \<Rightarrow> ctx_registry ctx \<noteq> None
      | InviteScope \<Rightarrow> ctx_invite ctx \<noteq> None
      | HelmRepoScope \<Rightarrow> ctx_helm_repo ctx \<noteq> None
      | InfraScope \<Rightarrow> ctx_infra ctx \<noteq> None
      | OperationScope \<Rightarrow> ctx_operation ctx \<noteq> None
      | GitInstallationScope \<Rightarrow> ctx_git_installation ctx \<noteq> None
      | NamespaceScope \<Rightarrow> ctx_namespace ctx \<noteq> None
      | ReleaseScope \<Rightarrow> ctx_release ctx \<noteq> None
      | StackScope \<Rightarrow> ctx_stack ctx \<noteq> None
      | GitlabIntegrationScope \<Rightarrow> ctx_gitlab_integration ctx \<noteq> None
      | _ \<Rightarrow> True)"

definition in_project :: "uint \<Rightarrow> request_ctx \<Rightarrow> bool" where
  "in_project p ctx \<longleftrightarrow>
     pred_option (\<lambda>x. pr_ID x = p) (ctx_project ctx) \<and>
     pred_option (\<lambda>x. cl_ProjectID x = p) (ctx_cluster ctx) \<and>
     pred_option (\<lambda>x. rg_ProjectID x = p) (ctx_registry ctx) \<and>
     pred_option (\<lambda>x. hr_ProjectID x = p) (ctx_helm_repo ctx) \<and>
     pred_option (\<lambda>x. in_ProjectID x = p) (ctx_infra ctx) \<and>
     pred_option (\<lambda>x. iv_ProjectID x = p) (ctx_invite ctx) \<and>
     pred_option (\<lambda>x. st_ProjectID x = p) (ctx_stack ctx) \<and>
     pred_option (\<lambda>x. gi_ProjectID x = p) (ctx_gitlab_integration ctx)"

definition as_asked :: "req_scopes \<Rightarrow> request_ctx \<Rightarrow> bool" where
  "as_asked req ctx \<longleftrightarrow>
     pred_option (\<lambda>x. names req ClusterScope (\<lambda>a. UInt a = cl_ID x)) (ctx_cluster ctx) \<and>
     pred_option (\<lambda>x. names req RegistryScope (\<lambda>a. UInt a = rg_ID x)) (ctx_registry ctx) \<and>
     pred_option (\<lambda>x. names req HelmRepoScope (\<lambda>a. UInt a = hr_ID x)) (ctx_helm_repo ctx) \<and>
     pred_option (\<lambda>x. names req InfraScope (\<lambda>a. UInt a = in_ID x)) (ctx_infra ctx) \<and>
     pred_option (\<lambda>x. names req InviteScope (\<lambda>a. UInt a = iv_ID x)) (ctx_invite ctx) \<and>
     pred_option (\<lambda>x. names req StackScope (\<lambda>a. Name a = st_UID x)) (ctx_stack ctx) \<and>
     pred_option (\<lambda>x. names req GitlabIntegrationScope (\<lambda>a. UInt a = gi_ID x)) (ctx_gitlab_integration ctx) \<and>
     pred_option (\<lambda>x. names req OperationScope (\<lambda>a. Name a = op_UID x) \<and>
       names req InfraScope (\<lambda>a. UInt a = op_InfraID x)) (ctx_operation ctx)"

text \<open>
  What the middlewares fetch for the URL. The cluster is the one the project stores under the id
  of the URL. A namespace is the name of the URL, where \<open>all\<close> stands for every namespace. A
  release is the one Helm returns for the name and the version of the URL, in the namespace of
  the URL or else the default one, on the cluster that the project stores under the id of the
  URL. A git installation has no project: it has the id of the URL, and GitHub, asked with the
  credential stored for the user, lists for the user an account that has an installation with
  that id.
\<close>

definition asked_namespace :: "req_scopes \<Rightarrow> string" where
  "asked_namespace req =
     (case req NamespaceScope of
        None \<Rightarrow> ''default''
      | Some a \<Rightarrow> if ToLower (Name (ra_Resource a)) = ''all'' then [] else Name (ra_Resource a))"

definition asked_version :: "request \<Rightarrow> int" where
  "asked_version r = (case GetURLParamUint r URLParamReleaseVersion of Inl e \<Rightarrow> 0 | Inr v \<Rightarrow> sint v)"

definition asked_release :: "server_env \<Rightarrow> req_scopes \<Rightarrow> uint \<Rightarrow> int \<Rightarrow> helm_release \<Rightarrow> bool" where
  "asked_release env req p version rel \<longleftrightarrow>
     (\<exists>c. names req ClusterScope (\<lambda>a. ReadCluster (ev_repo env) p (UInt a) = Inr c) \<and>
        names req ReleaseScope (\<lambda>b.
          ev_get_release env c (asked_namespace req) (Name b) version = Inr rel))"

definition fetched_as_asked :: "server_env \<Rightarrow> req_scopes \<Rightarrow> uint \<Rightarrow> request \<Rightarrow> bool" where
  "fetched_as_asked env req p r \<longleftrightarrow>
     pred_option (\<lambda>c. names req ClusterScope (\<lambda>a. ReadCluster (ev_repo env) p (UInt a) = Inr c))
       (ctx_cluster (rq_ctx r)) \<and>
     pred_option (\<lambda>n. req NamespaceScope \<noteq> None \<and> n = asked_namespace req) (ctx_namespace (rq_ctx r)) \<and>
     pred_option (asked_release env req p (asked_version r)) (ctx_release (rq_ctx r)) \<and>
     pred_option (\<lambda>g. names req GitInstallationScope (\<lambda>a. ga_InstallationID g = Word.uint (UInt a) \<and>
         (\<exists>u. ctx_user (rq_ctx r) = Some u \<and> github_lists env u (UInt a))))
       (ctx_git_installation (rq_ctx r))"

text \<open>The scopes each scope's middleware needs before it.\<close>

definition needs :: "permission_scope \<Rightarrow> permission_scope list" where
  "needs scope =
     (case scope of
        UserScope \<Rightarrow> []
      | ProjectScope \<Rightarrow> [UserScope]
      | OperationScope \<Rightarrow> [ProjectScope, InfraScope]
      | ReleaseScope \<Rightarrow> [ProjectScope, ClusterScope]
      | GitInstallationScope \<Rightarrow> [UserScope, ProjectScope]
      | _ \<Rightarrow> [ProjectScope])"

fun well_scoped :: "permission_scope list \<Rightarrow> permission_scope list \<Rightarrow> bool" where
  "well_scoped seen [] = True"
| "well_scoped seen (s # ss) =
     (list_all (\<lambda>n. n \<in> set seen) (needs s) \<and> s \<notin> set seen \<and> well_scoped (s # seen) ss)"

section \<open>The invariant of a chain\<close>

definition subject_of :: "request_ctx \<Rightarrow> api_token option \<times> user option" where
  "subject_of ctx = (ctx_api_token ctx, ctx_user ctx)"

definition scoped_ctx :: "server_env \<Rightarrow> req_scopes \<Rightarrow> uint \<Rightarrow> permission_scope list \<Rightarrow> request \<Rightarrow> bool" where
  "scoped_ctx env req p seen r \<longleftrightarrow>
     ctx_req_scopes (rq_ctx r) = Some req \<and> project_id (rq_ctx r) = Some p \<and> ctx_user (rq_ctx r) \<noteq> None \<and>
     in_project p (rq_ctx r) \<and> as_asked req (rq_ctx r) \<and> fetched_as_asked env req p r \<and>
     list_all (\<lambda>s. attached s (rq_ctx r)) seen"

lemma in_project_upd [simp]:
  assumes "in_project p ctx"
  shows "in_project p (ctx\<lparr>ctx_cluster := Some c\<rparr>) \<longleftrightarrow> cl_ProjectID c = p"
    and "in_project p (ctx\<lparr>ctx_registry := Some g\<rparr>) \<longleftrightarrow> rg_ProjectID g = p"
    and "in_project p (ctx\<lparr>ctx_helm_repo := Some h\<rparr>) \<longleftrightarrow> hr_ProjectID h = p"
    and "in_project p (ctx\<lparr>ctx_infra := Some i\<rparr>) \<longleftrightarrow> in_ProjectID i = p"
    and "in_project p (ctx\<lparr>ctx_invite := Some v\<rparr>) \<longleftrightarrow> iv_ProjectID v = p"
    and "in_project p (ctx\<lparr>ctx_stack := Some k\<rparr>) \<longleftrightarrow> st_ProjectID k = p"
    and "in_project p (ctx\<lparr>ctx_gitlab_integration := Some l\<rparr>) \<longleftrightarrow> gi_ProjectID l = p"
    and "in_project p (ctx\<lparr>ctx_operation := Some x\<rparr>)"
    and "in_project p (ctx\<lparr>ctx_git_installation := Some m\<rparr>)"
    and "in_project p (ctx\<lparr>ctx_namespace := Some n\<rparr>)"
    and "in_project p (ctx\<lparr>ctx_release := Some r\<rparr>)"
    and "in_project p (ctx\<lparr>ctx_websocket := b\<rparr>)"
  using assms by (simp_all add: in_project_def)

lemma as_asked_upd [simp]:
  assumes "as_asked req ctx"
  shows "as_asked req (ctx\<lparr>ctx_cluster := Some c\<rparr>) \<longleftrightarrow> names req ClusterScope (\<lambda>a. UInt a = cl_ID c)"
    and "as_asked req (ctx\<lparr>ctx_registry := Some g\<rparr>) \<longleftrightarrow> names req RegistryScope (\<lambda>a. UInt a = rg_ID g)"
    and "as_asked req (ctx\<lparr>ctx_helm_repo := Some h\<rparr>) \<longleftrightarrow> names req HelmRepoScope (\<lambda>a. UInt a = hr_ID h)"
    and "as_asked req (ctx\<lparr>ctx_infra := Some i\<rparr>) \<longleftrightarrow> names req InfraScope (\<lambda>a. UInt a = in_ID i)"
    and "as_asked req (ctx\<lparr>ctx_invite := Some v\<rparr>) \<longleftrightarrow> names req InviteScope (\<lambda>a. UInt a = iv_ID v)"
    and "as_asked req (ctx\<lparr>ctx_stack := Some k\<rparr>) \<longleftrightarrow> names req StackScope (\<lambda>a. Name a = st_UID k)"
    and "as_asked req (ctx\<lparr>ctx_gitlab_integration := Some l\<rparr>) \<longleftrightarrow>
           names req GitlabIntegrationScope (\<lambda>a. UInt a = gi_ID l)"
    and "as_asked req (ctx\<lparr>ctx_operation := Some x\<rparr>) \<longleftrightarrow>
           names req OperationScope (\<lambda>a. Name a = op_UID x) \<and>
           names req InfraScope (\<lambda>a. UInt a = op_InfraID x)"
    and "as_asked req (ctx\<lparr>ctx_git_installation := Some m\<rparr>)"
    and "as_asked req (ctx\<lparr>ctx_namespace := Some n\<rparr>)"
    and "as_asked req (ctx\<lparr>ctx_release := Some r\<rparr>)"
    and "as_asked req (ctx\<lparr>ctx_websocket := b\<rparr>)"
  using assms by (simp_all add: as_asked_def)

lemma asked_version_upd [simp]: "asked_version (r\<lparr>rq_ctx := ctx\<rparr>) = asked_version r"
  by (simp add: asked_version_def GetURLParamUint_def GetURLParamString_def)

lemma fetched_upd [simp]:
  assumes "fetched_as_asked env req p r"
  shows "fetched_as_asked env req p (r\<lparr>rq_ctx := (rq_ctx r)\<lparr>ctx_cluster := Some c\<rparr>\<rparr>) \<longleftrightarrow>
           names req ClusterScope (\<lambda>a. ReadCluster (ev_repo env) p (UInt a) = Inr c)"
    and "fetched_as_asked env req p (r\<lparr>rq_ctx := (rq_ctx r)\<lparr>ctx_registry := Some g\<rparr>\<rparr>)"
    and "fetched_as_asked env req p (r\<lparr>rq_ctx := (rq_ctx r)\<lparr>ctx_helm_repo := Some h\<rparr>\<rparr>)"
    and "fetched_as_asked env req p (r\<lparr>rq_ctx := (rq_ctx r)\<lparr>ctx_infra := Some i\<rparr>\<rparr>)"
    and "fetched_as_asked env req p (r\<lparr>rq_ctx := (rq_ctx r)\<lparr>ctx_invite := Some v\<rparr>\<rparr>)"
    and "fetched_as_asked env req p (r\<lparr>rq_ctx := (rq_ctx r)\<lparr>ctx_stack := Some k\<rparr>\<rparr>)"
    and "fetched_as_asked env req p (r\<lparr>rq_ctx := (rq_ctx r)\<lparr>ctx_gitlab_integration := Some l\<rparr>\<rparr>)"
    and "fetched_as_asked env req p (r\<lparr>rq_ctx := (rq_ctx r)\<lparr>ctx_operation := Some x\<rparr>\<rparr>)"
    and "fetched_as_asked env req p (r\<lparr>rq_ctx := (rq_ctx r)\<lparr>ctx_git_installation := Some m\<rparr>\<rparr>) \<longleftrightarrow>
           names req GitInstallationScope (\<lambda>a. ga_InstallationID m = Word.uint (UInt a) \<and>
             (\<exists>u. ctx_user (rq_ctx r) = Some u \<and> github_lists env u (UInt a)))"
    and "fetched_as_asked env req p (r\<lparr>rq_ctx := (rq_ctx r)\<lparr>ctx_namespace := Some n\<rparr>\<rparr>) \<longleftrightarrow>
           req NamespaceScope \<noteq> None \<and> n = asked_namespace req"
    and "fetched_as_asked env req p (r\<lparr>rq_ctx := (rq_ctx r)\<lparr>ctx_release := Some rel\<rparr>\<rparr>) \<longleftrightarrow>
           asked_release env req p (asked_version r) rel"
    and "fetched_as_asked env req p (r\<lparr>rq_ctx := (rq_ctx r)\<lparr>ctx_websocket := b\<rparr>\<rparr>)"
  using assms by (simp_all add: fetched_as_asked_def)

lemma attached_frame:
  assumes "list_all (\<lambda>s. attached s ctx) seen"
    and "\<And>s. attached s ctx \<Longrightarrow> attached s ctx'"
  shows "list_all (\<lambda>s. attached s ctx') seen"
  using assms by (auto simp: list_all_iff)

lemma attached_upd [simp]:
  "attached s ctx \<Longrightarrow> attached s (ctx\<lparr>ctx_cluster := Some c\<rparr>)"
  "attached s ctx \<Longrightarrow> attached s (ctx\<lparr>ctx_registry := Some g\<rparr>)"
  "attached s ctx \<Longrightarrow> attached s (ctx\<lparr>ctx_helm_repo := Some h\<rparr>)"
  "attached s ctx \<Longrightarrow> attached s (ctx\<lparr>ctx_infra := Some i\<rparr>)"
  "attached s ctx \<Longrightarrow> attached s (ctx\<lparr>ctx_invite := Some v\<rparr>)"
  "attached s ctx \<Longrightarrow> attached s (ctx\<lparr>ctx_operation := Some x\<rparr>)"
  "attached s ctx \<Longrightarrow> attached s (ctx\<lparr>ctx_stack := Some k\<rparr>)"
  "attached s ctx \<Longrightarrow> attached s (ctx\<lparr>ctx_gitlab_integration := Some l\<rparr>)"
  "attached s ctx \<Longrightarrow> attached s (ctx\<lparr>ctx_git_installation := Some m\<rparr>)"
  "attached s ctx \<Longrightarrow> attached s (ctx\<lparr>ctx_namespace := Some n\<rparr>)"
  "attached s ctx \<Longrightarrow> attached s (ctx\<lparr>ctx_release := Some r\<rparr>)"
  "attached s ctx \<Longrightarrow> attached s (ctx\<lparr>ctx_websocket := b\<rparr>)"
  by (cases s; simp add: attached_def)+

definition chain_step :: "server_env \<Rightarrow> req_scopes \<Rightarrow> uint \<Rightarrow> permission_scope list \<Rightarrow> request \<Rightarrow> request \<Rightarrow> bool" where
  "chain_step env req p seen r r' \<longleftrightarrow>
     scoped_ctx env req p seen r' \<and> same_wire r r' \<and> subject_of (rq_ctx r') = subject_of (rq_ctx r)"

lemma step_upd:
  assumes "scoped_ctx env req p seen r"
    and "ctx_req_scopes ctx' = ctx_req_scopes (rq_ctx r)" "ctx_project ctx' = ctx_project (rq_ctx r)"
    and "subject_of ctx' = subject_of (rq_ctx r)"
    and "in_project p (rq_ctx r) \<Longrightarrow> in_project p ctx'"
    and "as_asked req (rq_ctx r) \<Longrightarrow> as_asked req ctx'"
    and "fetched_as_asked env req p r \<Longrightarrow> fetched_as_asked env req p (r\<lparr>rq_ctx := ctx'\<rparr>)"
    and "attached s ctx'" "\<And>s. attached s (rq_ctx r) \<Longrightarrow> attached s ctx'"
  shows "chain_step env req p (s # seen) r (r\<lparr>rq_ctx := ctx'\<rparr>)"
  using assms attached_frame [of "rq_ctx r" seen ctx']
  by (auto simp: chain_step_def scoped_ctx_def same_wire_def subject_of_def project_id_def)

lemma NamespaceScopedMiddleware_Next:
  "NamespaceScopedMiddleware env r = Next r' \<Longrightarrow> ctx_req_scopes (rq_ctx r) = Some req \<Longrightarrow>
     req NamespaceScope \<noteq> None \<and>
     r' = r\<lparr>rq_ctx := (rq_ctx r)\<lparr>ctx_namespace := Some (asked_namespace req)\<rparr>\<rparr>"
  by (auto simp: NamespaceScopedMiddleware_def wanted_def asked_namespace_def attach_def Let_def
      split: option.splits)

lemma getNamespaceFromRequest_asked:
  "ctx_req_scopes ctx = Some req \<Longrightarrow> getNamespaceFromRequest ctx = asked_namespace req"
  by (auto simp: getNamespaceFromRequest_def wanted_def asked_namespace_def ToLower_def split: option.split)

lemma ReleaseScopedMiddleware_Next:
  assumes "ReleaseScopedMiddleware env r = Next r'" and "ctx_req_scopes (rq_ctx r) = Some req"
    and "fetched_as_asked env req p r"
  shows "\<exists>x. asked_release env req p (asked_version r) x \<and>
    r' = r\<lparr>rq_ctx := (rq_ctx r)\<lparr>ctx_release := Some x\<rparr>\<rparr>"
proof -
  obtain c b x where c: "ctx_cluster (rq_ctx r) = Some c" and b: "req ReleaseScope = Some b"
    and x: "ev_get_release env c (asked_namespace req) (Name (ra_Resource b)) (asked_version r) = Inr x"
    and r': "r' = r\<lparr>rq_ctx := (rq_ctx r)\<lparr>ctx_release := Some x\<rparr>\<rparr>"
    using assms(1,2) by (auto simp: ReleaseScopedMiddleware_def GetHelmAgent_def attach_def Let_def
        wanted_def getNamespaceFromRequest_asked asked_version_def
        split: option.splits sum.splits if_splits)
  have "names req ClusterScope (\<lambda>a. ReadCluster (ev_repo env) p (UInt a) = Inr c)"
    using assms(3) c by (simp add: fetched_as_asked_def)
  then have "asked_release env req p (asked_version r) x"
    using b x by (auto simp: asked_release_def names_def)
  with r' show ?thesis by blast
qed

lemma attached_self [simp]:
  "attached ClusterScope (ctx\<lparr>ctx_cluster := Some c\<rparr>)"
  "attached RegistryScope (ctx\<lparr>ctx_registry := Some g\<rparr>)"
  "attached HelmRepoScope (ctx\<lparr>ctx_helm_repo := Some h\<rparr>)"
  "attached InfraScope (ctx\<lparr>ctx_infra := Some i\<rparr>)"
  "attached InviteScope (ctx\<lparr>ctx_invite := Some v\<rparr>)"
  "attached OperationScope (ctx\<lparr>ctx_operation := Some x\<rparr>)"
  "attached StackScope (ctx\<lparr>ctx_stack := Some k\<rparr>)"
  "attached GitlabIntegrationScope (ctx\<lparr>ctx_gitlab_integration := Some l\<rparr>)"
  "attached GitInstallationScope (ctx\<lparr>ctx_git_installation := Some m\<rparr>)"
  "attached NamespaceScope (ctx\<lparr>ctx_namespace := Some n\<rparr>)"
  "attached ReleaseScope (ctx\<lparr>ctx_release := Some r\<rparr>)"
  "attached SettingsScope ctx" "attached (OtherScope t) ctx"
  by (simp_all add: attached_def)

lemma scope_middlewares_single:
  assumes "s \<noteq> UserScope" "s \<noteq> ProjectScope" and "fst (run_chain (scope_middlewares env meta s) r) = Next r'"
  shows "case s of
      ClusterScope \<Rightarrow> ClusterScopedMiddleware env r = Next r'
    | NamespaceScope \<Rightarrow> NamespaceScopedMiddleware env r = Next r'
    | HelmRepoScope \<Rightarrow> HelmRepoScopedMiddleware env r = Next r'
    | RegistryScope \<Rightarrow> RegistryScopedMiddleware env r = Next r'
    | InviteScope \<Rightarrow> InviteScopedMiddleware env r = Next r'
    | GitInstallationScope \<Rightarrow> fst (GitInstallationScopedMiddleware env r) = Next r'
    | InfraScope \<Rightarrow> InfraScopedMiddleware env r = Next r'
    | OperationScope \<Rightarrow> OperationScopedMiddleware env r = Next r'
    | ReleaseScope \<Rightarrow> ReleaseScopedMiddleware env r = Next r'
    | StackScope \<Rightarrow> StackScopedMiddleware env r = Next r'
    | GitlabIntegrationScope \<Rightarrow> GitlabIntegrationScopedMiddleware env r = Next r'
    | _ \<Rightarrow> r' = r"
  using assms by (cases s) (simp_all add: scope_middlewares_def split: outcome.splits)

text \<open>Every scope but the first two: one middleware, which keeps the invariant and adds its scope.\<close>

lemma scope_step:
  assumes law: "lawful_repo (ev_repo env)" and inv: "scoped_ctx env req p seen r"
    and s: "s \<noteq> UserScope" "s \<noteq> ProjectScope"
    and run: "fst (run_chain (scope_middlewares env meta s) r) = Next r'"
  shows "chain_step env req p (s # seen) r r'"
proof -
  note single = scope_middlewares_single [OF s run]
  note upd = step_upd [OF inv]
  have pid: "project_id (rq_ctx r) = Some p" and rqs: "ctx_req_scopes (rq_ctx r) = Some req"
    and asked: "as_asked req (rq_ctx r)" and fetched: "fetched_as_asked env req p r"
    using inv by (auto simp: scoped_ctx_def)
  show ?thesis
  proof (cases s)
    case ClusterScope
    with single have "ClusterScopedMiddleware env r = Next r'" by simp
    from law this pid rqs obtain x where
      x: "cl_ProjectID x = p" "names req ClusterScope (\<lambda>a. UInt a = cl_ID x)"
         "names req ClusterScope (\<lambda>a. ReadCluster (ev_repo env) p (UInt a) = Inr x)"
         "r' = r\<lparr>rq_ctx := (rq_ctx r)\<lparr>ctx_cluster := Some x\<rparr>\<rparr>"
      by (rule cluster_mw.attached_read)
    show ?thesis unfolding ClusterScope x(4) by (rule upd) (simp_all add: x subject_of_def)
  next
    case RegistryScope
    with single have "RegistryScopedMiddleware env r = Next r'" by simp
    from law this pid rqs obtain x where
      x: "rg_ProjectID x = p" "names req RegistryScope (\<lambda>a. UInt a = rg_ID x)"
         "r' = r\<lparr>rq_ctx := (rq_ctx r)\<lparr>ctx_registry := Some x\<rparr>\<rparr>"
      by (rule registry_mw.attached_named)
    show ?thesis unfolding RegistryScope x(3) by (rule upd) (simp_all add: x subject_of_def)
  next
    case HelmRepoScope
    with single have "HelmRepoScopedMiddleware env r = Next r'" by simp
    from law this pid rqs obtain x where
      x: "hr_ProjectID x = p" "names req HelmRepoScope (\<lambda>a. UInt a = hr_ID x)"
         "r' = r\<lparr>rq_ctx := (rq_ctx r)\<lparr>ctx_helm_repo := Some x\<rparr>\<rparr>"
      by (rule helm_repo_mw.attached_named)
    show ?thesis unfolding HelmRepoScope x(3) by (rule upd) (simp_all add: x subject_of_def)
  next
    case InfraScope
    with single have "InfraScopedMiddleware env r = Next r'" by simp
    from law this pid rqs obtain x where
      x: "in_ProjectID x = p" "names req InfraScope (\<lambda>a. UInt a = in_ID x)"
         "r' = r\<lparr>rq_ctx := (rq_ctx r)\<lparr>ctx_infra := Some x\<rparr>\<rparr>"
      by (rule infra_mw.attached_named)
    show ?thesis unfolding InfraScope x(3) by (rule upd) (simp_all add: x subject_of_def)
  next
    case InviteScope
    with single have "InviteScopedMiddleware env r = Next r'" by simp
    from law this pid rqs obtain x where
      x: "iv_ProjectID x = p" "names req InviteScope (\<lambda>a. UInt a = iv_ID x)"
         "r' = r\<lparr>rq_ctx := (rq_ctx r)\<lparr>ctx_invite := Some x\<rparr>\<rparr>"
      by (rule invite_mw.attached_named)
    show ?thesis unfolding InviteScope x(3) by (rule upd) (simp_all add: x subject_of_def)
  next
    case StackScope
    with single have "StackScopedMiddleware env r = Next r'" by simp
    from law this pid rqs obtain x where
      x: "st_ProjectID x = p" "names req StackScope (\<lambda>a. Name a = st_UID x)"
         "r' = r\<lparr>rq_ctx := (rq_ctx r)\<lparr>ctx_stack := Some x\<rparr>\<rparr>"
      by (rule stack_mw.attached_named)
    show ?thesis unfolding StackScope x(3) by (rule upd) (simp_all add: x subject_of_def)
  next
    case GitlabIntegrationScope
    with single have "GitlabIntegrationScopedMiddleware env r = Next r'" by simp
    from law this pid rqs obtain x where
      x: "gi_ProjectID x = p" "names req GitlabIntegrationScope (\<lambda>a. UInt a = gi_ID x)"
         "r' = r\<lparr>rq_ctx := (rq_ctx r)\<lparr>ctx_gitlab_integration := Some x\<rparr>\<rparr>"
      by (rule gitlab_mw.attached_named)
    show ?thesis unfolding GitlabIntegrationScope x(3) by (rule upd) (simp_all add: x subject_of_def)
  next
    case OperationScope
    with single have "OperationScopedMiddleware env r = Next r'" by simp
    moreover obtain i where i: "infra_id (rq_ctx r) = Some i" "names req InfraScope (\<lambda>a. UInt a = i)"
      using calculation asked operation_mw.panics [of env r]
      by (cases "ctx_infra (rq_ctx r)") (auto simp: infra_id_def as_asked_def)
    ultimately obtain x where x0: "op_InfraID x = i" "names req OperationScope (\<lambda>a. Name a = op_UID x)"
         "r' = r\<lparr>rq_ctx := (rq_ctx r)\<lparr>ctx_operation := Some x\<rparr>\<rparr>"
      using operation_mw.attached_named [OF law _ i(1) rqs] by blast
    then have x: "names req OperationScope (\<lambda>a. Name a = op_UID x)" "names req InfraScope (\<lambda>a. UInt a = op_InfraID x)"
         "r' = r\<lparr>rq_ctx := (rq_ctx r)\<lparr>ctx_operation := Some x\<rparr>\<rparr>"
      using i(2) by simp_all
    show ?thesis unfolding OperationScope x(3) by (rule upd) (simp_all add: x subject_of_def)
  next
    case GitInstallationScope
    with single have "fst (GitInstallationScopedMiddleware env r) = Next r'" by simp
    from GitInstallation_listed [OF law this rqs] obtain g where
      g: "names req GitInstallationScope (\<lambda>a. ga_InstallationID g = Word.uint (UInt a) \<and>
            (\<exists>u. ctx_user (rq_ctx r) = Some u \<and> github_lists env u (UInt a)))"
      and x: "r' = r\<lparr>rq_ctx := (rq_ctx r)\<lparr>ctx_git_installation := Some g\<rparr>\<rparr>" by blast
    show ?thesis unfolding GitInstallationScope x by (rule upd) (simp_all add: g subject_of_def)
  next
    case NamespaceScope
    with single have "NamespaceScopedMiddleware env r = Next r'" by simp
    from NamespaceScopedMiddleware_Next [OF this rqs] have asks: "req NamespaceScope \<noteq> None"
      and x: "r' = r\<lparr>rq_ctx := (rq_ctx r)\<lparr>ctx_namespace := Some (asked_namespace req)\<rparr>\<rparr>"
      by blast+
    show ?thesis unfolding NamespaceScope x by (rule upd) (simp_all add: asks subject_of_def)
  next
    case ReleaseScope
    with single have "ReleaseScopedMiddleware env r = Next r'" by simp
    from ReleaseScopedMiddleware_Next [OF this rqs fetched] obtain x where
      rel: "asked_release env req p (asked_version r) x"
      and x: "r' = r\<lparr>rq_ctx := (rq_ctx r)\<lparr>ctx_release := Some x\<rparr>\<rparr>" by blast
    show ?thesis unfolding ReleaseScope x by (rule upd) (simp_all add: rel subject_of_def)
  qed (use single inv s in \<open>auto simp: chain_step_def scoped_ctx_def attached_def\<close>)
qed

section \<open>Whole chains\<close>

lemma scopes_chain_Nil [simp]: "scopes_chain env meta [] = []"
  by (simp add: scopes_chain_def)

lemma scopes_chain_Cons [simp]:
  "scopes_chain env meta (s # ss) = scope_middlewares env meta s @ scopes_chain env meta ss"
  by (simp add: scopes_chain_def)

lemma scopes_chain_Next:
  assumes law: "lawful_repo (ev_repo env)"
  shows "well_scoped seen ss \<Longrightarrow> UserScope \<in> set seen \<Longrightarrow> ProjectScope \<in> set seen \<Longrightarrow>
    scoped_ctx env req p seen r \<Longrightarrow> fst (run_chain (scopes_chain env meta ss) r) = Next r' \<Longrightarrow>
    chain_step env req p (rev ss @ seen) r r'"
proof (induction ss arbitrary: seen r)
  case Nil
  then show ?case by (simp add: chain_step_def)
next
  case (Cons s ss)
  then obtain r1 where r1: "fst (run_chain (scope_middlewares env meta s) r) = Next r1"
    and rest: "fst (run_chain (scopes_chain env meta ss) r1) = Next r'"
    by (auto simp: fst_run_chain_append split: outcome.splits)
  have "s \<noteq> UserScope" "s \<noteq> ProjectScope" using Cons.prems by auto
  from scope_step [OF law Cons.prems(4) this r1] have step: "chain_step env req p (s # seen) r r1" .
  then have "chain_step env req p (rev ss @ (s # seen)) r1 r'"
    using Cons.prems rest by (intro Cons.IH) (auto simp: chain_step_def)
  with step show ?case by (auto simp: chain_step_def elim: same_wire_trans)
qed

lemma scope_no_panic:
  assumes inv: "scoped_ctx env req p seen r" and req: "req s \<noteq> None"
    and s: "s \<noteq> UserScope" "s \<noteq> ProjectScope" and needs: "set (needs s) \<subseteq> set seen"
  shows "fst (run_chain (scope_middlewares env meta s) r) \<noteq> Panic"
proof -
  have att: "attached n (rq_ctx r)" if "n \<in> set (needs s)" for n
    using that inv needs by (auto simp: scoped_ctx_def list_all_iff)
  have pid: "project_id (rq_ctx r) \<noteq> None" and want: "wanted (rq_ctx r) s \<noteq> None"
    and user: "ctx_user (rq_ctx r) \<noteq> None"
    using inv req by (auto simp: scoped_ctx_def wanted_def)
  show ?thesis
  proof (cases s)
    case OperationScope
    then have "infra_id (rq_ctx r) \<noteq> None"
      using att [of InfraScope] by (simp add: needs_def attached_def infra_id_def)
    with OperationScope want operation_mw.no_panic show ?thesis
      by (auto simp: scope_middlewares_def split: outcome.splits)
  next
    case ReleaseScope
    then obtain c where "ctx_cluster (rq_ctx r) = Some c"
      using att [of ClusterScope] by (auto simp: needs_def attached_def)
    with ReleaseScope want show ?thesis
      by (auto simp: scope_middlewares_def ReleaseScopedMiddleware_def attach_def Let_def
          split: outcome.splits option.splits sum.splits if_splits)
  next
    case NamespaceScope
    with want show ?thesis
      by (auto simp: scope_middlewares_def NamespaceScopedMiddleware_def attach_def Let_def
          split: outcome.splits option.splits)
  next
    case GitInstallationScope
    with want user GitInstallation_Panic [of env r] show ?thesis
      by (auto simp: scope_middlewares_def split: outcome.splits)
  qed (use pid want s in \<open>simp_all add: scope_middlewares_def cluster_mw.no_panic registry_mw.no_panic
        helm_repo_mw.no_panic infra_mw.no_panic invite_mw.no_panic stack_mw.no_panic
        gitlab_mw.no_panic split: outcome.splits\<close>)
qed

lemma scopes_chain_no_panic:
  assumes law: "lawful_repo (ev_repo env)"
  shows "well_scoped seen ss \<Longrightarrow> UserScope \<in> set seen \<Longrightarrow> ProjectScope \<in> set seen \<Longrightarrow>
    scoped_ctx env req p seen r \<Longrightarrow> list_all (\<lambda>s. req s \<noteq> None) ss \<Longrightarrow>
    fst (run_chain (scopes_chain env meta ss) r) \<noteq> Panic"
proof (induction ss arbitrary: seen r)
  case (Cons s ss)
  have s: "s \<noteq> UserScope" "s \<noteq> ProjectScope" using Cons.prems by auto
  have "set (needs s) \<subseteq> set seen" "req s \<noteq> None" using Cons.prems by (auto simp: list_all_iff)
  then have head: "fst (run_chain (scope_middlewares env meta s) r) \<noteq> Panic"
    using scope_no_panic [OF Cons.prems(4)] s by blast
  show ?case
  proof (cases "fst (run_chain (scope_middlewares env meta s) r)")
    case (Next r1)
    from scope_step [OF law Cons.prems(4) s Next] have "scoped_ctx env req p (s # seen) r1"
      by (simp add: chain_step_def)
    then have "fst (run_chain (scopes_chain env meta ss) r1) \<noteq> Panic"
      using Cons.prems by (intro Cons.IH) auto
    with Next show ?thesis by (simp add: fst_run_chain_append)
  qed (use head in \<open>simp_all add: fst_run_chain_append\<close>)
qed simp

lemma scope_returns:
  assumes "s \<noteq> GitInstallationScope"
  shows "fst (run_chain (scope_middlewares env meta s) r) \<noteq> Diverges"
  using assms
  by (cases s)
     (simp_all add: scope_middlewares_def cluster_mw.returns registry_mw.returns helm_repo_mw.returns
       infra_mw.returns operation_mw.returns invite_mw.returns stack_mw.returns gitlab_mw.returns
       NamespaceScopedMiddleware_def ReleaseScopedMiddleware_def ProjectScopedMiddleware_def attach_def
       Let_def split: outcome.splits option.splits sum.splits)

lemma scopes_chain_returns:
  "GitInstallationScope \<notin> set ss \<Longrightarrow> fst (run_chain (scopes_chain env meta ss) r) \<noteq> Diverges"
proof (induction ss arbitrary: r)
  case (Cons s ss)
  then have "s \<noteq> GitInstallationScope" by auto
  with Cons scope_returns [OF this, of env meta r] show ?case
    by (simp add: fst_run_chain_append split: outcome.split)
qed simp

section \<open>Authentication and the policy in front\<close>

lemma url_resource_wire: "same_wire r r' \<Longrightarrow> url_resource r' s = url_resource r s"
  by (simp add: same_wire_def url_resource_def split: option.split)

lemma requested_wire: "same_wire r r' \<Longrightarrow> requested r' meta req \<longleftrightarrow> requested r meta req"
  by (simp add: requested_def url_resource_wire)

definition bare :: "request_ctx \<Rightarrow> bool" where
  "bare ctx \<longleftrightarrow> ctx\<lparr>ctx_api_token := None, ctx_user := None\<rparr> = empty_ctx"

lemma empty_ctx_upd [simp]:
  "ctx_user empty_ctx = None" "ctx_api_token empty_ctx = None"
  by (simp_all add: empty_ctx_def)

lemma bare_fetched:
  "bare (rq_ctx r) \<Longrightarrow>
     fetched_as_asked env req p (r\<lparr>rq_ctx := (rq_ctx r)\<lparr>ctx_req_scopes := q, ctx_project := Some proj\<rparr>\<rparr>)"
  by (cases "rq_ctx r") (simp add: bare_def empty_ctx_def fetched_as_asked_def)

lemma bare_in_project:
  assumes "bare ctx" and "pr_ID proj = p"
  shows "in_project p (ctx\<lparr>ctx_req_scopes := q, ctx_project := Some proj\<rparr>)"
    and "as_asked req (ctx\<lparr>ctx_req_scopes := q, ctx_project := Some proj\<rparr>)"
  using assms by (cases ctx; simp add: bare_def empty_ctx_def in_project_def as_asked_def)+

lemma AuthN_bare:
  "rq_ctx r = empty_ctx \<Longrightarrow> fst (AuthN redirect env r) = Next r1 \<Longrightarrow> bare (rq_ctx r1)"
  by (auto simp: AuthN_Next nextWithUserID_Next with_token_def bare_def empty_ctx_def)

lemma ProjectScopedMiddleware_Next:
  "ProjectScopedMiddleware env r = Next r' \<longleftrightarrow>
     (\<exists>a proj. wanted (rq_ctx r) ProjectScope = Some a \<and>
        ReadProject (ev_repo env) (UInt (ra_Resource a)) = Inr proj \<and>
        r' = r\<lparr>rq_ctx := (rq_ctx r)\<lparr>ctx_project := Some proj\<rparr>\<rparr>)"
  by (auto simp: ProjectScopedMiddleware_def attach_def Let_def split: option.splits sum.splits)

text \<open>
  What holds of a request after the first two scopes, and all the way to the handler: the subject
  is authenticated, it has a policy in the project the URL names, and the policy permits the
  request.
\<close>

definition authorized :: "server_env \<Rightarrow> api_request_metadata \<Rightarrow> request \<Rightarrow> req_scopes \<Rightarrow> uint \<Rightarrow> request_ctx \<Rightarrow> bool" where
  "authorized env meta r req p ctx \<longleftrightarrow>
     authenticated env r ctx \<and> requested r meta req \<and> project_of req = Some p \<and>
     (\<exists>pol. subject_policy env ctx p = Some pol \<and> policy_permits pol req)"

lemma authorized_subject:
  assumes "subject_of ctx' = subject_of ctx"
  shows "authorized env meta r req p ctx' = authorized env meta r req p ctx"
proof -
  have token: "ctx_api_token ctx' = ctx_api_token ctx" and user: "ctx_user ctx' = ctx_user ctx"
    using assms by (simp_all add: subject_of_def)
  show ?thesis
    unfolding authorized_def authenticated_def subject_policy_def token user ..
qed

definition front :: "server_env \<Rightarrow> api_request_metadata \<Rightarrow> middleware list" where
  "front env meta = scopes_chain env meta [UserScope, ProjectScope]"

lemma front_Next:
  assumes law: "lawful_repo (ev_repo env)" and ctx: "rq_ctx r = empty_ctx"
    and run: "fst (run_chain (front env meta) r) = Next r'"
  shows "\<exists>req p. authorized env meta r req p (rq_ctx r') \<and> same_wire r r' \<and>
    scoped_ctx env req p [ProjectScope, UserScope] r'"
proof -
  obtain r1 r2 where auth: "fst (AuthN (md_ShouldRedirect meta) env r) = Next r1"
    and pol: "PolicyHandler env meta r1 = Next r2" and proj: "ProjectScopedMiddleware env r2 = Next r'"
    using run by (auto simp: front_def scope_middlewares_def split: outcome.splits)
  have authd: "authenticated env r (rq_ctx r1)"
    using law ctx auth by (intro AuthN_authenticated) simp_all
  obtain req p pl where req: "getRequestActionForEndpoint r1 meta = Inr req" "project_of req = Some p"
    and pl: "subject_policy env (rq_ctx r1) p = Some pl" "policy_permits pl req"
    and r2: "r2 = r1\<lparr>rq_ctx := (rq_ctx r1)\<lparr>ctx_req_scopes := Some req\<rparr>\<rparr>"
    using pol unfolding PolicyHandler_Next by blast
  obtain project where project: "ReadProject (ev_repo env) p = Inr project"
    and r': "r' = r2\<lparr>rq_ctx := (rq_ctx r2)\<lparr>ctx_project := Some project\<rparr>\<rparr>"
    using proj req(2) by (auto simp: ProjectScopedMiddleware_Next r2 wanted_def project_of_def)
  have wire: "same_wire r r1" using auth by (rule AuthN_same_wire)
  have pid: "pr_ID project = p" using law project by (rule ReadProject_ID)
  have ctx': "rq_ctx r' = (rq_ctx r1)\<lparr>ctx_req_scopes := Some req, ctx_project := Some project\<rparr>"
    by (simp add: r' r2)
  have "subject_of (rq_ctx r') = subject_of (rq_ctx r1)" by (simp add: ctx' subject_of_def)
  moreover have "requested r meta req"
    using getRequestActionForEndpoint_Inr [OF req(1)] requested_wire [OF wire] by simp
  ultimately have "authorized env meta r req p (rq_ctx r')"
    using authd req(2) pl unfolding authorized_subject [OF \<open>subject_of (rq_ctx r') = _\<close>]
    by (auto simp: authorized_def)
  moreover have "ctx_user (rq_ctx r1) \<noteq> None" using authd by (auto simp: authenticated_def)
  then have "scoped_ctx env req p [ProjectScope, UserScope] r'"
    using bare_in_project [OF AuthN_bare [OF ctx auth] pid] bare_fetched [OF AuthN_bare [OF ctx auth]]
    by (simp add: r' r2 scoped_ctx_def project_id_def attached_def pid)
  moreover have "same_wire r r'" using wire by (simp add: r' r2 same_wire_def)
  ultimately show ?thesis by blast
qed

lemma front_Panic:
  assumes "lawful_repo (ev_repo env)" and "rq_ctx r = empty_ctx"
    and "ProjectScope \<in> set (md_Scopes meta)"
    and "fst (run_chain (front env meta) r) = Panic"
  shows "\<exists>t. stored_token env r = Some t \<and> \<not> at_Revoked t \<and> at_Expiry t = None"
proof (cases "fst (AuthN (md_ShouldRedirect meta) env r)")
  case (Next r1)
  have "authenticated env r (rq_ctx r1)" using assms(1,2) Next by (intro AuthN_authenticated) simp_all
  then have "ctx_user (rq_ctx r1) \<noteq> None" by (auto simp: authenticated_def)
  moreover have "req ProjectScope \<noteq> None" if "getRequestActionForEndpoint r1 meta = Inr req" for req
    using requested_action [OF getRequestActionForEndpoint_Inr [OF that] assms(3)] by auto
  ultimately have "PolicyHandler env meta r1 \<noteq> Panic" by (auto simp: PolicyHandler_Panic)
  moreover have "ProjectScopedMiddleware env r2 \<noteq> Panic" if "PolicyHandler env meta r1 = Next r2" for r2
    using that by (auto simp: PolicyHandler_Next ProjectScopedMiddleware_def wanted_def project_of_def
        attach_def Let_def split: sum.splits)
  ultimately have False using assms(4) Next
    by (auto simp: front_def scope_middlewares_def split: outcome.splits)
  then show ?thesis ..
next
  case Panic
  then show ?thesis by (simp add: AuthN_Panic)
qed (use assms(4) in \<open>auto simp: front_def scope_middlewares_def split: outcome.splits\<close>)

section \<open>Serving a request\<close>

lemma well_scoped_front:
  assumes "well_scoped [] ss" and "ProjectScope \<in> set ss"
  shows "\<exists>rest. ss = UserScope # ProjectScope # rest \<and> well_scoped [ProjectScope, UserScope] rest"
proof -
  obtain s ss' where ss: "ss = s # ss'" using assms(2) by (cases ss) auto
  then have "needs s = []" using assms(1) by (cases "needs s") auto
  then have s: "s = UserScope" by (cases s) (simp_all add: needs_def)
  then obtain t rest where ss': "ss' = t # rest" using assms(2) ss by (cases ss') auto
  have "set (needs t) \<subseteq> {UserScope}" "t \<noteq> UserScope"
    using assms(1) by (auto simp: ss s ss' list_all_iff)
  then have "t = ProjectScope" by (cases t) (simp_all add: needs_def)
  with assms(1) show ?thesis by (simp add: ss s ss')
qed

lemma UsageMiddleware_out:
  "fst (UsageMiddleware env m r) = Next r' \<Longrightarrow> r' = r"
  "ctx_project (rq_ctx r) \<noteq> None \<Longrightarrow> fst (UsageMiddleware env m r) \<noteq> Panic"
  "fst (UsageMiddleware env m r) \<noteq> Diverges"
  by (auto simp: UsageMiddleware_def split: option.splits prod.splits sum.splits if_splits)

lemma WebsocketMiddleware_out:
  "WebsocketMiddleware env r = Next r' \<Longrightarrow> r' = r\<lparr>rq_ctx := (rq_ctx r)\<lparr>ctx_websocket := True\<rparr>\<rparr>"
  "WebsocketMiddleware env r \<noteq> Panic" "WebsocketMiddleware env r \<noteq> Diverges"
  by (auto simp: WebsocketMiddleware_def split: option.splits if_splits)

lemma flags_chain_Next:
  "fst (run_chain (flags_chain env meta) r) = Next r' \<Longrightarrow>
     r' = r \<or> r' = r\<lparr>rq_ctx := (rq_ctx r)\<lparr>ctx_websocket := True\<rparr>\<rparr>"
  by (auto simp: flags_chain_def fst_run_chain_append RequestLoggerMiddleware_def
      dest!: WebsocketMiddleware_out(1) UsageMiddleware_out(1) split: if_splits outcome.splits)

lemma flags_chain_total:
  "ctx_project (rq_ctx r) \<noteq> None \<Longrightarrow> fst (run_chain (flags_chain env meta) r) \<noteq> Panic"
  "fst (run_chain (flags_chain env meta) r) \<noteq> Diverges"
  by (auto simp: flags_chain_def fst_run_chain_append RequestLoggerMiddleware_def
      UsageMiddleware_out WebsocketMiddleware_out dest!: WebsocketMiddleware_out(1)
      split: if_splits outcome.splits)

lemma fst_serve:
  "fst (serve env meta r) =
     (case fst (run_chain (route_chain env meta) r) of
        Panic \<Rightarrow> Reply (ApiError (ErrInternal ''panic'')) | out \<Rightarrow> out)"
  by (simp add: serve_def PanicMiddleware_def split: prod.split outcome.split)

lemma route_chain_split:
  "md_Scopes meta = UserScope # ProjectScope # rest \<Longrightarrow>
     route_chain env meta = front env meta @ scopes_chain env meta rest @ flags_chain env meta"
  by (simp add: route_chain_def front_def)

text \<open>What every handler behind a project is given.\<close>

lemma served_context:
  assumes law: "lawful_repo (ev_repo env)" and ctx: "rq_ctx r = empty_ctx"
    and scopes: "well_scoped [] (md_Scopes meta)" "ProjectScope \<in> set (md_Scopes meta)"
    and run: "fst (serve env meta r) = Next r'"
  shows "\<exists>req p. authorized env meta r req p (rq_ctx r') \<and> same_wire r r' \<and>
    scoped_ctx env req p (md_Scopes meta) r'"
proof -
  obtain rest where rest: "md_Scopes meta = UserScope # ProjectScope # rest"
    "well_scoped [ProjectScope, UserScope] rest"
    using well_scoped_front [OF scopes] by blast
  obtain r1 r2 where r1: "fst (run_chain (front env meta) r) = Next r1"
    and r2: "fst (run_chain (scopes_chain env meta rest) r1) = Next r2"
    and r': "fst (run_chain (flags_chain env meta) r2) = Next r'"
    using run unfolding fst_serve route_chain_split [OF rest(1)]
    by (auto simp: fst_run_chain_append split: outcome.splits)
  obtain req p where front: "authorized env meta r req p (rq_ctx r1)" "same_wire r r1"
    "scoped_ctx env req p [ProjectScope, UserScope] r1"
    using front_Next [OF law ctx r1] by blast
  have step: "chain_step env req p (rev rest @ [ProjectScope, UserScope]) r1 r2"
    using scopes_chain_Next [OF law rest(2) _ _ front(3) r2] by simp
  then have "scoped_ctx env req p (md_Scopes meta) r2"
    by (auto simp: chain_step_def scoped_ctx_def rest(1) list_all_iff)
  moreover have "authorized env meta r req p (rq_ctx r2)"
    using step front(1) by (simp add: chain_step_def authorized_subject [of "rq_ctx r2" "rq_ctx r1"])
  moreover have "same_wire r r2" using step front(2) by (auto simp: chain_step_def elim: same_wire_trans)
  moreover have "authorized env meta r req p ((rq_ctx r2)\<lparr>ctx_websocket := True\<rparr>) =
      authorized env meta r req p (rq_ctx r2)"
    by (rule authorized_subject) (simp add: subject_of_def)
  moreover have "scoped_ctx env req p ss (r2\<lparr>rq_ctx := (rq_ctx r2)\<lparr>ctx_websocket := True\<rparr>\<rparr>)" if "scoped_ctx env req p ss r2" for ss
    using that by (auto simp: scoped_ctx_def project_id_def list_all_iff)
  ultimately have "authorized env meta r req p (rq_ctx r') \<and> same_wire r r' \<and>
      scoped_ctx env req p (md_Scopes meta) r'"
    using flags_chain_Next [OF r'] by (auto simp: same_wire_def)
  then show ?thesis by blast
qed

lemma route_no_panic:
  assumes law: "lawful_repo (ev_repo env)" and ctx: "rq_ctx r = empty_ctx"
    and scopes: "well_scoped [] (md_Scopes meta)" "ProjectScope \<in> set (md_Scopes meta)"
    and panic: "fst (run_chain (route_chain env meta) r) = Panic"
  shows "\<exists>t. stored_token env r = Some t \<and> \<not> at_Revoked t \<and> at_Expiry t = None"
proof -
  obtain rest where rest: "md_Scopes meta = UserScope # ProjectScope # rest"
    "well_scoped [ProjectScope, UserScope] rest"
    using well_scoped_front [OF scopes] by blast
  show ?thesis
  proof (cases "fst (run_chain (front env meta) r)")
    case (Next r1)
    obtain req p where front: "authorized env meta r req p (rq_ctx r1)"
      "scoped_ctx env req p [ProjectScope, UserScope] r1"
      using front_Next [OF law ctx Next] by blast
    have "list_all (\<lambda>s. req s \<noteq> None) rest"
      using front(1) rest(1) requested_action [of r meta req]
      by (force simp: authorized_def list_all_iff)
    then have "fst (run_chain (scopes_chain env meta rest) r1) \<noteq> Panic"
      using scopes_chain_no_panic [OF law rest(2) _ _ front(2)] by simp
    moreover have "fst (run_chain (flags_chain env meta) r2) \<noteq> Panic"
      if "fst (run_chain (scopes_chain env meta rest) r1) = Next r2" for r2
    proof -
      have "scoped_ctx env req p (rev rest @ [ProjectScope, UserScope]) r2"
        using scopes_chain_Next [OF law rest(2) _ _ front(2) that] by (simp add: chain_step_def)
      then have "ctx_project (rq_ctx r2) \<noteq> None" by (auto simp: scoped_ctx_def project_id_def)
      then show ?thesis by (rule flags_chain_total(1))
    qed
    ultimately have False
      using panic unfolding route_chain_split [OF rest(1)]
      by (auto simp: fst_run_chain_append Next split: outcome.splits)
    then show ?thesis ..
  next
    case Panic
    then show ?thesis using front_Panic [OF law ctx scopes(2)] by blast
  qed (use panic in \<open>auto simp: route_chain_split [OF rest(1)] fst_run_chain_append\<close>)
qed

lemma route_returns:
  assumes "GitInstallationScope \<notin> set (md_Scopes meta)"
  shows "fst (serve env meta r) \<noteq> Diverges"
  using scopes_chain_returns [OF assms, of env meta r] flags_chain_total(2)
  by (auto simp: fst_serve route_chain_def fst_run_chain_append split: outcome.splits)

lemma serve_no_panic [simp]: "fst (serve env meta r) \<noteq> Panic"
  by (simp add: fst_serve split: outcome.split)

end
