(* ===== verification/Routes.thy ===== *)
theory Routes
  imports Api_Types
begin

text \<open>
  Routes as \<open>api/server/shared/router\<close> and \<open>api/server/shared/endpoints.go\<close> describe them:
  the metadata of an endpoint, its handler by the name of its constructor, and the router it is
  put on, which is the pattern of the groups around it. A field of the metadata that the source
  leaves out has Go's zero value. A registerer, given its children, gives routes on a router.
\<close>

type_synonym path = "path_segment list"

record route =
  rt_Router :: path
  rt_Meta :: api_request_metadata
  rt_Handler :: string

type_synonym registerer = "path \<Rightarrow> route list"

definition new_endpoint ::
  "api_verb \<Rightarrow> http_verb \<Rightarrow> path \<Rightarrow> permission_scope list \<Rightarrow> api_request_metadata" where
  "new_endpoint verb method relPath scopes =
     \<lparr>md_Verb = verb, md_Method = method, md_RelativePath = relPath, md_Scopes = scopes,
      md_ShouldRedirect = False, md_Quiet = False, md_IsWebsocket = False, md_CheckUsage = False,
      md_UsageMetric = OtherMetric []\<rparr>"

definition new_route :: "path \<Rightarrow> api_request_metadata \<Rightarrow> string \<Rightarrow> route" where
  "new_route r meta handler = \<lparr>rt_Router = r, rt_Meta = meta, rt_Handler = handler\<rparr>"

definition full_path :: "route \<Rightarrow> path" where
  "full_path rt = rt_Router rt @ md_RelativePath (rt_Meta rt)"

definition path_params :: "path \<Rightarrow> string list" where
  "path_params p = concat (map (\<lambda>seg. case seg of Lit s \<Rightarrow> [] | Par s \<Rightarrow> [s]) p)"

end
