(* ===== verification/Routes_Base.thy ===== *)
theory Routes_Base
  imports Routes
begin

text \<open>
  The base, user, status and OAuth callback routes
  (\<open>api/server/router\<close>). Each endpoint is the metadata the source gives it and the handler it
  is served by, on the router \<open>r\<close>; each \<open>get...Routes\<close> lists the endpoints of a file in the order
  in which it appends them, and \<open>Get...Routes\<close> adds those of the children.
\<close>

section \<open>\<open>base.go\<close>\<close>

definition getReadyzEndpoint :: "path \<Rightarrow> route" where
  "getReadyzEndpoint r = new_route r
     ((new_endpoint APIVerbGet HTTPVerbGet [Lit ''readyz'']
       [])\<lparr>md_Quiet := True\<rparr>)
     ''healthcheck.NewReadyzHandler''"

definition getLivezEndpoint :: "path \<Rightarrow> route" where
  "getLivezEndpoint r = new_route r
     ((new_endpoint APIVerbGet HTTPVerbGet [Lit ''livez'']
       [])\<lparr>md_Quiet := True\<rparr>)
     ''healthcheck.NewLivezHandler''"

definition getMetadataEndpoint :: "path \<Rightarrow> route" where
  "getMetadataEndpoint r = new_route r
     (new_endpoint APIVerbGet HTTPVerbGet [Lit ''metadata'']
       [])
     ''metadata.NewMetadataGetHandler''"

definition listClusterIntsEndpoint :: "path \<Rightarrow> route" where
  "listClusterIntsEndpoint r = new_route r
     (new_endpoint APIVerbGet HTTPVerbGet [Lit ''integrations'', Lit ''cluster'']
       [])
     ''metadata.NewListClusterIntegrationsHandler''"

definition listRegistryIntsEndpoint :: "path \<Rightarrow> route" where
  "listRegistryIntsEndpoint r = new_route r
     (new_endpoint APIVerbGet HTTPVerbGet [Lit ''integrations'', Lit ''registry'']
       [])
     ''metadata.NewListRegistryIntegrationsHandler''"

definition listHelmRepoIntsEndpoint :: "path \<Rightarrow> route" where
  "listHelmRepoIntsEndpoint r = new_route r
     (new_endpoint APIVerbGet HTTPVerbGet [Lit ''integrations'', Lit ''helm'']
       [])
     ''metadata.NewListHelmRepoIntegrationsHandler''"

definition createUserEndpoint :: "path \<Rightarrow> route" where
  "createUserEndpoint r = new_route r
     (new_endpoint APIVerbCreate HTTPVerbPost [Lit ''users'']
       [])
     ''user.NewUserCreateHandler''"

definition loginUserEndpoint :: "path \<Rightarrow> route" where
  "loginUserEndpoint r = new_route r
     (new_endpoint APIVerbUpdate HTTPVerbPost [Lit ''login'']
       [])
     ''user.NewUserLoginHandler''"

definition cliLoginExchangeEndpoint :: "path \<Rightarrow> route" where
  "cliLoginExchangeEndpoint r = new_route r
     (new_endpoint APIVerbCreate HTTPVerbPost [Lit ''cli'', Lit ''login'', Lit ''exchange'']
       [])
     ''user.NewCLILoginExchangeHandler''"

definition passwordInitiateResetEndpoint :: "path \<Rightarrow> route" where
  "passwordInitiateResetEndpoint r = new_route r
     (new_endpoint APIVerbCreate HTTPVerbPost [Lit ''password'', Lit ''reset'', Lit ''initiate'']
       [])
     ''user.NewUserPasswordInitiateResetHandler''"

definition passwordVerifyResetEndpoint :: "path \<Rightarrow> route" where
  "passwordVerifyResetEndpoint r = new_route r
     (new_endpoint APIVerbCreate HTTPVerbPost [Lit ''password'', Lit ''reset'', Lit ''verify'']
       [])
     ''user.NewUserPasswordVerifyResetHandler''"

definition passwordFinalizeResetEndpoint :: "path \<Rightarrow> route" where
  "passwordFinalizeResetEndpoint r = new_route r
     (new_endpoint APIVerbCreate HTTPVerbPost [Lit ''password'', Lit ''reset'', Lit ''finalize'']
       [])
     ''user.NewUserPasswordFinalizeResetHandler''"

definition webhookEndpoint :: "path \<Rightarrow> route" where
  "webhookEndpoint r = new_route r
     (new_endpoint APIVerbUpdate HTTPVerbPost [Lit ''webhooks'', Lit ''deploy'', Par ''token'']
       [])
     ''release.NewWebhookHandler''"

definition githubAppInstallEndpoint :: "path \<Rightarrow> route" where
  "githubAppInstallEndpoint r = new_route r
     (new_endpoint APIVerbGet HTTPVerbGet [Lit ''integrations'', Lit ''github-app'', Lit ''install'']
       [])
     ''gitinstallation.NewGithubAppInstallHandler''"

definition githubAppWebhookEndpoint :: "path \<Rightarrow> route" where
  "githubAppWebhookEndpoint r = new_route r
     (new_endpoint APIVerbCreate HTTPVerbPost [Lit ''integrations'', Lit ''github-app'', Lit ''webhook'']
       [])
     ''gitinstallation.NewGithubAppWebhookHandler''"

definition githubLoginStartEndpoint :: "path \<Rightarrow> route" where
  "githubLoginStartEndpoint r = new_route r
     (new_endpoint APIVerbGet HTTPVerbGet [Lit ''oauth'', Lit ''login'', Lit ''github'']
       [])
     ''user.NewUserOAuthGithubHandler''"

definition githubLoginCallbackEndpoint :: "path \<Rightarrow> route" where
  "githubLoginCallbackEndpoint r = new_route r
     (new_endpoint APIVerbGet HTTPVerbGet [Lit ''oauth'', Lit ''github'', Lit ''callback'']
       [])
     ''user.NewUserOAuthGithubCallbackHandler''"

definition googleLoginStartEndpoint :: "path \<Rightarrow> route" where
  "googleLoginStartEndpoint r = new_route r
     (new_endpoint APIVerbGet HTTPVerbGet [Lit ''oauth'', Lit ''login'', Lit ''google'']
       [])
     ''user.NewUserOAuthGoogleHandler''"

definition googleLoginCallbackEndpoint :: "path \<Rightarrow> route" where
  "googleLoginCallbackEndpoint r = new_route r
     (new_endpoint APIVerbGet HTTPVerbGet [Lit ''oauth'', Lit ''google'', Lit ''callback'']
       [])
     ''user.NewUserOAuthGoogleCallbackHandler''"

definition getCredentialsEndpoint :: "path \<Rightarrow> route" where
  "getCredentialsEndpoint r = new_route r
     (new_endpoint APIVerbGet HTTPVerbGet [Lit ''internal'', Lit ''credentials'']
       [])
     ''credentials.NewGetCredentialsHandler''"

definition githubIncomingWebhookEndpoint :: "path \<Rightarrow> route" where
  "githubIncomingWebhookEndpoint r = new_route r
     (new_endpoint APIVerbCreate HTTPVerbPost [Lit ''github'', Lit ''incoming_webhook'', Par ''webhook_id'']
       [])
     ''webhook.NewGithubIncomingWebhookHandler''"

definition GetBaseRoutes :: "string \<Rightarrow> path \<Rightarrow> route list" where
  "GetBaseRoutes GithubIncomingWebhookSecret r =
     [getReadyzEndpoint r, getLivezEndpoint r, getMetadataEndpoint r, listClusterIntsEndpoint r,
      listRegistryIntsEndpoint r, listHelmRepoIntsEndpoint r, createUserEndpoint r,
      loginUserEndpoint r, cliLoginExchangeEndpoint r, passwordInitiateResetEndpoint r,
      passwordVerifyResetEndpoint r, passwordFinalizeResetEndpoint r, webhookEndpoint r,
      githubAppInstallEndpoint r, githubAppWebhookEndpoint r, githubLoginStartEndpoint r,
      githubLoginCallbackEndpoint r, googleLoginStartEndpoint r, googleLoginCallbackEndpoint r,
      getCredentialsEndpoint r] @
     (if GithubIncomingWebhookSecret \<noteq> [] then
       [githubIncomingWebhookEndpoint r]
      else [])"

lemmas base_routes =
  getReadyzEndpoint_def getLivezEndpoint_def getMetadataEndpoint_def listClusterIntsEndpoint_def
  listRegistryIntsEndpoint_def listHelmRepoIntsEndpoint_def createUserEndpoint_def
  loginUserEndpoint_def cliLoginExchangeEndpoint_def passwordInitiateResetEndpoint_def
  passwordVerifyResetEndpoint_def passwordFinalizeResetEndpoint_def webhookEndpoint_def
  githubAppInstallEndpoint_def githubAppWebhookEndpoint_def githubLoginStartEndpoint_def
  githubLoginCallbackEndpoint_def googleLoginStartEndpoint_def googleLoginCallbackEndpoint_def
  getCredentialsEndpoint_def githubIncomingWebhookEndpoint_def GetBaseRoutes_def

section \<open>\<open>oauth_callback.go\<close>\<close>

definition oauth_callback_relPath :: path where
  "oauth_callback_relPath = [Lit ''oauth'']"

definition oauth_callback_slackEndpoint :: "path \<Rightarrow> route" where
  "oauth_callback_slackEndpoint r = new_route r
     (new_endpoint APIVerbGet HTTPVerbGet
       (oauth_callback_relPath @ [Lit ''slack'', Lit ''callback''])
       [])
     ''oauth_callback.NewOAuthCallbackSlackHandler''"

definition oauth_callback_doEndpoint :: "path \<Rightarrow> route" where
  "oauth_callback_doEndpoint r = new_route r
     (new_endpoint APIVerbGet HTTPVerbGet
       (oauth_callback_relPath @ [Lit ''digitalocean'', Lit ''callback''])
       [])
     ''oauth_callback.NewOAuthCallbackDOHandler''"

definition oauth_callback_gitlabEndpoint :: "path \<Rightarrow> route" where
  "oauth_callback_gitlabEndpoint r = new_route r
     (new_endpoint APIVerbGet HTTPVerbGet
       (oauth_callback_relPath @ [Lit ''gitlab'', Lit ''callback''])
       [])
     ''oauth_callback.NewOAuthCallbackGitlabHandler''"

definition GetOAuthCallbackRoutes :: "path \<Rightarrow> route list" where
  "GetOAuthCallbackRoutes r =
     [oauth_callback_slackEndpoint r, oauth_callback_doEndpoint r,
      oauth_callback_gitlabEndpoint r]"

lemmas oauth_callback_routes =
  oauth_callback_relPath_def oauth_callback_slackEndpoint_def oauth_callback_doEndpoint_def
  oauth_callback_gitlabEndpoint_def GetOAuthCallbackRoutes_def

section \<open>\<open>user.go\<close>\<close>

definition welcomeEndpoint :: "path \<Rightarrow> route" where
  "welcomeEndpoint r = new_route r
     (new_endpoint APIVerbCreate HTTPVerbPost [Lit ''welcome'']
       [UserScope])
     ''user.NewUserWelcomeHandler''"

definition cliLoginUserEndpoint :: "path \<Rightarrow> route" where
  "cliLoginUserEndpoint r = new_route r
     ((new_endpoint APIVerbGet HTTPVerbGet [Lit ''cli'', Lit ''login'']
       [UserScope])\<lparr>md_ShouldRedirect := True\<rparr>)
     ''user.NewCLILoginHandler''"

definition logoutUserEndpoint :: "path \<Rightarrow> route" where
  "logoutUserEndpoint r = new_route r
     (new_endpoint APIVerbUpdate HTTPVerbPost [Lit ''logout'']
       [UserScope])
     ''user.NewUserLogoutHandler''"

definition authCheckEndpoint :: "path \<Rightarrow> route" where
  "authCheckEndpoint r = new_route r
     (new_endpoint APIVerbGet HTTPVerbGet [Lit ''users'', Lit ''current'']
       [UserScope])
     ''user.NewUserGetCurrentHandler''"

definition deleteUserEndpoint :: "path \<Rightarrow> route" where
  "deleteUserEndpoint r = new_route r
     (new_endpoint APIVerbDelete HTTPVerbDelete [Lit ''users'', Lit ''current'']
       [UserScope])
     ''user.NewUserDeleteHandler''"

definition user_createEndpoint :: "path \<Rightarrow> route" where
  "user_createEndpoint r = new_route r
     (new_endpoint APIVerbCreate HTTPVerbPost [Lit ''projects'']
       [UserScope])
     ''project.NewProjectCreateHandler''"

definition user_listEndpoint :: "path \<Rightarrow> route" where
  "user_listEndpoint r = new_route r
     (new_endpoint APIVerbList HTTPVerbGet [Lit ''projects'']
       [UserScope])
     ''project.NewProjectListHandler''"

definition emailVerifyInitiateEndpoint :: "path \<Rightarrow> route" where
  "emailVerifyInitiateEndpoint r = new_route r
     (new_endpoint APIVerbUpdate HTTPVerbPost [Lit ''email'', Lit ''verify'', Lit ''initiate'']
       [UserScope])
     ''user.NewVerifyEmailInitiateHandler''"

definition emailVerifyFinalizeEndpoint :: "path \<Rightarrow> route" where
  "emailVerifyFinalizeEndpoint r = new_route r
     ((new_endpoint APIVerbGet HTTPVerbGet [Lit ''email'', Lit ''verify'', Lit ''finalize'']
       [UserScope])\<lparr>md_ShouldRedirect := True\<rparr>)
     ''user.NewVerifyEmailFinalizeHandler''"

definition listTemplatesEndpoint :: "path \<Rightarrow> route" where
  "listTemplatesEndpoint r = new_route r
     (new_endpoint APIVerbList HTTPVerbGet [Lit ''templates'']
       [UserScope])
     ''template.NewTemplateListHandler''"

definition user_getTemplateEndpoint :: "path \<Rightarrow> route" where
  "user_getTemplateEndpoint r = new_route r
     (new_endpoint APIVerbGet HTTPVerbGet [Lit ''templates'', Par ''name'', Par ''version'']
       [UserScope])
     ''template.NewTemplateGetHandler''"

definition getTemplateUpgradeNotesEndpoint :: "path \<Rightarrow> route" where
  "getTemplateUpgradeNotesEndpoint r = new_route r
     (new_endpoint APIVerbGet HTTPVerbGet [Lit ''templates'', Par ''name'', Par ''version'', Lit ''upgrade_notes'']
       [UserScope])
     ''template.NewTemplateGetUpgradeNotesHandler''"

definition githubAppOAuthStartEndpoint :: "path \<Rightarrow> route" where
  "githubAppOAuthStartEndpoint r = new_route r
     (new_endpoint APIVerbGet HTTPVerbGet [Lit ''integrations'', Lit ''github-app'', Lit ''oauth'']
       [UserScope])
     ''gitinstallation.NewGithubAppOAuthStartHandler''"

definition githubAppOAuthCallbackEndpoint :: "path \<Rightarrow> route" where
  "githubAppOAuthCallbackEndpoint r = new_route r
     (new_endpoint APIVerbGet HTTPVerbGet [Lit ''oauth'', Lit ''github-app'', Lit ''callback'']
       [UserScope])
     ''gitinstallation.NewGithubAppOAuthCallbackHandler''"

definition githubAppAccountsEndpoint :: "path \<Rightarrow> route" where
  "githubAppAccountsEndpoint r = new_route r
     (new_endpoint APIVerbGet HTTPVerbGet [Lit ''integrations'', Lit ''github-app'', Lit ''accounts'']
       [UserScope])
     ''gitinstallation.NewGetGithubAppAccountsHandler''"

definition canCreateProjectEndpoint :: "path \<Rightarrow> route" where
  "canCreateProjectEndpoint r = new_route r
     (new_endpoint APIVerbGet HTTPVerbGet [Lit ''can_create_project'']
       [UserScope])
     ''user.NewCanCreateProjectHandler''"

definition getUserRoutes :: "path \<Rightarrow> route list" where
  "getUserRoutes r =
     [welcomeEndpoint r, cliLoginUserEndpoint r, logoutUserEndpoint r, authCheckEndpoint r,
      deleteUserEndpoint r, user_createEndpoint r, user_listEndpoint r,
      emailVerifyInitiateEndpoint r, emailVerifyFinalizeEndpoint r, listTemplatesEndpoint r,
      user_getTemplateEndpoint r, getTemplateUpgradeNotesEndpoint r,
      githubAppOAuthStartEndpoint r, githubAppOAuthCallbackEndpoint r,
      githubAppAccountsEndpoint r, canCreateProjectEndpoint r]"

definition GetUserScopedRoutes :: "registerer list \<Rightarrow> registerer" where
  "GetUserScopedRoutes children r =
     getUserRoutes r @ concat (map (\<lambda>child. child r) children)"

lemmas user_routes =
  welcomeEndpoint_def cliLoginUserEndpoint_def logoutUserEndpoint_def authCheckEndpoint_def
  deleteUserEndpoint_def user_createEndpoint_def user_listEndpoint_def
  emailVerifyInitiateEndpoint_def emailVerifyFinalizeEndpoint_def listTemplatesEndpoint_def
  user_getTemplateEndpoint_def getTemplateUpgradeNotesEndpoint_def githubAppOAuthStartEndpoint_def
  githubAppOAuthCallbackEndpoint_def githubAppAccountsEndpoint_def canCreateProjectEndpoint_def
  getUserRoutes_def GetUserScopedRoutes_def

section \<open>\<open>status.go\<close>\<close>

definition status_relPath :: path where
  "status_relPath = [Lit ''status'']"

definition getGithubStatusEndpoint :: "path \<Rightarrow> route" where
  "getGithubStatusEndpoint r = new_route r
     (new_endpoint APIVerbGet HTTPVerbGet (status_relPath @ [Lit ''github''])
       [UserScope])
     ''status.NewGetGithubStatusHandler''"

definition getStatusRoutes :: "path \<Rightarrow> route list" where
  "getStatusRoutes r =
     [getGithubStatusEndpoint r]"

definition GetStatusScopedRoutes :: "registerer list \<Rightarrow> registerer" where
  "GetStatusScopedRoutes children r =
     getStatusRoutes r @ concat (map (\<lambda>child. child (r @ status_relPath)) children)"

lemmas status_routes =
  status_relPath_def getGithubStatusEndpoint_def getStatusRoutes_def GetStatusScopedRoutes_def

end
