(* ===== verification/Routes_Project.thy ===== *)
theory Routes_Project
  imports Routes
begin

text \<open>
  The routes of a project and of what it holds: invites, integrations, registries, Helm repositories and infras
  (\<open>api/server/router\<close>). Each endpoint is the metadata the source gives it and the handler it
  is served by, on the router \<open>r\<close>; each \<open>get...Routes\<close> lists the endpoints of a file in the order
  in which it appends them, and \<open>Get...Routes\<close> adds those of the children.
\<close>

section \<open>\<open>project.go\<close>\<close>

definition project_relPath :: path where
  "project_relPath = [Lit ''projects'', Par ''project_id'']"

definition project_getEndpoint :: "path \<Rightarrow> route" where
  "project_getEndpoint r = new_route r
     (new_endpoint APIVerbGet HTTPVerbGet project_relPath
       [UserScope, ProjectScope])
     ''project.NewProjectGetHandler''"

definition project_deleteEndpoint :: "path \<Rightarrow> route" where
  "project_deleteEndpoint r = new_route r
     (new_endpoint APIVerbDelete HTTPVerbDelete project_relPath
       [UserScope, ProjectScope])
     ''project.NewProjectDeleteHandler''"

definition getPolicyEndpoint :: "path \<Rightarrow> route" where
  "getPolicyEndpoint r = new_route r
     (new_endpoint APIVerbGet HTTPVerbGet (project_relPath @ [Lit ''policy''])
       [UserScope, ProjectScope])
     ''project.NewProjectGetPolicyHandler''"

definition getOnboardingEndpoint :: "path \<Rightarrow> route" where
  "getOnboardingEndpoint r = new_route r
     (new_endpoint APIVerbGet HTTPVerbGet (project_relPath @ [Lit ''onboarding''])
       [UserScope, ProjectScope])
     ''project.NewOnboardingGetHandler''"

definition updateOnboardingEndpoint :: "path \<Rightarrow> route" where
  "updateOnboardingEndpoint r = new_route r
     (new_endpoint APIVerbUpdate HTTPVerbPost (project_relPath @ [Lit ''onboarding''])
       [UserScope, ProjectScope])
     ''project.NewOnboardingUpdateHandler''"

definition getUsageEndpoint :: "path \<Rightarrow> route" where
  "getUsageEndpoint r = new_route r
     (new_endpoint APIVerbGet HTTPVerbGet (project_relPath @ [Lit ''usage''])
       [UserScope, ProjectScope])
     ''project.NewProjectGetUsageHandler''"

definition redirectBillingEndpoint :: "path \<Rightarrow> route" where
  "redirectBillingEndpoint r = new_route r
     (new_endpoint APIVerbGet HTTPVerbGet
       (project_relPath @ [Lit ''billing'', Lit ''redirect''])
       [UserScope, ProjectScope])
     ''billing.NewRedirectBillingHandler''"

definition getBillingEndpoint :: "path \<Rightarrow> route" where
  "getBillingEndpoint r = new_route r
     (new_endpoint APIVerbGet HTTPVerbGet (project_relPath @ [Lit ''billing''])
       [UserScope, ProjectScope])
     ''project.NewProjectGetBillingHandler''"

definition getBillingWebhookEndpoint :: "path \<Rightarrow> route" where
  "getBillingWebhookEndpoint r = new_route r
     (new_endpoint APIVerbCreate HTTPVerbPost [Lit ''billing_webhook'']
       [])
     ''billing.NewBillingWebhookHandler''"

definition listClusterEndpoint :: "path \<Rightarrow> route" where
  "listClusterEndpoint r = new_route r
     (new_endpoint APIVerbList HTTPVerbGet (project_relPath @ [Lit ''clusters''])
       [UserScope, ProjectScope])
     ''cluster.NewClusterListHandler''"

definition listGitReposEndpoint :: "path \<Rightarrow> route" where
  "listGitReposEndpoint r = new_route r
     (new_endpoint APIVerbList HTTPVerbGet (project_relPath @ [Lit ''gitrepos''])
       [UserScope, ProjectScope])
     ''gitinstallation.NewGitRepoListHandler''"

definition listCollaboratorsEndpoint :: "path \<Rightarrow> route" where
  "listCollaboratorsEndpoint r = new_route r
     (new_endpoint APIVerbList HTTPVerbGet (project_relPath @ [Lit ''collaborators''])
       [UserScope, ProjectScope])
     ''project.NewCollaboratorsListHandler''"

definition listRolesEndpoint :: "path \<Rightarrow> route" where
  "listRolesEndpoint r = new_route r
     (new_endpoint APIVerbList HTTPVerbGet (project_relPath @ [Lit ''roles''])
       [UserScope, ProjectScope])
     ''project.NewRolesListHandler''"

definition project_updateRoleEndpoint :: "path \<Rightarrow> route" where
  "project_updateRoleEndpoint r = new_route r
     (new_endpoint APIVerbUpdate HTTPVerbPost (project_relPath @ [Lit ''roles''])
       [UserScope, ProjectScope])
     ''project.NewRoleUpdateHandler''"

definition deleteRoleEndpoint :: "path \<Rightarrow> route" where
  "deleteRoleEndpoint r = new_route r
     (new_endpoint APIVerbDelete HTTPVerbDelete (project_relPath @ [Lit ''roles''])
       [UserScope, ProjectScope])
     ''project.NewRoleDeleteHandler''"

definition project_listRegistriesEndpoint :: "path \<Rightarrow> route" where
  "project_listRegistriesEndpoint r = new_route r
     (new_endpoint APIVerbList HTTPVerbGet (project_relPath @ [Lit ''registries''])
       [UserScope, ProjectScope])
     ''registry.NewRegistryListHandler''"

definition project_createRegistryEndpoint :: "path \<Rightarrow> route" where
  "project_createRegistryEndpoint r = new_route r
     (new_endpoint APIVerbCreate HTTPVerbPost (project_relPath @ [Lit ''registries''])
       [UserScope, ProjectScope])
     ''registry.NewRegistryCreateHandler''"

definition getECRTokenEndpoint :: "path \<Rightarrow> route" where
  "getECRTokenEndpoint r = new_route r
     (new_endpoint APIVerbGet HTTPVerbGet
       (project_relPath @ [Lit ''registries'', Lit ''ecr'', Lit ''token''])
       [UserScope, ProjectScope])
     ''registry.NewRegistryGetECRTokenHandler''"

definition getDOCRTokenEndpoint :: "path \<Rightarrow> route" where
  "getDOCRTokenEndpoint r = new_route r
     (new_endpoint APIVerbGet HTTPVerbGet
       (project_relPath @ [Lit ''registries'', Lit ''docr'', Lit ''token''])
       [UserScope, ProjectScope])
     ''registry.NewRegistryGetDOCRTokenHandler''"

definition getGCRTokenEndpoint :: "path \<Rightarrow> route" where
  "getGCRTokenEndpoint r = new_route r
     (new_endpoint APIVerbGet HTTPVerbGet
       (project_relPath @ [Lit ''registries'', Lit ''gcr'', Lit ''token''])
       [UserScope, ProjectScope])
     ''registry.NewRegistryGetGCRTokenHandler''"

definition getGARTokenEndpoint :: "path \<Rightarrow> route" where
  "getGARTokenEndpoint r = new_route r
     (new_endpoint APIVerbGet HTTPVerbGet
       (project_relPath @ [Lit ''registries'', Lit ''gar'', Lit ''token''])
       [UserScope, ProjectScope])
     ''registry.NewRegistryGetGARTokenHandler''"

definition getACRTokenEndpoint :: "path \<Rightarrow> route" where
  "getACRTokenEndpoint r = new_route r
     (new_endpoint APIVerbGet HTTPVerbGet
       (project_relPath @ [Lit ''registries'', Lit ''acr'', Lit ''token''])
       [UserScope, ProjectScope])
     ''registry.NewRegistryGetACRTokenHandler''"

definition getDockerhubTokenEndpoint :: "path \<Rightarrow> route" where
  "getDockerhubTokenEndpoint r = new_route r
     (new_endpoint APIVerbGet HTTPVerbGet
       (project_relPath @ [Lit ''registries'', Lit ''dockerhub'', Lit ''token''])
       [UserScope, ProjectScope])
     ''registry.NewRegistryGetDockerhubTokenHandler''"

definition createInfraEndpoint :: "path \<Rightarrow> route" where
  "createInfraEndpoint r = new_route r
     (new_endpoint APIVerbCreate HTTPVerbPost (project_relPath @ [Lit ''infras''])
       [UserScope, ProjectScope])
     ''infra.NewInfraCreateHandler''"

definition getTemplatesEndpoint :: "path \<Rightarrow> route" where
  "getTemplatesEndpoint r = new_route r
     (new_endpoint APIVerbGet HTTPVerbGet
       (project_relPath @ [Lit ''infras'', Lit ''templates''])
       [UserScope, ProjectScope])
     ''infra.NewInfraListTemplateHandler''"

definition project_getTemplateEndpoint :: "path \<Rightarrow> route" where
  "project_getTemplateEndpoint r = new_route r
     (new_endpoint APIVerbGet HTTPVerbGet
       (project_relPath @ [Lit ''infras'', Lit ''templates'', Par ''name'', Par ''version''])
       [UserScope, ProjectScope])
     ''infra.NewInfraGetTemplateHandler''"

definition policyCreateEndpoint :: "path \<Rightarrow> route" where
  "policyCreateEndpoint r = new_route r
     (new_endpoint APIVerbCreate HTTPVerbPost (project_relPath @ [Lit ''policy''])
       [UserScope, ProjectScope, SettingsScope])
     ''policy.NewPolicyCreateHandler''"

definition policyListEndpoint :: "path \<Rightarrow> route" where
  "policyListEndpoint r = new_route r
     (new_endpoint APIVerbList HTTPVerbGet (project_relPath @ [Lit ''policies''])
       [UserScope, ProjectScope, SettingsScope])
     ''policy.NewPolicyListHandler''"

definition policyGetEndpoint :: "path \<Rightarrow> route" where
  "policyGetEndpoint r = new_route r
     (new_endpoint APIVerbGet HTTPVerbGet
       (project_relPath @ [Lit ''policy'', Par ''policy_id''])
       [UserScope, ProjectScope, SettingsScope])
     ''policy.NewPolicyGetHandler''"

definition apiTokenCreateEndpoint :: "path \<Rightarrow> route" where
  "apiTokenCreateEndpoint r = new_route r
     (new_endpoint APIVerbCreate HTTPVerbPost (project_relPath @ [Lit ''api_token''])
       [UserScope, ProjectScope, SettingsScope])
     ''api_token.NewAPITokenCreateHandler''"

definition apiTokenListEndpoint :: "path \<Rightarrow> route" where
  "apiTokenListEndpoint r = new_route r
     (new_endpoint APIVerbList HTTPVerbGet (project_relPath @ [Lit ''api_token''])
       [UserScope, ProjectScope, SettingsScope])
     ''api_token.NewAPITokenListHandler''"

definition apiTokenGetEndpoint :: "path \<Rightarrow> route" where
  "apiTokenGetEndpoint r = new_route r
     (new_endpoint APIVerbGet HTTPVerbGet
       (project_relPath @ [Lit ''api_token'', Par ''api_token_id''])
       [UserScope, ProjectScope, SettingsScope])
     ''api_token.NewAPITokenGetHandler''"

definition apiTokenRevokeEndpoint :: "path \<Rightarrow> route" where
  "apiTokenRevokeEndpoint r = new_route r
     (new_endpoint APIVerbUpdate HTTPVerbPost
       (project_relPath @ [Lit ''api_token'', Par ''api_token_id'', Lit ''revoke''])
       [UserScope, ProjectScope, SettingsScope])
     ''api_token.NewAPITokenRevokeHandler''"

definition hrCreateEndpoint :: "path \<Rightarrow> route" where
  "hrCreateEndpoint r = new_route r
     (new_endpoint APIVerbCreate HTTPVerbPost (project_relPath @ [Lit ''helmrepos''])
       [UserScope, ProjectScope])
     ''helmrepo.NewHelmRepoCreateHandler''"

definition project_hrListEndpoint :: "path \<Rightarrow> route" where
  "project_hrListEndpoint r = new_route r
     (new_endpoint APIVerbList HTTPVerbGet (project_relPath @ [Lit ''helmrepos''])
       [UserScope, ProjectScope])
     ''helmrepo.NewHelmRepoListHandler''"

definition getTagsEndpoint :: "path \<Rightarrow> route" where
  "getTagsEndpoint r = new_route r
     (new_endpoint APIVerbGet HTTPVerbGet (project_relPath @ [Lit ''tags''])
       [UserScope, ProjectScope])
     ''project.NewGetTagsHandler''"

definition createTagEndpoint :: "path \<Rightarrow> route" where
  "createTagEndpoint r = new_route r
     (new_endpoint APIVerbCreate HTTPVerbPost (project_relPath @ [Lit ''tags''])
       [UserScope, ProjectScope])
     ''project.NewCreateTagHandler''"

definition getProjectRoutes :: "path \<Rightarrow> route list" where
  "getProjectRoutes r =
     [project_getEndpoint r, project_deleteEndpoint r, getPolicyEndpoint r,
      getOnboardingEndpoint r, updateOnboardingEndpoint r, getUsageEndpoint r,
      redirectBillingEndpoint r, getBillingEndpoint r, getBillingWebhookEndpoint r,
      listClusterEndpoint r, listGitReposEndpoint r, listCollaboratorsEndpoint r,
      listRolesEndpoint r, project_updateRoleEndpoint r, deleteRoleEndpoint r,
      project_listRegistriesEndpoint r, project_createRegistryEndpoint r, getECRTokenEndpoint r,
      getDOCRTokenEndpoint r, getGCRTokenEndpoint r, getGARTokenEndpoint r,
      getACRTokenEndpoint r, getDockerhubTokenEndpoint r, createInfraEndpoint r,
      getTemplatesEndpoint r, project_getTemplateEndpoint r, policyCreateEndpoint r,
      policyListEndpoint r, policyGetEndpoint r, apiTokenCreateEndpoint r,
      apiTokenListEndpoint r, apiTokenGetEndpoint r, apiTokenRevokeEndpoint r,
      hrCreateEndpoint r, project_hrListEndpoint r, getTagsEndpoint r, createTagEndpoint r]"

definition GetProjectScopedRoutes :: "registerer list \<Rightarrow> registerer" where
  "GetProjectScopedRoutes children r =
     getProjectRoutes r @ concat (map (\<lambda>child. child (r @ project_relPath)) children)"

lemmas project_routes =
  project_relPath_def project_getEndpoint_def project_deleteEndpoint_def getPolicyEndpoint_def
  getOnboardingEndpoint_def updateOnboardingEndpoint_def getUsageEndpoint_def
  redirectBillingEndpoint_def getBillingEndpoint_def getBillingWebhookEndpoint_def
  listClusterEndpoint_def listGitReposEndpoint_def listCollaboratorsEndpoint_def
  listRolesEndpoint_def project_updateRoleEndpoint_def deleteRoleEndpoint_def
  project_listRegistriesEndpoint_def project_createRegistryEndpoint_def getECRTokenEndpoint_def
  getDOCRTokenEndpoint_def getGCRTokenEndpoint_def getGARTokenEndpoint_def getACRTokenEndpoint_def
  getDockerhubTokenEndpoint_def createInfraEndpoint_def getTemplatesEndpoint_def
  project_getTemplateEndpoint_def policyCreateEndpoint_def policyListEndpoint_def
  policyGetEndpoint_def apiTokenCreateEndpoint_def apiTokenListEndpoint_def
  apiTokenGetEndpoint_def apiTokenRevokeEndpoint_def hrCreateEndpoint_def
  project_hrListEndpoint_def getTagsEndpoint_def createTagEndpoint_def getProjectRoutes_def
  GetProjectScopedRoutes_def

section \<open>\<open>invite.go\<close>\<close>

definition invite_relPath :: path where
  "invite_relPath = [Lit ''invites'', Par ''invite_id'']"

definition invite_listEndpoint :: "path \<Rightarrow> route" where
  "invite_listEndpoint r = new_route r
     (new_endpoint APIVerbGet HTTPVerbGet [Lit ''invites'']
       [UserScope, ProjectScope, SettingsScope])
     ''invite.NewInvitesListHandler''"

definition invite_createEndpoint :: "path \<Rightarrow> route" where
  "invite_createEndpoint r = new_route r
     ((new_endpoint APIVerbCreate HTTPVerbPost [Lit ''invites'']
       [UserScope, ProjectScope, SettingsScope])\<lparr>md_CheckUsage := True, md_UsageMetric := Users\<rparr>)
     ''invite.NewInviteCreateHandler''"

definition acceptEndpoint :: "path \<Rightarrow> route" where
  "acceptEndpoint r = new_route r
     ((new_endpoint APIVerbGet HTTPVerbGet [Lit ''invites'', Par ''token'']
       [UserScope])\<lparr>md_ShouldRedirect := True\<rparr>)
     ''invite.NewInviteAcceptHandler''"

definition invite_updateRoleEndpoint :: "path \<Rightarrow> route" where
  "invite_updateRoleEndpoint r = new_route r
     (new_endpoint APIVerbUpdate HTTPVerbPost invite_relPath
       [UserScope, ProjectScope, SettingsScope, InviteScope])
     ''invite.NewInviteUpdateRoleHandler''"

definition invite_deleteEndpoint :: "path \<Rightarrow> route" where
  "invite_deleteEndpoint r = new_route r
     (new_endpoint APIVerbDelete HTTPVerbDelete invite_relPath
       [UserScope, ProjectScope, SettingsScope, InviteScope])
     ''invite.NewInviteDeleteHandler''"

definition getInviteRoutes :: "path \<Rightarrow> route list" where
  "getInviteRoutes r =
     [invite_listEndpoint r, invite_createEndpoint r, acceptEndpoint r,
      invite_updateRoleEndpoint r, invite_deleteEndpoint r]"

definition GetInviteScopedRoutes :: "registerer list \<Rightarrow> registerer" where
  "GetInviteScopedRoutes children r =
     getInviteRoutes r @ concat (map (\<lambda>child. child (r @ invite_relPath)) children)"

lemmas invite_routes =
  invite_relPath_def invite_listEndpoint_def invite_createEndpoint_def acceptEndpoint_def
  invite_updateRoleEndpoint_def invite_deleteEndpoint_def getInviteRoutes_def
  GetInviteScopedRoutes_def

section \<open>\<open>project_integration.go\<close>\<close>

definition project_integration_relPath :: path where
  "project_integration_relPath = [Lit ''integrations'']"

definition listOAuthEndpoint :: "path \<Rightarrow> route" where
  "listOAuthEndpoint r = new_route r
     (new_endpoint APIVerbGet HTTPVerbGet
       (project_integration_relPath @ [Lit ''oauth''])
       [UserScope, ProjectScope])
     ''project_integration.NewListOAuthHandler''"

definition listDOEndpoint :: "path \<Rightarrow> route" where
  "listDOEndpoint r = new_route r
     (new_endpoint APIVerbGet HTTPVerbGet (project_integration_relPath @ [Lit ''do''])
       [UserScope, ProjectScope])
     ''project_integration.NewListDOHandler''"

definition createBasicEndpoint :: "path \<Rightarrow> route" where
  "createBasicEndpoint r = new_route r
     (new_endpoint APIVerbCreate HTTPVerbPost
       (project_integration_relPath @ [Lit ''basic''])
       [UserScope, ProjectScope])
     ''project_integration.NewCreateBasicHandler''"

definition createAWSEndpoint :: "path \<Rightarrow> route" where
  "createAWSEndpoint r = new_route r
     (new_endpoint APIVerbCreate HTTPVerbPost
       (project_integration_relPath @ [Lit ''aws''])
       [UserScope, ProjectScope])
     ''project_integration.NewCreateAWSHandler''"

definition listAWSEndpoint :: "path \<Rightarrow> route" where
  "listAWSEndpoint r = new_route r
     (new_endpoint APIVerbGet HTTPVerbGet
       (project_integration_relPath @ [Lit ''aws''])
       [UserScope, ProjectScope])
     ''project_integration.NewListAWSHandler''"

definition overwriteAWSEndpoint :: "path \<Rightarrow> route" where
  "overwriteAWSEndpoint r = new_route r
     (new_endpoint APIVerbCreate HTTPVerbPost
       (project_integration_relPath @ [Lit ''aws'', Lit ''overwrite''])
       [UserScope, ProjectScope])
     ''project_integration.NewOverwriteAWSHandler''"

definition listAzureEndpoint :: "path \<Rightarrow> route" where
  "listAzureEndpoint r = new_route r
     (new_endpoint APIVerbGet HTTPVerbGet
       (project_integration_relPath @ [Lit ''azure''])
       [UserScope, ProjectScope])
     ''project_integration.NewListAzureHandler''"

definition createGCPEndpoint :: "path \<Rightarrow> route" where
  "createGCPEndpoint r = new_route r
     (new_endpoint APIVerbCreate HTTPVerbPost
       (project_integration_relPath @ [Lit ''gcp''])
       [UserScope, ProjectScope])
     ''project_integration.NewCreateGCPHandler''"

definition listGCPEndpoint :: "path \<Rightarrow> route" where
  "listGCPEndpoint r = new_route r
     (new_endpoint APIVerbGet HTTPVerbGet
       (project_integration_relPath @ [Lit ''gcp''])
       [UserScope, ProjectScope])
     ''project_integration.NewListGCPHandler''"

definition createAzureEndpoint :: "path \<Rightarrow> route" where
  "createAzureEndpoint r = new_route r
     (new_endpoint APIVerbCreate HTTPVerbPost
       (project_integration_relPath @ [Lit ''azure''])
       [UserScope, ProjectScope])
     ''project_integration.NewCreateAzureHandler''"

definition listGitlabEndpoint :: "path \<Rightarrow> route" where
  "listGitlabEndpoint r = new_route r
     (new_endpoint APIVerbGet HTTPVerbGet
       (project_integration_relPath @ [Lit ''gitlab''])
       [UserScope, ProjectScope])
     ''project_integration.NewListGitlabHandler''"

definition createGitlabEndpoint :: "path \<Rightarrow> route" where
  "createGitlabEndpoint r = new_route r
     (new_endpoint APIVerbCreate HTTPVerbPost
       (project_integration_relPath @ [Lit ''gitlab''])
       [UserScope, ProjectScope])
     ''project_integration.NewCreateGitlabIntegration''"

definition listGitIntegrationsEndpoint :: "path \<Rightarrow> route" where
  "listGitIntegrationsEndpoint r = new_route r
     (new_endpoint APIVerbGet HTTPVerbGet
       (project_integration_relPath @ [Lit ''git''])
       [UserScope, ProjectScope])
     ''project_integration.NewListGitIntegrationHandler''"

definition listGitlabReposEndpoint :: "path \<Rightarrow> route" where
  "listGitlabReposEndpoint r = new_route r
     (new_endpoint APIVerbGet HTTPVerbGet
       (project_integration_relPath @ [Lit ''gitlab'', Par ''integration_id'', Lit ''repos''])
       [UserScope, ProjectScope, GitlabIntegrationScope])
     ''project_integration.NewListGitlabReposHandler''"

definition listGitlabRepoBranchesEndpoint :: "path \<Rightarrow> route" where
  "listGitlabRepoBranchesEndpoint r = new_route r
     (new_endpoint APIVerbGet HTTPVerbGet
       (project_integration_relPath @ [Lit ''gitlab'', Par ''integration_id'', Lit ''repos'', Par ''owner'', Par ''name'', Lit ''branches''])
       [UserScope, ProjectScope, GitlabIntegrationScope])
     ''project_integration.NewListGitlabRepoBranchesHandler''"

definition getGitlabRepoContentsEndpoint :: "path \<Rightarrow> route" where
  "getGitlabRepoContentsEndpoint r = new_route r
     (new_endpoint APIVerbGet HTTPVerbGet
       (project_integration_relPath @ [Lit ''gitlab'', Par ''integration_id'', Lit ''repos'', Par ''owner'', Par ''name'', Par ''branch'', Lit ''contents''])
       [UserScope, ProjectScope, GitlabIntegrationScope])
     ''project_integration.NewGetGitlabRepoContentsHandler''"

definition getGitlabRepoBuildpackEndpoint :: "path \<Rightarrow> route" where
  "getGitlabRepoBuildpackEndpoint r = new_route r
     (new_endpoint APIVerbGet HTTPVerbGet
       (project_integration_relPath @ [Lit ''gitlab'', Par ''integration_id'', Lit ''repos'', Par ''owner'', Par ''name'', Par ''branch'', Lit ''buildpack'', Lit ''detect''])
       [UserScope, ProjectScope, GitlabIntegrationScope])
     ''project_integration.NewGetGitlabRepoBuildpackHandler''"

definition getGitlabRepoProcfileEndpoint :: "path \<Rightarrow> route" where
  "getGitlabRepoProcfileEndpoint r = new_route r
     (new_endpoint APIVerbGet HTTPVerbGet
       (project_integration_relPath @ [Lit ''gitlab'', Par ''integration_id'', Lit ''repos'', Par ''owner'', Par ''name'', Par ''branch'', Lit ''procfile''])
       [UserScope, ProjectScope, GitlabIntegrationScope])
     ''project_integration.NewGetGitlabRepoProcfileHandler''"

definition getProjectIntegrationRoutes :: "path \<Rightarrow> route list" where
  "getProjectIntegrationRoutes r =
     [listOAuthEndpoint r, listDOEndpoint r, createBasicEndpoint r, createAWSEndpoint r,
      listAWSEndpoint r, overwriteAWSEndpoint r, listAzureEndpoint r, createGCPEndpoint r,
      listGCPEndpoint r, createAzureEndpoint r, listGitlabEndpoint r, createGitlabEndpoint r,
      listGitIntegrationsEndpoint r, listGitlabReposEndpoint r, listGitlabRepoBranchesEndpoint r,
      getGitlabRepoContentsEndpoint r, getGitlabRepoBuildpackEndpoint r,
      getGitlabRepoProcfileEndpoint r]"

definition GetProjectIntegrationScopedRoutes :: "registerer list \<Rightarrow> registerer" where
  "GetProjectIntegrationScopedRoutes children r =
     getProjectIntegrationRoutes r @ concat (map (\<lambda>child. child (r @ project_integration_relPath)) children)"

lemmas project_integration_routes =
  project_integration_relPath_def listOAuthEndpoint_def listDOEndpoint_def createBasicEndpoint_def
  createAWSEndpoint_def listAWSEndpoint_def overwriteAWSEndpoint_def listAzureEndpoint_def
  createGCPEndpoint_def listGCPEndpoint_def createAzureEndpoint_def listGitlabEndpoint_def
  createGitlabEndpoint_def listGitIntegrationsEndpoint_def listGitlabReposEndpoint_def
  listGitlabRepoBranchesEndpoint_def getGitlabRepoContentsEndpoint_def
  getGitlabRepoBuildpackEndpoint_def getGitlabRepoProcfileEndpoint_def
  getProjectIntegrationRoutes_def GetProjectIntegrationScopedRoutes_def

section \<open>\<open>project_oauth.go\<close>\<close>

definition project_oauth_relPath :: path where
  "project_oauth_relPath = [Lit ''oauth'']"

definition project_oauth_slackEndpoint :: "path \<Rightarrow> route" where
  "project_oauth_slackEndpoint r = new_route r
     (new_endpoint APIVerbGet HTTPVerbGet (project_oauth_relPath @ [Lit ''slack''])
       [UserScope, ProjectScope])
     ''project_oauth.NewProjectOAuthSlackHandler''"

definition project_oauth_doEndpoint :: "path \<Rightarrow> route" where
  "project_oauth_doEndpoint r = new_route r
     (new_endpoint APIVerbGet HTTPVerbGet
       (project_oauth_relPath @ [Lit ''digitalocean''])
       [UserScope, ProjectScope])
     ''project_oauth.NewProjectOAuthDOHandler''"

definition project_oauth_gitlabEndpoint :: "path \<Rightarrow> route" where
  "project_oauth_gitlabEndpoint r = new_route r
     (new_endpoint APIVerbGet HTTPVerbGet (project_oauth_relPath @ [Lit ''gitlab''])
       [UserScope, ProjectScope])
     ''project_oauth.NewProjectOAuthGitlabHandler''"

definition getProjectOAuthRoutes :: "path \<Rightarrow> route list" where
  "getProjectOAuthRoutes r =
     [project_oauth_slackEndpoint r, project_oauth_doEndpoint r, project_oauth_gitlabEndpoint r]"

definition GetProjectOAuthScopedRoutes :: "registerer list \<Rightarrow> registerer" where
  "GetProjectOAuthScopedRoutes children r =
     getProjectOAuthRoutes r @ concat (map (\<lambda>child. child (r @ project_oauth_relPath)) children)"

lemmas project_oauth_routes =
  project_oauth_relPath_def project_oauth_slackEndpoint_def project_oauth_doEndpoint_def
  project_oauth_gitlabEndpoint_def getProjectOAuthRoutes_def GetProjectOAuthScopedRoutes_def

section \<open>\<open>slack_integration.go\<close>\<close>

definition slack_integration_relPath :: path where
  "slack_integration_relPath = [Lit ''slack_integrations'']"

definition slack_integration_listEndpoint :: "path \<Rightarrow> route" where
  "slack_integration_listEndpoint r = new_route r
     (new_endpoint APIVerbGet HTTPVerbGet slack_integration_relPath
       [UserScope, ProjectScope])
     ''slack_integration.NewSlackIntegrationListHandler''"

definition existsEndpoint :: "path \<Rightarrow> route" where
  "existsEndpoint r = new_route r
     (new_endpoint APIVerbGet HTTPVerbGet
       (slack_integration_relPath @ [Lit ''exists''])
       [UserScope, ProjectScope])
     ''slack_integration.NewSlackIntegrationExists''"

definition slack_integration_deleteEndpoint :: "path \<Rightarrow> route" where
  "slack_integration_deleteEndpoint r = new_route r
     (new_endpoint APIVerbDelete HTTPVerbDelete
       (slack_integration_relPath @ [Par ''slack_integration_id''])
       [UserScope, ProjectScope])
     ''slack_integration.NewSlackIntegrationDelete''"

definition getSlackIntegrationRoutes :: "path \<Rightarrow> route list" where
  "getSlackIntegrationRoutes r =
     [slack_integration_listEndpoint r, existsEndpoint r, slack_integration_deleteEndpoint r]"

definition GetSlackIntegrationScopedRoutes :: "registerer list \<Rightarrow> registerer" where
  "GetSlackIntegrationScopedRoutes children r =
     getSlackIntegrationRoutes r @ concat (map (\<lambda>child. child (r @ slack_integration_relPath)) children)"

lemmas slack_integration_routes =
  slack_integration_relPath_def slack_integration_listEndpoint_def existsEndpoint_def
  slack_integration_deleteEndpoint_def getSlackIntegrationRoutes_def
  GetSlackIntegrationScopedRoutes_def

section \<open>\<open>helm_repo.go\<close>\<close>

definition helm_repo_relPath :: path where
  "helm_repo_relPath = [Lit ''helmrepos'', Par ''helm_repo_id'']"

definition helm_repo_getEndpoint :: "path \<Rightarrow> route" where
  "helm_repo_getEndpoint r = new_route r
     (new_endpoint APIVerbGet HTTPVerbGet helm_repo_relPath
       [UserScope, ProjectScope, HelmRepoScope])
     ''helmrepo.NewHelmRepoGetHandler''"

definition helm_repo_deleteEndpoint :: "path \<Rightarrow> route" where
  "helm_repo_deleteEndpoint r = new_route r
     (new_endpoint APIVerbDelete HTTPVerbDelete helm_repo_relPath
       [UserScope, ProjectScope, HelmRepoScope])
     ''helmrepo.NewHelmRepoDeleteHandler''"

definition helm_repo_hrListEndpoint :: "path \<Rightarrow> route" where
  "helm_repo_hrListEndpoint r = new_route r
     (new_endpoint APIVerbList HTTPVerbGet (helm_repo_relPath @ [Lit ''charts''])
       [UserScope, ProjectScope, HelmRepoScope])
     ''helmrepo.NewChartListHandler''"

definition chartGetEndpoint :: "path \<Rightarrow> route" where
  "chartGetEndpoint r = new_route r
     (new_endpoint APIVerbGet HTTPVerbGet
       (helm_repo_relPath @ [Lit ''charts'', Par ''name'', Par ''version''])
       [UserScope, ProjectScope, HelmRepoScope])
     ''helmrepo.NewChartGetHandler''"

definition getHelmRepoRoutes :: "path \<Rightarrow> route list" where
  "getHelmRepoRoutes r =
     [helm_repo_getEndpoint r, helm_repo_deleteEndpoint r, helm_repo_hrListEndpoint r,
      chartGetEndpoint r]"

definition GetHelmRepoScopedRoutes :: "registerer list \<Rightarrow> registerer" where
  "GetHelmRepoScopedRoutes children r =
     getHelmRepoRoutes r @ concat (map (\<lambda>child. child (r @ helm_repo_relPath)) children)"

lemmas helm_repo_routes =
  helm_repo_relPath_def helm_repo_getEndpoint_def helm_repo_deleteEndpoint_def
  helm_repo_hrListEndpoint_def chartGetEndpoint_def getHelmRepoRoutes_def
  GetHelmRepoScopedRoutes_def

section \<open>\<open>registry.go\<close>\<close>

definition registry_relPath :: path where
  "registry_relPath = [Lit ''registries'', Par ''registry_id'']"

definition registry_getEndpoint :: "path \<Rightarrow> route" where
  "registry_getEndpoint r = new_route r
     (new_endpoint APIVerbGet HTTPVerbGet registry_relPath
       [UserScope, ProjectScope, RegistryScope])
     ''registry.NewRegistryGetHandler''"

definition registry_updateEndpoint :: "path \<Rightarrow> route" where
  "registry_updateEndpoint r = new_route r
     (new_endpoint APIVerbUpdate HTTPVerbPost registry_relPath
       [UserScope, ProjectScope, RegistryScope])
     ''registry.NewRegistryUpdateHandler''"

definition registry_deleteEndpoint :: "path \<Rightarrow> route" where
  "registry_deleteEndpoint r = new_route r
     (new_endpoint APIVerbDelete HTTPVerbDelete registry_relPath
       [UserScope, ProjectScope, RegistryScope])
     ''registry.NewRegistryDeleteHandler''"

definition registry_listRepositoriesEndpoint :: "path \<Rightarrow> route" where
  "registry_listRepositoriesEndpoint r = new_route r
     (new_endpoint APIVerbList HTTPVerbGet (registry_relPath @ [Lit ''repositories''])
       [UserScope, ProjectScope, RegistryScope])
     ''registry.NewRegistryListRepositoriesHandler''"

definition registry_listImagesEndpoint :: "path \<Rightarrow> route" where
  "registry_listImagesEndpoint r = new_route r
     (new_endpoint APIVerbList HTTPVerbGet
       (registry_relPath @ [Lit ''repositories'', Par ''*''])
       [UserScope, ProjectScope, RegistryScope])
     ''registry.NewRegistryListImagesHandler''"

definition registry_createRepositoryEndpoint :: "path \<Rightarrow> route" where
  "registry_createRepositoryEndpoint r = new_route r
     (new_endpoint APIVerbCreate HTTPVerbPost
       (registry_relPath @ [Lit ''repository''])
       [UserScope, ProjectScope, RegistryScope])
     ''registry.NewRegistryCreateRepositoryHandler''"

definition getRegistryRoutes :: "path \<Rightarrow> route list" where
  "getRegistryRoutes r =
     [registry_getEndpoint r, registry_updateEndpoint r, registry_deleteEndpoint r,
      registry_listRepositoriesEndpoint r, registry_listImagesEndpoint r,
      registry_createRepositoryEndpoint r]"

definition GetRegistryScopedRoutes :: "registerer list \<Rightarrow> registerer" where
  "GetRegistryScopedRoutes children r =
     getRegistryRoutes r @ concat (map (\<lambda>child. child (r @ registry_relPath)) children)"

lemmas registry_routes =
  registry_relPath_def registry_getEndpoint_def registry_updateEndpoint_def
  registry_deleteEndpoint_def registry_listRepositoriesEndpoint_def
  registry_listImagesEndpoint_def registry_createRepositoryEndpoint_def getRegistryRoutes_def
  GetRegistryScopedRoutes_def

section \<open>\<open>infra.go\<close>\<close>

definition infra_relPath :: path where
  "infra_relPath = [Lit ''infras'', Par ''infra_id'']"

definition listInfraEndpoint :: "path \<Rightarrow> route" where
  "listInfraEndpoint r = new_route r
     (new_endpoint APIVerbGet HTTPVerbGet [Lit ''infra'']
       [UserScope, ProjectScope])
     ''infra.NewInfraListHandler''"

definition infra_getEndpoint :: "path \<Rightarrow> route" where
  "infra_getEndpoint r = new_route r
     (new_endpoint APIVerbGet HTTPVerbGet infra_relPath
       [UserScope, ProjectScope, InfraScope])
     ''infra.NewInfraGetHandler''"

definition retryCreateEndpoint :: "path \<Rightarrow> route" where
  "retryCreateEndpoint r = new_route r
     (new_endpoint APIVerbUpdate HTTPVerbPost (infra_relPath @ [Lit ''retry_create''])
       [UserScope, ProjectScope, InfraScope])
     ''infra.NewInfraRetryCreateHandler''"

definition infra_updateEndpoint :: "path \<Rightarrow> route" where
  "infra_updateEndpoint r = new_route r
     (new_endpoint APIVerbUpdate HTTPVerbPost (infra_relPath @ [Lit ''update''])
       [UserScope, ProjectScope, InfraScope])
     ''infra.NewInfraUpdateHandler''"

definition retryDeleteEndpoint :: "path \<Rightarrow> route" where
  "retryDeleteEndpoint r = new_route r
     (new_endpoint APIVerbUpdate HTTPVerbPost (infra_relPath @ [Lit ''retry_delete''])
       [UserScope, ProjectScope, InfraScope])
     ''infra.NewInfraRetryDeleteHandler''"

definition listOperationsEndpoint :: "path \<Rightarrow> route" where
  "listOperationsEndpoint r = new_route r
     (new_endpoint APIVerbList HTTPVerbGet (infra_relPath @ [Lit ''operations''])
       [UserScope, ProjectScope, InfraScope])
     ''infra.NewInfraListOperationsHandler''"

definition getOperationEndpoint :: "path \<Rightarrow> route" where
  "getOperationEndpoint r = new_route r
     (new_endpoint APIVerbGet HTTPVerbGet
       (infra_relPath @ [Lit ''operations'', Par ''operation_id''])
       [UserScope, ProjectScope, InfraScope, OperationScope])
     ''infra.NewInfraGetOperationHandler''"

definition streamStateEndpoint :: "path \<Rightarrow> route" where
  "streamStateEndpoint r = new_route r
     ((new_endpoint APIVerbGet HTTPVerbGet
       (infra_relPath @ [Lit ''operations'', Par ''operation_id'', Lit ''state''])
       [UserScope, ProjectScope, InfraScope, OperationScope])\<lparr>md_IsWebsocket := True\<rparr>)
     ''infra.NewInfraStreamStateHandler''"

definition streamLogEndpoint :: "path \<Rightarrow> route" where
  "streamLogEndpoint r = new_route r
     ((new_endpoint APIVerbGet HTTPVerbGet
       (infra_relPath @ [Lit ''operations'', Par ''operation_id'', Lit ''log_stream''])
       [UserScope, ProjectScope, InfraScope, OperationScope])\<lparr>md_IsWebsocket := True\<rparr>)
     ''infra.NewInfraStreamLogHandler''"

definition getOperationLogsEndpoint :: "path \<Rightarrow> route" where
  "getOperationLogsEndpoint r = new_route r
     (new_endpoint APIVerbGet HTTPVerbGet
       (infra_relPath @ [Lit ''operations'', Par ''operation_id'', Lit ''logs''])
       [UserScope, ProjectScope, InfraScope, OperationScope])
     ''infra.NewInfraGetOperationLogsHandler''"

definition getStateEndpoint :: "path \<Rightarrow> route" where
  "getStateEndpoint r = new_route r
     (new_endpoint APIVerbGet HTTPVerbGet (infra_relPath @ [Lit ''state''])
       [UserScope, ProjectScope, InfraScope])
     ''infra.NewInfraGetStateHandler''"

definition infra_deleteEndpoint :: "path \<Rightarrow> route" where
  "infra_deleteEndpoint r = new_route r
     (new_endpoint APIVerbDelete HTTPVerbDelete infra_relPath
       [UserScope, ProjectScope, InfraScope])
     ''infra.NewInfraDeleteHandler''"

definition updateDBStatusEndpoint :: "path \<Rightarrow> route" where
  "updateDBStatusEndpoint r = new_route r
     (new_endpoint APIVerbUpdate HTTPVerbPost (infra_relPath @ [Lit ''database''])
       [UserScope, ProjectScope, InfraScope])
     ''database.NewDatabaseUpdateStatusHandler''"

definition getInfraRoutes :: "path \<Rightarrow> route list" where
  "getInfraRoutes r =
     [listInfraEndpoint r, infra_getEndpoint r, retryCreateEndpoint r, infra_updateEndpoint r,
      retryDeleteEndpoint r, listOperationsEndpoint r, getOperationEndpoint r,
      streamStateEndpoint r, streamLogEndpoint r, getOperationLogsEndpoint r, getStateEndpoint r,
      infra_deleteEndpoint r, updateDBStatusEndpoint r]"

definition GetInfraScopedRoutes :: "registerer list \<Rightarrow> registerer" where
  "GetInfraScopedRoutes children r =
     getInfraRoutes r @ concat (map (\<lambda>child. child (r @ infra_relPath)) children)"

lemmas infra_routes =
  infra_relPath_def listInfraEndpoint_def infra_getEndpoint_def retryCreateEndpoint_def
  infra_updateEndpoint_def retryDeleteEndpoint_def listOperationsEndpoint_def
  getOperationEndpoint_def streamStateEndpoint_def streamLogEndpoint_def
  getOperationLogsEndpoint_def getStateEndpoint_def infra_deleteEndpoint_def
  updateDBStatusEndpoint_def getInfraRoutes_def GetInfraScopedRoutes_def

end
