(* ===== verification/Routes_Cluster.thy ===== *)
theory Routes_Cluster
  imports Routes
begin

text \<open>
  The routes of clusters, namespaces, releases and git installations
  (\<open>api/server/router\<close>). Each endpoint is the metadata the source gives it and the handler it
  is served by, on the router \<open>r\<close>; each \<open>get...Routes\<close> lists the endpoints of a file in the order
  in which it appends them, and \<open>Get...Routes\<close> adds those of the children.
\<close>

section \<open>\<open>cluster.go\<close>\<close>

definition cluster_relPath :: path where
  "cluster_relPath = [Lit ''clusters'', Par ''cluster_id'']"

definition cluster_createEndpoint :: "path \<Rightarrow> route" where
  "cluster_createEndpoint r = new_route r
     (new_endpoint APIVerbCreate HTTPVerbPost [Lit ''clusters'']
       [UserScope, ProjectScope])
     ''cluster.NewCreateClusterManualHandler''"

definition createCandidateEndpoint :: "path \<Rightarrow> route" where
  "createCandidateEndpoint r = new_route r
     ((new_endpoint APIVerbCreate HTTPVerbPost [Lit ''clusters'', Lit ''candidates'']
       [UserScope, ProjectScope])\<lparr>md_CheckUsage := True, md_UsageMetric := Clusters\<rparr>)
     ''cluster.NewCreateClusterCandidateHandler''"

definition listCandidatesEndpoint :: "path \<Rightarrow> route" where
  "listCandidatesEndpoint r = new_route r
     (new_endpoint APIVerbList HTTPVerbGet [Lit ''clusters'', Lit ''candidates'']
       [UserScope, ProjectScope])
     ''cluster.NewListClusterCandidatesHandler''"

definition resolveCandidateEndpoint :: "path \<Rightarrow> route" where
  "resolveCandidateEndpoint r = new_route r
     ((new_endpoint APIVerbCreate HTTPVerbPost [Lit ''clusters'', Lit ''candidates'', Par ''candidate_id'', Lit ''resolve'']
       [UserScope, ProjectScope])\<lparr>md_CheckUsage := True, md_UsageMetric := Clusters\<rparr>)
     ''cluster.NewResolveClusterCandidateHandler''"

definition updateClusterEndpoint :: "path \<Rightarrow> route" where
  "updateClusterEndpoint r = new_route r
     (new_endpoint APIVerbUpdate HTTPVerbPost cluster_relPath
       [UserScope, ProjectScope, ClusterScope])
     ''cluster.NewClusterUpdateHandler''"

definition deleteClusterEndpoint :: "path \<Rightarrow> route" where
  "deleteClusterEndpoint r = new_route r
     (new_endpoint APIVerbDelete HTTPVerbDelete cluster_relPath
       [UserScope, ProjectScope, ClusterScope])
     ''cluster.NewClusterDeleteHandler''"

definition cluster_getEndpoint :: "path \<Rightarrow> route" where
  "cluster_getEndpoint r = new_route r
     (new_endpoint APIVerbGet HTTPVerbGet cluster_relPath
       [UserScope, ProjectScope, ClusterScope])
     ''cluster.NewClusterGetHandler''"

definition listDatabaseEndpoint :: "path \<Rightarrow> route" where
  "listDatabaseEndpoint r = new_route r
     (new_endpoint APIVerbList HTTPVerbGet (cluster_relPath @ [Lit ''databases''])
       [UserScope, ProjectScope, ClusterScope])
     ''database.NewDatabaseListHandler''"

definition listEnvEndpoint :: "path \<Rightarrow> route" where
  "listEnvEndpoint r = new_route r
     (new_endpoint APIVerbGet HTTPVerbGet (cluster_relPath @ [Lit ''environments''])
       [UserScope, ProjectScope, ClusterScope])
     ''environment.NewListEnvironmentHandler''"

definition getEnvEndpoint :: "path \<Rightarrow> route" where
  "getEnvEndpoint r = new_route r
     (new_endpoint APIVerbGet HTTPVerbGet
       (cluster_relPath @ [Lit ''environments'', Par ''environment_id''])
       [UserScope, ProjectScope, ClusterScope])
     ''environment.NewGetEnvironmentHandler''"

definition toggleNewCommentEndpoint :: "path \<Rightarrow> route" where
  "toggleNewCommentEndpoint r = new_route r
     (new_endpoint APIVerbUpdate HTTPVerbPatch
       (cluster_relPath @ [Lit ''environments'', Par ''environment_id'', Lit ''toggle_new_comment''])
       [UserScope, ProjectScope, ClusterScope])
     ''environment.NewToggleNewCommentHandler''"

definition cluster_listDeploymentsEndpoint :: "path \<Rightarrow> route" where
  "cluster_listDeploymentsEndpoint r = new_route r
     (new_endpoint APIVerbGet HTTPVerbGet (cluster_relPath @ [Lit ''deployments''])
       [UserScope, ProjectScope, ClusterScope])
     ''environment.NewListDeploymentsByClusterHandler''"

definition cluster_getDeploymentEndpoint :: "path \<Rightarrow> route" where
  "cluster_getDeploymentEndpoint r = new_route r
     (new_endpoint APIVerbGet HTTPVerbGet
       (cluster_relPath @ [Lit ''environments'', Par ''environment_id'', Lit ''deployment''])
       [UserScope, ProjectScope, ClusterScope])
     ''environment.NewGetDeploymentByEnvironmentHandler''"

definition reenableDeploymentEndpoint :: "path \<Rightarrow> route" where
  "reenableDeploymentEndpoint r = new_route r
     (new_endpoint APIVerbUpdate HTTPVerbPatch
       (cluster_relPath @ [Lit ''deployments'', Par ''deployment_id'', Lit ''reenable''])
       [UserScope, ProjectScope, ClusterScope])
     ''environment.NewReenableDeploymentHandler''"

definition triggerDeploymentWorkflowEndpoint :: "path \<Rightarrow> route" where
  "triggerDeploymentWorkflowEndpoint r = new_route r
     (new_endpoint APIVerbCreate HTTPVerbPost
       (cluster_relPath @ [Lit ''deployments'', Par ''deployment_id'', Lit ''trigger_workflow''])
       [UserScope, ProjectScope, ClusterScope])
     ''environment.NewTriggerDeploymentWorkflowHandler''"

definition enablePullRequestEndpoint :: "path \<Rightarrow> route" where
  "enablePullRequestEndpoint r = new_route r
     (new_endpoint APIVerbCreate HTTPVerbPost
       (cluster_relPath @ [Lit ''deployments'', Lit ''pull_request''])
       [UserScope, ProjectScope, ClusterScope])
     ''environment.NewEnablePullRequestHandler''"

definition deleteDeploymentEndpoint :: "path \<Rightarrow> route" where
  "deleteDeploymentEndpoint r = new_route r
     (new_endpoint APIVerbDelete HTTPVerbDelete
       (cluster_relPath @ [Lit ''deployments'', Par ''deployment_id''])
       [UserScope, ProjectScope, ClusterScope])
     ''environment.NewDeleteDeploymentHandler''"

definition cluster_listNamespacesEndpoint :: "path \<Rightarrow> route" where
  "cluster_listNamespacesEndpoint r = new_route r
     (new_endpoint APIVerbGet HTTPVerbGet (cluster_relPath @ [Lit ''namespaces''])
       [UserScope, ProjectScope, ClusterScope])
     ''cluster.NewListNamespacesHandler''"

definition listNodesEndpoint :: "path \<Rightarrow> route" where
  "listNodesEndpoint r = new_route r
     (new_endpoint APIVerbGet HTTPVerbGet (cluster_relPath @ [Lit ''nodes''])
       [UserScope, ProjectScope, ClusterScope])
     ''cluster.NewListNodesHandler''"

definition getNodeEndpoint :: "path \<Rightarrow> route" where
  "getNodeEndpoint r = new_route r
     (new_endpoint APIVerbGet HTTPVerbGet
       (cluster_relPath @ [Lit ''nodes'', Par ''node_name''])
       [UserScope, ProjectScope, ClusterScope])
     ''cluster.NewGetNodeHandler''"

definition cluster_createNamespaceEndpoint :: "path \<Rightarrow> route" where
  "cluster_createNamespaceEndpoint r = new_route r
     (new_endpoint APIVerbCreate HTTPVerbPost
       (cluster_relPath @ [Lit ''namespaces'', Lit ''create''])
       [UserScope, ProjectScope, ClusterScope])
     ''cluster.NewCreateNamespaceHandler''"

definition cluster_deleteNamespaceEndpoint :: "path \<Rightarrow> route" where
  "cluster_deleteNamespaceEndpoint r = new_route r
     (new_endpoint APIVerbDelete HTTPVerbDelete
       (cluster_relPath @ [Lit ''namespaces'', Par ''namespace''])
       [UserScope, ProjectScope, ClusterScope])
     ''cluster.NewDeleteNamespaceHandler''"

definition getTemporaryKubeconfigEndpoint :: "path \<Rightarrow> route" where
  "getTemporaryKubeconfigEndpoint r = new_route r
     (new_endpoint APIVerbUpdate HTTPVerbGet (cluster_relPath @ [Lit ''kubeconfig''])
       [UserScope, ProjectScope, ClusterScope])
     ''cluster.NewGetTemporaryKubeconfigHandler''"

definition detectPrometheusInstalledEndpoint :: "path \<Rightarrow> route" where
  "detectPrometheusInstalledEndpoint r = new_route r
     (new_endpoint APIVerbGet HTTPVerbGet
       (cluster_relPath @ [Lit ''prometheus'', Lit ''detect''])
       [UserScope, ProjectScope, ClusterScope])
     ''cluster.NewDetectPrometheusInstalledHandler''"

definition detectAgentInstalledEndpoint :: "path \<Rightarrow> route" where
  "detectAgentInstalledEndpoint r = new_route r
     (new_endpoint APIVerbGet HTTPVerbGet
       (cluster_relPath @ [Lit ''agent'', Lit ''detect''])
       [UserScope, ProjectScope, ClusterScope])
     ''cluster.NewDetectAgentInstalledHandler''"

definition installAgentEndpoint :: "path \<Rightarrow> route" where
  "installAgentEndpoint r = new_route r
     (new_endpoint APIVerbCreate HTTPVerbPost
       (cluster_relPath @ [Lit ''agent'', Lit ''install''])
       [UserScope, ProjectScope, ClusterScope])
     ''cluster.NewInstallAgentHandler''"

definition upgradeAgentEndpoint :: "path \<Rightarrow> route" where
  "upgradeAgentEndpoint r = new_route r
     (new_endpoint APIVerbCreate HTTPVerbPost
       (cluster_relPath @ [Lit ''agent'', Lit ''upgrade''])
       [UserScope, ProjectScope, ClusterScope])
     ''cluster.NewUpgradeAgentHandler''"

definition listKubeEventsEndpoint :: "path \<Rightarrow> route" where
  "listKubeEventsEndpoint r = new_route r
     (new_endpoint APIVerbGet HTTPVerbGet (cluster_relPath @ [Lit ''kube_events''])
       [UserScope, ProjectScope, ClusterScope])
     ''kube_events.NewListKubeEventsHandler''"

definition getKubeEventEndpoint :: "path \<Rightarrow> route" where
  "getKubeEventEndpoint r = new_route r
     (new_endpoint APIVerbGet HTTPVerbGet
       (cluster_relPath @ [Lit ''kube_events'', Par ''kube_event_id''])
       [UserScope, ProjectScope, ClusterScope])
     ''kube_events.NewGetKubeEventHandler''"

definition getKubeEventLogsEndpoint :: "path \<Rightarrow> route" where
  "getKubeEventLogsEndpoint r = new_route r
     (new_endpoint APIVerbGet HTTPVerbGet
       (cluster_relPath @ [Lit ''kube_events'', Par ''kube_event_id'', Lit ''logs''])
       [UserScope, ProjectScope, ClusterScope])
     ''kube_events.NewGetKubeEventLogsHandler''"

definition getKubeEventLogBucketsEndpoint :: "path \<Rightarrow> route" where
  "getKubeEventLogBucketsEndpoint r = new_route r
     (new_endpoint APIVerbGet HTTPVerbGet
       (cluster_relPath @ [Lit ''kube_events'', Par ''kube_event_id'', Lit ''log_buckets''])
       [UserScope, ProjectScope, ClusterScope])
     ''kube_events.NewGetKubeEventLogBucketsHandler''"

definition createKubeEventsEndpoint :: "path \<Rightarrow> route" where
  "createKubeEventsEndpoint r = new_route r
     (new_endpoint APIVerbCreate HTTPVerbPost
       (cluster_relPath @ [Lit ''kube_events''])
       [UserScope, ProjectScope, ClusterScope])
     ''kube_events.NewCreateKubeEventHandler''"

definition listNGINXIngressesEndpoint :: "path \<Rightarrow> route" where
  "listNGINXIngressesEndpoint r = new_route r
     (new_endpoint APIVerbGet HTTPVerbGet
       (cluster_relPath @ [Lit ''prometheus'', Lit ''ingresses''])
       [UserScope, ProjectScope, ClusterScope])
     ''cluster.NewListNGINXIngressesHandler''"

definition getPodMetricsEndpoint :: "path \<Rightarrow> route" where
  "getPodMetricsEndpoint r = new_route r
     (new_endpoint APIVerbGet HTTPVerbGet (cluster_relPath @ [Lit ''metrics''])
       [UserScope, ProjectScope, ClusterScope])
     ''cluster.NewGetPodMetricsHandler''"

definition streamHelmReleaseEndpoint :: "path \<Rightarrow> route" where
  "streamHelmReleaseEndpoint r = new_route r
     ((new_endpoint APIVerbGet HTTPVerbGet (cluster_relPath @ [Lit ''helm_release''])
       [UserScope, ProjectScope, ClusterScope])\<lparr>md_IsWebsocket := True\<rparr>)
     ''cluster.NewStreamHelmReleaseHandler''"

definition streamStatusEndpoint :: "path \<Rightarrow> route" where
  "streamStatusEndpoint r = new_route r
     ((new_endpoint APIVerbGet HTTPVerbGet
       (cluster_relPath @ [Par ''kind'', Lit ''status''])
       [UserScope, ProjectScope, ClusterScope])\<lparr>md_IsWebsocket := True\<rparr>)
     ''cluster.NewStreamStatusHandler''"

definition getPodsEndpoint :: "path \<Rightarrow> route" where
  "getPodsEndpoint r = new_route r
     (new_endpoint APIVerbGet HTTPVerbGet (cluster_relPath @ [Lit ''pods''])
       [UserScope, ProjectScope, ClusterScope])
     ''cluster.NewGetPodsHandler''"

definition getIncidentsEndpoint :: "path \<Rightarrow> route" where
  "getIncidentsEndpoint r = new_route r
     (new_endpoint APIVerbGet HTTPVerbGet (cluster_relPath @ [Lit ''incidents''])
       [UserScope, ProjectScope, ClusterScope])
     ''cluster.NewGetIncidentsHandler''"

definition getIncidentEventLogsEndpoint :: "path \<Rightarrow> route" where
  "getIncidentEventLogsEndpoint r = new_route r
     (new_endpoint APIVerbGet HTTPVerbGet
       (cluster_relPath @ [Lit ''incidents'', Lit ''logs''])
       [UserScope, ProjectScope, ClusterScope])
     ''cluster.NewGetIncidentEventLogsHandler''"

definition notifyNewIncidentEndpoint :: "path \<Rightarrow> route" where
  "notifyNewIncidentEndpoint r = new_route r
     (new_endpoint APIVerbCreate HTTPVerbPost
       (cluster_relPath @ [Lit ''incidents'', Lit ''notify_new''])
       [UserScope, ProjectScope, ClusterScope])
     ''cluster.NewNotifyNewIncidentHandler''"

definition notifyResolvedIncidentEndpoint :: "path \<Rightarrow> route" where
  "notifyResolvedIncidentEndpoint r = new_route r
     (new_endpoint APIVerbCreate HTTPVerbPost
       (cluster_relPath @ [Lit ''incidents'', Lit ''notify_resolved''])
       [UserScope, ProjectScope, ClusterScope])
     ''cluster.NewNotifyResolvedIncidentHandler''"

definition getClusterRoutes :: "string \<Rightarrow> path \<Rightarrow> route list" where
  "getClusterRoutes GithubIncomingWebhookSecret r =
     [cluster_createEndpoint r, createCandidateEndpoint r, listCandidatesEndpoint r,
      resolveCandidateEndpoint r, updateClusterEndpoint r, deleteClusterEndpoint r,
      cluster_getEndpoint r, listDatabaseEndpoint r] @
     (if GithubIncomingWebhookSecret \<noteq> [] then
       [listEnvEndpoint r, getEnvEndpoint r, toggleNewCommentEndpoint r,
        cluster_listDeploymentsEndpoint r, cluster_getDeploymentEndpoint r,
        reenableDeploymentEndpoint r, triggerDeploymentWorkflowEndpoint r,
        enablePullRequestEndpoint r, deleteDeploymentEndpoint r]
      else []) @
     [cluster_listNamespacesEndpoint r, listNodesEndpoint r, getNodeEndpoint r,
      cluster_createNamespaceEndpoint r, cluster_deleteNamespaceEndpoint r,
      getTemporaryKubeconfigEndpoint r, detectPrometheusInstalledEndpoint r,
      detectAgentInstalledEndpoint r, installAgentEndpoint r, upgradeAgentEndpoint r,
      listKubeEventsEndpoint r, getKubeEventEndpoint r, getKubeEventLogsEndpoint r,
      getKubeEventLogBucketsEndpoint r, createKubeEventsEndpoint r, listNGINXIngressesEndpoint r,
      getPodMetricsEndpoint r, streamHelmReleaseEndpoint r, streamStatusEndpoint r,
      getPodsEndpoint r, getIncidentsEndpoint r, getIncidentEventLogsEndpoint r,
      notifyNewIncidentEndpoint r, notifyResolvedIncidentEndpoint r]"

definition GetClusterScopedRoutes :: "string \<Rightarrow> registerer list \<Rightarrow> registerer" where
  "GetClusterScopedRoutes GithubIncomingWebhookSecret children r =
     getClusterRoutes GithubIncomingWebhookSecret r @ concat (map (\<lambda>child. child (r @ cluster_relPath)) children)"

lemmas cluster_routes =
  cluster_relPath_def cluster_createEndpoint_def createCandidateEndpoint_def
  listCandidatesEndpoint_def resolveCandidateEndpoint_def updateClusterEndpoint_def
  deleteClusterEndpoint_def cluster_getEndpoint_def listDatabaseEndpoint_def listEnvEndpoint_def
  getEnvEndpoint_def toggleNewCommentEndpoint_def cluster_listDeploymentsEndpoint_def
  cluster_getDeploymentEndpoint_def reenableDeploymentEndpoint_def
  triggerDeploymentWorkflowEndpoint_def enablePullRequestEndpoint_def deleteDeploymentEndpoint_def
  cluster_listNamespacesEndpoint_def listNodesEndpoint_def getNodeEndpoint_def
  cluster_createNamespaceEndpoint_def cluster_deleteNamespaceEndpoint_def
  getTemporaryKubeconfigEndpoint_def detectPrometheusInstalledEndpoint_def
  detectAgentInstalledEndpoint_def installAgentEndpoint_def upgradeAgentEndpoint_def
  listKubeEventsEndpoint_def getKubeEventEndpoint_def getKubeEventLogsEndpoint_def
  getKubeEventLogBucketsEndpoint_def createKubeEventsEndpoint_def listNGINXIngressesEndpoint_def
  getPodMetricsEndpoint_def streamHelmReleaseEndpoint_def streamStatusEndpoint_def
  getPodsEndpoint_def getIncidentsEndpoint_def getIncidentEventLogsEndpoint_def
  notifyNewIncidentEndpoint_def notifyResolvedIncidentEndpoint_def getClusterRoutes_def
  GetClusterScopedRoutes_def

section \<open>\<open>cluster_integration.go\<close>\<close>

definition cluster_integration_relPath :: path where
  "cluster_integration_relPath = [Lit ''integrations'']"

definition getAWSClusterInfoEndpoint :: "path \<Rightarrow> route" where
  "getAWSClusterInfoEndpoint r = new_route r
     (new_endpoint APIVerbGet HTTPVerbGet
       (cluster_integration_relPath @ [Lit ''aws'', Lit ''info''])
       [UserScope, ProjectScope, ClusterScope])
     ''awsClusterInt.NewGetClusterInfoHandler''"

definition getClusterIntegrationRoutes :: "path \<Rightarrow> route list" where
  "getClusterIntegrationRoutes r =
     [getAWSClusterInfoEndpoint r]"

definition GetClusterIntegrationScopedRoutes :: "registerer list \<Rightarrow> registerer" where
  "GetClusterIntegrationScopedRoutes children r =
     getClusterIntegrationRoutes r @ concat (map (\<lambda>child. child (r @ cluster_integration_relPath)) children)"

lemmas cluster_integration_routes =
  cluster_integration_relPath_def getAWSClusterInfoEndpoint_def getClusterIntegrationRoutes_def
  GetClusterIntegrationScopedRoutes_def

section \<open>\<open>namespace.go\<close>\<close>

definition namespace_relPath :: path where
  "namespace_relPath = [Lit ''namespaces'', Par ''namespace'']"

definition namespace_listEnvGroupsEndpoint :: "path \<Rightarrow> route" where
  "namespace_listEnvGroupsEndpoint r = new_route r
     (new_endpoint APIVerbGet HTTPVerbGet
       (namespace_relPath @ [Lit ''envgroup'', Lit ''list''])
       [UserScope, ProjectScope, ClusterScope, NamespaceScope])
     ''namespace.NewListEnvGroupsHandler''"

definition cloneEnvGroupEndpoint :: "path \<Rightarrow> route" where
  "cloneEnvGroupEndpoint r = new_route r
     (new_endpoint APIVerbCreate HTTPVerbPost
       (namespace_relPath @ [Lit ''envgroup'', Lit ''clone''])
       [UserScope, ProjectScope, ClusterScope, NamespaceScope])
     ''namespace.NewCloneEnvGroupHandler''"

definition namespace_getEnvGroupEndpoint :: "path \<Rightarrow> route" where
  "namespace_getEnvGroupEndpoint r = new_route r
     (new_endpoint APIVerbGet HTTPVerbGet (namespace_relPath @ [Lit ''envgroup''])
       [UserScope, ProjectScope, ClusterScope, NamespaceScope])
     ''namespace.NewGetEnvGroupHandler''"

definition namespace_getEnvGroupAllVersionsEndpoint :: "path \<Rightarrow> route" where
  "namespace_getEnvGroupAllVersionsEndpoint r = new_route r
     (new_endpoint APIVerbGet HTTPVerbGet
       (namespace_relPath @ [Lit ''envgroup'', Lit ''all_versions''])
       [UserScope, ProjectScope, ClusterScope, NamespaceScope])
     ''namespace.NewGetEnvGroupAllVersionsHandler''"

definition createEnvGroupEndpoint :: "path \<Rightarrow> route" where
  "createEnvGroupEndpoint r = new_route r
     (new_endpoint APIVerbCreate HTTPVerbPost
       (namespace_relPath @ [Lit ''envgroup'', Lit ''create''])
       [UserScope, ProjectScope, ClusterScope, NamespaceScope])
     ''namespace.NewCreateEnvGroupHandler''"

definition updateEnvGroupAppsEndpoint :: "path \<Rightarrow> route" where
  "updateEnvGroupAppsEndpoint r = new_route r
     (new_endpoint APIVerbUpdate HTTPVerbPost
       (namespace_relPath @ [Lit ''envgroup'', Lit ''add_application''])
       [UserScope, ProjectScope, ClusterScope, NamespaceScope])
     ''namespace.NewAddEnvGroupAppHandler''"

definition removeEnvGroupAppEndpoint :: "path \<Rightarrow> route" where
  "removeEnvGroupAppEndpoint r = new_route r
     (new_endpoint APIVerbUpdate HTTPVerbPost
       (namespace_relPath @ [Lit ''envgroup'', Lit ''remove_application''])
       [UserScope, ProjectScope, ClusterScope, NamespaceScope])
     ''namespace.NewRemoveEnvGroupAppHandler''"

definition namespace_deleteEnvGroupEndpoint :: "path \<Rightarrow> route" where
  "namespace_deleteEnvGroupEndpoint r = new_route r
     (new_endpoint APIVerbDelete HTTPVerbDelete
       (namespace_relPath @ [Lit ''envgroup''])
       [UserScope, ProjectScope, ClusterScope, NamespaceScope])
     ''namespace.NewDeleteEnvGroupHandler''"

definition updateConfigMapEndpoint :: "path \<Rightarrow> route" where
  "updateConfigMapEndpoint r = new_route r
     (new_endpoint APIVerbUpdate HTTPVerbPost
       (namespace_relPath @ [Lit ''configmap'', Lit ''update''])
       [UserScope, ProjectScope, ClusterScope, NamespaceScope])
     ''namespace.NewUpdateConfigMapHandler''"

definition deleteCRDEndpoint :: "path \<Rightarrow> route" where
  "deleteCRDEndpoint r = new_route r
     (new_endpoint APIVerbDelete HTTPVerbDelete (namespace_relPath @ [Lit ''crd''])
       [UserScope, ProjectScope, ClusterScope])
     ''namespace.NewCRDDeleteHandler''"

definition namespace_listReleasesEndpoint :: "path \<Rightarrow> route" where
  "namespace_listReleasesEndpoint r = new_route r
     (new_endpoint APIVerbGet HTTPVerbGet (namespace_relPath @ [Lit ''releases''])
       [UserScope, ProjectScope, ClusterScope, NamespaceScope])
     ''namespace.NewListReleasesHandler''"

definition streamPodLogsEndpoint :: "path \<Rightarrow> route" where
  "streamPodLogsEndpoint r = new_route r
     ((new_endpoint APIVerbGet HTTPVerbGet
       (namespace_relPath @ [Lit ''pod'', Par ''name'', Lit ''logs''])
       [UserScope, ProjectScope, ClusterScope, NamespaceScope])\<lparr>md_IsWebsocket := True\<rparr>)
     ''namespace.NewStreamPodLogsHandler''"

definition streamJobRunsEndpoint :: "path \<Rightarrow> route" where
  "streamJobRunsEndpoint r = new_route r
     ((new_endpoint APIVerbGet HTTPVerbGet
       (namespace_relPath @ [Lit ''jobs'', Lit ''stream''])
       [UserScope, ProjectScope, ClusterScope, NamespaceScope])\<lparr>md_IsWebsocket := True\<rparr>)
     ''namespace.NewStreamJobRunsHandler''"

definition getPreviousLogsEndpoint :: "path \<Rightarrow> route" where
  "getPreviousLogsEndpoint r = new_route r
     (new_endpoint APIVerbGet HTTPVerbGet
       (namespace_relPath @ [Lit ''pod'', Par ''name'', Lit ''previous_logs''])
       [UserScope, ProjectScope, ClusterScope, NamespaceScope])
     ''namespace.NewGetPreviousLogsHandler''"

definition getJobPodsEndpoint :: "path \<Rightarrow> route" where
  "getJobPodsEndpoint r = new_route r
     (new_endpoint APIVerbList HTTPVerbGet
       (namespace_relPath @ [Lit ''jobs'', Par ''name'', Lit ''pods''])
       [UserScope, ProjectScope, ClusterScope, NamespaceScope])
     ''job.NewGetPodsHandler''"

definition deleteJobEndpoint :: "path \<Rightarrow> route" where
  "deleteJobEndpoint r = new_route r
     (new_endpoint APIVerbDelete HTTPVerbDelete
       (namespace_relPath @ [Lit ''jobs'', Par ''name''])
       [UserScope, ProjectScope, ClusterScope, NamespaceScope])
     ''job.NewDeleteHandler''"

definition stopJobEndpoint :: "path \<Rightarrow> route" where
  "stopJobEndpoint r = new_route r
     (new_endpoint APIVerbUpdate HTTPVerbPost
       (namespace_relPath @ [Lit ''jobs'', Par ''name'', Lit ''stop''])
       [UserScope, ProjectScope, ClusterScope, NamespaceScope])
     ''job.NewStopHandler''"

definition getPodEndpoint :: "path \<Rightarrow> route" where
  "getPodEndpoint r = new_route r
     (new_endpoint APIVerbGet HTTPVerbGet
       (namespace_relPath @ [Lit ''pods'', Par ''name''])
       [UserScope, ProjectScope, ClusterScope, NamespaceScope])
     ''namespace.NewGetPodHandler''"

definition deletePodEndpoint :: "path \<Rightarrow> route" where
  "deletePodEndpoint r = new_route r
     (new_endpoint APIVerbDelete HTTPVerbDelete
       (namespace_relPath @ [Lit ''pods'', Par ''name''])
       [UserScope, ProjectScope, ClusterScope, NamespaceScope])
     ''namespace.NewDeletePodHandler''"

definition getPodEventsEndpoint :: "path \<Rightarrow> route" where
  "getPodEventsEndpoint r = new_route r
     (new_endpoint APIVerbList HTTPVerbGet
       (namespace_relPath @ [Lit ''pods'', Par ''name'', Lit ''events''])
       [UserScope, ProjectScope, ClusterScope, NamespaceScope])
     ''namespace.NewGetPodEventsHandler''"

definition getIngressEndpoint :: "path \<Rightarrow> route" where
  "getIngressEndpoint r = new_route r
     (new_endpoint APIVerbGet HTTPVerbGet
       (namespace_relPath @ [Lit ''ingresses'', Par ''name''])
       [UserScope, ProjectScope, ClusterScope, NamespaceScope])
     ''namespace.NewGetIngressHandler''"

definition getNamespaceRoutes :: "path \<Rightarrow> route list" where
  "getNamespaceRoutes r =
     [namespace_listEnvGroupsEndpoint r, cloneEnvGroupEndpoint r,
      namespace_getEnvGroupEndpoint r, namespace_getEnvGroupAllVersionsEndpoint r,
      createEnvGroupEndpoint r, updateEnvGroupAppsEndpoint r, removeEnvGroupAppEndpoint r,
      namespace_deleteEnvGroupEndpoint r, updateConfigMapEndpoint r, deleteCRDEndpoint r,
      namespace_listReleasesEndpoint r, streamPodLogsEndpoint r, streamJobRunsEndpoint r,
      getPreviousLogsEndpoint r, getJobPodsEndpoint r, deleteJobEndpoint r, stopJobEndpoint r,
      getPodEndpoint r, deletePodEndpoint r, getPodEventsEndpoint r, getIngressEndpoint r]"

definition GetNamespaceScopedRoutes :: "registerer list \<Rightarrow> registerer" where
  "GetNamespaceScopedRoutes children r =
     getNamespaceRoutes r @ concat (map (\<lambda>child. child (r @ namespace_relPath)) children)"

lemmas namespace_routes =
  namespace_relPath_def namespace_listEnvGroupsEndpoint_def cloneEnvGroupEndpoint_def
  namespace_getEnvGroupEndpoint_def namespace_getEnvGroupAllVersionsEndpoint_def
  createEnvGroupEndpoint_def updateEnvGroupAppsEndpoint_def removeEnvGroupAppEndpoint_def
  namespace_deleteEnvGroupEndpoint_def updateConfigMapEndpoint_def deleteCRDEndpoint_def
  namespace_listReleasesEndpoint_def streamPodLogsEndpoint_def streamJobRunsEndpoint_def
  getPreviousLogsEndpoint_def getJobPodsEndpoint_def deleteJobEndpoint_def stopJobEndpoint_def
  getPodEndpoint_def deletePodEndpoint_def getPodEventsEndpoint_def getIngressEndpoint_def
  getNamespaceRoutes_def GetNamespaceScopedRoutes_def

section \<open>\<open>release.go\<close>\<close>

definition release_relPath :: path where
  "release_relPath = [Lit ''releases'', Par ''name'', Par ''version'']"

definition release_getEndpoint :: "path \<Rightarrow> route" where
  "release_getEndpoint r = new_route r
     (new_endpoint APIVerbGet HTTPVerbGet release_relPath
       [UserScope, ProjectScope, ClusterScope, NamespaceScope, ReleaseScope])
     ''release.NewReleaseGetHandler''"

definition streamFormEndpoint :: "path \<Rightarrow> route" where
  "streamFormEndpoint r = new_route r
     ((new_endpoint APIVerbGet HTTPVerbGet (release_relPath @ [Lit ''form_stream''])
       [UserScope, ProjectScope, ClusterScope, NamespaceScope, ReleaseScope])\<lparr>md_IsWebsocket := True\<rparr>)
     ''release.NewStreamFormHandler''"

definition getControllersEndpoint :: "path \<Rightarrow> route" where
  "getControllersEndpoint r = new_route r
     (new_endpoint APIVerbGet HTTPVerbGet (release_relPath @ [Lit ''controllers''])
       [UserScope, ProjectScope, ClusterScope, NamespaceScope, ReleaseScope])
     ''release.NewGetControllersHandler''"

definition getComponentsEndpoint :: "path \<Rightarrow> route" where
  "getComponentsEndpoint r = new_route r
     (new_endpoint APIVerbGet HTTPVerbGet (release_relPath @ [Lit ''components''])
       [UserScope, ProjectScope, ClusterScope, NamespaceScope, ReleaseScope])
     ''release.NewGetComponentsHandler''"

definition getHistoryEndpoint :: "path \<Rightarrow> route" where
  "getHistoryEndpoint r = new_route r
     (new_endpoint APIVerbGet HTTPVerbGet [Lit ''releases'', Par ''name'', Lit ''history'']
       [UserScope, ProjectScope, ClusterScope, NamespaceScope])
     ''release.NewGetReleaseHistoryHandler''"

definition getAllPodsEndpoint :: "path \<Rightarrow> route" where
  "getAllPodsEndpoint r = new_route r
     (new_endpoint APIVerbGet HTTPVerbGet
       (release_relPath @ [Lit ''pods'', Lit ''all''])
       [UserScope, ProjectScope, ClusterScope, NamespaceScope, ReleaseScope])
     ''release.NewGetAllPodsHandler''"

definition updateNotifsEndpoint :: "path \<Rightarrow> route" where
  "updateNotifsEndpoint r = new_route r
     (new_endpoint APIVerbUpdate HTTPVerbPost [Lit ''releases'', Par ''name'', Lit ''notifications'']
       [UserScope, ProjectScope, ClusterScope, NamespaceScope])
     ''release.NewUpdateNotificationHandler''"

definition getNotifsEndpoint :: "path \<Rightarrow> route" where
  "getNotifsEndpoint r = new_route r
     (new_endpoint APIVerbGet HTTPVerbGet [Lit ''releases'', Par ''name'', Lit ''notifications'']
       [UserScope, ProjectScope, ClusterScope, NamespaceScope])
     ''release.NewGetNotificationHandler''"

definition updateBuildConfigEndpoint :: "path \<Rightarrow> route" where
  "updateBuildConfigEndpoint r = new_route r
     (new_endpoint APIVerbUpdate HTTPVerbPost [Lit ''releases'', Par ''name'', Lit ''buildconfig'']
       [UserScope, ProjectScope, ClusterScope, NamespaceScope])
     ''release.NewUpdateBuildConfigHandler''"

definition getWebhookEndpoint :: "path \<Rightarrow> route" where
  "getWebhookEndpoint r = new_route r
     (new_endpoint APIVerbGet HTTPVerbGet [Lit ''releases'', Par ''name'', Lit ''webhook'']
       [UserScope, ProjectScope, ClusterScope, NamespaceScope])
     ''release.NewGetWebhookHandler''"

definition createWebhookEndpoint :: "path \<Rightarrow> route" where
  "createWebhookEndpoint r = new_route r
     (new_endpoint APIVerbCreate HTTPVerbPost (release_relPath @ [Lit ''webhook''])
       [UserScope, ProjectScope, ClusterScope, NamespaceScope, ReleaseScope])
     ''release.NewCreateWebhookHandler''"

definition getStepsEndpoint :: "path \<Rightarrow> route" where
  "getStepsEndpoint r = new_route r
     (new_endpoint APIVerbGet HTTPVerbGet [Lit ''releases'', Par ''name'', Lit ''steps'']
       [UserScope, ProjectScope, ClusterScope, NamespaceScope])
     ''release.NewGetReleaseStepsHandler''"

definition updateStepsEndpoint :: "path \<Rightarrow> route" where
  "updateStepsEndpoint r = new_route r
     (new_endpoint APIVerbCreate HTTPVerbPost [Lit ''releases'', Par ''name'', Lit ''steps'']
       [UserScope, ProjectScope, ClusterScope, NamespaceScope])
     ''release.NewUpdateReleaseStepsHandler''"

definition release_createReleaseEndpoint :: "path \<Rightarrow> route" where
  "release_createReleaseEndpoint r = new_route r
     (new_endpoint APIVerbCreate HTTPVerbPost [Lit ''releases'']
       [UserScope, ProjectScope, ClusterScope, NamespaceScope])
     ''release.NewCreateReleaseHandler''"

definition createAddonEndpoint :: "path \<Rightarrow> route" where
  "createAddonEndpoint r = new_route r
     (new_endpoint APIVerbCreate HTTPVerbPost [Lit ''addons'']
       [UserScope, ProjectScope, ClusterScope, NamespaceScope])
     ''release.NewCreateAddonHandler''"

definition getGHATemplateEndpoint :: "path \<Rightarrow> route" where
  "getGHATemplateEndpoint r = new_route r
     (new_endpoint APIVerbGet HTTPVerbPost [Lit ''releases'', Lit ''gha_template'']
       [UserScope, ProjectScope, ClusterScope, NamespaceScope])
     ''release.NewGetGHATemplateHandler''"

definition release_rollbackEndpoint :: "path \<Rightarrow> route" where
  "release_rollbackEndpoint r = new_route r
     (new_endpoint APIVerbUpdate HTTPVerbPost (release_relPath @ [Lit ''rollback''])
       [UserScope, ProjectScope, ClusterScope, NamespaceScope, ReleaseScope])
     ''release.NewRollbackReleaseHandler''"

definition release_upgradeEndpoint :: "path \<Rightarrow> route" where
  "release_upgradeEndpoint r = new_route r
     (new_endpoint APIVerbUpdate HTTPVerbPost (release_relPath @ [Lit ''upgrade''])
       [UserScope, ProjectScope, ClusterScope, NamespaceScope, ReleaseScope])
     ''release.NewUpgradeReleaseHandler''"

definition release_deleteEndpoint :: "path \<Rightarrow> route" where
  "release_deleteEndpoint r = new_route r
     (new_endpoint APIVerbDelete HTTPVerbDelete release_relPath
       [UserScope, ProjectScope, ClusterScope, NamespaceScope, ReleaseScope])
     ''release.NewDeleteReleaseHandler''"

definition updateImageBatchEndpoint :: "path \<Rightarrow> route" where
  "updateImageBatchEndpoint r = new_route r
     (new_endpoint APIVerbUpdate HTTPVerbPost [Lit ''releases'', Lit ''image'', Lit ''batch'']
       [UserScope, ProjectScope, ClusterScope, NamespaceScope])
     ''release.NewUpdateImageBatchHandler''"

definition getJobsEndpoint :: "path \<Rightarrow> route" where
  "getJobsEndpoint r = new_route r
     (new_endpoint APIVerbGet HTTPVerbGet (release_relPath @ [Lit ''jobs''])
       [UserScope, ProjectScope, ClusterScope, NamespaceScope, ReleaseScope])
     ''release.NewGetJobsHandler''"

definition getLatestJobRunEndpoint :: "path \<Rightarrow> route" where
  "getLatestJobRunEndpoint r = new_route r
     (new_endpoint APIVerbGet HTTPVerbGet (release_relPath @ [Lit ''latest_job_run''])
       [UserScope, ProjectScope, ClusterScope, NamespaceScope, ReleaseScope])
     ''release.NewGetLatestJobRunHandler''"

definition getJobsStatusEndpoint :: "path \<Rightarrow> route" where
  "getJobsStatusEndpoint r = new_route r
     (new_endpoint APIVerbGet HTTPVerbGet
       (release_relPath @ [Lit ''jobs'', Lit ''status''])
       [UserScope, ProjectScope, ClusterScope, NamespaceScope, ReleaseScope])
     ''release.NewGetJobsStatusHandler''"

definition createSubdomainEndpoint :: "path \<Rightarrow> route" where
  "createSubdomainEndpoint r = new_route r
     (new_endpoint APIVerbCreate HTTPVerbPost [Lit ''releases'', Par ''name'', Lit ''subdomain'']
       [UserScope, ProjectScope, ClusterScope, NamespaceScope])
     ''release.NewCreateSubdomainHandler''"

definition updateReleaseTagsEndpoint :: "path \<Rightarrow> route" where
  "updateReleaseTagsEndpoint r = new_route r
     (new_endpoint APIVerbUpdate HTTPVerbPatch
       (release_relPath @ [Lit ''update_tags''])
       [UserScope, ProjectScope, ClusterScope, NamespaceScope, ReleaseScope])
     ''release.NewUpdateReleaseTagsHandler''"

definition updateGitActionConfigEndpoint :: "path \<Rightarrow> route" where
  "updateGitActionConfigEndpoint r = new_route r
     (new_endpoint APIVerbUpdate HTTPVerbPatch
       (release_relPath @ [Lit ''git_action_config''])
       [UserScope, ProjectScope, ClusterScope, NamespaceScope, ReleaseScope])
     ''release.NewUpdateGitActionConfigHandler''"

definition getReleaseRoutes :: "path \<Rightarrow> route list" where
  "getReleaseRoutes r =
     [release_getEndpoint r, streamFormEndpoint r, getControllersEndpoint r,
      getComponentsEndpoint r, getHistoryEndpoint r, getAllPodsEndpoint r,
      updateNotifsEndpoint r, getNotifsEndpoint r, updateBuildConfigEndpoint r,
      getWebhookEndpoint r, createWebhookEndpoint r, getStepsEndpoint r, updateStepsEndpoint r,
      release_createReleaseEndpoint r, createAddonEndpoint r, getGHATemplateEndpoint r,
      release_rollbackEndpoint r, release_upgradeEndpoint r, release_deleteEndpoint r,
      updateImageBatchEndpoint r, getJobsEndpoint r, getLatestJobRunEndpoint r,
      getJobsStatusEndpoint r, createSubdomainEndpoint r, updateReleaseTagsEndpoint r,
      updateGitActionConfigEndpoint r]"

definition GetReleaseScopedRoutes :: "registerer list \<Rightarrow> registerer" where
  "GetReleaseScopedRoutes children r =
     getReleaseRoutes r @ concat (map (\<lambda>child. child (r @ release_relPath)) children)"

lemmas release_routes =
  release_relPath_def release_getEndpoint_def streamFormEndpoint_def getControllersEndpoint_def
  getComponentsEndpoint_def getHistoryEndpoint_def getAllPodsEndpoint_def updateNotifsEndpoint_def
  getNotifsEndpoint_def updateBuildConfigEndpoint_def getWebhookEndpoint_def
  createWebhookEndpoint_def getStepsEndpoint_def updateStepsEndpoint_def
  release_createReleaseEndpoint_def createAddonEndpoint_def getGHATemplateEndpoint_def
  release_rollbackEndpoint_def release_upgradeEndpoint_def release_deleteEndpoint_def
  updateImageBatchEndpoint_def getJobsEndpoint_def getLatestJobRunEndpoint_def
  getJobsStatusEndpoint_def createSubdomainEndpoint_def updateReleaseTagsEndpoint_def
  updateGitActionConfigEndpoint_def getReleaseRoutes_def GetReleaseScopedRoutes_def

section \<open>\<open>git_installation.go\<close>\<close>

definition git_installation_relPath :: path where
  "git_installation_relPath = [Lit ''gitrepos'', Par ''git_installation_id'']"

definition git_installation_getEndpoint :: "path \<Rightarrow> route" where
  "git_installation_getEndpoint r = new_route r
     (new_endpoint APIVerbGet HTTPVerbGet git_installation_relPath
       [UserScope, ProjectScope, GitInstallationScope])
     ''gitinstallation.NewGitInstallationGetHandler''"

definition getPermissionsEndpoint :: "path \<Rightarrow> route" where
  "getPermissionsEndpoint r = new_route r
     (new_endpoint APIVerbGet HTTPVerbGet
       (git_installation_relPath @ [Lit ''permissions''])
       [UserScope, ProjectScope, GitInstallationScope])
     ''gitinstallation.NewGithubGetPermissionsHandler''"

definition createEnvironmentEndpoint :: "path \<Rightarrow> route" where
  "createEnvironmentEndpoint r = new_route r
     (new_endpoint APIVerbCreate HTTPVerbPost
       (git_installation_relPath @ [Par ''owner'', Par ''name'', Lit ''clusters'', Par ''cluster_id'', Lit ''environment''])
       [UserScope, ProjectScope, GitInstallationScope, ClusterScope])
     ''environment.NewCreateEnvironmentHandler''"

definition createDeploymentEndpoint :: "path \<Rightarrow> route" where
  "createDeploymentEndpoint r = new_route r
     (new_endpoint APIVerbCreate HTTPVerbPost
       (git_installation_relPath @ [Par ''owner'', Par ''name'', Lit ''clusters'', Par ''cluster_id'', Lit ''deployment''])
       [UserScope, ProjectScope, GitInstallationScope, ClusterScope])
     ''environment.NewCreateDeploymentHandler''"

definition git_installation_getDeploymentEndpoint :: "path \<Rightarrow> route" where
  "git_installation_getDeploymentEndpoint r = new_route r
     (new_endpoint APIVerbGet HTTPVerbGet
       (git_installation_relPath @ [Par ''owner'', Par ''name'', Lit ''clusters'', Par ''cluster_id'', Lit ''deployment''])
       [UserScope, ProjectScope, GitInstallationScope, ClusterScope])
     ''environment.NewGetDeploymentHandler''"

definition git_installation_listDeploymentsEndpoint :: "path \<Rightarrow> route" where
  "git_installation_listDeploymentsEndpoint r = new_route r
     (new_endpoint APIVerbGet HTTPVerbGet
       (git_installation_relPath @ [Par ''owner'', Par ''name'', Lit ''clusters'', Par ''cluster_id'', Lit ''deployments''])
       [UserScope, ProjectScope, GitInstallationScope, ClusterScope])
     ''environment.NewListDeploymentsHandler''"

definition finalizeDeploymentEndpoint :: "path \<Rightarrow> route" where
  "finalizeDeploymentEndpoint r = new_route r
     (new_endpoint APIVerbCreate HTTPVerbPost
       (git_installation_relPath @ [Par ''owner'', Par ''name'', Lit ''clusters'', Par ''cluster_id'', Lit ''deployment'', Lit ''finalize''])
       [UserScope, ProjectScope, GitInstallationScope, ClusterScope])
     ''environment.NewFinalizeDeploymentHandler''"

definition updateDeploymentEndpoint :: "path \<Rightarrow> route" where
  "updateDeploymentEndpoint r = new_route r
     (new_endpoint APIVerbUpdate HTTPVerbPost
       (git_installation_relPath @ [Par ''owner'', Par ''name'', Lit ''clusters'', Par ''cluster_id'', Lit ''deployment'', Lit ''update''])
       [UserScope, ProjectScope, GitInstallationScope, ClusterScope])
     ''environment.NewUpdateDeploymentHandler''"

definition updateDeploymentStatusEndpoint :: "path \<Rightarrow> route" where
  "updateDeploymentStatusEndpoint r = new_route r
     (new_endpoint APIVerbUpdate HTTPVerbPost
       (git_installation_relPath @ [Par ''owner'', Par ''name'', Lit ''clusters'', Par ''cluster_id'', Lit ''deployment'', Lit ''update'', Lit ''status''])
       [UserScope, ProjectScope, GitInstallationScope, ClusterScope])
     ''environment.NewUpdateDeploymentStatusHandler''"

definition finalizeDeploymentWithErrorsEndpoint :: "path \<Rightarrow> route" where
  "finalizeDeploymentWithErrorsEndpoint r = new_route r
     (new_endpoint APIVerbUpdate HTTPVerbPost
       (git_installation_relPath @ [Par ''owner'', Par ''name'', Lit ''clusters'', Par ''cluster_id'', Lit ''deployment'', Lit ''finalize_errors''])
       [UserScope, ProjectScope, GitInstallationScope, ClusterScope])
     ''environment.NewFinalizeDeploymentWithErrorsHandler''"

definition deleteEnvironmentEndpoint :: "path \<Rightarrow> route" where
  "deleteEnvironmentEndpoint r = new_route r
     (new_endpoint APIVerbDelete HTTPVerbDelete
       (git_installation_relPath @ [Par ''owner'', Par ''name'', Lit ''clusters'', Par ''cluster_id'', Lit ''environment''])
       [UserScope, ProjectScope, GitInstallationScope, ClusterScope])
     ''environment.NewDeleteEnvironmentHandler''"

definition listReposEndpoint :: "path \<Rightarrow> route" where
  "listReposEndpoint r = new_route r
     (new_endpoint APIVerbList HTTPVerbGet
       (git_installation_relPath @ [Lit ''repos''])
       [UserScope, ProjectScope, GitInstallationScope])
     ''gitinstallation.NewGithubListReposHandler''"

definition listBranchesEndpoint :: "path \<Rightarrow> route" where
  "listBranchesEndpoint r = new_route r
     (new_endpoint APIVerbList HTTPVerbGet
       (git_installation_relPath @ [Lit ''repos'', Par ''kind'', Par ''owner'', Par ''name'', Lit ''branches''])
       [UserScope, ProjectScope, GitInstallationScope])
     ''gitinstallation.NewGithubListBranchesHandler''"

definition getBuildpackEndpoint :: "path \<Rightarrow> route" where
  "getBuildpackEndpoint r = new_route r
     (new_endpoint APIVerbGet HTTPVerbGet
       (git_installation_relPath @ [Lit ''repos'', Par ''kind'', Par ''owner'', Par ''name'', Par ''branch'', Lit ''buildpack'', Lit ''detect''])
       [UserScope, ProjectScope, GitInstallationScope])
     ''gitinstallation.NewGithubGetBuildpackHandler''"

definition getContentsEndpoint :: "path \<Rightarrow> route" where
  "getContentsEndpoint r = new_route r
     (new_endpoint APIVerbGet HTTPVerbGet
       (git_installation_relPath @ [Lit ''repos'', Par ''kind'', Par ''owner'', Par ''name'', Par ''branch'', Lit ''contents''])
       [UserScope, ProjectScope, GitInstallationScope])
     ''gitinstallation.NewGithubGetContentsHandler''"

definition getProcfileEndpoint :: "path \<Rightarrow> route" where
  "getProcfileEndpoint r = new_route r
     (new_endpoint APIVerbGet HTTPVerbGet
       (git_installation_relPath @ [Lit ''repos'', Par ''kind'', Par ''owner'', Par ''name'', Par ''branch'', Lit ''procfile''])
       [UserScope, ProjectScope, GitInstallationScope])
     ''gitinstallation.NewGithubGetProcfileHandler''"

definition getTarballURLEndpoint :: "path \<Rightarrow> route" where
  "getTarballURLEndpoint r = new_route r
     (new_endpoint APIVerbGet HTTPVerbGet
       (git_installation_relPath @ [Lit ''repos'', Par ''kind'', Par ''owner'', Par ''name'', Par ''branch'', Lit ''tarball_url''])
       [UserScope, ProjectScope, GitInstallationScope])
     ''gitinstallation.NewGithubGetTarballURLHandler''"

definition rerunWorkflowEndpoint :: "path \<Rightarrow> route" where
  "rerunWorkflowEndpoint r = new_route r
     (new_endpoint APIVerbUpdate HTTPVerbPost
       (git_installation_relPath @ [Par ''owner'', Par ''name'', Lit ''clusters'', Par ''cluster_id'', Lit ''rerun_workflow''])
       [UserScope, ProjectScope, GitInstallationScope, ClusterScope])
     ''gitinstallation.NewRerunWorkflowHandler''"

definition getGitInstallationRoutes :: "string \<Rightarrow> path \<Rightarrow> route list" where
  "getGitInstallationRoutes GithubIncomingWebhookSecret r =
     [git_installation_getEndpoint r, getPermissionsEndpoint r] @
     (if GithubIncomingWebhookSecret \<noteq> [] then
       [createEnvironmentEndpoint r, createDeploymentEndpoint r,
        git_installation_getDeploymentEndpoint r, git_installation_listDeploymentsEndpoint r,
        finalizeDeploymentEndpoint r, updateDeploymentEndpoint r,
        updateDeploymentStatusEndpoint r, finalizeDeploymentWithErrorsEndpoint r,
        deleteEnvironmentEndpoint r]
      else []) @
     [listReposEndpoint r, listBranchesEndpoint r, getBuildpackEndpoint r, getContentsEndpoint r,
      getProcfileEndpoint r, getTarballURLEndpoint r, rerunWorkflowEndpoint r]"

definition GetGitInstallationScopedRoutes :: "string \<Rightarrow> registerer list \<Rightarrow> registerer" where
  "GetGitInstallationScopedRoutes GithubIncomingWebhookSecret children r =
     getGitInstallationRoutes GithubIncomingWebhookSecret r @ concat (map (\<lambda>child. child (r @ git_installation_relPath)) children)"

lemmas git_installation_routes =
  git_installation_relPath_def git_installation_getEndpoint_def getPermissionsEndpoint_def
  createEnvironmentEndpoint_def createDeploymentEndpoint_def
  git_installation_getDeploymentEndpoint_def git_installation_listDeploymentsEndpoint_def
  finalizeDeploymentEndpoint_def updateDeploymentEndpoint_def updateDeploymentStatusEndpoint_def
  finalizeDeploymentWithErrorsEndpoint_def deleteEnvironmentEndpoint_def listReposEndpoint_def
  listBranchesEndpoint_def getBuildpackEndpoint_def getContentsEndpoint_def
  getProcfileEndpoint_def getTarballURLEndpoint_def rerunWorkflowEndpoint_def
  getGitInstallationRoutes_def GetGitInstallationScopedRoutes_def

end
