(* ===== verification/Routes_V1.thy ===== *)
theory Routes_V1
  imports Routes
begin

text \<open>
  The routes of the versioned API, \<open>/api/v1\<close>
  (\<open>api/server/router\<close>). Each endpoint is the metadata the source gives it and the handler it
  is served by, on the router \<open>r\<close>; each \<open>get...Routes\<close> lists the endpoints of a file in the order
  in which it appends them, and \<open>Get...Routes\<close> adds those of the children.
\<close>

section \<open>\<open>v1/project.go\<close>\<close>

definition v1_project_relPath :: path where
  "v1_project_relPath = [Lit ''projects'', Par ''project_id'']"

definition getV1ProjectRoutes :: "path \<Rightarrow> route list" where
  "getV1ProjectRoutes r =
     []"

definition GetV1ProjectScopedRoutes :: "registerer list \<Rightarrow> registerer" where
  "GetV1ProjectScopedRoutes children r =
     getV1ProjectRoutes r @ concat (map (\<lambda>child. child (r @ v1_project_relPath)) children)"

lemmas v1_project_routes =
  v1_project_relPath_def getV1ProjectRoutes_def GetV1ProjectScopedRoutes_def

section \<open>\<open>v1/registry.go\<close>\<close>

definition v1_registry_relPath :: path where
  "v1_registry_relPath = [Lit ''registries'']"

definition v1_registry_createRegistryEndpoint :: "path \<Rightarrow> route" where
  "v1_registry_createRegistryEndpoint r = new_route r
     (new_endpoint APIVerbCreate HTTPVerbPost v1_registry_relPath
       [UserScope, ProjectScope])
     ''registry.NewRegistryCreateHandler''"

definition v1_registry_getEndpoint :: "path \<Rightarrow> route" where
  "v1_registry_getEndpoint r = new_route r
     (new_endpoint APIVerbGet HTTPVerbGet
       (v1_registry_relPath @ [Par ''registry_id''])
       [UserScope, ProjectScope, RegistryScope])
     ''registry.NewRegistryGetHandler''"

definition v1_registry_listRegistriesEndpoint :: "path \<Rightarrow> route" where
  "v1_registry_listRegistriesEndpoint r = new_route r
     (new_endpoint APIVerbList HTTPVerbGet v1_registry_relPath
       [UserScope, ProjectScope])
     ''registry.NewRegistryListHandler''"

definition v1_registry_deleteEndpoint :: "path \<Rightarrow> route" where
  "v1_registry_deleteEndpoint r = new_route r
     (new_endpoint APIVerbDelete HTTPVerbDelete
       (v1_registry_relPath @ [Par ''registry_id''])
       [UserScope, ProjectScope, RegistryScope])
     ''registry.NewRegistryDeleteHandler''"

definition v1_registry_createRepositoryEndpoint :: "path \<Rightarrow> route" where
  "v1_registry_createRepositoryEndpoint r = new_route r
     (new_endpoint APIVerbCreate HTTPVerbPost
       (v1_registry_relPath @ [Par ''registry_id'', Lit ''repositories''])
       [UserScope, ProjectScope, RegistryScope])
     ''registry.NewRegistryCreateRepositoryHandler''"

definition v1_registry_listRepositoriesEndpoint :: "path \<Rightarrow> route" where
  "v1_registry_listRepositoriesEndpoint r = new_route r
     (new_endpoint APIVerbList HTTPVerbGet
       (v1_registry_relPath @ [Par ''registry_id'', Lit ''repositories''])
       [UserScope, ProjectScope, RegistryScope])
     ''registry.NewRegistryListRepositoriesHandler''"

definition v1_registry_listImagesEndpoint :: "path \<Rightarrow> route" where
  "v1_registry_listImagesEndpoint r = new_route r
     (new_endpoint APIVerbList HTTPVerbGet
       (v1_registry_relPath @ [Par ''registry_id'', Lit ''repositories'', Par ''*''])
       [UserScope, ProjectScope, RegistryScope])
     ''v1Registry.NewRegistryListImagesHandler''"

definition getV1RegistryRoutes :: "path \<Rightarrow> route list" where
  "getV1RegistryRoutes r =
     [v1_registry_createRegistryEndpoint r, v1_registry_getEndpoint r,
      v1_registry_listRegistriesEndpoint r, v1_registry_deleteEndpoint r,
      v1_registry_createRepositoryEndpoint r, v1_registry_listRepositoriesEndpoint r,
      v1_registry_listImagesEndpoint r]"

definition GetV1RegistryScopedRoutes :: "registerer list \<Rightarrow> registerer" where
  "GetV1RegistryScopedRoutes children r =
     getV1RegistryRoutes r @ concat (map (\<lambda>child. child (r @ v1_registry_relPath)) children)"

lemmas v1_registry_routes =
  v1_registry_relPath_def v1_registry_createRegistryEndpoint_def v1_registry_getEndpoint_def
  v1_registry_listRegistriesEndpoint_def v1_registry_deleteEndpoint_def
  v1_registry_createRepositoryEndpoint_def v1_registry_listRepositoriesEndpoint_def
  v1_registry_listImagesEndpoint_def getV1RegistryRoutes_def GetV1RegistryScopedRoutes_def

section \<open>\<open>v1/cluster.go\<close>\<close>

definition v1_cluster_relPath :: path where
  "v1_cluster_relPath = [Lit ''clusters'', Par ''cluster_id'']"

definition v1_cluster_createNamespaceEndpoint :: "path \<Rightarrow> route" where
  "v1_cluster_createNamespaceEndpoint r = new_route r
     (new_endpoint APIVerbCreate HTTPVerbPost
       (v1_cluster_relPath @ [Lit ''namespaces''])
       [UserScope, ProjectScope, ClusterScope])
     ''cluster.NewCreateNamespaceHandler''"

definition getNamespaceEndpoint :: "path \<Rightarrow> route" where
  "getNamespaceEndpoint r = new_route r
     (new_endpoint APIVerbGet HTTPVerbGet
       (v1_cluster_relPath @ [Lit ''namespaces'', Par ''namespace''])
       [UserScope, ProjectScope, ClusterScope])
     ''cluster.NewGetNamespaceHandler''"

definition v1_cluster_listNamespacesEndpoint :: "path \<Rightarrow> route" where
  "v1_cluster_listNamespacesEndpoint r = new_route r
     (new_endpoint APIVerbGet HTTPVerbGet (v1_cluster_relPath @ [Lit ''namespaces''])
       [UserScope, ProjectScope, ClusterScope])
     ''cluster.NewListNamespacesHandler''"

definition v1_cluster_deleteNamespaceEndpoint :: "path \<Rightarrow> route" where
  "v1_cluster_deleteNamespaceEndpoint r = new_route r
     (new_endpoint APIVerbDelete HTTPVerbDelete
       (v1_cluster_relPath @ [Lit ''namespaces'', Par ''namespace''])
       [UserScope, ProjectScope, ClusterScope])
     ''cluster.NewDeleteNamespaceHandler''"

definition getV1ClusterRoutes :: "path \<Rightarrow> route list" where
  "getV1ClusterRoutes r =
     [v1_cluster_createNamespaceEndpoint r, getNamespaceEndpoint r,
      v1_cluster_listNamespacesEndpoint r, v1_cluster_deleteNamespaceEndpoint r]"

definition GetV1ClusterScopedRoutes :: "registerer list \<Rightarrow> registerer" where
  "GetV1ClusterScopedRoutes children r =
     getV1ClusterRoutes r @ concat (map (\<lambda>child. child (r @ v1_cluster_relPath)) children)"

lemmas v1_cluster_routes =
  v1_cluster_relPath_def v1_cluster_createNamespaceEndpoint_def getNamespaceEndpoint_def
  v1_cluster_listNamespacesEndpoint_def v1_cluster_deleteNamespaceEndpoint_def
  getV1ClusterRoutes_def GetV1ClusterScopedRoutes_def

section \<open>\<open>v1/namespace.go\<close>\<close>

definition v1_namespace_relPath :: path where
  "v1_namespace_relPath = [Lit ''namespaces'', Par ''namespace'']"

definition getV1NamespaceRoutes :: "path \<Rightarrow> route list" where
  "getV1NamespaceRoutes r =
     []"

definition GetV1NamespaceScopedRoutes :: "registerer list \<Rightarrow> registerer" where
  "GetV1NamespaceScopedRoutes children r =
     getV1NamespaceRoutes r @ concat (map (\<lambda>child. child (r @ v1_namespace_relPath)) children)"

lemmas v1_namespace_routes =
  v1_namespace_relPath_def getV1NamespaceRoutes_def GetV1NamespaceScopedRoutes_def

section \<open>\<open>v1/release.go\<close>\<close>

definition v1_release_relPath :: path where
  "v1_release_relPath = [Lit ''releases'']"

definition v1_release_createReleaseEndpoint :: "path \<Rightarrow> route" where
  "v1_release_createReleaseEndpoint r = new_route r
     (new_endpoint APIVerbCreate HTTPVerbPost v1_release_relPath
       [UserScope, ProjectScope, ClusterScope, NamespaceScope])
     ''release.NewCreateReleaseHandler''"

definition v1_release_getEndpoint :: "path \<Rightarrow> route" where
  "v1_release_getEndpoint r = new_route r
     (new_endpoint APIVerbGet HTTPVerbGet
       (v1_release_relPath @ [Par ''name'', Par ''version''])
       [UserScope, ProjectScope, ClusterScope, NamespaceScope, ReleaseScope])
     ''release.NewReleaseGetHandler''"

definition v1_release_listReleasesEndpoint :: "path \<Rightarrow> route" where
  "v1_release_listReleasesEndpoint r = new_route r
     (new_endpoint APIVerbGet HTTPVerbGet v1_release_relPath
       [UserScope, ProjectScope, ClusterScope, NamespaceScope])
     ''namespace.NewListReleasesHandler''"

definition v1_release_upgradeEndpoint :: "path \<Rightarrow> route" where
  "v1_release_upgradeEndpoint r = new_route r
     (new_endpoint APIVerbUpdate HTTPVerbPatch
       (v1_release_relPath @ [Par ''name'', Par ''version''])
       [UserScope, ProjectScope, ClusterScope, NamespaceScope, ReleaseScope])
     ''v1Release.NewUpgradeReleaseHandler''"

definition v1_release_deleteEndpoint :: "path \<Rightarrow> route" where
  "v1_release_deleteEndpoint r = new_route r
     (new_endpoint APIVerbDelete HTTPVerbDelete v1_release_relPath
       [UserScope, ProjectScope, ClusterScope, NamespaceScope, ReleaseScope])
     ''release.NewDeleteReleaseHandler''"

definition getV1ReleaseRoutes :: "path \<Rightarrow> route list" where
  "getV1ReleaseRoutes r =
     [v1_release_createReleaseEndpoint r, v1_release_getEndpoint r,
      v1_release_listReleasesEndpoint r, v1_release_upgradeEndpoint r,
      v1_release_deleteEndpoint r]"

definition GetV1ReleaseScopedRoutes :: "registerer list \<Rightarrow> registerer" where
  "GetV1ReleaseScopedRoutes children r =
     getV1ReleaseRoutes r @ concat (map (\<lambda>child. child (r @ v1_release_relPath)) children)"

lemmas v1_release_routes =
  v1_release_relPath_def v1_release_createReleaseEndpoint_def v1_release_getEndpoint_def
  v1_release_listReleasesEndpoint_def v1_release_upgradeEndpoint_def v1_release_deleteEndpoint_def
  getV1ReleaseRoutes_def GetV1ReleaseScopedRoutes_def

section \<open>\<open>v1/stack.go\<close>\<close>

definition v1_stack_relPath :: path where
  "v1_stack_relPath = [Lit ''stacks'']"

definition v1_stack_createEndpoint :: "path \<Rightarrow> route" where
  "v1_stack_createEndpoint r = new_route r
     (new_endpoint APIVerbCreate HTTPVerbPost v1_stack_relPath
       [UserScope, ProjectScope, ClusterScope, NamespaceScope])
     ''stack.NewStackCreateHandler''"

definition v1_stack_listEndpoint :: "path \<Rightarrow> route" where
  "v1_stack_listEndpoint r = new_route r
     (new_endpoint APIVerbGet HTTPVerbGet v1_stack_relPath
       [UserScope, ProjectScope, ClusterScope, NamespaceScope])
     ''stack.NewStackListHandler''"

definition v1_stack_getEndpoint :: "path \<Rightarrow> route" where
  "v1_stack_getEndpoint r = new_route r
     (new_endpoint APIVerbGet HTTPVerbGet (v1_stack_relPath @ [Par ''stack_id''])
       [UserScope, ProjectScope, ClusterScope, NamespaceScope, StackScope])
     ''stack.NewStackGetHandler''"

definition listRevisionsEndpoint :: "path \<Rightarrow> route" where
  "listRevisionsEndpoint r = new_route r
     (new_endpoint APIVerbGet HTTPVerbGet
       (v1_stack_relPath @ [Par ''stack_id'', Lit ''revisions''])
       [UserScope, ProjectScope, ClusterScope, NamespaceScope, StackScope])
     ''stack.NewStackListRevisionsHandler''"

definition getRevisionEndpoint :: "path \<Rightarrow> route" where
  "getRevisionEndpoint r = new_route r
     (new_endpoint APIVerbGet HTTPVerbGet
       (v1_stack_relPath @ [Par ''stack_id'', Par ''stack_revision_number''])
       [UserScope, ProjectScope, ClusterScope, NamespaceScope, StackScope])
     ''stack.NewStackGetRevisionHandler''"

definition putSourceEndpoint :: "path \<Rightarrow> route" where
  "putSourceEndpoint r = new_route r
     (new_endpoint APIVerbUpdate HTTPVerbPut
       (v1_stack_relPath @ [Par ''stack_id'', Lit ''source''])
       [UserScope, ProjectScope, ClusterScope, NamespaceScope, StackScope])
     ''stack.NewStackPutSourceConfigHandler''"

definition v1_stack_rollbackEndpoint :: "path \<Rightarrow> route" where
  "v1_stack_rollbackEndpoint r = new_route r
     (new_endpoint APIVerbUpdate HTTPVerbPost
       (v1_stack_relPath @ [Par ''stack_id'', Lit ''rollback''])
       [UserScope, ProjectScope, ClusterScope, NamespaceScope, StackScope])
     ''stack.NewStackRollbackHandler''"

definition v1_stack_deleteEndpoint :: "path \<Rightarrow> route" where
  "v1_stack_deleteEndpoint r = new_route r
     (new_endpoint APIVerbDelete HTTPVerbDelete
       (v1_stack_relPath @ [Par ''stack_id''])
       [UserScope, ProjectScope, ClusterScope, NamespaceScope, StackScope])
     ''stack.NewStackDeleteHandler''"

definition addApplicationEndpoint :: "path \<Rightarrow> route" where
  "addApplicationEndpoint r = new_route r
     (new_endpoint APIVerbUpdate HTTPVerbPatch
       (v1_stack_relPath @ [Par ''stack_id'', Lit ''add_application''])
       [UserScope, ProjectScope, ClusterScope, NamespaceScope, StackScope])
     ''stack.NewStackAddApplicationHandler''"

definition removeApplicationEndpoint :: "path \<Rightarrow> route" where
  "removeApplicationEndpoint r = new_route r
     (new_endpoint APIVerbDelete HTTPVerbDelete
       (v1_stack_relPath @ [Par ''stack_id'', Lit ''remove_application'', Par ''app_resource_name''])
       [UserScope, ProjectScope, ClusterScope, NamespaceScope, StackScope])
     ''stack.NewStackRemoveApplicationHandler''"

definition addEnvGroupEndpoint :: "path \<Rightarrow> route" where
  "addEnvGroupEndpoint r = new_route r
     (new_endpoint APIVerbUpdate HTTPVerbPatch
       (v1_stack_relPath @ [Par ''stack_id'', Lit ''add_env_group''])
       [UserScope, ProjectScope, ClusterScope, NamespaceScope, StackScope])
     ''stack.NewStackAddEnvGroupHandler''"

definition removeEnvGroupEndpoint :: "path \<Rightarrow> route" where
  "removeEnvGroupEndpoint r = new_route r
     (new_endpoint APIVerbDelete HTTPVerbDelete
       (v1_stack_relPath @ [Par ''stack_id'', Lit ''remove_env_group'', Par ''env_group_name''])
       [UserScope, ProjectScope, ClusterScope, NamespaceScope, StackScope])
     ''stack.NewStackRemoveEnvGroupHandler''"

definition updateStackEndpoint :: "path \<Rightarrow> route" where
  "updateStackEndpoint r = new_route r
     (new_endpoint APIVerbUpdate HTTPVerbPatch (v1_stack_relPath @ [Par ''stack_id''])
       [UserScope, ProjectScope, ClusterScope, NamespaceScope, StackScope])
     ''stack.NewStackUpdateStackHandler''"

definition getV1StackRoutes :: "path \<Rightarrow> route list" where
  "getV1StackRoutes r =
     [v1_stack_createEndpoint r, v1_stack_listEndpoint r, v1_stack_getEndpoint r,
      listRevisionsEndpoint r, getRevisionEndpoint r, putSourceEndpoint r,
      v1_stack_rollbackEndpoint r, v1_stack_deleteEndpoint r, addApplicationEndpoint r,
      removeApplicationEndpoint r, addEnvGroupEndpoint r, removeEnvGroupEndpoint r,
      updateStackEndpoint r]"

definition GetV1StackScopedRoutes :: "registerer list \<Rightarrow> registerer" where
  "GetV1StackScopedRoutes children r =
     getV1StackRoutes r @ concat (map (\<lambda>child. child (r @ v1_stack_relPath)) children)"

lemmas v1_stack_routes =
  v1_stack_relPath_def v1_stack_createEndpoint_def v1_stack_listEndpoint_def
  v1_stack_getEndpoint_def listRevisionsEndpoint_def getRevisionEndpoint_def putSourceEndpoint_def
  v1_stack_rollbackEndpoint_def v1_stack_deleteEndpoint_def addApplicationEndpoint_def
  removeApplicationEndpoint_def addEnvGroupEndpoint_def removeEnvGroupEndpoint_def
  updateStackEndpoint_def getV1StackRoutes_def GetV1StackScopedRoutes_def

section \<open>\<open>v1/env_group.go\<close>\<close>

definition v1_env_group_relPath :: path where
  "v1_env_group_relPath = [Lit ''env_groups'']"

definition createOrUpdateEnvGroupEndpoint :: "path \<Rightarrow> route" where
  "createOrUpdateEnvGroupEndpoint r = new_route r
     (new_endpoint APIVerbUpdate HTTPVerbPut v1_env_group_relPath
       [UserScope, ProjectScope, ClusterScope, NamespaceScope])
     ''v1EnvGroup.NewCreateEnvGroupHandler''"

definition v1_env_group_getEnvGroupEndpoint :: "path \<Rightarrow> route" where
  "v1_env_group_getEnvGroupEndpoint r = new_route r
     (new_endpoint APIVerbGet HTTPVerbGet
       (v1_env_group_relPath @ [Par ''name'', Lit ''versions'', Par ''version''])
       [UserScope, ProjectScope, ClusterScope, NamespaceScope])
     ''v1EnvGroup.NewGetEnvGroupHandler''"

definition v1_env_group_getEnvGroupAllVersionsEndpoint :: "path \<Rightarrow> route" where
  "v1_env_group_getEnvGroupAllVersionsEndpoint r = new_route r
     (new_endpoint APIVerbGet HTTPVerbGet (v1_env_group_relPath @ [Par ''name''])
       [UserScope, ProjectScope, ClusterScope, NamespaceScope])
     ''v1EnvGroup.NewGetEnvGroupAllVersionsHandler''"

definition v1_env_group_listEnvGroupsEndpoint :: "path \<Rightarrow> route" where
  "v1_env_group_listEnvGroupsEndpoint r = new_route r
     (new_endpoint APIVerbGet HTTPVerbGet v1_env_group_relPath
       [UserScope, ProjectScope, ClusterScope, NamespaceScope])
     ''v1EnvGroup.NewListEnvGroupsHandler''"

definition v1_env_group_deleteEnvGroupEndpoint :: "path \<Rightarrow> route" where
  "v1_env_group_deleteEnvGroupEndpoint r = new_route r
     (new_endpoint APIVerbDelete HTTPVerbDelete
       (v1_env_group_relPath @ [Par ''name''])
       [UserScope, ProjectScope, ClusterScope, NamespaceScope])
     ''v1EnvGroup.NewDeleteEnvGroupHandler''"

definition addReleaseToEnvGroupEndpoint :: "path \<Rightarrow> route" where
  "addReleaseToEnvGroupEndpoint r = new_route r
     (new_endpoint APIVerbUpdate HTTPVerbPatch
       (v1_env_group_relPath @ [Par ''name'', Lit ''add_release''])
       [UserScope, ProjectScope, ClusterScope, NamespaceScope])
     ''v1EnvGroup.NewAddReleaseToEnvGroupHandler''"

definition removeReleaseFromEnvGroupEndpoint :: "path \<Rightarrow> route" where
  "removeReleaseFromEnvGroupEndpoint r = new_route r
     (new_endpoint APIVerbUpdate HTTPVerbPatch
       (v1_env_group_relPath @ [Par ''name'', Lit ''remove_release''])
       [UserScope, ProjectScope, ClusterScope, NamespaceScope])
     ''v1EnvGroup.NewRemoveReleaseFromEnvGroupHandler''"

definition getV1EnvGroupRoutes :: "path \<Rightarrow> route list" where
  "getV1EnvGroupRoutes r =
     [createOrUpdateEnvGroupEndpoint r, v1_env_group_getEnvGroupEndpoint r,
      v1_env_group_getEnvGroupAllVersionsEndpoint r, v1_env_group_listEnvGroupsEndpoint r,
      v1_env_group_deleteEnvGroupEndpoint r, addReleaseToEnvGroupEndpoint r,
      removeReleaseFromEnvGroupEndpoint r]"

definition GetV1EnvGroupScopedRoutes :: "registerer list \<Rightarrow> registerer" where
  "GetV1EnvGroupScopedRoutes children r =
     getV1EnvGroupRoutes r @ concat (map (\<lambda>child. child (r @ v1_env_group_relPath)) children)"

lemmas v1_env_group_routes =
  v1_env_group_relPath_def createOrUpdateEnvGroupEndpoint_def v1_env_group_getEnvGroupEndpoint_def
  v1_env_group_getEnvGroupAllVersionsEndpoint_def v1_env_group_listEnvGroupsEndpoint_def
  v1_env_group_deleteEnvGroupEndpoint_def addReleaseToEnvGroupEndpoint_def
  removeReleaseFromEnvGroupEndpoint_def getV1EnvGroupRoutes_def GetV1EnvGroupScopedRoutes_def

end
