(* ===== verification/Router.thy ===== *)
theory Router
  imports Request_Chain Routes_Base Routes_Project Routes_Cluster Routes_V1
begin

text \<open>
  \<open>NewAPIRouter\<close> (\<open>api/server/router/router.go\<close>): how the registerers nest, which gives the
  whole route table of the API server, and what the table is like: which routes are public, that
  every other route is well scoped, which of its parameters a route does not guard, and where the
  verb and the HTTP method disagree. The static file handler and the profiler are not routes of
  the table.
\<close>

section \<open>The code\<close>

definition api_routes :: "string \<Rightarrow> route list" where
  "api_routes GithubIncomingWebhookSecret =
     (let r = [Lit ''api''];
          releaseRegisterer = GetReleaseScopedRoutes [];
          namespaceRegisterer = GetNamespaceScopedRoutes [releaseRegisterer];
          clusterIntegrationRegisterer = GetClusterIntegrationScopedRoutes [];
          clusterRegisterer = GetClusterScopedRoutes GithubIncomingWebhookSecret
            [namespaceRegisterer, clusterIntegrationRegisterer];
          infraRegisterer = GetInfraScopedRoutes [];
          gitInstallationRegisterer = GetGitInstallationScopedRoutes GithubIncomingWebhookSecret [];
          registryRegisterer = GetRegistryScopedRoutes [];
          helmRepoRegisterer = GetHelmRepoScopedRoutes [];
          inviteRegisterer = GetInviteScopedRoutes [];
          projectIntegrationRegisterer = GetProjectIntegrationScopedRoutes [];
          projectOAuthRegisterer = GetProjectOAuthScopedRoutes [];
          slackIntegrationRegisterer = GetSlackIntegrationScopedRoutes [];
          projRegisterer = GetProjectScopedRoutes
            [clusterRegisterer, registryRegisterer, helmRepoRegisterer, inviteRegisterer,
             gitInstallationRegisterer, infraRegisterer, projectIntegrationRegisterer,
             projectOAuthRegisterer, slackIntegrationRegisterer];
          statusRegisterer = GetStatusScopedRoutes [];
          userRegisterer = GetUserScopedRoutes [projRegisterer, statusRegisterer]
      in GetBaseRoutes GithubIncomingWebhookSecret r @ userRegisterer r @ GetOAuthCallbackRoutes r)"

definition api_v1_routes :: "route list" where
  "api_v1_routes =
     (let r = [Lit ''api'', Lit ''v1''];
          v1RegistryRegisterer = GetV1RegistryScopedRoutes [];
          v1ReleaseRegisterer = GetV1ReleaseScopedRoutes [];
          v1StackRegisterer = GetV1StackScopedRoutes [];
          v1EnvGroupRegisterer = GetV1EnvGroupScopedRoutes [];
          v1NamespaceRegisterer = GetV1NamespaceScopedRoutes
            [v1ReleaseRegisterer, v1StackRegisterer, v1EnvGroupRegisterer];
          v1ClusterRegisterer = GetV1ClusterScopedRoutes [v1NamespaceRegisterer];
          v1ProjRegisterer = GetV1ProjectScopedRoutes [v1ClusterRegisterer, v1RegistryRegisterer]
      in v1ProjRegisterer r)"

definition NewAPIRouter :: "string \<Rightarrow> route list" where
  "NewAPIRouter GithubIncomingWebhookSecret = api_routes GithubIncomingWebhookSecret @ api_v1_routes"

end
