(* ===== verification/Route_Table.thy ===== *)
theory Route_Table
  imports Router
begin

text \<open>
  Facts about the route table, each checked on every one of its routes: scopes come in a usable
  order, which routes are public, that a route's scopes have their parameters in its path and the
  path's resource parameters their scopes, with the exceptions listed, and that a read verb means
  a GET. The routes of a file are checked together, on the router they are put on.
\<close>

section \<open>The table, file by file\<close>

definition api_router :: path where
  "api_router = [Lit ''api'']"

definition project_router :: path where
  "project_router = [Lit ''api'', Lit ''projects'', Par ''project_id'']"

definition cluster_router :: path where
  "cluster_router = project_router @ [Lit ''clusters'', Par ''cluster_id'']"

definition namespace_router :: path where
  "namespace_router = cluster_router @ [Lit ''namespaces'', Par ''namespace'']"

definition v1_router :: path where
  "v1_router = [Lit ''api'', Lit ''v1'']"

definition v1_project_router :: path where
  "v1_project_router = [Lit ''api'', Lit ''v1'', Lit ''projects'', Par ''project_id'']"

definition v1_cluster_router :: path where
  "v1_cluster_router = v1_project_router @ [Lit ''clusters'', Par ''cluster_id'']"

definition v1_namespace_router :: path where
  "v1_namespace_router = v1_cluster_router @ [Lit ''namespaces'', Par ''namespace'']"

lemmas router_defs =
  api_router_def project_router_def cluster_router_def namespace_router_def v1_router_def
  v1_project_router_def v1_cluster_router_def v1_namespace_router_def

lemmas registerer_defs =
  GetUserScopedRoutes_def GetStatusScopedRoutes_def GetProjectScopedRoutes_def
  GetInviteScopedRoutes_def GetProjectIntegrationScopedRoutes_def GetProjectOAuthScopedRoutes_def
  GetSlackIntegrationScopedRoutes_def GetHelmRepoScopedRoutes_def GetRegistryScopedRoutes_def
  GetInfraScopedRoutes_def GetClusterScopedRoutes_def GetClusterIntegrationScopedRoutes_def
  GetNamespaceScopedRoutes_def GetReleaseScopedRoutes_def GetGitInstallationScopedRoutes_def
  GetV1ProjectScopedRoutes_def GetV1RegistryScopedRoutes_def GetV1ClusterScopedRoutes_def
  GetV1NamespaceScopedRoutes_def GetV1ReleaseScopedRoutes_def GetV1StackScopedRoutes_def
  GetV1EnvGroupScopedRoutes_def

lemmas relPath_defs =
  project_relPath_def cluster_relPath_def namespace_relPath_def v1_project_relPath_def
  v1_cluster_relPath_def v1_namespace_relPath_def

text \<open>The whole table, as the files on their routers.\<close>

definition route_files :: "string \<Rightarrow> route list list" where
  "route_files secret =
     [GetBaseRoutes secret api_router, getUserRoutes api_router, getProjectRoutes api_router,
      getClusterRoutes secret project_router, getNamespaceRoutes cluster_router,
      getReleaseRoutes namespace_router, getClusterIntegrationRoutes cluster_router,
      getRegistryRoutes project_router, getHelmRepoRoutes project_router,
      getInviteRoutes project_router, getGitInstallationRoutes secret project_router,
      getInfraRoutes project_router, getProjectIntegrationRoutes project_router,
      getProjectOAuthRoutes project_router, getSlackIntegrationRoutes project_router,
      getStatusRoutes api_router, GetOAuthCallbackRoutes api_router,
      getV1ProjectRoutes v1_router, getV1ClusterRoutes v1_project_router,
      getV1NamespaceRoutes v1_cluster_router, getV1ReleaseRoutes v1_namespace_router,
      getV1StackRoutes v1_namespace_router, getV1EnvGroupRoutes v1_namespace_router,
      getV1RegistryRoutes v1_project_router]"

lemma NewAPIRouter_files: "NewAPIRouter secret = concat (route_files secret)"
  by (simp add: NewAPIRouter_def api_routes_def api_v1_routes_def route_files_def registerer_defs
      relPath_defs router_defs Let_def)

section \<open>What is checked\<close>

definition scoped_route :: "route \<Rightarrow> bool" where
  "scoped_route rt = well_scoped [] (md_Scopes (rt_Meta rt))"

definition public_handlers :: "string list" where
  "public_handlers =
     [''healthcheck.NewReadyzHandler'',
      ''healthcheck.NewLivezHandler'',
      ''metadata.NewMetadataGetHandler'',
      ''metadata.NewListClusterIntegrationsHandler'',
      ''metadata.NewListRegistryIntegrationsHandler'',
      ''metadata.NewListHelmRepoIntegrationsHandler'',
      ''user.NewUserCreateHandler'',
      ''user.NewUserLoginHandler'',
      ''user.NewCLILoginExchangeHandler'',
      ''user.NewUserPasswordInitiateResetHandler'',
      ''user.NewUserPasswordVerifyResetHandler'',
      ''user.NewUserPasswordFinalizeResetHandler'',
      ''release.NewWebhookHandler'',
      ''gitinstallation.NewGithubAppInstallHandler'',
      ''gitinstallation.NewGithubAppWebhookHandler'',
      ''user.NewUserOAuthGithubHandler'',
      ''user.NewUserOAuthGithubCallbackHandler'',
      ''user.NewUserOAuthGoogleHandler'',
      ''user.NewUserOAuthGoogleCallbackHandler'',
      ''credentials.NewGetCredentialsHandler'',
      ''webhook.NewGithubIncomingWebhookHandler'',
      ''oauth_callback.NewOAuthCallbackSlackHandler'',
      ''oauth_callback.NewOAuthCallbackDOHandler'',
      ''oauth_callback.NewOAuthCallbackGitlabHandler'',
      ''billing.NewBillingWebhookHandler'']"

definition public_checked :: "route \<Rightarrow> bool" where
  "public_checked rt \<longleftrightarrow> (UserScope \<in> set (md_Scopes (rt_Meta rt))) = (rt_Handler rt \<notin> set public_handlers)"

definition scope_param :: "permission_scope \<Rightarrow> string option" where
  "scope_param scope =
     (case scope of
        ProjectScope \<Rightarrow> Some URLParamProjectID
      | ClusterScope \<Rightarrow> Some URLParamClusterID
      | RegistryScope \<Rightarrow> Some URLParamRegistryID
      | HelmRepoScope \<Rightarrow> Some URLParamHelmRepoID
      | GitInstallationScope \<Rightarrow> Some URLParamGitInstallationID
      | InfraScope \<Rightarrow> Some URLParamInfraID
      | OperationScope \<Rightarrow> Some URLParamOperationID
      | NamespaceScope \<Rightarrow> Some URLParamNamespace
      | ReleaseScope \<Rightarrow> Some URLParamReleaseName
      | StackScope \<Rightarrow> Some URLParamStackID
      | InviteScope \<Rightarrow> Some URLParamInviteID
      | GitlabIntegrationScope \<Rightarrow> Some URLParamIntegrationID
      | _ \<Rightarrow> None)"

text \<open>Every scope finds its parameter in the path.\<close>

definition params_present :: "route \<Rightarrow> bool" where
  "params_present rt =
     list_all (\<lambda>s. case scope_param s of None \<Rightarrow> True | Some p \<Rightarrow> p \<in> set (path_params (full_path rt)))
       (md_Scopes (rt_Meta rt))"

text \<open>The scope a parameter of a path names, for the parameters that name one scope only.\<close>

definition param_scope :: "string \<Rightarrow> permission_scope option" where
  "param_scope p =
     (if p = ''project_id'' then Some ProjectScope
      else if p = ''cluster_id'' then Some ClusterScope
      else if p = ''registry_id'' then Some RegistryScope
      else if p = ''helm_repo_id'' then Some HelmRepoScope
      else if p = ''git_installation_id'' then Some GitInstallationScope
      else if p = ''infra_id'' then Some InfraScope
      else if p = ''operation_id'' then Some OperationScope
      else if p = ''namespace'' then Some NamespaceScope
      else if p = ''stack_id'' then Some StackScope
      else if p = ''invite_id'' then Some InviteScope
      else if p = ''integration_id'' then Some GitlabIntegrationScope
      else None)"

definition params_guarded :: "route \<Rightarrow> bool" where
  "params_guarded rt =
     list_all (\<lambda>p. case param_scope p of None \<Rightarrow> True | Some s \<Rightarrow> s \<in> set (md_Scopes (rt_Meta rt)))
       (path_params (full_path rt))"

definition unguarded_handlers :: "string list" where
  "unguarded_handlers =
     [''cluster.NewDeleteNamespaceHandler'', ''cluster.NewGetNamespaceHandler'',
      ''namespace.NewCRDDeleteHandler'', ''invite.NewInviteAcceptHandler'']"

text \<open>A read verb is a GET, the one exception apart; a usage check is behind a project.\<close>

definition read_is_get :: "route \<Rightarrow> bool" where
  "read_is_get rt \<longleftrightarrow>
     md_Verb (rt_Meta rt) \<notin> set ReadVerbGroup \<or> md_Method (rt_Meta rt) = HTTPVerbGet \<or>
     rt_Handler rt = ''release.NewGetGHATemplateHandler''"

definition v1_delete_release :: "route \<Rightarrow> bool" where
  "v1_delete_release rt \<longleftrightarrow> rt = v1_release_deleteEndpoint v1_namespace_router"

definition route_checked :: "route \<Rightarrow> bool" where
  "route_checked rt \<longleftrightarrow>
     scoped_route rt \<and> public_checked rt \<and> (params_present rt = (\<not> v1_delete_release rt)) \<and>
     (params_guarded rt = (rt_Handler rt \<notin> set unguarded_handlers)) \<and> read_is_get rt"

lemmas check_simps =
  router_defs new_route_def new_endpoint_def route_checked_def scoped_route_def needs_def
  public_checked_def params_present_def scope_param_def path_params_def full_path_def url_param_defs
  params_guarded_def param_scope_def read_is_get_def ReadVerbGroup_def v1_delete_release_def
  v1_release_deleteEndpoint_def v1_release_relPath_def public_handlers_def unguarded_handlers_def

section \<open>The check\<close>

lemma base_checked: "list_all route_checked (GetBaseRoutes secret api_router)"
  by (simp add: base_routes check_simps)

lemma user_checked: "list_all route_checked (getUserRoutes api_router)"
  by (simp add: user_routes check_simps)

lemma project_checked: "list_all route_checked (getProjectRoutes api_router)"
  by (simp add: project_routes check_simps)

lemma cluster_checked: "list_all route_checked (getClusterRoutes secret project_router)"
  by (simp add: cluster_routes check_simps)

lemma namespace_checked: "list_all route_checked (getNamespaceRoutes cluster_router)"
  by (simp add: namespace_routes check_simps)

lemma release_checked: "list_all route_checked (getReleaseRoutes namespace_router)"
  by (simp add: release_routes check_simps)

lemma cluster_integration_checked: "list_all route_checked (getClusterIntegrationRoutes cluster_router)"
  by (simp add: cluster_integration_routes check_simps)

lemma registry_checked: "list_all route_checked (getRegistryRoutes project_router)"
  by (simp add: registry_routes check_simps)

lemma helm_repo_checked: "list_all route_checked (getHelmRepoRoutes project_router)"
  by (simp add: helm_repo_routes check_simps)

lemma invite_checked: "list_all route_checked (getInviteRoutes project_router)"
  by (simp add: invite_routes check_simps)

lemma git_installation_checked: "list_all route_checked (getGitInstallationRoutes secret project_router)"
  by (simp add: git_installation_routes check_simps)

lemma infra_checked: "list_all route_checked (getInfraRoutes project_router)"
  by (simp add: infra_routes check_simps)

lemma project_integration_checked: "list_all route_checked (getProjectIntegrationRoutes project_router)"
  by (simp add: project_integration_routes check_simps)

lemma project_oauth_checked: "list_all route_checked (getProjectOAuthRoutes project_router)"
  by (simp add: project_oauth_routes check_simps)

lemma slack_integration_checked: "list_all route_checked (getSlackIntegrationRoutes project_router)"
  by (simp add: slack_integration_routes check_simps)

lemma status_checked: "list_all route_checked (getStatusRoutes api_router)"
  by (simp add: status_routes check_simps)

lemma oauth_callback_checked: "list_all route_checked (GetOAuthCallbackRoutes api_router)"
  by (simp add: oauth_callback_routes check_simps)

lemma v1_project_checked: "list_all route_checked (getV1ProjectRoutes v1_router)"
  by (simp add: v1_project_routes check_simps)

lemma v1_cluster_checked: "list_all route_checked (getV1ClusterRoutes v1_project_router)"
  by (simp add: v1_cluster_routes check_simps)

lemma v1_namespace_checked: "list_all route_checked (getV1NamespaceRoutes v1_cluster_router)"
  by (simp add: v1_namespace_routes check_simps)

lemma v1_release_checked: "list_all route_checked (getV1ReleaseRoutes v1_namespace_router)"
  by (simp add: v1_release_routes check_simps)

lemma v1_stack_checked: "list_all route_checked (getV1StackRoutes v1_namespace_router)"
  by (simp add: v1_stack_routes check_simps)

lemma v1_env_group_checked: "list_all route_checked (getV1EnvGroupRoutes v1_namespace_router)"
  by (simp add: v1_env_group_routes check_simps)

lemma v1_registry_checked: "list_all route_checked (getV1RegistryRoutes v1_project_router)"
  by (simp add: v1_registry_routes check_simps)

lemmas files_checked =
  base_checked user_checked project_checked cluster_checked namespace_checked release_checked
  cluster_integration_checked registry_checked helm_repo_checked invite_checked
  git_installation_checked infra_checked project_integration_checked project_oauth_checked
  slack_integration_checked status_checked oauth_callback_checked v1_project_checked
  v1_cluster_checked v1_namespace_checked v1_release_checked v1_stack_checked
  v1_env_group_checked v1_registry_checked

lemma table_checked: "rt \<in> set (NewAPIRouter secret) \<Longrightarrow> route_checked rt"
proof -
  have "list_all (list_all route_checked) (route_files secret)"
    unfolding route_files_def by (simp add: files_checked)
  moreover assume "rt \<in> set (NewAPIRouter secret)"
  ultimately show ?thesis
    unfolding NewAPIRouter_files by (auto simp: list_all_iff)
qed

end
