(* ===== verification/Members.thy ===== *)
theory Members
  imports Scoped_Reads Http
begin

text \<open>
  Who belongs to a project: the role operations of \<open>internal/repository/gorm/project.go\<close>, the
  invite operations of \<open>internal/repository/gorm/invite.go\<close>, and the handlers that use them:
  \<open>api/server/handlers/project/{create,delete,update_role,delete_role}.go\<close> and
  \<open>ee/api/server/handlers/invite\<close>, the default project of a server that runs in its cluster
  (\<open>initData\<close> of \<open>cmd/app/main.go\<close>) and the role its first user gets there
  (\<open>addUserToDefaultProject\<close> of \<open>handlers/user/create.go\<close>). The tables are part of the state, with their rows in the
  order of their primary keys; every database call may also fail, which \<open>db_faults\<close> decides.
  A handler gives the new state, what it wrote to the client, and whether it panicked.
\<close>

section \<open>State\<close>

record member_db =
  m_projects :: "project list"
  m_deleted :: "uint list"
  m_roles :: "role list"
  m_invites :: "invite list"
  m_next :: uint

text \<open>
  Projects are deleted softly: the row stays, its id is in \<open>m_deleted\<close>, and reads pass over it.
\<close>

record db_faults =
  f_read_role :: "go_error option"
  f_save_role :: "go_error option"
  f_create_role :: "go_error option"
  f_delete_role :: "go_error option"
  f_create_project :: "go_error option"
  f_read_project :: "go_error option"
  f_delete_project :: "go_error option"
  f_read_invite :: "go_error option"
  f_save_invite :: "go_error option"
  f_create_invite :: "go_error option"
  f_delete_invite :: "go_error option"

definition no_faults :: db_faults where
  "no_faults = \<lparr>f_read_role = None, f_save_role = None, f_create_role = None, f_delete_role = None,
     f_create_project = None, f_read_project = None, f_delete_project = None, f_read_invite = None,
     f_save_invite = None, f_create_invite = None, f_delete_invite = None\<rparr>"

lemma no_faults_simps [simp]:
  "f_read_role no_faults = None" "f_save_role no_faults = None" "f_create_role no_faults = None"
  "f_delete_role no_faults = None" "f_create_project no_faults = None" "f_read_project no_faults = None"
  "f_delete_project no_faults = None" "f_read_invite no_faults = None" "f_save_invite no_faults = None" "f_create_invite no_faults = None"
  "f_delete_invite no_faults = None"
  by (simp_all add: no_faults_def)

definition faulty_first :: "go_error option \<Rightarrow> 'row list \<Rightarrow> 'row first_query" where
  "faulty_first fault rows P = (case fault of Some e \<Rightarrow> Inl e | None \<Rightarrow> table_first rows P)"

datatype 'a written =
    WroteError request_error
  | WroteStatus nat
  | WroteRedirect string
  | WroteResult 'a

type_synonym 'a handled = "member_db \<times> 'a written list \<times> bool"

section \<open>Roles (\<open>gorm/project.go\<close>)\<close>

definition FindProjectRole :: "db_faults \<Rightarrow> member_db \<Rightarrow> uint \<Rightarrow> uint \<Rightarrow> (go_error, role) go_result" where
  "FindProjectRole f db projID userID =
     faulty_first (f_read_role f) (m_roles db) (\<lambda>r. ro_ProjectID r = projID \<and> ro_UserID r = userID)"

text \<open>The association fills in the role's project; the database gives it the next id.\<close>

definition CreateProjectRole ::
  "db_faults \<Rightarrow> member_db \<Rightarrow> project \<Rightarrow> role \<Rightarrow> member_db \<times> (go_error, role) go_result" where
  "CreateProjectRole f db project role =
     (case f_create_role f of
        Some e \<Rightarrow> (db, Inl e)
      | None \<Rightarrow>
          (let role = role\<lparr>ro_ID := m_next db, ro_ProjectID := pr_ID project\<rparr>
           in (db\<lparr>m_roles := m_roles db @ [role], m_next := m_next db + 1\<rparr>, Inr role)))"

definition save_role :: "role list \<Rightarrow> role \<Rightarrow> role list" where
  "save_role roles role = map (\<lambda>r. if ro_ID r = ro_ID role then role else r) roles"

definition UpdateProjectRole ::
  "db_faults \<Rightarrow> member_db \<Rightarrow> uint \<Rightarrow> role \<Rightarrow> member_db \<times> (go_error, role) go_result" where
  "UpdateProjectRole f db projID role =
     (case FindProjectRole f db projID (ro_UserID role) of
        Inl e \<Rightarrow> (db, Inl e)
      | Inr foundRole \<Rightarrow>
          (let role = role\<lparr>ro_ID := ro_ID foundRole\<rparr>
           in case f_save_role f of
                Some e \<Rightarrow> (db, Inl e)
              | None \<Rightarrow> (db\<lparr>m_roles := save_role (m_roles db) role\<rparr>, Inr role)))"

definition DeleteProjectRole ::
  "db_faults \<Rightarrow> member_db \<Rightarrow> uint \<Rightarrow> uint \<Rightarrow> member_db \<times> (go_error, role) go_result" where
  "DeleteProjectRole f db projID userID =
     (case FindProjectRole f db projID userID of
        Inl e \<Rightarrow> (db, Inl e)
      | Inr role \<Rightarrow>
          (case f_delete_role f of
             Some e \<Rightarrow> (db, Inl e)
           | None \<Rightarrow> (db\<lparr>m_roles := filter (\<lambda>r. ro_ID r \<noteq> ro_ID role) (m_roles db)\<rparr>, Inr role)))"

text \<open>The roles of the read project are those of the roles table.\<close>

definition FindProject :: "db_faults \<Rightarrow> member_db \<Rightarrow> uint \<Rightarrow> (go_error, project) go_result" where
  "FindProject f db i =
     map_sum id (\<lambda>p. p\<lparr>pr_Roles := filter (\<lambda>r. ro_ProjectID r = i) (m_roles db)\<rparr>)
       (faulty_first (f_read_project f) (m_projects db) (\<lambda>p. pr_ID p = i \<and> pr_ID p \<notin> set (m_deleted db)))"

definition CreateProject ::
  "db_faults \<Rightarrow> member_db \<Rightarrow> string \<Rightarrow> member_db \<times> (go_error, project) go_result" where
  "CreateProject f db name =
     (case f_create_project f of
        Some e \<Rightarrow> (db, Inl e)
      | None \<Rightarrow>
          (let p = \<lparr>pr_ID = m_next db, pr_Name = name, pr_Roles = [], pr_APITokensEnabled = False\<rparr>
           in (db\<lparr>m_projects := m_projects db @ [p], m_next := m_next db + 1\<rparr>, Inr p)))"

definition DeleteProject ::
  "db_faults \<Rightarrow> member_db \<Rightarrow> project \<Rightarrow> member_db \<times> (go_error, project) go_result" where
  "DeleteProject f db project =
     (case f_delete_project f of
        Some e \<Rightarrow> (db, Inl e)
      | None \<Rightarrow> (db\<lparr>m_deleted := pr_ID project # m_deleted db\<rparr>, Inr project))"

section \<open>Project handlers (\<open>handlers/project\<close>)\<close>

fun RoleKind :: "string \<Rightarrow> role_kind" where
  "RoleKind kind =
     (if kind = ''admin'' then RoleAdmin else if kind = ''developer'' then RoleDeveloper
      else if kind = ''viewer'' then RoleViewer else if kind = ''custom'' then RoleCustom
      else OtherRole kind)"

declare RoleKind.simps [simp del]

definition CreateProjectWithUser ::
  "db_faults \<Rightarrow> member_db \<Rightarrow> string \<Rightarrow> user \<Rightarrow> member_db \<times> (go_error, project \<times> role) go_result" where
  "CreateProjectWithUser f db name user =
     (case CreateProject f db name of
        (db, Inl e) \<Rightarrow> (db, Inl e)
      | (db, Inr proj) \<Rightarrow>
          (case CreateProjectRole f db proj
                  \<lparr>ro_ID = 0, ro_Kind = RoleAdmin, ro_UserID = us_ID user, ro_ProjectID = pr_ID proj\<rparr> of
             (db, Inl e) \<Rightarrow> (db, Inl e)
           | (db, Inr role) \<Rightarrow>
               (case FindProject f db (pr_ID proj) of
                  Inl e \<Rightarrow> (db, Inl e)
                | Inr proj \<Rightarrow> (db, Inr (proj, role)))))"

text \<open>
  The project is the one the middleware attached. The roles and the invites of a deleted project
  stay in their tables. An error of the billing service after the answer is only logged.
\<close>

definition ProjectDeleteHandler :: "db_faults \<Rightarrow> member_db \<Rightarrow> project \<Rightarrow> project handled" where
  "ProjectDeleteHandler f db proj =
     (case DeleteProject f db proj of
        (db, Inl e) \<Rightarrow> (db, [WroteError (ErrInternal (go_error_text e))], False)
      | (db, Inr proj) \<Rightarrow> (db, [WroteResult proj], False))"

text \<open>
  A server that runs in its cluster has a default project. \<open>initData\<close> creates it when the server
  starts and finds no project 1; its first user, the one with the id 1, becomes an admin of
  project 1 when the account is created.
\<close>

definition init_default_project :: "db_faults \<Rightarrow> bool \<Rightarrow> member_db \<Rightarrow> member_db \<times> go_error option" where
  "init_default_project f initInCluster db =
     (if initInCluster
      then case FindProject f db 1 of
             Inr project \<Rightarrow> (db, None)
           | Inl ErrRecordNotFound \<Rightarrow>
               (case CreateProject f db ''default'' of
                  (db, Inl e) \<Rightarrow> (db, Some e)
                | (db, Inr project) \<Rightarrow> (db, None))
           | Inl e \<Rightarrow> (db, Some e)
      else (db, None))"

definition default_project_role :: "db_faults \<Rightarrow> bool \<Rightarrow> member_db \<Rightarrow> uint \<Rightarrow> member_db \<times> go_error option" where
  "default_project_role f initInCluster db userID =
     (if initInCluster \<and> userID = 1
      then case FindProject f db 1 of
             Inl e \<Rightarrow> (db, Some e)
           | Inr project \<Rightarrow>
               (case CreateProjectRole f db project
                       \<lparr>ro_ID = 0, ro_Kind = RoleAdmin, ro_UserID = userID, ro_ProjectID = pr_ID project\<rparr> of
                  (db, Inl e) \<Rightarrow> (db, Some e)
                | (db, Inr role) \<Rightarrow> (db, None))
      else (db, None))"

text \<open>\<open>decoded\<close> is what decoding and validating the body gave: its error is written.\<close>

definition RoleUpdateHandler ::
  "db_faults \<Rightarrow> member_db \<Rightarrow> request_ctx \<Rightarrow> (request_error, uint \<times> string) go_result \<Rightarrow> role handled" where
  "RoleUpdateHandler f db ctx decoded =
     (case decoded of
        Inl e \<Rightarrow> (db, [WroteError e], False)
      | Inr (userID, kind) \<Rightarrow>
          (case ctx_project ctx of
             None \<Rightarrow> (db, [], True)
           | Some proj \<Rightarrow>
               (case FindProjectRole f db (pr_ID proj) userID of
                  Inl e \<Rightarrow> (db, [WroteStatus 403], False)
                | Inr role \<Rightarrow>
                    (case UpdateProjectRole f db (pr_ID proj) (role\<lparr>ro_Kind := RoleKind kind\<rparr>) of
                       (db, Inl e) \<Rightarrow> (db, [WroteError (ErrInternal (go_error_text e))], False)
                     | (db, Inr role) \<Rightarrow> (db, [WroteResult role], False)))))"

text \<open>After a failed delete the handler goes on with a nil role, which it dereferences.\<close>

definition RoleDeleteHandler ::
  "db_faults \<Rightarrow> member_db \<Rightarrow> request_ctx \<Rightarrow> (request_error, uint) go_result \<Rightarrow> role handled" where
  "RoleDeleteHandler f db ctx decoded =
     (case decoded of
        Inl e \<Rightarrow> (db, [WroteError e], False)
      | Inr userID \<Rightarrow>
          (case ctx_project ctx of
             None \<Rightarrow> (db, [], True)
           | Some proj \<Rightarrow>
               (case FindProjectRole f db (pr_ID proj) userID of
                  Inl e \<Rightarrow> (db, [WroteStatus 403], False)
                | Inr role \<Rightarrow>
                    (case DeleteProjectRole f db (pr_ID proj) userID of
                       (db, Inl e) \<Rightarrow> (db, [WroteError (ErrInternal (go_error_text e))], True)
                     | (db, Inr role) \<Rightarrow> (db, [WroteResult role], False)))))"

section \<open>Invites (\<open>gorm/invite.go\<close>, \<open>models/invite.go\<close>)\<close>

definition CreateInvite :: "db_faults \<Rightarrow> member_db \<Rightarrow> invite \<Rightarrow> member_db \<times> (go_error, invite) go_result" where
  "CreateInvite f db invite =
     (case faulty_first (f_read_project f) (m_projects db)
             (\<lambda>p. pr_ID p = iv_ProjectID invite \<and> pr_ID p \<notin> set (m_deleted db)) of
        Inl e \<Rightarrow> (db, Inl e)
      | Inr project \<Rightarrow>
          (case f_create_invite f of
             Some e \<Rightarrow> (db, Inl e)
           | None \<Rightarrow>
               (let invite = invite\<lparr>iv_ID := m_next db, iv_ProjectID := pr_ID project\<rparr>
                in (db\<lparr>m_invites := m_invites db @ [invite], m_next := m_next db + 1\<rparr>, Inr invite))))"

definition FindInviteByToken :: "db_faults \<Rightarrow> member_db \<Rightarrow> string \<Rightarrow> (go_error, invite) go_result" where
  "FindInviteByToken f db tok = faulty_first (f_read_invite f) (m_invites db) (\<lambda>i. iv_Token i = tok)"

definition UpdateInvite :: "db_faults \<Rightarrow> member_db \<Rightarrow> invite \<Rightarrow> member_db \<times> go_error option" where
  "UpdateInvite f db invite =
     (case f_save_invite f of
        Some e \<Rightarrow> (db, Some e)
      | None \<Rightarrow> (db\<lparr>m_invites := map (\<lambda>i. if iv_ID i = iv_ID invite then invite else i) (m_invites db)\<rparr>, None))"

definition DeleteInvite :: "db_faults \<Rightarrow> member_db \<Rightarrow> invite \<Rightarrow> member_db \<times> go_error option" where
  "DeleteInvite f db invite =
     (case f_delete_invite f of
        Some e \<Rightarrow> (db, Some e)
      | None \<Rightarrow> (db\<lparr>m_invites := filter (\<lambda>i. iv_ID i \<noteq> iv_ID invite) (m_invites db)\<rparr>, None))"

definition InviteIsExpired :: "int \<Rightarrow> invite \<Rightarrow> bool option" where
  "InviteIsExpired now i = map_option (\<lambda>expiry. expiry - now < 0) (iv_Expiry i)"

definition IsAccepted :: "invite \<Rightarrow> bool" where
  "IsAccepted i \<longleftrightarrow> iv_UserID i \<noteq> 0"

section \<open>Invite handlers (\<open>ee/api/server/handlers/invite\<close>)\<close>

definition CreateInviteWithProject :: "int \<Rightarrow> string \<Rightarrow> string \<times> string \<Rightarrow> uint \<Rightarrow> invite" where
  "CreateInviteWithProject now state req projectID =
     \<lparr>iv_ID = 0, iv_ProjectID = projectID, iv_Token = state, iv_Email = fst req, iv_Kind = snd req,
      iv_UserID = 0, iv_Expiry = Some (now + 24 * 3600)\<rparr>"

text \<open>\<open>state\<close> is the random state; \<open>notify\<close> the notifier, which may fail after the invite is stored.\<close>

definition InviteCreateHandler ::
  "db_faults \<Rightarrow> int \<Rightarrow> string \<Rightarrow> (invite \<Rightarrow> go_error option) \<Rightarrow> member_db \<Rightarrow> request_ctx \<Rightarrow>
     (request_error, string \<times> string) go_result \<Rightarrow> invite handled" where
  "InviteCreateHandler f now state notify db ctx decoded =
     (case decoded of
        Inl e \<Rightarrow> (db, [WroteError e], False)
      | Inr req \<Rightarrow>
          (case ctx_project ctx of
             None \<Rightarrow> (db, [], True)
           | Some project \<Rightarrow>
               (case CreateInvite f db (CreateInviteWithProject now state req (pr_ID project)) of
                  (db, Inl e) \<Rightarrow> (db, [WroteError (ErrInternal (go_error_text e))], False)
                | (db, Inr invite) \<Rightarrow>
                    (case ctx_user ctx of
                       None \<Rightarrow> (db, [], True)
                     | Some user \<Rightarrow>
                         (case notify invite of
                            Some e \<Rightarrow> (db, [WroteError (ErrInternal (go_error_text e))], False)
                          | None \<Rightarrow> (db, [WroteResult invite], False))))))"

definition dashboard_error :: "string \<Rightarrow> string" where
  "dashboard_error e = ''/dashboard?error='' @ e"

definition InviteAcceptHandler ::
  "db_faults \<Rightarrow> int \<Rightarrow> member_db \<Rightarrow> request \<Rightarrow> unit handled" where
  "InviteAcceptHandler f now db r =
     (let projectID = (case GetURLParamUint r URLParamProjectID of Inl e \<Rightarrow> 0 | Inr p \<Rightarrow> p);
          tok = (case GetURLParamString r ''token'' of Inl e \<Rightarrow> [] | Inr t \<Rightarrow> t)
      in case FindProject f db projectID of
           Inl e \<Rightarrow>
             (db, [WroteRedirect (dashboard_error
                (if e = ErrRecordNotFound then ''Invalid+invite+token'' else ''Unknown+error''))], False)
         | Inr proj \<Rightarrow>
             (case FindInviteByToken f db tok of
                Inl e \<Rightarrow> (db, [WroteRedirect (dashboard_error ''Invalid+invite+token'')], False)
              | Inr invite \<Rightarrow>
                  if iv_ProjectID invite \<noteq> pr_ID proj
                  then (db, [WroteRedirect (dashboard_error ''Invalid+invite+token'')], False)
                  else (case InviteIsExpired now invite of
                          None \<Rightarrow> (db, [], True)
                        | Some expired \<Rightarrow>
                            if expired \<or> IsAccepted invite
                            then (db, [WroteRedirect (dashboard_error ''Invite+has+expired'')], False)
                            else (case ctx_user (rq_ctx r) of
                                    None \<Rightarrow> (db, [], True)
                                  | Some user \<Rightarrow>
                                      if us_Email user \<noteq> iv_Email invite
                                      then (db, [WroteRedirect (dashboard_error ''Wrong+email+for+invite'')], False)
                                      else
                                        (let kind = (if iv_Kind invite = [] then ''developer'' else iv_Kind invite)
                                         in case CreateProjectRole f db proj
                                                   \<lparr>ro_ID = 0, ro_Kind = RoleKind kind, ro_UserID = us_ID user,
                                                    ro_ProjectID = pr_ID proj\<rparr> of
                                              (db, Inl e) \<Rightarrow> (db, [WroteError (ErrInternal (go_error_text e))], False)
                                            | (db, Inr role) \<Rightarrow>
                                                (case UpdateInvite f db (invite\<lparr>iv_UserID := us_ID user\<rparr>) of
                                                   (db, Some e) \<Rightarrow>
                                                     (db, [WroteError (ErrInternal (go_error_text e))], False)
                                                 | (db, None) \<Rightarrow> (db, [WroteRedirect ''/dashboard''], False)))))))"

text \<open>After a failed update the handler still writes its status.\<close>

definition InviteUpdateRoleHandler ::
  "db_faults \<Rightarrow> member_db \<Rightarrow> request_ctx \<Rightarrow> (request_error, string) go_result \<Rightarrow> unit handled" where
  "InviteUpdateRoleHandler f db ctx decoded =
     (case decoded of
        Inl e \<Rightarrow> (db, [WroteError e], False)
      | Inr kind \<Rightarrow>
          (case ctx_invite ctx of
             None \<Rightarrow> (db, [], True)
           | Some invite \<Rightarrow>
               (case UpdateInvite f db (invite\<lparr>iv_Kind := kind\<rparr>) of
                  (db, Some e) \<Rightarrow>
                    (db, [WroteError (ErrInternal (go_error_text e)), WroteStatus 200], False)
                | (db, None) \<Rightarrow> (db, [WroteStatus 200], False))))"

definition InviteDeleteHandler :: "db_faults \<Rightarrow> member_db \<Rightarrow> request_ctx \<Rightarrow> unit handled" where
  "InviteDeleteHandler f db ctx =
     (case ctx_invite ctx of
        None \<Rightarrow> (db, [], True)
      | Some invite \<Rightarrow>
          (case DeleteInvite f db invite of
             (db, Some e) \<Rightarrow> (db, [WroteError (ErrInternal (go_error_text e)), WroteStatus 200], False)
           | (db, None) \<Rightarrow> (db, [WroteStatus 200], False)))"

section \<open>Well-formed tables\<close>

text \<open>Ids are distinct and below the next one to be given.\<close>

definition wf_db :: "member_db \<Rightarrow> bool" where
  "wf_db db \<longleftrightarrow>
     distinct (map ro_ID (m_roles db)) \<and> list_all (\<lambda>r. ro_ID r < m_next db) (m_roles db) \<and>
     distinct (map iv_ID (m_invites db)) \<and> list_all (\<lambda>i. iv_ID i < m_next db) (m_invites db) \<and>
     distinct (map pr_ID (m_projects db)) \<and> list_all (\<lambda>p. pr_ID p < m_next db) (m_projects db)"

definition roles_of :: "member_db \<Rightarrow> uint \<Rightarrow> uint \<Rightarrow> role list" where
  "roles_of db p u = filter (\<lambda>r. ro_ProjectID r = p \<and> ro_UserID r = u) (m_roles db)"

lemma less_succ: "x < n \<Longrightarrow> n \<noteq> - 1 \<Longrightarrow> x < n + 1" for n :: uint
  by (simp add: word_less_nat_alt unat_succ)

lemma next_less_succ: "n \<noteq> - 1 \<Longrightarrow> n < n + 1" for n :: uint
  by (simp add: word_less_nat_alt unat_succ)

lemma find_filter: "find P xs = (case filter P xs of [] \<Rightarrow> None | x # _ \<Rightarrow> Some x)"
  by (induction xs) auto

lemma FindProjectRole_roles_of:
  "FindProjectRole f db p u =
     (case f_read_role f of
        Some e \<Rightarrow> Inl e
      | None \<Rightarrow> (case roles_of db p u of [] \<Rightarrow> Inl ErrRecordNotFound | r # _ \<Rightarrow> Inr r))"
  by (simp add: FindProjectRole_def faulty_first_def table_first_def roles_of_def find_filter
      split: option.split list.split)

lemma FindProjectRole_Inr:
  assumes "FindProjectRole f db p u = Inr r"
  shows "\<exists>rs. roles_of db p u = r # rs" "r \<in> set (m_roles db)" "ro_ProjectID r = p" "ro_UserID r = u"
proof -
  show "\<exists>rs. roles_of db p u = r # rs"
    using assms by (auto simp: FindProjectRole_roles_of split: option.splits list.splits)
  then have "r \<in> set (roles_of db p u)" by auto
  then show "r \<in> set (m_roles db)" "ro_ProjectID r = p" "ro_UserID r = u"
    by (auto simp: roles_of_def)
qed

lemma same_id: "distinct (map ro_ID rs) \<Longrightarrow> r \<in> set rs \<Longrightarrow> q \<in> set rs \<Longrightarrow> ro_ID r = ro_ID q \<Longrightarrow> r = q"
  by (auto simp: distinct_map inj_on_def)

text \<open>Saving a role over one of the same id, project and user replaces it where it stands.\<close>

lemma filter_save_role:
  assumes "distinct (map ro_ID rs)" and "r \<in> set rs" and "ro_ID q = ro_ID r"
    and "ro_ProjectID q = ro_ProjectID r" "ro_UserID q = ro_UserID r"
  shows "filter (\<lambda>x. ro_ProjectID x = p \<and> ro_UserID x = u) (save_role rs q) =
    map (\<lambda>x. if x = r then q else x) (filter (\<lambda>x. ro_ProjectID x = p \<and> ro_UserID x = u) rs)"
proof -
  have "x = r \<longleftrightarrow> ro_ID x = ro_ID q" if "x \<in> set rs" for x
    using same_id [OF assms(1) that assms(2)] assms(3) by auto
  then have "save_role rs q = map (\<lambda>x. if x = r then q else x) rs"
    by (auto simp: save_role_def)
  moreover have "filter (\<lambda>x. ro_ProjectID x = p \<and> ro_UserID x = u) (map (\<lambda>x. if x = r then q else x) rs) =
      map (\<lambda>x. if x = r then q else x) (filter (\<lambda>x. ro_ProjectID x = p \<and> ro_UserID x = u) rs)"
    unfolding filter_map o_def using assms(4,5)
    by (intro arg_cong [where f = "map _"] filter_cong) auto
  ultimately show ?thesis by simp
qed

lemma filter_delete_first:
  assumes "distinct (map ro_ID rs)" and "filter P rs = r # qs"
  shows "filter P (filter (\<lambda>x. ro_ID x \<noteq> ro_ID r) rs) = qs"
proof -
  have "set (r # qs) \<subseteq> set rs" by (metis assms(2) filter_is_subset)
  then have r: "r \<in> set rs" and qs: "set qs \<subseteq> set rs" by simp_all
  have "filter P (filter (\<lambda>x. ro_ID x \<noteq> ro_ID r) rs) = filter (\<lambda>x. ro_ID x \<noteq> ro_ID r) (filter P rs)"
    by (simp add: conj_commute)
  also have "\<dots> = filter (\<lambda>x. ro_ID x \<noteq> ro_ID r) qs" by (simp add: assms(2))
  also have "\<dots> = qs"
  proof (rule filter_True, rule ballI)
    fix x assume x: "x \<in> set qs"
    have "distinct (filter P rs)" using assms(1) by (simp add: distinct_map)
    then have "distinct (r # qs)" unfolding assms(2) .
    then have "x \<noteq> r" using x by auto
    moreover have "x \<in> set rs" using x qs by blast
    ultimately show "ro_ID x \<noteq> ro_ID r" using same_id [OF assms(1) _ r] by blast
  qed
  finally show ?thesis .
qed

section \<open>What the handlers do\<close>

lemma RoleDelete_effect:
  assumes "wf_db db" and "ctx_project ctx = Some proj"
    and "RoleDeleteHandler no_faults db ctx (Inr u) = (db', w, panicked)"
  shows "\<not> panicked \<and> roles_of db' (pr_ID proj) u = tl (roles_of db (pr_ID proj) u) \<and>
    (roles_of db (pr_ID proj) u = [] \<longrightarrow> w = [WroteStatus 403]) \<and>
    (\<forall>p v. (p, v) \<noteq> (pr_ID proj, u) \<longrightarrow> roles_of db' p v = roles_of db p v)"
proof (cases "roles_of db (pr_ID proj) u")
  case Nil
  then have "FindProjectRole no_faults db (pr_ID proj) u = Inl ErrRecordNotFound"
    by (simp add: FindProjectRole_roles_of)
  with assms(2,3) Nil show ?thesis by (auto simp: RoleDeleteHandler_def)
next
  case (Cons r rs)
  have find: "FindProjectRole no_faults db (pr_ID proj) u = Inr r"
    by (simp add: FindProjectRole_roles_of Cons)
  note r = FindProjectRole_Inr [OF find]
  have dist: "distinct (map ro_ID (m_roles db))" using assms(1) by (simp add: wf_db_def)
  have res: "db' = db\<lparr>m_roles := filter (\<lambda>x. ro_ID x \<noteq> ro_ID r) (m_roles db)\<rparr>" "\<not> panicked"
  proof -
    have "DeleteProjectRole no_faults db (pr_ID proj) u =
        (db\<lparr>m_roles := filter (\<lambda>x. ro_ID x \<noteq> ro_ID r) (m_roles db)\<rparr>, Inr r)"
      using find by (simp add: DeleteProjectRole_def)
    with assms(2,3) find show "db' = db\<lparr>m_roles := filter (\<lambda>x. ro_ID x \<noteq> ro_ID r) (m_roles db)\<rparr>" "\<not> panicked"
      by (simp_all add: RoleDeleteHandler_def)
  qed
  have "roles_of db' (pr_ID proj) u = rs"
    using filter_delete_first [OF dist, of _ r rs] Cons by (simp add: res(1) roles_of_def)
  moreover have "roles_of db' p v = roles_of db p v" if "(p, v) \<noteq> (pr_ID proj, u)" for p v
  proof -
    have "ro_ID x \<noteq> ro_ID r" if "x \<in> set (roles_of db p v)" for x
      using that same_id [OF dist _ r(2)] r(3,4) \<open>(p, v) \<noteq> _\<close> by (auto simp: roles_of_def)
    then show ?thesis
      by (auto simp: res(1) roles_of_def intro!: filter_cong)
  qed
  ultimately show ?thesis using Cons res(2) by simp
qed

lemma RoleUpdate_effect:
  assumes "wf_db db" and "ctx_project ctx = Some proj"
    and "RoleUpdateHandler no_faults db ctx (Inr (u, kind)) = (db', w, panicked)"
  shows "\<not> panicked \<and> m_projects db' = m_projects db \<and> m_invites db' = m_invites db \<and>
    (case roles_of db (pr_ID proj) u of
       [] \<Rightarrow> db' = db \<and> w = [WroteStatus 403]
     | r # rs \<Rightarrow> w = [WroteResult (r\<lparr>ro_Kind := RoleKind kind\<rparr>)] \<and>
         roles_of db' (pr_ID proj) u = r\<lparr>ro_Kind := RoleKind kind\<rparr> # rs) \<and>
    (\<forall>p v. (p, v) \<noteq> (pr_ID proj, u) \<longrightarrow> roles_of db' p v = roles_of db p v)"
proof (cases "roles_of db (pr_ID proj) u")
  case Nil
  then have "FindProjectRole no_faults db (pr_ID proj) u = Inl ErrRecordNotFound"
    by (simp add: FindProjectRole_roles_of)
  with assms(2,3) Nil show ?thesis by (auto simp: RoleUpdateHandler_def)
next
  case (Cons r rs)
  let ?q = "r\<lparr>ro_Kind := RoleKind kind\<rparr>"
  have find: "FindProjectRole no_faults db (pr_ID proj) u = Inr r"
    by (simp add: FindProjectRole_roles_of Cons)
  note r = FindProjectRole_Inr [OF find]
  have dist: "distinct (map ro_ID (m_roles db))" using assms(1) by (simp add: wf_db_def)
  have res: "db' = db\<lparr>m_roles := save_role (m_roles db) ?q\<rparr>" "w = [WroteResult ?q]" "\<not> panicked"
  proof -
    have "FindProjectRole no_faults db (pr_ID proj) (ro_UserID ?q) = Inr r" using find r(4) by simp
    then have "UpdateProjectRole no_faults db (pr_ID proj) ?q =
        (db\<lparr>m_roles := save_role (m_roles db) ?q\<rparr>, Inr ?q)"
      by (simp add: UpdateProjectRole_def Let_def)
    with assms(2,3) find show "db' = db\<lparr>m_roles := save_role (m_roles db) ?q\<rparr>" "w = [WroteResult ?q]" "\<not> panicked"
      by (simp_all add: RoleUpdateHandler_def)
  qed
  have all: "roles_of db' p v = map (\<lambda>x. if x = r then ?q else x) (roles_of db p v)" for p v
    unfolding res(1) roles_of_def using filter_save_role [OF dist r(2), of ?q p v] by simp
  have "r \<notin> set (roles_of db p v)" if "(p, v) \<noteq> (pr_ID proj, u)" for p v
    using that r(3,4) by (auto simp: roles_of_def)
  then have "roles_of db' p v = roles_of db p v" if "(p, v) \<noteq> (pr_ID proj, u)" for p v
    using that unfolding all by (intro map_idI) auto
  moreover have "distinct (roles_of db (pr_ID proj) u)" using dist by (simp add: roles_of_def distinct_map)
  then have "distinct (r # rs)" unfolding Cons .
  then have "map (\<lambda>x. if x = r then ?q else x) (r # rs) = ?q # rs" by (auto intro!: map_idI)
  then have "roles_of db' (pr_ID proj) u = ?q # rs" unfolding all Cons .
  ultimately show ?thesis using res Cons by simp
qed

text \<open>
  Updating a role, when nothing fails: the user's first role in the project gets the kind,
  every other role of everybody is as it was, and a user who is not a member of the project the
  request was authorized for is refused with 403 and nothing changes.
\<close>

theorem RoleUpdate_exact:
  assumes "wf_db db" and "ctx_project ctx = Some proj"
    and "RoleUpdateHandler no_faults db ctx (Inr (u, kind)) = (db', w, panicked)"
  shows "\<not> panicked \<and> m_projects db' = m_projects db \<and> m_invites db' = m_invites db \<and>
    (case roles_of db (pr_ID proj) u of
       [] \<Rightarrow> db' = db \<and> w = [WroteStatus 403]
     | r # rs \<Rightarrow> w = [WroteResult (r\<lparr>ro_Kind := RoleKind kind\<rparr>)] \<and>
         roles_of db' (pr_ID proj) u = r\<lparr>ro_Kind := RoleKind kind\<rparr> # rs) \<and>
    (\<forall>p v. (p, v) \<noteq> (pr_ID proj, u) \<longrightarrow> roles_of db' p v = roles_of db p v)"
  by (rule RoleUpdate_effect [OF assms])

text \<open>
  Deleting a role, when nothing fails, removes the user's first role in the project and no
  other: the user stays a member exactly if there was a second one.
\<close>

theorem RoleDelete_exact:
  assumes "wf_db db" and "ctx_project ctx = Some proj"
    and "RoleDeleteHandler no_faults db ctx (Inr u) = (db', w, panicked)"
  shows "\<not> panicked \<and> roles_of db' (pr_ID proj) u = tl (roles_of db (pr_ID proj) u) \<and>
    (roles_of db (pr_ID proj) u = [] \<longrightarrow> w = [WroteStatus 403]) \<and>
    (\<forall>p v. (p, v) \<noteq> (pr_ID proj, u) \<longrightarrow> roles_of db' p v = roles_of db p v)"
  by (rule RoleDelete_effect [OF assms])

section \<open>Accepting an invite\<close>

definition url_uint :: "request \<Rightarrow> string \<Rightarrow> uint" where
  "url_uint r p = (case GetURLParamUint r p of Inl e \<Rightarrow> 0 | Inr i \<Rightarrow> i)"

definition url_token :: "request \<Rightarrow> string" where
  "url_token r = (case GetURLParamString r ''token'' of Inl e \<Rightarrow> [] | Inr t \<Rightarrow> t)"

text \<open>What the accept handler demands before it grants the role.\<close>

definition may_accept :: "db_faults \<Rightarrow> int \<Rightarrow> member_db \<Rightarrow> request \<Rightarrow> project \<Rightarrow> invite \<Rightarrow> user \<Rightarrow> bool" where
  "may_accept f now db r proj iv user \<longleftrightarrow>
     FindProject f db (url_uint r URLParamProjectID) = Inr proj \<and>
     FindInviteByToken f db (url_token r) = Inr iv \<and> iv_ProjectID iv = pr_ID proj \<and>
     InviteIsExpired now iv = Some False \<and> \<not> IsAccepted iv \<and>
     ctx_user (rq_ctx r) = Some user \<and> us_Email user = iv_Email iv"

definition granted_role :: "member_db \<Rightarrow> project \<Rightarrow> invite \<Rightarrow> user \<Rightarrow> role" where
  "granted_role db proj iv user =
     \<lparr>ro_ID = m_next db,
      ro_Kind = RoleKind (if iv_Kind iv = [] then ''developer'' else iv_Kind iv),
      ro_UserID = us_ID user, ro_ProjectID = pr_ID proj\<rparr>"

definition add_role :: "member_db \<Rightarrow> role \<Rightarrow> member_db" where
  "add_role db role = db\<lparr>m_roles := m_roles db @ [role], m_next := m_next db + 1\<rparr>"

text \<open>The three ways the handler ends: without effect, with the role granted and the invite marked
  accepted, and with the role granted but the invite left open.\<close>

lemma InviteAccept_cases:
  assumes "InviteAcceptHandler f now db r = (db', w, panicked)"
  obtains (refused) "db' = db" "WroteRedirect ''/dashboard'' \<notin> set w"
      "f = no_faults \<Longrightarrow> \<nexists>proj iv user. may_accept f now db r proj iv user"
  | (accepted) proj iv user where "may_accept f now db r proj iv user" "f_save_invite f = None"
      "fst (UpdateInvite f (add_role db (granted_role db proj iv user)) (iv\<lparr>iv_UserID := us_ID user\<rparr>)) = db'"
      "w = [WroteRedirect ''/dashboard'']" "\<not> panicked"
  | (unmarked) proj iv user where "may_accept f now db r proj iv user" "f_save_invite f \<noteq> None"
      "db' = add_role db (granted_role db proj iv user)" "WroteRedirect ''/dashboard'' \<notin> set w"
proof (cases "\<exists>proj iv user. may_accept f now db r proj iv user")
  case False
  then have "db' = db \<and> WroteRedirect ''/dashboard'' \<notin> set w"
    using assms
    unfolding InviteAcceptHandler_def url_uint_def [symmetric] url_token_def [symmetric] Let_def may_accept_def
    by (auto simp: dashboard_error_def split: sum.splits option.splits if_splits)
  with False show thesis using refused by blast
next
  case True
  then obtain proj iv user where ok: "may_accept f now db r proj iv user" by blast
  let ?d = "add_role db (granted_role db proj iv user)"
  let ?i = "iv\<lparr>iv_UserID := us_ID user\<rparr>"
  have run: "InviteAcceptHandler f now db r =
      (case f_create_role f of
         Some e \<Rightarrow> (db, [WroteError (ErrInternal (go_error_text e))], False)
       | None \<Rightarrow> (case UpdateInvite f ?d ?i of
           (d, Some e) \<Rightarrow> (d, [WroteError (ErrInternal (go_error_text e))], False)
         | (d, None) \<Rightarrow> (d, [WroteRedirect ''/dashboard''], False)))"
    using ok unfolding InviteAcceptHandler_def url_uint_def [symmetric] url_token_def [symmetric] may_accept_def
    by (auto simp: CreateProjectRole_def add_role_def granted_role_def Let_def split: option.split)
  show thesis
  proof (cases "f_create_role f")
    case (Some e)
    with assms run have "db' = db" "WroteRedirect ''/dashboard'' \<notin> set w" by auto
    then show thesis by (rule refused) (use Some in auto)
  next
    case None
    show thesis
    proof (cases "f_save_invite f")
      case None
      with \<open>f_create_role f = None\<close> assms run show thesis
        by (intro accepted [OF ok]) (auto simp: UpdateInvite_def)
    next
      case (Some e)
      with None assms run show thesis
        by (intro unmarked [OF ok]) (auto simp: UpdateInvite_def)
    qed
  qed
qed

section \<open>All the ways the tables change\<close>

text \<open>
  One operation is one handler run on a decoded body, under any faults, or the start of the server.
  The invite of an update or a deletion is the one the invite middleware read, a row of the
  table. The handlers that create accounts (registration and the two OAuth callbacks) change the
  tables by \<open>DefaultProjectOp\<close> only.
  A run is one step: handlers that interleave are not modelled. The billing webhook saves a project
  it has just read, with its roles as they are in the table, and so is no step of its own.
\<close>

datatype member_op =
    CreateProjectOp db_faults string user
  | DeleteProjectOp db_faults project
  | InitDataOp db_faults bool
  | DefaultProjectOp db_faults bool uint
  | UpdateRoleOp db_faults request_ctx uint string
  | DeleteRoleOp db_faults request_ctx uint
  | CreateInviteOp db_faults int string "invite \<Rightarrow> go_error option" request_ctx "string \<times> string"
  | AcceptInviteOp db_faults int request
  | UpdateInviteOp db_faults request_ctx string
  | DeleteInviteOp db_faults request_ctx

inductive member_step :: "member_db \<Rightarrow> member_op \<Rightarrow> member_db \<Rightarrow> bool" where
  step_create_project: "CreateProjectWithUser f db name user = (db', res) \<Longrightarrow>
    member_step db (CreateProjectOp f name user) db'"
| step_delete_project: "ProjectDeleteHandler f db proj = (db', wp, pk) \<Longrightarrow>
    member_step db (DeleteProjectOp f proj) db'"
| step_init_data: "init_default_project f initInCluster db = (db', e) \<Longrightarrow>
    member_step db (InitDataOp f initInCluster) db'"
| step_default_project: "default_project_role f initInCluster db userID = (db', e) \<Longrightarrow>
    member_step db (DefaultProjectOp f initInCluster userID) db'"
| step_update_role: "RoleUpdateHandler f db ctx (Inr (u, kind)) = (db', w, pk) \<Longrightarrow>
    member_step db (UpdateRoleOp f ctx u kind) db'"
| step_delete_role: "RoleDeleteHandler f db ctx (Inr u) = (db', w, pk) \<Longrightarrow>
    member_step db (DeleteRoleOp f ctx u) db'"
| step_create_invite: "InviteCreateHandler f now state notify db ctx (Inr req) = (db', wi, pk) \<Longrightarrow>
    member_step db (CreateInviteOp f now state notify ctx req) db'"
| step_accept_invite: "InviteAcceptHandler f now db r = (db', wu, pk) \<Longrightarrow>
    member_step db (AcceptInviteOp f now r) db'"
| step_update_invite: "ctx_invite ctx = Some i \<Longrightarrow> i \<in> set (m_invites db) \<Longrightarrow>
    InviteUpdateRoleHandler f db ctx (Inr kind) = (db', wu, pk) \<Longrightarrow>
    member_step db (UpdateInviteOp f ctx kind) db'"
| step_delete_invite: "ctx_invite ctx = Some i \<Longrightarrow> i \<in> set (m_invites db) \<Longrightarrow>
    InviteDeleteHandler f db ctx = (db', wu, pk) \<Longrightarrow>
    member_step db (DeleteInviteOp f ctx) db'"

text \<open>Every change of the tables is one of these.\<close>

inductive row_change :: "member_db \<Rightarrow> member_db \<Rightarrow> bool" where
  same: "row_change db db"
| new_project: "row_change db (db\<lparr>m_projects := m_projects db @ [p\<lparr>pr_ID := m_next db\<rparr>], m_next := m_next db + 1\<rparr>)"
| drop_project: "row_change db (db\<lparr>m_deleted := i # m_deleted db\<rparr>)"
| new_role: "ro_ID r = m_next db \<Longrightarrow> ro_ProjectID r \<in> pr_ID ` set (m_projects db) \<Longrightarrow>
    row_change db (add_role db r)"
| new_invite: "iv_ID i = m_next db \<Longrightarrow> iv_ProjectID i \<in> pr_ID ` set (m_projects db) \<Longrightarrow>
    row_change db (db\<lparr>m_invites := m_invites db @ [i], m_next := m_next db + 1\<rparr>)"
| save_role: "r \<in> set (m_roles db) \<Longrightarrow>
    row_change db (db\<lparr>m_roles := save_role (m_roles db) (r\<lparr>ro_Kind := k\<rparr>)\<rparr>)"
| save_invite: "i \<in> set (m_invites db) \<Longrightarrow> iv_ID j = iv_ID i \<Longrightarrow> iv_ProjectID j = iv_ProjectID i \<Longrightarrow>
    row_change db (db\<lparr>m_invites := map (\<lambda>x. if iv_ID x = iv_ID j then j else x) (m_invites db)\<rparr>)"
| drop_roles: "row_change db (db\<lparr>m_roles := filter P (m_roles db)\<rparr>)"
| drop_invites: "row_change db (db\<lparr>m_invites := filter Q (m_invites db)\<rparr>)"

definition members_ok :: "member_db \<Rightarrow> bool" where
  "members_ok db \<longleftrightarrow> wf_db db \<and>
     ro_ProjectID ` set (m_roles db) \<subseteq> pr_ID ` set (m_projects db) \<and>
     iv_ProjectID ` set (m_invites db) \<subseteq> pr_ID ` set (m_projects db)"

text \<open>The tables have room for two more rows, the most an operation adds.\<close>

definition room :: "member_db \<Rightarrow> bool" where
  "room db \<longleftrightarrow> unat (m_next db) + 2 < 2 ^ 64"

lemma list_all_less_succ:
  "list_all (\<lambda>x. f x < n) xs \<Longrightarrow> n \<noteq> -1 \<Longrightarrow> list_all (\<lambda>x. f x < n + 1) xs" for n :: uint
  by (auto simp: list_all_iff intro: less_succ)

lemma fresh_id: "list_all (\<lambda>x. f x < n) xs \<Longrightarrow> n \<notin> f ` set xs" for n :: uint
  by (auto simp: list_all_iff)

lemma map_save [simp]: "ro_ID q = ro_ID r \<Longrightarrow> map ro_ID (save_role rs q) = map ro_ID rs"
  by (auto simp: save_role_def)

lemma row_change_ok:
  assumes "row_change db db'" and "members_ok db" and "m_next db \<noteq> - 1"
  shows "members_ok db'"
  using assms
proof (induction rule: row_change.induct)
  case (save_role r db k)
  have "list_all (\<lambda>r. ro_ID r < m_next db) (save_role (m_roles db) (r\<lparr>ro_Kind := k\<rparr>))"
    and "ro_ProjectID ` set (save_role (m_roles db) (r\<lparr>ro_Kind := k\<rparr>)) \<subseteq> pr_ID ` set (m_projects db)"
    using save_role by (auto simp: members_ok_def wf_db_def list_all_iff save_role_def)
  then show ?case using save_role by (simp add: members_ok_def wf_db_def)
next
  case (save_invite i db j)
  let ?new = "map (\<lambda>x. if iv_ID x = iv_ID j then j else x) (m_invites db)"
  have "map iv_ID ?new = map iv_ID (m_invites db)" by simp
  moreover have "list_all (\<lambda>i. iv_ID i < m_next db) ?new"
    and "iv_ProjectID ` set ?new \<subseteq> pr_ID ` set (m_projects db)"
    using save_invite by (auto simp: members_ok_def wf_db_def list_all_iff)
  ultimately show ?case using save_invite by (simp add: members_ok_def wf_db_def del: map_map)
next
  case (drop_roles db P)
  then show ?case by (auto simp: members_ok_def wf_db_def list_all_iff distinct_map_filter)
next
  case (drop_invites db Q)
  then show ?case by (auto simp: members_ok_def wf_db_def list_all_iff distinct_map_filter)
qed (auto simp: members_ok_def wf_db_def add_role_def list_all_less_succ next_less_succ dest: fresh_id)

lemma faulty_first_Inr: "faulty_first e rows P = Inr x \<Longrightarrow> x \<in> set rows \<and> P x"
  by (auto simp: faulty_first_def table_first_def find_Some_iff split: option.splits)

lemma FindProject_exists: "FindProject f db i = Inr p \<Longrightarrow> pr_ID p \<in> pr_ID ` set (m_projects db)"
  by (cases "faulty_first (f_read_project f) (m_projects db) (\<lambda>p. pr_ID p = i \<and> pr_ID p \<notin> set (m_deleted db))")
    (auto simp: FindProject_def dest: faulty_first_Inr)

lemma UpdateProjectRole_change:
  assumes "FindProjectRole f db p u = Inr r" and "UpdateProjectRole f db p (r\<lparr>ro_Kind := k\<rparr>) = (db', res)"
  shows "row_change db db'"
  using assms FindProjectRole_Inr [OF assms(1)]
  by (auto simp: UpdateProjectRole_def Let_def split: option.splits intro: row_change.intros)

lemma DeleteProjectRole_change: "DeleteProjectRole f db p u = (db', res) \<Longrightarrow> row_change db db'"
  by (auto simp: DeleteProjectRole_def split: sum.splits option.splits intro: row_change.intros)

lemma CreateInvite_change: "CreateInvite f db i = (db', res) \<Longrightarrow> row_change db db'"
  by (auto simp: CreateInvite_def Let_def split: sum.splits option.splits dest!: faulty_first_Inr
      intro!: row_change.same row_change.new_invite) (metis image_eqI)

lemma UpdateInvite_change:
  "i \<in> set (m_invites db) \<Longrightarrow> iv_ID j = iv_ID i \<Longrightarrow> iv_ProjectID j = iv_ProjectID i \<Longrightarrow>
   row_change db (fst (UpdateInvite f db j))"
  using row_change.save_invite [of i db j]
  by (auto simp: UpdateInvite_def split: option.split intro: row_change.same)

lemma DeleteInvite_change: "row_change db (fst (DeleteInvite f db i))"
  by (auto simp: DeleteInvite_def split: option.split intro: row_change.intros)

lemma CreateProjectRole_change:
  "pr_ID p \<in> pr_ID ` set (m_projects db) \<Longrightarrow> row_change db (fst (CreateProjectRole f db p r))"
  using row_change.new_role [of "r\<lparr>ro_ID := m_next db, ro_ProjectID := pr_ID p\<rparr>" db]
  by (auto simp: CreateProjectRole_def Let_def add_role_def split: option.split intro: row_change.same)

lemma CreateProject_change: "row_change db (fst (CreateProject f db name))"
  using row_change.new_project [of db "\<lparr>pr_ID = m_next db, pr_Name = name, pr_Roles = [], pr_APITokensEnabled = False\<rparr>"]
  by (auto simp: CreateProject_def Let_def split: option.split intro: row_change.same)

lemma default_project_role_fst:
  "fst (default_project_role f initInCluster db userID) = db \<or>
   (\<exists>project r. FindProject f db 1 = Inr project \<and> pr_ID project = 1 \<and> initInCluster \<and> userID = 1 \<and>
      ro_UserID r = userID \<and> fst (default_project_role f initInCluster db userID) = fst (CreateProjectRole f db project r))"
proof (cases "FindProject f db 1")
  case (Inr project)
  then have "pr_ID project = 1"
    by (cases "faulty_first (f_read_project f) (m_projects db) (\<lambda>p. pr_ID p = 1 \<and> pr_ID p \<notin> set (m_deleted db))")
      (auto simp: FindProject_def dest: faulty_first_Inr)
  moreover have "fst (default_project_role f initInCluster db userID) =
      (if initInCluster \<and> userID = 1
       then fst (CreateProjectRole f db project
         \<lparr>ro_ID = 0, ro_Kind = RoleAdmin, ro_UserID = userID, ro_ProjectID = pr_ID project\<rparr>)
       else db)"
    using Inr by (auto simp: default_project_role_def split: prod.split sum.split)
  moreover have "ro_UserID \<lparr>ro_ID = 0, ro_Kind = RoleAdmin, ro_UserID = userID, ro_ProjectID = pr_ID project\<rparr> = userID"
    by simp
  ultimately show ?thesis using Inr by meson
qed (simp add: default_project_role_def)

lemma init_default_project_fst:
  "fst (init_default_project f initInCluster db) \<in> {db, fst (CreateProject f db ''default'')}"
  by (auto simp: init_default_project_def split: sum.split go_error.split prod.split)

lemma row_change_next: "row_change db db' \<Longrightarrow> m_next db' = m_next db \<or> m_next db' = m_next db + 1"
  by (induction rule: row_change.induct) (auto simp: add_role_def)

lemma step_two_changes:
  assumes "member_step db op db'"
  shows "\<exists>mid. row_change db mid \<and> row_change mid db'"
  using assms
proof (induction rule: member_step.induct)
  case (step_create_project f db name user db' res)
  show ?case
  proof (cases "CreateProject f db name")
    case (Pair d c)
    show ?thesis
    proof (cases c)
      case (Inl e)
      with Pair step_create_project have "db' = d" by (simp add: CreateProjectWithUser_def)
      moreover have "d = db" using Pair Inl by (auto simp: CreateProject_def Let_def split: option.splits)
      ultimately show ?thesis using row_change.same by blast
    next
      case (Inr p)
      let ?p = "\<lparr>pr_ID = m_next db, pr_Name = name, pr_Roles = [], pr_APITokensEnabled = False\<rparr>"
      have d: "d = db\<lparr>m_projects := m_projects db @ [?p], m_next := m_next db + 1\<rparr>" "p = ?p"
        using Pair Inr by (auto simp: CreateProject_def Let_def split: option.splits)
      then have "row_change db d" using row_change.new_project [of db ?p] by simp
      moreover have "pr_ID p \<in> pr_ID ` set (m_projects d)" by (simp add: d)
      then have "row_change d db'"
        using step_create_project CreateProjectRole_change [of p d f] Pair Inr
        by (auto simp: CreateProjectWithUser_def split: prod.splits sum.splits) (metis fst_conv)+
      ultimately show ?thesis by blast
    qed
  qed
next
  case (step_delete_project f db proj db' wp pk)
  then have "db' = db \<or> row_change db db'"
    by (auto simp: ProjectDeleteHandler_def DeleteProject_def split: option.splits intro: row_change.drop_project)
  then show ?case using row_change.same by blast
next
  case (step_init_data f initInCluster db db' e)
  then have "row_change db db'"
    using init_default_project_fst [of f initInCluster db] CreateProject_change [of db f "''default''"]
    by (auto intro: row_change.same)
  then show ?case using row_change.same by blast
next
  case (step_default_project f initInCluster db userID db' e)
  then have "row_change db db'"
    using default_project_role_fst [of f initInCluster db userID] CreateProjectRole_change
    by (metis FindProject_exists fst_conv row_change.same)
  then show ?case using row_change.same by blast
next
  case (step_update_role f db ctx u kind db' w pk)
  then have "db' = db \<or> row_change db db'"
    by (auto simp: RoleUpdateHandler_def split: option.splits sum.splits prod.splits
        dest: UpdateProjectRole_change)
  then show ?case using row_change.same by blast
next
  case (step_delete_role f db ctx u db' w pk)
  then have "db' = db \<or> row_change db db'"
    by (auto simp: RoleDeleteHandler_def split: option.splits sum.splits prod.splits
        dest: DeleteProjectRole_change)
  then show ?case using row_change.same by blast
next
  case (step_create_invite f now state notify db ctx req db' wi pk)
  then have "db' = db \<or> row_change db db'"
    by (auto simp: InviteCreateHandler_def split: option.splits sum.splits prod.splits
        dest: CreateInvite_change)
  then show ?case using row_change.same by blast
next
  case (step_accept_invite f now db r db' wu pk)
  from step_accept_invite show ?case
  proof (cases rule: InviteAccept_cases)
    case refused
    then show ?thesis using row_change.same by blast
  next
    case (accepted proj iv user)
    note found = accepted(1) [unfolded may_accept_def]
    let ?d = "add_role db (granted_role db proj iv user)"
    have "row_change db ?d"
      using found by (intro row_change.new_role) (auto simp: granted_role_def dest: FindProject_exists)
    moreover have "iv \<in> set (m_invites ?d)"
      using found by (auto simp: add_role_def FindInviteByToken_def dest: faulty_first_Inr)
    from UpdateInvite_change [OF this, of "iv\<lparr>iv_UserID := us_ID user\<rparr>" f]
    have "row_change ?d db'" using accepted(3) by simp
    ultimately show ?thesis by blast
  next
    case (unmarked proj iv user)
    then have "row_change db db'"
      using row_change.new_role [of "granted_role db proj iv user" db]
      by (auto simp: granted_role_def may_accept_def dest: FindProject_exists)
    then show ?thesis using row_change.same by blast
  qed
next
  case (step_update_invite ctx i db f kind db' wu pk)
  then have "row_change db db'"
    using UpdateInvite_change [of i db "i\<lparr>iv_Kind := kind\<rparr>" f]
    by (auto simp: InviteUpdateRoleHandler_def split: prod.splits option.splits)
  then show ?case using row_change.same by blast
next
  case (step_delete_invite ctx i db f db' wu pk)
  then have "row_change db db'"
    using DeleteInvite_change [of db f i]
    by (auto simp: InviteDeleteHandler_def split: prod.splits option.splits)
  then show ?case using row_change.same by blast
qed

lemma step_ok: "member_step db op db' \<Longrightarrow> members_ok db \<Longrightarrow> room db \<Longrightarrow> members_ok db'"
proof -
  assume step: "member_step db op db'" and ok: "members_ok db" and room: "room db"
  obtain mid where mid: "row_change db mid" "row_change mid db'" using step_two_changes [OF step] by blast
  have 1: "m_next db \<noteq> - 1" using room unat_max by (auto simp: room_def)
  moreover have "m_next db + 1 \<noteq> - 1"
  proof
    assume "m_next db + 1 = - 1"
    then have "unat (m_next db) + 1 = 2 ^ 64 - 1" using unat_max unat_succ [OF 1] by (simp only:)
    then show False using room by (simp add: room_def)
  qed
  ultimately show "members_ok db'" using row_change_next [OF mid(1)] mid ok by (metis row_change_ok)
qed

text \<open>Reachable tables: from the empty ones, by operations that had room for their rows.\<close>

definition empty_db :: member_db where
  "empty_db = \<lparr>m_projects = [], m_deleted = [], m_roles = [], m_invites = [], m_next = 1\<rparr>"

inductive reachable :: "member_db \<Rightarrow> bool" where
  reachable_empty: "reachable empty_db"
| reachable_step: "reachable db \<Longrightarrow> member_step db op db' \<Longrightarrow> room db \<Longrightarrow> reachable db'"

lemma reachable_ok: "reachable db \<Longrightarrow> members_ok db"
proof (induction rule: reachable.induct)
  case reachable_empty
  show ?case by (simp add: members_ok_def wf_db_def empty_db_def)
next
  case (reachable_step db op db')
  then show ?case using step_ok by blast
qed

text \<open>
  Whatever operations run, in whatever order and with whatever database failures, every role
  and every open invite belongs to a project of the table, deleted or not, and the rows of each table have distinct
  ids, as long as the id space is not used up.
\<close>

theorem reachable_members_ok:
  assumes "reachable db"
  shows "distinct (map ro_ID (m_roles db)) \<and> distinct (map iv_ID (m_invites db)) \<and>
    distinct (map pr_ID (m_projects db)) \<and>
    ro_ProjectID ` set (m_roles db) \<subseteq> pr_ID ` set (m_projects db) \<and>
    iv_ProjectID ` set (m_invites db) \<subseteq> pr_ID ` set (m_projects db)"
  using reachable_ok [OF assms] by (simp add: members_ok_def wf_db_def)

section \<open>How one becomes a member\<close>

lemma roles_of_add_role [simp]:
  "roles_of (add_role db r) p u = roles_of db p u @ (if ro_ProjectID r = p \<and> ro_UserID r = u then [r] else [])"
  by (simp add: roles_of_def add_role_def)

lemma roles_of_UpdateInvite [simp]: "roles_of (fst (UpdateInvite f db i)) p u = roles_of db p u"
  by (simp add: UpdateInvite_def roles_of_def split: option.split)

lemma roles_of_DeleteInvite [simp]: "roles_of (fst (DeleteInvite f db i)) p u = roles_of db p u"
  by (simp add: DeleteInvite_def roles_of_def split: option.split)

lemma UpdateInvite_roles: "UpdateInvite f db i = (db', e) \<Longrightarrow> roles_of db' p u = roles_of db p u"
  by (metis fst_conv roles_of_UpdateInvite)

lemma DeleteInvite_roles: "DeleteInvite f db i = (db', e) \<Longrightarrow> roles_of db' p u = roles_of db p u"
  by (metis fst_conv roles_of_DeleteInvite)

lemma roles_of_CreateInvite [simp]: "roles_of (fst (CreateInvite f db i)) p u = roles_of db p u"
  by (simp add: CreateInvite_def Let_def roles_of_def split: option.split sum.split)

lemma roles_of_DeleteProjectRole:
  "set (roles_of (fst (DeleteProjectRole f db q v)) p u) \<subseteq> set (roles_of db p u)"
  by (auto simp: DeleteProjectRole_def roles_of_def split: sum.splits option.splits)

lemma UpdateProjectRole_members:
  assumes "FindProjectRole f db q v = Inr r"
    and "roles_of (fst (UpdateProjectRole f db q (r\<lparr>ro_Kind := k\<rparr>))) p u \<noteq> []"
  shows "roles_of db p u \<noteq> []"
proof
  assume none: "roles_of db p u = []"
  note r = FindProjectRole_Inr [OF assms(1)]
  have "fst (UpdateProjectRole f db q (r\<lparr>ro_Kind := k\<rparr>)) \<in>
      {db, db\<lparr>m_roles := save_role (m_roles db) (r\<lparr>ro_Kind := k\<rparr>)\<rparr>}"
    using assms(1) r(4) by (auto simp: UpdateProjectRole_def Let_def split: option.split)
  with assms(2) none
  obtain x where "x \<in> set (save_role (m_roles db) (r\<lparr>ro_Kind := k\<rparr>))" "ro_ProjectID x = p" "ro_UserID x = u"
    by (auto simp: roles_of_def filter_empty_conv)
  then have "\<exists>y \<in> set (m_roles db). ro_ProjectID y = p \<and> ro_UserID y = u"
    using r(2) by (auto simp: save_role_def split: if_splits)
  with none show False by (auto simp: roles_of_def filter_empty_conv)
qed

lemma roles_of_CreateProject:
  "roles_of (fst (CreateProject f db name)) p u = roles_of db p u"
  "snd (CreateProject f db name) = Inr proj \<Longrightarrow> pr_ID proj = m_next db"
  by (auto simp: CreateProject_def Let_def roles_of_def split: option.splits)

lemma roles_of_CreateProjectRole:
  "roles_of (fst (CreateProjectRole f db proj r)) p u \<noteq> roles_of db p u \<Longrightarrow>
   p = pr_ID proj \<and> u = ro_UserID r"
  by (auto simp: CreateProjectRole_def Let_def roles_of_def split: option.splits if_splits)

lemma CreateProjectWithUser_members:
  assumes "CreateProjectWithUser f db name user = (db', res)" and "roles_of db p u = []"
    and "roles_of db' p u \<noteq> []"
  shows "us_ID user = u \<and> p = m_next db"
proof (cases "CreateProject f db name")
  case (Pair d c)
  have d: "roles_of d p u = []" using roles_of_CreateProject(1) [of f db name p u] Pair assms(2) by simp
  show ?thesis
  proof (cases c)
    case (Inl e)
    with Pair assms(1) have "db' = d" by (simp add: CreateProjectWithUser_def)
    with d assms(3) show ?thesis by simp
  next
    case (Inr proj)
    let ?r = "\<lparr>ro_ID = 0, ro_Kind = RoleAdmin, ro_UserID = us_ID user, ro_ProjectID = pr_ID proj\<rparr>"
    have "db' = fst (CreateProjectRole f d proj ?r)"
      using assms(1) Pair Inr
      by (cases "CreateProjectRole f d proj ?r") (auto simp: CreateProjectWithUser_def split: sum.splits)
    then have "p = pr_ID proj" "u = ro_UserID ?r"
      using roles_of_CreateProjectRole [of f d proj ?r p u] d assms(3) by simp_all
    moreover have "pr_ID proj = m_next db" using roles_of_CreateProject(2) [of f db name proj] Pair Inr by simp
    ultimately show ?thesis by simp
  qed
qed

lemma InviteAccept_members:
  assumes "InviteAcceptHandler f now db r = (db', w, pk)" and "roles_of db p u = []" and "roles_of db' p u \<noteq> []"
  shows "\<exists>user. ctx_user (rq_ctx r) = Some user \<and> us_ID user = u \<and>
    (\<exists>i \<in> set (m_invites db). iv_Token i = url_token r \<and> iv_ProjectID i = p \<and>
       iv_Email i = us_Email user \<and> InviteIsExpired now i = Some False \<and> \<not> IsAccepted i)"
  using assms(1)
proof (cases rule: InviteAccept_cases)
  case refused
  then show ?thesis using assms(2,3) by simp
next
  case (accepted proj iv user)
  then have "roles_of db' p u = roles_of db p u @
      (if pr_ID proj = p \<and> us_ID user = u then [granted_role db proj iv user] else [])"
    by (metis roles_of_UpdateInvite roles_of_add_role granted_role_def role.select_convs(3,4))
  then have "pr_ID proj = p \<and> us_ID user = u" using assms(2,3) by (auto split: if_splits)
  then show ?thesis using accepted(1)
    by (auto simp: may_accept_def FindInviteByToken_def dest!: faulty_first_Inr)
next
  case (unmarked proj iv user)
  then have "pr_ID proj = p \<and> us_ID user = u"
    using assms(2,3) by (auto simp: granted_role_def split: if_splits)
  then show ?thesis using unmarked(1)
    by (auto simp: may_accept_def FindInviteByToken_def dest!: faulty_first_Inr)
qed

lemma default_project_role_members:
  assumes "default_project_role f initInCluster db userID = (db', e)" and "roles_of db p u = []"
    and "roles_of db' p u \<noteq> []"
  shows "initInCluster \<and> userID = 1 \<and> u = 1 \<and> p = 1"
proof -
  obtain project r where "initInCluster" "userID = 1" "pr_ID project = 1" "ro_UserID r = userID"
    "db' = fst (CreateProjectRole f db project r)"
    using default_project_role_fst [of f initInCluster db userID] assms by auto
  then show ?thesis using roles_of_CreateProjectRole [of f db project r p u] assms(2,3) by simp
qed

text \<open>
  The steps but creating a project, accepting an invite and the first user's give nobody a role.
\<close>

lemma other_steps_members:
  assumes "member_step db op db'" and "roles_of db p u = []" and "roles_of db' p u \<noteq> []"
    and "\<And>f name user. op \<noteq> CreateProjectOp f name user" "\<And>f now r. op \<noteq> AcceptInviteOp f now r"
    "\<And>f b v. op \<noteq> DefaultProjectOp f b v"
  shows False
  using assms(1-3)
proof (cases rule: member_step.cases)
  case step_create_project
  then show False using assms(4) by blast
next
  case step_accept_invite
  then show False using assms(5) by blast
next
  case step_default_project
  then show False using assms(6) by blast
next
  case (step_delete_project f proj wp pk)
  then show False using assms(2,3)
    by (auto simp: ProjectDeleteHandler_def DeleteProject_def roles_of_def split: option.splits)
next
  case (step_init_data f initInCluster e)
  then show False using init_default_project_fst [of f initInCluster db] assms(2,3)
    by (auto simp: roles_of_CreateProject)
next
  case (step_update_role f ctx v kind w pk)
  show False
    using step_update_role(2) assms(2,3)
    by (auto simp: RoleUpdateHandler_def split: option.splits sum.splits prod.splits)
      (metis UpdateProjectRole_members fst_conv)+
next
  case (step_delete_role f ctx v w pk)
  show False
    using step_delete_role(2) assms(2,3)
    by (auto simp: RoleDeleteHandler_def split: option.splits sum.splits prod.splits)
      (metis roles_of_DeleteProjectRole fst_conv subset_empty set_empty)+
next
  case (step_create_invite f now state notify ctx req wi pk)
  show False
    using step_create_invite(2) assms(2,3)
    by (auto simp: InviteCreateHandler_def split: option.splits sum.splits prod.splits)
      (metis roles_of_CreateInvite fst_conv)+
next
  case (step_update_invite ctx i f kind wu pk)
  show False
    using step_update_invite(2-) assms(2,3)
    by (auto simp: InviteUpdateRoleHandler_def split: option.splits prod.splits dest!: UpdateInvite_roles [where p = p and u = u])
next
  case (step_delete_invite ctx i f wu pk)
  show False
    using step_delete_invite(2-) assms(2,3)
    by (auto simp: InviteDeleteHandler_def split: option.splits prod.splits dest!: DeleteInvite_roles [where p = p and u = u])
qed

text \<open>
  C4. Nobody becomes a member of a project except by creating it, by accepting an invite or as the
  first user of a server that runs in its cluster: if a step of any handler gives user \<open>u\<close> a role
  in project \<open>p\<close> in which there was none, the step is \<open>u\<close>'s creation of \<open>p\<close>, or an acceptance
  by \<open>u\<close>, logged in, of an invite to \<open>p\<close> that is in the table under the token of the URL, has not
  expired and has not been accepted, and bears \<open>u\<close>'s e-mail address, or the creation of the
  account of \<open>u\<close>, whose id is 1, with \<open>p\<close> the default project 1 and \<open>InitInCluster\<close> set.
\<close>

theorem members_are_invited:
  assumes "member_step db op db'" and "roles_of db p u = []" and "roles_of db' p u \<noteq> []"
  shows "(\<exists>f name user. op = CreateProjectOp f name user \<and> us_ID user = u \<and> p = m_next db) \<or>
    (\<exists>f now r user. op = AcceptInviteOp f now r \<and> ctx_user (rq_ctx r) = Some user \<and> us_ID user = u \<and>
      (\<exists>i \<in> set (m_invites db). iv_Token i = url_token r \<and> iv_ProjectID i = p \<and>
         iv_Email i = us_Email user \<and> InviteIsExpired now i = Some False \<and> \<not> IsAccepted i)) \<or>
    (\<exists>f. op = DefaultProjectOp f True u \<and> u = 1 \<and> p = 1)"
proof (cases op)
  case (CreateProjectOp f name user)
  then obtain res where "CreateProjectWithUser f db name user = (db', res)"
    using assms(1) by (auto elim: member_step.cases)
  from CreateProjectWithUser_members [OF this assms(2,3)] show ?thesis using CreateProjectOp by simp
next
  case (AcceptInviteOp f now r)
  then obtain w pk where "InviteAcceptHandler f now db r = (db', w, pk)"
    using assms(1) by (auto elim: member_step.cases)
  from InviteAccept_members [OF this assms(2,3)] show ?thesis using AcceptInviteOp by blast
next
  case (DefaultProjectOp f initInCluster v)
  then obtain e where "default_project_role f initInCluster db v = (db', e)"
    using assms(1) by (auto elim: member_step.cases)
  from default_project_role_members [OF this assms(2,3)] show ?thesis using DefaultProjectOp by simp
qed (use other_steps_members [OF assms] in auto)











text \<open>
  A member who accepts a further invite to the project cannot be removed by one deletion:
  after it the user still holds a role there, the one the invite granted.
\<close>

theorem twice_member_survives_removal:
  assumes run: "InviteAcceptHandler f now db r = (db1, w, panicked)"
    and ended: "WroteRedirect ''/dashboard'' \<in> set w"
    and member: "may_accept f now db r proj i user" "roles_of db (pr_ID proj) (us_ID user) \<noteq> []"
    and ok: "members_ok db" "room db"
    and del: "ctx_project ctx = Some proj" "RoleDeleteHandler no_faults db1 ctx (Inr (us_ID user)) = (db2, w2, p2)"
  shows "granted_role db proj i user \<in> set (roles_of db2 (pr_ID proj) (us_ID user))"
proof -
  have "roles_of db1 (pr_ID proj) (us_ID user) =
      roles_of db (pr_ID proj) (us_ID user) @ [granted_role db proj i user]"
    using run
  proof (cases rule: InviteAccept_cases)
    case (accepted proj' i' user')
    then have "proj' = proj" "i' = i" "user' = user" using member(1) by (auto simp: may_accept_def)
    then have "roles_of db1 (pr_ID proj) (us_ID user) =
        roles_of (add_role db (granted_role db proj i user)) (pr_ID proj) (us_ID user)"
      using accepted(3) roles_of_UpdateInvite by metis
    then show ?thesis by (simp add: granted_role_def)
  qed (use ended in auto)
  moreover have "wf_db db1"
    using step_ok [OF step_accept_invite [OF run] ok] by (simp add: members_ok_def)
  then have "roles_of db2 (pr_ID proj) (us_ID user) = tl (roles_of db1 (pr_ID proj) (us_ID user))"
    using RoleDelete_effect [OF _ del] by blast
  ultimately show ?thesis using member(2) by (cases "roles_of db (pr_ID proj) (us_ID user)") auto
qed

section \<open>Witnesses\<close>

definition sample_member :: user where
  "sample_member = \<lparr>us_ID = 5, us_Email = ''a@b.co'', us_EmailVerified = True, us_GithubAppIntegrationID = 0\<rparr>"

definition sample_members :: member_db where
  "sample_members =
     \<lparr>m_projects = [\<lparr>pr_ID = 1, pr_Name = ''p'', pr_Roles = [], pr_APITokensEnabled = False\<rparr>],
      m_deleted = [],
      m_roles = [\<lparr>ro_ID = 1, ro_Kind = RoleViewer, ro_UserID = 5, ro_ProjectID = 1\<rparr>],
      m_invites = [\<lparr>iv_ID = 2, iv_ProjectID = 1, iv_Token = ''tok'', iv_Email = ''a@b.co'',
                    iv_Kind = ''admin'', iv_UserID = 0, iv_Expiry = Some 2000\<rparr>],
      m_next = 3\<rparr>"

definition sample_in_project :: request_ctx where
  "sample_in_project = empty_ctx\<lparr>ctx_project :=
     Some \<lparr>pr_ID = 1, pr_Name = ''p'', pr_Roles = [], pr_APITokensEnabled = False\<rparr>\<rparr>"

definition sample_accept :: request where
  "sample_accept = \<lparr>rq_Authorization = [], rq_Cookie = [], rq_Path = [], rq_RawQuery = [],
     rq_params = (\<lambda>p. if p = ''project_id'' then ''1'' else if p = ''token'' then ''tok'' else []),
     rq_ctx = empty_ctx\<lparr>ctx_user := Some sample_member\<rparr>\<rparr>"

lemmas sample_member_defs = sample_member_def sample_members_def sample_in_project_def sample_accept_def

text \<open>The sample tables are well formed, with room; the sample request may accept their invite.\<close>

lemma sample_members_ok: "members_ok sample_members" "room sample_members"
  by (simp_all add: members_ok_def wf_db_def room_def sample_members_def)

lemma sample_roles: "roles_of sample_members 1 5 = m_roles sample_members"
  by (simp add: roles_of_def sample_members_def)

definition sample_invite :: invite where
  "sample_invite = hd (m_invites sample_members)"

definition sample_joined :: project where
  "sample_joined = \<lparr>pr_ID = 1, pr_Name = ''p'', pr_Roles = m_roles sample_members, pr_APITokensEnabled = False\<rparr>"

lemma sample_accept_project: "url_uint sample_accept URLParamProjectID = 1"
  by (simp add: url_uint_def sample_accept_def GetURLParamUint_def GetURLParamString_def
      URLParamProjectID_def ParseUint_small)

lemma sample_accept_token: "url_token sample_accept = ''tok''"
  by (simp add: url_token_def sample_accept_def GetURLParamString_def)

lemma sample_may_accept:
  "may_accept no_faults 1000 sample_members sample_accept sample_joined sample_invite sample_member"
  unfolding may_accept_def sample_accept_project sample_accept_token
  by (simp add: FindProject_def FindInviteByToken_def faulty_first_def table_first_def InviteIsExpired_def
      IsAccepted_def sample_member_defs sample_joined_def sample_invite_def)

lemma sample_accepts:
  "InviteAcceptHandler no_faults 1000 sample_members sample_accept =
   (fst (InviteAcceptHandler no_faults 1000 sample_members sample_accept), [WroteRedirect ''/dashboard''], False)"
proof -
  obtain db w p where run: "InviteAcceptHandler no_faults 1000 sample_members sample_accept = (db, w, p)"
    by (cases "InviteAcceptHandler no_faults 1000 sample_members sample_accept" rule: prod_cases3)
  then show ?thesis by (cases rule: InviteAccept_cases) (use sample_may_accept run in auto)
qed

lemma sample_user: "ctx_user (rq_ctx sample_accept) = Some sample_member" "us_ID sample_member = 5"
  by (simp_all add: sample_accept_def sample_member_def)

lemma sample_in_project: "ctx_project sample_in_project = Some (hd (m_projects sample_members))"
  "pr_ID (hd (m_projects sample_members)) = 1"
  by (simp_all add: sample_in_project_def sample_members_def)

theorem RoleUpdate_exact_witness:
  "roles_of (fst (RoleUpdateHandler no_faults sample_members sample_in_project (Inr (5, ''admin'')))) 1 5 =
   [\<lparr>ro_ID = 1, ro_Kind = RoleAdmin, ro_UserID = 5, ro_ProjectID = 1\<rparr>]"
proof -
  let ?run = "RoleUpdateHandler no_faults sample_members sample_in_project (Inr (5, ''admin''))"
  have "?run = (fst ?run, fst (snd ?run), snd (snd ?run))" by simp
  from RoleUpdate_exact [OF _ sample_in_project(1) this] sample_members_ok(1)
  show ?thesis
    unfolding sample_in_project(2) sample_roles by (simp add: members_ok_def sample_members_def RoleKind.simps)
qed

theorem RoleDelete_exact_witness:
  "roles_of (fst (RoleDeleteHandler no_faults sample_members sample_in_project (Inr 5))) 1 5 = []"
proof -
  let ?run = "RoleDeleteHandler no_faults sample_members sample_in_project (Inr 5)"
  have "?run = (fst ?run, fst (snd ?run), snd (snd ?run))" by simp
  from RoleDelete_exact [OF _ sample_in_project(1) this] sample_members_ok(1)
  show ?thesis
    unfolding sample_in_project(2) sample_roles by (simp add: members_ok_def sample_members_def)
qed

theorem reachable_members_ok_witness:
  "ro_ProjectID ` set (m_roles (fst (CreateProjectWithUser no_faults empty_db ''p'' sample_member))) \<subseteq>
   pr_ID ` set (m_projects (fst (CreateProjectWithUser no_faults empty_db ''p'' sample_member)))"
proof -
  let ?run = "CreateProjectWithUser no_faults empty_db ''p'' sample_member"
  have "?run = (fst ?run, snd ?run)" by simp
  moreover have "room empty_db" by (simp add: room_def empty_db_def)
  ultimately have "reachable (fst ?run)"
    using reachable_empty reachable_step step_create_project by blast
  from reachable_members_ok [OF this] show ?thesis by blast
qed

theorem members_are_invited_witness:
  "member_step empty_db (CreateProjectOp no_faults ''p'' sample_member)
     (fst (CreateProjectWithUser no_faults empty_db ''p'' sample_member)) \<and>
   (\<exists>f name user. CreateProjectOp no_faults ''p'' sample_member = CreateProjectOp f name user \<and> us_ID user = 5 \<and>
      1 = m_next empty_db)"
proof -
  let ?run = "CreateProjectWithUser no_faults empty_db ''p'' sample_member"
  have "?run = (fst ?run, snd ?run)" by simp
  then have step: "member_step empty_db (CreateProjectOp no_faults ''p'' sample_member) (fst ?run)"
    by (rule step_create_project)
  have none: "roles_of empty_db 1 5 = []" by code_simp
  have some: "roles_of (fst ?run) 1 5 \<noteq> []" by code_simp
  from members_are_invited [OF step none some] step show ?thesis by auto
qed


theorem twice_member_survives_removal_witness:
  "granted_role sample_members sample_joined sample_invite sample_member \<in>
   set (roles_of (fst (RoleDeleteHandler no_faults
     (fst (InviteAcceptHandler no_faults 1000 sample_members sample_accept))
     (empty_ctx\<lparr>ctx_project := Some sample_joined\<rparr>) (Inr 5))) 1 5)"
proof -
  let ?ctx = "empty_ctx\<lparr>ctx_project := Some sample_joined\<rparr>"
  let ?db = "fst (InviteAcceptHandler no_faults 1000 sample_members sample_accept)"
  let ?run = "RoleDeleteHandler no_faults ?db ?ctx (Inr (us_ID sample_member))"
  have run: "?run = (fst ?run, fst (snd ?run), snd (snd ?run))" by simp
  have id: "pr_ID sample_joined = 1" by (simp add: sample_joined_def)
  have role: "roles_of sample_members (pr_ID sample_joined) (us_ID sample_member) \<noteq> []"
    unfolding id sample_user(2) sample_roles by (simp add: sample_members_def)
  have ctx: "ctx_project ?ctx = Some sample_joined" by simp
  from twice_member_survives_removal [OF sample_accepts _ sample_may_accept role sample_members_ok ctx run]
  show ?thesis unfolding id sample_user(2) by simp
qed

end
