(* ===== verification/API_Tokens.thy ===== *)
theory API_Tokens
  imports Policy_Middleware Members
begin

text \<open>
  The life of API tokens and of custom policies: \<open>api/server/handlers/api_token\<close>,
  \<open>api/server/handlers/policy\<close>, and the operations of \<open>gorm/api_token.go\<close> and
  \<open>gorm/policy.go\<close> over explicit tables, with a fault of every call. The authentication and the
  policy loader read the same tables, which \<open>with_tables\<close> puts into the server's repository; so
  the theorems say what a token lets through from its creation to its revocation. The primary keys
  of the tables are not modelled: a row is known by its unique id.
\<close>

section \<open>State and surroundings\<close>

record token_db =
  td_tokens :: "api_token list"
  td_policies :: "policy_row list"
  td_draws :: nat

record token_faults =
  tf_create_token :: "go_error option"
  tf_read_token :: "go_error option"
  tf_save_token :: "go_error option"
  tf_list_tokens :: "go_error option"
  tf_create_policy :: "go_error option"
  tf_read_policy :: "go_error option"
  tf_list_policies :: "go_error option"

definition no_token_faults :: token_faults where
  "no_token_faults = \<lparr>tf_create_token = None, tf_read_token = None, tf_save_token = None,
     tf_list_tokens = None, tf_create_policy = None, tf_read_policy = None, tf_list_policies = None\<rparr>"

text \<open>Randomness in hexadecimal, bcrypt, the signature of a JWT and the encoder of policies.\<close>

record token_world =
  tw_random :: "nat \<Rightarrow> (go_error, string) go_result"
  tw_hash :: "string \<Rightarrow> (go_error, bytes) go_result"
  tw_sign :: "claims \<Rightarrow> string \<Rightarrow> (string, string) go_result"
  tw_marshal :: "policy \<Rightarrow> (go_error, bytes) go_result"

definition with_tables :: "token_faults \<Rightarrow> server_env \<Rightarrow> token_db \<Rightarrow> server_env" where
  "with_tables f env db =
     env\<lparr>ev_repo := (ev_repo env)\<lparr>q_api_tokens := faulty_first (tf_read_token f) (td_tokens db),
                                 q_policies := faulty_first (tf_read_policy f) (td_policies db)\<rparr>\<rparr>"

type_synonym 'a token_handled = "token_db \<times> 'a written list \<times> bool"

section \<open>Repository operations (\<open>gorm/api_token.go\<close>, \<open>gorm/policy.go\<close>)\<close>

text \<open>The unique index refuses a second row with the same unique id.\<close>

definition CreateAPIToken ::
  "token_faults \<Rightarrow> token_db \<Rightarrow> api_token \<Rightarrow> token_db \<times> (go_error, api_token) go_result" where
  "CreateAPIToken f db a =
     (case tf_create_token f of
        Some e \<Rightarrow> (db, Inl e)
      | None \<Rightarrow>
          if at_UniqueID a \<in> at_UniqueID ` set (td_tokens db)
          then (db, Inl (GoError ''duplicate key value violates unique constraint''))
          else (db\<lparr>td_tokens := td_tokens db @ [a]\<rparr>, Inr a))"

text \<open>
  The query names one parameter and is given two. Whether gorm and the driver put up with the
  second is theirs: a refusal is the fault of the call, and without one the second has no effect.
\<close>

definition ListAPITokensByProjectID ::
  "token_faults \<Rightarrow> token_db \<Rightarrow> uint \<Rightarrow> (go_error, api_token list) go_result" where
  "ListAPITokensByProjectID f db projectID =
     (case tf_list_tokens f of
        Some e \<Rightarrow> Inl e
      | None \<Rightarrow> Inr (filter (\<lambda>t. at_ProjectID t = projectID \<and> \<not> at_Revoked t) (td_tokens db)))"

definition UpdateAPIToken ::
  "token_faults \<Rightarrow> token_db \<Rightarrow> api_token \<Rightarrow> token_db \<times> (go_error, api_token) go_result" where
  "UpdateAPIToken f db token =
     (case tf_save_token f of
        Some e \<Rightarrow> (db, Inl e)
      | None \<Rightarrow>
          (db\<lparr>td_tokens := map (\<lambda>t. if at_UniqueID t = at_UniqueID token then token else t) (td_tokens db)\<rparr>,
           Inr token))"

definition CreatePolicy ::
  "token_faults \<Rightarrow> token_db \<Rightarrow> policy_row \<Rightarrow> token_db \<times> (go_error, policy_row) go_result" where
  "CreatePolicy f db a =
     (case tf_create_policy f of
        Some e \<Rightarrow> (db, Inl e)
      | None \<Rightarrow>
          if pol_UniqueID a \<in> pol_UniqueID ` set (td_policies db)
          then (db, Inl (GoError ''duplicate key value violates unique constraint''))
          else (db\<lparr>td_policies := td_policies db @ [a]\<rparr>, Inr a))"

definition ListPoliciesByProjectID ::
  "token_faults \<Rightarrow> token_db \<Rightarrow> uint \<Rightarrow> (go_error, policy_row list) go_result" where
  "ListPoliciesByProjectID f db projectID =
     (case tf_list_policies f of
        Some e \<Rightarrow> Inl e
      | None \<Rightarrow> Inr (filter (\<lambda>p. pol_ProjectID p = projectID) (td_policies db)))"

section \<open>API token handlers (\<open>handlers/api_token\<close>)\<close>

record api_token_meta =
  tm_ID :: string
  tm_ExpiresAt :: int
  tm_PolicyName :: string
  tm_PolicyUID :: string
  tm_Name :: string

record api_token_result =
  tr_Meta :: api_token_meta
  tr_Policy :: policy
  tr_Token :: string

text \<open>A nil expiry is dereferenced: \<open>None\<close> is the panic.\<close>

definition ToAPITokenMetaType :: "api_token \<Rightarrow> api_token_meta option" where
  "ToAPITokenMetaType p =
     map_option (\<lambda>expiry. \<lparr>tm_ID = at_UniqueID p, tm_ExpiresAt = expiry, tm_PolicyName = at_PolicyName p,
       tm_PolicyUID = at_PolicyUID p, tm_Name = at_Name p\<rparr>) (at_Expiry p)"

definition ToAPITokenType :: "api_token \<Rightarrow> policy \<Rightarrow> string \<Rightarrow> api_token_result option" where
  "ToAPITokenType p pol token =
     map_option (\<lambda>m. \<lparr>tr_Meta = m, tr_Policy = pol, tr_Token = token\<rparr>) (ToAPITokenMetaType p)"

definition write_result :: "token_db \<Rightarrow> 'a option \<Rightarrow> 'a token_handled" where
  "write_result db res = (case res of None \<Rightarrow> (db, [], True) | Some r \<Rightarrow> (db, [WroteResult r], False))"

definition internal_error :: "token_db \<Rightarrow> string \<Rightarrow> 'a token_handled" where
  "internal_error db e = (db, [WroteError (ErrInternal e)], False)"

definition tokens_disabled :: request_error where
  "tokens_disabled = ErrForbidden ''api token endpoints are not enabled for this project''"

text \<open>The decoded body: the policy, the expiry (\<open>None\<close> when it is the zero time) and the name.\<close>

record create_api_token =
  ca_PolicyUID :: string
  ca_ExpiresAt :: "int option"
  ca_Name :: string

definition APITokenCreateHandler ::
  "token_faults \<Rightarrow> token_world \<Rightarrow> server_env \<Rightarrow> token_db \<Rightarrow> request_ctx \<Rightarrow>
     (request_error, create_api_token) go_result \<Rightarrow> api_token_result token_handled" where
  "APITokenCreateHandler f w env db ctx decoded =
     (case ctx_project ctx of
        None \<Rightarrow> (db, [], True)
      | Some proj \<Rightarrow>
          if \<not> pr_APITokensEnabled proj then (db, [WroteError tokens_disabled], False)
          else case decoded of
            Inl e \<Rightarrow> (db, [WroteError e], False)
          | Inr req \<Rightarrow>
              (let expiresAt = (case ca_ExpiresAt req of None \<Rightarrow> ev_now env + 365 * 24 * 3600 | Some t \<Rightarrow> t)
               in case GetAPIPolicyFromUID (with_tables f env db) (pr_ID proj) (ca_PolicyUID req) of
                    Inl e \<Rightarrow> (db, [WroteError e], False)
                  | Inr apiPolicy \<Rightarrow>
                      (case tw_random w (td_draws db) of
                         Inl e \<Rightarrow> internal_error db (go_error_text e)
                       | Inr uid \<Rightarrow>
                           (case tw_random w (td_draws db + 1) of
                              Inl e \<Rightarrow> internal_error db (go_error_text e)
                            | Inr secretKey \<Rightarrow>
                                (let db = db\<lparr>td_draws := td_draws db + 2\<rparr>
                                 in case tw_hash w secretKey of
                                      Inl e \<Rightarrow> internal_error db (go_error_text e)
                                    | Inr hashedToken \<Rightarrow>
                                        (case ctx_user ctx of
                                           None \<Rightarrow> (db, [], True)
                                         | Some user \<Rightarrow>
                                             (case CreateAPIToken f db
                                                     \<lparr>at_UniqueID = uid, at_ProjectID = pr_ID proj,
                                                      at_CreatedByUserID = us_ID user, at_Expiry = Some expiresAt,
                                                      at_Revoked = False, at_PolicyUID = ap_UID apiPolicy,
                                                      at_PolicyName = ap_Name apiPolicy, at_Name = ca_Name req,
                                                      at_SecretKey = hashedToken\<rparr> of
                                                (db, Inl e) \<Rightarrow> internal_error db (go_error_text e)
                                              | (db, Inr apiToken) \<Rightarrow>
                                                  (case GetStoredTokenForAPI (ev_now env) (us_ID user) (pr_ID proj)
                                                          (at_UniqueID apiToken) secretKey of
                                                     Inl e \<Rightarrow> internal_error db e
                                                   | Inr jwt \<Rightarrow>
                                                       (case EncodeToken (tw_sign w) (ev_token_secret env) jwt of
                                                          Inl e \<Rightarrow> internal_error db e
                                                        | Inr encoded \<Rightarrow>
                                                            write_result db
                                                              (ToAPITokenType apiToken (ap_Policy apiPolicy) encoded))))))))))"

text \<open>Reading the token named in the URL, as getting and revoking do.\<close>

definition URLParamTokenID :: string where
  "URLParamTokenID = ''api_token_id''"

definition find_token ::
  "token_faults \<Rightarrow> server_env \<Rightarrow> token_db \<Rightarrow> request \<Rightarrow> (request_error, api_token) go_result option" where
  "find_token f env db r =
     (case ctx_project (rq_ctx r) of
        None \<Rightarrow> None
      | Some proj \<Rightarrow>
          if \<not> pr_APITokensEnabled proj then Some (Inl tokens_disabled)
          else case GetURLParamString r URLParamTokenID of
            Inl e \<Rightarrow> Some (Inl e)
          | Inr tokenID \<Rightarrow>
              (case ReadAPIToken (ev_repo (with_tables f env db)) (pr_ID proj) tokenID of
                 Inl e \<Rightarrow>
                   if e = ErrRecordNotFound
                   then Some (Inl (ErrPassThroughToClient (''token with id '' @ tokenID @ '' not found in project'') 404 []))
                   else Some (Inl (ErrInternal (go_error_text e)))
               | Inr token \<Rightarrow> Some (Inr token)))"

definition APITokenGetHandler ::
  "token_faults \<Rightarrow> server_env \<Rightarrow> token_db \<Rightarrow> request \<Rightarrow> api_token_result token_handled" where
  "APITokenGetHandler f env db r =
     (case find_token f env db r of
        None \<Rightarrow> (db, [], True)
      | Some (Inl e) \<Rightarrow> (db, [WroteError e], False)
      | Some (Inr token) \<Rightarrow>
          (case ctx_project (rq_ctx r) of
             None \<Rightarrow> (db, [], True)
           | Some proj \<Rightarrow>
               (case GetAPIPolicyFromUID (with_tables f env db) (pr_ID proj) (at_PolicyUID token) of
                  Inl e \<Rightarrow> (db, [WroteError e], False)
                | Inr apiPolicy \<Rightarrow> write_result db (ToAPITokenType token (ap_Policy apiPolicy) []))))"

definition APITokenRevokeHandler ::
  "token_faults \<Rightarrow> server_env \<Rightarrow> token_db \<Rightarrow> request \<Rightarrow> api_token_meta token_handled" where
  "APITokenRevokeHandler f env db r =
     (case find_token f env db r of
        None \<Rightarrow> (db, [], True)
      | Some (Inl e) \<Rightarrow> (db, [WroteError e], False)
      | Some (Inr token) \<Rightarrow>
          (case UpdateAPIToken f db (token\<lparr>at_Revoked := True\<rparr>) of
             (db, Inl e) \<Rightarrow> internal_error db (go_error_text e)
           | (db, Inr token) \<Rightarrow> write_result db (ToAPITokenMetaType token)))"

definition APITokenListHandler ::
  "token_faults \<Rightarrow> token_db \<Rightarrow> request_ctx \<Rightarrow> api_token_meta list token_handled" where
  "APITokenListHandler f db ctx =
     (case ctx_project ctx of
        None \<Rightarrow> (db, [], True)
      | Some proj \<Rightarrow>
          if \<not> pr_APITokensEnabled proj then (db, [WroteError tokens_disabled], False)
          else case ListAPITokensByProjectID f db (pr_ID proj) of
            Inl e \<Rightarrow> internal_error db (go_error_text e)
          | Inr tokens \<Rightarrow> write_result db (those (map ToAPITokenMetaType tokens)))"

section \<open>Policy handlers (\<open>handlers/policy\<close>)\<close>

text \<open>
  \<open>strings.ToLower\<close> as far as a comparison with the preset names tells: ASCII letters, and U+0130,
  the one other rune whose lower case is one of their letters.
\<close>

fun ToLower :: "string \<Rightarrow> string" where
  "ToLower [] = []"
| "ToLower (c # cs) =
     (if c = CHR 0xC4 \<and> cs \<noteq> [] \<and> hd cs = CHR 0xB0 then CHR ''i'' # ToLower (tl cs)
      else if (of_char c :: nat) \<in> {65..90} then char_of ((of_char c :: nat) + 32) # ToLower cs
      else c # ToLower cs)"

definition preset_names :: "string list" where
  "preset_names = [''admin'', ''developer'', ''viewer'']"

definition PolicyCreateHandler ::
  "token_faults \<Rightarrow> token_world \<Rightarrow> server_env \<Rightarrow> token_db \<Rightarrow> request_ctx \<Rightarrow>
     (request_error, string \<times> policy) go_result \<Rightarrow> api_policy token_handled" where
  "PolicyCreateHandler f w env db ctx decoded =
     (case decoded of
        Inl e \<Rightarrow> (db, [WroteError e], False)
      | Inr (name, pol) \<Rightarrow>
          if ToLower name \<in> set preset_names
          then (db, [WroteError (ErrPassThroughToClient ''name cannot be one of the preset policy names'' 400 [])], False)
          else case tw_random w (td_draws db) of
            Inl e \<Rightarrow> internal_error db (go_error_text e)
          | Inr uid \<Rightarrow>
              (let db = db\<lparr>td_draws := td_draws db + 1\<rparr>
               in case tw_marshal w pol of
                    Inl e \<Rightarrow> internal_error db (go_error_text e)
                  | Inr policyBytes \<Rightarrow>
                      (case (ctx_project ctx, ctx_user ctx) of
                         (Some proj, Some user) \<Rightarrow>
                           (case CreatePolicy f db
                                   \<lparr>pol_UniqueID = uid, pol_ProjectID = pr_ID proj, pol_CreatedByUserID = us_ID user,
                                    pol_Name = name, pol_PolicyBytes = policyBytes\<rparr> of
                              (db, Inl e) \<Rightarrow> internal_error db (go_error_text e)
                            | (db, Inr policy) \<Rightarrow>
                                (case ToAPIPolicyType env policy of
                                   Inl e \<Rightarrow> internal_error db (go_error_text e)
                                 | Inr res \<Rightarrow> (db, [WroteResult res], False)))
                       | _ \<Rightarrow> (db, [], True))))"

definition URLParamPolicyID :: string where
  "URLParamPolicyID = ''policy_id''"

definition PolicyGetHandler ::
  "token_faults \<Rightarrow> server_env \<Rightarrow> token_db \<Rightarrow> request \<Rightarrow> api_policy token_handled" where
  "PolicyGetHandler f env db r =
     (case GetURLParamString r URLParamPolicyID of
        Inl e \<Rightarrow> (db, [WroteError e], False)
      | Inr policyID \<Rightarrow>
          (case ctx_project (rq_ctx r) of
             None \<Rightarrow> (db, [], True)
           | Some proj \<Rightarrow>
               (case ReadPolicy (ev_repo (with_tables f env db)) (pr_ID proj) policyID of
                  Inl e \<Rightarrow>
                    if e = ErrRecordNotFound
                    then (db, [WroteError (ErrPassThroughToClient (''policy with id '' @ policyID @ '' not found in project'') 404 [])], False)
                    else internal_error db (go_error_text e)
                | Inr policy \<Rightarrow>
                    (case ToAPIPolicyType env policy of
                       Inl e \<Rightarrow> internal_error db (go_error_text e)
                     | Inr res \<Rightarrow> (db, [WroteResult res], False)))))"

definition PolicyListHandler ::
  "token_faults \<Rightarrow> token_db \<Rightarrow> request_ctx \<Rightarrow> (string \<times> string) list token_handled" where
  "PolicyListHandler f db ctx =
     (case ctx_project ctx of
        None \<Rightarrow> (db, [], True)
      | Some proj \<Rightarrow>
          (case ListPoliciesByProjectID f db (pr_ID proj) of
             Inl e \<Rightarrow> internal_error db (go_error_text e)
           | Inr policies \<Rightarrow> (db, [WroteResult (map (\<lambda>p. (pol_UniqueID p, pol_Name p)) policies)], False)))"

section \<open>From the handler to the middleware\<close>

lemma with_tables_simps [simp]:
  "ev_now (with_tables f env db) = ev_now env" "ev_jwt_parse (with_tables f env db) = ev_jwt_parse env"
  "ev_token_secret (with_tables f env db) = ev_token_secret env"
  "ev_json_policy (with_tables f env db) = ev_json_policy env"
  by (simp_all add: with_tables_def)

lemma ReadAPIToken_tables:
  "ReadAPIToken (ev_repo (with_tables f env db)) p uid =
     faulty_first (tf_read_token f) (td_tokens db) (\<lambda>t. at_ProjectID t = p \<and> at_UniqueID t = uid)"
  by (simp add: ReadAPIToken_def with_tables_def)

lemma ReadPolicy_tables:
  "ReadPolicy (ev_repo (with_tables f env db)) p uid =
     faulty_first (tf_read_policy f) (td_policies db) (\<lambda>q. pol_ProjectID q = p \<and> pol_UniqueID q = uid)"
  by (simp add: ReadPolicy_def with_tables_def)

text \<open>A policy that was found for a request is found again under its own unique id.\<close>

lemma GetAPIPolicy_again:
  assumes "GetAPIPolicyFromUID (with_tables f env db) p uid = Inr pol"
    and "td_policies db' = td_policies db" and "ev_json_policy env' = ev_json_policy env"
  shows "GetAPIPolicyFromUID (with_tables no_token_faults env' db') p (ap_UID pol) = Inr pol"
proof -
  have "ap_UID pol = uid"
    using assms(1)
    by (auto simp: GetAPIPolicyFromUID_def ReadPolicy_tables faulty_first_def table_first_def ToAPIPolicyType_def
        find_Some_iff split: if_splits sum.splits option.splits)
  then show ?thesis
    using assms
    by (auto simp: GetAPIPolicyFromUID_def ReadPolicy_tables faulty_first_def table_first_def ToAPIPolicyType_def
        no_token_faults_def split: if_splits sum.splits option.splits)
qed

text \<open>What a creation that answers with a token has done.\<close>

lemma APITokenCreate_result:
  assumes "APITokenCreateHandler f w env db ctx decoded = (db', [WroteResult res], False)"
    and "ctx_project ctx = Some proj" "ctx_user ctx = Some user"
  obtains req :: create_api_token and pol :: api_policy and uid secret hashed and t :: api_token where
    "GetAPIPolicyFromUID (with_tables f env db) (pr_ID proj) (ca_PolicyUID req) = Inr pol"
    "tw_random w (td_draws db) = Inr uid" "tw_random w (td_draws db + 1) = Inr secret"
    "t = \<lparr>at_UniqueID = uid, at_ProjectID = pr_ID proj, at_CreatedByUserID = us_ID user,
       at_Expiry = Some (tm_ExpiresAt (tr_Meta res)), at_Revoked = False, at_PolicyUID = ap_UID pol,
       at_PolicyName = ap_Name pol, at_Name = ca_Name req, at_SecretKey = hashed\<rparr>"
    "uid \<notin> at_UniqueID ` set (td_tokens db)" "td_tokens db' = td_tokens db @ [t]" "td_policies db' = td_policies db"
    "us_ID user \<noteq> 0" "pr_ID proj \<noteq> 0" "tr_Policy res = ap_Policy pol"
    "tw_sign w (claims_of \<lparr>to_SubKind = APISubject, to_Sub = ''api'', to_ProjectID = pr_ID proj,
       to_IBy = us_ID user, to_IAt = ev_now env, to_TokenID = uid, to_Secret = secret\<rparr>) (ev_token_secret env) =
       Inr (tr_Token res)"
proof -
  have en: "pr_APITokensEnabled proj" by (rule ccontr) (use assms in \<open>simp add: APITokenCreateHandler_def\<close>)
  obtain req where dec: "decoded = Inr req"
    using assms en by (auto simp: APITokenCreateHandler_def split: sum.splits)
  note run = assms(1) [unfolded APITokenCreateHandler_def dec assms(2,3) option.case sum.case Let_def]
  obtain pol where pol: "GetAPIPolicyFromUID (with_tables f env db) (pr_ID proj) (ca_PolicyUID req) = Inr pol"
    using run en by (auto split: sum.splits)
  obtain uid where uid: "tw_random w (td_draws db) = Inr uid"
    using run en pol by (auto simp: internal_error_def split: sum.splits)
  obtain secret where secret: "tw_random w (td_draws db + 1) = Inr secret"
    using run en pol uid by (auto simp: internal_error_def split: sum.splits)
  obtain hashed where hashed: "tw_hash w secret = Inr hashed"
    using run en pol uid secret by (auto simp: internal_error_def split: sum.splits)
  have room: "tf_create_token f = None" "uid \<notin> at_UniqueID ` set (td_tokens db)"
    using run en pol uid secret hashed by (auto simp: internal_error_def CreateAPIToken_def split: option.splits if_splits)
  have ids: "us_ID user \<noteq> 0" "pr_ID proj \<noteq> 0"
    using run en pol uid secret hashed room
    by (auto simp: internal_error_def CreateAPIToken_def GetStoredTokenForAPI_def)
  define expiresAt where "expiresAt = (case ca_ExpiresAt req of None \<Rightarrow> ev_now env + 365 * 24 * 3600 | Some t \<Rightarrow> t)"
  show ?thesis
    by (rule that [of req pol uid secret _ hashed, OF pol uid secret refl])
      (use run en pol uid secret hashed room ids in \<open>auto simp: internal_error_def CreateAPIToken_def
        GetStoredTokenForAPI_def EncodeToken_def subject_string_def write_result_def ToAPITokenType_def
        ToAPITokenMetaType_def expiresAt_def [symmetric] split: sum.splits\<close>)
qed

lemma find_append_fresh: "\<forall>x\<in>set xs. \<not> P x \<Longrightarrow> find P (xs @ [a]) = (if P a then Some a else None)"
  by (induction xs) auto

text \<open>A header that holds a bearer token and nothing else.\<close>

definition bearer_header :: "string \<Rightarrow> string \<Rightarrow> bool" where
  "bearer_header jwt h \<longleftrightarrow>
     (\<exists>s. Split h ''Bearer'' = [[], s] \<and> TrimSpace s = jwt)"

text \<open>
  C16. A token that was handed out works. After a creation that answers with a token, in a project
  and by a user with ids below one million, a request with that token as its bearer passes
  authentication until the token expires, as the service account of the token; and the policy
  loader then gives, in that project, exactly the policy that the answer showed.
\<close>

theorem created_token_authenticates:
  assumes "APITokenCreateHandler f w env db ctx decoded = (db', [WroteResult res], False)"
    and "ctx_project ctx = Some proj" "ctx_user ctx = Some user"
    and "us_ID user < 10 ^ 6" "pr_ID proj < 10 ^ 6" "- (2 ^ 63) \<le> ev_now env" "ev_now env < 2 ^ 63"
    and "\<And>cs jwt. tw_sign w cs (ev_token_secret env) = Inr jwt \<Longrightarrow> ev_jwt_parse env jwt (ev_token_secret env) = Inr cs"
    and "\<And>i s. tw_random w i = Inr s \<Longrightarrow> s \<noteq> []"
    and "env' = with_tables no_token_faults (env\<lparr>ev_now := now\<rparr>) db'"
    and "bearer_header (tr_Token res) (rq_Authorization r)" and "now \<le> tm_ExpiresAt (tr_Meta res)"
  shows "\<exists>t. fst (AuthN redirect env' r) = Next (with_token r t) \<and> at_ProjectID t = pr_ID proj \<and>
    LoadPolicyDocuments env' \<lparr>plo_ProjectID = pr_ID proj, plo_UserID = 0, plo_ProjectToken = Some t\<rparr> =
      Inr (tr_Policy res)"
proof (rule APITokenCreate_result [OF assms(1-3)], rule exI)
  fix req pol uid secret hashed t
  assume pol: "GetAPIPolicyFromUID (with_tables f env db) (pr_ID proj) (ca_PolicyUID req) = Inr pol"
    and rand: "tw_random w (td_draws db) = Inr uid" "tw_random w (td_draws db + 1) = Inr secret"
    and t: "t = \<lparr>at_UniqueID = uid, at_ProjectID = pr_ID proj, at_CreatedByUserID = us_ID user,
       at_Expiry = Some (tm_ExpiresAt (tr_Meta res)), at_Revoked = False, at_PolicyUID = ap_UID pol,
       at_PolicyName = ap_Name pol, at_Name = ca_Name req, at_SecretKey = hashed\<rparr>"
    and fresh: "uid \<notin> at_UniqueID ` set (td_tokens db)" and tables: "td_tokens db' = td_tokens db @ [t]" "td_policies db' = td_policies db"
    and ids: "us_ID user \<noteq> 0" "pr_ID proj \<noteq> 0" and docs: "tr_Policy res = ap_Policy pol"
    and sign: "tw_sign w (claims_of \<lparr>to_SubKind = APISubject, to_Sub = ''api'', to_ProjectID = pr_ID proj,
       to_IBy = us_ID user, to_IAt = ev_now env, to_TokenID = uid, to_Secret = secret\<rparr>) (ev_token_secret env) =
       Inr (tr_Token res)"
  let ?tok = "\<lparr>to_SubKind = APISubject, to_Sub = ''api'', to_ProjectID = pr_ID proj,
       to_IBy = us_ID user, to_IAt = ev_now env, to_TokenID = uid, to_Secret = secret\<rparr>"
  have "GetTokenFromEncoded (ev_jwt_parse env) (ev_token_secret env) (tr_Token res) = Inr ?tok"
    by (rule GetTokenFromEncoded_claims [of "ev_jwt_parse env" "tr_Token res" "ev_token_secret env" ?tok, OF assms(8) [OF sign]]) (use assms(4-7) in simp_all)
  then have bearer: "getTokenFromRequest env' r = Inr ?tok"
    using assms(11) by (auto simp: assms(10) getTokenFromRequest_def bearer_header_def Let_def)
  have "\<forall>x\<in>set (td_tokens db). \<not> (at_ProjectID x = pr_ID proj \<and> at_UniqueID x = uid)" using fresh by auto
  from find_append_fresh [OF this, of t] have "ReadAPIToken (ev_repo env') (pr_ID proj) uid = Inr t"
    by (simp add: assms(10) ReadAPIToken_tables faulty_first_def table_first_def tables no_token_faults_def t)
  moreover have "uid \<noteq> []" "secret \<noteq> []" using rand assms(9) by blast+
  ultimately have "live_token env' ?tok t" using assms(12) by (simp add: live_token_def t assms(10))
  then have "fst (AuthN redirect env' r) = Next (with_token r t)"
    using bearer by (auto simp: AuthN_Next)
  moreover have "GetAPIPolicyFromUID env' (pr_ID proj) (ap_UID pol) = Inr pol"
    unfolding assms(10) by (rule GetAPIPolicy_again [OF pol tables(2)]) simp
  ultimately show "fst (AuthN redirect env' r) = Next (with_token r t) \<and> at_ProjectID t = pr_ID proj \<and>
    LoadPolicyDocuments env' \<lparr>plo_ProjectID = pr_ID proj, plo_UserID = 0, plo_ProjectToken = Some t\<rparr> =
      Inr (tr_Policy res)"
    using ids docs by (simp add: LoadPolicyDocuments_def t)
qed

section \<open>Revocation\<close>

text \<open>What may happen to the tables: any handler that changes them, under any circumstances.\<close>

inductive token_step :: "token_db \<Rightarrow> token_db \<Rightarrow> bool" where
  create: "APITokenCreateHandler f w env db ctx decoded = (db', out, panicked) \<Longrightarrow> token_step db db'"
| revoke: "APITokenRevokeHandler f env db r = (db', out, panicked) \<Longrightarrow> token_step db db'"
| policy: "PolicyCreateHandler f w env db ctx body = (db', out, panicked) \<Longrightarrow> token_step db db'"

definition unique_tokens :: "token_db \<Rightarrow> bool" where
  "unique_tokens db \<longleftrightarrow> distinct (map at_UniqueID (td_tokens db))"

definition revoked :: "token_db \<Rightarrow> uint \<Rightarrow> string \<Rightarrow> bool" where
  "revoked db p uid \<longleftrightarrow>
     (\<exists>t\<in>set (td_tokens db). at_ProjectID t = p \<and> at_UniqueID t = uid \<and> at_Revoked t)"

lemma write_result_db [simp]: "fst (write_result db res) = db"
  by (simp add: write_result_def split: option.split)

lemma internal_error_db [simp]: "fst (internal_error db e) = db"
  by (simp add: internal_error_def)

text \<open>The three ways in which the tokens change.\<close>

lemma create_tokens:
  assumes "APITokenCreateHandler f w env db ctx decoded = (db', out, panicked)"
  shows "td_tokens db' = td_tokens db \<or>
    (\<exists>a. td_tokens db' = td_tokens db @ [a] \<and> at_UniqueID a \<notin> at_UniqueID ` set (td_tokens db))"
proof -
  have "td_tokens (fst (APITokenCreateHandler f w env db ctx decoded)) = td_tokens db \<or>
    (\<exists>a. td_tokens (fst (APITokenCreateHandler f w env db ctx decoded)) = td_tokens db @ [a] \<and>
      at_UniqueID a \<notin> at_UniqueID ` set (td_tokens db))"
    by (simp add: APITokenCreateHandler_def CreateAPIToken_def Let_def split: sum.split option.split)
  then show ?thesis using assms by simp
qed

lemma revoke_tokens:
  assumes "APITokenRevokeHandler f env db r = (db', out, panicked)"
  shows "td_tokens db' = td_tokens db \<or>
    (\<exists>t\<in>set (td_tokens db). td_tokens db' =
      map (\<lambda>x. if at_UniqueID x = at_UniqueID t then t\<lparr>at_Revoked := True\<rparr> else x) (td_tokens db))"
proof -
  have "t \<in> set (td_tokens db)" if "find_token f env db r = Some (Inr t)" for t
    using that
    by (auto simp: find_token_def ReadAPIToken_tables faulty_first_def table_first_def find_Some_iff
        split: option.splits if_splits sum.splits)
  then have "td_tokens (fst (APITokenRevokeHandler f env db r)) = td_tokens db \<or>
    (\<exists>t\<in>set (td_tokens db). td_tokens (fst (APITokenRevokeHandler f env db r)) =
      map (\<lambda>x. if at_UniqueID x = at_UniqueID t then t\<lparr>at_Revoked := True\<rparr> else x) (td_tokens db))"
    by (auto simp: APITokenRevokeHandler_def UpdateAPIToken_def split: option.split sum.split)
  then show ?thesis using assms by simp
qed

lemma policy_tokens:
  assumes "PolicyCreateHandler f w env db ctx body = (db', out, panicked)"
  shows "td_tokens db' = td_tokens db"
proof -
  have "td_tokens (fst (PolicyCreateHandler f w env db ctx body)) = td_tokens db"
    by (simp add: PolicyCreateHandler_def CreatePolicy_def Let_def split: sum.split option.split prod.split)
  then show ?thesis using assms by simp
qed

text \<open>Unique ids stay unique, and a revoked token stays revoked.\<close>

lemma revoke_map:
  assumes "distinct (map at_UniqueID ts)" and "t \<in> set ts"
  shows "map at_UniqueID (map (\<lambda>x. if at_UniqueID x = at_UniqueID t then t\<lparr>at_Revoked := True\<rparr> else x) ts) =
      map at_UniqueID ts"
    and "x \<in> set ts \<Longrightarrow> at_Revoked x \<Longrightarrow>
      x \<in> set (map (\<lambda>x. if at_UniqueID x = at_UniqueID t then t\<lparr>at_Revoked := True\<rparr> else x) ts)"
proof -
  show "map at_UniqueID (map (\<lambda>x. if at_UniqueID x = at_UniqueID t then t\<lparr>at_Revoked := True\<rparr> else x) ts) =
      map at_UniqueID ts" by simp
  assume x: "x \<in> set ts" "at_Revoked x"
  let ?f = "\<lambda>x. if at_UniqueID x = at_UniqueID t then t\<lparr>at_Revoked := True\<rparr> else x"
  have "?f x = x"
  proof (cases "at_UniqueID x = at_UniqueID t")
    case True
    then have "x = t" using assms x(1) unfolding distinct_map by (blast dest: inj_onD)
    then show ?thesis using x(2) by (cases t) simp
  qed simp
  then have "x \<in> ?f ` set ts" using image_eqI [of x ?f x "set ts"] x(1) by simp
  then show "x \<in> set (map ?f ts)" by (simp only: list.set_map)
qed

lemma token_step_keeps:
  assumes "token_step db db'" and "unique_tokens db"
  shows "unique_tokens db' \<and> (revoked db p uid \<longrightarrow> revoked db' p uid)"
  using assms
proof cases
  case create
  then show ?thesis using create_tokens [OF create(1)] assms(2)
    by (auto simp: unique_tokens_def revoked_def)
next
  case revoke
  from revoke_tokens [OF revoke] show ?thesis
  proof
    assume "\<exists>t\<in>set (td_tokens db). td_tokens db' =
      map (\<lambda>x. if at_UniqueID x = at_UniqueID t then t\<lparr>at_Revoked := True\<rparr> else x) (td_tokens db)"
    then obtain t where t: "t \<in> set (td_tokens db)"
      and db': "td_tokens db' = map (\<lambda>x. if at_UniqueID x = at_UniqueID t then t\<lparr>at_Revoked := True\<rparr> else x) (td_tokens db)"
      by blast
    note keep = revoke_map [OF assms(2) [unfolded unique_tokens_def] t]
    have "unique_tokens db'" using keep(1) assms(2) unfolding unique_tokens_def db' by (simp only:)
    moreover have "revoked db' p uid" if "revoked db p uid"
      using that keep(2) unfolding revoked_def db' by blast
    ultimately show ?thesis by blast
  qed (use assms(2) in \<open>simp add: unique_tokens_def revoked_def\<close>)
next
  case policy
  then show ?thesis using policy_tokens [OF policy(1)] assms(2) by (simp add: unique_tokens_def revoked_def)
qed

lemma token_steps_keep:
  assumes "token_step\<^sup>*\<^sup>* db db'" and "unique_tokens db" "revoked db p uid"
  shows "unique_tokens db' \<and> revoked db' p uid"
  using assms by (induction rule: rtranclp_induct) (blast dest: token_step_keeps)+

lemma revoked_now:
  assumes "APITokenRevokeHandler f env db r = (db1, [WroteResult m], False)"
    and "ctx_project (rq_ctx r) = Some proj" "GetURLParamString r URLParamTokenID = Inr uid"
    and "unique_tokens db"
  shows "unique_tokens db1 \<and> revoked db1 (pr_ID proj) uid"
proof -
  obtain t where find: "find_token f env db r = Some (Inr t)"
    using assms(1) by (auto simp: APITokenRevokeHandler_def split: option.splits sum.splits)
  then have t: "t \<in> set (td_tokens db)" "at_ProjectID t = pr_ID proj" "at_UniqueID t = uid"
    using assms(2,3)
    by (auto simp: find_token_def ReadAPIToken_tables faulty_first_def table_first_def find_Some_iff
        split: option.splits if_splits sum.splits)
  have "td_tokens db1 = map (\<lambda>x. if at_UniqueID x = at_UniqueID t then t\<lparr>at_Revoked := True\<rparr> else x) (td_tokens db)"
    using assms(1) find
    by (auto simp: APITokenRevokeHandler_def UpdateAPIToken_def internal_error_def write_result_def split: option.splits)
  moreover from this have "t\<lparr>at_Revoked := True\<rparr> \<in> set (td_tokens db1)" using t(1) by force
  moreover have "unique_tokens db1"
    using token_step_keeps [OF token_step.revoke [OF assms(1)] assms(4)] by blast
  moreover have "at_ProjectID (t\<lparr>at_Revoked := True\<rparr>) = pr_ID proj" "at_UniqueID (t\<lparr>at_Revoked := True\<rparr>) = uid"
    "at_Revoked (t\<lparr>at_Revoked := True\<rparr>)" using t(2,3) by simp_all
  ultimately show ?thesis unfolding revoked_def by blast
qed

text \<open>
  C15. Revocation is final. Once the revocation of a token has answered, no request with that token
  passes authentication any more, whatever handlers run after it, whatever of the database fails and
  whenever it comes: it gets 403.
\<close>

theorem revoked_token_rejected:
  assumes "unique_tokens db" and "APITokenRevokeHandler f env db r = (db1, [WroteResult m], False)"
    and "ctx_project (rq_ctx r) = Some proj" "GetURLParamString r URLParamTokenID = Inr uid"
    and "token_step\<^sup>*\<^sup>* db1 db2"
    and "getTokenFromRequest (with_tables f' env' db2) r' = Inr tok"
    and "to_ProjectID tok = pr_ID proj" "to_TokenID tok = uid" "to_Secret tok \<noteq> []"
  shows "AuthN redirect (with_tables f' env' db2) r' =
    (api_error (ErrForbidden (''token with id '' @ uid @ '' not valid'')), [])"
proof -
  have "unique_tokens db2" and gone: "revoked db2 (pr_ID proj) uid"
    using token_steps_keep [OF assms(5)] revoked_now [OF assms(2-4,1)] by blast+
  then have live: "at_Revoked t" if "ReadAPIToken (ev_repo (with_tables f' env' db2)) (pr_ID proj) uid = Inr t" for t
  proof -
    have "t \<in> set (td_tokens db2)" "at_UniqueID t = uid"
      using that by (auto simp: ReadAPIToken_tables faulty_first_def table_first_def find_Some_iff split: option.splits)
    then show ?thesis using gone \<open>unique_tokens db2\<close> unfolding revoked_def unique_tokens_def distinct_map
      by (metis inj_onD)
  qed
  have "uid \<noteq> []" using assms(4) by (auto simp: GetURLParamString_def Let_def split: if_splits)
  then have "verifyTokenWithNext (with_tables f' env' db2) r' tok =
      sendForbiddenError (''token with id '' @ uid @ '' not valid'')"
    using assms(7-9) live by (auto simp: verifyTokenWithNext_def split: sum.split)
  then show ?thesis using assms(6) by (simp add: AuthN_def sendForbiddenError_def)
qed

section \<open>Tokens that make tokens\<close>

text \<open>
  A request that was authenticated by an API token never gets a new one: its service account has
  the user id 0, for which no token can be issued. But the check comes after the token is stored:
  the request fails with an internal error and leaves a row that is not revoked and whose secret
  nobody has.
\<close>

theorem service_accounts_mint_nothing:
  assumes "ctx_user ctx = Some (service_account t)"
    and "APITokenCreateHandler f w env db ctx decoded = (db', out, panicked)"
  shows "(\<forall>res. WroteResult res \<notin> set out) \<and>
    (td_tokens db' = td_tokens db \<or>
     (\<exists>a. td_tokens db' = td_tokens db @ [a] \<and> \<not> at_Revoked a \<and>
        out = [WroteError (ErrInternal ''id cannot be 0'')]))"
proof -
  have "us_ID (service_account t) = 0" by (simp add: service_account_def)
  then have "(\<forall>res. WroteResult res \<notin> set (fst (snd (APITokenCreateHandler f w env db ctx decoded)))) \<and>
    (td_tokens (fst (APITokenCreateHandler f w env db ctx decoded)) = td_tokens db \<or>
     (\<exists>a. td_tokens (fst (APITokenCreateHandler f w env db ctx decoded)) = td_tokens db @ [a] \<and> \<not> at_Revoked a \<and>
        fst (snd (APITokenCreateHandler f w env db ctx decoded)) = [WroteError (ErrInternal ''id cannot be 0'')]))"
    using assms(1)
    by (simp add: APITokenCreateHandler_def CreateAPIToken_def GetStoredTokenForAPI_def internal_error_def Let_def
        split: sum.split option.split)
  then show ?thesis using assms(2) by simp
qed

section \<open>Witnesses\<close>

definition sample_jwt_token :: token where
  "sample_jwt_token = \<lparr>to_SubKind = APISubject, to_Sub = ''api'', to_ProjectID = 1, to_IBy = 5,
     to_IAt = 1000, to_TokenID = ''t2'', to_Secret = ''s2''\<rparr>"

definition sample_token_world :: token_world where
  "sample_token_world = \<lparr>tw_random = (\<lambda>i. Inr (if i = 0 then ''t2'' else ''s2'')), tw_hash = Inr,
     tw_sign = (\<lambda>cs k. if cs = claims_of sample_jwt_token then Inr ''jwt'' else Inl ''key''),
     tw_marshal = (\<lambda>_. Inr [])\<rparr>"

definition sample_token_env :: server_env where
  "sample_token_env = sample_env\<lparr>ev_jwt_parse :=
     (\<lambda>s k. if s = ''jwt'' then Inr (claims_of sample_jwt_token) else Inl ''bad token'')\<rparr>"

definition sample_token_db :: token_db where
  "sample_token_db = \<lparr>td_tokens = [sample_api_token], td_policies = [], td_draws = 0\<rparr>"

definition sample_member_ctx :: request_ctx where
  "sample_member_ctx = empty_ctx\<lparr>ctx_project := Some (sample_project 1), ctx_user := Some sample_user\<rparr>"

definition sample_create :: create_api_token where
  "sample_create = \<lparr>ca_PolicyUID = ''viewer'', ca_ExpiresAt = Some 5000, ca_Name = ''ci''\<rparr>"

lemmas sample_create_eval =
  APITokenCreateHandler_def CreateAPIToken_def GetStoredTokenForAPI_def EncodeToken_def subject_string_def
  write_result_def internal_error_def ToAPITokenType_def ToAPITokenMetaType_def Let_def sample_token_db_def
  GetAPIPolicyFromUID_def no_token_faults_def sample_create_def sample_token_world_def sample_project_def
  sample_api_token_def

lemma sample_created_token:
  "\<exists>db' res. APITokenCreateHandler no_token_faults sample_token_world sample_token_env sample_token_db
      sample_member_ctx (Inr sample_create) = (db', [WroteResult res], False) \<and>
    tr_Token res = ''jwt'' \<and> tm_ExpiresAt (tr_Meta res) = 5000 \<and> tr_Policy res = ViewerPolicy"
  by (simp add: sample_create_eval sample_member_ctx_def sample_token_env_def sample_env_def sample_user_def
      sample_jwt_token_def)

lemma sample_jwt_header: "bearer_header ''jwt'' ''Bearer jwt''"
  by (simp add: bearer_header_def Split_def TrimSpace_def is_space_def)

theorem created_token_authenticates_witness:
  "\<exists>db' t. fst (AuthN False (with_tables no_token_faults (sample_token_env\<lparr>ev_now := 4000\<rparr>) db')
       (sample_request ''Bearer jwt'' [])) = Next (with_token (sample_request ''Bearer jwt'' []) t) \<and>
     LoadPolicyDocuments (with_tables no_token_faults (sample_token_env\<lparr>ev_now := 4000\<rparr>) db')
       \<lparr>plo_ProjectID = 1, plo_UserID = 0, plo_ProjectToken = Some t\<rparr> = Inr ViewerPolicy"
proof -
  obtain db' res where run: "APITokenCreateHandler no_token_faults sample_token_world sample_token_env sample_token_db
      sample_member_ctx (Inr sample_create) = (db', [WroteResult res], False)"
    and res: "tr_Token res = ''jwt''" "tm_ExpiresAt (tr_Meta res) = 5000" "tr_Policy res = ViewerPolicy"
    using sample_created_token by blast
  have ctx: "ctx_project sample_member_ctx = Some (sample_project 1)" "ctx_user sample_member_ctx = Some sample_user"
    by (simp_all add: sample_member_ctx_def)
  have sign: "ev_jwt_parse sample_token_env jwt (ev_token_secret sample_token_env) = Inr cs"
    if "tw_sign sample_token_world cs (ev_token_secret sample_token_env) = Inr jwt" for cs jwt
    using that by (auto simp: sample_token_world_def sample_token_env_def split: if_splits)
  have rand: "s \<noteq> []" if "tw_random sample_token_world i = Inr s" for i s
    using that by (auto simp: sample_token_world_def split: if_splits)
  have "\<exists>t. fst (AuthN False (with_tables no_token_faults (sample_token_env\<lparr>ev_now := 4000\<rparr>) db')
       (sample_request ''Bearer jwt'' [])) = Next (with_token (sample_request ''Bearer jwt'' []) t) \<and>
     at_ProjectID t = pr_ID (sample_project 1) \<and>
     LoadPolicyDocuments (with_tables no_token_faults (sample_token_env\<lparr>ev_now := 4000\<rparr>) db')
       \<lparr>plo_ProjectID = pr_ID (sample_project 1), plo_UserID = 0, plo_ProjectToken = Some t\<rparr> = Inr (tr_Policy res)"
    by (rule created_token_authenticates [OF run ctx _ _ _ _ sign rand refl])
      (simp_all add: sample_member_ctx_def sample_project_def sample_token_env_def sample_env_def res
        sample_request_def sample_jwt_header)
  then show ?thesis using res(3) by (auto simp: sample_project_def)
qed

definition sample_revoke_request :: request where
  "sample_revoke_request = (sample_request [] ''cookie'')\<lparr>rq_params := (\<lambda>p. ''t1''), rq_ctx := sample_member_ctx\<rparr>"

lemma getTokenFromRequest_tables [simp]:
  "getTokenFromRequest (with_tables f env db) r = getTokenFromRequest env r"
  by (simp add: getTokenFromRequest_def Let_def cong: if_cong)

theorem revoked_token_rejected_witness:
  "\<exists>db1 m. APITokenRevokeHandler no_token_faults sample_env sample_token_db sample_revoke_request =
       (db1, [WroteResult m], False) \<and>
     AuthN True (with_tables no_token_faults sample_env db1) (sample_request ''Bearer good'' []) =
       (api_error (ErrForbidden ''token with id t1 not valid''), [])"
proof -
  have param: "GetURLParamString sample_revoke_request URLParamTokenID = Inr ''t1''"
    by (simp add: GetURLParamString_def sample_revoke_request_def)
  have ctx: "ctx_project (rq_ctx sample_revoke_request) = Some (sample_project 1)"
    by (simp add: sample_revoke_request_def sample_member_ctx_def)
  have "\<exists>db1 m. APITokenRevokeHandler no_token_faults sample_env sample_token_db sample_revoke_request =
       (db1, [WroteResult m], False)"
    by (simp add: APITokenRevokeHandler_def find_token_def param ctx ReadAPIToken_tables sample_token_db_def
        sample_project_def no_token_faults_def faulty_first_def table_first_def sample_api_token_def UpdateAPIToken_def
        write_result_def ToAPITokenMetaType_def)
  then obtain db1 m where run: "APITokenRevokeHandler no_token_faults sample_env sample_token_db sample_revoke_request =
       (db1, [WroteResult m], False)" by blast
  have "unique_tokens sample_token_db" by (simp add: unique_tokens_def sample_token_db_def)
  from revoked_token_rejected [OF this run ctx param rtranclp.rtrancl_refl,
      of no_token_faults sample_env "sample_request ''Bearer good'' []" _ True]
  show ?thesis using run by (simp add: sample_bearer sample_project_def)
qed

theorem service_accounts_mint_nothing_witness:
  "\<exists>db' a. APITokenCreateHandler no_token_faults sample_token_world sample_token_env sample_token_db
      (sample_member_ctx\<lparr>ctx_user := Some (service_account sample_api_token)\<rparr>) (Inr sample_create) =
      (db', [WroteError (ErrInternal ''id cannot be 0'')], False) \<and>
    td_tokens db' = [sample_api_token, a] \<and> \<not> at_Revoked a"
proof -
  let ?ctx = "sample_member_ctx\<lparr>ctx_user := Some (service_account sample_api_token)\<rparr>"
  obtain db' out panicked where run: "APITokenCreateHandler no_token_faults sample_token_world sample_token_env
      sample_token_db ?ctx (Inr sample_create) = (db', out, panicked)" by (cases rule: prod_cases3)
  have new: "td_tokens db' \<noteq> td_tokens sample_token_db" "\<not> panicked"
    using run by (auto simp: sample_create_eval sample_member_ctx_def service_account_def)
  have "ctx_user ?ctx = Some (service_account sample_api_token)" by simp
  from service_accounts_mint_nothing [OF this run] new show ?thesis
    using run by (auto simp: sample_token_db_def)
qed

end
