(* ===== verification/Encryption.thy ===== *)
theory Encryption
  imports Repository
begin

text \<open>
  Encryption at rest: \<open>internal/encryption/encrypt.go\<close>, and the \<open>Encrypt...Data\<close> and
  \<open>Decrypt...Data\<close> functions of the repositories (\<open>internal/repository/gorm\<close>), which all do
  the same to the secret fields of a row, one field after the other. AES-GCM and the source of
  randomness are parameters.
\<close>

section \<open>The cipher (\<open>internal/encryption\<close>)\<close>

type_synonym key = string

record crypt =
  cr_seal :: "key \<Rightarrow> bytes \<Rightarrow> bytes \<Rightarrow> bytes"
  cr_open :: "key \<Rightarrow> bytes \<Rightarrow> bytes \<Rightarrow> (go_error, bytes) go_result"
  cr_random :: "nat \<Rightarrow> (go_error, bytes) go_result"

text \<open>The size of a GCM nonce. \<open>n\<close> counts the reads of the source of randomness.\<close>

definition NonceSize :: nat where
  "NonceSize = 12"

definition Encrypt :: "crypt \<Rightarrow> nat \<Rightarrow> bytes \<Rightarrow> key \<Rightarrow> (go_error, bytes) go_result" where
  "Encrypt cr n plaintext key =
     (case cr_random cr n of
        Inl e \<Rightarrow> Inl e
      | Inr nonce \<Rightarrow> Inr (nonce @ cr_seal cr key nonce plaintext))"

definition Decrypt :: "crypt \<Rightarrow> bytes \<Rightarrow> key \<Rightarrow> (go_error, bytes) go_result" where
  "Decrypt cr ciphertext key =
     (if length ciphertext < NonceSize then Inl (GoError ''malformed ciphertext'')
      else cr_open cr key (take NonceSize ciphertext) (drop NonceSize ciphertext))"

text \<open>What an authenticated cipher promises, and that the source gives as much as was asked for.\<close>

definition lawful_crypt :: "crypt \<Rightarrow> bool" where
  "lawful_crypt cr \<longleftrightarrow>
     (\<forall>k n p. cr_open cr k n (cr_seal cr k n p) = Inr p) \<and>
     (\<forall>i n. cr_random cr i = Inr n \<longrightarrow> length n = NonceSize)"

text \<open>Another key opens nothing that was sealed.\<close>

definition authentic :: "crypt \<Rightarrow> key \<Rightarrow> key \<Rightarrow> bool" where
  "authentic cr k k' \<longleftrightarrow> (\<forall>n p. \<exists>e. cr_open cr k' n (cr_seal cr k n p) = Inl e)"

definition sealed_as :: "crypt \<Rightarrow> key \<Rightarrow> bytes \<Rightarrow> bytes \<Rightarrow> bool" where
  "sealed_as cr key p c \<longleftrightarrow> (\<exists>nonce. length nonce = NonceSize \<and> c = nonce @ cr_seal cr key nonce p)"

lemma Encrypt_sealed: "lawful_crypt cr \<Longrightarrow> Encrypt cr n p key = Inr c \<Longrightarrow> sealed_as cr key p c"
  unfolding Encrypt_def lawful_crypt_def sealed_as_def by (force split: sum.splits)

lemma sealed_nonempty: "sealed_as cr key p c \<Longrightarrow> c \<noteq> []"
  by (auto simp: sealed_as_def NonceSize_def)

lemma Decrypt_sealed: "lawful_crypt cr \<Longrightarrow> sealed_as cr key p c \<Longrightarrow> Decrypt cr c key = Inr p"
  by (auto simp: Decrypt_def lawful_crypt_def sealed_as_def)

lemma Decrypt_other_key: "authentic cr k k' \<Longrightarrow> sealed_as cr k p c \<Longrightarrow> \<exists>e. Decrypt cr c k' = Inl e"
  by (auto simp: Decrypt_def authentic_def sealed_as_def)

section \<open>The secret fields of a row\<close>

text \<open>
  A field is read and written; \<open>encrypt_fields\<close> and \<open>decrypt_fields\<close> are the shape of the code
  of every row type: a field that is not empty is replaced, and the first error ends the run with
  the fields before it replaced.
\<close>

type_synonym 'row field = "('row \<Rightarrow> bytes) \<times> (bytes \<Rightarrow> 'row \<Rightarrow> 'row)"

fun encrypt_fields ::
  "crypt \<Rightarrow> key \<Rightarrow> 'row field list \<Rightarrow> nat \<Rightarrow> 'row \<Rightarrow> 'row \<times> go_error option \<times> nat" where
  "encrypt_fields cr key [] n row = (row, None, n)"
| "encrypt_fields cr key ((get, put) # fs) n row =
     (if get row \<noteq> []
      then case Encrypt cr n (get row) key of
             Inl e \<Rightarrow> (row, Some e, n + 1)
           | Inr cipherData \<Rightarrow> encrypt_fields cr key fs (n + 1) (put cipherData row)
      else encrypt_fields cr key fs n row)"

fun decrypt_fields :: "crypt \<Rightarrow> key \<Rightarrow> 'row field list \<Rightarrow> 'row \<Rightarrow> 'row \<times> go_error option" where
  "decrypt_fields cr key [] row = (row, None)"
| "decrypt_fields cr key ((get, put) # fs) row =
     (if get row \<noteq> []
      then case Decrypt cr (get row) key of
             Inl e \<Rightarrow> (row, Some e)
           | Inr plaintext \<Rightarrow> decrypt_fields cr key fs (put plaintext row)
      else decrypt_fields cr key fs row)"

definition wipe_fields :: "'row field list \<Rightarrow> 'row \<Rightarrow> 'row" where
  "wipe_fields fs row = fold (\<lambda>f. snd f []) fs row"

text \<open>The fields of a list are fields, and different ones do not overlap.\<close>

definition lawful_field :: "'row field \<Rightarrow> bool" where
  "lawful_field f \<longleftrightarrow>
     (\<forall>b r. fst f (snd f b r) = b) \<and> (\<forall>r. snd f (fst f r) r = r) \<and>
     (\<forall>b c r. snd f b (snd f c r) = snd f b r)"

definition apart :: "'row field \<Rightarrow> 'row field \<Rightarrow> bool" where
  "apart f g \<longleftrightarrow>
     (\<forall>b r. fst f (snd g b r) = fst f r) \<and> (\<forall>b r. fst g (snd f b r) = fst g r) \<and>
     (\<forall>b c r. snd f b (snd g c r) = snd g c (snd f b r))"

fun lawful_fields :: "'row field list \<Rightarrow> bool" where
  "lawful_fields [] = True"
| "lawful_fields (f # fs) = (lawful_field f \<and> list_all (apart f) fs \<and> lawful_fields fs)"

text \<open>Every secret is sealed in the stored row, and the rest of it is as it was.\<close>

definition sealed_row :: "crypt \<Rightarrow> key \<Rightarrow> 'row field list \<Rightarrow> 'row \<Rightarrow> 'row \<Rightarrow> bool" where
  "sealed_row cr key fs row stored \<longleftrightarrow>
     list_all (\<lambda>f. if fst f row = [] then fst f stored = [] else sealed_as cr key (fst f row) (fst f stored)) fs \<and>
     wipe_fields fs stored = wipe_fields fs row"

lemma apart_get: "list_all (apart f) fs \<Longrightarrow> fst f (fst (encrypt_fields cr key fs n row)) = fst f row"
  by (induction fs arbitrary: n row) (auto simp: apart_def split: sum.split)

lemma apart_get_decrypt: "list_all (apart f) fs \<Longrightarrow> fst f (fst (decrypt_fields cr key fs row)) = fst f row"
  by (induction fs arbitrary: row) (auto simp: apart_def split: sum.split)

lemma decrypt_fields_put:
  "list_all (apart f) fs \<Longrightarrow>
   decrypt_fields cr key fs (snd f b row) = map_prod (snd f b) id (decrypt_fields cr key fs row)"
proof (induction fs arbitrary: row)
  case (Cons g fs)
  obtain get put where g: "g = (get, put)" by (cases g)
  have get: "get (snd f b r) = get r" and put: "put c (snd f b r) = snd f b (put c r)" for c r
    using Cons.prems by (simp_all add: g apart_def)
  show ?case
    using Cons by (auto simp: g get put split: sum.split)
qed simp

lemma wipe_Cons: "wipe_fields (f # fs) row = wipe_fields fs (snd f [] row)"
  by (simp add: wipe_fields_def)

lemma wipe_put:
  "list_all (apart f) fs \<Longrightarrow> wipe_fields fs (snd f b row) = snd f b (wipe_fields fs row)"
proof (induction fs arbitrary: row)
  case (Cons g fs)
  then have "snd g [] (snd f b row) = snd f b (snd g [] row)" by (simp add: apart_def)
  then show ?case using Cons by (simp add: wipe_Cons)
qed (simp add: wipe_fields_def)

text \<open>What encrypting leaves in the row.\<close>

lemma encrypt_fields_sealed:
  assumes "lawful_crypt cr" and "lawful_fields fs" and "encrypt_fields cr key fs n row = (stored, None, n')"
  shows "sealed_row cr key fs row stored"
  using assms(2,3)
proof (induction fs arbitrary: n row)
  case (Cons f fs)
  obtain get put where f: "f = (get, put)" by (cases f)
  have law: "lawful_field f" and apart: "list_all (apart f) fs" and fs: "lawful_fields fs"
    using Cons.prems(1) by simp_all
  have others: "list_all (\<lambda>g. if fst g (put b r) = [] then fst g st = [] else sealed_as cr key (fst g (put b r)) (fst g st)) fs
      = list_all (\<lambda>g. if fst g r = [] then fst g st = [] else sealed_as cr key (fst g r) (fst g st)) fs" for b r st
    using apart by (intro list_all_cong) (auto simp: list_all_iff apart_def f)
  show ?case
  proof (cases "get row = []")
    case True
    then have enc: "encrypt_fields cr key fs n row = (stored, None, n')" using Cons.prems(2) by (simp add: f)
    have "get stored = []" using apart_get [OF apart, of cr key n row] True enc by (simp add: f)
    then show ?thesis
      using Cons.IH [OF fs enc] True wipe_put [OF apart, of "[]"] by (simp add: sealed_row_def f wipe_Cons)
  next
    case False
    then obtain c where c: "Encrypt cr n (get row) key = Inr c"
      and enc: "encrypt_fields cr key fs (n + 1) (put c row) = (stored, None, n')"
      using Cons.prems(2) by (auto simp: f split: sum.splits)
    have "get stored = c" using apart_get [OF apart, of cr key "n + 1" "put c row"] enc law
      by (simp add: f lawful_field_def)
    then have "sealed_as cr key (get row) (get stored)" using Encrypt_sealed [OF assms(1) c] by simp
    moreover have "wipe_fields fs stored = wipe_fields fs (put c row)"
      using Cons.IH [OF fs enc] by (simp add: sealed_row_def)
    then have "wipe_fields (f # fs) stored = wipe_fields (f # fs) row"
      using wipe_put [OF apart] law by (simp add: wipe_Cons f lawful_field_def)
    ultimately show ?thesis
      using Cons.IH [OF fs enc] False others [of c row stored] by (simp add: sealed_row_def f)
  qed
qed (simp add: sealed_row_def wipe_fields_def)

lemma wipe_determines:
  assumes "lawful_fields fs" and "wipe_fields fs a = wipe_fields fs b"
    and "list_all (\<lambda>f. fst f a = fst f b) fs"
  shows "a = b"
  using assms
proof (induction fs arbitrary: a b)
  case (Cons f fs)
  then have law: "lawful_field f" and apart: "list_all (apart f) fs" by simp_all
  have "list_all (\<lambda>g. fst g (snd f [] a) = fst g (snd f [] b)) fs"
    using Cons.prems(3) apart by (auto simp: list_all_iff apart_def)
  then have "snd f [] a = snd f [] b" using Cons by (simp add: wipe_Cons)
  then have "snd f (fst f a) (snd f [] a) = snd f (fst f b) (snd f [] b)" using Cons.prems(3) by simp
  then show ?case using law by (simp add: lawful_field_def)
qed (simp add: wipe_fields_def)

text \<open>Decrypting a sealed row gives the row back.\<close>

lemma decrypt_fields_result:
  assumes "lawful_crypt cr" and "lawful_fields fs"
    and "list_all (\<lambda>f. if fst f row = [] then fst f stored = [] else sealed_as cr key (fst f row) (fst f stored)) fs"
  shows "snd (decrypt_fields cr key fs stored) = None \<and>
    list_all (\<lambda>f. fst f (fst (decrypt_fields cr key fs stored)) = fst f row) fs \<and>
    wipe_fields fs (fst (decrypt_fields cr key fs stored)) = wipe_fields fs stored"
  using assms(2,3)
proof (induction fs)
  case (Cons f fs)
  obtain get put where f: "f = (get, put)" by (cases f)
  have law: "lawful_field f" and apart: "list_all (apart f) fs" and fs: "lawful_fields fs"
    using Cons.prems(1) by simp_all
  let ?d = "decrypt_fields cr key fs stored"
  have IH: "snd ?d = None" "list_all (\<lambda>f. fst f (fst ?d) = fst f row) fs"
    "wipe_fields fs (fst ?d) = wipe_fields fs stored"
    using Cons.IH [OF fs] Cons.prems(2) by simp_all
  have keep: "list_all (\<lambda>g. fst g (put b (fst ?d)) = fst g row) fs" for b
    using IH(2) apart by (auto simp: list_all_iff apart_def f)
  show ?case
  proof (cases "get row = []")
    case True
    then have "get stored = []" using Cons.prems(2) by (simp add: f)
    moreover then have "get (fst ?d) = []" using apart_get_decrypt [OF apart, of cr key stored] by (simp add: f)
    ultimately show ?thesis
      using IH True wipe_put [OF apart, of "[]"] by (simp add: f wipe_Cons)
  next
    case False
    then have "sealed_as cr key (get row) (get stored)" using Cons.prems(2) by (simp add: f)
    then have "decrypt_fields cr key (f # fs) stored = map_prod (put (get row)) id ?d"
      using Decrypt_sealed [OF assms(1)] sealed_nonempty decrypt_fields_put [OF apart, of cr key "get row" stored]
      by (fastforce simp: f)
    moreover have "wipe_fields (f # fs) (put (get row) (fst ?d)) = wipe_fields (f # fs) stored"
      using IH(3) wipe_put [OF apart] law by (simp add: wipe_Cons f lawful_field_def)
    ultimately show ?thesis using IH keep law by (simp add: f lawful_field_def map_prod_def case_prod_beta)
  qed
qed (simp add: wipe_fields_def)

lemma decrypt_fields_sealed:
  assumes "lawful_crypt cr" and "lawful_fields fs" and "sealed_row cr key fs row stored"
  shows "decrypt_fields cr key fs stored = (row, None)"
proof -
  let ?d = "decrypt_fields cr key fs stored"
  have "snd ?d = None" "list_all (\<lambda>f. fst f (fst ?d) = fst f row) fs" "wipe_fields fs (fst ?d) = wipe_fields fs row"
    using decrypt_fields_result [OF assms(1,2)] assms(3) by (auto simp: sealed_row_def)
  moreover then have "fst ?d = row" using wipe_determines [OF assms(2)] by blast
  ultimately show ?thesis by (metis prod.collapse)
qed

section \<open>A cipher for the witnesses\<close>

text \<open>It only marks what it sealed with the key, which is enough for the laws.\<close>

definition sample_crypt :: crypt where
  "sample_crypt = \<lparr>cr_seal = (\<lambda>k n p. k @ p),
     cr_open = (\<lambda>k n c. if take (length k) c = k then Inr (drop (length k) c)
       else Inl (GoError ''cipher: message authentication failed'')),
     cr_random = (\<lambda>i. Inr ''123456789012'')\<rparr>"

lemma sample_crypt_lawful: "lawful_crypt sample_crypt"
  by (simp add: lawful_crypt_def sample_crypt_def NonceSize_def)

lemma sample_crypt_authentic: "length k = length k' \<Longrightarrow> k \<noteq> k' \<Longrightarrow> authentic sample_crypt k k'"
  by (simp add: authentic_def sample_crypt_def)

end
