(* ===== verification/Integrations.thy ===== *)
theory Integrations
  imports Encryption
begin

text \<open>
  The integration repositories of \<open>internal/repository/gorm/auth.go\<close> over an explicit table, with
  their credential storage (\<open>internal/repository/credentials\<close>, kept by Vault): what each kind of
  row keeps secret, and the operations that create, read, list, overwrite and delete rows. The
  repositories differ in the row only, so the operations are written once over a \<open>kind\<close>. Every
  call of the database and of the storage may fail, which \<open>int_faults\<close> decides.
\<close>

section \<open>Rows (\<open>internal/models/integrations\<close>)\<close>

record kube_integration =
  ki_ID :: uint
  ki_Mechanism :: string
  ki_UserID :: uint
  ki_ProjectID :: uint
  ki_ClientCertificateData :: bytes
  ki_ClientKeyData :: bytes
  ki_Token :: bytes
  ki_Username :: bytes
  ki_Password :: bytes
  ki_Kubeconfig :: bytes

record basic_integration =
  ba_ID :: uint
  ba_UserID :: uint
  ba_ProjectID :: uint
  ba_Username :: bytes
  ba_Password :: bytes

record oidc_integration =
  oi_ID :: uint
  oi_Client :: string
  oi_UserID :: uint
  oi_ProjectID :: uint
  oi_IssuerURL :: bytes
  oi_ClientID :: bytes
  oi_ClientSecret :: bytes
  oi_CertificateAuthorityData :: bytes
  oi_IDToken :: bytes
  oi_RefreshToken :: bytes

record oauth_integration =
  oa_ID :: uint
  oa_ClientID :: bytes
  oa_AccessToken :: bytes
  oa_RefreshToken :: bytes
  oa_Expiry :: "int option"
  oa_Client :: string
  oa_UserID :: uint
  oa_ProjectID :: uint
  oa_TargetEmail :: string
  oa_TargetName :: string

record gcp_integration =
  gc_ID :: uint
  gc_UserID :: uint
  gc_ProjectID :: uint
  gc_GCPProjectID :: string
  gc_GCPSAEmail :: string
  gc_GCPUserEmail :: string
  gc_GCPRegion :: string
  gc_GCPKeyData :: bytes

record aws_integration =
  aw_ID :: uint
  aw_UserID :: uint
  aw_ProjectID :: uint
  aw_AWSArn :: string
  aw_AWSRegion :: string
  aw_AWSClusterID :: bytes
  aw_AWSAccessKeyID :: bytes
  aw_AWSSecretAccessKey :: bytes
  aw_AWSSessionToken :: bytes

record azure_integration =
  az_ID :: uint
  az_UserID :: uint
  az_ProjectID :: uint
  az_AzureClientID :: string
  az_AzureSubscriptionID :: string
  az_AzureTenantID :: string
  az_ACRTokenName :: string
  az_ACRResourceGroupName :: string
  az_ACRName :: string
  az_ServicePrincipalSecret :: bytes
  az_ACRPassword1 :: bytes
  az_ACRPassword2 :: bytes
  az_AKSPassword :: bytes

section \<open>What each kind encrypts\<close>

definition kube_secrets :: "kube_integration field list" where
  "kube_secrets =
     [(ki_ClientCertificateData, \<lambda>b r. r\<lparr>ki_ClientCertificateData := b\<rparr>),
      (ki_ClientKeyData, \<lambda>b r. r\<lparr>ki_ClientKeyData := b\<rparr>), (ki_Token, \<lambda>b r. r\<lparr>ki_Token := b\<rparr>),
      (ki_Username, \<lambda>b r. r\<lparr>ki_Username := b\<rparr>), (ki_Password, \<lambda>b r. r\<lparr>ki_Password := b\<rparr>),
      (ki_Kubeconfig, \<lambda>b r. r\<lparr>ki_Kubeconfig := b\<rparr>)]"

definition basic_secrets :: "basic_integration field list" where
  "basic_secrets =
     [(ba_Username, \<lambda>b r. r\<lparr>ba_Username := b\<rparr>), (ba_Password, \<lambda>b r. r\<lparr>ba_Password := b\<rparr>)]"

definition oidc_secrets :: "oidc_integration field list" where
  "oidc_secrets =
     [(oi_IssuerURL, \<lambda>b r. r\<lparr>oi_IssuerURL := b\<rparr>), (oi_ClientID, \<lambda>b r. r\<lparr>oi_ClientID := b\<rparr>),
      (oi_ClientSecret, \<lambda>b r. r\<lparr>oi_ClientSecret := b\<rparr>),
      (oi_CertificateAuthorityData, \<lambda>b r. r\<lparr>oi_CertificateAuthorityData := b\<rparr>),
      (oi_IDToken, \<lambda>b r. r\<lparr>oi_IDToken := b\<rparr>), (oi_RefreshToken, \<lambda>b r. r\<lparr>oi_RefreshToken := b\<rparr>)]"

definition oauth_secrets :: "oauth_integration field list" where
  "oauth_secrets =
     [(oa_ClientID, \<lambda>b r. r\<lparr>oa_ClientID := b\<rparr>), (oa_AccessToken, \<lambda>b r. r\<lparr>oa_AccessToken := b\<rparr>),
      (oa_RefreshToken, \<lambda>b r. r\<lparr>oa_RefreshToken := b\<rparr>)]"

definition gcp_secrets :: "gcp_integration field list" where
  "gcp_secrets = [(gc_GCPKeyData, \<lambda>b r. r\<lparr>gc_GCPKeyData := b\<rparr>)]"

definition aws_secrets :: "aws_integration field list" where
  "aws_secrets =
     [(aw_AWSClusterID, \<lambda>b r. r\<lparr>aw_AWSClusterID := b\<rparr>),
      (aw_AWSAccessKeyID, \<lambda>b r. r\<lparr>aw_AWSAccessKeyID := b\<rparr>),
      (aw_AWSSecretAccessKey, \<lambda>b r. r\<lparr>aw_AWSSecretAccessKey := b\<rparr>),
      (aw_AWSSessionToken, \<lambda>b r. r\<lparr>aw_AWSSessionToken := b\<rparr>)]"

definition azure_secrets :: "azure_integration field list" where
  "azure_secrets =
     [(az_ServicePrincipalSecret, \<lambda>b r. r\<lparr>az_ServicePrincipalSecret := b\<rparr>),
      (az_ACRPassword1, \<lambda>b r. r\<lparr>az_ACRPassword1 := b\<rparr>), (az_ACRPassword2, \<lambda>b r. r\<lparr>az_ACRPassword2 := b\<rparr>),
      (az_AKSPassword, \<lambda>b r. r\<lparr>az_AKSPassword := b\<rparr>)]"

definition gitlab_secrets :: "gitlab_integration field list" where
  "gitlab_secrets =
     [(gi_AppClientID, \<lambda>b r. r\<lparr>gi_AppClientID := b\<rparr>),
      (gi_AppClientSecret, \<lambda>b r. r\<lparr>gi_AppClientSecret := b\<rparr>)]"

lemmas secrets_defs =
  kube_secrets_def basic_secrets_def oidc_secrets_def oauth_secrets_def gcp_secrets_def
  aws_secrets_def azure_secrets_def gitlab_secrets_def

definition EncryptKubeIntegrationData where "EncryptKubeIntegrationData cr key = encrypt_fields cr key kube_secrets"
definition DecryptKubeIntegrationData where "DecryptKubeIntegrationData cr key = decrypt_fields cr key kube_secrets"
definition EncryptBasicIntegrationData where "EncryptBasicIntegrationData cr key = encrypt_fields cr key basic_secrets"
definition DecryptBasicIntegrationData where "DecryptBasicIntegrationData cr key = decrypt_fields cr key basic_secrets"
definition EncryptOIDCIntegrationData where "EncryptOIDCIntegrationData cr key = encrypt_fields cr key oidc_secrets"
definition DecryptOIDCIntegrationData where "DecryptOIDCIntegrationData cr key = decrypt_fields cr key oidc_secrets"
definition EncryptOAuthIntegrationData where "EncryptOAuthIntegrationData cr key = encrypt_fields cr key oauth_secrets"
definition DecryptOAuthIntegrationData where "DecryptOAuthIntegrationData cr key = decrypt_fields cr key oauth_secrets"
definition EncryptGCPIntegrationData where "EncryptGCPIntegrationData cr key = encrypt_fields cr key gcp_secrets"
definition DecryptGCPIntegrationData where "DecryptGCPIntegrationData cr key = decrypt_fields cr key gcp_secrets"
definition EncryptAWSIntegrationData where "EncryptAWSIntegrationData cr key = encrypt_fields cr key aws_secrets"
definition DecryptAWSIntegrationData where "DecryptAWSIntegrationData cr key = decrypt_fields cr key aws_secrets"
definition EncryptAzureIntegrationData where "EncryptAzureIntegrationData cr key = encrypt_fields cr key azure_secrets"
definition DecryptAzureIntegrationData where "DecryptAzureIntegrationData cr key = decrypt_fields cr key azure_secrets"
definition EncryptGitlabIntegrationData where "EncryptGitlabIntegrationData cr key = encrypt_fields cr key gitlab_secrets"

section \<open>Kinds\<close>

text \<open>
  The fields that go to the credential storage, in the order of the credential's assignments;
  \<open>None\<close> for a repository without a storage backend.
\<close>

record 'row kind =
  k_secrets :: "'row field list"
  k_stripped :: "'row field list option"
  k_id :: "'row \<Rightarrow> uint"
  k_set_id :: "uint \<Rightarrow> 'row \<Rightarrow> 'row"
  k_project :: "'row \<Rightarrow> uint"

definition kube_kind :: "kube_integration kind" where
  "kube_kind = \<lparr>k_secrets = kube_secrets, k_stripped = None, k_id = ki_ID,
     k_set_id = (\<lambda>i r. r\<lparr>ki_ID := i\<rparr>), k_project = ki_ProjectID\<rparr>"

definition basic_kind :: "basic_integration kind" where
  "basic_kind = \<lparr>k_secrets = basic_secrets, k_stripped = None, k_id = ba_ID,
     k_set_id = (\<lambda>i r. r\<lparr>ba_ID := i\<rparr>), k_project = ba_ProjectID\<rparr>"

definition oidc_kind :: "oidc_integration kind" where
  "oidc_kind = \<lparr>k_secrets = oidc_secrets, k_stripped = None, k_id = oi_ID,
     k_set_id = (\<lambda>i r. r\<lparr>oi_ID := i\<rparr>), k_project = oi_ProjectID\<rparr>"

definition oauth_kind :: "oauth_integration kind" where
  "oauth_kind = \<lparr>k_secrets = oauth_secrets,
     k_stripped = Some [(oa_AccessToken, \<lambda>b r. r\<lparr>oa_AccessToken := b\<rparr>),
       (oa_RefreshToken, \<lambda>b r. r\<lparr>oa_RefreshToken := b\<rparr>), (oa_ClientID, \<lambda>b r. r\<lparr>oa_ClientID := b\<rparr>)],
     k_id = oa_ID, k_set_id = (\<lambda>i r. r\<lparr>oa_ID := i\<rparr>), k_project = oa_ProjectID\<rparr>"

definition gcp_kind :: "gcp_integration kind" where
  "gcp_kind = \<lparr>k_secrets = gcp_secrets, k_stripped = Some gcp_secrets, k_id = gc_ID,
     k_set_id = (\<lambda>i r. r\<lparr>gc_ID := i\<rparr>), k_project = gc_ProjectID\<rparr>"

definition aws_kind :: "aws_integration kind" where
  "aws_kind = \<lparr>k_secrets = aws_secrets,
     k_stripped = Some [(aw_AWSAccessKeyID, \<lambda>b r. r\<lparr>aw_AWSAccessKeyID := b\<rparr>),
       (aw_AWSClusterID, \<lambda>b r. r\<lparr>aw_AWSClusterID := b\<rparr>),
       (aw_AWSSecretAccessKey, \<lambda>b r. r\<lparr>aw_AWSSecretAccessKey := b\<rparr>),
       (aw_AWSSessionToken, \<lambda>b r. r\<lparr>aw_AWSSessionToken := b\<rparr>)],
     k_id = aw_ID, k_set_id = (\<lambda>i r. r\<lparr>aw_ID := i\<rparr>), k_project = aw_ProjectID\<rparr>"

definition azure_kind :: "azure_integration kind" where
  "azure_kind = \<lparr>k_secrets = azure_secrets, k_stripped = Some azure_secrets, k_id = az_ID,
     k_set_id = (\<lambda>i r. r\<lparr>az_ID := i\<rparr>), k_project = az_ProjectID\<rparr>"

definition gitlab_kind :: "gitlab_integration kind" where
  "gitlab_kind = \<lparr>k_secrets = gitlab_secrets, k_stripped = Some gitlab_secrets, k_id = gi_ID,
     k_set_id = (\<lambda>i r. r\<lparr>gi_ID := i\<rparr>), k_project = gi_ProjectID\<rparr>"

lemmas kind_defs =
  kube_kind_def basic_kind_def oidc_kind_def oauth_kind_def gcp_kind_def aws_kind_def
  azure_kind_def gitlab_kind_def

section \<open>The repositories\<close>

text \<open>
  The table of one kind, the ids of the projects, the next id, how often randomness was read, and
  the credential storage, if there is one: Vault keeps a credential under the project and the id.
\<close>

type_synonym storage = "uint \<times> uint \<Rightarrow> bytes list option"

record 'row int_db =
  id_rows :: "'row list"
  id_projects :: "uint list"
  id_next :: uint
  id_draws :: nat
  id_storage :: "storage option"

record int_faults =
  if_first_project :: "go_error option"
  if_append :: "go_error option"
  if_first :: "go_error option"
  if_find :: "go_error option"
  if_save :: "go_error option"
  if_delete :: "go_error option"
  if_write :: "go_error option"
  if_get :: "go_error option"

definition no_int_faults :: int_faults where
  "no_int_faults = \<lparr>if_first_project = None, if_append = None, if_first = None, if_find = None,
     if_save = None, if_delete = None, if_write = None, if_get = None\<rparr>"

definition restore_fields :: "'row field list \<Rightarrow> bytes list \<Rightarrow> 'row \<Rightarrow> 'row" where
  "restore_fields fs cred row = fold (\<lambda>(f, b). snd f b) (zip fs cred) row"

definition strip_credential :: "'row kind \<Rightarrow> 'row int_db \<Rightarrow> 'row \<Rightarrow> 'row \<times> bytes list" where
  "strip_credential k db am =
     (case (k_stripped k, id_storage db) of
        (Some fs, Some st) \<Rightarrow> (wipe_fields fs am, map (\<lambda>f. fst f am) fs)
      | _ \<Rightarrow> (am, []))"

definition write_credential ::
  "'row kind \<Rightarrow> int_faults \<Rightarrow> 'row int_db \<Rightarrow> 'row \<Rightarrow> bytes list \<Rightarrow> 'row int_db \<times> go_error option" where
  "write_credential k f db am cred =
     (case (k_stripped k, id_storage db) of
        (Some fs, Some st) \<Rightarrow>
          (case if_write f of
             Some e \<Rightarrow> (db, Some e)
           | None \<Rightarrow> (db\<lparr>id_storage := Some (st((k_project k am, k_id k am) \<mapsto> cred))\<rparr>, None))
      | _ \<Rightarrow> (db, None))"

definition get_credential ::
  "'row kind \<Rightarrow> int_faults \<Rightarrow> 'row int_db \<Rightarrow> 'row \<Rightarrow> (go_error, 'row) go_result" where
  "get_credential k f db am =
     (case (k_stripped k, id_storage db) of
        (Some fs, Some st) \<Rightarrow>
          (case if_get f of
             Some e \<Rightarrow> Inl e
           | None \<Rightarrow>
               (case st (k_project k am, k_id k am) of
                  None \<Rightarrow> Inl (GoError ''credential not found'')
                | Some cred \<Rightarrow> Inr (restore_fields fs cred am)))
      | _ \<Rightarrow> Inr am)"

text \<open>The created row is given back as it was stored: encrypted and stripped.\<close>

definition create_integration ::
  "'row kind \<Rightarrow> crypt \<Rightarrow> key \<Rightarrow> int_faults \<Rightarrow> 'row int_db \<Rightarrow> 'row \<Rightarrow> 'row int_db \<times> (go_error, 'row) go_result" where
  "create_integration k cr key f db am =
     (case encrypt_fields cr key (k_secrets k) (id_draws db) am of
        (am, Some e, n) \<Rightarrow> (db\<lparr>id_draws := n\<rparr>, Inl e)
      | (am, None, n) \<Rightarrow>
          (let db = db\<lparr>id_draws := n\<rparr>;
               (am, cred) = strip_credential k db am
           in case if_first_project f of
                Some e \<Rightarrow> (db, Inl e)
              | None \<Rightarrow>
                  if k_project k am \<notin> set (id_projects db) then (db, Inl ErrRecordNotFound)
                  else case if_append f of
                         Some e \<Rightarrow> (db, Inl e)
                       | None \<Rightarrow>
                           (let am = k_set_id k (id_next db) am;
                                db = db\<lparr>id_rows := id_rows db @ [am], id_next := id_next db + 1\<rparr>
                            in case write_credential k f db am cred of
                                 (db, Some e) \<Rightarrow> (db, Inl e)
                               | (db, None) \<Rightarrow> (db, Inr am))))"

definition read_integration ::
  "'row kind \<Rightarrow> crypt \<Rightarrow> key \<Rightarrow> int_faults \<Rightarrow> 'row int_db \<Rightarrow> uint \<Rightarrow> uint \<Rightarrow> (go_error, 'row) go_result" where
  "read_integration k cr key f db projectID i =
     (case if_first f of
        Some e \<Rightarrow> Inl e
      | None \<Rightarrow>
          (case find (\<lambda>r. k_project k r = projectID \<and> k_id k r = i) (id_rows db) of
             None \<Rightarrow> Inl ErrRecordNotFound
           | Some row \<Rightarrow>
               (case get_credential k f db row of
                  Inl e \<Rightarrow> Inl e
                | Inr row \<Rightarrow>
                    (case decrypt_fields cr key (k_secrets k) row of
                       (row, Some e) \<Rightarrow> Inl e
                     | (row, None) \<Rightarrow> Inr row))))"

text \<open>The list is not decrypted.\<close>

definition list_integrations ::
  "'row kind \<Rightarrow> int_faults \<Rightarrow> 'row int_db \<Rightarrow> uint \<Rightarrow> (go_error, 'row list) go_result" where
  "list_integrations k f db projectID =
     (case if_find f of
        Some e \<Rightarrow> Inl e
      | None \<Rightarrow> Inr (filter (\<lambda>r. k_project k r = projectID) (id_rows db)))"

text \<open>
  \<open>Save\<close> of gorm: a row without an id is inserted under the next one, a row whose id is in the
  table replaces the row there, and a row with an id that is not is inserted under it. The
  overwriting operations share the rest.
\<close>

definition save_row :: "'row kind \<Rightarrow> 'row int_db \<Rightarrow> 'row \<Rightarrow> 'row int_db \<times> 'row" where
  "save_row k db am =
     (if k_id k am = 0
      then let am = k_set_id k (id_next db) am
           in (db\<lparr>id_rows := id_rows db @ [am], id_next := id_next db + 1\<rparr>, am)
      else if list_ex (\<lambda>r. k_id k r = k_id k am) (id_rows db)
      then (db\<lparr>id_rows := map (\<lambda>r. if k_id k r = k_id k am then am else r) (id_rows db)\<rparr>, am)
      else (db\<lparr>id_rows := id_rows db @ [am]\<rparr>, am))"

definition save_integration ::
  "'row kind \<Rightarrow> crypt \<Rightarrow> key \<Rightarrow> int_faults \<Rightarrow> 'row int_db \<Rightarrow> 'row \<Rightarrow>
     'row int_db \<times> (go_error, 'row \<times> bytes list) go_result" where
  "save_integration k cr key f db am =
     (case encrypt_fields cr key (k_secrets k) (id_draws db) am of
        (am, Some e, n) \<Rightarrow> (db\<lparr>id_draws := n\<rparr>, Inl e)
      | (am, None, n) \<Rightarrow>
          (let db = db\<lparr>id_draws := n\<rparr>;
               (am, cred) = strip_credential k db am
           in case if_save f of
                Some e \<Rightarrow> (db, Inl e)
              | None \<Rightarrow> (case save_row k db am of (db, am) \<Rightarrow> (db, Inr (am, cred)))))"

definition overwrite_integration ::
  "'row kind \<Rightarrow> crypt \<Rightarrow> key \<Rightarrow> int_faults \<Rightarrow> 'row int_db \<Rightarrow> 'row \<Rightarrow> 'row int_db \<times> (go_error, 'row) go_result" where
  "overwrite_integration k cr key f db am =
     (case save_integration k cr key f db am of
        (db, Inl e) \<Rightarrow> (db, Inl e)
      | (db, Inr (am, cred)) \<Rightarrow>
          (case write_credential k f db am cred of
             (db, Some e) \<Rightarrow> (db, Inl e)
           | (db, None) \<Rightarrow> (db, Inr am)))"

definition CreateKubeIntegration where "CreateKubeIntegration = create_integration kube_kind"
definition ReadKubeIntegration where "ReadKubeIntegration = read_integration kube_kind"
definition ListKubeIntegrationsByProjectID where "ListKubeIntegrationsByProjectID = list_integrations kube_kind"
definition CreateBasicIntegration where "CreateBasicIntegration = create_integration basic_kind"
definition ReadBasicIntegration where "ReadBasicIntegration = read_integration basic_kind"
definition ListBasicIntegrationsByProjectID where "ListBasicIntegrationsByProjectID = list_integrations basic_kind"
definition CreateOIDCIntegration where "CreateOIDCIntegration = create_integration oidc_kind"
definition ReadOIDCIntegration where "ReadOIDCIntegration = read_integration oidc_kind"
definition ListOIDCIntegrationsByProjectID where "ListOIDCIntegrationsByProjectID = list_integrations oidc_kind"
definition CreateOAuthIntegration where "CreateOAuthIntegration = create_integration oauth_kind"
definition ReadOAuthIntegration where "ReadOAuthIntegration = read_integration oauth_kind"
definition ListOAuthIntegrationsByProjectID where "ListOAuthIntegrationsByProjectID = list_integrations oauth_kind"
definition CreateGCPIntegration where "CreateGCPIntegration = create_integration gcp_kind"
definition ReadGCPIntegration where "ReadGCPIntegration = read_integration gcp_kind"
definition ListGCPIntegrationsByProjectID where "ListGCPIntegrationsByProjectID = list_integrations gcp_kind"
definition CreateAWSIntegration where "CreateAWSIntegration = create_integration aws_kind"
definition OverwriteAWSIntegration where "OverwriteAWSIntegration = overwrite_integration aws_kind"
definition ReadAWSIntegration where "ReadAWSIntegration = read_integration aws_kind"
definition ListAWSIntegrationsByProjectID where "ListAWSIntegrationsByProjectID = list_integrations aws_kind"
definition CreateAzureIntegration where "CreateAzureIntegration = create_integration azure_kind"
definition ReadAzureIntegration where "ReadAzureIntegration = read_integration azure_kind"
definition ListAzureIntegrationsByProjectID where "ListAzureIntegrationsByProjectID = list_integrations azure_kind"
definition CreateGitlabIntegration where "CreateGitlabIntegration = create_integration gitlab_kind"
definition ReadStoredGitlabIntegration where "ReadStoredGitlabIntegration = read_integration gitlab_kind"
definition ListGitlabIntegrationsByProjectID where "ListGitlabIntegrationsByProjectID = list_integrations gitlab_kind"

text \<open>After the overwrite the Azure integration is read again.\<close>

definition OverwriteAzureIntegration ::
  "crypt \<Rightarrow> key \<Rightarrow> int_faults \<Rightarrow> azure_integration int_db \<Rightarrow> azure_integration \<Rightarrow>
     azure_integration int_db \<times> (go_error, azure_integration) go_result" where
  "OverwriteAzureIntegration cr key f db az =
     (case overwrite_integration azure_kind cr key f db az of
        (db, Inl e) \<Rightarrow> (db, Inl e)
      | (db, Inr az) \<Rightarrow> (db, ReadAzureIntegration cr key f db (az_ProjectID az) (az_ID az)))"

text \<open>The updated OAuth integration is decrypted before its credential is written.\<close>

definition UpdateOAuthIntegration ::
  "crypt \<Rightarrow> key \<Rightarrow> int_faults \<Rightarrow> oauth_integration int_db \<Rightarrow> oauth_integration \<Rightarrow>
     oauth_integration int_db \<times> (go_error, oauth_integration) go_result" where
  "UpdateOAuthIntegration cr key f db am =
     (case save_integration oauth_kind cr key f db am of
        (db, Inl e) \<Rightarrow> (db, Inl e)
      | (db, Inr (am, cred)) \<Rightarrow>
          (case DecryptOAuthIntegrationData cr key am of
             (am, Some e) \<Rightarrow> (db, Inl e)
           | (am, None) \<Rightarrow>
               (case write_credential oauth_kind f db am cred of
                  (db, Some e) \<Rightarrow> (db, Inl e)
                | (db, None) \<Rightarrow> (db, Inr am))))"

definition DeleteBasicIntegration ::
  "int_faults \<Rightarrow> basic_integration int_db \<Rightarrow> basic_integration \<Rightarrow>
     basic_integration int_db \<times> (go_error, basic_integration) go_result" where
  "DeleteBasicIntegration f db am =
     (case if_first_project f of
        Some e \<Rightarrow> (db, Inl e)
      | None \<Rightarrow>
          if ba_ProjectID am \<notin> set (id_projects db) then (db, Inl ErrRecordNotFound)
          else case if_delete f of
                 Some e \<Rightarrow> (db, Inl e)
               | None \<Rightarrow> (db\<lparr>id_rows := filter (\<lambda>r. ba_ID r \<noteq> ba_ID am) (id_rows db)\<rparr>, Inr am))"


section \<open>The contract of a kind\<close>

text \<open>
  What the operations rely on: the secrets of a row are separate fields, the stripped ones are
  all of them, and neither the id nor the project is one of them.
\<close>

locale integration_kind =
  fixes k :: "'row kind"
  assumes secrets: "lawful_fields (k_secrets k)"
    and stripped: "k_stripped k = Some fs \<Longrightarrow> lawful_fields fs \<and> set fs = set (k_secrets k)"
    and field_id: "f \<in> set (k_secrets k) \<Longrightarrow> k_id k (snd f b r) = k_id k r"
    and field_project: "f \<in> set (k_secrets k) \<Longrightarrow> k_project k (snd f b r) = k_project k r"
    and get_set_id: "f \<in> set (k_secrets k) \<Longrightarrow> fst f (k_set_id k i r) = fst f r"
    and put_set_id: "f \<in> set (k_secrets k) \<Longrightarrow> snd f b (k_set_id k i r) = k_set_id k i (snd f b r)"
    and id_set_id: "k_id k (k_set_id k i r) = i"
    and project_set_id: "k_project k (k_set_id k i r) = k_project k r"
begin

lemma set_id_frame:
  "set fs = set (k_secrets k) \<Longrightarrow> f \<in> set fs \<Longrightarrow> fst f (k_set_id k i r) = fst f r"
  by (simp add: get_set_id)

lemma wipe_id: "set fs \<subseteq> set (k_secrets k) \<Longrightarrow> k_id k (wipe_fields fs r) = k_id k r"
  by (induction fs arbitrary: r) (auto simp: wipe_fields_def field_id)

lemma wipe_project: "set fs \<subseteq> set (k_secrets k) \<Longrightarrow> k_project k (wipe_fields fs r) = k_project k r"
  by (induction fs arbitrary: r) (auto simp: wipe_fields_def field_project)

lemma wipe_set_id:
  "set fs \<subseteq> set (k_secrets k) \<Longrightarrow> wipe_fields fs (k_set_id k i r) = k_set_id k i (wipe_fields fs r)"
  by (induction fs arbitrary: r) (auto simp: wipe_fields_def put_set_id)

lemma restore_id: "set fs \<subseteq> set (k_secrets k) \<Longrightarrow> k_id k (restore_fields fs cred r) = k_id k r"
proof (induction fs arbitrary: cred r)
  case (Cons f fs)
  then show ?case by (cases cred) (auto simp: restore_fields_def field_id)
qed (simp add: restore_fields_def)

lemma restore_project: "set fs \<subseteq> set (k_secrets k) \<Longrightarrow> k_project k (restore_fields fs cred r) = k_project k r"
proof (induction fs arbitrary: cred r)
  case (Cons f fs)
  then show ?case by (cases cred) (auto simp: restore_fields_def field_project)
qed (simp add: restore_fields_def)

lemma restore_set_id:
  "set fs \<subseteq> set (k_secrets k) \<Longrightarrow> restore_fields fs cred (k_set_id k i r) = k_set_id k i (restore_fields fs cred r)"
proof (induction fs arbitrary: cred r)
  case (Cons f fs)
  then show ?case by (cases cred) (auto simp: restore_fields_def put_set_id)
qed (simp add: restore_fields_def)

lemma sealed_row_ids:
  assumes "sealed_row cr key (k_secrets k) row stored"
  shows "k_id k stored = k_id k row" "k_project k stored = k_project k row"
  using assms wipe_id [OF order_refl] wipe_project [OF order_refl] unfolding sealed_row_def by metis+

lemma sealed_row_set_id:
  "sealed_row cr key (k_secrets k) row stored \<Longrightarrow>
   sealed_row cr key (k_secrets k) (k_set_id k i row) (k_set_id k i stored)"
  unfolding sealed_row_def wipe_set_id [OF order_refl] by (auto simp: list_all_iff get_set_id)

end

text \<open>Putting the taken values back.\<close>

lemma restore_wipe:
  "lawful_fields fs \<Longrightarrow> restore_fields fs (map (\<lambda>f. fst f r) fs) (wipe_fields fs r) = r"
proof (induction fs arbitrary: r)
  case (Cons f fs)
  then have law: "lawful_field f" and apart: "list_all (apart f) fs" and fs: "lawful_fields fs" by simp_all
  have gets: "map (\<lambda>g. fst g (snd f [] r)) fs = map (\<lambda>g. fst g r) fs"
    using apart by (auto simp: list_all_iff apart_def)
  have "restore_fields (f # fs) (map (\<lambda>f. fst f r) (f # fs)) (wipe_fields (f # fs) r) =
      restore_fields fs (map (\<lambda>g. fst g r) fs) (snd f (fst f r) (wipe_fields fs (snd f [] r)))"
    by (simp add: restore_fields_def wipe_Cons)
  also have "snd f (fst f r) (wipe_fields fs (snd f [] r)) = wipe_fields fs r"
    using law wipe_put [OF apart, of "fst f r" "snd f [] r"] by (simp add: lawful_field_def)
  finally show ?case using Cons.IH [OF fs, of r] by simp
qed (simp add: restore_fields_def wipe_fields_def)

lemma wiped_get: "lawful_fields fs \<Longrightarrow> f \<in> set fs \<Longrightarrow> fst f (wipe_fields fs r) = []"
proof (induction fs arbitrary: r)
  case (Cons g fs)
  then have "lawful_field g" "list_all (apart g) fs" "lawful_fields fs" by simp_all
  moreover have "fst g (wipe_fields fs x) = fst g x" if "list_all (apart g) fs" for x
    using that
  proof (induction fs arbitrary: x)
    case (Cons h fs)
    then have "fst g (snd h [] x) = fst g x" by (simp add: apart_def)
    then show ?case using Cons by (simp add: wipe_Cons)
  qed (simp add: wipe_fields_def)
  ultimately show ?case using Cons by (auto simp: wipe_Cons lawful_field_def)
qed simp

section \<open>What the table stands for\<close>

text \<open>
  A stored row keeps a row in the clear: with its credential fetched, it is that row with every
  secret sealed under the key, and beside a credential storage the columns of the secrets are
  empty. A table represents a list of rows when its rows keep them one by one and their ids are
  distinct and below the next one.
\<close>

definition uses_storage :: "'row kind \<Rightarrow> 'row int_db \<Rightarrow> bool" where
  "uses_storage k db \<longleftrightarrow> k_stripped k \<noteq> None \<and> id_storage db \<noteq> None"

definition keeps :: "'row kind \<Rightarrow> crypt \<Rightarrow> key \<Rightarrow> 'row int_db \<Rightarrow> 'row \<Rightarrow> 'row \<Rightarrow> bool" where
  "keeps k cr key db row stored \<longleftrightarrow>
     (\<exists>whole. get_credential k no_int_faults db stored = Inr whole \<and> sealed_row cr key (k_secrets k) row whole) \<and>
     (uses_storage k db \<longrightarrow> list_all (\<lambda>f. fst f stored = []) (k_secrets k))"

definition represents :: "'row kind \<Rightarrow> crypt \<Rightarrow> key \<Rightarrow> 'row int_db \<Rightarrow> 'row list \<Rightarrow> bool" where
  "represents k cr key db rows \<longleftrightarrow>
     list_all2 (keeps k cr key db) rows (id_rows db) \<and>
     distinct (map (k_id k) rows) \<and> list_all (\<lambda>r. k_id k r < id_next db) rows"

text \<open>The rows in the clear after a row is saved: what gorm's \<open>Save\<close> promises.\<close>

definition saved_rows :: "'row kind \<Rightarrow> uint \<Rightarrow> 'row list \<Rightarrow> 'row \<Rightarrow> 'row list" where
  "saved_rows k next_id rows am =
     (if k_id k am = 0 then rows @ [k_set_id k next_id am]
      else if k_id k am \<in> k_id k ` set rows then map (\<lambda>x. if k_id k x = k_id k am then am else x) rows
      else rows @ [am])"

definition creates_as_promised where
  "creates_as_promised k cr key create \<longleftrightarrow>
     (\<forall>f db rows am db' res.
        represents k cr key db rows \<and> id_next db \<noteq> - 1 \<and> if_write f = None \<and>
        create cr key f db am = (db', res) \<longrightarrow>
        represents k cr key db' (case res of Inl e \<Rightarrow> rows | Inr r \<Rightarrow> rows @ [k_set_id k (id_next db) am]))"

definition reads_as_promised where
  "reads_as_promised k cr key read \<longleftrightarrow>
     (\<forall>db rows p i. represents k cr key db rows \<longrightarrow>
        read cr key no_int_faults db p i =
          (case find (\<lambda>r. k_project k r = p \<and> k_id k r = i) rows of
             None \<Rightarrow> Inl ErrRecordNotFound | Some r \<Rightarrow> Inr r))"

definition overwrites_as_promised where
  "overwrites_as_promised k cr key overwrite \<longleftrightarrow>
     (\<forall>f db rows am db' r.
        represents k cr key db rows \<and> k_id k am < id_next db \<and> id_next db \<noteq> - 1 \<and>
        overwrite cr key f db am = (db', Inr r) \<longrightarrow>
        represents k cr key db' (saved_rows k (id_next db) rows am))"

lemma no_int_faults_simps [simp]:
  "if_first_project no_int_faults = None" "if_append no_int_faults = None" "if_first no_int_faults = None"
  "if_find no_int_faults = None" "if_save no_int_faults = None" "if_delete no_int_faults = None"
  "if_write no_int_faults = None" "if_get no_int_faults = None"
  by (simp_all add: no_int_faults_def)

lemma less_next: "x < n \<Longrightarrow> n \<noteq> - 1 \<Longrightarrow> x < n + 1" "n \<noteq> - 1 \<Longrightarrow> n < n + 1" for n :: uint
  by (simp_all add: word_less_nat_alt unat_succ)

context integration_kind
begin

lemma get_credential_ids:
  assumes "get_credential k f db stored = Inr whole"
  shows "k_id k whole = k_id k stored" "k_project k whole = k_project k stored"
  using assms restore_id restore_project stripped
  by (auto simp: get_credential_def split: option.splits)

lemma represented_ids:
  assumes "list_all2 (keeps k cr key db) rows stored"
  shows "map (k_id k) stored = map (k_id k) rows" "map (k_project k) stored = map (k_project k) rows"
proof -
  have "list_all2 (\<lambda>r s. k_id k s = k_id k r \<and> k_project k s = k_project k r) rows stored"
    using assms by (rule list_all2_mono) (metis sealed_row_ids get_credential_ids keeps_def)
  then show "map (k_id k) stored = map (k_id k) rows" "map (k_project k) stored = map (k_project k) rows"
    by (induction rule: list_all2_induct) auto
qed

lemma find_represented:
  assumes "list_all2 P rows stored" and "map (k_id k) stored = map (k_id k) rows"
    and "map (k_project k) stored = map (k_project k) rows"
  shows "rel_option P (find (\<lambda>r. k_project k r = p \<and> k_id k r = i) rows)
    (find (\<lambda>r. k_project k r = p \<and> k_id k r = i) stored)"
  using assms by (induction rule: list_all2_induct) auto

lemma read_represented:
  assumes cr: "lawful_crypt cr" and rep: "represents k cr key db rows"
  shows "read_integration k cr key no_int_faults db p i =
    (case find (\<lambda>r. k_project k r = p \<and> k_id k r = i) rows of
       None \<Rightarrow> Inl ErrRecordNotFound | Some r \<Rightarrow> Inr r)"
proof -
  have all: "list_all2 (keeps k cr key db) rows (id_rows db)"
    using rep by (simp add: represents_def)
  from find_represented [OF this represented_ids [OF this], of p i]
  show ?thesis
    by (cases rule: option.rel_cases)
      (auto simp: read_integration_def keeps_def decrypt_fields_sealed [OF cr secrets])
qed

text \<open>What storing a row leaves: stripped, and its credential where the storage looks for it.\<close>

lemma strip_get:
  assumes "strip_credential k db am = (bare, cred)"
  shows "k_id k bare = k_id k am" "k_project k bare = k_project k am"
  using assms wipe_id wipe_project stripped
  by (auto simp: strip_credential_def split: option.splits)

lemma strip_restored:
  assumes "strip_credential k db am = (bare, cred)" and "k_stripped k = Some fs" "id_storage db = Some st"
  shows "restore_fields fs cred bare = am"
  using assms stripped [OF assms(2)] restore_wipe [of fs am] by (auto simp: strip_credential_def)

lemma get_credential_cong:
  assumes "id_storage db' = id_storage db"
  shows "get_credential k f db' r = get_credential k f db r"
  unfolding get_credential_def assms ..

lemma written_credential:
  assumes strip: "strip_credential k db am = (bare, cred)"
    and wrote: "write_credential k f db1 (g bare) cred = (db', None)" "id_storage db1 = id_storage db"
    and g: "\<And>fs cred r. k_stripped k = Some fs \<Longrightarrow> restore_fields fs cred (g r) = g (restore_fields fs cred r)"
  shows "get_credential k no_int_faults db' (g bare) = Inr (g am)"
proof (cases "k_stripped k")
  case None
  then show ?thesis using assms by (auto simp: strip_credential_def write_credential_def get_credential_def)
next
  case (Some fs)
  show ?thesis
  proof (cases "id_storage db")
    case None
    then show ?thesis using assms Some by (auto simp: strip_credential_def write_credential_def get_credential_def)
  next
    case st: (Some st)
    then show ?thesis
      using wrote Some g [OF Some] strip_restored [OF strip Some st]
      by (auto simp: write_credential_def get_credential_def split: option.splits)
  qed
qed

lemma other_credential:
  assumes "write_credential k f db bare cred = (db', e)" and "k_id k r \<noteq> k_id k bare"
  shows "get_credential k h db' r = get_credential k h db r"
  using assms by (auto simp: write_credential_def get_credential_def split: option.splits)

lemma write_rows:
  "write_credential k f db bare cred = (db', e) \<Longrightarrow>
     id_rows db' = id_rows db \<and> id_next db' = id_next db \<and> id_projects db' = id_projects db"
  by (auto simp: write_credential_def split: option.splits)

end

context integration_kind
begin

text \<open>A row that was stripped, stored and given its credential keeps the row it was made from.\<close>

lemma keeps_written:
  assumes strip: "strip_credential k db enc = (bare, cred)"
    and wrote: "write_credential k f db1 (g bare) cred = (db', None)" and st: "id_storage db1 = id_storage db"
    and g: "g = id \<or> g = k_set_id k i"
    and sealed: "sealed_row cr key (k_secrets k) (g am) (g enc)"
  shows "keeps k cr key db' (g am) (g bare)"
proof -
  have comm: "restore_fields fs c (g r) = g (restore_fields fs c r)" if "k_stripped k = Some fs" for fs c r
    using g stripped [OF that] restore_set_id by auto
  have "list_all (\<lambda>h. fst h (g bare) = []) (k_secrets k)" if "uses_storage k db'"
  proof -
    have "id_storage db \<noteq> None" "k_stripped k \<noteq> None" using that wrote st
      by (auto simp: uses_storage_def write_credential_def split: option.splits)
    then obtain fs where fs: "k_stripped k = Some fs" and bare: "bare = wipe_fields fs enc"
      using that strip by (auto simp: uses_storage_def strip_credential_def split: option.splits)
    have "fst h (g bare) = []" if "h \<in> set (k_secrets k)" for h
      using that g wiped_get [of fs h enc] stripped [OF fs] get_set_id [OF that] by (auto simp: bare)
    then show ?thesis by (simp add: list_all_iff)
  qed
  with written_credential [OF strip wrote st comm] sealed show ?thesis by (auto simp: keeps_def)
qed

lemma keeps_other:
  assumes wrote: "write_credential k f db1 bare cred = (db', e)" and st: "id_storage db1 = id_storage db"
    and other: "k_id k stored \<noteq> k_id k bare" and kept: "keeps k cr key db row stored"
  shows "keeps k cr key db' row stored"
proof -
  have "get_credential k no_int_faults db' stored = get_credential k no_int_faults db stored"
    using other_credential [OF wrote other] get_credential_cong [OF st] by simp
  moreover have "uses_storage k db' = uses_storage k db"
    using wrote st by (auto simp: uses_storage_def write_credential_def split: option.splits)
  ultimately show ?thesis using kept by (simp add: keeps_def)
qed

lemma keeps_cong: "id_storage db' = id_storage db \<Longrightarrow> keeps k cr key db' = keeps k cr key db"
  using get_credential_cong [of db' db] by (auto simp: keeps_def uses_storage_def fun_eq_iff)

text \<open>A row appended under an id no row has, with its credential written.\<close>

lemma append_represented:
  assumes rep: "represents k cr key db rows" and wrote: "write_credential k f db1 stored cred = (db', None)"
    and db1: "id_rows db1 = id_rows db @ [stored]" "id_storage db1 = id_storage db"
    and new: "keeps k cr key db' row stored" and fresh: "k_id k row \<notin> k_id k ` set rows"
    and below: "list_all (\<lambda>r. k_id k r < id_next db1) (rows @ [row])"
  shows "represents k cr key db' (rows @ [row])"
proof -
  have all: "list_all2 (keeps k cr key db) rows (id_rows db)" using rep by (simp add: represents_def)
  have "k_id k stored = k_id k row"
    using new sealed_row_ids get_credential_ids unfolding keeps_def by metis
  moreover have "k_id k s \<in> k_id k ` set rows" if "s \<in> set (id_rows db)" for s
    using that represented_ids(1) [OF all] by (metis imageI list.set_map)
  ultimately have "k_id k s \<noteq> k_id k stored" if "s \<in> set (id_rows db)" for s
    using that fresh by metis
  then have "list_all2 (keeps k cr key db') rows (id_rows db)"
    using all keeps_other [OF wrote db1(2)] by (auto simp: list_all2_conv_all_nth)
  then show ?thesis
    using new write_rows [OF wrote] db1 rep fresh below by (auto simp: represents_def intro!: list_all2_appendI)
qed

lemma below_next:
  "represents k cr key db rows \<Longrightarrow> id_next db \<noteq> - 1 \<Longrightarrow>
     list_all (\<lambda>r. k_id k r < id_next db + 1) (rows @ [k_set_id k (id_next db) am])"
  by (auto simp: represents_def list_all_iff id_set_id less_next)

lemma next_fresh: "represents k cr key db rows \<Longrightarrow> id_next db \<notin> k_id k ` set rows"
  by (auto simp: represents_def list_all_iff)

lemma create_represented:
  assumes cr: "lawful_crypt cr" and rep: "represents k cr key db rows" and room: "id_next db \<noteq> - 1"
    and f: "if_write f = None" and run: "create_integration k cr key f db am = (db', res)"
  shows "represents k cr key db' (case res of Inl e \<Rightarrow> rows | Inr r \<Rightarrow> rows @ [k_set_id k (id_next db) am])"
proof -
  obtain enc e n where enc: "encrypt_fields cr key (k_secrets k) (id_draws db) am = (enc, e, n)"
    by (cases "encrypt_fields cr key (k_secrets k) (id_draws db) am" rule: prod_cases3)
  let ?d = "db\<lparr>id_draws := n\<rparr>"
  show ?thesis
  proof (cases res)
    case (Inl e')
    have "db' = ?d"
      using run enc Inl f
      by (auto simp: create_integration_def Let_def write_credential_def split: option.splits prod.splits if_splits)
    then show ?thesis using rep keeps_cong [of ?d db] Inl by (simp add: represents_def)
  next
    case (Inr r)
    obtain bare cred where strip: "strip_credential k ?d enc = (bare, cred)"
      by (cases "strip_credential k ?d enc")
    let ?bare = "k_set_id k (id_next db) bare"
    let ?d1 = "?d\<lparr>id_rows := id_rows db @ [?bare], id_next := id_next db + 1\<rparr>"
    have e: "e = None" using run enc Inr by (auto simp: create_integration_def split: option.splits)
    have wrote: "write_credential k f ?d1 ?bare cred = (db', None)"
      using run enc Inr strip e
      by (auto simp: create_integration_def Let_def split: option.splits prod.splits if_splits)
    have "sealed_row cr key (k_secrets k) (k_set_id k (id_next db) am) (k_set_id k (id_next db) enc)"
      using sealed_row_set_id encrypt_fields_sealed [OF cr secrets] enc e by blast
    from keeps_written [OF strip wrote _ _ this, where i = "id_next db"]
    have "keeps k cr key db' (k_set_id k (id_next db) am) ?bare" by simp
    from append_represented [OF rep wrote _ _ this] rep room below_next next_fresh
    show ?thesis by (simp add: Inr id_set_id)
  qed
qed

lemma save_represented:
  assumes cr: "lawful_crypt cr" and rep: "represents k cr key db rows"
    and old: "k_id k am < id_next db" and room: "id_next db \<noteq> - 1"
    and run: "save_integration k cr key f db am = (db1, Inr (bare, cred))"
    and wrote: "write_credential k f db1 bare cred = (db', None)"
  shows "represents k cr key db' (saved_rows k (id_next db) rows am)"
proof -
  obtain enc e n where enc: "encrypt_fields cr key (k_secrets k) (id_draws db) am = (enc, e, n)"
    by (cases "encrypt_fields cr key (k_secrets k) (id_draws db) am" rule: prod_cases3)
  let ?d = "db\<lparr>id_draws := n\<rparr>"
  have e: "e = None" using run enc by (auto simp: save_integration_def split: option.splits)
  obtain bare0 where strip: "strip_credential k ?d enc = (bare0, cred)" and saved: "save_row k ?d bare0 = (db1, bare)"
    using run enc e by (auto simp: save_integration_def Let_def split: option.splits prod.splits)
  have sealed: "sealed_row cr key (k_secrets k) am enc"
    using encrypt_fields_sealed [OF cr secrets] enc e by blast
  have id: "k_id k bare0 = k_id k am" using strip_get(1) [OF strip] sealed_row_ids(1) [OF sealed] by simp
  have all: "list_all2 (keeps k cr key db) rows (id_rows db)" using rep by (simp add: represents_def)
  have ids: "k_id k ` set (id_rows db) = k_id k ` set rows"
    using represented_ids(1) [OF all] by (metis list.set_map)
  have plain: "keeps k cr key db' am bare0" if "bare = bare0" "id_storage db1 = id_storage db"
    using keeps_written [OF strip, where g = id and f = f and ?db1.0 = db1 and db' = db' and am = am] wrote that sealed
    by simp
  consider (unset) "k_id k am = 0" | (there) "k_id k am \<noteq> 0" "k_id k am \<in> k_id k ` set rows"
    | (gone) "k_id k am \<noteq> 0" "k_id k am \<notin> k_id k ` set rows" by blast
  then show ?thesis
  proof cases
    case unset
    then have bare: "bare = k_set_id k (id_next db) bare0"
      and db1: "db1 = ?d\<lparr>id_rows := id_rows db @ [bare], id_next := id_next db + 1\<rparr>"
      using saved id by (auto simp: save_row_def Let_def)
    have "sealed_row cr key (k_secrets k) (k_set_id k (id_next db) am) (k_set_id k (id_next db) enc)"
      using sealed_row_set_id [OF sealed] .
    from keeps_written [OF strip _ _ _ this, where i = "id_next db" and f = f and ?db1.0 = db1 and db' = db']
    have "keeps k cr key db' (k_set_id k (id_next db) am) bare"
      using wrote by (simp add: bare db1)
    from append_represented [OF rep wrote _ _ this] rep room below_next next_fresh
    show ?thesis by (simp add: unset saved_rows_def db1 id_set_id)
  next
    case gone
    then have "\<not> list_ex (\<lambda>r. k_id k r = k_id k bare0) (id_rows db)"
      using ids unfolding id list_ex_iff by (metis imageI)
    then have bare: "bare = bare0" and db1: "db1 = ?d\<lparr>id_rows := id_rows db @ [bare]\<rparr>"
      using saved id gone by (auto simp: save_row_def)
    have "keeps k cr key db' am bare" using plain [OF bare] by (simp add: bare db1)
    from append_represented [OF rep wrote _ _ this] gone old rep
    show ?thesis by (simp add: saved_rows_def db1 represents_def)
  next
    case there
    then have "list_ex (\<lambda>r. k_id k r = k_id k bare0) (id_rows db)"
      using ids unfolding id list_ex_iff by (metis imageE)
    then have bare: "bare = bare0"
      and db1: "db1 = ?d\<lparr>id_rows := map (\<lambda>s. if k_id k s = k_id k bare then bare else s) (id_rows db)\<rparr>"
      using saved id there by (auto simp: save_row_def)
    have new: "keeps k cr key db' am bare" using plain [OF bare] by (simp add: bare db1)
    have kept: "keeps k cr key db' row s" if "keeps k cr key db row s" "k_id k s \<noteq> k_id k am" for row s
      using keeps_other [OF wrote _ _ that(1)] that(2) id by (simp add: db1 bare)
    have "k_id k (rows ! i) = k_id k (id_rows db ! i)" if "i < length rows" for i
      using represented_ids(1) [OF all] that list_all2_lengthD [OF all] by (metis nth_map)
    then have "list_all2 (keeps k cr key db')
       (map (\<lambda>x. if k_id k x = k_id k am then am else x) rows) (id_rows db1)"
      using all new kept id by (auto simp: list_all2_conv_all_nth db1 bare)
    moreover have "map (k_id k) (map (\<lambda>x. if k_id k x = k_id k am then am else x) rows) = map (k_id k) rows"
      by simp
    ultimately show ?thesis
      using write_rows [OF wrote] rep old there
      by (auto simp: represents_def saved_rows_def db1 list_all_iff simp del: map_map)
  qed
qed

lemma overwrite_represented:
  assumes "lawful_crypt cr" "represents k cr key db rows" "k_id k am < id_next db" "id_next db \<noteq> - 1"
    and "overwrite_integration k cr key f db am = (db', Inr r)"
  shows "represents k cr key db' (saved_rows k (id_next db) rows am)"
  using assms(5) save_represented [OF assms(1-4)]
  by (auto simp: overwrite_integration_def split: prod.splits sum.splits option.splits)

end

section \<open>The kinds of the code\<close>

lemmas field_laws = lawful_field_def apart_def

interpretation kube_row: integration_kind kube_kind
  by unfold_locales (auto simp: kind_defs secrets_defs field_laws)

interpretation basic_row: integration_kind basic_kind
  by unfold_locales (auto simp: kind_defs secrets_defs field_laws)

interpretation oidc_row: integration_kind oidc_kind
  by unfold_locales (auto simp: kind_defs secrets_defs field_laws)

interpretation oauth_row: integration_kind oauth_kind
  by unfold_locales (auto simp: kind_defs secrets_defs field_laws)

interpretation gcp_row: integration_kind gcp_kind
  by unfold_locales (auto simp: kind_defs secrets_defs field_laws)

interpretation aws_row: integration_kind aws_kind
  by unfold_locales (auto simp: kind_defs secrets_defs field_laws)

interpretation azure_row: integration_kind azure_kind
  by unfold_locales (auto simp: kind_defs secrets_defs field_laws)

interpretation gitlab_row: integration_kind gitlab_kind
  by unfold_locales (auto simp: kind_defs secrets_defs field_laws)

section \<open>The repositories keep the promise\<close>

text \<open>The OAuth integration with the id \<open>Save\<close> leaves it.\<close>

definition with_saved_id :: "oauth_integration int_db \<Rightarrow> oauth_integration \<Rightarrow> oauth_integration" where
  "with_saved_id db am = (if oa_ID am = 0 then am\<lparr>oa_ID := id_next db\<rparr> else am)"

lemma save_row_oauth:
  "save_row oauth_kind db am = (db1, am1) \<Longrightarrow> am1 = with_saved_id db am \<and> id_storage db1 = id_storage db"
  by (auto simp: save_row_def oauth_kind_def with_saved_id_def Let_def split: if_splits)

lemma with_saved_id_wipe:
  "with_saved_id db (wipe_fields oauth_secrets am) = wipe_fields oauth_secrets (with_saved_id db am)"
  by (cases am) (simp add: with_saved_id_def oauth_secrets_def wipe_fields_def)

lemma UpdateOAuth_bare:
  assumes "lawful_crypt cr" and "save_integration oauth_kind cr key f db am = (db1, Inr (bare, cred))"
  shows "DecryptOAuthIntegrationData cr key bare =
    (case id_storage db of
       None \<Rightarrow> with_saved_id db am
     | Some st \<Rightarrow> (with_saved_id db am)\<lparr>oa_ClientID := [], oa_AccessToken := [], oa_RefreshToken := []\<rparr>, None)"
    and "id_storage db1 = id_storage db"
    and "id_storage db \<noteq> None \<Longrightarrow> DecryptOAuthIntegrationData cr key bare = (bare, None)"
proof -
  obtain enc e n where enc: "encrypt_fields cr key oauth_secrets (id_draws db) am = (enc, e, n)"
    by (cases "encrypt_fields cr key oauth_secrets (id_draws db) am" rule: prod_cases3)
  have secrets: "k_secrets oauth_kind = oauth_secrets" by (simp add: oauth_kind_def)
  have e: "e = None" using assms(2) enc
    by (auto simp: save_integration_def secrets split: option.splits)
  obtain bare0 where strip: "strip_credential oauth_kind (db\<lparr>id_draws := n\<rparr>) enc = (bare0, cred)"
    and saved: "save_row oauth_kind (db\<lparr>id_draws := n\<rparr>) bare0 = (db1, bare)"
    using assms(2) enc e
    by (auto simp: save_integration_def secrets Let_def split: option.splits prod.splits)
  have db1: "id_storage db1 = id_storage db" and bare0: "bare = with_saved_id db bare0"
    using save_row_oauth [OF saved] by (simp_all add: with_saved_id_def)
  have law: "lawful_fields oauth_secrets" using oauth_row.secrets by (simp add: secrets)
  have "sealed_row cr key oauth_secrets am enc"
    using encrypt_fields_sealed [OF assms(1) law enc [unfolded e]] .
  then have ids: "oa_ID enc = oa_ID am" and
    "sealed_row cr key oauth_secrets (am\<lparr>oa_ID := i\<rparr>) (enc\<lparr>oa_ID := i\<rparr>)" for i
    using oauth_row.sealed_row_ids(1) [of cr key am enc] oauth_row.sealed_row_set_id [of cr key am enc i]
    by (simp_all add: oauth_kind_def)
  with \<open>sealed_row cr key oauth_secrets am enc\<close>
  have sealed: "sealed_row cr key oauth_secrets (with_saved_id db am) (with_saved_id db enc)"
    by (simp add: with_saved_id_def)
  then have wiped: "wipe_fields oauth_secrets (with_saved_id db enc) = wipe_fields oauth_secrets (with_saved_id db am)"
    by (simp add: sealed_row_def)
  have "bare0 = (case id_storage db of None \<Rightarrow> enc | Some st \<Rightarrow> wipe_fields oauth_secrets enc)"
    using strip
    by (auto simp: strip_credential_def oauth_kind_def oauth_secrets_def wipe_fields_def split: option.splits)
  then have bare: "bare = (case id_storage db of
      None \<Rightarrow> with_saved_id db enc | Some st \<Rightarrow> wipe_fields oauth_secrets (with_saved_id db am))"
    using wiped bare0 with_saved_id_wipe by (auto split: option.split)
  have "decrypt_fields cr key oauth_secrets (with_saved_id db enc) = (with_saved_id db am, None)"
    using decrypt_fields_sealed [OF assms(1) law sealed] .
  then show "DecryptOAuthIntegrationData cr key bare =
    (case id_storage db of
       None \<Rightarrow> with_saved_id db am
     | Some st \<Rightarrow> (with_saved_id db am)\<lparr>oa_ClientID := [], oa_AccessToken := [], oa_RefreshToken := []\<rparr>, None)"
    by (auto simp: DecryptOAuthIntegrationData_def bare oauth_secrets_def wipe_fields_def split: option.split)
  show "id_storage db \<noteq> None \<Longrightarrow> DecryptOAuthIntegrationData cr key bare = (bare, None)"
    by (auto simp: DecryptOAuthIntegrationData_def bare oauth_secrets_def wipe_fields_def)
  show "id_storage db1 = id_storage db" by (rule db1)
qed

lemma UpdateOAuth_represented:
  assumes cr: "lawful_crypt cr" and rep: "represents oauth_kind cr key db rows"
    and old: "k_id oauth_kind am < id_next db" and room: "id_next db \<noteq> - 1"
    and run: "UpdateOAuthIntegration cr key f db am = (db', Inr r)"
  shows "represents oauth_kind cr key db' (saved_rows oauth_kind (id_next db) rows am)"
proof -
  obtain db1 bare cred where save: "save_integration oauth_kind cr key f db am = (db1, Inr (bare, cred))"
    using run by (auto simp: UpdateOAuthIntegration_def split: prod.splits sum.splits)
  note bare = UpdateOAuth_bare [OF cr save]
  obtain am' where wrote: "write_credential oauth_kind f db1 am' cred = (db', None)"
    and am': "DecryptOAuthIntegrationData cr key bare = (am', None)"
    using run save by (auto simp: UpdateOAuthIntegration_def split: prod.splits sum.splits option.splits)
  have "write_credential oauth_kind f db1 bare cred = (db', None)"
  proof (cases "id_storage db")
    case None
    then show ?thesis using wrote bare(2) by (simp add: write_credential_def split: option.splits)
  next
    case (Some st)
    then show ?thesis using wrote bare(3) am' by simp
  qed
  from oauth_row.save_represented [OF cr rep old room save this] show ?thesis .
qed

lemma OverwriteAzure_represented:
  assumes "lawful_crypt cr" "represents azure_kind cr key db rows" "k_id azure_kind az < id_next db" "id_next db \<noteq> - 1"
    and "OverwriteAzureIntegration cr key f db az = (db', Inr r)"
  shows "represents azure_kind cr key db' (saved_rows azure_kind (id_next db) rows az)"
  using assms(5) azure_row.overwrite_represented [OF assms(1-4)]
  by (auto simp: OverwriteAzureIntegration_def split: prod.splits sum.splits)

text \<open>
  C5. The integration repositories refine a table of rows in the clear. If the stored table
  represents a list of rows (every secret field sealed under the key, in the row or, for a kind
  with a credential storage in use, in the storage while the row's own columns are empty), then
  creating adds the row under the next id, or changes nothing when it fails before the credential
  is written; reading finds the row and gives its secrets back; and an overwrite that succeeds,
  of a row whose id is below the next one (as every id the table has given is),
  replaces the row of the same id, or adds the row when the table has no such id, under the next
  id when it has none of its own. The new table represents the result, so these operations leave
  no secret in the clear and lose none.
\<close>

theorem integration_repositories_refine:
  assumes "lawful_crypt cr"
  shows "creates_as_promised kube_kind cr key CreateKubeIntegration \<and>
    reads_as_promised kube_kind cr key ReadKubeIntegration \<and>
    creates_as_promised basic_kind cr key CreateBasicIntegration \<and>
    reads_as_promised basic_kind cr key ReadBasicIntegration \<and>
    creates_as_promised oidc_kind cr key CreateOIDCIntegration \<and>
    reads_as_promised oidc_kind cr key ReadOIDCIntegration \<and>
    creates_as_promised oauth_kind cr key CreateOAuthIntegration \<and>
    reads_as_promised oauth_kind cr key ReadOAuthIntegration \<and>
    overwrites_as_promised oauth_kind cr key UpdateOAuthIntegration \<and>
    creates_as_promised gcp_kind cr key CreateGCPIntegration \<and>
    reads_as_promised gcp_kind cr key ReadGCPIntegration \<and>
    creates_as_promised aws_kind cr key CreateAWSIntegration \<and>
    reads_as_promised aws_kind cr key ReadAWSIntegration \<and>
    overwrites_as_promised aws_kind cr key OverwriteAWSIntegration \<and>
    creates_as_promised azure_kind cr key CreateAzureIntegration \<and>
    reads_as_promised azure_kind cr key ReadAzureIntegration \<and>
    overwrites_as_promised azure_kind cr key OverwriteAzureIntegration \<and>
    creates_as_promised gitlab_kind cr key CreateGitlabIntegration \<and>
    reads_as_promised gitlab_kind cr key ReadStoredGitlabIntegration"
  unfolding creates_as_promised_def reads_as_promised_def overwrites_as_promised_def
    CreateKubeIntegration_def ReadKubeIntegration_def CreateBasicIntegration_def ReadBasicIntegration_def
    CreateOIDCIntegration_def ReadOIDCIntegration_def CreateOAuthIntegration_def ReadOAuthIntegration_def
    CreateGCPIntegration_def ReadGCPIntegration_def CreateAWSIntegration_def ReadAWSIntegration_def
    OverwriteAWSIntegration_def CreateAzureIntegration_def ReadAzureIntegration_def
    CreateGitlabIntegration_def ReadStoredGitlabIntegration_def
  by (intro conjI allI impI; (elim conjE)?)
    (blast intro: assms kube_row.create_represented kube_row.read_represented basic_row.create_represented
      basic_row.read_represented oidc_row.create_represented oidc_row.read_represented
      oauth_row.create_represented oauth_row.read_represented UpdateOAuth_represented
      gcp_row.create_represented gcp_row.read_represented aws_row.create_represented aws_row.read_represented
      aws_row.overwrite_represented azure_row.create_represented azure_row.read_represented
      OverwriteAzure_represented gitlab_row.create_represented gitlab_row.read_represented)+

text \<open>
  Updating an OAuth integration gives the caller the integration back, with its id, but when a credential
  storage is used, with its client id and its tokens emptied.
\<close>

theorem UpdateOAuth_drops_tokens:
  assumes "lawful_crypt cr" and "UpdateOAuthIntegration cr key f db am = (db', Inr r)"
  shows "r = (case id_storage db of
     None \<Rightarrow> with_saved_id db am
   | Some st \<Rightarrow> (with_saved_id db am)\<lparr>oa_ClientID := [], oa_AccessToken := [], oa_RefreshToken := []\<rparr>)"
proof -
  obtain db1 bare cred where save: "save_integration oauth_kind cr key f db am = (db1, Inr (bare, cred))"
    using assms(2) by (auto simp: UpdateOAuthIntegration_def split: prod.splits sum.splits)
  then show ?thesis
    using assms(2) UpdateOAuth_bare(1) [OF assms(1) save]
    by (auto simp: UpdateOAuthIntegration_def split: prod.splits option.splits)
qed

section \<open>Witnesses\<close>

text \<open>A table with a credential storage, and an integration to be kept in it.\<close>

definition sample_int_db :: "oauth_integration int_db" where
  "sample_int_db = \<lparr>id_rows = [], id_projects = [1], id_next = 7, id_draws = 0, id_storage = Some (\<lambda>_. None)\<rparr>"

definition sample_oauth :: oauth_integration where
  "sample_oauth = \<lparr>oa_ID = 0, oa_ClientID = ''id'', oa_AccessToken = ''access'', oa_RefreshToken = [],
     oa_Expiry = None, oa_Client = ''do'', oa_UserID = 5, oa_ProjectID = 1, oa_TargetEmail = [], oa_TargetName = []\<rparr>"

lemma sample_int_represents: "represents oauth_kind sample_crypt ''k'' sample_int_db []"
  by (simp add: represents_def sample_int_db_def)

lemmas sample_int_eval =
  sample_int_db_def sample_oauth_def sample_crypt_def create_integration_def save_integration_def save_row_def
  oauth_kind_def oauth_secrets_def Encrypt_def strip_credential_def wipe_fields_def write_credential_def Let_def

lemma sample_created:
  "\<exists>r. CreateOAuthIntegration sample_crypt ''k'' no_int_faults sample_int_db sample_oauth =
     (fst (CreateOAuthIntegration sample_crypt ''k'' no_int_faults sample_int_db sample_oauth), Inr r)"
  by (simp add: CreateOAuthIntegration_def sample_int_eval)

theorem integration_repositories_refine_witness:
  "ReadOAuthIntegration sample_crypt ''k'' no_int_faults
     (fst (CreateOAuthIntegration sample_crypt ''k'' no_int_faults sample_int_db sample_oauth)) 1 7 =
   Inr (sample_oauth\<lparr>oa_ID := 7\<rparr>)"
proof -
  let ?db = "fst (CreateOAuthIntegration sample_crypt ''k'' no_int_faults sample_int_db sample_oauth)"
  have create: "creates_as_promised oauth_kind sample_crypt ''k'' CreateOAuthIntegration"
    and read: "reads_as_promised oauth_kind sample_crypt ''k'' ReadOAuthIntegration"
    using integration_repositories_refine [OF sample_crypt_lawful, of "''k''"] by blast+
  obtain r where run: "CreateOAuthIntegration sample_crypt ''k'' no_int_faults sample_int_db sample_oauth = (?db, Inr r)"
    using sample_created by blast
  have "id_next sample_int_db \<noteq> - 1" by (simp add: sample_int_db_def)
  then have "represents oauth_kind sample_crypt ''k'' ?db ([] @ [k_set_id oauth_kind (id_next sample_int_db) sample_oauth])"
    using create run sample_int_represents unfolding creates_as_promised_def
    by (metis (no_types, lifting) no_int_faults_simps(7) sum.case(2))
  then show ?thesis
    using read unfolding reads_as_promised_def by (simp add: oauth_kind_def sample_int_db_def sample_oauth_def)
qed

theorem UpdateOAuth_drops_tokens_witness:
  "\<exists>db' r. UpdateOAuthIntegration sample_crypt ''k'' no_int_faults sample_int_db sample_oauth = (db', Inr r) \<and>
     oa_AccessToken r = [] \<and> oa_AccessToken sample_oauth \<noteq> []"
proof -
  obtain db' r where run: "UpdateOAuthIntegration sample_crypt ''k'' no_int_faults sample_int_db sample_oauth = (db', Inr r)"
    by (simp add: UpdateOAuthIntegration_def DecryptOAuthIntegrationData_def sample_int_eval)
  from UpdateOAuth_drops_tokens [OF sample_crypt_lawful run] have "oa_AccessToken r = []"
    by (simp add: sample_int_db_def)
  then show ?thesis using run by (simp add: sample_oauth_def)
qed

end
