(* ===== verification/Key_Rotation.thy ===== *)
theory Key_Rotation
  imports Integrations
begin

text \<open>
  The rotation of the encryption key (\<open>cmd/migrate/keyrotate/rotate.go\<close>): every table of secrets
  is walked in pages of 100 rows in the order of the ids; a page is decrypted under the old key, a
  row that does not decrypt is wiped, and then each row of the page is encrypted under the new key
  and saved. Ten of the eleven models keep a row's secrets in the row and are rotated here; clusters,
  whose token caches are in another table, and the whole sequence follow in \<open>Rotate_All\<close>.
\<close>

section \<open>The other rows with secrets\<close>

record cluster_candidate =
  cc_ID :: uint
  cc_ProjectID :: uint
  cc_CreatedClusterID :: uint
  cc_Name :: string
  cc_AWSClusterIDGuess :: bytes
  cc_Kubeconfig :: bytes

definition candidate_secrets :: "cluster_candidate field list" where
  "candidate_secrets =
     [(cc_AWSClusterIDGuess, \<lambda>b r. r\<lparr>cc_AWSClusterIDGuess := b\<rparr>), (cc_Kubeconfig, \<lambda>b r. r\<lparr>cc_Kubeconfig := b\<rparr>)]"

definition registry_secrets :: "registry field list" where
  "registry_secrets =
     [(\<lambda>r. tc_Token (rg_TokenCache r), \<lambda>b r. r\<lparr>rg_TokenCache := (rg_TokenCache r)\<lparr>tc_Token := b\<rparr>\<rparr>)]"

definition helm_repo_secrets :: "helm_repo field list" where
  "helm_repo_secrets =
     [(\<lambda>r. tc_Token (hr_TokenCache r), \<lambda>b r. r\<lparr>hr_TokenCache := (hr_TokenCache r)\<lparr>tc_Token := b\<rparr>\<rparr>)]"

definition infra_secrets :: "infra field list" where
  "infra_secrets = [(in_LastApplied, \<lambda>b r. r\<lparr>in_LastApplied := b\<rparr>)]"

definition EncryptClusterCandidateData where
  "EncryptClusterCandidateData cr key = encrypt_fields cr key candidate_secrets"

definition DecryptClusterCandidateData where
  "DecryptClusterCandidateData cr key = decrypt_fields cr key candidate_secrets"

definition EncryptRegistryData where
  "EncryptRegistryData cr key = encrypt_fields cr key registry_secrets"

definition EncryptHelmRepoData where
  "EncryptHelmRepoData cr key = encrypt_fields cr key helm_repo_secrets"

definition EncryptInfraData where
  "EncryptInfraData cr key = encrypt_fields cr key infra_secrets"

definition candidate_kind :: "cluster_candidate kind" where
  "candidate_kind = \<lparr>k_secrets = candidate_secrets, k_stripped = None, k_id = cc_ID,
     k_set_id = (\<lambda>i r. r\<lparr>cc_ID := i\<rparr>), k_project = cc_ProjectID\<rparr>"

definition registry_kind :: "registry kind" where
  "registry_kind = \<lparr>k_secrets = registry_secrets, k_stripped = None, k_id = rg_ID,
     k_set_id = (\<lambda>i r. r\<lparr>rg_ID := i\<rparr>), k_project = rg_ProjectID\<rparr>"

definition helm_repo_kind :: "helm_repo kind" where
  "helm_repo_kind = \<lparr>k_secrets = helm_repo_secrets, k_stripped = None, k_id = hr_ID,
     k_set_id = (\<lambda>i r. r\<lparr>hr_ID := i\<rparr>), k_project = hr_ProjectID\<rparr>"

definition infra_kind :: "infra kind" where
  "infra_kind = \<lparr>k_secrets = infra_secrets, k_stripped = None, k_id = in_ID,
     k_set_id = (\<lambda>i r. r\<lparr>in_ID := i\<rparr>), k_project = in_ProjectID\<rparr>"

lemmas row_secrets_defs =
  candidate_secrets_def registry_secrets_def helm_repo_secrets_def infra_secrets_def

lemmas row_kind_defs = candidate_kind_def registry_kind_def helm_repo_kind_def infra_kind_def

interpretation candidate_row: integration_kind candidate_kind
  by unfold_locales (auto simp: row_kind_defs row_secrets_defs field_laws)

interpretation registry_row: integration_kind registry_kind
  by unfold_locales (auto simp: row_kind_defs row_secrets_defs field_laws)

interpretation helm_repo_row: integration_kind helm_repo_kind
  by unfold_locales (auto simp: row_kind_defs row_secrets_defs field_laws)

interpretation infra_row: integration_kind infra_kind
  by unfold_locales (auto simp: row_kind_defs row_secrets_defs field_laws)

section \<open>Rotating one table\<close>

definition stepSize :: nat where
  "stepSize = 100"

record rotate_faults =
  rf_count :: "go_error option"
  rf_find :: "nat \<Rightarrow> go_error option"
  rf_save :: "uint \<Rightarrow> go_error option"

definition no_rotate_faults :: rotate_faults where
  "no_rotate_faults = \<lparr>rf_count = None, rf_find = (\<lambda>_. None), rf_save = (\<lambda>_. None)\<rparr>"

text \<open>The table's rows in the order of their ids, and how often randomness was read.\<close>

type_synonym 'row rotating = "'row list \<times> nat"

definition decrypt_or_wipe :: "'row kind \<Rightarrow> crypt \<Rightarrow> key \<Rightarrow> 'row \<Rightarrow> 'row" where
  "decrypt_or_wipe k cr oldKey row =
     (case decrypt_fields cr oldKey (k_secrets k) row of
        (row, Some e) \<Rightarrow> wipe_fields (k_secrets k) row
      | (row, None) \<Rightarrow> row)"

fun encrypt_and_save ::
  "'row kind \<Rightarrow> rotate_faults \<Rightarrow> crypt \<Rightarrow> key \<Rightarrow> 'row list \<Rightarrow> 'row rotating \<Rightarrow> 'row rotating \<times> go_error option" where
  "encrypt_and_save k f cr newKey [] st = (st, None)"
| "encrypt_and_save k f cr newKey (row # page) (rows, n) =
     (case encrypt_fields cr newKey (k_secrets k) n row of
        (row, Some e, n) \<Rightarrow> ((rows, n), Some e)
      | (row, None, n) \<Rightarrow>
          (case rf_save f (k_id k row) of
             Some e \<Rightarrow> ((rows, n), Some e)
           | None \<Rightarrow>
               encrypt_and_save k f cr newKey page
                 (map (\<lambda>r. if k_id k r = k_id k row then row else r) rows, n)))"

fun rotate_pages ::
  "'row kind \<Rightarrow> rotate_faults \<Rightarrow> crypt \<Rightarrow> key \<Rightarrow> key \<Rightarrow> nat list \<Rightarrow> 'row rotating \<Rightarrow> 'row rotating \<times> go_error option" where
  "rotate_pages k f cr oldKey newKey [] st = (st, None)"
| "rotate_pages k f cr oldKey newKey (i # is) (rows, n) =
     (case rf_find f i of
        Some e \<Rightarrow> ((rows, n), Some e)
      | None \<Rightarrow>
          (case encrypt_and_save k f cr newKey
                  (map (decrypt_or_wipe k cr oldKey) (take stepSize (drop (i * stepSize) rows))) (rows, n) of
             (st, Some e) \<Rightarrow> (st, Some e)
           | (st, None) \<Rightarrow> rotate_pages k f cr oldKey newKey is st))"

definition rotate_model ::
  "'row kind \<Rightarrow> rotate_faults \<Rightarrow> crypt \<Rightarrow> key \<Rightarrow> key \<Rightarrow> 'row rotating \<Rightarrow> 'row rotating \<times> go_error option" where
  "rotate_model k f cr oldKey newKey st =
     (case rf_count f of
        Some e \<Rightarrow> (st, Some e)
      | None \<Rightarrow> rotate_pages k f cr oldKey newKey [0..<length (fst st) div stepSize + 1] st)"

definition rotateClusterCandidateModel where "rotateClusterCandidateModel = rotate_model candidate_kind"
definition rotateRegistryModel where "rotateRegistryModel = rotate_model registry_kind"
definition rotateHelmRepoModel where "rotateHelmRepoModel = rotate_model helm_repo_kind"
definition rotateInfraModel where "rotateInfraModel = rotate_model infra_kind"
definition rotateKubeIntegrationModel where "rotateKubeIntegrationModel = rotate_model kube_kind"
definition rotateBasicIntegrationModel where "rotateBasicIntegrationModel = rotate_model basic_kind"
definition rotateOIDCIntegrationModel where "rotateOIDCIntegrationModel = rotate_model oidc_kind"
definition rotateOAuthIntegrationModel where "rotateOAuthIntegrationModel = rotate_model oauth_kind"
definition rotateGCPIntegrationModel where "rotateGCPIntegrationModel = rotate_model gcp_kind"
definition rotateAWSIntegrationModel where "rotateAWSIntegrationModel = rotate_model aws_kind"

lemmas rotate_defs =
  rotateClusterCandidateModel_def rotateRegistryModel_def rotateHelmRepoModel_def rotateInfraModel_def
  rotateKubeIntegrationModel_def rotateBasicIntegrationModel_def rotateOIDCIntegrationModel_def
  rotateOAuthIntegrationModel_def rotateGCPIntegrationModel_def rotateAWSIntegrationModel_def

section \<open>Every row exactly once\<close>

text \<open>When nothing fails, one page replaces its rows, and the pages together all rows.\<close>

lemma save_at:
  assumes "distinct (map f (pre @ old # post))" and "f new = f old"
  shows "map (\<lambda>r. if f r = f new then new else r) (pre @ old # post) = pre @ new # post"
proof -
  have "map (\<lambda>r. if f r = f new then new else r) xs = xs" if "f old \<notin> f ` set xs" for xs
    using that assms(2) by (intro map_idI) (metis image_eqI)
  then show ?thesis using assms by (simp add: image_iff)
qed

lemma rotate_empty_pages:
  "\<forall>i\<in>set is. length (fst st) \<le> i * stepSize \<Longrightarrow>
   rotate_pages k no_rotate_faults cr old new is st = (st, None)"
  by (induction "is") (cases st; simp add: no_rotate_faults_def)+

definition randomness :: "crypt \<Rightarrow> bool" where
  "randomness cr \<longleftrightarrow> (\<forall>i. \<exists>b. cr_random cr i = Inr b)"

lemma encrypt_fields_total:
  "randomness cr \<Longrightarrow> \<exists>stored n'. encrypt_fields cr key fs n row = (stored, None, n')"
proof (induction fs arbitrary: n row)
  case (Cons f fs)
  obtain get put where f: "f = (get, put)" by (cases f)
  show ?case
  proof (cases "get row = []")
    case True
    then show ?thesis using Cons by (simp add: f)
  next
    case False
    moreover obtain b where "cr_random cr n = Inr b" using Cons.prems unfolding randomness_def by blast
    ultimately show ?thesis using Cons by (simp add: f Encrypt_def)
  qed
qed simp

context integration_kind
begin

lemma encrypt_and_save_all:
  assumes "lawful_crypt cr" and "randomness cr" and "distinct (map (k_id k) (pre @ old @ post))"
    and "list_all2 (\<lambda>r s. k_id k r = k_id k s) page old"
  shows "\<exists>stored n'. encrypt_and_save k no_rotate_faults cr key page (pre @ old @ post, n) =
      ((pre @ stored @ post, n'), None) \<and>
    list_all2 (sealed_row cr key (k_secrets k)) page stored"
  using assms(4,3)
proof (induction page old arbitrary: pre n rule: list_all2_induct)
  case (Cons row page r old)
  obtain s n1 where enc: "encrypt_fields cr key (k_secrets k) n row = (s, None, n1)"
    using encrypt_fields_total [OF assms(2), of key "k_secrets k" n row] by blast
  have sealed: "sealed_row cr key (k_secrets k) row s"
    by (rule encrypt_fields_sealed [OF assms(1) secrets enc])
  have id: "k_id k s = k_id k r" using sealed_row_ids(1) [OF sealed] Cons.hyps(1) by simp
  have saved: "map (\<lambda>x. if k_id k x = k_id k s then s else x) (pre @ (r # old) @ post) = (pre @ [s]) @ old @ post"
    using save_at [of "k_id k" pre r "old @ post" s] Cons.prems id by simp
  have "distinct (map (k_id k) ((pre @ [s]) @ old @ post))" using Cons.prems id by auto
  from Cons.IH [OF this, of n1] obtain stored n' where
    "encrypt_and_save k no_rotate_faults cr key page ((pre @ [s]) @ old @ post, n1) =
       (((pre @ [s]) @ stored @ post, n'), None)"
    "list_all2 (sealed_row cr key (k_secrets k)) page stored" by blast
  then show ?case
    using sealed enc saved
    by (intro exI [of _ "s # stored"] exI [of _ n']) (simp add: no_rotate_faults_def)
qed auto

text \<open>The page under work splits the table; the rotated rows are before it.\<close>

lemma rotate_pages_all:
  assumes cr: "lawful_crypt cr" "randomness cr"
    and ids: "distinct (map (k_id k) (rotated @ rest))" and len: "length rotated = i * stepSize"
    and long: "length rest \<le> m * stepSize"
    and same: "\<And>r. k_id k (decrypt_or_wipe k cr old r) = k_id k r"
  shows "\<exists>stored n'. rotate_pages k no_rotate_faults cr old new [i..<i + m] (rotated @ rest, n) =
      ((rotated @ stored, n'), None) \<and>
    list_all2 (sealed_row cr new (k_secrets k)) (map (decrypt_or_wipe k cr old) rest) stored"
  using ids len long
proof (induction m arbitrary: i rotated rest n)
  case 0
  then show ?case by simp
next
  case (Suc m)
  let ?now = "take stepSize rest" and ?later = "drop stepSize rest"
  have page: "take stepSize (drop (i * stepSize) (rotated @ rest)) = ?now" using Suc.prems(2) by simp
  have "list_all2 (\<lambda>r s. k_id k r = k_id k s) (map (decrypt_or_wipe k cr old) ?now) ?now"
    using same by (simp add: list_all2_conv_all_nth)
  from encrypt_and_save_all [OF cr _ this, of rotated ?later] Suc.prems(1)
  obtain s1 n1 where s1: "encrypt_and_save k no_rotate_faults cr new (map (decrypt_or_wipe k cr old) ?now)
      (rotated @ rest, n) = ((rotated @ s1 @ ?later, n1), None)"
    "list_all2 (sealed_row cr new (k_secrets k)) (map (decrypt_or_wipe k cr old) ?now) s1"
    by (metis append_take_drop_id)
  have len1: "length s1 = length ?now" using list_all2_lengthD [OF s1(2)] by simp
  have "list_all2 (\<lambda>r s. k_id k s = k_id k r) (map (decrypt_or_wipe k cr old) ?now) s1"
    by (rule list_all2_mono [OF s1(2)]) (rule sealed_row_ids(1))
  then have ids1: "map (k_id k) s1 = map (k_id k) ?now"
    using same len1 by (intro nth_equalityI) (simp_all add: list_all2_conv_all_nth del: length_take nth_take)
  have "[i..<i + Suc m] = i # [Suc i..<Suc i + m]" by (simp add: upt_conv_Cons)
  then have unfold: "rotate_pages k no_rotate_faults cr old new [i..<i + Suc m] (rotated @ rest, n) =
      rotate_pages k no_rotate_faults cr old new [Suc i..<Suc i + m] (rotated @ s1 @ ?later, n1)"
    using s1(1) page by (simp add: no_rotate_faults_def)
  show ?case
  proof (cases "stepSize \<le> length rest")
    case True
    have "distinct (map (k_id k) ((rotated @ s1) @ ?later))"
      using Suc.prems(1) ids1 by (metis append_assoc append_take_drop_id map_append)
    moreover have "length (rotated @ s1) = Suc i * stepSize" using Suc.prems(2) len1 True by simp
    moreover have "length ?later \<le> m * stepSize" using Suc.prems(3) by simp
    ultimately obtain s2 n2 where
      "rotate_pages k no_rotate_faults cr old new [Suc i..<Suc i + m] ((rotated @ s1) @ ?later, n1) =
         (((rotated @ s1) @ s2, n2), None)"
      "list_all2 (sealed_row cr new (k_secrets k)) (map (decrypt_or_wipe k cr old) ?later) s2"
      using Suc.IH by blast
    moreover have "list_all2 (sealed_row cr new (k_secrets k)) (map (decrypt_or_wipe k cr old) rest) (s1 @ s2)"
      using s1(2) calculation(2) by (metis append_take_drop_id list_all2_appendI map_append)
    ultimately show ?thesis using unfold by auto
  next
    case False
    then have later: "?later = []" and now: "?now = rest" by simp_all
    have "length (rotated @ s1) \<le> Suc i * stepSize" using len1 Suc.prems(2) False by simp
    then have "rotate_pages k no_rotate_faults cr old new [Suc i..<Suc i + m] (rotated @ s1, n1) =
        ((rotated @ s1, n1), None)"
      by (intro rotate_empty_pages ballI, unfold fst_conv)
        (erule order_trans, rule mult_le_mono1, simp only: atLeastLessThan_iff set_upt)
    then show ?thesis using unfold s1(2) now later by auto
  qed
qed

lemma decrypt_id: "set fs \<subseteq> set (k_secrets k) \<Longrightarrow> k_id k (fst (decrypt_fields cr key fs r)) = k_id k r"
proof (induction fs arbitrary: r)
  case (Cons f fs)
  obtain get put where f: "f = (get, put)" by (cases f)
  have "k_id k (put b r) = k_id k r" for b r using field_id [of f b r] Cons.prems by (simp add: f)
  then show ?case using Cons by (auto simp: f split: sum.split)
qed simp

lemma decrypt_or_wipe_id: "k_id k (decrypt_or_wipe k cr key r) = k_id k r"
  using decrypt_id [OF order_refl, of cr key r] wipe_id [OF order_refl]
  by (auto simp: decrypt_or_wipe_def split: prod.splits option.splits)

lemma rotate_model_all:
  assumes "lawful_crypt cr" "randomness cr" and "distinct (map (k_id k) rows)"
  shows "\<exists>stored n'. rotate_model k no_rotate_faults cr old new (rows, n) = ((stored, n'), None) \<and>
    list_all2 (sealed_row cr new (k_secrets k)) (map (decrypt_or_wipe k cr old) rows) stored"
proof -
  have "length rows \<le> (length rows div stepSize + 1) * stepSize"
    using div_mult_mod_eq [of "length rows" stepSize] by (simp add: stepSize_def)
  from rotate_pages_all [OF assms(1,2), of "[]" rows 0, OF _ _ this decrypt_or_wipe_id] assms(3)
  show ?thesis by (simp add: rotate_model_def no_rotate_faults_def)
qed

lemma decrypt_or_wipe_sealed:
  assumes "lawful_crypt cr" and "list_all2 (sealed_row cr old (k_secrets k)) plain rows"
  shows "map (decrypt_or_wipe k cr old) rows = plain"
  using assms(2)
  by (induction rule: list_all2_induct)
    (simp_all add: decrypt_or_wipe_def decrypt_fields_sealed [OF assms(1) secrets])

lemma rotate_model_sealed:
  assumes cr: "lawful_crypt cr" "randomness cr" and "distinct (map (k_id k) plain)"
    and sealed: "list_all2 (sealed_row cr old (k_secrets k)) plain rows"
  shows "\<exists>stored n'. rotate_model k no_rotate_faults cr old new (rows, n) = ((stored, n'), None) \<and>
    list_all2 (sealed_row cr new (k_secrets k)) plain stored"
proof -
  have "list_all2 (\<lambda>r s. k_id k s = k_id k r) plain rows"
    by (rule list_all2_mono [OF sealed]) (rule sealed_row_ids(1))
  then have "map (k_id k) rows = map (k_id k) plain" by (induction rule: list_all2_induct) simp_all
  then have "distinct (map (k_id k) rows)" using assms(3) by metis
  from rotate_model_all [OF cr this] show ?thesis using decrypt_or_wipe_sealed [OF cr(1) sealed] by metis
qed

end

end
