(* ===== verification/Rotate_All.thy ===== *)
theory Rotate_All
  imports Key_Rotation
begin

text \<open>
  The rest of the rotation of the encryption key (\<open>cmd/migrate/keyrotate/rotate.go\<close>): clusters,
  whose tokens are in a table of their own, and \<open>Rotate\<close>, the eleven models one after the other.
  With the theorems that nothing is lost by a rotation, and what a second run and a cluster that
  does not decrypt come to.
\<close>

section \<open>Clusters (\<open>internal/repository/gorm/cluster.go\<close>)\<close>

definition cluster_secrets :: "cluster field list" where
  "cluster_secrets =
     [(cl_CertificateAuthorityData, \<lambda>b r. r\<lparr>cl_CertificateAuthorityData := b\<rparr>),
      (\<lambda>r. tc_Token (cl_TokenCache r), \<lambda>b r. r\<lparr>cl_TokenCache := (cl_TokenCache r)\<lparr>tc_Token := b\<rparr>\<rparr>)]"

definition EncryptClusterData where
  "EncryptClusterData cr key = encrypt_fields cr key cluster_secrets"

text \<open>A token that does not decrypt is emptied, and no error.\<close>

definition DecryptClusterRow :: "crypt \<Rightarrow> key \<Rightarrow> cluster \<Rightarrow> cluster \<times> go_error option" where
  "DecryptClusterRow cr key c =
     (case decrypt_fields cr key [hd cluster_secrets] c of
        (c, Some e) \<Rightarrow> (c, Some e)
      | (c, None) \<Rightarrow>
          (if tc_Token (cl_TokenCache c) \<noteq> []
           then (c\<lparr>cl_TokenCache := (cl_TokenCache c)\<lparr>tc_Token :=
                  (case Decrypt cr (tc_Token (cl_TokenCache c)) key of Inl e \<Rightarrow> [] | Inr plaintext \<Rightarrow> plaintext)\<rparr>\<rparr>, None)
           else (c, None)))"

definition cluster_kind :: "cluster kind" where
  "cluster_kind = \<lparr>k_secrets = cluster_secrets, k_stripped = None, k_id = cl_ID,
     k_set_id = (\<lambda>i r. r\<lparr>cl_ID := i\<rparr>), k_project = cl_ProjectID\<rparr>"

interpretation cluster_row: integration_kind cluster_kind
  by unfold_locales (auto simp: cluster_kind_def cluster_secrets_def field_laws)

section \<open>Rotating the clusters\<close>

text \<open>The token cache of a cluster is not stored with it.\<close>

record cluster_tables =
  ct_clusters :: "cluster list"
  ct_caches :: "token_cache list"
  ct_next :: uint
  ct_draws :: nat

record cluster_faults =
  cf_count :: "go_error option"
  cf_find :: "nat \<Rightarrow> go_error option"
  cf_attach :: "uint \<Rightarrow> bool"
  cf_delete_cache :: "uint \<Rightarrow> go_error option"
  cf_save :: "uint \<Rightarrow> go_error option"
  cf_save_cache :: "uint \<Rightarrow> go_error option"

definition no_cluster_faults :: cluster_faults where
  "no_cluster_faults = \<lparr>cf_count = None, cf_find = (\<lambda>_. None), cf_attach = (\<lambda>_. False),
     cf_delete_cache = (\<lambda>_. None), cf_save = (\<lambda>_. None), cf_save_cache = (\<lambda>_. None)\<rparr>"

definition attach_cache :: "token_cache list \<Rightarrow> cluster \<Rightarrow> cluster" where
  "attach_cache caches c =
     (case find (\<lambda>t. tc_ID t = cl_TokenCacheID c) caches of
        None \<Rightarrow> c
      | Some t \<Rightarrow> c\<lparr>cl_TokenCache := t\<rparr>)"

fun decrypt_clusters ::
  "cluster_faults \<Rightarrow> crypt \<Rightarrow> key \<Rightarrow> cluster list \<Rightarrow> token_cache list \<Rightarrow>
     cluster list \<times> token_cache list \<times> go_error option" where
  "decrypt_clusters f cr oldKey [] caches = ([], caches, None)"
| "decrypt_clusters f cr oldKey (c # page) caches =
     (case DecryptClusterRow cr oldKey (if cf_attach f (cl_ID c) then c else attach_cache caches c) of
        (c, None) \<Rightarrow>
          (case decrypt_clusters f cr oldKey page caches of
             (page, caches, e) \<Rightarrow> (c # page, caches, e))
      | (c, Some _) \<Rightarrow>
          (case cf_delete_cache f (cl_TokenCacheID c) of
             Some e \<Rightarrow> ([], caches, Some e)
           | None \<Rightarrow>
               (case decrypt_clusters f cr oldKey page
                       (filter (\<lambda>t. tc_ID t \<noteq> cl_TokenCacheID c) caches) of
                  (page, caches, e) \<Rightarrow> (c\<lparr>cl_TokenCacheID := 0\<rparr> # page, caches, e))))"

definition save_cluster :: "cluster \<Rightarrow> cluster_tables \<Rightarrow> cluster_tables" where
  "save_cluster c st =
     st\<lparr>ct_clusters := map (\<lambda>r. if cl_ID r = cl_ID c then c\<lparr>cl_TokenCache := empty_token_cache\<rparr> else r)
       (ct_clusters st)\<rparr>"

text \<open>\<open>Save\<close> updates the row of the id, and creates a row if there is none.\<close>

definition save_cache :: "token_cache \<Rightarrow> cluster_tables \<Rightarrow> cluster_tables" where
  "save_cache t st =
     (if tc_ID t = 0
      then st\<lparr>ct_caches := ct_caches st @ [t\<lparr>tc_ID := ct_next st\<rparr>], ct_next := ct_next st + 1\<rparr>
      else if tc_ID t \<in> tc_ID ` set (ct_caches st)
      then st\<lparr>ct_caches := map (\<lambda>r. if tc_ID r = tc_ID t then t else r) (ct_caches st)\<rparr>
      else st\<lparr>ct_caches := ct_caches st @ [t]\<rparr>)"

fun save_clusters ::
  "cluster_faults \<Rightarrow> crypt \<Rightarrow> key \<Rightarrow> cluster list \<Rightarrow> cluster_tables \<Rightarrow> cluster_tables \<times> go_error option" where
  "save_clusters f cr newKey [] st = (st, None)"
| "save_clusters f cr newKey (c # page) st =
     (case EncryptClusterData cr newKey (ct_draws st) c of
        (c, Some e, n) \<Rightarrow> (st\<lparr>ct_draws := n\<rparr>, Some e)
      | (c, None, n) \<Rightarrow>
          (let st = st\<lparr>ct_draws := n\<rparr>
           in case cf_save f (cl_ID c) of
                Some e \<Rightarrow> (st, Some e)
              | None \<Rightarrow>
                  (case cf_save_cache f (cl_ID c) of
                     Some e \<Rightarrow> (save_cluster c st, Some e)
                   | None \<Rightarrow>
                       save_clusters f cr newKey page
                         (save_cache (cl_TokenCache c) (save_cluster c st)))))"

fun rotate_cluster_pages ::
  "cluster_faults \<Rightarrow> crypt \<Rightarrow> key \<Rightarrow> key \<Rightarrow> nat list \<Rightarrow> cluster_tables \<Rightarrow> cluster_tables \<times> go_error option" where
  "rotate_cluster_pages f cr oldKey newKey [] st = (st, None)"
| "rotate_cluster_pages f cr oldKey newKey (i # is) st =
     (case cf_find f i of
        Some e \<Rightarrow> (st, Some e)
      | None \<Rightarrow>
          (case decrypt_clusters f cr oldKey (take stepSize (drop (i * stepSize) (ct_clusters st))) (ct_caches st) of
             (page, caches, Some e) \<Rightarrow> (st\<lparr>ct_caches := caches\<rparr>, Some e)
           | (page, caches, None) \<Rightarrow>
               (case save_clusters f cr newKey page (st\<lparr>ct_caches := caches\<rparr>) of
                  (st, Some e) \<Rightarrow> (st, Some e)
                | (st, None) \<Rightarrow> rotate_cluster_pages f cr oldKey newKey is st)))"

definition rotateClusterModel ::
  "cluster_faults \<Rightarrow> crypt \<Rightarrow> key \<Rightarrow> key \<Rightarrow> cluster_tables \<Rightarrow> cluster_tables \<times> go_error option" where
  "rotateClusterModel f cr oldKey newKey st =
     (case cf_count f of
        Some e \<Rightarrow> (st, Some e)
      | None \<Rightarrow> rotate_cluster_pages f cr oldKey newKey [0..<length (ct_clusters st) div stepSize + 1] st)"

section \<open>The clusters with their caches\<close>

text \<open>
  With every cluster owning a token cache, the two tables are one table of whole clusters, and on
  rows that decrypt the rotation of clusters is the rotation of that table.
\<close>

definition owned :: "cluster_tables \<Rightarrow> bool" where
  "owned st \<longleftrightarrow>
     distinct (map cl_ID (ct_clusters st)) \<and> distinct (map cl_TokenCacheID (ct_clusters st)) \<and>
     list_all (\<lambda>c. cl_TokenCache c = empty_token_cache \<and> cl_TokenCacheID c \<noteq> 0 \<and>
       cl_TokenCacheID c \<in> tc_ID ` set (ct_caches st)) (ct_clusters st)"

definition whole_clusters :: "cluster_tables \<Rightarrow> cluster list" where
  "whole_clusters st = map (attach_cache (ct_caches st)) (ct_clusters st)"

definition whole :: "cluster \<Rightarrow> bool" where
  "whole c \<longleftrightarrow> tc_ID (cl_TokenCache c) = cl_TokenCacheID c"

lemma attach_simps [simp]:
  "cl_ID (attach_cache cs c) = cl_ID c" "cl_TokenCacheID (attach_cache cs c) = cl_TokenCacheID c"
  by (simp_all add: attach_cache_def split: option.split)

lemma attach_whole: "cl_TokenCacheID c \<in> tc_ID ` set cs \<Longrightarrow> whole (attach_cache cs c)"
  by (auto simp: attach_cache_def whole_def find_None_iff find_Some_iff split: option.split)

lemma DecryptClusterRow_sealed:
  assumes "lawful_crypt cr" and "sealed_row cr key cluster_secrets plain c"
  shows "DecryptClusterRow cr key c = (plain, None)"
proof -
  have all: "decrypt_fields cr key cluster_secrets c = (plain, None)"
    using decrypt_fields_sealed [OF assms(1) _ assms(2)] cluster_row.secrets by (simp add: cluster_kind_def)
  have "tc_Token (cl_TokenCache c) \<noteq> [] \<Longrightarrow> \<exists>p. Decrypt cr (tc_Token (cl_TokenCache c)) key = Inr p"
    using assms(2) Decrypt_sealed [OF assms(1)] by (auto simp: sealed_row_def cluster_secrets_def split: if_splits)
  then show ?thesis using all
    by (auto simp: DecryptClusterRow_def cluster_secrets_def split: sum.splits if_splits)
qed

lemma decrypt_clusters_sealed:
  assumes "lawful_crypt cr"
    and "\<forall>c\<in>set page. \<exists>plain. sealed_row cr key cluster_secrets plain (attach_cache caches c)"
  shows "decrypt_clusters no_cluster_faults cr key page caches =
    (map (decrypt_or_wipe cluster_kind cr key) (map (attach_cache caches) page), caches, None)"
  using assms(2)
proof (induction page)
  case (Cons c page)
  then obtain plain where sealed: "sealed_row cr key cluster_secrets plain (attach_cache caches c)" by auto
  have "decrypt_or_wipe cluster_kind cr key (attach_cache caches c) = plain"
    using decrypt_fields_sealed [OF assms(1) _ sealed] cluster_row.secrets
    by (simp add: decrypt_or_wipe_def cluster_kind_def)
  then show ?case
    using Cons DecryptClusterRow_sealed [OF assms(1) sealed] by (simp add: no_cluster_faults_def)
qed simp

text \<open>The cache of one cluster is not another's, so saving a whole cluster changes just that one.\<close>

lemma attach_other:
  "cl_TokenCacheID c \<noteq> tc_ID t \<Longrightarrow>
   attach_cache (map (\<lambda>r. if tc_ID r = tc_ID t then t else r) cs) c = attach_cache cs c"
  by (induction cs) (auto simp: attach_cache_def)

lemma attach_own:
  "cl_TokenCacheID c = tc_ID t \<Longrightarrow> tc_ID t \<in> tc_ID ` set cs \<Longrightarrow>
   attach_cache (map (\<lambda>r. if tc_ID r = tc_ID t then t else r) cs) c = c\<lparr>cl_TokenCache := t\<rparr>"
  by (induction cs) (auto simp: attach_cache_def)

lemma map_tc_ID: "tc_ID ` set (map (\<lambda>r. if tc_ID r = tc_ID t then t else r) cs) = tc_ID ` set cs"
  by (induction cs) auto


lemma attach_stored:
  "attach_cache cs (c\<lparr>cl_TokenCache := u\<rparr>) =
     (case find (\<lambda>t. tc_ID t = cl_TokenCacheID c) cs of
        None \<Rightarrow> c\<lparr>cl_TokenCache := u\<rparr> | Some t \<Rightarrow> c\<lparr>cl_TokenCache := t\<rparr>)"
  by (simp add: attach_cache_def split: option.split)

definition the_keys :: "cluster_tables \<Rightarrow> (uint \<times> uint) list" where
  "the_keys st = map (\<lambda>c. (cl_ID c, cl_TokenCacheID c)) (ct_clusters st)"

lemma save_whole:
  assumes own: "owned st" and whole: "whole c" and mem: "(cl_ID c, cl_TokenCacheID c) \<in> set (the_keys st)"
  shows "owned (save_cache (cl_TokenCache c) (save_cluster c st))"
    and "whole_clusters (save_cache (cl_TokenCache c) (save_cluster c st)) =
      map (\<lambda>r. if cl_ID r = cl_ID c then c else r) (whole_clusters st)"
    and "the_keys (save_cache (cl_TokenCache c) (save_cluster c st)) = the_keys st"
    and "ct_draws (save_cache (cl_TokenCache c) (save_cluster c st)) = ct_draws st"
proof -
  let ?t = "cl_TokenCache c" and ?cs = "ct_clusters st"
  let ?row = "\<lambda>r. if cl_ID r = cl_ID c then c\<lparr>cl_TokenCache := empty_token_cache\<rparr> else r"
  let ?caches = "map (\<lambda>r. if tc_ID r = tc_ID ?t then ?t else r) (ct_caches st)"
  obtain old where old: "old \<in> set ?cs" "cl_ID old = cl_ID c" "cl_TokenCacheID old = cl_TokenCacheID c"
    using mem by (auto simp: the_keys_def)
  have ids: "distinct (map cl_ID ?cs)" "distinct (map cl_TokenCacheID ?cs)" using own by (simp_all add: owned_def)
  have tc: "tc_ID ?t = cl_TokenCacheID c" using whole by (simp add: whole_def)
  have t: "tc_ID ?t \<in> tc_ID ` set (ct_caches st)" "tc_ID ?t \<noteq> 0"
    using own old tc unfolding owned_def list_all_iff by metis+
  have st': "save_cache ?t (save_cluster c st) = st\<lparr>ct_clusters := map ?row ?cs, ct_caches := ?caches\<rparr>"
    using t by (simp add: save_cache_def save_cluster_def)
  have same: "r = old" if "r \<in> set ?cs" "cl_ID r = cl_ID c \<or> cl_TokenCacheID r = cl_TokenCacheID c" for r
    using that old ids unfolding distinct_map by (metis inj_onD)
  have keys: "cl_ID (?row r) = cl_ID r \<and> cl_TokenCacheID (?row r) = cl_TokenCacheID r" if "r \<in> set ?cs" for r
    using same [OF that] old by auto
  then have maps: "map cl_ID (map ?row ?cs) = map cl_ID ?cs"
    "map cl_TokenCacheID (map ?row ?cs) = map cl_TokenCacheID ?cs" by simp_all
  have "list_all (\<lambda>c. cl_TokenCache c = empty_token_cache \<and> cl_TokenCacheID c \<noteq> 0 \<and>
       cl_TokenCacheID c \<in> tc_ID ` set ?caches) (map ?row ?cs)"
    using own t tc unfolding map_tc_ID by (auto simp: owned_def list_all_iff)
  then show "owned (save_cache ?t (save_cluster c st))"
    unfolding st' owned_def using maps ids by (simp del: map_map)
  have "attach_cache ?caches (?row r) = (if cl_ID (attach_cache (ct_caches st) r) = cl_ID c then c else attach_cache (ct_caches st) r)"
    if "r \<in> set ?cs" for r
  proof (cases "cl_ID r = cl_ID c")
    case True
    have "cl_TokenCacheID (c\<lparr>cl_TokenCache := empty_token_cache\<rparr>) = tc_ID ?t" using tc by simp
    from attach_own [OF this t(1)] show ?thesis using True by simp
  next
    case False
    then have "cl_TokenCacheID r \<noteq> tc_ID ?t" using same [OF that] old tc by auto
    from attach_other [OF this] False show ?thesis by simp
  qed
  then show "whole_clusters (save_cache ?t (save_cluster c st)) =
      map (\<lambda>r. if cl_ID r = cl_ID c then c else r) (whole_clusters st)"
    by (simp add: st' whole_clusters_def)
  show "the_keys (save_cache ?t (save_cluster c st)) = the_keys st"
    using keys by (simp add: st' the_keys_def)
  show "ct_draws (save_cache ?t (save_cluster c st)) = ct_draws st" by (simp add: st')
qed

lemma encrypted_keys:
  assumes "encrypt_fields cr key fs n c = (c', e, n')" and "set fs \<subseteq> set cluster_secrets"
  shows "cl_ID c' = cl_ID c" "cl_TokenCacheID c' = cl_TokenCacheID c" "whole c' = whole c"
proof -
  have "cl_ID c' = cl_ID c \<and> cl_TokenCacheID c' = cl_TokenCacheID c \<and> whole c' = whole c"
    using assms
  proof (induction fs arbitrary: n c)
    case (Cons f fs)
    obtain get put where f: "f = (get, put)" by (cases f)
    have put: "cl_ID (put b c) = cl_ID c" "cl_TokenCacheID (put b c) = cl_TokenCacheID c" "whole (put b c) = whole c" for b c
      using Cons.prems(2) by (auto simp: f cluster_secrets_def whole_def)
    show ?case
    proof (cases "get c = []")
      case True
      then show ?thesis using Cons by (simp add: f)
    next
      case False
      then show ?thesis using Cons.prems Cons.IH put by (auto simp: f split: sum.splits)
    qed
  qed simp
  then show "cl_ID c' = cl_ID c" "cl_TokenCacheID c' = cl_TokenCacheID c" "whole c' = whole c" by simp_all
qed

lemma decrypted_keys:
  "cl_ID (decrypt_or_wipe cluster_kind cr key c) = cl_ID c"
  "cl_TokenCacheID (decrypt_or_wipe cluster_kind cr key c) = cl_TokenCacheID c"
  "whole (decrypt_or_wipe cluster_kind cr key c) = whole c"
  by (auto simp: decrypt_or_wipe_def cluster_kind_def cluster_secrets_def wipe_fields_def whole_def split: sum.split)

lemma save_clusters_refines:
  assumes "owned st" and "\<forall>c\<in>set page. whole c \<and> (cl_ID c, cl_TokenCacheID c) \<in> set (the_keys st)"
    and "save_clusters no_cluster_faults cr key page st = (st', e)"
  shows "encrypt_and_save cluster_kind no_rotate_faults cr key page (whole_clusters st, ct_draws st) =
      ((whole_clusters st', ct_draws st'), e) \<and> owned st' \<and> the_keys st' = the_keys st"
  using assms
proof (induction page arbitrary: st)
  case (Cons c page)
  obtain c1 e1 n where enc: "encrypt_fields cr key cluster_secrets (ct_draws st) c = (c1, e1, n)"
    by (cases "encrypt_fields cr key cluster_secrets (ct_draws st) c" rule: prod_cases3)
  note keys = encrypted_keys [OF enc order_refl]
  have own: "owned (st\<lparr>ct_draws := n\<rparr>)" and same: "the_keys (st\<lparr>ct_draws := n\<rparr>) = the_keys st"
    and whole: "whole_clusters (st\<lparr>ct_draws := n\<rparr>) = whole_clusters st"
    using Cons.prems(1) by (simp_all add: owned_def the_keys_def whole_clusters_def)
  show ?case
  proof (cases e1)
    case (Some a)
    then show ?thesis using Cons.prems enc own same whole
      by (auto simp: EncryptClusterData_def cluster_kind_def)
  next
    case None
    let ?st = "save_cache (cl_TokenCache c1) (save_cluster c1 (st\<lparr>ct_draws := n\<rparr>))"
    have mem: "(cl_ID c1, cl_TokenCacheID c1) \<in> set (the_keys (st\<lparr>ct_draws := n\<rparr>))" and "whole c1"
      using Cons.prems(2) keys same by auto
    note saved = save_whole [OF own \<open>whole c1\<close> mem]
    have "save_clusters no_cluster_faults cr key page ?st = (st', e)"
      using Cons.prems(3) enc None by (simp add: EncryptClusterData_def no_cluster_faults_def Let_def)
    from Cons.IH [OF saved(1) _ this] Cons.prems(2) saved(3) same
    have "encrypt_and_save cluster_kind no_rotate_faults cr key page (whole_clusters ?st, ct_draws ?st) =
      ((whole_clusters st', ct_draws st'), e) \<and> owned st' \<and> the_keys st' = the_keys st" by simp
    then show ?thesis
      using enc None saved(2,4) whole by (simp add: cluster_kind_def no_rotate_faults_def)
  qed
qed simp

lemma rotate_cluster_pages_refines:
  assumes cr: "lawful_crypt cr" "randomness cr" and own: "owned st"
    and sealed: "\<forall>c\<in>set (drop (i * stepSize) (whole_clusters st)). \<exists>plain. sealed_row cr old cluster_secrets plain c"
    and run: "rotate_cluster_pages no_cluster_faults cr old new [i..<i + m] st = (st', e)"
  shows "rotate_pages cluster_kind no_rotate_faults cr old new [i..<i + m] (whole_clusters st, ct_draws st) =
    ((whole_clusters st', ct_draws st'), e) \<and> owned st' \<and> the_keys st' = the_keys st"
  using own sealed run
proof (induction m arbitrary: i st)
  case (Suc m)
  let ?rows = "drop (i * stepSize) (whole_clusters st)"
  let ?raw = "take stepSize (drop (i * stepSize) (ct_clusters st))"
  let ?page = "map (decrypt_or_wipe cluster_kind cr old) (take stepSize ?rows)"
  have raw: "map (attach_cache (ct_caches st)) ?raw = take stepSize ?rows"
    by (simp add: whole_clusters_def take_map drop_map)
  have "\<exists>plain. sealed_row cr old cluster_secrets plain (attach_cache (ct_caches st) c)" if "c \<in> set ?raw" for c
    using Suc.prems(2) raw that by (metis imageI in_set_takeD list.set_map)
  then have dec: "decrypt_clusters no_cluster_faults cr old ?raw (ct_caches st) = (?page, ct_caches st, None)"
    using decrypt_clusters_sealed [OF cr(1)] unfolding raw [symmetric] by blast
  have "whole c \<and> (cl_ID c, cl_TokenCacheID c) \<in> set (the_keys st)" if "c \<in> set ?page" for c
  proof -
    have "c \<in> decrypt_or_wipe cluster_kind cr old ` attach_cache (ct_caches st) ` set ?raw"
      using that unfolding raw [symmetric] set_map .
    then obtain r where r: "r \<in> set (ct_clusters st)" "c = decrypt_or_wipe cluster_kind cr old (attach_cache (ct_caches st) r)"
      by (auto dest: in_set_takeD in_set_dropD)
    then show ?thesis
      using Suc.prems(1) attach_whole by (auto simp: decrypted_keys owned_def list_all_iff the_keys_def)
  qed
  moreover obtain st1 e1 where save: "save_clusters no_cluster_faults cr new ?page st = (st1, e1)"
    by (cases "save_clusters no_cluster_faults cr new ?page st")
  ultimately have ref: "encrypt_and_save cluster_kind no_rotate_faults cr new ?page (whole_clusters st, ct_draws st) =
      ((whole_clusters st1, ct_draws st1), e1)" and own1: "owned st1" and keys1: "the_keys st1 = the_keys st"
    using save_clusters_refines [OF Suc.prems(1)] by blast+
  have "distinct (map cl_ID (whole_clusters st))"
    using Suc.prems(1) by (simp add: owned_def whole_clusters_def comp_def)
  then have "distinct (map (k_id cluster_kind) (take (i * stepSize) (whole_clusters st) @ take stepSize ?rows @ drop stepSize ?rows))"
    by (simp only: append_take_drop_id) (simp add: cluster_kind_def)
  moreover have "list_all2 (\<lambda>r s. k_id cluster_kind r = k_id cluster_kind s) ?page (take stepSize ?rows)"
    by (simp add: list_all2_conv_all_nth cluster_row.decrypt_or_wipe_id)
  ultimately obtain stored n' where all: "encrypt_and_save cluster_kind no_rotate_faults cr new ?page
        (take (i * stepSize) (whole_clusters st) @ take stepSize ?rows @ drop stepSize ?rows, ct_draws st) =
      ((take (i * stepSize) (whole_clusters st) @ stored @ drop stepSize ?rows, n'), None)"
    "list_all2 (sealed_row cr new (k_secrets cluster_kind)) ?page stored"
    using cluster_row.encrypt_and_save_all [OF cr] by blast
  have "length stored = length (take stepSize ?rows)" using list_all2_lengthD [OF all(2)] by simp
  moreover have whole1: "whole_clusters st1 = take (i * stepSize) (whole_clusters st) @ stored @ drop stepSize ?rows"
    and e1: "e1 = None" using all(1) ref unfolding append_take_drop_id by (simp_all del: drop_drop)
  ultimately have "drop (Suc i * stepSize) (whole_clusters st1) = drop stepSize ?rows"
    by (cases "stepSize + i * stepSize \<le> length (whole_clusters st)") auto
  then have sealed1: "\<forall>c\<in>set (drop (Suc i * stepSize) (whole_clusters st1)). \<exists>plain. sealed_row cr old cluster_secrets plain c"
    using Suc.prems(2) by (metis in_set_dropD)
  have upt: "[i..<i + Suc m] = i # [Suc i..<Suc i + m]" by (simp add: upt_conv_Cons)
  have "rotate_cluster_pages no_cluster_faults cr old new [Suc i..<Suc i + m] st1 = (st', e)"
    using Suc.prems(3) dec save e1 unfolding upt by (simp add: no_cluster_faults_def)
  from Suc.IH [OF own1 sealed1 this] show ?case
    using ref e1 keys1 unfolding upt by (simp add: no_rotate_faults_def)
qed simp


text \<open>So after the rotation every whole cluster is sealed under the new key.\<close>

lemma rotateClusterModel_all:
  assumes cr: "lawful_crypt cr" "randomness cr" and own: "owned st"
    and sealed: "list_all2 (sealed_row cr old cluster_secrets) plain (whole_clusters st)"
  shows "\<exists>st'. rotateClusterModel no_cluster_faults cr old new st = (st', None) \<and> owned st' \<and>
    the_keys st' = the_keys st \<and> list_all2 (sealed_row cr new cluster_secrets) plain (whole_clusters st')"
proof -
  let ?m = "length (ct_clusters st) div stepSize + 1"
  obtain st' e where run: "rotate_cluster_pages no_cluster_faults cr old new [0..<0 + ?m] st = (st', e)"
    by (cases "rotate_cluster_pages no_cluster_faults cr old new [0..<0 + ?m] st")
  have "\<forall>c\<in>set (drop (0 * stepSize) (whole_clusters st)). \<exists>plain. sealed_row cr old cluster_secrets plain c"
    using sealed unfolding list_all2_conv_all_nth by (fastforce simp: in_set_conv_nth)
  note ref = rotate_cluster_pages_refines [OF cr own this run]
  have "distinct (map (k_id cluster_kind) (whole_clusters st))"
    using own by (simp add: owned_def whole_clusters_def comp_def cluster_kind_def)
  from cluster_row.rotate_model_all [OF cr this] obtain stored n' where
    "rotate_model cluster_kind no_rotate_faults cr old new (whole_clusters st, ct_draws st) = ((stored, n'), None)"
    and stored: "list_all2 (sealed_row cr new cluster_secrets) (map (decrypt_or_wipe cluster_kind cr old) (whole_clusters st)) stored"
    unfolding cluster_kind_def kind.simps by blast
  then have "whole_clusters st' = stored" "e = None"
    using ref by (simp_all add: rotate_model_def no_rotate_faults_def whole_clusters_def)
  moreover have "map (decrypt_or_wipe cluster_kind cr old) (whole_clusters st) = plain"
    using cluster_row.decrypt_or_wipe_sealed [OF cr(1)] sealed by (simp add: cluster_kind_def)
  ultimately show ?thesis
    using run ref stored by (simp add: rotateClusterModel_def no_cluster_faults_def)
qed

section \<open>\<open>Rotate\<close>\<close>

record rotation_db =
  rd_clusters :: "cluster list"
  rd_caches :: "token_cache list"
  rd_next :: uint
  rd_candidates :: "cluster_candidate list"
  rd_registries :: "registry list"
  rd_helm_repos :: "helm_repo list"
  rd_infras :: "infra list"
  rd_kube :: "kube_integration list"
  rd_basic :: "basic_integration list"
  rd_oidc :: "oidc_integration list"
  rd_oauth :: "oauth_integration list"
  rd_gcp :: "gcp_integration list"
  rd_aws :: "aws_integration list"
  rd_draws :: nat

datatype rotated =
    Clusters
  | Candidates
  | Registries
  | HelmRepos
  | Infras
  | KubeIntegrations
  | BasicIntegrations
  | OIDCIntegrations
  | OAuthIntegrations
  | GCPIntegrations
  | AWSIntegrations

record rotation_faults =
  rfs_clusters :: cluster_faults
  rfs_table :: "rotated \<Rightarrow> rotate_faults"

definition no_rotation_faults :: rotation_faults where
  "no_rotation_faults = \<lparr>rfs_clusters = no_cluster_faults, rfs_table = (\<lambda>_. no_rotate_faults)\<rparr>"

type_synonym rotation_step = "rotation_db \<Rightarrow> rotation_db \<times> go_error option"

definition rotate_clusters :: "rotation_faults \<Rightarrow> crypt \<Rightarrow> key \<Rightarrow> key \<Rightarrow> rotation_step" where
  "rotate_clusters f cr oldKey newKey db =
     (case rotateClusterModel (rfs_clusters f) cr oldKey newKey
             \<lparr>ct_clusters = rd_clusters db, ct_caches = rd_caches db, ct_next = rd_next db, ct_draws = rd_draws db\<rparr> of
        (st, e) \<Rightarrow>
          (db\<lparr>rd_clusters := ct_clusters st, rd_caches := ct_caches st, rd_next := ct_next st, rd_draws := ct_draws st\<rparr>, e))"

definition rotate_table ::
  "('row rotating \<Rightarrow> 'row rotating \<times> go_error option) \<Rightarrow> (rotation_db \<Rightarrow> 'row list) \<Rightarrow>
     ('row list \<Rightarrow> rotation_db \<Rightarrow> rotation_db) \<Rightarrow> rotation_step" where
  "rotate_table run get put db =
     (case run (get db, rd_draws db) of
        ((rows, n), e) \<Rightarrow> (put rows (db\<lparr>rd_draws := n\<rparr>), e))"

fun in_turn :: "rotation_step list \<Rightarrow> rotation_step" where
  "in_turn [] db = (db, None)"
| "in_turn (step # steps) db =
     (case step db of
        (db, Some e) \<Rightarrow> (db, Some e)
      | (db, None) \<Rightarrow> in_turn steps db)"

definition rotate_steps :: "rotation_faults \<Rightarrow> crypt \<Rightarrow> key \<Rightarrow> key \<Rightarrow> (rotated \<times> rotation_step) list" where
  "rotate_steps f cr oldKey newKey =
     [(Clusters, rotate_clusters f cr oldKey newKey),
      (Candidates, rotate_table (rotateClusterCandidateModel (rfs_table f Candidates) cr oldKey newKey)
        rd_candidates (\<lambda>rows db. db\<lparr>rd_candidates := rows\<rparr>)),
      (Registries, rotate_table (rotateRegistryModel (rfs_table f Registries) cr oldKey newKey)
        rd_registries (\<lambda>rows db. db\<lparr>rd_registries := rows\<rparr>)),
      (HelmRepos, rotate_table (rotateHelmRepoModel (rfs_table f HelmRepos) cr oldKey newKey)
        rd_helm_repos (\<lambda>rows db. db\<lparr>rd_helm_repos := rows\<rparr>)),
      (Infras, rotate_table (rotateInfraModel (rfs_table f Infras) cr oldKey newKey)
        rd_infras (\<lambda>rows db. db\<lparr>rd_infras := rows\<rparr>)),
      (KubeIntegrations, rotate_table (rotateKubeIntegrationModel (rfs_table f KubeIntegrations) cr oldKey newKey)
        rd_kube (\<lambda>rows db. db\<lparr>rd_kube := rows\<rparr>)),
      (BasicIntegrations, rotate_table (rotateBasicIntegrationModel (rfs_table f BasicIntegrations) cr oldKey newKey)
        rd_basic (\<lambda>rows db. db\<lparr>rd_basic := rows\<rparr>)),
      (OIDCIntegrations, rotate_table (rotateOIDCIntegrationModel (rfs_table f OIDCIntegrations) cr oldKey newKey)
        rd_oidc (\<lambda>rows db. db\<lparr>rd_oidc := rows\<rparr>)),
      (OAuthIntegrations, rotate_table (rotateOAuthIntegrationModel (rfs_table f OAuthIntegrations) cr oldKey newKey)
        rd_oauth (\<lambda>rows db. db\<lparr>rd_oauth := rows\<rparr>)),
      (GCPIntegrations, rotate_table (rotateGCPIntegrationModel (rfs_table f GCPIntegrations) cr oldKey newKey)
        rd_gcp (\<lambda>rows db. db\<lparr>rd_gcp := rows\<rparr>)),
      (AWSIntegrations, rotate_table (rotateAWSIntegrationModel (rfs_table f AWSIntegrations) cr oldKey newKey)
        rd_aws (\<lambda>rows db. db\<lparr>rd_aws := rows\<rparr>))]"

definition Rotate :: "rotation_faults \<Rightarrow> crypt \<Rightarrow> key \<Rightarrow> key \<Rightarrow> rotation_step" where
  "Rotate f cr oldKey newKey = in_turn (map snd (rotate_steps f cr oldKey newKey))"

section \<open>Nothing is lost\<close>

text \<open>
  The tables hold the rows of \<open>plain\<close> with every secret sealed, each table under its key; the
  clusters of \<open>plain\<close> carry their token caches.
\<close>

definition sealed_table :: "'row kind \<Rightarrow> crypt \<Rightarrow> key \<Rightarrow> 'row list \<Rightarrow> 'row list \<Rightarrow> bool" where
  "sealed_table k cr key plain rows \<longleftrightarrow>
     list_all2 (sealed_row cr key (k_secrets k)) plain rows \<and> distinct (map (k_id k) plain)"

definition sealed_tables :: "crypt \<Rightarrow> (rotated \<Rightarrow> key) \<Rightarrow> rotation_db \<Rightarrow> rotation_db \<Rightarrow> bool" where
  "sealed_tables cr keys plain db \<longleftrightarrow>
     owned \<lparr>ct_clusters = rd_clusters db, ct_caches = rd_caches db, ct_next = 0, ct_draws = 0\<rparr> \<and>
     list_all2 (sealed_row cr (keys Clusters) cluster_secrets) (rd_clusters plain)
       (map (attach_cache (rd_caches db)) (rd_clusters db)) \<and>
     sealed_table candidate_kind cr (keys Candidates) (rd_candidates plain) (rd_candidates db) \<and>
     sealed_table registry_kind cr (keys Registries) (rd_registries plain) (rd_registries db) \<and>
     sealed_table helm_repo_kind cr (keys HelmRepos) (rd_helm_repos plain) (rd_helm_repos db) \<and>
     sealed_table infra_kind cr (keys Infras) (rd_infras plain) (rd_infras db) \<and>
     sealed_table kube_kind cr (keys KubeIntegrations) (rd_kube plain) (rd_kube db) \<and>
     sealed_table basic_kind cr (keys BasicIntegrations) (rd_basic plain) (rd_basic db) \<and>
     sealed_table oidc_kind cr (keys OIDCIntegrations) (rd_oidc plain) (rd_oidc db) \<and>
     sealed_table oauth_kind cr (keys OAuthIntegrations) (rd_oauth plain) (rd_oauth db) \<and>
     sealed_table gcp_kind cr (keys GCPIntegrations) (rd_gcp plain) (rd_gcp db) \<and>
     sealed_table aws_kind cr (keys AWSIntegrations) (rd_aws plain) (rd_aws db)"

text \<open>Steps that each move one table to the new key move all of them, one after the other.\<close>

definition moves ::
  "((rotated \<Rightarrow> key) \<Rightarrow> rotation_db \<Rightarrow> bool) \<Rightarrow> key \<Rightarrow> key \<Rightarrow> rotated \<Rightarrow> rotation_step \<Rightarrow> bool" where
  "moves P old new t step \<longleftrightarrow>
     (\<forall>keys db. P keys db \<and> keys t = old \<longrightarrow>
        (\<exists>db'. step db = (db', None) \<and> P (keys(t := new)) db'))"

lemma in_turn_all:
  assumes "list_all (\<lambda>s. moves P old new (fst s) (snd s)) steps"
    and "distinct (map fst steps)" and "\<forall>t\<in>fst ` set steps. keys t = old" and "P keys db"
  shows "\<exists>db'. in_turn (map snd steps) db = (db', None) \<and>
    P (\<lambda>t. if t \<in> fst ` set steps then new else keys t) db'"
  using assms
proof (induction steps arbitrary: keys db)
  case (Cons s steps)
  obtain t step where s: "s = (t, step)" by (cases s)
  obtain db1 where one: "step db = (db1, None)" "P (keys(t := new)) db1" using Cons.prems s unfolding moves_def by fastforce
  have "\<forall>u\<in>fst ` set steps. (keys(t := new)) u = old" using Cons.prems(2,3) s by auto
  moreover have "list_all (\<lambda>s. moves P old new (fst s) (snd s)) steps" "distinct (map fst steps)"
    using Cons.prems(1,2) by simp_all
  ultimately obtain db' where rest: "in_turn (map snd steps) db1 = (db', None)"
    "P (\<lambda>u. if u \<in> fst ` set steps then new else (keys(t := new)) u) db'"
    using Cons.IH [OF _ _ _ one(2)] by blast
  have "(\<lambda>u. if u \<in> fst ` set steps then new else (keys(t := new)) u) =
      (\<lambda>u. if u \<in> fst ` set (s # steps) then new else keys u)" by (auto simp: s)
  then show ?case using one(1) rest s by auto
qed simp

lemma rotate_clusters_moves:
  assumes cr: "lawful_crypt cr" "randomness cr"
  shows "moves (\<lambda>keys. sealed_tables cr keys plain) old new Clusters (rotate_clusters no_rotation_faults cr old new)"
  unfolding moves_def
proof (intro allI impI)
  fix keys db
  assume tables: "sealed_tables cr keys plain db \<and> keys Clusters = old"
  let ?st = "\<lparr>ct_clusters = rd_clusters db, ct_caches = rd_caches db, ct_next = rd_next db, ct_draws = rd_draws db\<rparr>"
  have "owned ?st" "list_all2 (sealed_row cr old cluster_secrets) (rd_clusters plain) (whole_clusters ?st)"
    using tables by (auto simp: sealed_tables_def whole_clusters_def owned_def)
  from rotateClusterModel_all [OF cr this] obtain st' where
    "rotateClusterModel no_cluster_faults cr old new ?st = (st', None)" "owned st'"
    "list_all2 (sealed_row cr new cluster_secrets) (rd_clusters plain) (whole_clusters st')" by blast
  moreover have "owned \<lparr>ct_clusters = ct_clusters st', ct_caches = ct_caches st', ct_next = 0, ct_draws = 0\<rparr>"
    using \<open>owned st'\<close> by (simp add: owned_def)
  ultimately show "\<exists>db'. rotate_clusters no_rotation_faults cr old new db = (db', None) \<and>
    sealed_tables cr (keys(Clusters := new)) plain db'" using tables
    by (simp add: rotate_clusters_def no_rotation_faults_def sealed_tables_def whole_clusters_def cong: conj_cong)
qed

text \<open>One of the other tables.\<close>

lemma rotate_table_moves:
  assumes kind: "integration_kind k" and cr: "lawful_crypt cr" "randomness cr"
    and table: "\<And>keys db. P keys db \<Longrightarrow> sealed_table k cr (keys t) plain (get db)"
    and keeps: "\<And>keys db rows n. P keys db \<Longrightarrow> sealed_table k cr new plain rows \<Longrightarrow>
      P (keys(t := new)) (put rows (db\<lparr>rd_draws := n\<rparr>))"
  shows "moves P old new t (rotate_table (rotate_model k no_rotate_faults cr old new) get put)"
  unfolding moves_def
proof (intro allI impI)
  fix keys db
  assume P: "P keys db \<and> keys t = old"
  then have old: "distinct (map (k_id k) plain)" "list_all2 (sealed_row cr old (k_secrets k)) plain (get db)"
    using table [of keys db] by (simp_all add: sealed_table_def)
  from integration_kind.rotate_model_sealed [OF kind cr this, of new "rd_draws db"]
  obtain stored n' where
    "rotate_model k no_rotate_faults cr old new (get db, rd_draws db) = ((stored, n'), None)"
    "sealed_table k cr new plain stored" using old(1) unfolding sealed_table_def by blast
  then show "\<exists>db'. rotate_table (rotate_model k no_rotate_faults cr old new) get put db = (db', None) \<and>
      P (keys(t := new)) db'"
    using keeps P by (simp add: rotate_table_def)
qed

lemma rotate_steps_move:
  assumes cr: "lawful_crypt cr" "randomness cr"
  shows "list_all (\<lambda>s. moves (\<lambda>keys. sealed_tables cr keys plain) old new (fst s) (snd s))
    (rotate_steps no_rotation_faults cr old new)"
  unfolding rotate_steps_def rotate_defs no_rotation_faults_def rotation_faults.simps list.pred_inject fst_conv snd_conv
  by (intro conjI TrueI rotate_clusters_moves [OF cr, unfolded no_rotation_faults_def]
    rotate_table_moves [OF candidate_row.integration_kind_axioms cr, of _ _ "rd_candidates plain"]
    rotate_table_moves [OF registry_row.integration_kind_axioms cr, of _ _ "rd_registries plain"]
    rotate_table_moves [OF helm_repo_row.integration_kind_axioms cr, of _ _ "rd_helm_repos plain"]
    rotate_table_moves [OF infra_row.integration_kind_axioms cr, of _ _ "rd_infras plain"]
    rotate_table_moves [OF kube_row.integration_kind_axioms cr, of _ _ "rd_kube plain"]
    rotate_table_moves [OF basic_row.integration_kind_axioms cr, of _ _ "rd_basic plain"]
    rotate_table_moves [OF oidc_row.integration_kind_axioms cr, of _ _ "rd_oidc plain"]
    rotate_table_moves [OF oauth_row.integration_kind_axioms cr, of _ _ "rd_oauth plain"]
    rotate_table_moves [OF gcp_row.integration_kind_axioms cr, of _ _ "rd_gcp plain"]
    rotate_table_moves [OF aws_row.integration_kind_axioms cr, of _ _ "rd_aws plain"];
    simp add: sealed_tables_def)

lemma rotated_keys: "fst ` set (rotate_steps f cr old new) = UNIV"
  using rotated.exhaust by (auto simp: rotate_steps_def)

lemma rotate_steps_distinct: "distinct (map fst (rotate_steps f cr old new))"
  by (simp add: rotate_steps_def)

text \<open>
  C6. A rotation that no error interrupts loses nothing. If every secret in the eleven tables is
  sealed under the old key, the ids are distinct and each cluster has a token cache of its own,
  \<open>Rotate\<close> ends without an error, and every row of every table is then the same row with its
  secrets sealed under the new key; whatever the tables' sizes, since the pages cover each row
  exactly once.
\<close>

theorem rotation_preserves_secrets:
  assumes "lawful_crypt cr" "randomness cr" and "sealed_tables cr (\<lambda>_. oldKey) plain db"
  shows "\<exists>db'. Rotate no_rotation_faults cr oldKey newKey db = (db', None) \<and>
    sealed_tables cr (\<lambda>_. newKey) plain db'"
  using in_turn_all [OF rotate_steps_move [OF assms(1,2)] rotate_steps_distinct _ assms(3)]
  by (simp add: Rotate_def rotated_keys)

section \<open>What does not decrypt\<close>

text \<open>A row sealed under another key fails at its first secret, and is wiped.\<close>

lemma wipe_empty: "lawful_fields fs \<Longrightarrow> list_all (\<lambda>f. fst f r = []) fs \<Longrightarrow> wipe_fields fs r = r"
proof (induction fs arbitrary: r)
  case (Cons f fs)
  then have "snd f [] r = r" by (simp add: lawful_field_def) metis
  then show ?case using Cons by (simp add: wipe_Cons)
qed (simp add: wipe_fields_def)

lemma decrypt_fields_other:
  assumes "authentic cr key other"
    and "list_all (\<lambda>f. if fst f plain = [] then fst f r = [] else sealed_as cr key (fst f plain) (fst f r)) fs"
  shows "fst (decrypt_fields cr other fs r) = r \<and>
    (snd (decrypt_fields cr other fs r) = None \<longrightarrow> list_all (\<lambda>f. fst f r = []) fs)"
  using assms(2)
proof (induction fs)
  case (Cons f fs)
  obtain get put where f: "f = (get, put)" by (cases f)
  show ?case
  proof (cases "get r = []")
    case True
    then show ?thesis using Cons by (simp add: f)
  next
    case False
    then have "sealed_as cr key (get plain) (get r)" using Cons.prems by (auto simp: f split: if_splits)
    then obtain e where "Decrypt cr (get r) other = Inl e" using Decrypt_other_key [OF assms(1)] by blast
    then show ?thesis using False by (simp add: f)
  qed
qed simp

context integration_kind
begin

lemma decrypt_or_wipe_other:
  assumes "authentic cr key other" and "sealed_row cr key (k_secrets k) plain r"
  shows "decrypt_or_wipe k cr other r = wipe_fields (k_secrets k) plain"
proof -
  have same: "wipe_fields (k_secrets k) r = wipe_fields (k_secrets k) plain"
    using assms(2) by (simp add: sealed_row_def)
  have "fst (decrypt_fields cr other (k_secrets k) r) = r"
    "snd (decrypt_fields cr other (k_secrets k) r) = None \<longrightarrow> wipe_fields (k_secrets k) r = r"
    using decrypt_fields_other [OF assms(1) assms(2) [unfolded sealed_row_def, THEN conjunct1]]
      wipe_empty [OF secrets] by blast+
  then show ?thesis using same by (auto simp: decrypt_or_wipe_def split: prod.split option.split)
qed

lemma wiped_stays:
  assumes "sealed_row cr key (k_secrets k) (wipe_fields (k_secrets k) plain) stored"
  shows "stored = wipe_fields (k_secrets k) plain"
proof -
  have empty: "list_all (\<lambda>f. fst f (wipe_fields fs r) = []) fs" if "lawful_fields fs" for fs :: "'a field list" and r
    using that
  proof (induction fs arbitrary: r)
    case (Cons f fs)
    then have apart: "list_all (apart f) fs" and "lawful_field f" by simp_all
    then have "fst f (wipe_fields fs (snd f [] r)) = []"
      unfolding wipe_put [OF apart] by (simp add: lawful_field_def)
    then show ?case using Cons by (simp add: wipe_Cons)
  qed simp
  have plain: "list_all (\<lambda>f. fst f (wipe_fields (k_secrets k) plain) = []) (k_secrets k)" by (rule empty [OF secrets])
  then have "list_all (\<lambda>f. fst f stored = []) (k_secrets k)"
    using assms unfolding sealed_row_def by (auto simp: list_all_iff)
  then have "list_all (\<lambda>f. fst f stored = fst f (wipe_fields (k_secrets k) plain)) (k_secrets k)"
    using plain by (auto simp: list_all_iff)
  then show ?thesis using assms wipe_determines [OF secrets] unfolding sealed_row_def by blast
qed

lemma rotate_model_other:
  assumes cr: "lawful_crypt cr" "randomness cr" and other: "authentic cr new old"
    and table: "list_all2 (sealed_row cr new (k_secrets k)) plain rows" "distinct (map (k_id k) plain)"
  shows "\<exists>n'. rotate_model k no_rotate_faults cr old new (rows, n) =
    ((map (wipe_fields (k_secrets k)) plain, n'), None)"
proof -
  have "list_all2 (\<lambda>r s. k_id k s = k_id k r \<and> decrypt_or_wipe k cr old s = wipe_fields (k_secrets k) r) plain rows"
    by (rule list_all2_mono [OF table(1)]) (simp add: sealed_row_ids(1) decrypt_or_wipe_other [OF other])
  then have "map (k_id k) rows = map (k_id k) plain"
    and wiped: "map (decrypt_or_wipe k cr old) rows = map (wipe_fields (k_secrets k)) plain"
    by (induction rule: list_all2_induct) simp_all
  then have "distinct (map (k_id k) rows)" using table(2) by metis
  from rotate_model_all [OF cr this, of old new n] obtain stored n' where
    run: "rotate_model k no_rotate_faults cr old new (rows, n) = ((stored, n'), None)"
    and "list_all2 (sealed_row cr new (k_secrets k)) (map (wipe_fields (k_secrets k)) plain) stored"
    unfolding wiped by blast
  then have "list_all2 (\<lambda>r s. s = wipe_fields (k_secrets k) r) plain stored"
    unfolding list.rel_map by (elim list_all2_mono) (rule wiped_stays)
  then have "stored = map (wipe_fields (k_secrets k)) plain" by (induction rule: list_all2_induct) simp_all
  then show ?thesis using run by blast
qed

end

definition repeated_rotation_wipes where
  "repeated_rotation_wipes k cr old new run \<longleftrightarrow>
     (\<forall>plain rows n. sealed_table k cr new plain rows \<longrightarrow>
        (\<exists>n'. run no_rotate_faults cr old new (rows, n) = ((map (wipe_fields (k_secrets k)) plain, n'), None)))"

text \<open>
  C36. A second run destroys what the first one saved, in ten of the eleven tables: cluster
  candidates, registries, Helm repositories, infras, and the Kubernetes, basic, OIDC, OAuth, GCP and
  AWS integrations. When such a table is already sealed under the new key (a rotation that is run
  again, or that was interrupted after this table), rotating it again from the old key empties
  every secret of every row, and reports no error. The clusters' table is the exception: their
  data is encrypted once more (\<open>undecryptable_cluster_kept\<close>).
\<close>

theorem rotation_rerun_wipes:
  assumes "lawful_crypt cr" "randomness cr" "authentic cr newKey oldKey"
  shows "repeated_rotation_wipes candidate_kind cr oldKey newKey rotateClusterCandidateModel \<and>
    repeated_rotation_wipes registry_kind cr oldKey newKey rotateRegistryModel \<and>
    repeated_rotation_wipes helm_repo_kind cr oldKey newKey rotateHelmRepoModel \<and>
    repeated_rotation_wipes infra_kind cr oldKey newKey rotateInfraModel \<and>
    repeated_rotation_wipes kube_kind cr oldKey newKey rotateKubeIntegrationModel \<and>
    repeated_rotation_wipes basic_kind cr oldKey newKey rotateBasicIntegrationModel \<and>
    repeated_rotation_wipes oidc_kind cr oldKey newKey rotateOIDCIntegrationModel \<and>
    repeated_rotation_wipes oauth_kind cr oldKey newKey rotateOAuthIntegrationModel \<and>
    repeated_rotation_wipes gcp_kind cr oldKey newKey rotateGCPIntegrationModel \<and>
    repeated_rotation_wipes aws_kind cr oldKey newKey rotateAWSIntegrationModel"
  unfolding repeated_rotation_wipes_def rotate_defs sealed_table_def
  by (intro conjI allI impI candidate_row.rotate_model_other registry_row.rotate_model_other
    helm_repo_row.rotate_model_other infra_row.rotate_model_other kube_row.rotate_model_other
    basic_row.rotate_model_other oidc_row.rotate_model_other oauth_row.rotate_model_other
    gcp_row.rotate_model_other aws_row.rotate_model_other assms) auto

text \<open>
  A cluster that does not decrypt is not wiped. The rotation of a table with such a cluster ends
  without an error; the cluster's certificate authority data, which could not be read, is encrypted
  once more under the new key, and its token cache, deleted a moment before, is stored again, no
  longer attached to the cluster and with its token encrypted twice too.
\<close>

theorem undecryptable_cluster_kept:
  assumes "lawful_crypt cr" "randomness cr"
    and "ct_clusters st = [c]" "ct_caches st = [t]" "tc_ID t = cl_TokenCacheID c" "tc_ID t \<noteq> 0" "tc_Token t \<noteq> []"
    and "cl_CertificateAuthorityData c \<noteq> []" "Decrypt cr (cl_CertificateAuthorityData c) oldKey = Inl e"
  shows "\<exists>st' ca tok. rotateClusterModel no_cluster_faults cr oldKey newKey st = (st', None) \<and>
    ct_clusters st' = [c\<lparr>cl_CertificateAuthorityData := ca, cl_TokenCacheID := 0, cl_TokenCache := empty_token_cache\<rparr>] \<and>
    ct_caches st' = [t\<lparr>tc_Token := tok\<rparr>] \<and>
    Decrypt cr ca newKey = Inr (cl_CertificateAuthorityData c) \<and> Decrypt cr tok newKey = Inr (tc_Token t)"
proof -
  let ?c = "c\<lparr>cl_TokenCache := t, cl_TokenCacheID := 0\<rparr>"
  have dec: "decrypt_clusters no_cluster_faults cr oldKey [c] [t] = ([?c], [], None)"
    using assms(5,8,9) by (simp add: attach_cache_def DecryptClusterRow_def cluster_secrets_def no_cluster_faults_def)
  obtain s n where enc: "encrypt_fields cr newKey cluster_secrets (ct_draws st) ?c = (s, None, n)"
    using encrypt_fields_total [OF assms(2), of newKey cluster_secrets "ct_draws st" ?c] by blast
  have sealed: "sealed_row cr newKey cluster_secrets ?c s"
    using encrypt_fields_sealed [OF assms(1) _ enc] cluster_row.secrets by (simp add: cluster_kind_def)
  then have s: "s = ?c\<lparr>cl_CertificateAuthorityData := cl_CertificateAuthorityData s,
      cl_TokenCache := t\<lparr>tc_Token := tc_Token (cl_TokenCache s)\<rparr>\<rparr>"
    by (cases s; cases "cl_TokenCache s"; cases t; cases c)
      (auto simp: sealed_row_def cluster_secrets_def wipe_fields_def)
  have ca: "Decrypt cr (cl_CertificateAuthorityData s) newKey = Inr (cl_CertificateAuthorityData c)"
    and tok: "Decrypt cr (tc_Token (cl_TokenCache s)) newKey = Inr (tc_Token t)"
    using sealed Decrypt_sealed [OF assms(1)] assms(7,8) by (auto simp: sealed_row_def cluster_secrets_def)
  let ?ca = "cl_CertificateAuthorityData s" and ?tok = "tc_Token (cl_TokenCache s)"
  note keys = encrypted_keys [OF enc order_refl]
  then have ids: "cl_ID s = cl_ID c" "tc_ID (cl_TokenCache s) \<noteq> 0" "cl_TokenCacheID s = 0"
    using s assms(6) by (simp_all, metis cluster.select_convs(6) cluster.surjective cluster.update_convs(6) token_cache.select_convs(1) token_cache.surjective token_cache.update_convs(2))
  let ?st = "st\<lparr>ct_draws := n, ct_clusters := [s\<lparr>cl_TokenCache := empty_token_cache\<rparr>], ct_caches := [cl_TokenCache s]\<rparr>"
  have "save_clusters no_cluster_faults cr newKey [?c] (st\<lparr>ct_caches := []\<rparr>) = (?st, None)"
    using enc ids assms(3)
    by (simp add: EncryptClusterData_def no_cluster_faults_def Let_def save_cluster_def save_cache_def)
  then have "rotateClusterModel no_cluster_faults cr oldKey newKey st = (?st, None)"
    using dec assms(3,4) by (simp add: rotateClusterModel_def no_cluster_faults_def stepSize_def)
  moreover have "s\<lparr>cl_TokenCache := empty_token_cache\<rparr> =
      c\<lparr>cl_CertificateAuthorityData := ?ca, cl_TokenCacheID := 0, cl_TokenCache := empty_token_cache\<rparr>"
    "cl_TokenCache s = t\<lparr>tc_Token := ?tok\<rparr>"
    by (subst s, simp)+
  ultimately show ?thesis using ca tok by (intro exI [of _ ?st] exI [of _ ?ca] exI [of _ ?tok]) (simp del: cluster.update_convs)
qed

section \<open>Witnesses\<close>

lemma sample_randomness: "randomness sample_crypt"
  by (simp add: randomness_def sample_crypt_def)

text \<open>One cluster with its token cache and one AWS integration, in the clear and as stored.\<close>

definition sample_cluster_row :: cluster where
  "sample_cluster_row = \<lparr>cl_ID = 3, cl_ProjectID = 1, cl_Name = ''prod'', cl_CertificateAuthorityData = ''ca'',
     cl_TokenCacheID = 9, cl_TokenCache = \<lparr>tc_ID = 9, tc_Token = ''tok''\<rparr>\<rparr>"

definition sample_aws_row :: aws_integration where
  "sample_aws_row = \<lparr>aw_ID = 4, aw_UserID = 5, aw_ProjectID = 1, aw_AWSArn = [], aw_AWSRegion = ''eu'',
     aw_AWSClusterID = [], aw_AWSAccessKeyID = ''id'', aw_AWSSecretAccessKey = ''secret'', aw_AWSSessionToken = []\<rparr>"

definition sample_seal :: "key \<Rightarrow> bytes \<Rightarrow> bytes" where
  "sample_seal key p = ''123456789012'' @ key @ p"

definition sample_plain :: rotation_db where
  "sample_plain = \<lparr>rd_clusters = [sample_cluster_row], rd_caches = [], rd_next = 10, rd_candidates = [], rd_registries = [], rd_helm_repos = [], rd_infras = [], rd_kube = [], rd_basic = [], rd_oidc = [], rd_oauth = [], rd_gcp = [],
     rd_aws = [sample_aws_row], rd_draws = 0\<rparr>"

definition sample_rotation_db :: "key \<Rightarrow> rotation_db" where
  "sample_rotation_db key = \<lparr>rd_clusters = [sample_cluster_row\<lparr>cl_CertificateAuthorityData := sample_seal key ''ca'',
       cl_TokenCache := empty_token_cache\<rparr>],
     rd_caches = [\<lparr>tc_ID = 9, tc_Token = sample_seal key ''tok''\<rparr>], rd_next = 10, rd_candidates = [], rd_registries = [], rd_helm_repos = [], rd_infras = [], rd_kube = [], rd_basic = [], rd_oidc = [], rd_oauth = [], rd_gcp = [],
     rd_aws = [sample_aws_row\<lparr>aw_AWSAccessKeyID := sample_seal key ''id'', aw_AWSSecretAccessKey := sample_seal key ''secret''\<rparr>],
     rd_draws = 0\<rparr>"

lemma sample_sealed: "sealed_as sample_crypt key p (sample_seal key p)"
  unfolding sealed_as_def
  by (rule exI [of _ "''123456789012''"]) (simp add: sample_seal_def sample_crypt_def NonceSize_def)

lemma sample_sealed_aws:
  "sealed_table aws_kind sample_crypt key (rd_aws sample_plain) (rd_aws (sample_rotation_db key))"
  by (simp add: sealed_table_def sealed_row_def sample_plain_def sample_rotation_db_def sample_aws_row_def aws_kind_def
      aws_secrets_def wipe_fields_def sample_sealed)

lemma sample_tables: "sealed_tables sample_crypt (\<lambda>_. key) sample_plain (sample_rotation_db key)"
  using sample_sealed_aws [of key]
  by (simp add: sealed_tables_def) (simp add: sealed_table_def sample_plain_def sample_rotation_db_def sample_cluster_row_def owned_def
      attach_cache_def sealed_row_def cluster_secrets_def wipe_fields_def sample_sealed empty_token_cache_def)

theorem rotation_preserves_secrets_witness:
  "\<exists>db'. Rotate no_rotation_faults sample_crypt ''old'' ''new'' (sample_rotation_db ''old'') = (db', None) \<and>
     sealed_tables sample_crypt (\<lambda>_. ''new'') sample_plain db'"
  by (rule rotation_preserves_secrets [OF sample_crypt_lawful sample_randomness sample_tables])

theorem rotation_rerun_wipes_witness:
  "\<exists>n'. rotateAWSIntegrationModel no_rotate_faults sample_crypt ''old'' ''new''
      (rd_aws (sample_rotation_db ''new''), 0) =
    (([sample_aws_row\<lparr>aw_AWSAccessKeyID := [], aw_AWSSecretAccessKey := []\<rparr>], n'), None)"
proof -
  have "authentic sample_crypt ''new'' ''old''" by (rule sample_crypt_authentic) simp_all
  from rotation_rerun_wipes [OF sample_crypt_lawful sample_randomness this]
  have "repeated_rotation_wipes aws_kind sample_crypt ''old'' ''new'' rotateAWSIntegrationModel" by blast
  then have "\<exists>n'. rotateAWSIntegrationModel no_rotate_faults sample_crypt ''old'' ''new''
      (rd_aws (sample_rotation_db ''new''), 0) =
    ((map (wipe_fields (k_secrets aws_kind)) (rd_aws sample_plain), n'), None)"
    using sample_sealed_aws unfolding repeated_rotation_wipes_def by blast
  then show ?thesis
    by (simp add: sample_plain_def sample_aws_row_def aws_kind_def aws_secrets_def wipe_fields_def)
qed

definition sample_stuck :: cluster_tables where
  "sample_stuck = \<lparr>ct_clusters = [sample_cluster_row\<lparr>cl_TokenCache := empty_token_cache\<rparr>],
     ct_caches = [\<lparr>tc_ID = 9, tc_Token = ''tok''\<rparr>], ct_next = 10, ct_draws = 0\<rparr>"

theorem undecryptable_cluster_kept_witness:
  "\<exists>st' ca tok. rotateClusterModel no_cluster_faults sample_crypt ''old'' ''new'' sample_stuck = (st', None) \<and>
    ct_clusters st' = [sample_cluster_row\<lparr>cl_CertificateAuthorityData := ca, cl_TokenCacheID := 0,
      cl_TokenCache := empty_token_cache\<rparr>] \<and>
    ct_caches st' = [\<lparr>tc_ID = 9, tc_Token = tok\<rparr>] \<and>
    Decrypt sample_crypt ca ''new'' = Inr ''ca'' \<and> Decrypt sample_crypt tok ''new'' = Inr ''tok''"
  using undecryptable_cluster_kept [OF sample_crypt_lawful sample_randomness, of sample_stuck
      "sample_cluster_row\<lparr>cl_TokenCache := empty_token_cache\<rparr>" "\<lparr>tc_ID = 9, tc_Token = ''tok''\<rparr>" "''old''"
      "GoError ''malformed ciphertext''" "''new''"]
  by (simp add: sample_stuck_def sample_cluster_row_def Decrypt_def NonceSize_def)

end
