(* ===== verification/Stacks.thy ===== *)
theory Stacks
  imports Members
begin

text \<open>
  Stacks: applications, their sources and environment groups, deployed together and kept as a list
  of numbered revisions. The rows of \<open>internal/models/stack.go\<close>, the repository
  \<open>internal/repository/gorm/stack.go\<close> over explicit tables, the cloning of a revision's contents and
  the upgrade hooks of \<open>internal/stacks\<close>. The tables of a revision's contents point to their
  revision, as in the database, so that a saved row which is already in its table moves with it.
\<close>

section \<open>Rows (\<open>internal/models/stack.go\<close>)\<close>

text \<open>Primary keys are only handed out and compared: they are natural numbers, and 0 is no key yet.\<close>

record source_config =
  so_ID :: nat
  so_RevisionID :: nat
  so_Name :: string
  so_DisplayName :: string
  so_UID :: string
  so_ImageRepoURI :: string
  so_ImageTag :: string

record app_resource =
  re_ID :: nat
  re_RevisionID :: nat
  re_Name :: string
  re_UID :: string
  re_SourceConfigUID :: string
  re_HelmRevisionID :: uint
  re_TemplateRepoURL :: string
  re_TemplateName :: string
  re_TemplateVersion :: string

record stack_env_group =
  eg_ID :: nat
  eg_RevisionID :: nat
  eg_Name :: string
  eg_Namespace :: string
  eg_ProjectID :: uint
  eg_ClusterID :: uint
  eg_UID :: string
  eg_Version :: uint

record stack_revision =
  rv_ID :: nat
  rv_StackID :: nat
  rv_Number :: uint
  rv_Status :: string
  rv_Reason :: string
  rv_Message :: string
  rv_Resources :: "app_resource list"
  rv_SourceConfigs :: "source_config list"
  rv_EnvGroups :: "stack_env_group list"

record stack_model =
  sk_ID :: nat
  sk_ProjectID :: uint
  sk_ClusterID :: uint
  sk_Namespace :: string
  sk_Name :: string
  sk_UID :: string
  sk_Revisions :: "stack_revision list"

section \<open>What a client sees (\<open>To...Type\<close>)\<close>

record source_view =
  vs_StackID :: string
  vs_StackRevisionID :: uint
  vs_Name :: string
  vs_DisplayName :: string
  vs_ID :: string
  vs_ImageRepoURI :: string
  vs_ImageTag :: string

record resource_view =
  vr_StackID :: string
  vr_StackRevisionID :: uint
  vr_Name :: string
  vr_ID :: string
  vr_TemplateRepoURL :: string
  vr_TemplateName :: string
  vr_TemplateVersion :: string
  vr_StackSourceConfig :: source_view

record env_view =
  ve_StackID :: string
  ve_StackRevisionID :: uint
  ve_Name :: string
  ve_ID :: string
  ve_EnvGroupVersion :: uint

record revision_meta_view =
  vm_ID :: uint
  vm_Status :: string
  vm_StackID :: string

record revision_view =
  vv_Meta :: revision_meta_view
  vv_Reason :: string
  vv_Message :: string
  vv_Resources :: "resource_view list"
  vv_SourceConfigs :: "source_view list"
  vv_EnvGroups :: "env_view list"

record stack_view =
  vk_Name :: string
  vk_Namespace :: string
  vk_ID :: string
  vk_LatestRevision :: "revision_view option"
  vk_Revisions :: "revision_meta_view list"

definition ToStackSourceConfigType :: "string \<Rightarrow> uint \<Rightarrow> source_config \<Rightarrow> source_view" where
  "ToStackSourceConfigType stackID n s =
     \<lparr>vs_StackID = stackID, vs_StackRevisionID = n, vs_Name = so_Name s, vs_DisplayName = so_DisplayName s,
      vs_ID = so_UID s, vs_ImageRepoURI = so_ImageRepoURI s, vs_ImageTag = so_ImageTag s\<rparr>"

text \<open>A resource whose source is not there shows an empty one.\<close>

definition empty_source :: source_config where
  "empty_source = \<lparr>so_ID = 0, so_RevisionID = 0, so_Name = [], so_DisplayName = [], so_UID = [],
     so_ImageRepoURI = [], so_ImageTag = []\<rparr>"

definition linked_source :: "source_config list \<Rightarrow> app_resource \<Rightarrow> source_config option" where
  "linked_source sourceConfigs r = find (\<lambda>c. so_UID c = re_SourceConfigUID r) sourceConfigs"

definition ToStackResource :: "string \<Rightarrow> uint \<Rightarrow> source_config list \<Rightarrow> app_resource \<Rightarrow> resource_view" where
  "ToStackResource stackID n sourceConfigs s =
     \<lparr>vr_StackID = stackID, vr_StackRevisionID = n, vr_Name = re_Name s, vr_ID = re_UID s,
      vr_TemplateRepoURL = re_TemplateRepoURL s, vr_TemplateName = re_TemplateName s,
      vr_TemplateVersion = re_TemplateVersion s,
      vr_StackSourceConfig = ToStackSourceConfigType stackID n
        (case linked_source sourceConfigs s of None \<Rightarrow> empty_source | Some c \<Rightarrow> c)\<rparr>"

definition ToStackEnvGroupType :: "string \<Rightarrow> uint \<Rightarrow> stack_env_group \<Rightarrow> env_view" where
  "ToStackEnvGroupType stackID n s =
     \<lparr>ve_StackID = stackID, ve_StackRevisionID = n, ve_Name = eg_Name s, ve_ID = eg_UID s,
      ve_EnvGroupVersion = eg_Version s\<rparr>"

definition ToStackRevisionMetaType :: "string \<Rightarrow> stack_revision \<Rightarrow> revision_meta_view" where
  "ToStackRevisionMetaType stackID s =
     \<lparr>vm_ID = rv_Number s, vm_Status = rv_Status s, vm_StackID = stackID\<rparr>"

definition ToStackRevisionType :: "string \<Rightarrow> stack_revision \<Rightarrow> revision_view" where
  "ToStackRevisionType stackID s =
     \<lparr>vv_Meta = ToStackRevisionMetaType stackID s, vv_Reason = rv_Reason s, vv_Message = rv_Message s,
      vv_Resources = map (ToStackResource stackID (rv_Number s) (rv_SourceConfigs s)) (rv_Resources s),
      vv_SourceConfigs = map (ToStackSourceConfigType stackID (rv_Number s)) (rv_SourceConfigs s),
      vv_EnvGroups = map (ToStackEnvGroupType stackID (rv_Number s)) (rv_EnvGroups s)\<rparr>"

definition ToStackType :: "stack_model \<Rightarrow> stack_view" where
  "ToStackType s =
     \<lparr>vk_Name = sk_Name s, vk_Namespace = sk_Namespace s, vk_ID = sk_UID s,
      vk_LatestRevision = (case sk_Revisions s of [] \<Rightarrow> None | rv # _ \<Rightarrow> Some (ToStackRevisionType (sk_UID s) rv)),
      vk_Revisions = map (ToStackRevisionMetaType (sk_UID s)) (sk_Revisions s)\<rparr>"

section \<open>Tables\<close>

text \<open>
  The stacks and revisions of the tables have no contents of their own; all keys come from one
  counter. \<open>sd_draws\<close> counts the reads of the source of randomness.
\<close>

record stack_db =
  sd_stacks :: "stack_model list"
  sd_revisions :: "stack_revision list"
  sd_sources :: "source_config list"
  sd_resources :: "app_resource list"
  sd_envs :: "stack_env_group list"
  sd_next :: nat
  sd_draws :: nat

record stack_faults =
  sf_read_stack :: "go_error option"
  sf_read_revision :: "uint \<Rightarrow> go_error option"
  sf_append :: "go_error option"
  sf_update :: "stack_revision \<Rightarrow> go_error option"
  sf_create :: "go_error option"
  sf_save_stack :: "go_error option"
  sf_delete :: "go_error option"
  sf_find_env :: "go_error option"
  sf_read_resource :: "go_error option"
  sf_list :: "go_error option"

definition no_stack_faults :: stack_faults where
  "no_stack_faults = \<lparr>sf_read_stack = None, sf_read_revision = (\<lambda>_. None), sf_append = None,
     sf_update = (\<lambda>_. None), sf_create = None, sf_save_stack = None, sf_delete = None, sf_find_env = None,
     sf_read_resource = None, sf_list = None\<rparr>"

text \<open>\<open>Preload\<close> of a revision's contents.\<close>

definition load_revision :: "stack_db \<Rightarrow> stack_revision \<Rightarrow> stack_revision" where
  "load_revision db rv = rv\<lparr>
     rv_Resources := filter (\<lambda>r. re_RevisionID r = rv_ID rv) (sd_resources db),
     rv_SourceConfigs := filter (\<lambda>s. so_RevisionID s = rv_ID rv) (sd_sources db),
     rv_EnvGroups := filter (\<lambda>e. eg_RevisionID e = rv_ID rv) (sd_envs db)\<rparr>"

definition load_stack :: "stack_db \<Rightarrow> stack_model \<Rightarrow> stack_model" where
  "load_stack db st = st\<lparr>sk_Revisions :=
     map (load_revision db)
       (take 100 (rev (sort_key rv_Number (filter (\<lambda>rv. rv_StackID rv = sk_ID st) (sd_revisions db)))))\<rparr>"

definition ReadStackByID :: "stack_faults \<Rightarrow> stack_db \<Rightarrow> uint \<Rightarrow> nat \<Rightarrow> (go_error, stack_model) go_result" where
  "ReadStackByID f db projectID stackID =
     map_sum id (load_stack db)
       (faulty_first (sf_read_stack f) (sd_stacks db) (\<lambda>s. sk_ProjectID s = projectID \<and> sk_ID s = stackID))"

definition FindStackByStringID :: "stack_faults \<Rightarrow> stack_db \<Rightarrow> uint \<Rightarrow> string \<Rightarrow> (go_error, stack_model) go_result" where
  "FindStackByStringID f db projectID stackID =
     map_sum id (load_stack db)
       (faulty_first (sf_read_stack f) (sd_stacks db) (\<lambda>s. sk_ProjectID s = projectID \<and> sk_UID s = stackID))"

definition ReadStackRevision :: "stack_faults \<Rightarrow> stack_db \<Rightarrow> nat \<Rightarrow> (go_error, stack_revision) go_result" where
  "ReadStackRevision f db stackRevisionID =
     map_sum id (load_revision db)
       (faulty_first (sf_read_revision f 0) (sd_revisions db) (\<lambda>rv. rv_ID rv = stackRevisionID))"

definition ReadStackRevisionByNumber ::
  "stack_faults \<Rightarrow> stack_db \<Rightarrow> nat \<Rightarrow> uint \<Rightarrow> (go_error, stack_revision) go_result" where
  "ReadStackRevisionByNumber f db stackID revisionNumber =
     map_sum id (load_revision db)
       (faulty_first (sf_read_revision f revisionNumber) (sd_revisions db)
          (\<lambda>rv. rv_StackID rv = stackID \<and> rv_Number rv = revisionNumber))"

definition ReadStackResource :: "stack_faults \<Rightarrow> stack_db \<Rightarrow> nat \<Rightarrow> (go_error, app_resource) go_result" where
  "ReadStackResource f db resourceID = faulty_first (sf_read_resource f) (sd_resources db) (\<lambda>r. re_ID r = resourceID)"

text \<open>The newest row comes first.\<close>

definition ReadStackEnvGroupFirstMatch ::
  "stack_faults \<Rightarrow> stack_db \<Rightarrow> uint \<Rightarrow> uint \<Rightarrow> string \<Rightarrow> string \<Rightarrow> (go_error, stack_env_group) go_result" where
  "ReadStackEnvGroupFirstMatch f db projectID clusterID namespace name =
     faulty_first (sf_find_env f) (rev (sort_key eg_ID (sd_envs db)))
       (\<lambda>e. eg_ProjectID e = projectID \<and> eg_ClusterID e = clusterID \<and> eg_Namespace e = namespace \<and> eg_Name e = name)"

text \<open>Each stack with its revision of the greatest key.\<close>

definition ListStacks ::
  "stack_faults \<Rightarrow> stack_db \<Rightarrow> uint \<Rightarrow> uint \<Rightarrow> string \<Rightarrow> (go_error, stack_model list) go_result" where
  "ListStacks f db projectID clusterID namespace =
     (case sf_list f of
        Some e \<Rightarrow> Inl e
      | None \<Rightarrow>
          Inr (map (\<lambda>st. st\<lparr>sk_Revisions :=
                 map (load_revision db)
                   (take 1 (rev (sort_key rv_ID (filter (\<lambda>rv. rv_StackID rv = sk_ID st) (sd_revisions db)))))\<rparr>)
              (filter (\<lambda>s. sk_ProjectID s = projectID \<and> sk_ClusterID s = clusterID \<and>
                 (namespace = [] \<or> sk_Namespace s = namespace)) (sd_stacks db))))"

section \<open>Saving\<close>

text \<open>
  GORM saves a row together with its contents: a row without a key is created under the next one,
  a row with a key replaces the row of that key, or is created under it; the contents' owner is set
  first. \<open>contents\<close> is one of the three tables of contents.
\<close>

record 'c contents =
  co_key :: "'c \<Rightarrow> nat"
  co_set_key :: "nat \<Rightarrow> 'c \<Rightarrow> 'c"
  co_owner :: "'c \<Rightarrow> nat"
  co_set_owner :: "nat \<Rightarrow> 'c \<Rightarrow> 'c"

definition upsert :: "('c \<Rightarrow> nat) \<Rightarrow> 'c \<Rightarrow> 'c list \<Rightarrow> 'c list" where
  "upsert key c rows =
     (if key c \<in> key ` set rows then map (\<lambda>r. if key r = key c then c else r) rows else rows @ [c])"

fun save_contents :: "'c contents \<Rightarrow> nat \<Rightarrow> 'c list \<Rightarrow> 'c list \<Rightarrow> nat \<Rightarrow> 'c list \<times> 'c list \<times> nat" where
  "save_contents k owner [] rows n = ([], rows, n)"
| "save_contents k owner (c # cs) rows n =
     (let c = co_set_owner k owner c;
          (c, n) = (if co_key k c = 0 then (co_set_key k n c, n + 1) else (c, n));
          (cs, rows, n) = save_contents k owner cs (upsert (co_key k) c rows) n
      in (c # cs, rows, n))"

definition source_contents :: "source_config contents" where
  "source_contents = \<lparr>co_key = so_ID, co_set_key = (\<lambda>i c. c\<lparr>so_ID := i\<rparr>),
     co_owner = so_RevisionID, co_set_owner = (\<lambda>i c. c\<lparr>so_RevisionID := i\<rparr>)\<rparr>"

definition resource_contents :: "app_resource contents" where
  "resource_contents = \<lparr>co_key = re_ID, co_set_key = (\<lambda>i c. c\<lparr>re_ID := i\<rparr>),
     co_owner = re_RevisionID, co_set_owner = (\<lambda>i c. c\<lparr>re_RevisionID := i\<rparr>)\<rparr>"

definition env_contents :: "stack_env_group contents" where
  "env_contents = \<lparr>co_key = eg_ID, co_set_key = (\<lambda>i c. c\<lparr>eg_ID := i\<rparr>),
     co_owner = eg_RevisionID, co_set_owner = (\<lambda>i c. c\<lparr>eg_RevisionID := i\<rparr>)\<rparr>"

definition bare_revision :: "stack_revision \<Rightarrow> stack_revision" where
  "bare_revision rv = rv\<lparr>rv_Resources := [], rv_SourceConfigs := [], rv_EnvGroups := []\<rparr>"

definition save_revision :: "stack_db \<Rightarrow> stack_revision \<Rightarrow> stack_db \<times> stack_revision" where
  "save_revision db rv =
     (let (rv, n) = (if rv_ID rv = 0 then (rv\<lparr>rv_ID := sd_next db\<rparr>, sd_next db + 1) else (rv, sd_next db));
          (resources, rrows, n) = save_contents resource_contents (rv_ID rv) (rv_Resources rv) (sd_resources db) n;
          (sources, srows, n) = save_contents source_contents (rv_ID rv) (rv_SourceConfigs rv) (sd_sources db) n;
          (envs, erows, n) = save_contents env_contents (rv_ID rv) (rv_EnvGroups rv) (sd_envs db) n
      in (db\<lparr>sd_revisions := upsert rv_ID (bare_revision rv) (sd_revisions db),
             sd_resources := rrows, sd_sources := srows, sd_envs := erows, sd_next := n\<rparr>,
          rv\<lparr>rv_Resources := resources, rv_SourceConfigs := sources, rv_EnvGroups := envs\<rparr>))"

definition AppendNewRevision ::
  "stack_faults \<Rightarrow> stack_db \<Rightarrow> stack_revision \<Rightarrow> stack_db \<times> (go_error, stack_revision) go_result" where
  "AppendNewRevision f db revision =
     (case faulty_first (sf_append f) (sd_stacks db) (\<lambda>s. sk_ID s = rv_StackID revision) of
        Inl e \<Rightarrow> (db, Inl e)
      | Inr st \<Rightarrow> (case save_revision db revision of (db, rv) \<Rightarrow> (db, Inr rv)))"

definition UpdateStackRevision ::
  "stack_faults \<Rightarrow> stack_db \<Rightarrow> stack_revision \<Rightarrow> stack_db \<times> (go_error, stack_revision) go_result" where
  "UpdateStackRevision f db revision =
     (case sf_update f revision of
        Some e \<Rightarrow> (db, Inl e)
      | None \<Rightarrow> (case save_revision db revision of (db, rv) \<Rightarrow> (db, Inr rv)))"

text \<open>A new stack comes with its first revision.\<close>

definition CreateStack ::
  "stack_faults \<Rightarrow> stack_db \<Rightarrow> stack_model \<Rightarrow> stack_db \<times> (go_error, stack_model) go_result" where
  "CreateStack f db st =
     (case sf_create f of
        Some e \<Rightarrow> (db, Inl e)
      | None \<Rightarrow>
          if sk_UID st \<in> sk_UID ` set (sd_stacks db)
          then (db, Inl (GoError ''duplicate key value violates unique constraint''))
          else
            (let st = st\<lparr>sk_ID := sd_next db\<rparr>;
                 db = db\<lparr>sd_stacks := sd_stacks db @ [st\<lparr>sk_Revisions := []\<rparr>], sd_next := sd_next db + 1\<rparr>;
                 (db, rvs) = fold (\<lambda>rv (db, rvs). case save_revision db (rv\<lparr>rv_StackID := sk_ID st\<rparr>) of
                     (db, rv) \<Rightarrow> (db, rvs @ [rv])) (sk_Revisions st) (db, [])
             in (db, Inr (st\<lparr>sk_Revisions := rvs\<rparr>))))"

text \<open>Saving a stack saves the revisions it was loaded with.\<close>

definition UpdateStack ::
  "stack_faults \<Rightarrow> stack_db \<Rightarrow> stack_model \<Rightarrow> stack_db \<times> (go_error, stack_model) go_result" where
  "UpdateStack f db st =
     (case sf_save_stack f of
        Some e \<Rightarrow> (db, Inl e)
      | None \<Rightarrow>
          (let db = db\<lparr>sd_stacks := upsert sk_ID (st\<lparr>sk_Revisions := []\<rparr>) (sd_stacks db)\<rparr>
           in (fold (\<lambda>rv db. fst (save_revision db (rv\<lparr>rv_StackID := sk_ID st\<rparr>))) (sk_Revisions st) db, Inr st)))"

text \<open>The revisions of a deleted stack stay.\<close>

definition DeleteStack ::
  "stack_faults \<Rightarrow> stack_db \<Rightarrow> stack_model \<Rightarrow> stack_db \<times> go_error option" where
  "DeleteStack f db st =
     (case sf_delete f of
        Some e \<Rightarrow> (db, Some e)
      | None \<Rightarrow> (db\<lparr>sd_stacks := filter (\<lambda>s. sk_ID s \<noteq> sk_ID st) (sd_stacks db)\<rparr>, None))"

section \<open>Cloning (\<open>internal/stacks/helpers.go\<close>)\<close>

type_synonym randomness = "nat \<Rightarrow> (go_error, string) go_result"

fun CloneSourceConfigs :: "randomness \<Rightarrow> source_config list \<Rightarrow> nat \<Rightarrow> (go_error, source_config list) go_result \<times> nat" where
  "CloneSourceConfigs rand [] n = (Inr [], n)"
| "CloneSourceConfigs rand (sourceConfig # cs) n =
     (case rand n of
        Inl e \<Rightarrow> (Inl e, n + 1)
      | Inr uid \<Rightarrow>
          (case CloneSourceConfigs rand cs (n + 1) of
             (Inl e, n) \<Rightarrow> (Inl e, n)
           | (Inr res, n) \<Rightarrow>
               (Inr (\<lparr>so_ID = 0, so_RevisionID = 0, so_Name = so_Name sourceConfig,
                  so_DisplayName = so_DisplayName sourceConfig, so_UID = uid,
                  so_ImageRepoURI = so_ImageRepoURI sourceConfig, so_ImageTag = so_ImageTag sourceConfig\<rparr> # res), n)))"

text \<open>The last match wins, as in the loops of the code.\<close>

definition linked_by_name :: "source_config list \<Rightarrow> string \<Rightarrow> string \<Rightarrow> string" where
  "linked_by_name sourceConfigs name linked =
     fold (\<lambda>c l. if so_Name c = name then so_UID c else l) sourceConfigs linked"

definition linkedSourceConfigUID :: "source_config list \<Rightarrow> source_config list \<Rightarrow> string \<Rightarrow> string" where
  "linkedSourceConfigUID prevSourceConfigs newSourceConfigs uid =
     fold (\<lambda>p l. if so_UID p = uid then linked_by_name newSourceConfigs (so_Name p) l else l)
       prevSourceConfigs []"

fun CloneAppResources ::
  "randomness \<Rightarrow> source_config list \<Rightarrow> source_config list \<Rightarrow> app_resource list \<Rightarrow> nat \<Rightarrow>
     (go_error, app_resource list) go_result \<times> nat" where
  "CloneAppResources rand prev new [] n = (Inr [], n)"
| "CloneAppResources rand prev new (appResource # rs) n =
     (case rand n of
        Inl e \<Rightarrow> (Inl e, n + 1)
      | Inr uid \<Rightarrow>
          (let linked = linkedSourceConfigUID prev new (re_SourceConfigUID appResource)
           in if linked = [] then (Inl (GoError ''source config does not exist in source config list''), n + 1)
              else case CloneAppResources rand prev new rs (n + 1) of
                     (Inl e, n) \<Rightarrow> (Inl e, n)
                   | (Inr res, n) \<Rightarrow>
                       (Inr (appResource\<lparr>re_ID := 0, re_RevisionID := 0, re_UID := uid, re_SourceConfigUID := linked\<rparr> # res), n)))"

fun CloneEnvGroups :: "randomness \<Rightarrow> stack_env_group list \<Rightarrow> nat \<Rightarrow> (go_error, stack_env_group list) go_result \<times> nat" where
  "CloneEnvGroups rand [] n = (Inr [], n)"
| "CloneEnvGroups rand (envGroup # es) n =
     (case rand n of
        Inl e \<Rightarrow> (Inl e, n + 1)
      | Inr uid \<Rightarrow>
          (case CloneEnvGroups rand es (n + 1) of
             (Inl e, n) \<Rightarrow> (Inl e, n)
           | (Inr res, n) \<Rightarrow> (Inr (envGroup\<lparr>eg_ID := 0, eg_RevisionID := 0, eg_UID := uid\<rparr> # res), n)))"

text \<open>The three clonings in the order in which the handlers and the hooks do them.\<close>

definition clone_contents ::
  "randomness \<Rightarrow> stack_db \<Rightarrow> stack_revision \<Rightarrow>
     stack_db \<times> (go_error, source_config list \<times> app_resource list \<times> stack_env_group list) go_result" where
  "clone_contents rand db rv =
     (case CloneSourceConfigs rand (rv_SourceConfigs rv) (sd_draws db) of
        (Inl e, n) \<Rightarrow> (db\<lparr>sd_draws := n\<rparr>, Inl e)
      | (Inr sources, n) \<Rightarrow>
          (case CloneAppResources rand (rv_SourceConfigs rv) sources (rv_Resources rv) n of
             (Inl e, n) \<Rightarrow> (db\<lparr>sd_draws := n\<rparr>, Inl e)
           | (Inr resources, n) \<Rightarrow>
               (case CloneEnvGroups rand (rv_EnvGroups rv) n of
                  (Inl e, n) \<Rightarrow> (db\<lparr>sd_draws := n\<rparr>, Inl e)
                | (Inr envs, n) \<Rightarrow> (db\<lparr>sd_draws := n\<rparr>, Inr (sources, resources, envs)))))"

section \<open>Hooks (\<open>internal/stacks/hooks.go\<close>)\<close>

text \<open>
  After an upgrade of a release, or of an environment group, outside the stack: the latest revision
  of the stack it belongs to is cloned with the new version. The release's row and its version come
  from elsewhere.
\<close>

definition latest_of_revision ::
  "stack_faults \<Rightarrow> stack_db \<Rightarrow> uint \<Rightarrow> nat \<Rightarrow> (go_error, stack_revision) go_result" where
  "latest_of_revision f db projID revisionID =
     (case ReadStackRevision f db revisionID of
        Inl e \<Rightarrow> Inl e
      | Inr oldStackRevision \<Rightarrow>
          (case ReadStackByID f db projID (rv_StackID oldStackRevision) of
             Inl e \<Rightarrow> Inl e
           | Inr st \<Rightarrow>
               (case sk_Revisions st of
                  [] \<Rightarrow> Inl (GoError ''length of stack revision list was 0'')
                | rv # _ \<Rightarrow> Inr rv)))"

definition show_version :: "int \<Rightarrow> string" where
  "show_version v = (if v < 0 then ''-'' @ show_nat (nat (- v)) else show_nat (nat v))"

text \<open>The release: its name, its version, and the key of its resource (0 for none), if its row is found.\<close>

record helm_upgrade =
  hu_Name :: string
  hu_Version :: int
  hu_StackResourceID :: "(go_error, nat) go_result"

definition UpdateHelmRevision ::
  "stack_faults \<Rightarrow> randomness \<Rightarrow> stack_db \<Rightarrow> uint \<Rightarrow> helm_upgrade \<Rightarrow> stack_db \<times> go_error option" where
  "UpdateHelmRevision f rand db projID rel =
     (case hu_StackResourceID rel of
        Inl e \<Rightarrow> (db, Some e)
      | Inr resourceID \<Rightarrow>
          if resourceID = 0 then (db, None)
          else case ReadStackResource f db resourceID of
            Inl e \<Rightarrow> (db, Some e)
          | Inr stackResource \<Rightarrow>
              (case latest_of_revision f db projID (re_RevisionID stackResource) of
                 Inl e \<Rightarrow> (db, Some e)
               | Inr stackRevision \<Rightarrow>
                   (case clone_contents rand db stackRevision of
                      (db, Inl e) \<Rightarrow> (db, Some e)
                    | (db, Inr (sources, resources, envs)) \<Rightarrow>
                        (case AppendNewRevision f db (stackRevision\<lparr>rv_ID := 0, rv_Number := rv_Number stackRevision + 1,
                             rv_Resources := map (\<lambda>r. if re_Name r = hu_Name rel
                               then r\<lparr>re_HelmRevisionID := word_of_int (hu_Version rel)\<rparr> else r) resources,
                             rv_SourceConfigs := sources, rv_EnvGroups := envs, rv_Status := ''deployed'',
                             rv_Reason := ''ApplicationUpgrade'',
                             rv_Message := ''The application '' @ hu_Name rel @ '' was updated from version '' @
                               show_version (hu_Version rel - 1) @ '' to '' @ show_version (hu_Version rel)\<rparr>) of
                           (db, Inl e) \<Rightarrow> (db, Some e)
                         | (db, Inr _) \<Rightarrow> (db, None)))))"

record env_group =
  eu_Name :: string
  eu_Namespace :: string
  eu_Version :: uint
  eu_Applications :: "string list"

definition UpdateEnvGroupVersion ::
  "stack_faults \<Rightarrow> randomness \<Rightarrow> stack_db \<Rightarrow> uint \<Rightarrow> uint \<Rightarrow> env_group \<Rightarrow> stack_db \<times> go_error option" where
  "UpdateEnvGroupVersion f rand db projID clusterID envGroup =
     (case ReadStackEnvGroupFirstMatch f db projID clusterID (eu_Namespace envGroup) (eu_Name envGroup) of
        Inl e \<Rightarrow> if e = ErrRecordNotFound then (db, None) else (db, Some e)
      | Inr stackEnvGroup \<Rightarrow>
          (case latest_of_revision f db projID (eg_RevisionID stackEnvGroup) of
             Inl e \<Rightarrow> (db, Some e)
           | Inr stackRevision \<Rightarrow>
               (case clone_contents rand db stackRevision of
                  (db, Inl e) \<Rightarrow> (db, Some e)
                | (db, Inr (sources, resources, envs)) \<Rightarrow>
                    (case AppendNewRevision f db (stackRevision\<lparr>rv_ID := 0, rv_Number := rv_Number stackRevision + 1,
                         rv_Resources := map (\<lambda>r. if re_Name r \<in> set (eu_Applications envGroup)
                           then r\<lparr>re_HelmRevisionID := re_HelmRevisionID r + 1\<rparr> else r) resources,
                         rv_SourceConfigs := sources,
                         rv_EnvGroups := map (\<lambda>e. if eg_Name e = eu_Name envGroup then e\<lparr>eg_Version := eu_Version envGroup\<rparr> else e) envs,
                         rv_Reason := ''EnvGroupUpgrade'',
                         rv_Message := ''The environment group '' @ eu_Name envGroup @ '' was updated from version '' @
                           show_nat (unat (eu_Version envGroup - 1)) @ '' to '' @ show_nat (unat (eu_Version envGroup)),
                         rv_Status := ''deployed''\<rparr>) of
                       (db, Inl e) \<Rightarrow> (db, Some e)
                     | (db, Inr _) \<Rightarrow> (db, None)))))"

definition GetStackForEnvGroup ::
  "stack_faults \<Rightarrow> stack_db \<Rightarrow> uint \<Rightarrow> uint \<Rightarrow> env_group \<Rightarrow> (go_error, string) go_result" where
  "GetStackForEnvGroup f db projID clusterID envGroup =
     (case ReadStackEnvGroupFirstMatch f db projID clusterID (eu_Namespace envGroup) (eu_Name envGroup) of
        Inl e \<Rightarrow> if e = ErrRecordNotFound then Inr [] else Inl e
      | Inr stackEnvGroup \<Rightarrow>
          (case ReadStackRevision f db (eg_RevisionID stackEnvGroup) of
             Inl e \<Rightarrow> Inl e
           | Inr oldStackRevision \<Rightarrow>
               (case ReadStackByID f db projID (rv_StackID oldStackRevision) of
                  Inl e \<Rightarrow> Inl e
                | Inr st \<Rightarrow> Inr (sk_UID st))))"

end
