(* ===== verification/Stack_Handlers.thy ===== *)
theory Stack_Handlers
  imports Stacks
begin

text \<open>
  The handlers of stacks (\<open>api/server/handlers/stack\<close>) over the tables of \<open>Stacks\<close>. The project, the
  cluster, the namespace and the stack are those that the scope middlewares attached. The cluster is
  a function that answers each call with an error or none; the calls are recorded in their order.
  A handler gives back the tables, the calls, what was written, and whether it panicked.
\<close>

section \<open>Surroundings\<close>

record app_request =
  ar_Name :: string
  ar_TemplateRepoURL :: string
  ar_TemplateName :: string
  ar_TemplateVersion :: string
  ar_SourceConfigName :: string

record source_request =
  sr_DisplayName :: string
  sr_Name :: string
  sr_ImageRepoURI :: string
  sr_ImageTag :: string
  sr_Build :: bool

record env_request =
  er_Name :: string
  er_LinkedApplications :: "string list"

record create_stack_request =
  cs_Name :: string
  cs_AppResources :: "app_request list"
  cs_SourceConfigs :: "source_request list"
  cs_EnvGroups :: "env_request list"

datatype cluster_call =
    InstallChart string app_request string uint
  | RollbackRelease string uint
  | UpgradeReleaseByValues string string
  | UninstallChart string
  | CreateEnvGroup string string
  | AddApplicationToVersionedConfigMap string string string
  | DeleteEnvGroup string string

text \<open>
  \<open>sw_release_image\<close> tells whether the values of a release hold a map under \<open>image\<close>; a release's row is
  saved under the key of its resource.
\<close>

record stack_world =
  sw_random :: randomness
  sw_default_repo :: string
  sw_helm_agent :: "go_error option"
  sw_k8s_agent :: "go_error option"
  sw_registries :: "go_error option"
  sw_load_chart :: "string \<Rightarrow> string \<Rightarrow> string \<Rightarrow> go_error option"
  sw_call :: "cluster_call \<Rightarrow> go_error option"
  sw_release_image :: "string \<Rightarrow> (go_error, bool) go_result"
  sw_save_release :: "string \<Rightarrow> nat \<Rightarrow> go_error option"

type_synonym 'a stack_handled = "stack_db \<times> cluster_call list \<times> 'a written list \<times> bool"

definition fail_with :: "cluster_call list \<Rightarrow> stack_db \<Rightarrow> go_error \<Rightarrow> 'a stack_handled" where
  "fail_with calls db e = (db, calls, [WroteError (ErrInternal (go_error_text e))], False)"

text \<open>\<open>if err != nil { HandleAPIError(...); return }\<close> after a read, a draw of randomness and a write.\<close>

definition or_fail ::
  "cluster_call list \<Rightarrow> stack_db \<Rightarrow> (go_error, 'b) go_result \<Rightarrow> ('b \<Rightarrow> 'a stack_handled) \<Rightarrow> 'a stack_handled" where
  "or_fail calls db r next = (case r of Inl e \<Rightarrow> fail_with calls db e | Inr x \<Rightarrow> next x)"

definition on_drawn ::
  "stack_db \<Rightarrow> (go_error, 'b) go_result \<times> nat \<Rightarrow> (stack_db \<Rightarrow> 'b \<Rightarrow> 'a stack_handled) \<Rightarrow> 'a stack_handled" where
  "on_drawn db r next = (let db = db\<lparr>sd_draws := snd r\<rparr> in or_fail [] db (fst r) (next db))"

definition on_stored ::
  "cluster_call list \<Rightarrow> stack_db \<times> (go_error, 'b) go_result \<Rightarrow> (stack_db \<Rightarrow> 'b \<Rightarrow> 'a stack_handled) \<Rightarrow> 'a stack_handled" where
  "on_stored calls r next = or_fail calls (fst r) (snd r) (next (fst r))"

definition no_error :: "go_error option \<Rightarrow> (go_error, unit) go_result" where
  "no_error e = (case e of None \<Rightarrow> Inr () | Some e \<Rightarrow> Inl e)"

text \<open>The revision the stack was loaded with: there is none when the stack has no revisions.\<close>

definition no_revisions :: "stack_db \<Rightarrow> 'a stack_handled" where
  "no_revisions db = (db, [], [WroteError (ErrPassThroughToClient ''no stack revisions exist'' 400 [])], False)"

definition duplicate_error :: "stack_db \<Rightarrow> string \<Rightarrow> string \<Rightarrow> 'a stack_handled" where
  "duplicate_error db what name =
     (db, [], [WroteError (ErrPassThroughToClient (''duplicate '' @ what @ '' name: '' @ name) 400 [])], False)"

fun join_errors :: "string list \<Rightarrow> string" where
  "join_errors [] = []"
| "join_errors [e] = e"
| "join_errors (e # es) = e @ '' , '' @ join_errors es"

section \<open>Models of a request (\<open>handlers/stack/create.go\<close>)\<close>

fun getSourceConfigModels :: "randomness \<Rightarrow> source_request list \<Rightarrow> nat \<Rightarrow> (go_error, source_config list) go_result \<times> nat" where
  "getSourceConfigModels rand [] n = (Inr [], n)"
| "getSourceConfigModels rand (sourceConfig # cs) n =
     (if sr_Build sourceConfig then getSourceConfigModels rand cs n
      else case rand n of
             Inl e \<Rightarrow> (Inl e, n + 1)
           | Inr uid \<Rightarrow>
               (case getSourceConfigModels rand cs (n + 1) of
                  (Inl e, n) \<Rightarrow> (Inl e, n)
                | (Inr res, n) \<Rightarrow>
                    (Inr (\<lparr>so_ID = 0, so_RevisionID = 0, so_Name = sr_Name sourceConfig,
                       so_DisplayName = sr_DisplayName sourceConfig, so_UID = uid,
                       so_ImageRepoURI = sr_ImageRepoURI sourceConfig, so_ImageTag = sr_ImageTag sourceConfig\<rparr> # res), n)))"

definition default_repo :: "string \<Rightarrow> app_request \<Rightarrow> app_request" where
  "default_repo url a = (if ar_TemplateRepoURL a = [] then a\<lparr>ar_TemplateRepoURL := url\<rparr> else a)"

fun getResourceModels ::
  "randomness \<Rightarrow> source_config list \<Rightarrow> string \<Rightarrow> app_request list \<Rightarrow> nat \<Rightarrow> (go_error, app_resource list) go_result \<times> nat" where
  "getResourceModels rand sourceConfigs url [] n = (Inr [], n)"
| "getResourceModels rand sourceConfigs url (appResource # rs) n =
     (case rand n of
        Inl e \<Rightarrow> (Inl e, n + 1)
      | Inr uid \<Rightarrow>
          (let appResource = default_repo url appResource;
               linked = linked_by_name sourceConfigs (ar_SourceConfigName appResource) []
           in if linked = []
              then (Inl (GoError (''source config '' @ ar_SourceConfigName appResource @
                      '' does not exist in source config list'')), n + 1)
              else case getResourceModels rand sourceConfigs url rs (n + 1) of
                     (Inl e, n) \<Rightarrow> (Inl e, n)
                   | (Inr res, n) \<Rightarrow>
                       (Inr (\<lparr>re_ID = 0, re_RevisionID = 0, re_Name = ar_Name appResource, re_UID = uid,
                          re_SourceConfigUID = linked, re_HelmRevisionID = 1,
                          re_TemplateRepoURL = ar_TemplateRepoURL appResource,
                          re_TemplateName = ar_TemplateName appResource,
                          re_TemplateVersion = ar_TemplateVersion appResource\<rparr> # res), n)))"

fun getEnvGroupModels ::
  "randomness \<Rightarrow> uint \<Rightarrow> uint \<Rightarrow> string \<Rightarrow> env_request list \<Rightarrow> nat \<Rightarrow> (go_error, stack_env_group list) go_result \<times> nat" where
  "getEnvGroupModels rand projID clusterID namespace [] n = (Inr [], n)"
| "getEnvGroupModels rand projID clusterID namespace (envGroup # es) n =
     (case rand n of
        Inl e \<Rightarrow> (Inl e, n + 1)
      | Inr uid \<Rightarrow>
          (case getEnvGroupModels rand projID clusterID namespace es (n + 1) of
             (Inl e, n) \<Rightarrow> (Inl e, n)
           | (Inr res, n) \<Rightarrow>
               (Inr (\<lparr>eg_ID = 0, eg_RevisionID = 0, eg_Name = er_Name envGroup, eg_Namespace = namespace,
                  eg_ProjectID = projID, eg_ClusterID = clusterID, eg_UID = uid, eg_Version = 1\<rparr> # res), n)))"

text \<open>The first name that was seen before.\<close>

fun duplicate_name :: "string list \<Rightarrow> string list \<Rightarrow> string option" where
  "duplicate_name seen [] = None"
| "duplicate_name seen (x # xs) = (if x \<in> set seen then Some x else duplicate_name (x # seen) xs)"

text \<open>The end of every handler that answers with the stack.\<close>

definition answer_stack ::
  "stack_faults \<Rightarrow> cluster_call list \<Rightarrow> stack_db \<Rightarrow> stack_view written list \<Rightarrow> uint \<Rightarrow> string \<Rightarrow> stack_view stack_handled" where
  "answer_stack f calls db before projectID uid =
     or_fail calls db (FindStackByStringID f db projectID uid)
       (\<lambda>st. (db, calls, before @ [WroteResult (ToStackType st)], False))"

section \<open>Calls of the cluster (\<open>handlers/stack/helpers.go\<close>)\<close>

text \<open>The calls, the error, and whether it panicked.\<close>

type_synonym attempt = "cluster_call list \<times> go_error option \<times> bool"

definition applyAppResource :: "stack_world \<Rightarrow> string \<Rightarrow> stack_model \<Rightarrow> app_request \<Rightarrow> attempt" where
  "applyAppResource w namespace st request =
     (let request = (if ar_TemplateVersion request = ''latest'' then request\<lparr>ar_TemplateVersion := []\<rparr> else request)
      in case sw_load_chart w (ar_TemplateRepoURL request) (ar_TemplateName request) (ar_TemplateVersion request) of
           Some e \<Rightarrow> ([], Some e, False)
         | None \<Rightarrow>
             (case sk_Revisions st of
                [] \<Rightarrow> ([], None, True)
              | rv # _ \<Rightarrow>
                  (let call = InstallChart namespace request (sk_Name st) (rv_Number rv)
                   in ([call], sw_call w call, False))))"

definition rollbackAppResource :: "stack_world \<Rightarrow> string \<Rightarrow> uint \<Rightarrow> attempt" where
  "rollbackAppResource w name helmRevisionID =
     (let call = RollbackRelease name helmRevisionID in ([call], sw_call w call, False))"

text \<open>The type assertion on the values' \<open>image\<close> panics when it is no map.\<close>

definition updateAppResourceTag :: "stack_world \<Rightarrow> string \<Rightarrow> string \<Rightarrow> attempt" where
  "updateAppResourceTag w name tag =
     (case sw_release_image w name of
        Inl e \<Rightarrow> ([], Some e, False)
      | Inr False \<Rightarrow> ([], None, True)
      | Inr True \<Rightarrow> (let call = UpgradeReleaseByValues name tag in ([call], sw_call w call, False)))"

definition deleteAppResource :: "stack_world \<Rightarrow> string \<Rightarrow> attempt" where
  "deleteAppResource w name = (let call = UninstallChart name in ([call], sw_call w call, False))"

text \<open>A loop of attempts goes on after an error, and ends at a panic.\<close>

fun attempt_all :: "('x \<Rightarrow> attempt) \<Rightarrow> 'x list \<Rightarrow> cluster_call list \<times> string list \<times> bool" where
  "attempt_all g [] = ([], [], False)"
| "attempt_all g (x # xs) =
     (case g x of (calls, e, panicked) \<Rightarrow>
        if panicked then (calls, [], True)
        else case attempt_all g xs of (calls', es, panicked) \<Rightarrow>
          (calls @ calls', (case e of None \<Rightarrow> es | Some e \<Rightarrow> go_error_text e # es), panicked))"

text \<open>
  An environment group and its linked applications: when the group could not be created, the first
  application dereferences the missing config map. Every error has the same text.
\<close>

definition env_group_error :: "string \<Rightarrow> string" where
  "env_group_error name = ''error creating env group '' @ name"

definition apply_env_group :: "stack_world \<Rightarrow> string \<Rightarrow> env_request \<Rightarrow> cluster_call list \<times> string list \<times> bool" where
  "apply_env_group w namespace envGroup =
     (let call = CreateEnvGroup namespace (er_Name envGroup);
          links = map (AddApplicationToVersionedConfigMap namespace (er_Name envGroup)) (er_LinkedApplications envGroup)
      in case sw_call w call of
           Some _ \<Rightarrow> ([call], [env_group_error (er_Name envGroup)], links \<noteq> [])
         | None \<Rightarrow>
             (call # links, map (\<lambda>_. env_group_error (er_Name envGroup)) (filter (\<lambda>c. sw_call w c \<noteq> None) links), False))"

fun apply_env_groups :: "stack_world \<Rightarrow> string \<Rightarrow> env_request list \<Rightarrow> cluster_call list \<times> string list \<times> bool" where
  "apply_env_groups w namespace [] = ([], [], False)"
| "apply_env_groups w namespace (envGroup # es) =
     (case apply_env_group w namespace envGroup of (calls, errs, panicked) \<Rightarrow>
        if panicked then (calls, errs, True)
        else case apply_env_groups w namespace es of (calls', errs', panicked) \<Rightarrow> (calls @ calls', errs @ errs', panicked))"

section \<open>Revisions\<close>

definition StackRevisionStatusDeploying :: string where "StackRevisionStatusDeploying = ''deploying''"
definition StackRevisionStatusDeployed :: string where "StackRevisionStatusDeployed = ''deployed''"
definition StackRevisionStatusFailed :: string where "StackRevisionStatusFailed = ''failed''"

definition new_revision ::
  "nat \<Rightarrow> uint \<Rightarrow> string \<Rightarrow> source_config list \<times> app_resource list \<times> stack_env_group list \<Rightarrow> stack_revision" where
  "new_revision stackID number status contents =
     \<lparr>rv_ID = 0, rv_StackID = stackID, rv_Number = number, rv_Status = status, rv_Reason = [], rv_Message = [],
      rv_Resources = fst (snd contents), rv_SourceConfigs = fst contents, rv_EnvGroups = snd (snd contents)\<rparr>"

definition outcome_of :: "string \<Rightarrow> string \<Rightarrow> string \<Rightarrow> stack_revision \<Rightarrow> stack_revision" where
  "outcome_of status reason message revision =
     revision\<lparr>rv_Status := status, rv_Reason := reason, rv_Message := message\<rparr>"

text \<open>The reads with which the handlers of a stack that has revisions begin.\<close>

definition with_latest ::
  "stack_faults \<Rightarrow> stack_db \<Rightarrow> stack_model \<Rightarrow> (stack_revision \<Rightarrow> 'a stack_handled) \<Rightarrow> 'a stack_handled" where
  "with_latest f db st next =
     (case sk_Revisions st of
        [] \<Rightarrow> no_revisions db
      | rv # _ \<Rightarrow> or_fail [] db (ReadStackRevisionByNumber f db (sk_ID st) (rv_Number rv)) next)"

text \<open>The saving of the rows of the releases that were installed.\<close>

definition save_errors :: "stack_world \<Rightarrow> string \<Rightarrow> string list \<Rightarrow> app_resource list \<Rightarrow> string list" where
  "save_errors w namespace released resources =
     map (\<lambda>r. ''the resource '' @ namespace @ ''/'' @ re_Name r @ '' could not be saved right now'')
       (filter (\<lambda>r. re_Name r \<in> set released \<and> sw_save_release w (re_Name r) (re_ID r) \<noteq> None) resources)"

definition released :: "stack_world \<Rightarrow> string \<Rightarrow> stack_model \<Rightarrow> app_request list \<Rightarrow> string list" where
  "released w namespace st requests =
     map ar_Name (filter (\<lambda>a. fst (snd (applyAppResource w namespace st a)) = None) requests)"

section \<open>Rolling back (\<open>handlers/stack/rollback.go\<close>)\<close>

definition rolled_back :: "uint \<Rightarrow> string list \<Rightarrow> stack_revision \<Rightarrow> stack_revision" where
  "rolled_back target errs =
     (if errs \<noteq> []
      then outcome_of StackRevisionStatusFailed ''RollbackError''
             (''Error while rolling back to version '' @ show_nat (unat target) @ '': '' @ join_errors errs)
      else outcome_of StackRevisionStatusDeployed ''Rollback''
             (''The stack was rolled back to version '' @ show_nat (unat target)))"

definition StackRollbackHandler ::
  "stack_faults \<Rightarrow> stack_world \<Rightarrow> stack_db \<Rightarrow> uint \<Rightarrow> stack_model \<Rightarrow> (request_error, uint) go_result \<Rightarrow>
     stack_view stack_handled" where
  "StackRollbackHandler f w db projectID st decoded =
     or_fail [] db (no_error (sw_helm_agent w)) (\<lambda>_.
     case decoded of Inl e \<Rightarrow> (db, [], [WroteError e], False) | Inr target \<Rightarrow>
     or_fail [] db (ReadStackRevisionByNumber f db (sk_ID st) target) (\<lambda>revision.
     case sk_Revisions st of [] \<Rightarrow> (db, [], [], True) | rv # _ \<Rightarrow>
     or_fail [] db (ReadStackRevisionByNumber f db (sk_ID st) (rv_Number rv)) (\<lambda>latestRevision.
     on_stored [] (clone_contents (sw_random w) db revision) (\<lambda>db (newSourceConfigs, appResources, envGroups).
     on_stored [] (AppendNewRevision f db (revision\<lparr>rv_ID := 0, rv_Number := rv_Number latestRevision + 1,
       rv_Status := StackRevisionStatusDeploying, rv_SourceConfigs := newSourceConfigs,
       rv_Resources := appResources, rv_EnvGroups := envGroups\<rparr>)) (\<lambda>db revision.
     case attempt_all (\<lambda>r. rollbackAppResource w (re_Name r) (re_HelmRevisionID r)) (rv_Resources revision) of
       (calls, errs, _) \<Rightarrow>
     on_stored calls (UpdateStackRevision f db (rolled_back target errs revision)) (\<lambda>db _.
     answer_stack f calls db [] projectID (sk_UID st)))))))"

section \<open>New sources (\<open>handlers/stack/update_source_put.go\<close>)\<close>

definition tag_of :: "source_config list \<Rightarrow> app_resource \<Rightarrow> string" where
  "tag_of sourceConfigs r =
     fold (\<lambda>c t. if so_UID c = re_SourceConfigUID r then so_ImageTag c else t) sourceConfigs []"

definition source_updated :: "string list \<Rightarrow> stack_revision \<Rightarrow> stack_revision" where
  "source_updated errs =
     (if errs \<noteq> []
      then outcome_of StackRevisionStatusFailed ''DeployError''
             (''Error while updating source configuration: '' @ join_errors errs)
      else outcome_of StackRevisionStatusDeployed ''SourceConfigUpdate'' ''The source configuration was updated'')"

text \<open>
  The environment groups of the latest revision are not cloned. The resources' versions are counted
  up in the array that the saved revision shares.
\<close>

definition StackPutSourceConfigHandler ::
  "stack_faults \<Rightarrow> stack_world \<Rightarrow> stack_db \<Rightarrow> uint \<Rightarrow> stack_model \<Rightarrow> (request_error, source_request list) go_result \<Rightarrow>
     stack_view stack_handled" where
  "StackPutSourceConfigHandler f w db projectID st decoded =
     or_fail [] db (no_error (sw_helm_agent w)) (\<lambda>_.
     case decoded of Inl e \<Rightarrow> (db, [], [WroteError e], False) | Inr req \<Rightarrow>
     case sk_Revisions st of [] \<Rightarrow> (db, [], [], True) | rv # _ \<Rightarrow>
     or_fail [] db (ReadStackRevisionByNumber f db (sk_ID st) (rv_Number rv)) (\<lambda>revision.
     on_drawn db (getSourceConfigModels (sw_random w) req (sd_draws db)) (\<lambda>db sourceConfigs.
     on_drawn db (CloneAppResources (sw_random w) (rv_SourceConfigs revision) sourceConfigs (rv_Resources revision)
       (sd_draws db)) (\<lambda>db clonedAppResources.
     on_stored [] (AppendNewRevision f db (revision\<lparr>rv_ID := 0, rv_Number := rv_Number revision + 1,
       rv_Status := StackRevisionStatusDeploying, rv_SourceConfigs := sourceConfigs,
       rv_Resources := clonedAppResources\<rparr>)) (\<lambda>db revision.
     or_fail [] db (no_error (sw_registries w)) (\<lambda>_.
     case attempt_all (\<lambda>r. updateAppResourceTag w (re_Name r) (tag_of sourceConfigs r)) (rv_Resources revision) of
       (calls, errs, panicked) \<Rightarrow>
     if panicked then (db, calls, [], True)
     else on_stored calls (UpdateStackRevision f db (source_updated errs (revision\<lparr>rv_Resources :=
            map (\<lambda>r. r\<lparr>re_HelmRevisionID := re_HelmRevisionID r + 1\<rparr>) (rv_Resources revision)\<rparr>))) (\<lambda>db _.
          answer_stack f calls db [] projectID (sk_UID st))))))))"

section \<open>Applications (\<open>add_application.go\<close>, \<open>remove_application.go\<close>)\<close>

definition app_installed :: "string list \<Rightarrow> stack_revision \<Rightarrow> stack_revision" where
  "app_installed errs revision =
     (if errs \<noteq> [] then outcome_of StackRevisionStatusFailed ''DeployError'' (join_errors errs) revision
      else revision\<lparr>rv_Status := StackRevisionStatusDeployed\<rparr>)"

definition app_added :: "string \<Rightarrow> string list \<Rightarrow> stack_revision \<Rightarrow> stack_revision" where
  "app_added name saveErrs revision =
     (if saveErrs \<noteq> [] then outcome_of (rv_Status revision) ''SaveError'' (join_errors saveErrs) revision
      else outcome_of (rv_Status revision) ''AddAppSuccess'' (''New application '' @ name @ '' added successfully.'') revision)"

definition StackAddApplicationHandler ::
  "stack_faults \<Rightarrow> stack_world \<Rightarrow> stack_db \<Rightarrow> uint \<Rightarrow> string \<Rightarrow> stack_model \<Rightarrow> (request_error, app_request) go_result \<Rightarrow>
     stack_view stack_handled" where
  "StackAddApplicationHandler f w db projectID namespace st decoded =
     (case decoded of Inl e \<Rightarrow> (db, [], [WroteError e], False) | Inr req \<Rightarrow>
     with_latest f db st (\<lambda>latestRevision.
     on_drawn db (CloneSourceConfigs (sw_random w) (rv_SourceConfigs latestRevision) (sd_draws db)) (\<lambda>db newSourceConfigs.
     on_drawn db (CloneAppResources (sw_random w) (rv_SourceConfigs latestRevision) newSourceConfigs
       (rv_Resources latestRevision) (sd_draws db)) (\<lambda>db clonedResources.
     on_drawn db (getResourceModels (sw_random w) newSourceConfigs (sw_default_repo w) [req] (sd_draws db)) (\<lambda>db newResources.
     case duplicate_name [] (map re_Name (clonedResources @ newResources)) of
       Some name \<Rightarrow> duplicate_error db ''app resource'' name
     | None \<Rightarrow>
     on_drawn db (CloneEnvGroups (sw_random w) (rv_EnvGroups latestRevision) (sd_draws db)) (\<lambda>db envGroups.
     on_stored [] (AppendNewRevision f db (new_revision (sk_ID st) (rv_Number latestRevision + 1)
       StackRevisionStatusDeploying (newSourceConfigs, clonedResources @ newResources, envGroups))) (\<lambda>db revision.
     or_fail [] db (ReadStackByID f db projectID (sk_ID st)) (\<lambda>st.
     or_fail [] db (no_error (sw_registries w)) (\<lambda>_.
     or_fail [] db (no_error (sw_helm_agent w)) (\<lambda>_.
     let req = default_repo (sw_default_repo w) req
     in case attempt_all (applyAppResource w namespace st) [req] of (calls, errs, panicked) \<Rightarrow>
     if panicked then (db, calls, [], True)
     else on_stored calls (UpdateStackRevision f db (app_installed errs revision)) (\<lambda>db revision.
          on_stored calls (UpdateStackRevision f db (app_added (ar_Name req)
            (save_errors w namespace (released w namespace st [req]) (rv_Resources revision)) revision)) (\<lambda>db _.
          (db, calls, [], False)))))))))))))"

definition StackRemoveApplicationHandler ::
  "stack_faults \<Rightarrow> stack_world \<Rightarrow> stack_db \<Rightarrow> stack_model \<Rightarrow> (request_error, string) go_result \<Rightarrow>
     stack_view stack_handled" where
  "StackRemoveApplicationHandler f w db st param =
     (case param of Inl e \<Rightarrow> (db, [], [WroteError e], False) | Inr appResourceName \<Rightarrow>
     with_latest f db st (\<lambda>revision.
     on_stored [] (clone_contents (sw_random w) db revision) (\<lambda>db (newSourceConfigs, appResources, envGroups).
     on_stored [] (AppendNewRevision f db (new_revision (sk_ID st) (rv_Number revision + 1) StackRevisionStatusDeploying
       (newSourceConfigs, filter (\<lambda>r. re_Name r \<noteq> appResourceName) appResources, envGroups))) (\<lambda>db revision.
     or_fail [] db (no_error (sw_helm_agent w)) (\<lambda>_.
     case deleteAppResource w appResourceName of (calls, e, _) \<Rightarrow>
     on_stored calls (UpdateStackRevision f db (case e of
         None \<Rightarrow> outcome_of StackRevisionStatusDeployed ''RemoveAppSuccess''
                   (''Application '' @ appResourceName @ '' removed successfully'') revision
       | Some e \<Rightarrow> outcome_of StackRevisionStatusFailed ''RemoveAppError'' (go_error_text e) revision)) (\<lambda>db _.
     (db, calls, [], False)))))))"

section \<open>Environment groups (\<open>add_env_group.go\<close>, \<open>remove_env_group.go\<close>)\<close>

definition env_group_added :: "string \<Rightarrow> string list \<Rightarrow> stack_revision \<Rightarrow> stack_revision" where
  "env_group_added name errs =
     (if errs \<noteq> [] then outcome_of StackRevisionStatusFailed ''EnvGroupDeployErr'' (join_errors errs)
      else outcome_of StackRevisionStatusDeployed ''AddEnvGroupSuccess'' (''Env Group '' @ name @ '' added successfully.''))"

definition StackAddEnvGroupHandler ::
  "stack_faults \<Rightarrow> stack_world \<Rightarrow> stack_db \<Rightarrow> uint \<Rightarrow> uint \<Rightarrow> string \<Rightarrow> stack_model \<Rightarrow>
     (request_error, env_request) go_result \<Rightarrow> stack_view stack_handled" where
  "StackAddEnvGroupHandler f w db projectID clusterID namespace st decoded =
     (case decoded of Inl e \<Rightarrow> (db, [], [WroteError e], False) | Inr req \<Rightarrow>
     with_latest f db st (\<lambda>latestRevision.
     on_stored [] (clone_contents (sw_random w) db latestRevision) (\<lambda>db (newSourceConfigs, appResources, clonedEnvGroups).
     on_drawn db (getEnvGroupModels (sw_random w) projectID clusterID namespace [req] (sd_draws db)) (\<lambda>db newEnvGroups.
     case duplicate_name [] (map eg_Name (clonedEnvGroups @ newEnvGroups)) of
       Some name \<Rightarrow> duplicate_error db ''env group'' name
     | None \<Rightarrow>
     on_stored [] (AppendNewRevision f db (new_revision (sk_ID st) (rv_Number latestRevision + 1)
       StackRevisionStatusDeployed (newSourceConfigs, appResources, clonedEnvGroups @ newEnvGroups))) (\<lambda>db revision.
     or_fail [] db (no_error (sw_k8s_agent w)) (\<lambda>_.
     case apply_env_group w namespace req of (calls, errs, panicked) \<Rightarrow>
     if panicked then (db, calls, [], True)
     else on_stored calls (UpdateStackRevision f db (env_group_added (er_Name req) errs revision)) (\<lambda>db _.
          (db, calls, [], False))))))))"

text \<open>The namespace is that of the last group of the name.\<close>

definition env_group_namespace :: "string \<Rightarrow> stack_env_group list \<Rightarrow> string" where
  "env_group_namespace name envGroups = fold (\<lambda>e ns. if eg_Name e = name then eg_Namespace e else ns) envGroups []"

definition StackRemoveEnvGroupHandler ::
  "stack_faults \<Rightarrow> stack_world \<Rightarrow> stack_db \<Rightarrow> stack_model \<Rightarrow> (request_error, string) go_result \<Rightarrow>
     stack_view stack_handled" where
  "StackRemoveEnvGroupHandler f w db st param =
     (case param of Inl e \<Rightarrow> (db, [], [WroteError e], False) | Inr envGroupName \<Rightarrow>
     with_latest f db st (\<lambda>revision.
     on_stored [] (clone_contents (sw_random w) db revision) (\<lambda>db (newSourceConfigs, appResources, envGroups).
     on_stored [] (AppendNewRevision f db (new_revision (sk_ID st) (rv_Number revision + 1) StackRevisionStatusDeploying
       (newSourceConfigs, appResources, filter (\<lambda>e. eg_Name e \<noteq> envGroupName) envGroups))) (\<lambda>db revision.
     or_fail [] db (no_error (sw_k8s_agent w)) (\<lambda>_.
     let call = DeleteEnvGroup envGroupName (env_group_namespace envGroupName envGroups)
     in on_stored [call] (UpdateStackRevision f db (case sw_call w call of
         None \<Rightarrow> outcome_of StackRevisionStatusDeployed ''RemoveEnvGroupSuccess''
                   (''EnvGroup '' @ envGroupName @ '' removed successfully'') revision
       | Some e \<Rightarrow> outcome_of StackRevisionStatusFailed ''RemoveEnvGroupError'' (go_error_text e) revision)) (\<lambda>db _.
     (db, [call], [], False)))))))"

section \<open>Creating (\<open>create.go\<close>)\<close>

text \<open>The deployment of a stack that was just stored; \<open>revision\<close> is its first.\<close>

definition creation_deployed ::
  "stack_faults \<Rightarrow> stack_world \<Rightarrow> cluster_call list \<Rightarrow> string \<Rightarrow> create_stack_request \<Rightarrow> stack_model \<Rightarrow> stack_db \<Rightarrow>
     stack_revision \<Rightarrow> (cluster_call list \<Rightarrow> stack_db \<Rightarrow> stack_revision \<Rightarrow> stack_view stack_handled) \<Rightarrow>
     stack_view stack_handled" where
  "creation_deployed f w calls namespace req st db revision next =
     or_fail calls db (no_error (sw_registries w)) (\<lambda>_.
     or_fail calls db (no_error (sw_helm_agent w)) (\<lambda>_.
     let requests = map (default_repo (sw_default_repo w)) (cs_AppResources req)
     in case attempt_all (applyAppResource w namespace st) requests of (installs, errs, panicked) \<Rightarrow>
     if panicked then (db, calls @ installs, [], True)
     else let calls = calls @ installs
          in on_stored calls (UpdateStackRevision f db (app_installed errs revision)) (\<lambda>db revision.
          let saveErrs = save_errors w namespace (released w namespace st requests) (rv_Resources revision)
          in if saveErrs \<noteq> []
             then on_stored calls (UpdateStackRevision f db
                    (outcome_of (rv_Status revision) ''SaveError'' (join_errors saveErrs) revision)) (next calls)
             else next calls db revision)))"

text \<open>The end: success, when nothing else was said.\<close>

definition creation_finished ::
  "stack_faults \<Rightarrow> uint \<Rightarrow> string \<Rightarrow> cluster_call list \<Rightarrow> stack_db \<Rightarrow> stack_revision \<Rightarrow> stack_view stack_handled" where
  "creation_finished f projectID uid calls db revision =
     (let answer = (\<lambda>db _. answer_stack f calls db [WroteStatus 201] projectID uid)
      in if rv_Status revision \<noteq> StackRevisionStatusFailed \<and> rv_Reason revision = []
         then on_stored calls (UpdateStackRevision f db
                (outcome_of (rv_Status revision) ''CreationSuccess'' ''Stack deployed successfully'' revision)) answer
         else answer db revision)"

definition StackCreateHandler ::
  "stack_faults \<Rightarrow> stack_world \<Rightarrow> stack_db \<Rightarrow> uint \<Rightarrow> uint \<Rightarrow> string \<Rightarrow> (request_error, create_stack_request) go_result \<Rightarrow>
     stack_view stack_handled" where
  "StackCreateHandler f w db projectID clusterID namespace decoded =
     (case decoded of Inl e \<Rightarrow> (db, [], [WroteError e], False) | Inr req \<Rightarrow>
     on_drawn db (sw_random w (sd_draws db), sd_draws db + 1) (\<lambda>db uid.
     on_drawn db (getSourceConfigModels (sw_random w) (cs_SourceConfigs req) (sd_draws db)) (\<lambda>db sourceConfigs.
     on_drawn db (getResourceModels (sw_random w) sourceConfigs (sw_default_repo w) (cs_AppResources req) (sd_draws db))
       (\<lambda>db resources.
     case duplicate_name [] (map re_Name resources) of
       Some name \<Rightarrow> duplicate_error db ''app resource'' name
     | None \<Rightarrow>
     on_drawn db (getEnvGroupModels (sw_random w) projectID clusterID namespace (cs_EnvGroups req) (sd_draws db)) (\<lambda>db envGroups.
     case duplicate_name [] (map eg_Name envGroups) of
       Some name \<Rightarrow> duplicate_error db ''env group'' name
     | None \<Rightarrow>
     on_stored [] (CreateStack f db
       \<lparr>sk_ID = 0, sk_ProjectID = projectID, sk_ClusterID = clusterID, sk_Namespace = namespace, sk_Name = cs_Name req,
        sk_UID = uid, sk_Revisions =
          [new_revision 0 1 StackRevisionStatusDeploying (sourceConfigs, resources, envGroups)]\<rparr>) (\<lambda>db st.
     or_fail [] db (no_error (sw_k8s_agent w)) (\<lambda>_.
     case sk_Revisions st of [] \<Rightarrow> (db, [], [], True) | revision # _ \<Rightarrow>
     case apply_env_groups w namespace (cs_EnvGroups req) of (calls, errs, panicked) \<Rightarrow>
     if panicked then (db, calls, [], True)
     else if errs \<noteq> []
     then on_stored calls (UpdateStackRevision f db
            (outcome_of StackRevisionStatusFailed ''EnvGroupDeployErr'' (join_errors errs) revision))
            (creation_finished f projectID (sk_UID st) calls)
     else creation_deployed f w calls namespace req st db revision
            (\<lambda>calls. creation_finished f projectID (sk_UID st) calls))))))))"

section \<open>Deleting, renaming, reading\<close>

text \<open>What the cluster answers to a deletion is not looked at.\<close>

definition StackDeleteHandler :: "stack_faults \<Rightarrow> stack_world \<Rightarrow> stack_db \<Rightarrow> stack_model \<Rightarrow> stack_view stack_handled" where
  "StackDeleteHandler f w db st =
     (let finish = (\<lambda>calls. case DeleteStack f db st of
            (db, Some e) \<Rightarrow> fail_with calls db e
          | (db, None) \<Rightarrow> (db, calls, [], False))
      in case sk_Revisions st of
           [] \<Rightarrow> finish []
         | rv # _ \<Rightarrow>
             or_fail [] db (ReadStackRevisionByNumber f db (sk_ID st) (rv_Number rv)) (\<lambda>revision.
             or_fail [] db (no_error (sw_k8s_agent w)) (\<lambda>_.
             or_fail [] db (no_error (sw_helm_agent w)) (\<lambda>_.
             finish (map (\<lambda>r. UninstallChart (re_Name r)) (rv_Resources revision) @
                     map (\<lambda>e. DeleteEnvGroup (eg_Name e) (eg_Namespace e)) (rv_EnvGroups revision))))))"

text \<open>The row itself is answered.\<close>

definition StackUpdateStack ::
  "stack_faults \<Rightarrow> stack_db \<Rightarrow> uint \<Rightarrow> stack_model \<Rightarrow> (request_error, string) go_result \<Rightarrow> stack_model stack_handled" where
  "StackUpdateStack f db projectID st decoded =
     (case decoded of Inl e \<Rightarrow> (db, [], [WroteError e], False) | Inr name \<Rightarrow>
     if sk_Revisions st = [] then no_revisions db
     else or_fail [] db (ReadStackByID f db projectID (sk_ID st)) (\<lambda>st.
       on_stored [] (UpdateStack f db (st\<lparr>sk_Name := name\<rparr>)) (\<lambda>db newStack. (db, [], [WroteResult newStack], False))))"

definition StackGetHandler :: "stack_db \<Rightarrow> stack_model \<Rightarrow> stack_view stack_handled" where
  "StackGetHandler db st = (db, [], [WroteResult (ToStackType st)], False)"

definition StackGetRevisionHandler ::
  "stack_faults \<Rightarrow> stack_db \<Rightarrow> stack_model \<Rightarrow> (request_error, uint) go_result \<Rightarrow> revision_view stack_handled" where
  "StackGetRevisionHandler f db st param =
     (case param of Inl e \<Rightarrow> (db, [], [WroteError e], False) | Inr revNumber \<Rightarrow>
     or_fail [] db (ReadStackRevisionByNumber f db (sk_ID st) revNumber) (\<lambda>revision.
     (db, [], [WroteResult (ToStackRevisionType (sk_UID st) revision)], False)))"

definition StackListHandler ::
  "stack_faults \<Rightarrow> stack_db \<Rightarrow> uint \<Rightarrow> uint \<Rightarrow> string \<Rightarrow> stack_view list stack_handled" where
  "StackListHandler f db projectID clusterID namespace =
     or_fail [] db (ListStacks f db projectID clusterID namespace) (\<lambda>stacks.
     (db, [], [WroteResult (map ToStackType stacks)], False))"

definition StackListRevisionsHandler :: "stack_db \<Rightarrow> stack_model \<Rightarrow> revision_view list stack_handled" where
  "StackListRevisionsHandler db st =
     (db, [], [WroteResult (map (ToStackRevisionType (sk_UID st)) (sk_Revisions st))], False)"

end
