(* ===== verification/Stack_Saving.thy ===== *)
theory Stack_Saving
  imports Stacks
begin

text \<open>
  What the saving of rows and revisions keeps: the contents of older revisions, the keys, and for a
  revision whose contents are in the tables, the tables themselves.
\<close>

section \<open>What saving keeps\<close>

definition keyed :: "('c \<Rightarrow> nat) \<Rightarrow> nat \<Rightarrow> 'c list \<Rightarrow> bool" where
  "keyed key n rows \<longleftrightarrow> distinct (map key rows) \<and> (\<forall>r\<in>set rows. 0 < key r \<and> key r < n)"

lemma upsert_keyed:
  assumes "keyed key n rows" and "0 < key c" "key c < n"
  shows "keyed key n (upsert key c rows)"
proof -
  have "map key (map (\<lambda>r. if key r = key c then c else r) rows) = map key rows" by simp
  then show ?thesis using assms unfolding keyed_def upsert_def by (auto simp del: map_map)
qed

lemma keyed_up: "keyed key m0 rows \<Longrightarrow> m0 \<le> m \<Longrightarrow> keyed key m rows"
  by (auto simp: keyed_def)

text \<open>What the saving of contents relies on: a key and an owner are separate fields of a row.\<close>

locale owned_contents =
  fixes k :: "'c contents"
  assumes key_set_key: "co_key k (co_set_key k i c) = i"
    and key_set_owner: "co_key k (co_set_owner k i c) = co_key k c"
    and owner_set_key: "co_owner k (co_set_key k i c) = co_owner k c"
    and owner_set_owner: "co_owner k (co_set_owner k i c) = i"
    and owner_same: "co_set_owner k (co_owner k c) c = c"
begin

lemma upsert_below:
  "n0 \<le> co_key k c \<Longrightarrow>
   filter (\<lambda>r. co_key k r < n0) (upsert (co_key k) c rows) = filter (\<lambda>r. co_key k r < n0) rows"
proof -
  assume c: "n0 \<le> co_key k c"
  have "filter (\<lambda>r. co_key k r < n0) (map (\<lambda>r. if co_key k r = co_key k c then c else r) rows) =
      filter (\<lambda>r. co_key k r < n0) rows"
    using c by (induction rows) auto
  then show ?thesis using c by (simp add: upsert_def)
qed

lemma upsert_keys: "co_key k ` set (upsert (co_key k) c rows) = insert (co_key k c) (co_key k ` set rows)"
  by (auto simp: upsert_def image_iff)

text \<open>The table's keys are keys, and stay so.\<close>

lemma save_keyed:
  assumes "save_contents k owner cs rows n = (cs', rows', n')"
    and "0 < n" "keyed (co_key k) n rows" "\<forall>c\<in>set cs. co_key k c < n"
  shows "keyed (co_key k) n' rows' \<and> (\<forall>c\<in>set cs'. 0 < co_key k c \<and> co_key k c < n') \<and> n \<le> n'"
  using assms
proof (induction cs arbitrary: rows n cs')
  case (Cons c cs)
  let ?c = "co_set_owner k owner c"
  let ?d = "if co_key k ?c = 0 then co_set_key k n ?c else ?c"
  let ?n = "if co_key k ?c = 0 then n + 1 else n"
  obtain cs1 where rest: "save_contents k owner cs (upsert (co_key k) ?d rows) ?n = (cs1, rows', n')"
    and cs': "cs' = ?d # cs1"
    using Cons.prems(1) by (auto simp: Let_def split: prod.splits if_splits)
  have d: "co_key k ?d < ?n" "0 < co_key k ?d"
    using Cons.prems(2,4) by (auto simp: key_set_key key_set_owner)
  have "keyed (co_key k) ?n rows" using Cons.prems(3) by (auto simp: keyed_def)
  then have "keyed (co_key k) ?n (upsert (co_key k) ?d rows)" using d by (intro upsert_keyed)
  moreover have "\<forall>c\<in>set cs. co_key k c < ?n" "0 < ?n" using Cons.prems(2,4) by auto
  ultimately show ?case using Cons.IH [OF rest] d cs' by (auto split: if_splits)
qed simp

text \<open>Rows older than all that is saved stay as they are, and newer ones have newer owners.\<close>

definition table_later :: "nat \<Rightarrow> 'c list \<Rightarrow> 'c list \<Rightarrow> bool" where
  "table_later n0 rows0 rows \<longleftrightarrow>
     filter (\<lambda>r. co_key k r < n0) rows = rows0 \<and> (\<forall>r\<in>set rows. n0 \<le> co_key k r \<longrightarrow> n0 \<le> co_owner k r)"

lemma save_later:
  assumes "table_later n0 rows0 rows" and "n0 \<le> n" "0 < n0" "n0 \<le> owner"
    and "\<forall>c\<in>set cs. co_key k c = 0 \<or> n0 \<le> co_key k c"
    and "save_contents k owner cs rows n = (cs', rows', n')"
  shows "table_later n0 rows0 rows' \<and> (\<forall>c\<in>set cs'. n0 \<le> co_key k c)"
  using assms
proof (induction cs arbitrary: rows n cs')
  case (Cons c cs)
  let ?c = "co_set_owner k owner c"
  let ?d = "if co_key k ?c = 0 then co_set_key k n ?c else ?c"
  let ?n = "if co_key k ?c = 0 then n + 1 else n"
  obtain cs1 where rest: "save_contents k owner cs (upsert (co_key k) ?d rows) ?n = (cs1, rows', n')"
    and cs': "cs' = ?d # cs1"
    using Cons.prems(6) by (auto simp: Let_def split: prod.splits if_splits)
  have d: "n0 \<le> co_key k ?d" "co_owner k ?d = owner"
    using Cons.prems(2,5) by (auto simp: key_set_key key_set_owner owner_set_key owner_set_owner)
  have "table_later n0 rows0 (upsert (co_key k) ?d rows)"
    using Cons.prems(1,4) d upsert_below [OF d(1)] by (auto simp: table_later_def upsert_def split: if_splits)
  moreover have "n0 \<le> ?n" "\<forall>c\<in>set cs. co_key k c = 0 \<or> n0 \<le> co_key k c" using Cons.prems(2,5) by auto
  ultimately show ?case using Cons.IH [OF _ _ Cons.prems(3,4) _ rest] d(1) cs' by simp
qed simp

lemma save_step:
  assumes "save_contents k owner cs rows n = (cs', rows', n')"
    and "keyed (co_key k) m rows" "table_later n0 rows0 rows"
    and "m \<le> n" "n0 \<le> m" "0 < n0" "n0 \<le> owner"
    and "\<forall>c\<in>set cs. (co_key k c = 0 \<or> n0 \<le> co_key k c) \<and> co_key k c < m"
  shows "keyed (co_key k) n' rows' \<and> table_later n0 rows0 rows' \<and> n \<le> n' \<and>
    (\<forall>c\<in>set cs'. n0 \<le> co_key k c \<and> co_key k c < n')"
proof -
  have "0 < n" "n0 \<le> n" "\<forall>c\<in>set cs. co_key k c < n" "\<forall>c\<in>set cs. co_key k c = 0 \<or> n0 \<le> co_key k c"
    using assms(4-6,8) by auto
  then show ?thesis
    using save_keyed [OF assms(1) _ keyed_up [OF assms(2,4)]] save_later [OF assms(3) _ assms(6,7) _ assms(1)] by blast
qed

lemma later_owned:
  assumes "table_later n0 rows0 rows" and "i < n0"
  shows "filter (\<lambda>r. co_owner k r = i) rows = filter (\<lambda>r. co_owner k r = i) rows0"
proof -
  have old: "filter (\<lambda>r. co_key k r < n0) rows = rows0" using assms(1) by (simp add: table_later_def)
  have "filter (\<lambda>r. co_owner k r = i) rows = filter (\<lambda>r. co_key k r < n0 \<and> co_owner k r = i) rows"
    using assms by (intro filter_cong) (auto simp: table_later_def)
  also have "\<dots> = filter (\<lambda>r. co_owner k r = i) (filter (\<lambda>r. co_key k r < n0) rows)"
    unfolding filter_filter ..
  finally show ?thesis unfolding old .
qed

lemma same_table_later: "keyed (co_key k) n0 rows \<Longrightarrow> table_later n0 rows rows"
  by (auto simp: table_later_def keyed_def)

text \<open>New rows are appended as they are, under their owner and the next keys.\<close>

lemma save_new:
  assumes "\<forall>c\<in>set cs. co_key k c = 0" and "0 < n" and "\<forall>r\<in>set rows. co_key k r < n"
    and "save_contents k owner cs rows n = (cs', rows', n')"
  shows "rows' = rows @ cs' \<and> list_all2 (\<lambda>c d. \<exists>i\<ge>n. d = co_set_key k i (co_set_owner k owner c)) cs cs' \<and>
    distinct (map (co_key k) cs') \<and> (\<forall>d\<in>set cs'. n \<le> co_key k d)"
  using assms
proof (induction cs arbitrary: rows n cs')
  case (Cons c cs)
  let ?d = "co_set_key k n (co_set_owner k owner c)"
  have "co_key k c = 0" using Cons.prems(1) by simp
  moreover have "upsert (co_key k) ?d rows = rows @ [?d]"
    using Cons.prems(3) by (auto simp: upsert_def key_set_key)
  ultimately obtain cs1 where rest: "save_contents k owner cs (rows @ [?d]) (n + 1) = (cs1, rows', n')"
    and cs': "cs' = ?d # cs1"
    using Cons.prems(4) by (auto simp: Let_def key_set_owner split: prod.splits)
  have "\<forall>r\<in>set (rows @ [?d]). co_key k r < n + 1" using Cons.prems(3) by (auto simp: key_set_key)
  from Cons.IH [OF _ _ this rest] Cons.prems(1)
  have IH: "rows' = (rows @ [?d]) @ cs1"
    "list_all2 (\<lambda>c d. \<exists>i\<ge>n + 1. d = co_set_key k i (co_set_owner k owner c)) cs cs1"
    "distinct (map (co_key k) cs1)" "\<forall>d\<in>set cs1. n + 1 \<le> co_key k d" by simp_all
  have "list_all2 (\<lambda>c d. \<exists>i\<ge>n. d = co_set_key k i (co_set_owner k owner c)) cs cs1"
    using IH(2) by (rule list_all2_mono) (metis Suc_eq_plus1 Suc_leD)
  then show ?case using IH cs' by (auto simp: key_set_key)
qed simp

text \<open>Rows of the table are saved in their place, under their new owner.\<close>

lemma save_moved:
  assumes "distinct (map (co_key k) rows)" and "set cs \<subseteq> set rows" "distinct (map (co_key k) cs)"
    and "\<forall>c\<in>set cs. co_key k c \<noteq> 0 \<and> co_key k (g c) = co_key k c"
  shows "save_contents k owner (map g cs) rows n =
    (map (\<lambda>c. co_set_owner k owner (g c)) cs,
     map (\<lambda>r. if r \<in> set cs then co_set_owner k owner (g r) else r) rows, n)"
  using assms
proof (induction cs arbitrary: rows)
  case (Cons c cs)
  let ?g = "\<lambda>c. co_set_owner k owner (g c)"
  let ?rows = "map (\<lambda>r. if co_key k r = co_key k c then ?g c else r) rows"
  have key: "co_key k (?g c) = co_key k c" "co_key k c \<noteq> 0" using Cons.prems(4) by (simp_all add: key_set_owner)
  have same: "r = c" if "r \<in> set rows" "co_key k r = co_key k c" for r
    using that Cons.prems(1,2) unfolding distinct_map by (auto dest: inj_onD)
  have up: "upsert (co_key k) (?g c) rows = ?rows"
    using Cons.prems(2) by (auto simp: upsert_def key)
  have "map (co_key k) ?rows = map (co_key k) rows" using key by simp
  then have "distinct (map (co_key k) ?rows)" using Cons.prems(1) by metis
  moreover have other: "co_key k d \<noteq> co_key k c" if "d \<in> set cs" for d
    using that Cons.prems(3) by (auto simp: image_iff)
  then have "set cs \<subseteq> set ?rows" using Cons.prems(2) by force
  ultimately have "save_contents k owner (map g cs) ?rows n =
      (map ?g cs, map (\<lambda>r. if r \<in> set cs then ?g r else r) ?rows, n)"
    using Cons.prems(3,4) by (intro Cons.IH) auto
  moreover have "map (\<lambda>r. if r \<in> set cs then ?g r else r) ?rows =
      map (\<lambda>r. if r \<in> set (c # cs) then ?g r else r) rows"
  proof -
    have "?g c \<notin> set cs" using other key(1) by metis
    then show ?thesis using same by (auto simp: other)
  qed
  ultimately show ?case using key by (simp add: Let_def up)
qed simp

lemma moved_loaded:
  assumes "i = j \<or> (\<forall>r\<in>set rows. co_owner k r \<noteq> i)"
  shows "filter (\<lambda>r. co_owner k r = i)
      (map (\<lambda>r. if r \<in> set (filter (\<lambda>r. co_owner k r = j) rows) then co_set_owner k i (g r) else r) rows) =
    map (\<lambda>c. co_set_owner k i (g c)) (filter (\<lambda>r. co_owner k r = j) rows)"
proof -
  have "filter (\<lambda>r. co_owner k r = i) (map (\<lambda>r. if r \<in> R then co_set_owner k i (g r) else r) xs) =
      map (\<lambda>c. co_set_owner k i (g c)) (filter (\<lambda>r. co_owner k r = j) xs)"
    if "set xs \<subseteq> set rows" "R = {r \<in> set rows. co_owner k r = j}" for xs R
    using that(1)
  proof (induction xs)
    case (Cons x xs)
    have x: "x \<in> set rows" and "set xs \<subseteq> set rows" using Cons.prems by auto
    note IH = Cons.IH [OF this(2)]
    show ?case
    proof (cases "co_owner k x = j")
      case True
      then have "x \<in> R" using x that(2) by simp
      then show ?thesis using IH True by (simp add: owner_set_owner)
    next
      case False
      then have "x \<notin> R" "co_owner k x \<noteq> i" using x that(2) assms by auto
      then show ?thesis using IH False by simp
    qed
  qed simp
  then show ?thesis by simp
qed

lemma save_below:
  assumes "save_contents k owner cs rows n = (cs', rows', n')"
    and "\<forall>r\<in>set rows. co_owner k r < m" and "owner < m"
  shows "\<forall>r\<in>set rows'. co_owner k r < m"
  using assms
proof (induction cs arbitrary: rows n cs')
  case (Cons c cs)
  let ?c = "co_set_owner k owner c"
  let ?d = "if co_key k ?c = 0 then co_set_key k n ?c else ?c"
  let ?n = "if co_key k ?c = 0 then n + 1 else n"
  obtain cs1 where rest: "save_contents k owner cs (upsert (co_key k) ?d rows) ?n = (cs1, rows', n')"
    using Cons.prems(1) by (auto simp: Let_def split: prod.splits if_splits)
  have "co_owner k ?d = owner" by (simp add: owner_set_key owner_set_owner)
  then have "\<forall>r\<in>set (upsert (co_key k) ?d rows). co_owner k r < m"
    using Cons.prems(2,3) by (auto simp: upsert_def)
  then show ?case by (rule Cons.IH [OF rest _ Cons.prems(3)])
qed simp

end

interpretation sources: owned_contents source_contents
  by unfold_locales (simp_all add: source_contents_def)

interpretation resources: owned_contents resource_contents
  by unfold_locales (simp_all add: resource_contents_def)

interpretation envs: owned_contents env_contents
  by unfold_locales (simp_all add: env_contents_def)

lemmas contents_keys = source_contents_def resource_contents_def env_contents_def

text \<open>The tables are keyed, their owners are keys that were handed out, the revisions in them are bare.\<close>

definition wf_stacks :: "stack_db \<Rightarrow> bool" where
  "wf_stacks db \<longleftrightarrow> 0 < sd_next db \<and>
     keyed rv_ID (sd_next db) (sd_revisions db) \<and> keyed so_ID (sd_next db) (sd_sources db) \<and>
     keyed re_ID (sd_next db) (sd_resources db) \<and> keyed eg_ID (sd_next db) (sd_envs db) \<and>
     (\<forall>s\<in>set (sd_sources db). so_RevisionID s < sd_next db) \<and>
     (\<forall>r\<in>set (sd_resources db). re_RevisionID r < sd_next db) \<and>
     (\<forall>e\<in>set (sd_envs db). eg_RevisionID e < sd_next db) \<and>
     (\<forall>rv\<in>set (sd_revisions db). bare_revision rv = rv)"

text \<open>
  \<open>db'\<close> holds what \<open>db\<close> held when \<open>n0\<close> was the next key, and besides only newer rows after it; \<open>envs\<close>
  says whether this goes for the environment groups too.
\<close>

definition later :: "bool \<Rightarrow> nat \<Rightarrow> stack_db \<Rightarrow> stack_db \<Rightarrow> bool" where
  "later envs n0 db db' \<longleftrightarrow> n0 \<le> sd_next db' \<and>
     (\<exists>new. sd_revisions db' = sd_revisions db @ new \<and> (\<forall>rv\<in>set new. n0 \<le> rv_ID rv)) \<and>
     sources.table_later n0 (sd_sources db) (sd_sources db') \<and>
     resources.table_later n0 (sd_resources db) (sd_resources db') \<and>
     (envs \<longrightarrow> envs.table_later n0 (sd_envs db) (sd_envs db'))"

text \<open>A revision that is new, or was saved since.\<close>

definition newer :: "bool \<Rightarrow> nat \<Rightarrow> nat \<Rightarrow> stack_revision \<Rightarrow> bool" where
  "newer envs n0 n rv \<longleftrightarrow>
     (rv_ID rv = 0 \<or> n0 \<le> rv_ID rv) \<and> rv_ID rv < n \<and>
     (\<forall>r\<in>set (rv_Resources rv). (re_ID r = 0 \<or> n0 \<le> re_ID r) \<and> re_ID r < n) \<and>
     (\<forall>s\<in>set (rv_SourceConfigs rv). (so_ID s = 0 \<or> n0 \<le> so_ID s) \<and> so_ID s < n) \<and>
     (\<forall>e\<in>set (rv_EnvGroups rv). (envs \<longrightarrow> eg_ID e = 0 \<or> n0 \<le> eg_ID e) \<and> eg_ID e < n)"

lemma later_refl: "wf_stacks db \<Longrightarrow> later envs (sd_next db) db db"
  using sources.same_table_later resources.same_table_later envs.same_table_later
  by (auto simp: wf_stacks_def later_def contents_keys keyed_def)

lemma later_load:
  assumes "later envs n0 db db'" and "rv_ID rv < n0"
  shows "rv_SourceConfigs (load_revision db' rv) = rv_SourceConfigs (load_revision db rv)"
    and "rv_Resources (load_revision db' rv) = rv_Resources (load_revision db rv)"
    and "envs \<Longrightarrow> load_revision db' rv = load_revision db rv"
  using assms sources.later_owned [of n0 _ _ "rv_ID rv"] resources.later_owned [of n0 _ _ "rv_ID rv"]
    envs.later_owned [of n0 _ _ "rv_ID rv"]
  by (simp_all add: later_def load_revision_def contents_keys)

lemma bare_simps [simp]:
  "rv_ID (bare_revision rv) = rv_ID rv" "bare_revision (bare_revision rv) = bare_revision rv"
  "rv_Number (bare_revision rv) = rv_Number rv" "rv_StackID (bare_revision rv) = rv_StackID rv"
  by (simp_all add: bare_revision_def)

text \<open>The parts of the saving of a revision.\<close>

lemma save_revision_parts:
  assumes "save_revision db rv = (db', rv')"
    and "i = (if rv_ID rv = 0 then sd_next db else rv_ID rv)" "n = (if rv_ID rv = 0 then sd_next db + 1 else sd_next db)"
  obtains rs rrows n1 ss srows n2 es erows n3 where
    "save_contents resource_contents i (rv_Resources rv) (sd_resources db) n = (rs, rrows, n1)"
    and "save_contents source_contents i (rv_SourceConfigs rv) (sd_sources db) n1 = (ss, srows, n2)"
    and "save_contents env_contents i (rv_EnvGroups rv) (sd_envs db) n2 = (es, erows, n3)"
    and "db' = db\<lparr>sd_revisions := upsert rv_ID (bare_revision (rv\<lparr>rv_ID := i\<rparr>)) (sd_revisions db),
      sd_resources := rrows, sd_sources := srows, sd_envs := erows, sd_next := n3\<rparr>"
    and "rv' = rv\<lparr>rv_ID := i, rv_Resources := rs, rv_SourceConfigs := ss, rv_EnvGroups := es\<rparr>"
proof -
  obtain rs rrows n1 where r: "save_contents resource_contents i (rv_Resources rv) (sd_resources db) n = (rs, rrows, n1)"
    by (rule prod_cases3)
  obtain ss srows n2 where s: "save_contents source_contents i (rv_SourceConfigs rv) (sd_sources db) n1 = (ss, srows, n2)"
    by (rule prod_cases3)
  obtain es erows n3 where e: "save_contents env_contents i (rv_EnvGroups rv) (sd_envs db) n2 = (es, erows, n3)"
    by (rule prod_cases3)
  have "(if rv_ID rv = 0 then (rv\<lparr>rv_ID := sd_next db\<rparr>, sd_next db + 1) else (rv, sd_next db)) = (rv\<lparr>rv_ID := i\<rparr>, n)"
    by (simp add: assms(2,3))
  then show thesis
    using assms(1) r s e that unfolding save_revision_def by simp
qed

text \<open>Saving a newer revision.\<close>

lemma upsert_after:
  assumes "rows = old @ new" "\<forall>r\<in>set old. key r < n0" "\<forall>r\<in>set new. n0 \<le> key r" "n0 \<le> key c"
  shows "\<exists>new'. upsert key c rows = old @ new' \<and> (\<forall>r\<in>set new'. n0 \<le> key r)"
proof -
  have "map (\<lambda>r. if key r = key c then c else r) old = old"
    using assms(2,4) by (intro map_idI) fastforce
  then show ?thesis using assms by (auto simp: upsert_def)
qed

lemma save_revision_later:
  assumes wf: "wf_stacks db" and later: "later b n0 db0 db" and pos: "0 < n0"
    and old: "\<forall>rv\<in>set (sd_revisions db0). rv_ID rv < n0"
    and new: "newer b n0 (sd_next db) rv" and run: "save_revision db rv = (db', rv')"
  shows "wf_stacks db' \<and> later b n0 db0 db' \<and> newer b n0 (sd_next db') rv' \<and> rv_ID rv' \<noteq> 0"
proof -
  define i where "i = (if rv_ID rv = 0 then sd_next db else rv_ID rv)"
  define n where "n = (if rv_ID rv = 0 then sd_next db + 1 else sd_next db)"
  obtain rs rrows n1 ss srows n2 es erows n3 where
    r: "save_contents resource_contents i (rv_Resources rv) (sd_resources db) n = (rs, rrows, n1)"
    and s: "save_contents source_contents i (rv_SourceConfigs rv) (sd_sources db) n1 = (ss, srows, n2)"
    and e: "save_contents env_contents i (rv_EnvGroups rv) (sd_envs db) n2 = (es, erows, n3)"
    and db': "db' = db\<lparr>sd_revisions := upsert rv_ID (bare_revision (rv\<lparr>rv_ID := i\<rparr>)) (sd_revisions db),
      sd_resources := rrows, sd_sources := srows, sd_envs := erows, sd_next := n3\<rparr>"
    and rv': "rv' = rv\<lparr>rv_ID := i, rv_Resources := rs, rv_SourceConfigs := ss, rv_EnvGroups := es\<rparr>"
    using save_revision_parts [OF run i_def n_def] by metis
  have i: "n0 \<le> i" "i < n" "0 < i" "sd_next db \<le> n" "n0 \<le> sd_next db"
    using new pos later by (auto simp: newer_def later_def i_def n_def)
  have k: "keyed rv_ID (sd_next db) (sd_revisions db)" "keyed so_ID (sd_next db) (sd_sources db)"
    "keyed re_ID (sd_next db) (sd_resources db)" "keyed eg_ID (sd_next db) (sd_envs db)"
    using wf by (simp_all add: wf_stacks_def)
  have l: "sources.table_later n0 (sd_sources db0) (sd_sources db)"
    "resources.table_later n0 (sd_resources db0) (sd_resources db)"
    "b \<Longrightarrow> envs.table_later n0 (sd_envs db0) (sd_envs db)"
    using later by (simp_all add: later_def)
  have R: "keyed re_ID n1 rrows" "resources.table_later n0 (sd_resources db0) rrows" "n \<le> n1"
    "\<forall>c\<in>set rs. n0 \<le> re_ID c \<and> re_ID c < n1"
    using resources.save_step [OF r _ l(2) i(4,5) pos i(1)] k(3) new by (auto simp: contents_keys newer_def)
  have n1: "sd_next db \<le> n1" using R(3) i(4) by linarith
  have S: "keyed so_ID n2 srows" "sources.table_later n0 (sd_sources db0) srows" "n1 \<le> n2"
    "\<forall>c\<in>set ss. n0 \<le> so_ID c \<and> so_ID c < n2"
    using sources.save_step [OF s _ l(1) n1 i(5) pos i(1)] k(2) new by (auto simp: contents_keys newer_def)
  have n2: "sd_next db \<le> n2" "0 < n2" using S(3) n1 i(5) pos by linarith+
  have key: "co_key env_contents = eg_ID" by (simp add: contents_keys)
  have "\<forall>c\<in>set (rv_EnvGroups rv). eg_ID c < n2" using new n2(1) by (auto simp: newer_def)
  then have E: "keyed eg_ID n3 erows" "n2 \<le> n3" "\<forall>c\<in>set es. eg_ID c < n3"
    using envs.save_keyed [OF e n2(2)] keyed_up [OF k(4) n2(1)] by (simp_all add: key)
  have F: "envs.table_later n0 (sd_envs db0) erows" "\<forall>c\<in>set es. n0 \<le> eg_ID c" if b
    using envs.save_step [OF e _ l(3) n2(1) i(5) pos i(1)] k(4) new that by (auto simp: contents_keys newer_def)
  have n3: "n \<le> n3" "n1 \<le> n3" "n2 \<le> n3" "i < n3" "sd_next db \<le> n3" using R(3) S(3) E(2) i(2,4) by linarith+
  have rev: "keyed rv_ID n3 (upsert rv_ID (bare_revision (rv\<lparr>rv_ID := i\<rparr>)) (sd_revisions db))"
    using i(3) n3(4) keyed_up [OF k(1) n3(5)] by (intro upsert_keyed) simp_all
  have "\<forall>rv\<in>set (upsert rv_ID (bare_revision (rv\<lparr>rv_ID := i\<rparr>)) (sd_revisions db)). bare_revision rv = rv"
    using wf by (auto simp: wf_stacks_def upsert_def)
  moreover have "\<forall>x\<in>set (sd_resources db). re_RevisionID x < n3" "\<forall>x\<in>set (sd_sources db). so_RevisionID x < n3"
    "\<forall>x\<in>set (sd_envs db). eg_RevisionID x < n3"
    using wf n3(5) by (auto simp: wf_stacks_def intro: order.strict_trans2)
  then have "\<forall>x\<in>set rrows. re_RevisionID x < n3" "\<forall>x\<in>set srows. so_RevisionID x < n3"
    "\<forall>x\<in>set erows. eg_RevisionID x < n3"
    using resources.save_below [OF r, of n3] sources.save_below [OF s, of n3] envs.save_below [OF e, of n3] n3(4)
    by (simp_all add: contents_keys)
  ultimately have "wf_stacks db'"
    using rev E(1) i(3) n3(4) keyed_up [OF R(1) n3(2)] keyed_up [OF S(1) n3(3)] by (simp add: wf_stacks_def db')
  moreover have "later b n0 db0 db'"
    using later upsert_after [OF _ old, of "sd_revisions db" _ "bare_revision (rv\<lparr>rv_ID := i\<rparr>)"] R(2) S(2) F(1) n3 i
    by (auto simp: later_def db')
  moreover have "newer b n0 (sd_next db') rv'"
    using R(4) S(4) E(3) F(2) n3 i by (auto simp: newer_def db' rv')
  ultimately show ?thesis using i(3) by (simp add: rv')
qed

section \<open>Revisions whose contents are in the tables\<close>

definition settled :: "stack_db \<Rightarrow> stack_revision \<Rightarrow> bool" where
  "settled db rv \<longleftrightarrow> rv_ID rv \<noteq> 0 \<and> load_revision db rv = rv \<and> bare_revision rv \<in> set (sd_revisions db)"

text \<open>A revision without its keys.\<close>

definition plain_source :: "source_config \<Rightarrow> source_config" where
  "plain_source s = s\<lparr>so_ID := 0, so_RevisionID := 0\<rparr>"

definition plain_resource :: "app_resource \<Rightarrow> app_resource" where
  "plain_resource r = r\<lparr>re_ID := 0, re_RevisionID := 0\<rparr>"

definition plain_env :: "stack_env_group \<Rightarrow> stack_env_group" where
  "plain_env e = e\<lparr>eg_ID := 0, eg_RevisionID := 0\<rparr>"

definition plain :: "stack_revision \<Rightarrow> stack_revision" where
  "plain rv = rv\<lparr>rv_ID := 0, rv_Resources := map plain_resource (rv_Resources rv),
     rv_SourceConfigs := map plain_source (rv_SourceConfigs rv), rv_EnvGroups := map plain_env (rv_EnvGroups rv)\<rparr>"

definition fresh_contents :: "stack_revision \<Rightarrow> bool" where
  "fresh_contents rv \<longleftrightarrow> (\<forall>r\<in>set (rv_Resources rv). re_ID r = 0) \<and> (\<forall>s\<in>set (rv_SourceConfigs rv). so_ID s = 0)"

context owned_contents begin

text \<open>New rows are all that is loaded for a new owner.\<close>

lemma save_new_loaded:
  assumes "save_contents k owner cs rows n = (cs', rows', n')" and "\<forall>c\<in>set cs. co_key k c = 0"
    and "0 < n" "keyed (co_key k) n rows" "\<forall>r\<in>set rows. co_owner k r < owner"
  shows "filter (\<lambda>r. co_owner k r = owner) rows' = cs'"
    and "list_all2 (\<lambda>c d. \<exists>i. d = co_set_key k i (co_set_owner k owner c)) cs cs'"
proof -
  have "\<forall>r\<in>set rows. co_key k r < n" using assms(4) by (simp add: keyed_def)
  from save_new [OF assms(2,3) this assms(1)]
  have new: "rows' = rows @ cs'" and l: "list_all2 (\<lambda>c d. \<exists>i\<ge>n. d = co_set_key k i (co_set_owner k owner c)) cs cs'"
    by simp_all
  have "\<forall>d\<in>set cs'. co_owner k d = owner"
    using l by (induction rule: list_all2_induct) (auto simp: owner_set_key owner_set_owner)
  moreover have "filter (\<lambda>r. co_owner k r = owner) rows = []" using assms(5) by (auto simp: filter_empty_conv)
  ultimately show "filter (\<lambda>r. co_owner k r = owner) rows' = cs'" by (simp add: new)
  show "list_all2 (\<lambda>c d. \<exists>i. d = co_set_key k i (co_set_owner k owner c)) cs cs'"
    using l by (rule list_all2_mono) auto
qed

text \<open>So are the rows that were another owner's, or the owner's already.\<close>

lemma save_moved_loaded:
  assumes "save_contents k owner (map g (filter (\<lambda>r. co_owner k r = j) rows)) rows n = (cs', rows', n')"
    and "keyed (co_key k) m rows" and "owner = j \<or> (\<forall>r\<in>set rows. co_owner k r < owner)"
    and "\<forall>c\<in>set rows. co_owner k c = j \<longrightarrow> co_key k (g c) = co_key k c"
  shows "filter (\<lambda>r. co_owner k r = owner) rows' = cs'" and "n' = n"
    and "cs' = map (\<lambda>c. co_set_owner k owner (g c)) (filter (\<lambda>r. co_owner k r = j) rows)"
    and "rows' = map (\<lambda>r. if r \<in> set (filter (\<lambda>r. co_owner k r = j) rows) then co_set_owner k owner (g r) else r) rows"
proof -
  have d: "distinct (map (co_key k) rows)" using assms(2) by (simp add: keyed_def)
  have k: "\<forall>c\<in>set (filter (\<lambda>r. co_owner k r = j) rows). co_key k c \<noteq> 0 \<and> co_key k (g c) = co_key k c"
    using assms(2,4) by (auto simp: keyed_def)
  have "distinct (map (co_key k) (filter (\<lambda>r. co_owner k r = j) rows))"
    using d by (simp add: distinct_map inj_on_subset [where A = "set rows"])
  from save_moved [OF d _ this k, of owner n] assms(1)
  show cs': "cs' = map (\<lambda>c. co_set_owner k owner (g c)) (filter (\<lambda>r. co_owner k r = j) rows)" and "n' = n"
    and rows': "rows' = map (\<lambda>r. if r \<in> set (filter (\<lambda>r. co_owner k r = j) rows) then co_set_owner k owner (g r) else r) rows"
    by simp_all
  have "owner = j \<or> (\<forall>r\<in>set rows. co_owner k r \<noteq> owner)" using assms(3) by auto
  then show "filter (\<lambda>r. co_owner k r = owner) rows' = cs'"
    unfolding rows' cs' by (rule moved_loaded)
qed

end

lemma plain_sources:
  "list_all2 (\<lambda>c d. \<exists>i. d = co_set_key source_contents i (co_set_owner source_contents o0 c)) cs ds \<Longrightarrow>
   map plain_source ds = map plain_source cs"
  by (induction rule: list_all2_induct) (auto simp: plain_source_def contents_keys)

lemma plain_resources:
  "list_all2 (\<lambda>c d. \<exists>i. d = co_set_key resource_contents i (co_set_owner resource_contents o0 c)) cs ds \<Longrightarrow>
   map plain_resource ds = map plain_resource cs"
  by (induction rule: list_all2_induct) (auto simp: plain_resource_def contents_keys)

lemma plain_envs:
  "list_all2 (\<lambda>c d. \<exists>i. d = co_set_key env_contents i (co_set_owner env_contents o0 c)) cs ds \<Longrightarrow>
   map plain_env ds = map plain_env cs"
  by (induction rule: list_all2_induct) (auto simp: plain_env_def contents_keys)

text \<open>
  The environment groups of a new revision are new too, or another revision's rows, as they were
  loaded.
\<close>

definition envs_known :: "stack_db \<Rightarrow> stack_env_group list \<Rightarrow> bool" where
  "envs_known db es \<longleftrightarrow> (\<forall>e\<in>set es. eg_ID e = 0) \<or> (\<exists>j. es = filter (\<lambda>e. eg_RevisionID e = j) (sd_envs db))"

lemma append_settles:
  assumes wf: "wf_stacks db" and zero: "rv_ID rv = 0" and fresh: "fresh_contents rv"
    and known: "envs_known db (rv_EnvGroups rv)" and run: "save_revision db rv = (db', rv')"
  shows "settled db' rv' \<and> rv_ID rv' = sd_next db \<and> plain rv' = plain rv \<and>
    sd_revisions db' = sd_revisions db @ [bare_revision rv'] \<and> sd_stacks db' = sd_stacks db"
proof -
  let ?i = "sd_next db"
  have i: "?i = (if rv_ID rv = 0 then sd_next db else rv_ID rv)"
    and n: "?i + 1 = (if rv_ID rv = 0 then sd_next db + 1 else sd_next db)" by (simp_all add: zero)
  obtain rs rrows n1 ss srows n2 es erows n3 where
    r: "save_contents resource_contents ?i (rv_Resources rv) (sd_resources db) (?i + 1) = (rs, rrows, n1)"
    and s: "save_contents source_contents ?i (rv_SourceConfigs rv) (sd_sources db) n1 = (ss, srows, n2)"
    and e: "save_contents env_contents ?i (rv_EnvGroups rv) (sd_envs db) n2 = (es, erows, n3)"
    and db': "db' = db\<lparr>sd_revisions := upsert rv_ID (bare_revision (rv\<lparr>rv_ID := ?i\<rparr>)) (sd_revisions db),
      sd_resources := rrows, sd_sources := srows, sd_envs := erows, sd_next := n3\<rparr>"
    and rv': "rv' = rv\<lparr>rv_ID := ?i, rv_Resources := rs, rv_SourceConfigs := ss, rv_EnvGroups := es\<rparr>"
    using save_revision_parts [OF run i n] by metis
  have pos: "0 < ?i" and own: "\<forall>s\<in>set (sd_sources db). so_RevisionID s < ?i"
    "\<forall>r\<in>set (sd_resources db). re_RevisionID r < ?i" "\<forall>e\<in>set (sd_envs db). eg_RevisionID e < ?i"
    and k: "keyed rv_ID ?i (sd_revisions db)" "keyed so_ID ?i (sd_sources db)"
    "keyed re_ID ?i (sd_resources db)" "keyed eg_ID ?i (sd_envs db)"
    using wf by (simp_all add: wf_stacks_def)
  have key: "co_key source_contents = so_ID" "co_key resource_contents = re_ID" "co_key env_contents = eg_ID"
    "co_owner source_contents = so_RevisionID" "co_owner resource_contents = re_RevisionID"
    "co_owner env_contents = eg_RevisionID"
    by (simp_all add: contents_keys)
  have k1: "keyed re_ID (?i + 1) (sd_resources db)" by (rule keyed_up [OF k(3)]) simp
  have R: "filter (\<lambda>r. re_RevisionID r = ?i) rrows = rs" "map plain_resource rs = map plain_resource (rv_Resources rv)"
    using resources.save_new_loaded [OF r] fresh k1 own(2) plain_resources by (auto simp: fresh_contents_def key)
  have "\<forall>c\<in>set (rv_Resources rv). re_ID c < ?i + 1" using fresh by (auto simp: fresh_contents_def)
  then have n1: "?i + 1 \<le> n1" using resources.save_keyed [OF r] k1 by (simp add: key)
  have k2: "keyed so_ID n1 (sd_sources db)" "0 < n1" using keyed_up [OF k(2)] n1 by auto
  have S: "filter (\<lambda>r. so_RevisionID r = ?i) srows = ss" "map plain_source ss = map plain_source (rv_SourceConfigs rv)"
    using sources.save_new_loaded [OF s] fresh k2 own(1) plain_sources by (auto simp: fresh_contents_def key)
  have "\<forall>c\<in>set (rv_SourceConfigs rv). so_ID c < n1" using fresh k2(2) by (auto simp: fresh_contents_def)
  then have n2: "n1 \<le> n2" using sources.save_keyed [OF s] k2 by (simp add: key)
  have k3: "keyed eg_ID n2 (sd_envs db)" "0 < n2" using keyed_up [OF k(4)] n1 n2 by auto
  have E: "filter (\<lambda>r. eg_RevisionID r = ?i) erows = es \<and> map plain_env es = map plain_env (rv_EnvGroups rv)"
    using known unfolding envs_known_def
  proof
    assume "\<forall>e\<in>set (rv_EnvGroups rv). eg_ID e = 0"
    then show ?thesis using envs.save_new_loaded [OF e] k3 own(3) plain_envs by (auto simp: key)
  next
    assume "\<exists>j. rv_EnvGroups rv = filter (\<lambda>e. eg_RevisionID e = j) (sd_envs db)"
    then obtain j where j: "rv_EnvGroups rv = filter (\<lambda>e. eg_RevisionID e = j) (sd_envs db)" ..
    have m: "save_contents env_contents ?i (map id (filter (\<lambda>r. co_owner env_contents r = j) (sd_envs db))) (sd_envs db) n2 =
        (es, erows, n3)"
      using e by (simp add: key j)
    show ?thesis
      using envs.save_moved_loaded(1,3) [OF m, of ?i] k(4) own(3)
      by (simp add: key j contents_keys plain_env_def)
  qed
  have "upsert rv_ID (bare_revision (rv\<lparr>rv_ID := ?i\<rparr>)) (sd_revisions db) = sd_revisions db @ [bare_revision rv']"
    using k(1) by (auto simp: upsert_def keyed_def rv' bare_revision_def)
  moreover have "load_revision db' rv' = rv'"
    using R(1) S(1) E by (simp add: load_revision_def db' rv')
  ultimately show ?thesis
    using R(2) S(2) E pos by (simp add: settled_def db' rv' plain_def)
qed

lemma filter_map_same: "\<forall>x\<in>set xs. h x = x \<or> \<not> P x \<and> \<not> P (h x) \<Longrightarrow> filter P (map h xs) = filter P xs"
  by (induction xs) auto

text \<open>
  Saving a settled revision again, with another status and resources that keep their keys, changes
  its row and those resources only.
\<close>

definition resaved :: "stack_revision \<Rightarrow> stack_revision \<Rightarrow> bool" where
  "resaved rv rv1 \<longleftrightarrow>
     (\<exists>g a b c. rv1 = rv\<lparr>rv_Status := a, rv_Reason := b, rv_Message := c, rv_Resources := map g (rv_Resources rv)\<rparr> \<and>
        (\<forall>r. re_ID (g r) = re_ID r \<and> re_RevisionID (g r) = re_RevisionID r \<and>
             re_SourceConfigUID (g r) = re_SourceConfigUID r))"

lemma resaved_eq:
  assumes "resaved rv rv1"
  shows "rv_ID rv1 = rv_ID rv" "rv_StackID rv1 = rv_StackID rv" "rv_SourceConfigs rv1 = rv_SourceConfigs rv"
    "rv_EnvGroups rv1 = rv_EnvGroups rv" "rv_Number rv1 = rv_Number rv"
  using assms by (auto simp: resaved_def)

lemma update_settles:
  assumes wf: "wf_stacks db" and old: "settled db rv" and re: "resaved rv rv1"
    and run: "save_revision db rv1 = (db', rv')"
  shows "rv' = rv1" and "settled db' rv1" and "sd_stacks db' = sd_stacks db"
    and "sd_sources db' = sd_sources db" and "sd_envs db' = sd_envs db" and "sd_next db' = sd_next db"
    and "sd_draws db' = sd_draws db"
    and "sd_revisions db' = map (\<lambda>r. if rv_ID r = rv_ID rv then bare_revision rv1 else r) (sd_revisions db)"
    and "rv_Resources rv1 = rv_Resources rv \<Longrightarrow> sd_resources db' = sd_resources db"
    and "j \<noteq> rv_ID rv \<Longrightarrow>
      filter (\<lambda>r. re_RevisionID r = j) (sd_resources db') = filter (\<lambda>r. re_RevisionID r = j) (sd_resources db)"
proof -
  obtain g a b c where rv1: "rv1 = rv\<lparr>rv_Status := a, rv_Reason := b, rv_Message := c, rv_Resources := map g (rv_Resources rv)\<rparr>"
    and g: "\<And>r. re_ID (g r) = re_ID r \<and> re_RevisionID (g r) = re_RevisionID r"
    using re by (auto simp: resaved_def)
  let ?i = "rv_ID rv" let ?n = "sd_next db"
  have pos: "?i \<noteq> 0" and mem: "bare_revision rv \<in> set (sd_revisions db)" and load: "load_revision db rv = rv"
    using old by (simp_all add: settled_def)
  have i: "?i = (if rv_ID rv1 = 0 then sd_next db else rv_ID rv1)"
    and n: "?n = (if rv_ID rv1 = 0 then sd_next db + 1 else sd_next db)" using pos by (simp_all add: rv1)
  obtain rs rrows n1 ss srows n2 es erows n3 where
    r: "save_contents resource_contents ?i (rv_Resources rv1) (sd_resources db) ?n = (rs, rrows, n1)"
    and s: "save_contents source_contents ?i (rv_SourceConfigs rv1) (sd_sources db) n1 = (ss, srows, n2)"
    and e: "save_contents env_contents ?i (rv_EnvGroups rv1) (sd_envs db) n2 = (es, erows, n3)"
    and db': "db' = db\<lparr>sd_revisions := upsert rv_ID (bare_revision (rv1\<lparr>rv_ID := ?i\<rparr>)) (sd_revisions db),
      sd_resources := rrows, sd_sources := srows, sd_envs := erows, sd_next := n3\<rparr>"
    and rv': "rv' = rv1\<lparr>rv_ID := ?i, rv_Resources := rs, rv_SourceConfigs := ss, rv_EnvGroups := es\<rparr>"
    using save_revision_parts [OF run i n] by metis
  have key: "co_key source_contents = so_ID" "co_key resource_contents = re_ID" "co_key env_contents = eg_ID"
    "co_owner source_contents = so_RevisionID" "co_owner resource_contents = re_RevisionID"
    "co_owner env_contents = eg_RevisionID"
    by (simp_all add: contents_keys)
  have k: "keyed so_ID ?n (sd_sources db)" "keyed re_ID ?n (sd_resources db)" "keyed eg_ID ?n (sd_envs db)"
    "keyed rv_ID ?n (sd_revisions db)"
    using wf by (simp_all add: wf_stacks_def)
  have l: "rv_Resources rv = filter (\<lambda>r. re_RevisionID r = ?i) (sd_resources db)"
    "rv_SourceConfigs rv = filter (\<lambda>r. so_RevisionID r = ?i) (sd_sources db)"
    "rv_EnvGroups rv = filter (\<lambda>r. eg_RevisionID r = ?i) (sd_envs db)"
    using arg_cong [OF load, of rv_Resources] arg_cong [OF load, of rv_SourceConfigs] arg_cong [OF load, of rv_EnvGroups]
    by (simp_all add: load_revision_def)
  have r': "save_contents resource_contents ?i (map g (filter (\<lambda>r. co_owner resource_contents r = ?i) (sd_resources db)))
      (sd_resources db) ?n = (rs, rrows, n1)"
    using r l(1) by (simp add: rv1 key)
  have R: "filter (\<lambda>r. re_RevisionID r = ?i) rrows = rs" "n1 = ?n" "rs = rv_Resources rv1"
    "rrows = map (\<lambda>r. if r \<in> set (filter (\<lambda>r. re_RevisionID r = ?i) (sd_resources db)) then (g r)\<lparr>re_RevisionID := ?i\<rparr> else r)
       (sd_resources db)"
    using resources.save_moved_loaded [OF r'] k(2) g l(1) by (auto simp: key rv1 contents_keys)
  have s': "save_contents source_contents ?i (map id (filter (\<lambda>r. co_owner source_contents r = ?i) (sd_sources db)))
      (sd_sources db) n1 = (ss, srows, n2)"
    using s l(2) by (simp add: rv1 key)
  have S: "filter (\<lambda>r. so_RevisionID r = ?i) srows = ss" "n2 = n1" "ss = rv_SourceConfigs rv"
    "srows = sd_sources db"
    using sources.save_moved_loaded [OF s'] k(1) l(2) by (auto simp: key contents_keys intro!: map_idI)
  have e': "save_contents env_contents ?i (map id (filter (\<lambda>r. co_owner env_contents r = ?i) (sd_envs db)))
      (sd_envs db) n2 = (es, erows, n3)"
    using e l(3) by (simp add: rv1 key)
  have E: "filter (\<lambda>r. eg_RevisionID r = ?i) erows = es" "n3 = n2" "es = rv_EnvGroups rv" "erows = sd_envs db"
    using envs.save_moved_loaded [OF e'] k(3) l(3) by (auto simp: key contents_keys intro!: map_idI)
  have rev: "upsert rv_ID (bare_revision (rv1\<lparr>rv_ID := ?i\<rparr>)) (sd_revisions db) =
      map (\<lambda>r. if rv_ID r = rv_ID rv then bare_revision rv1 else r) (sd_revisions db)"
  proof -
    have "?i \<in> rv_ID ` set (sd_revisions db)" using imageI [OF mem, of rv_ID] by simp
    then show ?thesis by (simp add: upsert_def rv1)
  qed
  show eq: "rv' = rv1" by (simp add: rv' R(3) S(3) E(3)) (simp add: rv1)
  show "sd_stacks db' = sd_stacks db" "sd_sources db' = sd_sources db" "sd_envs db' = sd_envs db"
    "sd_next db' = sd_next db" "sd_draws db' = sd_draws db"
    using R(2) S(2,4) E(2,4) by (simp_all add: db')
  show rows: "sd_revisions db' = map (\<lambda>r. if rv_ID r = rv_ID rv then bare_revision rv1 else r) (sd_revisions db)"
    using rev by (simp add: db')
  have "load_revision db' rv1 = rv1"
    using R(1,3) S(1,3) E(1,3) by (simp add: load_revision_def db') (simp add: rv1)
  moreover have "bare_revision rv1 \<in> set (sd_revisions db')"
    using imageI [OF mem, of "\<lambda>r. if rv_ID r = rv_ID rv then bare_revision rv1 else r"] by (simp add: rows)
  ultimately show "settled db' rv1" using pos by (simp add: settled_def rv1)
  show "filter (\<lambda>r. re_RevisionID r = j) (sd_resources db') = filter (\<lambda>r. re_RevisionID r = j) (sd_resources db)"
    if "j \<noteq> rv_ID rv"
    using that unfolding db' by (simp add: R(4)) (rule filter_map_same, auto)
  show "sd_resources db' = sd_resources db" if "rv_Resources rv1 = rv_Resources rv"
  proof -
    have "g r = r" if "r \<in> set (rv_Resources rv)" for r
      using that \<open>rv_Resources rv1 = rv_Resources rv\<close> map_eq_conv [of g "rv_Resources rv" id] by (simp add: rv1)
    then show ?thesis using l(1) R(4) by (auto simp: db' intro!: map_idI)
  qed
qed

lemma save_settled_same:
  assumes wf: "wf_stacks db" and settled: "settled db rv"
  shows "save_revision db rv = (db, rv)"
proof -
  obtain db' rv' where run: "save_revision db rv = (db', rv')" by (rule prod.exhaust)
  have "resaved rv rv"
    unfolding resaved_def
    by (intro exI [of _ id] exI [of _ "rv_Status rv"] exI [of _ "rv_Reason rv"] exI [of _ "rv_Message rv"]) simp
  note u = update_settles [OF wf settled this run]
  have "inj_on rv_ID (set (sd_revisions db))" "bare_revision rv \<in> set (sd_revisions db)"
    using wf settled by (simp_all add: wf_stacks_def keyed_def settled_def distinct_map)
  then have "(if rv_ID r = rv_ID rv then bare_revision rv else r) = r" if "r \<in> set (sd_revisions db)" for r
    using that inj_onD [of rv_ID _ "bare_revision rv" r] by simp
  then have "sd_revisions db' = sd_revisions db" unfolding u(8) by (intro map_idI)
  then have "db' = db" using u(3-7,9) by (simp add: stack_db.equality)
  then show ?thesis using run u(1) by simp
qed

end
