(* ===== verification/Stack_History.thy ===== *)
theory Stack_History
  imports Stack_Handlers Stack_Saving "HOL-Library.Sublist"
begin

text \<open>
  The history of the stacks: what the handlers and the hooks keep of the revisions that were there
  before, and of the links between a revision's applications and sources.
\<close>

section \<open>Links\<close>

text \<open>
  Every application of a revision has its source there: the sources' ids are their own and not
  empty, and an application is linked to the last source of some name.
\<close>

definition link_ok :: "source_config list \<Rightarrow> string \<Rightarrow> bool" where
  "link_ok sources uid \<longleftrightarrow> (\<exists>c\<in>set sources. so_UID c = uid \<and> linked_by_name sources (so_Name c) [] = uid)"

definition linked_contents :: "source_config list \<Rightarrow> app_resource list \<Rightarrow> bool" where
  "linked_contents sources resources \<longleftrightarrow>
     distinct (map so_UID sources) \<and> [] \<notin> so_UID ` set sources \<and>
     (\<forall>r\<in>set resources. link_ok sources (re_SourceConfigUID r))"

definition linked_revision :: "stack_revision \<Rightarrow> bool" where
  "linked_revision rv \<longleftrightarrow> linked_contents (rv_SourceConfigs rv) (rv_Resources rv)"

text \<open>Random strings are not empty and come once.\<close>

definition good_random :: "randomness \<Rightarrow> bool" where
  "good_random rand \<longleftrightarrow> (\<forall>i. rand i \<noteq> Inr []) \<and> (\<forall>i j u. rand i = Inr u \<longrightarrow> rand j = Inr u \<longrightarrow> i = j)"

text \<open>What the loops that draw an id per element have in common.\<close>

definition drawn_ids :: "randomness \<Rightarrow> nat \<Rightarrow> nat \<Rightarrow> string list \<Rightarrow> bool" where
  "drawn_ids rand n m us \<longleftrightarrow> n \<le> m \<and> distinct us \<and> (\<forall>u\<in>set us. \<exists>i\<ge>n. i < m \<and> rand i = Inr u)"

lemma drawn_ids_Nil: "drawn_ids rand n n []"
  by (simp add: drawn_ids_def)

lemma drawn_ids_Cons:
  assumes "good_random rand" "rand n = Inr u" "drawn_ids rand (n + 1) m us"
  shows "drawn_ids rand n m (u # us)"
proof -
  have "i = n" if "rand i = Inr u" for i using assms(1,2) that by (auto simp: good_random_def)
  then have "u \<notin> set us" using assms(3) by (fastforce simp: drawn_ids_def)
  moreover have "\<exists>i\<ge>n. i < m \<and> rand i = Inr v" if "v \<in> set us" for v
    using assms(3) that by (metis drawn_ids_def add_leD1)
  moreover have "n < m" using assms(3) by (simp add: drawn_ids_def)
  ultimately show ?thesis using assms(2,3) by (auto simp: drawn_ids_def)
qed

lemma drawn_ids_nonempty: "good_random rand \<Longrightarrow> drawn_ids rand n m us \<Longrightarrow> [] \<notin> set us"
  by (fastforce simp: drawn_ids_def good_random_def)

definition cloned_source :: "source_config \<Rightarrow> string \<Rightarrow> source_config" where
  "cloned_source c u = c\<lparr>so_ID := 0, so_RevisionID := 0, so_UID := u\<rparr>"

lemma CloneSourceConfigs_Cons:
  "CloneSourceConfigs rand (c # cs) n = (Inr res, m) \<longleftrightarrow>
     (\<exists>u res1. rand n = Inr u \<and> CloneSourceConfigs rand cs (n + 1) = (Inr res1, m) \<and> res = cloned_source c u # res1)"
proof (cases "rand n")
  case (Inr u)
  then show ?thesis
    by (cases "CloneSourceConfigs rand cs (n + 1)"; cases "fst (CloneSourceConfigs rand cs (n + 1))")
      (auto simp: cloned_source_def)
qed simp

lemma CloneSourceConfigs_drawn:
  "good_random rand \<Longrightarrow> CloneSourceConfigs rand cs n = (Inr res, m) \<Longrightarrow>
   drawn_ids rand n m (map so_UID res) \<and> list_all2 (\<lambda>c d. \<exists>u. d = cloned_source c u) cs res"
proof (induction cs arbitrary: n res)
  case (Cons c cs)
  then obtain u res1 where u: "rand n = Inr u" and r: "CloneSourceConfigs rand cs (n + 1) = (Inr res1, m)"
    and res: "res = cloned_source c u # res1"
    unfolding CloneSourceConfigs_Cons by blast
  then show ?case using Cons.IH [OF Cons.prems(1) r] drawn_ids_Cons [OF Cons.prems(1) u]
    by (auto simp: cloned_source_def)
qed (simp add: drawn_ids_Nil)

definition cloned_resource :: "app_resource \<Rightarrow> string \<Rightarrow> string \<Rightarrow> app_resource" where
  "cloned_resource r u linked = r\<lparr>re_ID := 0, re_RevisionID := 0, re_UID := u, re_SourceConfigUID := linked\<rparr>"

lemma CloneAppResources_Cons:
  "CloneAppResources rand prev new (r # rs) n = (Inr res, m) \<longleftrightarrow>
     (\<exists>u res1. rand n = Inr u \<and> linkedSourceConfigUID prev new (re_SourceConfigUID r) \<noteq> [] \<and>
        CloneAppResources rand prev new rs (n + 1) = (Inr res1, m) \<and>
        res = cloned_resource r u (linkedSourceConfigUID prev new (re_SourceConfigUID r)) # res1)"
proof (cases "rand n")
  case (Inr u)
  then show ?thesis
    by (cases "CloneAppResources rand prev new rs (n + 1)"; cases "fst (CloneAppResources rand prev new rs (n + 1))")
      (auto simp: cloned_resource_def Let_def)
qed simp

definition cloned_resources :: "source_config list \<Rightarrow> source_config list \<Rightarrow> app_resource list \<Rightarrow> app_resource list \<Rightarrow> bool" where
  "cloned_resources prev new rs res \<longleftrightarrow>
     list_all2 (\<lambda>r d. linkedSourceConfigUID prev new (re_SourceConfigUID r) \<noteq> [] \<and>
       (\<exists>u. d = cloned_resource r u (linkedSourceConfigUID prev new (re_SourceConfigUID r)))) rs res"

lemma CloneAppResources_cloned:
  "CloneAppResources rand prev new rs n = (Inr res, m) \<Longrightarrow> cloned_resources prev new rs res"
proof (induction rs arbitrary: n res)
  case (Cons r rs)
  then obtain u res1 where "linkedSourceConfigUID prev new (re_SourceConfigUID r) \<noteq> []"
    and "CloneAppResources rand prev new rs (n + 1) = (Inr res1, m)"
    and "res = cloned_resource r u (linkedSourceConfigUID prev new (re_SourceConfigUID r)) # res1"
    unfolding CloneAppResources_Cons by blast
  then show ?case using Cons.IH by (auto simp: cloned_resources_def)
qed (simp add: cloned_resources_def)

definition cloned_env :: "stack_env_group \<Rightarrow> string \<Rightarrow> stack_env_group" where
  "cloned_env e u = e\<lparr>eg_ID := 0, eg_RevisionID := 0, eg_UID := u\<rparr>"

lemma CloneEnvGroups_Cons:
  "CloneEnvGroups rand (e # es) n = (Inr res, m) \<longleftrightarrow>
     (\<exists>u res1. rand n = Inr u \<and> CloneEnvGroups rand es (n + 1) = (Inr res1, m) \<and> res = cloned_env e u # res1)"
proof (cases "rand n")
  case (Inr u)
  then show ?thesis
    by (cases "CloneEnvGroups rand es (n + 1)"; cases "fst (CloneEnvGroups rand es (n + 1))")
      (auto simp: cloned_env_def)
qed simp

lemma CloneEnvGroups_cloned:
  "CloneEnvGroups rand es n = (Inr res, m) \<Longrightarrow> list_all2 (\<lambda>e d. \<exists>u. d = cloned_env e u) es res"
proof (induction es arbitrary: n res)
  case (Cons e es)
  then obtain u res1 where "CloneEnvGroups rand es (n + 1) = (Inr res1, m)" "res = cloned_env e u # res1"
    unfolding CloneEnvGroups_Cons by blast
  then show ?case using Cons.IH by auto
qed simp

lemma CloneEnvGroups_new: "CloneEnvGroups rand es n = (Inr res, m) \<Longrightarrow> \<forall>e\<in>set res. eg_ID e = 0"
  by (drule CloneEnvGroups_cloned, induction rule: list_all2_induct) (auto simp: cloned_env_def)

text \<open>The loops that look for a name end with the last one.\<close>

lemma linked_by_name_find:
  "linked_by_name cs name l = (case find (\<lambda>c. so_Name c = name) (rev cs) of None \<Rightarrow> l | Some c \<Rightarrow> so_UID c)"
  by (induction cs rule: rev_induct) (simp_all add: linked_by_name_def)

lemma find_in_set: "find P xs = Some x \<Longrightarrow> x \<in> set xs \<and> P x"
  by (induction xs) (auto split: if_splits)

lemma linked_by_name_link:
  assumes "linked_by_name cs name l \<noteq> l"
  obtains c where "c \<in> set cs" "so_Name c = name" "so_UID c = linked_by_name cs name l'"
    "\<And>l''. linked_by_name cs name l'' = linked_by_name cs name l'"
proof -
  obtain c where c: "find (\<lambda>c. so_Name c = name) (rev cs) = Some c"
    using assms by (auto simp: linked_by_name_find split: option.splits)
  from c have "c \<in> set cs" "so_Name c = name" using find_in_set [OF c] by simp_all
  then show thesis using c by (intro that [of c]) (simp_all add: linked_by_name_find)
qed

lemma linked_by_name_ok: "linked_by_name cs name l \<noteq> l \<Longrightarrow> link_ok cs (linked_by_name cs name l)"
  by (erule linked_by_name_link [where l' = l]) (auto simp: link_ok_def)

lemma linkedSourceConfigUID_ok:
  "linkedSourceConfigUID prev new uid \<noteq> [] \<Longrightarrow> link_ok new (linkedSourceConfigUID prev new uid)"
proof (induction prev rule: rev_induct)
  case (snoc p prev)
  let ?l = "linkedSourceConfigUID prev new uid"
  have step: "linkedSourceConfigUID (prev @ [p]) new uid = (if so_UID p = uid then linked_by_name new (so_Name p) ?l else ?l)"
    by (simp add: linkedSourceConfigUID_def)
  then show ?case
    using snoc linked_by_name_ok [of new "so_Name p" ?l]
    by (cases "linked_by_name new (so_Name p) ?l = ?l") (simp_all split: if_splits)
qed (simp add: linkedSourceConfigUID_def)

lemma linkedSourceConfigUID_eq:
  assumes "distinct (map so_UID prev)" and "p \<in> set prev"
  shows "linkedSourceConfigUID prev new (so_UID p) = linked_by_name new (so_Name p) []"
proof -
  obtain xs ys where prev: "prev = xs @ p # ys" using assms(2) by (meson split_list)
  have skip: "fold (\<lambda>q l. if so_UID q = so_UID p then linked_by_name new (so_Name q) l else l) zs l = l"
    if "so_UID p \<notin> so_UID ` set zs" for zs l
    using that by (induction zs) auto
  show ?thesis using assms(1) by (simp add: linkedSourceConfigUID_def prev skip)
qed

lemma cloned_resources_linked:
  "cloned_resources prev new rs res \<Longrightarrow> \<forall>r\<in>set res. re_ID r = 0 \<and> link_ok new (re_SourceConfigUID r)"
  unfolding cloned_resources_def
  by (induction rule: list_all2_induct) (auto simp: cloned_resource_def linkedSourceConfigUID_ok)

text \<open>The models of a request.\<close>

lemma getSourceConfigModels_drawn:
  "good_random rand \<Longrightarrow> getSourceConfigModels rand cs n = (Inr res, m) \<Longrightarrow>
   drawn_ids rand n m (map so_UID res) \<and> (\<forall>s\<in>set res. so_ID s = 0)"
proof (induction cs arbitrary: n res)
  case (Cons c cs)
  show ?case
  proof (cases "sr_Build c")
    case True
    then show ?thesis using Cons by simp
  next
    case False
    then obtain u where u: "rand n = Inr u" using Cons.prems(2) by (cases "rand n") simp_all
    obtain r1 m1 where r1: "getSourceConfigModels rand cs (n + 1) = (r1, m1)" by (rule prod.exhaust)
    obtain res1 where "r1 = Inr res1" "m1 = m" and res: "res = \<lparr>so_ID = 0, so_RevisionID = 0, so_Name = sr_Name c,
        so_DisplayName = sr_DisplayName c, so_UID = u, so_ImageRepoURI = sr_ImageRepoURI c,
        so_ImageTag = sr_ImageTag c\<rparr> # res1"
      using Cons.prems(2) False u r1 by (cases r1) auto
    then show ?thesis
      using Cons.IH [OF Cons.prems(1)] r1 drawn_ids_Cons [OF Cons.prems(1) u, of m "map so_UID res1"] by auto
  qed
qed (simp add: drawn_ids_Nil)

lemma getResourceModels_linked:
  "getResourceModels rand sources url rs n = (Inr res, m) \<Longrightarrow>
   \<forall>r\<in>set res. re_ID r = 0 \<and> link_ok sources (re_SourceConfigUID r)"
proof (induction rs arbitrary: n res)
  case (Cons a rs)
  obtain u where u: "rand n = Inr u" using Cons.prems by (cases "rand n") simp_all
  obtain r1 m1 where r1: "getResourceModels rand sources url rs (n + 1) = (r1, m1)" by (rule prod.exhaust)
  let ?linked = "linked_by_name sources (ar_SourceConfigName (default_repo url a)) []"
  have "?linked \<noteq> []" using Cons.prems u by (auto simp: Let_def split: if_splits)
  moreover obtain res1 where "r1 = Inr res1" "m1 = m" and "re_ID (hd res) = 0" "re_SourceConfigUID (hd res) = ?linked"
    "res = hd res # res1"
    using Cons.prems u r1 by (cases r1) (auto simp: Let_def split: if_splits)
  ultimately show ?case using Cons.IH r1 linked_by_name_ok by (metis set_ConsD)
qed simp

lemma getEnvGroupModels_new:
  "getEnvGroupModels rand p c ns es n = (Inr res, m) \<Longrightarrow> \<forall>e\<in>set res. eg_ID e = 0"
proof (induction es arbitrary: n res)
  case (Cons e es)
  obtain u where u: "rand n = Inr u" using Cons.prems by (cases "rand n") simp_all
  obtain r1 m1 where r1: "getEnvGroupModels rand p c ns es (n + 1) = (r1, m1)" by (rule prod.exhaust)
  then show ?case using Cons u by (cases r1) auto
qed simp

text \<open>New contents: without keys, and linked.\<close>

definition new_contents :: "source_config list \<Rightarrow> app_resource list \<Rightarrow> bool" where
  "new_contents sources resources \<longleftrightarrow> linked_contents sources resources \<and>
     (\<forall>s\<in>set sources. so_ID s = 0) \<and> (\<forall>r\<in>set resources. re_ID r = 0)"

lemma CloneSourceConfigs_new:
  assumes "good_random rand" "CloneSourceConfigs rand cs n = (Inr ss, m)"
  shows "distinct (map so_UID ss)" "[] \<notin> so_UID ` set ss" "\<forall>s\<in>set ss. so_ID s = 0"
proof -
  note r = CloneSourceConfigs_drawn [OF assms]
  show "distinct (map so_UID ss)" using r by (simp add: drawn_ids_def)
  show "[] \<notin> so_UID ` set ss" using r drawn_ids_nonempty [OF assms(1)] by (metis set_map)
  have "list_all2 (\<lambda>c d. \<exists>u. d = cloned_source c u) cs ss" using r ..
  then show "\<forall>s\<in>set ss. so_ID s = 0" by (induction rule: list_all2_induct) (auto simp: cloned_source_def)
qed

lemma getSourceConfigModels_new:
  assumes "good_random rand" "getSourceConfigModels rand cs n = (Inr ss, m)"
  shows "distinct (map so_UID ss)" "[] \<notin> so_UID ` set ss" "\<forall>s\<in>set ss. so_ID s = 0"
proof -
  note r = getSourceConfigModels_drawn [OF assms]
  show "distinct (map so_UID ss)" "\<forall>s\<in>set ss. so_ID s = 0" using r by (simp_all add: drawn_ids_def)
  show "[] \<notin> so_UID ` set ss" using r drawn_ids_nonempty [OF assms(1)] by (metis set_map)
qed

lemma clone_contents_db: "\<exists>n. fst (clone_contents rand db rv) = db\<lparr>sd_draws := n\<rparr>"
  unfolding clone_contents_def by (auto split: prod.split sum.split)

lemma clone_contents_result:
  assumes "clone_contents rand db rv = (db', Inr (ss, rs, es))"
  shows "\<exists>n1 n2 m. CloneSourceConfigs rand (rv_SourceConfigs rv) (sd_draws db) = (Inr ss, n1) \<and>
      CloneAppResources rand (rv_SourceConfigs rv) ss (rv_Resources rv) n1 = (Inr rs, n2) \<and>
      CloneEnvGroups rand (rv_EnvGroups rv) n2 = (Inr es, m)"
  using assms unfolding clone_contents_def by (simp split: prod.splits sum.splits)

lemma clone_contents_new:
  assumes "good_random rand" "clone_contents rand db rv = (db', Inr (ss, rs, es))"
  shows "new_contents ss rs" "\<forall>e\<in>set es. eg_ID e = 0"
proof -
  obtain n1 n2 m where s: "CloneSourceConfigs rand (rv_SourceConfigs rv) (sd_draws db) = (Inr ss, n1)"
    and r: "CloneAppResources rand (rv_SourceConfigs rv) ss (rv_Resources rv) n1 = (Inr rs, n2)"
    and e: "CloneEnvGroups rand (rv_EnvGroups rv) n2 = (Inr es, m)"
    using clone_contents_result [OF assms(2)] by (elim exE conjE)
  show "new_contents ss rs"
    using CloneSourceConfigs_new [OF assms(1) s] cloned_resources_linked [OF CloneAppResources_cloned [OF r]]
    by (auto simp: new_contents_def linked_contents_def)
  show "\<forall>e\<in>set es. eg_ID e = 0" by (rule CloneEnvGroups_new [OF e])
qed

section \<open>What the combinators of the handlers keep\<close>

text \<open>
  \<open>ready\<close>: the tables hold what they held at the start, and every revision that came since is linked.
  \<open>envs\<close> says whether the environment groups are kept too.
\<close>

definition ready :: "bool \<Rightarrow> stack_db \<Rightarrow> stack_db \<Rightarrow> bool" where
  "ready envs db0 db \<longleftrightarrow> wf_stacks db0 \<and> wf_stacks db \<and> later envs (sd_next db0) db0 db \<and>
     (\<forall>rv\<in>set (sd_revisions db). rv \<in> set (sd_revisions db0) \<or> linked_revision (load_revision db rv))"

definition kept :: "bool \<Rightarrow> stack_db \<Rightarrow> stack_db \<times> 'x \<Rightarrow> bool" where
  "kept envs db0 h \<longleftrightarrow> ready envs db0 (fst h)"

definition tracked :: "bool \<Rightarrow> stack_db \<Rightarrow> stack_db \<Rightarrow> stack_revision \<Rightarrow> bool" where
  "tracked envs db0 db rv \<longleftrightarrow> ready envs db0 db \<and> settled db rv \<and> linked_revision rv \<and>
     newer envs (sd_next db0) (sd_next db) rv"

lemma ready_refl: "wf_stacks db \<Longrightarrow> ready envs db db"
  by (simp add: ready_def later_refl)

lemma ready_draws [simp]: "ready envs db0 (db\<lparr>sd_draws := n\<rparr>) \<longleftrightarrow> ready envs db0 db"
  by (simp add: ready_def wf_stacks_def later_def load_revision_def)

lemma tracked_ready: "tracked envs db0 db rv \<Longrightarrow> ready envs db0 db"
  by (simp add: tracked_def)

lemma kept_pair: "ready envs db0 db \<Longrightarrow> kept envs db0 (db, x)"
  by (simp add: kept_def)

lemma kept_or_fail:
  "ready envs db0 db \<Longrightarrow> (\<And>x. r = Inr x \<Longrightarrow> kept envs db0 (next x)) \<Longrightarrow> kept envs db0 (or_fail calls db r next)"
  by (cases r) (simp_all add: or_fail_def fail_with_def kept_pair)

lemma kept_on_drawn:
  assumes "ready envs db0 db"
    and "\<And>x m. r = (Inr x, m) \<Longrightarrow> kept envs db0 (next (db\<lparr>sd_draws := m\<rparr>) x)"
  shows "kept envs db0 (on_drawn db r next)"
  unfolding on_drawn_def Let_def using assms by (intro kept_or_fail) (auto simp: prod_eq_iff)

lemma kept_clone:
  assumes "good_random rand" "ready envs db0 db"
    and "\<And>m ss rs es. new_contents ss rs \<Longrightarrow> \<forall>e\<in>set es. eg_ID e = 0 \<Longrightarrow>
      kept envs db0 (next (db\<lparr>sd_draws := m\<rparr>) ss rs es)"
  shows "kept envs db0 (on_stored calls (clone_contents rand db rv) (\<lambda>db (ss, rs, es). next db ss rs es))"
proof -
  obtain n where n: "fst (clone_contents rand db rv) = db\<lparr>sd_draws := n\<rparr>" using clone_contents_db by blast
  have "kept envs db0 (next (db\<lparr>sd_draws := n\<rparr>) ss rs es)" if "snd (clone_contents rand db rv) = Inr (ss, rs, es)" for ss rs es
  proof -
    have "clone_contents rand db rv = (db\<lparr>sd_draws := n\<rparr>, Inr (ss, rs, es))" using n that by (simp add: prod_eq_iff)
    from clone_contents_new [OF assms(1) this] show ?thesis by (rule assms(3))
  qed
  then show ?thesis unfolding on_stored_def n using assms(2) by (intro kept_or_fail) auto
qed

lemma linked_contents_plain:
  "linked_contents (map plain_source ss) (map plain_resource rs) = linked_contents ss rs"
  by (simp add: linked_contents_def link_ok_def linked_by_name_def fold_map plain_source_def plain_resource_def
      comp_def image_image)

lemma plain_eqD:
  assumes "plain rv' = plain rv"
  shows "map plain_resource (rv_Resources rv') = map plain_resource (rv_Resources rv)"
    and "map plain_source (rv_SourceConfigs rv') = map plain_source (rv_SourceConfigs rv)"
    and "map plain_env (rv_EnvGroups rv') = map plain_env (rv_EnvGroups rv)"
    and "rv_StackID rv' = rv_StackID rv" "rv_Number rv' = rv_Number rv" "rv_Status rv' = rv_Status rv"
    and "rv_Reason rv' = rv_Reason rv" "rv_Message rv' = rv_Message rv"
  using arg_cong [OF assms, of rv_Resources] arg_cong [OF assms, of rv_SourceConfigs] arg_cong [OF assms, of rv_EnvGroups]
    arg_cong [OF assms, of rv_StackID] arg_cong [OF assms, of rv_Number] arg_cong [OF assms, of rv_Status]
    arg_cong [OF assms, of rv_Reason] arg_cong [OF assms, of rv_Message]
  by (simp_all add: plain_def)

lemma linked_revision_plain: "plain rv' = plain rv \<Longrightarrow> linked_revision rv' = linked_revision rv"
  unfolding linked_revision_def by (metis linked_contents_plain plain_eqD(1,2))

lemma settled_load: "settled db rv \<Longrightarrow> load_revision db (bare_revision rv) = rv"
  unfolding settled_def load_revision_def bare_revision_def by simp

text \<open>Appending a new revision.\<close>

lemma appended_ready:
  assumes ready: "ready b db0 db" and zero: "rv_ID rv = 0"
    and new: "new_contents (rv_SourceConfigs rv) (rv_Resources rv)" and known: "envs_known db (rv_EnvGroups rv)"
    and envs: "b \<Longrightarrow> \<forall>e\<in>set (rv_EnvGroups rv). eg_ID e = 0" and run: "save_revision db rv = (db', rv')"
  shows "tracked b db0 db' rv' \<and> plain rv' = plain rv"
proof -
  let ?n = "sd_next db"
  have wf: "wf_stacks db" "wf_stacks db0" and later: "later b (sd_next db0) db0 db"
    using ready by (simp_all add: ready_def)
  have fresh: "fresh_contents rv" using new by (simp add: new_contents_def fresh_contents_def)
  from append_settles [OF wf(1) zero fresh known run]
  have s: "settled db' rv'" "rv_ID rv' = ?n" "plain rv' = plain rv"
    "sd_revisions db' = sd_revisions db @ [bare_revision rv']" by simp_all
  have old: "\<forall>r\<in>set (sd_revisions db0). rv_ID r < sd_next db0" "\<forall>r\<in>set (sd_revisions db). rv_ID r < ?n"
    "0 < sd_next db0" "0 < ?n"
    using wf by (simp_all add: wf_stacks_def keyed_def)
  have env: "\<forall>e\<in>set (rv_EnvGroups rv). eg_ID e < ?n"
    using known wf(1) by (auto simp: envs_known_def wf_stacks_def keyed_def)
  have newer: "newer b n0 ?n rv" for n0
    using zero fresh envs env old(4) by (auto simp: newer_def fresh_contents_def)
  have "newer False ?n ?n rv"
    using zero fresh env old(4) by (auto simp: newer_def fresh_contents_def)
  from save_revision_later [OF wf(1) later_refl [OF wf(1)] old(4) old(2) this run]
  have load: "rv_SourceConfigs (load_revision db' r) = rv_SourceConfigs (load_revision db r)"
    "rv_Resources (load_revision db' r) = rv_Resources (load_revision db r)" if "r \<in> set (sd_revisions db)" for r
    using that old(2) later_load(1,2) by metis+
  from save_revision_later [OF wf(1) later old(3,1) newer run]
  have w: "wf_stacks db'" "later b (sd_next db0) db0 db'" "newer b (sd_next db0) (sd_next db') rv'" by simp_all
  have linked: "linked_revision rv'"
    using new linked_revision_plain [OF s(3)] by (simp add: linked_revision_def new_contents_def)
  have "r \<in> set (sd_revisions db0) \<or> linked_revision (load_revision db' r)" if "r \<in> set (sd_revisions db')" for r
    using that ready load [of r] linked settled_load [OF s(1)] by (auto simp: s(4) ready_def linked_revision_def)
  then show ?thesis using w wf(2) s(1,3) linked by (simp add: tracked_def ready_def)
qed

lemma kept_append:
  assumes "ready b db0 db" "rv_ID rv = 0" "new_contents (rv_SourceConfigs rv) (rv_Resources rv)"
    and "envs_known db (rv_EnvGroups rv)" "b \<Longrightarrow> \<forall>e\<in>set (rv_EnvGroups rv). eg_ID e = 0"
    and "\<And>db' rv'. tracked b db0 db' rv' \<Longrightarrow> plain rv' = plain rv \<Longrightarrow> kept b db0 (next db' rv')"
  shows "kept b db0 (on_stored calls (AppendNewRevision f db rv) next)"
proof (cases "faulty_first (sf_append f) (sd_stacks db) (\<lambda>s. sk_ID s = rv_StackID rv)")
  case (Inr st)
  obtain db' rv' where "save_revision db rv = (db', rv')" by (rule prod.exhaust)
  then show ?thesis
    using Inr appended_ready [OF assms(1-5)] assms(6) by (simp add: on_stored_def or_fail_def AppendNewRevision_def)
qed (simp add: on_stored_def or_fail_def AppendNewRevision_def fail_with_def kept_pair assms(1))

text \<open>Saving it again.\<close>

lemma resaved_linked: "resaved rv rv1 \<Longrightarrow> linked_revision rv \<Longrightarrow> linked_revision rv1"
  by (auto simp: resaved_def linked_revision_def linked_contents_def)

lemma resaved_tracked:
  assumes t: "tracked b db0 db rv" and re: "resaved rv rv1" and run: "save_revision db rv1 = (db', rv')"
  shows "rv' = rv1 \<and> tracked b db0 db' rv1"
proof -
  have wf: "wf_stacks db" "wf_stacks db0" and later: "later b (sd_next db0) db0 db" and s: "settled db rv"
    using t by (simp_all add: tracked_def ready_def)
  note u = update_settles [OF wf(1) s re run]
  have old: "\<forall>r\<in>set (sd_revisions db0). rv_ID r < sd_next db0" "0 < sd_next db0"
    using wf by (simp_all add: wf_stacks_def keyed_def)
  have newer: "newer b (sd_next db0) (sd_next db) rv1"
  proof -
    obtain g x y z where "rv1 = rv\<lparr>rv_Status := x, rv_Reason := y, rv_Message := z, rv_Resources := map g (rv_Resources rv)\<rparr>"
      and "\<And>r. re_ID (g r) = re_ID r"
      using re by (auto simp: resaved_def)
    then show ?thesis using t by (simp add: tracked_def newer_def)
  qed
  from save_revision_later [OF wf(1) later old(2,1) newer run]
  have w: "wf_stacks db'" "later b (sd_next db0) db0 db'" "newer b (sd_next db0) (sd_next db') rv1"
    by (simp_all add: u(1))
  have linked: "linked_revision rv1" using t re resaved_linked by (auto simp: tracked_def)
  have "r \<in> set (sd_revisions db0) \<or> linked_revision (load_revision db' r)" if "r \<in> set (sd_revisions db')" for r
  proof (cases "rv_ID r = rv_ID rv")
    case True
    then have "r = bare_revision rv1" using that resaved_eq(1) [OF re] by (auto simp: u(8) split: if_splits)
    then show ?thesis using linked settled_load [OF u(2)] by simp
  next
    case False
    then have "r \<in> set (sd_revisions db)" using that resaved_eq(1) [OF re] by (auto simp: u(8) split: if_splits)
    moreover have "rv_Resources (load_revision db' r) = rv_Resources (load_revision db r)"
      "rv_SourceConfigs (load_revision db' r) = rv_SourceConfigs (load_revision db r)"
      using u(10) [of "rv_ID r"] False by (simp_all add: load_revision_def u(4))
    ultimately show ?thesis using t by (auto simp: tracked_def ready_def linked_revision_def)
  qed
  then show ?thesis using u(1,2) w wf(2) linked by (simp add: tracked_def ready_def)
qed

lemma kept_update:
  assumes "tracked b db0 db rv" "resaved rv rv1" "\<And>db'. tracked b db0 db' rv1 \<Longrightarrow> kept b db0 (next db' rv1)"
  shows "kept b db0 (on_stored calls (UpdateStackRevision f db rv1) next)"
proof (cases "sf_update f rv1")
  case None
  obtain db' rv' where "save_revision db rv1 = (db', rv')" by (rule prod.exhaust)
  then show ?thesis
    using None resaved_tracked [OF assms(1,2)] assms(3) by (simp add: on_stored_def or_fail_def UpdateStackRevision_def)
qed (simp add: on_stored_def or_fail_def UpdateStackRevision_def fail_with_def kept_pair tracked_ready [OF assms(1)])

lemma resaved_outcome: "resaved rv (outcome_of a b c rv)" "resaved rv (rv\<lparr>rv_Status := a\<rparr>)"
  unfolding resaved_def outcome_of_def
  by (intro exI [of _ id] exI, simp)
    (intro exI [of _ id] exI [of _ a] exI [of _ "rv_Reason rv"] exI [of _ "rv_Message rv"], simp)

text \<open>The remaining constructs.\<close>

lemma kept_sum:
  "(\<And>e. x = Inl e \<Longrightarrow> kept b db0 (l e)) \<Longrightarrow> (\<And>y. x = Inr y \<Longrightarrow> kept b db0 (r y)) \<Longrightarrow>
   kept b db0 (case x of Inl e \<Rightarrow> l e | Inr y \<Rightarrow> r y)"
  by (cases x) simp_all

lemma kept_list:
  "(x = [] \<Longrightarrow> kept b db0 l) \<Longrightarrow> (\<And>y ys. x = y # ys \<Longrightarrow> kept b db0 (r y ys)) \<Longrightarrow>
   kept b db0 (case x of [] \<Rightarrow> l | y # ys \<Rightarrow> r y ys)"
  by (cases x) simp_all

lemma kept_option:
  "(x = None \<Longrightarrow> kept b db0 l) \<Longrightarrow> (\<And>y. x = Some y \<Longrightarrow> kept b db0 (r y)) \<Longrightarrow>
   kept b db0 (case x of None \<Rightarrow> l | Some y \<Rightarrow> r y)"
  by (cases x) simp_all

lemma kept_prod: "(\<And>x y. p = (x, y) \<Longrightarrow> kept b db0 (g x y)) \<Longrightarrow> kept b db0 (case p of (x, y) \<Rightarrow> g x y)"
  by (cases p) simp

lemma kept_if: "(c \<Longrightarrow> kept b db0 h) \<Longrightarrow> (\<not> c \<Longrightarrow> kept b db0 k) \<Longrightarrow> kept b db0 (if c then h else k)"
  by simp

lemma kept_let: "kept b db0 (g x) \<Longrightarrow> kept b db0 (let y = x in g y)"
  by simp

lemma kept_answer: "ready b db0 db \<Longrightarrow> kept b db0 (answer_stack f calls db before p uid)"
  unfolding answer_stack_def by (intro kept_or_fail kept_pair)

lemma kept_errors:
  "ready b db0 db \<Longrightarrow> kept b db0 (no_revisions db)" "ready b db0 db \<Longrightarrow> kept b db0 (duplicate_error db what name)"
  by (simp_all add: no_revisions_def duplicate_error_def kept_pair)

lemma kept_with_latest:
  "ready b db0 db \<Longrightarrow>
   (\<And>rv n. ReadStackRevisionByNumber f db (sk_ID st) n = Inr rv \<Longrightarrow> kept b db0 (next rv)) \<Longrightarrow>
   kept b db0 (with_latest f db st next)"
  unfolding with_latest_def by (intro kept_list kept_errors kept_or_fail)

lemmas kept_rules = kept_or_fail kept_on_drawn kept_clone kept_append kept_update kept_pair kept_sum kept_list
  kept_option kept_prod kept_if kept_let kept_answer kept_errors kept_with_latest

lemma resaved_functions:
  "resaved rv (rolled_back target errs rv)" "resaved rv (app_installed errs rv)" "resaved rv (app_added name errs rv)"
  "resaved rv (env_group_added name errs rv)"
  by (simp_all add: rolled_back_def app_installed_def app_added_def env_group_added_def resaved_outcome)

lemma resaved_case: "(\<And>e. resaved rv (g e)) \<Longrightarrow> resaved rv h \<Longrightarrow> resaved rv (case x of None \<Rightarrow> h | Some e \<Rightarrow> g e)"
  by (cases x) simp_all

lemma envs_known_new: "\<forall>e\<in>set es. eg_ID e = 0 \<Longrightarrow> envs_known db es"
  by (simp add: envs_known_def)

lemma new_contents_filter: "new_contents ss rs \<Longrightarrow> new_contents ss (filter P rs)"
  by (auto simp: new_contents_def linked_contents_def)

lemma new_revision_simps [simp]:
  "rv_ID (new_revision i n s contents) = 0" "rv_SourceConfigs (new_revision i n s contents) = fst contents"
  "rv_Resources (new_revision i n s contents) = fst (snd contents)"
  "rv_EnvGroups (new_revision i n s contents) = snd (snd contents)"
  by (simp_all add: new_revision_def)

lemmas resaved_rules = resaved_functions resaved_outcome

lemma kept_rollback:
  assumes "ready True db0 db" "good_random (sw_random w)"
  shows "kept True db0 (StackRollbackHandler f w db p st decoded)"
  unfolding StackRollbackHandler_def
  by (intro kept_rules assms)
    (assumption | erule tracked_ready | rule resaved_rules resaved_case | simp add: assms envs_known_new)+

lemma kept_remove_app:
  assumes "ready True db0 db" "good_random (sw_random w)"
  shows "kept True db0 (StackRemoveApplicationHandler f w db st param)"
  unfolding StackRemoveApplicationHandler_def
  by (intro kept_rules assms)
    (assumption | erule tracked_ready | rule resaved_rules resaved_case | simp add: assms envs_known_new new_contents_filter)+

lemma kept_remove_env:
  assumes "ready True db0 db" "good_random (sw_random w)"
  shows "kept True db0 (StackRemoveEnvGroupHandler f w db st param)"
  unfolding StackRemoveEnvGroupHandler_def
  by (intro kept_rules assms)
    (assumption | erule tracked_ready | rule resaved_rules resaved_case | simp add: assms envs_known_new)+

text \<open>The loops of the other handlers.\<close>

definition good_sources :: "source_config list \<Rightarrow> bool" where
  "good_sources ss \<longleftrightarrow> distinct (map so_UID ss) \<and> [] \<notin> so_UID ` set ss \<and> (\<forall>s\<in>set ss. so_ID s = 0)"

definition linked_to :: "source_config list \<Rightarrow> app_resource list \<Rightarrow> bool" where
  "linked_to ss rs \<longleftrightarrow> (\<forall>r\<in>set rs. re_ID r = 0 \<and> link_ok ss (re_SourceConfigUID r))"

lemma new_contents_iff: "new_contents ss rs \<longleftrightarrow> good_sources ss \<and> linked_to ss rs"
  by (auto simp: new_contents_def linked_contents_def good_sources_def linked_to_def)

lemma linked_to_append [simp]: "linked_to ss (rs @ rs') \<longleftrightarrow> linked_to ss rs \<and> linked_to ss rs'"
  by (auto simp: linked_to_def)

lemma kept_sources:
  assumes "good_random rand" "ready envs db0 db"
    and "\<And>m ss. good_sources ss \<Longrightarrow> kept envs db0 (next (db\<lparr>sd_draws := m\<rparr>) ss)"
  shows "kept envs db0 (on_drawn db (CloneSourceConfigs rand cs n) next)"
    and "kept envs db0 (on_drawn db (getSourceConfigModels rand reqs n) next)"
  using assms(3) CloneSourceConfigs_new [OF assms(1)] getSourceConfigModels_new [OF assms(1)]
  by (auto intro!: kept_on_drawn assms(2) simp: good_sources_def)

lemma kept_resources:
  assumes "ready envs db0 db"
    and "\<And>m rs. linked_to ss rs \<Longrightarrow> kept envs db0 (next (db\<lparr>sd_draws := m\<rparr>) rs)"
  shows "kept envs db0 (on_drawn db (CloneAppResources rand prev ss rs n) next)"
    and "kept envs db0 (on_drawn db (getResourceModels rand ss url reqs n) next)"
  using assms(2) cloned_resources_linked [OF CloneAppResources_cloned] getResourceModels_linked
  by (auto intro!: kept_on_drawn assms(1) simp: linked_to_def)

lemma kept_envs:
  assumes "ready envs db0 db"
    and "\<And>m es. \<forall>e\<in>set es. eg_ID e = 0 \<Longrightarrow> kept envs db0 (next (db\<lparr>sd_draws := m\<rparr>) es)"
  shows "kept envs db0 (on_drawn db (CloneEnvGroups rand es n) next)"
    and "kept envs db0 (on_drawn db (getEnvGroupModels rand p c ns reqs n) next)"
  using assms CloneEnvGroups_new getEnvGroupModels_new by (auto intro!: kept_on_drawn)

lemmas handler_rules = kept_or_fail kept_clone kept_append kept_update kept_pair kept_sum kept_list
  kept_option kept_prod kept_if kept_let kept_answer kept_errors kept_with_latest kept_sources kept_resources kept_envs

lemma kept_add_app:
  assumes "ready True db0 db" "good_random (sw_random w)"
  shows "kept True db0 (StackAddApplicationHandler f w db p ns st decoded)"
  unfolding StackAddApplicationHandler_def
  by (intro handler_rules assms)
    (assumption | erule tracked_ready | rule resaved_rules resaved_case | simp add: assms new_contents_iff envs_known_new)+

lemma kept_add_env:
  assumes "ready True db0 db" "good_random (sw_random w)"
  shows "kept True db0 (StackAddEnvGroupHandler f w db p c ns st decoded)"
  unfolding StackAddEnvGroupHandler_def
  by (intro handler_rules assms)
    (assumption | erule tracked_ready | rule resaved_rules resaved_case | simp add: assms envs_known_new ball_Un)+

text \<open>The other steps.\<close>

lemma ready_stacks [simp]: "ready b db0 (db\<lparr>sd_stacks := s\<rparr>) \<longleftrightarrow> ready b db0 db"
  by (simp add: ready_def wf_stacks_def later_def load_revision_def)

lemma kept_delete: "ready b db0 db \<Longrightarrow> kept b db0 (StackDeleteHandler f w db st)"
  unfolding StackDeleteHandler_def DeleteStack_def Let_def fail_with_def
  by (intro kept_list kept_or_fail) (auto simp: kept_def split: option.splits)

lemma read_settled:
  assumes "wf_stacks db" "ReadStackByID f db p i = Inr st"
  shows "\<forall>rv\<in>set (sk_Revisions st). settled db rv \<and> rv_StackID rv = sk_ID st"
proof -
  have "\<exists>s. st = load_stack db s" if "map_sum id (load_stack db) r = Inr st" for r :: "(go_error, stack_model) go_result"
    using that by (cases r) auto
  then obtain s where st: "st = load_stack db s" using assms(2) unfolding ReadStackByID_def by blast
  have "settled db (load_revision db r)" if "r \<in> set (sd_revisions db)" for r
    using that assms(1) by (auto simp: wf_stacks_def keyed_def settled_def load_revision_def bare_revision_def)
  then show ?thesis by (auto simp: st load_stack_def load_revision_def dest!: in_set_takeD)
qed

lemma save_settled_all:
  assumes "wf_stacks db" "\<forall>rv\<in>set rvs. settled db rv \<and> rv_StackID rv = i"
  shows "fold (\<lambda>rv db. fst (save_revision db (rv\<lparr>rv_StackID := i\<rparr>))) rvs db = db"
  using assms(2)
proof (induction rvs)
  case (Cons rv rvs)
  then have same: "rv\<lparr>rv_StackID := i\<rparr> = rv" by auto
  have "fst (save_revision db (rv\<lparr>rv_StackID := i\<rparr>)) = db"
    unfolding same using Cons.prems save_settled_same [OF assms(1), of rv] by simp
  then show ?case using Cons by simp
qed simp

lemma settled_stacks [simp]: "settled (db\<lparr>sd_stacks := s\<rparr>) rv \<longleftrightarrow> settled db rv"
  by (simp add: settled_def load_revision_def)

lemma kept_rename:
  assumes "ready b db0 db"
  shows "kept b db0 (StackUpdateStack f db p st decoded)"
proof -
  have wf: "wf_stacks db" using assms by (simp add: ready_def)
  have "kept b db0 (on_stored [] (UpdateStack f db (s\<lparr>sk_Name := name\<rparr>)) (\<lambda>db newStack. (db, [], [WroteResult newStack], False)))"
    if "ReadStackByID f db p (sk_ID st) = Inr s" for s name
  proof (cases "sf_save_stack f")
    case None
    let ?db = "db\<lparr>sd_stacks := upsert sk_ID (s\<lparr>sk_Name := name, sk_Revisions := []\<rparr>) (sd_stacks db)\<rparr>"
    have "wf_stacks ?db" using wf by (simp add: wf_stacks_def)
    then have "fold (\<lambda>rv db. fst (save_revision db (rv\<lparr>rv_StackID := sk_ID s\<rparr>))) (sk_Revisions s) ?db = ?db"
      using read_settled [OF wf that] by (intro save_settled_all) simp_all
    then show ?thesis using None assms
      by (simp add: on_stored_def or_fail_def UpdateStack_def kept_def Let_def)
  qed (simp add: on_stored_def or_fail_def UpdateStack_def fail_with_def kept_pair assms)
  then show ?thesis
    unfolding StackUpdateStack_def by (intro kept_sum kept_pair kept_if kept_errors kept_or_fail assms)
qed

text \<open>Creating.\<close>

lemma ready_created:
  assumes "ready b db0 db"
  shows "ready b db0 (db\<lparr>sd_stacks := s, sd_next := sd_next db + 1\<rparr>)"
proof -
  have k: "keyed key (sd_next db) rows \<Longrightarrow> keyed key (Suc (sd_next db)) rows" for key :: "'x \<Rightarrow> nat" and rows
    by (erule keyed_up) simp
  show ?thesis
    using assms by (auto simp: ready_def wf_stacks_def later_def load_revision_def intro: k less_SucI)
qed

lemma kept_create_stack:
  assumes "ready b db0 db" "new_contents ss rs" "\<forall>e\<in>set es. eg_ID e = 0"
    and "\<And>db' st rv. sk_Revisions st = [rv] \<Longrightarrow> tracked b db0 db' rv \<Longrightarrow> kept b db0 (next db' st)"
  shows "kept b db0 (on_stored calls (CreateStack f db
      \<lparr>sk_ID = i, sk_ProjectID = p, sk_ClusterID = c, sk_Namespace = ns, sk_Name = nm, sk_UID = uid,
       sk_Revisions = [new_revision 0 n status (ss, rs, es)]\<rparr>) next)" (is "kept b db0 (on_stored calls (CreateStack f db ?st) next)")
proof (cases "sf_create f = None \<and> sk_UID ?st \<notin> sk_UID ` set (sd_stacks db)")
  case True
  let ?db = "db\<lparr>sd_stacks := sd_stacks db @ [?st\<lparr>sk_ID := sd_next db, sk_Revisions := []\<rparr>], sd_next := sd_next db + 1\<rparr>"
  let ?rv = "(new_revision 0 n status (ss, rs, es))\<lparr>rv_StackID := sd_next db\<rparr>"
  obtain db' rv where run: "save_revision ?db ?rv = (db', rv)" by (rule prod.exhaust)
  have "tracked b db0 db' rv"
    using appended_ready [OF ready_created [OF assms(1)] _ _ _ _ run] assms(2,3) envs_known_new by simp
  then have "kept b db0 (next db' (?st\<lparr>sk_ID := sd_next db, sk_Revisions := [rv]\<rparr>))" by (intro assms(4)) simp_all
  moreover have "CreateStack f db ?st = (db', Inr (?st\<lparr>sk_ID := sd_next db, sk_Revisions := [rv]\<rparr>))"
    using True run by (simp add: CreateStack_def Let_def)
  ultimately show ?thesis by (simp add: on_stored_def or_fail_def)
next
  case False
  then have "\<exists>e. CreateStack f db ?st = (db, Inl e)" by (cases "sf_create f") (simp_all add: CreateStack_def)
  then obtain e where "CreateStack f db ?st = (db, Inl e)" ..
  then show ?thesis using assms(1) by (simp add: on_stored_def or_fail_def fail_with_def kept_pair)
qed

lemma kept_finished: "tracked b db0 db rv \<Longrightarrow> kept b db0 (creation_finished f p uid calls db rv)"
  unfolding creation_finished_def
  by (intro kept_let kept_if kept_update kept_answer)
    (assumption | erule tracked_ready | rule resaved_rules)+

lemma kept_deployed:
  assumes "tracked b db0 db rv" "\<And>calls db rv. tracked b db0 db rv \<Longrightarrow> kept b db0 (next calls db rv)"
  shows "kept b db0 (creation_deployed f w calls ns req st db rv next)"
  unfolding creation_deployed_def
  by (intro kept_let kept_if kept_update kept_or_fail kept_prod kept_pair assms(2))
    (assumption | rule assms(1) tracked_ready [OF assms(1)] | erule tracked_ready | rule resaved_rules)+

lemma kept_create:
  assumes "ready True db0 db" "good_random (sw_random w)"
  shows "kept True db0 (StackCreateHandler f w db p c ns decoded)"
  unfolding StackCreateHandler_def
  by (intro handler_rules kept_create_stack kept_finished kept_deployed assms kept_on_drawn [of True db0 db])
    (assumption | erule tracked_ready | rule resaved_rules resaved_case | simp add: assms new_contents_iff envs_known_new)+

text \<open>New sources move the environment groups of the latest revision.\<close>

lemma read_envs:
  assumes "ReadStackRevisionByNumber f db i n = Inr rv"
  shows "envs_known db (rv_EnvGroups rv)"
proof -
  have "\<exists>s. rv = load_revision db s" if "map_sum id (load_revision db) r = Inr rv" for r :: "(go_error, stack_revision) go_result"
    using that by (cases r) auto
  then obtain s where "rv = load_revision db s" using assms unfolding ReadStackRevisionByNumber_def by blast
  then show ?thesis by (auto simp: envs_known_def load_revision_def)
qed

lemma envs_known_draws [simp]: "envs_known (db\<lparr>sd_draws := n\<rparr>) es \<longleftrightarrow> envs_known db es"
  by (simp add: envs_known_def)

lemma resaved_mapped:
  "resaved rv (outcome_of a b c (rv\<lparr>rv_Resources := map (\<lambda>r. r\<lparr>re_HelmRevisionID := h r\<rparr>) (rv_Resources rv)\<rparr>))"
  unfolding resaved_def outcome_of_def
  by (intro exI [of _ "\<lambda>r. r\<lparr>re_HelmRevisionID := h r\<rparr>"] exI [of _ a] exI [of _ b] exI [of _ c]) simp

lemma resaved_source_updated:
  "resaved rv (source_updated errs (rv\<lparr>rv_Resources := map (\<lambda>r. r\<lparr>re_HelmRevisionID := h r\<rparr>) (rv_Resources rv)\<rparr>))"
  by (simp add: source_updated_def resaved_mapped)

lemma kept_put:
  assumes "ready False db0 db" "good_random (sw_random w)"
  shows "kept False db0 (StackPutSourceConfigHandler f w db p st decoded)"
  unfolding StackPutSourceConfigHandler_def
  by (intro handler_rules assms)
    (assumption | erule tracked_ready | rule resaved_source_updated
      | simp add: assms new_contents_iff read_envs)+

text \<open>The hooks.\<close>

lemma hook_append:
  assumes "ready b db0 db" "rv_ID rv = 0" "new_contents (rv_SourceConfigs rv) (rv_Resources rv)"
    and "\<forall>e\<in>set (rv_EnvGroups rv). eg_ID e = 0"
  shows "ready b db0 (fst (AppendNewRevision f db rv))"
proof (cases "faulty_first (sf_append f) (sd_stacks db) (\<lambda>s. sk_ID s = rv_StackID rv)")
  case (Inr st)
  obtain db' rv' where "save_revision db rv = (db', rv')" by (rule prod.exhaust)
  then show ?thesis
    using Inr appended_ready [OF assms(1-3) envs_known_new [OF assms(4)] assms(4)] tracked_ready [of b db0 db' rv']
    by (simp add: AppendNewRevision_def)
qed (simp add: AppendNewRevision_def assms(1))

lemma new_contents_map:
  "(\<And>r. re_ID (g r) = re_ID r \<and> re_SourceConfigUID (g r) = re_SourceConfigUID r) \<Longrightarrow>
   new_contents ss rs \<Longrightarrow> new_contents ss (map g rs)"
  by (auto simp: new_contents_iff linked_to_def)

lemma hook_clone:
  assumes "ready b db0 db" "good_random rand"
    and "\<And>m ss rs es. new_contents ss rs \<Longrightarrow> \<forall>e\<in>set es. eg_ID e = 0 \<Longrightarrow>
      kept b db0 (next (db\<lparr>sd_draws := m\<rparr>) ss rs es)"
  shows "kept b db0 (case clone_contents rand db rv of (db, Inl e) \<Rightarrow> (db, Some e) | (db, Inr (ss, rs, es)) \<Rightarrow> next db ss rs es)"
proof -
  obtain n where n: "fst (clone_contents rand db rv) = db\<lparr>sd_draws := n\<rparr>" using clone_contents_db by blast
  show ?thesis
  proof (cases "snd (clone_contents rand db rv)")
    case (Inl e)
    then have "clone_contents rand db rv = (db\<lparr>sd_draws := n\<rparr>, Inl e)" using n by (simp add: prod_eq_iff)
    then show ?thesis using assms(1) by (simp add: kept_def)
  next
    case (Inr x)
    obtain ss rs es where "x = (ss, rs, es)" by (rule prod_cases3)
    then have c: "clone_contents rand db rv = (db\<lparr>sd_draws := n\<rparr>, Inr (ss, rs, es))" using n Inr by (simp add: prod_eq_iff)
    then show ?thesis using assms(3) [OF clone_contents_new [OF assms(2) c]] by simp
  qed
qed

lemma hook_appended:
  "ready b db0 (fst (AppendNewRevision f db rv)) \<Longrightarrow>
   kept b db0 (case AppendNewRevision f db rv of (db, Inl e) \<Rightarrow> (db, Some e) | (db, Inr _) \<Rightarrow> (db, None))"
  by (cases "AppendNewRevision f db rv"; cases "snd (AppendNewRevision f db rv)") (simp_all add: kept_def)

lemma kept_helm_hook:
  assumes "ready b db0 db" "good_random rand"
  shows "kept b db0 (UpdateHelmRevision f rand db p rel)"
  unfolding UpdateHelmRevision_def
  by (intro kept_sum kept_if kept_pair hook_clone hook_appended hook_append assms)
    (simp_all add: assms new_contents_map)

lemma kept_env_hook:
  assumes "ready b db0 db" "good_random rand"
  shows "kept b db0 (UpdateEnvGroupVersion f rand db p c g)"
  unfolding UpdateEnvGroupVersion_def
  by (intro kept_sum kept_if kept_pair hook_clone hook_appended hook_append assms)
    (auto simp: assms new_contents_map)

section \<open>Steps\<close>

text \<open>A request that changes the tables, or a hook, and the request that puts new sources.\<close>

inductive stack_step :: "stack_db \<Rightarrow> stack_db \<Rightarrow> bool" where
  create: "good_random (sw_random w) \<Longrightarrow> stack_step db (fst (StackCreateHandler f w db p c ns decoded))"
| add_app: "good_random (sw_random w) \<Longrightarrow> stack_step db (fst (StackAddApplicationHandler f w db p ns st decoded))"
| remove_app: "good_random (sw_random w) \<Longrightarrow> stack_step db (fst (StackRemoveApplicationHandler f w db st param))"
| add_env: "good_random (sw_random w) \<Longrightarrow> stack_step db (fst (StackAddEnvGroupHandler f w db p c ns st decoded))"
| remove_env: "good_random (sw_random w) \<Longrightarrow> stack_step db (fst (StackRemoveEnvGroupHandler f w db st param))"
| rollback: "good_random (sw_random w) \<Longrightarrow> stack_step db (fst (StackRollbackHandler f w db p st decoded))"
| delete: "stack_step db (fst (StackDeleteHandler f w db st))"
| rename: "stack_step db (fst (StackUpdateStack f db p st decoded))"
| helm_hook: "good_random rand \<Longrightarrow> stack_step db (fst (UpdateHelmRevision f rand db p rel))"
| env_hook: "good_random rand \<Longrightarrow> stack_step db (fst (UpdateEnvGroupVersion f rand db p c g))"

inductive stack_put :: "stack_db \<Rightarrow> stack_db \<Rightarrow> bool" where
  put: "good_random (sw_random w) \<Longrightarrow> stack_put db (fst (StackPutSourceConfigHandler f w db p st decoded))"

definition empty_stacks :: stack_db where
  "empty_stacks = \<lparr>sd_stacks = [], sd_revisions = [], sd_sources = [], sd_resources = [], sd_envs = [],
     sd_next = 1, sd_draws = 0\<rparr>"

inductive reachable_stacks :: "stack_db \<Rightarrow> bool" where
  empty: "reachable_stacks empty_stacks"
| step: "reachable_stacks db \<Longrightarrow> stack_step db db' \<Longrightarrow> reachable_stacks db'"
| put: "reachable_stacks db \<Longrightarrow> stack_put db db' \<Longrightarrow> reachable_stacks db'"

definition history :: "stack_db \<Rightarrow> nat \<Rightarrow> stack_revision list" where
  "history db stackID = map (load_revision db) (filter (\<lambda>rv. rv_StackID rv = stackID) (sd_revisions db))"

lemmas handlers_keep = kept_create kept_add_app kept_remove_app kept_add_env kept_remove_env kept_rollback kept_delete
  kept_rename kept_helm_hook kept_env_hook kept_put

lemma step_ready: "stack_step db db' \<Longrightarrow> wf_stacks db \<Longrightarrow> ready True db db'"
  by (induction rule: stack_step.induct) (blast intro: handlers_keep [unfolded kept_def] ready_refl)+

lemma put_ready: "stack_put db db' \<Longrightarrow> wf_stacks db \<Longrightarrow> ready False db db'"
  by (induction rule: stack_put.induct) (blast intro: handlers_keep [unfolded kept_def] ready_refl)

definition links_ok :: "stack_db \<Rightarrow> bool" where
  "links_ok db \<longleftrightarrow> (\<forall>rv\<in>set (sd_revisions db). linked_revision (load_revision db rv))"

lemma ready_links:
  assumes "ready b db db'" "links_ok db"
  shows "links_ok db'"
  unfolding links_ok_def
proof
  fix rv assume rv: "rv \<in> set (sd_revisions db')"
  show "linked_revision (load_revision db' rv)"
  proof (cases "rv \<in> set (sd_revisions db)")
    case True
    then have "rv_ID rv < sd_next db" "linked_revision (load_revision db rv)"
      using assms by (auto simp: ready_def wf_stacks_def keyed_def links_ok_def)
    then show ?thesis using later_load(1,2) [of b "sd_next db" db db' rv] assms(1)
      by (simp add: linked_revision_def ready_def)
  qed (use assms(1) rv in \<open>auto simp: ready_def\<close>)
qed

lemma ready_history:
  assumes "ready True db db'"
  shows "prefix (history db i) (history db' i)"
proof -
  obtain new where new: "sd_revisions db' = sd_revisions db @ new" and later: "later True (sd_next db) db db'"
    using assms by (auto simp: ready_def later_def)
  have "load_revision db' rv = load_revision db rv" if "rv \<in> set (sd_revisions db)" for rv
    using that later_load(3) [OF later] assms by (auto simp: ready_def wf_stacks_def keyed_def)
  then show ?thesis by (simp add: history_def new prefix_def cong: map_cong)
qed

lemma reachable_stacks_ok: "reachable_stacks db \<Longrightarrow> wf_stacks db \<and> links_ok db"
proof (induction rule: reachable_stacks.induct)
  case empty
  show ?case by (simp add: wf_stacks_def links_ok_def empty_stacks_def keyed_def)
next
  case (step db db')
  then show ?case using step_ready ready_links by (metis ready_def)
next
  case (put db db')
  then show ?case using put_ready ready_links by (metis ready_def)
qed

end
