(* ===== verification/Stack_Rollback.thy ===== *)
theory Stack_Rollback
  imports Stack_History
begin

text \<open>
  What the history of a stack is good for: revisions are never rewritten, every application of every
  revision has its source, and a roll back deploys again what the target revision deployed; and
  where the handlers fall short of it.
\<close>

section \<open>A sample stack\<close>

definition sample_random :: randomness where
  "sample_random i = Inr (replicate (Suc i) (CHR ''a''))"

lemma sample_random_good: "good_random sample_random"
  by (auto simp: good_random_def sample_random_def)

definition sample_stack_world :: stack_world where
  "sample_stack_world = \<lparr>sw_random = sample_random, sw_default_repo = ''charts'', sw_helm_agent = None,
     sw_k8s_agent = None, sw_registries = None, sw_load_chart = (\<lambda>_ _ _. None), sw_call = (\<lambda>_. None),
     sw_release_image = (\<lambda>_. Inr True), sw_save_release = (\<lambda>_ _. None)\<rparr>"

definition sample_stack_request :: create_stack_request where
  "sample_stack_request = \<lparr>cs_Name = ''shop'',
     cs_AppResources = [\<lparr>ar_Name = ''web'', ar_TemplateRepoURL = [], ar_TemplateName = ''web'',
       ar_TemplateVersion = ''latest'', ar_SourceConfigName = ''src''\<rparr>],
     cs_SourceConfigs = [\<lparr>sr_DisplayName = ''Source'', sr_Name = ''src'', sr_ImageRepoURI = ''img'', sr_ImageTag = ''v1'', sr_Build = False\<rparr>],
     cs_EnvGroups = [\<lparr>er_Name = ''env'', er_LinkedApplications = [''web'']\<rparr>]\<rparr>"

definition sample_created_stack :: stack_db where
  "sample_created_stack = fst (StackCreateHandler no_stack_faults sample_stack_world empty_stacks 1 2 ''default'' (Inr sample_stack_request))"

section \<open>Extending the history by a revision\<close>

definition extended :: "bool \<Rightarrow> stack_db \<Rightarrow> stack_db \<Rightarrow> stack_revision \<Rightarrow> bool" where
  "extended b db0 db rv \<longleftrightarrow> tracked b db0 db rv \<and> sd_revisions db = sd_revisions db0 @ [bare_revision rv]"

lemma extended_history:
  assumes "extended True db0 db rv"
  shows "history db i = history db0 i @ (if rv_StackID rv = i then [rv] else [])"
proof -
  have t: "tracked True db0 db rv" and rows: "sd_revisions db = sd_revisions db0 @ [bare_revision rv]"
    using assms by (simp_all add: extended_def)
  have "load_revision db r = load_revision db0 r" if "r \<in> set (sd_revisions db0)" for r
    using that t later_load(3) [of True "sd_next db0" db0 db r]
    by (auto simp: tracked_def ready_def wf_stacks_def keyed_def)
  moreover have "load_revision db (bare_revision rv) = rv" using t settled_load by (simp add: tracked_def)
  ultimately show ?thesis by (simp add: history_def rows cong: map_cong)
qed

lemma extended_append:
  assumes "wf_stacks db0" and "save_revision (db0\<lparr>sd_draws := n\<rparr>) rv = (db', rv')"
    and "rv_ID rv = 0" "new_contents (rv_SourceConfigs rv) (rv_Resources rv)"
    and "envs_known db0 (rv_EnvGroups rv)" "b \<Longrightarrow> \<forall>e\<in>set (rv_EnvGroups rv). eg_ID e = 0"
  shows "extended b db0 db' rv' \<and> plain rv' = plain rv"
proof -
  have ready: "ready b db0 (db0\<lparr>sd_draws := n\<rparr>)" using ready_refl [OF assms(1)] by simp
  have t: "tracked b db0 db' rv' \<and> plain rv' = plain rv"
    using appended_ready [OF ready assms(3,4) _ assms(6,2)] assms(5) by simp
  have "fresh_contents rv" using assms(4) by (simp add: new_contents_def fresh_contents_def)
  then have "sd_revisions db' = sd_revisions db0 @ [bare_revision rv']"
    using append_settles [OF _ assms(3) _ _ assms(2)] ready assms(5) by (simp add: ready_def)
  then show ?thesis using t by (simp add: extended_def)
qed

lemma extended_update:
  assumes "extended b db0 db rv" "resaved rv rv1" "save_revision db rv1 = (db', rv')"
  shows "rv' = rv1 \<and> extended b db0 db' rv1"
proof -
  have t: "tracked b db0 db rv" and rows: "sd_revisions db = sd_revisions db0 @ [bare_revision rv]"
    using assms(1) by (simp_all add: extended_def)
  have u: "rv' = rv1" "tracked b db0 db' rv1" using resaved_tracked [OF t assms(2,3)] by simp_all
  have wf: "wf_stacks db" "wf_stacks db0" and s: "settled db rv" and n: "newer b (sd_next db0) (sd_next db) rv"
    using t by (simp_all add: tracked_def ready_def)
  have "(if rv_ID r = rv_ID rv then bare_revision rv1 else r) = r" if "r \<in> set (sd_revisions db0)" for r
    using that wf(2) n s by (auto simp: wf_stacks_def keyed_def newer_def settled_def)
  then have "map (\<lambda>r. if rv_ID r = rv_ID rv then bare_revision rv1 else r) (sd_revisions db0) = sd_revisions db0"
    by (intro map_idI)
  then have "sd_revisions db' = sd_revisions db0 @ [bare_revision rv1]"
    using update_settles(8) [OF wf(1) s assms(2,3)] by (simp add: rows)
  then show ?thesis using u by (simp add: extended_def)
qed

text \<open>What a handler that wrote no error went through.\<close>

definition no_error_written :: "'a written list \<Rightarrow> bool" where
  "no_error_written ws \<longleftrightarrow> (\<forall>e. WroteError e \<notin> set ws)"

lemma or_fail_result:
  assumes "or_fail calls db r next = (db', cs, ws, pn)" "no_error_written ws"
  obtains x where "r = Inr x" "next x = (db', cs, ws, pn)"
  using assms by (cases r) (auto simp: or_fail_def fail_with_def no_error_written_def)

lemma append_result:
  assumes "on_stored calls (AppendNewRevision f db rv) next = (db', cs, ws, pn)" "no_error_written ws"
  obtains db1 rv1 where "save_revision db rv = (db1, rv1)" "next db1 rv1 = (db', cs, ws, pn)"
  using assms unfolding on_stored_def AppendNewRevision_def
  by (elim or_fail_result) (auto split: sum.splits prod.splits)

lemma update_result:
  assumes "on_stored calls (UpdateStackRevision f db rv) next = (db', cs, ws, pn)" "no_error_written ws"
  obtains db1 rv1 where "save_revision db rv = (db1, rv1)" "next db1 rv1 = (db', cs, ws, pn)"
  using assms unfolding on_stored_def UpdateStackRevision_def
  by (elim or_fail_result) (auto split: option.splits prod.splits)

lemma clone_result:
  assumes "on_stored calls (clone_contents rand db rv) (\<lambda>db (ss, rs, es). next db ss rs es) = (db', cs, ws, pn)"
    and "no_error_written ws"
  obtains n ss rs es where "clone_contents rand db rv = (db\<lparr>sd_draws := n\<rparr>, Inr (ss, rs, es))"
    "next (db\<lparr>sd_draws := n\<rparr>) ss rs es = (db', cs, ws, pn)"
proof -
  obtain n where n: "fst (clone_contents rand db rv) = db\<lparr>sd_draws := n\<rparr>" using clone_contents_db by blast
  obtain x where x: "snd (clone_contents rand db rv) = Inr x" and
    cont: "(case x of (ss, rs, es) \<Rightarrow> next (db\<lparr>sd_draws := n\<rparr>) ss rs es) = (db', cs, ws, pn)"
    using assms unfolding on_stored_def n by (elim or_fail_result) auto
  obtain ss rs es where x': "x = (ss, rs, es)" by (rule prod_cases3)
  have "clone_contents rand db rv = (db\<lparr>sd_draws := n\<rparr>, Inr (ss, rs, es))" using n x x' by (metis prod.collapse)
  then show thesis using that [of n ss rs es] cont x' by simp
qed

lemma drawn_result:
  assumes "on_drawn db r next = (db', cs, ws, pn)" "no_error_written ws"
  obtains x m where "r = (Inr x, m)" "next (db\<lparr>sd_draws := m\<rparr>) x = (db', cs, ws, pn)"
proof -
  obtain x where "fst r = Inr x" "next (db\<lparr>sd_draws := snd r\<rparr>) x = (db', cs, ws, pn)"
    using assms unfolding on_drawn_def Let_def by (elim or_fail_result)
  then show thesis using that [of x "snd r"] by (metis prod.collapse)
qed

lemma draws: "sd_draws (db\<lparr>sd_draws := n\<rparr>) = n" "db\<lparr>sd_draws := n, sd_draws := m\<rparr> = db\<lparr>sd_draws := m\<rparr>"
  by simp_all

lemma latest_result:
  assumes "with_latest f db st next = (db', cs, ws, pn)" "no_error_written ws"
  obtains rv0 rvs rv where "sk_Revisions st = rv0 # rvs"
    "ReadStackRevisionByNumber f db (sk_ID st) (rv_Number rv0) = Inr rv" "next rv = (db', cs, ws, pn)"
  using assms unfolding with_latest_def
  by (cases "sk_Revisions st") (auto simp: no_revisions_def no_error_written_def elim!: or_fail_result)

lemma duplicate_result:
  assumes "(case x of Some y \<Rightarrow> duplicate_error db what y | None \<Rightarrow> h) = (db', cs, ws, pn)" "no_error_written ws"
  shows "h = (db', cs, ws, pn)"
  using assms by (cases x) (auto simp: duplicate_error_def no_error_written_def)

lemma answer_result:
  assumes "answer_stack f calls db before p uid = (db', cs, ws, pn)" "no_error_written ws"
  shows "db' = db" "cs = calls" "pn = False"
  using assms unfolding answer_stack_def by (auto elim!: or_fail_result)

section \<open>What a revision deploys\<close>

definition deployed_app :: "source_config list \<Rightarrow> app_resource \<Rightarrow> string \<times> uint \<times> string \<times> string \<times> string \<times> (string \<times> string \<times> string \<times> string) option" where
  "deployed_app sources r = (re_Name r, re_HelmRevisionID r, re_TemplateRepoURL r, re_TemplateName r, re_TemplateVersion r,
     map_option (\<lambda>c. (so_Name c, so_DisplayName c, so_ImageRepoURI c, so_ImageTag c)) (linked_source sources r))"

definition deployed_env :: "stack_env_group \<Rightarrow> string \<times> string \<times> uint" where
  "deployed_env e = (eg_Name e, eg_Namespace e, eg_Version e)"

definition same_deployment :: "stack_revision \<Rightarrow> stack_revision \<Rightarrow> bool" where
  "same_deployment rv rv' \<longleftrightarrow>
     map (deployed_app (rv_SourceConfigs rv')) (rv_Resources rv') = map (deployed_app (rv_SourceConfigs rv)) (rv_Resources rv) \<and>
     map deployed_env (rv_EnvGroups rv') = map deployed_env (rv_EnvGroups rv)"

lemma find_own: "distinct (map f xs) \<Longrightarrow> x \<in> set xs \<Longrightarrow> find (\<lambda>y. f y = f x) xs = Some x"
  by (induction xs) (auto simp: image_iff)

lemma find_list_all2:
  "list_all2 P xs ys \<Longrightarrow> (\<And>x y. P x y \<Longrightarrow> f x = f y) \<Longrightarrow> find (\<lambda>x. f x = v) xs = Some x \<Longrightarrow>
   \<exists>y. find (\<lambda>y. f y = v) ys = Some y \<and> P x y"
  by (induction rule: list_all2_induct) (auto split: if_splits)

lemma cloned_deployed:
  assumes linked: "linked_contents ss0 [r]" and new: "distinct (map so_UID ss)"
    and cloned: "list_all2 (\<lambda>c d. \<exists>u. d = cloned_source c u) ss0 ss"
  shows "deployed_app ss (cloned_resource r u (linkedSourceConfigUID ss0 ss (re_SourceConfigUID r))) = deployed_app ss0 r"
proof -
  have d0: "distinct (map so_UID ss0)" using linked by (simp add: linked_contents_def)
  obtain c where c: "c \<in> set ss0" "so_UID c = re_SourceConfigUID r" "linked_by_name ss0 (so_Name c) [] = so_UID c"
    using linked by (auto simp: linked_contents_def link_ok_def)
  have "find (\<lambda>x. so_Name x = so_Name c) (rev ss0) \<noteq> None"
    using c(1) by (auto simp: find_None_iff)
  then obtain c' where c': "find (\<lambda>x. so_Name x = so_Name c) (rev ss0) = Some c'" by auto
  then have "so_UID c' = so_UID c" "c' \<in> set ss0" using c(3) find_in_set [OF c'] by (simp_all add: linked_by_name_find)
  then have "c' = c" using d0 c(1) by (simp add: distinct_map inj_on_def)
  moreover have "list_all2 (\<lambda>c d. \<exists>u. d = cloned_source c u) (rev ss0) (rev ss)" using cloned by (simp add: list_all2_rev)
  ultimately have "\<exists>d. find (\<lambda>x. so_Name x = so_Name c) (rev ss) = Some d \<and> (\<exists>v. d = cloned_source c v)"
    using c' by (intro find_list_all2) (auto simp: cloned_source_def)
  then obtain d v where d: "find (\<lambda>x. so_Name x = so_Name c) (rev ss) = Some d" "d = cloned_source c v" by blast
  have "linkedSourceConfigUID ss0 ss (re_SourceConfigUID r) = so_UID d"
    using linkedSourceConfigUID_eq [OF d0 c(1), of ss] c(2) d(1) by (simp add: linked_by_name_find)
  moreover have "find (\<lambda>x. so_UID x = so_UID d) ss = Some d"
    using find_own [OF new, of d] find_in_set [OF d(1)] by simp
  moreover have "find (\<lambda>x. so_UID x = re_SourceConfigUID r) ss0 = Some c"
    using find_own [OF d0 c(1)] c(2) by simp
  ultimately show ?thesis
    by (simp add: deployed_app_def linked_source_def cloned_resource_def d(2) cloned_source_def)
qed

lemma cloned_all_deployed:
  assumes "linked_contents ss0 rs0" "distinct (map so_UID ss)" "list_all2 (\<lambda>c d. \<exists>u. d = cloned_source c u) ss0 ss"
    and "cloned_resources ss0 ss rs0 rs"
  shows "map (deployed_app ss) rs = map (deployed_app ss0) rs0"
  using assms(4,1) unfolding cloned_resources_def
proof (induction rule: list_all2_induct)
  case (Cons r rs0 d rs)
  then have "linked_contents ss0 [r]" "linked_contents ss0 rs0" by (simp_all add: linked_contents_def)
  then show ?case using Cons cloned_deployed [OF _ assms(2,3)] by auto
qed simp

lemma clone_deploys_same:
  assumes "good_random rand" "linked_revision rv" "clone_contents rand db rv = (db', Inr (ss, rs, es))"
  shows "map (deployed_app ss) rs = map (deployed_app (rv_SourceConfigs rv)) (rv_Resources rv)"
    and "map deployed_env es = map deployed_env (rv_EnvGroups rv)"
proof -
  obtain n1 n2 m where s: "CloneSourceConfigs rand (rv_SourceConfigs rv) (sd_draws db) = (Inr ss, n1)"
    and r: "CloneAppResources rand (rv_SourceConfigs rv) ss (rv_Resources rv) n1 = (Inr rs, n2)"
    and e: "CloneEnvGroups rand (rv_EnvGroups rv) n2 = (Inr es, m)"
    using clone_contents_result [OF assms(3)] by (elim exE conjE)
  show "map (deployed_app ss) rs = map (deployed_app (rv_SourceConfigs rv)) (rv_Resources rv)"
    using assms(2) CloneSourceConfigs_drawn [OF assms(1) s] CloneAppResources_cloned [OF r]
    by (intro cloned_all_deployed) (simp_all add: linked_revision_def drawn_ids_def)
  show "map deployed_env es = map deployed_env (rv_EnvGroups rv)"
    using CloneEnvGroups_cloned [OF e]
    by (induction rule: list_all2_induct) (auto simp: cloned_env_def deployed_env_def)
qed

text \<open>Keys do not matter.\<close>

lemma deployed_plain:
  "deployed_app (map plain_source ss) (plain_resource r) = deployed_app ss r" "deployed_env (plain_env e) = deployed_env e"
proof -
  have "find (\<lambda>c. so_UID c = u) (map plain_source ss) = map_option plain_source (find (\<lambda>c. so_UID c = u) ss)" for u
    by (induction ss) (simp_all add: plain_source_def)
  then show "deployed_app (map plain_source ss) (plain_resource r) = deployed_app ss r"
    by (simp add: deployed_app_def linked_source_def plain_resource_def option.map_comp comp_def plain_source_def)
  show "deployed_env (plain_env e) = deployed_env e" by (simp add: deployed_env_def plain_env_def)
qed

lemma plain_same_deployment:
  assumes "plain rv' = plain rv"
  shows "same_deployment rv rv'"
proof -
  note p = plain_eqD [OF assms]
  have "map (deployed_app ss) rs = map (deployed_app (map plain_source ss)) (map plain_resource rs)"
    "map deployed_env es = map deployed_env (map plain_env es)" for ss rs es
    by (simp_all add: deployed_plain comp_def)
  then show ?thesis unfolding same_deployment_def by (metis p(1-3))
qed

lemma rollback_calls:
  "fst (attempt_all (\<lambda>r. rollbackAppResource w (re_Name r) (re_HelmRevisionID r)) rs) =
   map (\<lambda>(name, version, _). RollbackRelease name version) (map (deployed_app ss) rs)"
  by (induction rs) (auto simp: rollbackAppResource_def deployed_app_def Let_def split: prod.splits)

lemma read_revision:
  assumes "ReadStackRevisionByNumber f db i n = Inr rv"
  shows "\<exists>s\<in>set (sd_revisions db). rv = load_revision db s \<and> rv_StackID s = i \<and> rv_Number s = n"
proof -
  have "\<exists>s\<in>set (sd_revisions db). x = load_revision db s \<and> P s"
    if "map_sum id (load_revision db) (faulty_first e (sd_revisions db) P) = Inr x" for e P x
    using that by (auto simp: faulty_first_def table_first_def split: option.splits dest: find_in_set)
  then show ?thesis using assms unfolding ReadStackRevisionByNumber_def by blast
qed

text \<open>
  C8. A roll back that answers with the stack has added one revision to the history, after all others
  and under the number that follows the latest; it deploys what the target revision deploys (the
  same applications at the same Helm revisions, from the same images, and the same environment
  groups), and the cluster was asked to roll back each of its applications, in order.
\<close>

theorem rollback_restores:
  assumes reach: "reachable_stacks db" and rand: "good_random (sw_random w)"
    and run: "StackRollbackHandler f w db p st (Inr target) = (db', calls, [WroteResult v], panicked)"
  shows "\<exists>rv latest rv'. ReadStackRevisionByNumber f db (sk_ID st) target = Inr rv \<and>
    ReadStackRevisionByNumber f db (sk_ID st) (rv_Number (hd (sk_Revisions st))) = Inr latest \<and>
    history db' (sk_ID st) = history db (sk_ID st) @ [rv'] \<and> rv_Number rv' = rv_Number latest + 1 \<and>
    same_deployment rv rv' \<and> calls = map (\<lambda>r. RollbackRelease (re_Name r) (re_HelmRevisionID r)) (rv_Resources rv)"
proof -
  have ok: "no_error_written [WroteResult v]" by (simp add: no_error_written_def)
  have wf: "wf_stacks db" and links: "links_ok db" using reachable_stacks_ok [OF reach] by simp_all
  obtain rv rv0 rvs latest where target: "ReadStackRevisionByNumber f db (sk_ID st) target = Inr rv"
    and st: "sk_Revisions st = rv0 # rvs" and latest: "ReadStackRevisionByNumber f db (sk_ID st) (rv_Number rv0) = Inr latest"
    and "on_stored [] (clone_contents (sw_random w) db rv) (\<lambda>db (ss, rs, es).
      on_stored [] (AppendNewRevision f db (rv\<lparr>rv_ID := 0, rv_Number := rv_Number latest + 1,
       rv_Status := StackRevisionStatusDeploying, rv_SourceConfigs := ss, rv_Resources := rs, rv_EnvGroups := es\<rparr>)) (\<lambda>db revision.
       case attempt_all (\<lambda>r. rollbackAppResource w (re_Name r) (re_HelmRevisionID r)) (rv_Resources revision) of
       (calls, errs, _) \<Rightarrow> on_stored calls (UpdateStackRevision f db (rolled_back target errs revision)) (\<lambda>db _.
     answer_stack f calls db [] p (sk_UID st)))) = (db', calls, [WroteResult v], panicked)"
    using run ok unfolding StackRollbackHandler_def
    by (elim or_fail_result) (auto elim!: or_fail_result split: list.splits)
  then obtain n ss rs es db1 rv1 where clone: "clone_contents (sw_random w) db rv = (db\<lparr>sd_draws := n\<rparr>, Inr (ss, rs, es))"
    and append: "save_revision (db\<lparr>sd_draws := n\<rparr>) (rv\<lparr>rv_ID := 0, rv_Number := rv_Number latest + 1,
       rv_Status := StackRevisionStatusDeploying, rv_SourceConfigs := ss, rv_Resources := rs, rv_EnvGroups := es\<rparr>) = (db1, rv1)"
    and rest: "(case attempt_all (\<lambda>r. rollbackAppResource w (re_Name r) (re_HelmRevisionID r)) (rv_Resources rv1) of
       (calls, errs, _) \<Rightarrow> on_stored calls (UpdateStackRevision f db1 (rolled_back target errs rv1)) (\<lambda>db _.
     answer_stack f calls db [] p (sk_UID st))) = (db', calls, [WroteResult v], panicked)"
    using ok by (elim clone_result append_result)
  have linked: "linked_revision rv" and own: "rv_StackID rv = sk_ID st"
    using read_revision [OF target] links by (auto simp: links_ok_def load_revision_def)
  note same = clone_deploys_same [OF rand linked clone] and new = clone_contents_new [OF rand clone]
  have e1: "extended True db db1 rv1" and plain: "plain rv1 = plain (rv\<lparr>rv_ID := 0, rv_Number := rv_Number latest + 1,
       rv_Status := StackRevisionStatusDeploying, rv_SourceConfigs := ss, rv_Resources := rs, rv_EnvGroups := es\<rparr>)"
    using extended_append [OF wf append, of True] new envs_known_new by simp_all
  obtain cs errs pn db2 rv2 where att: "attempt_all (\<lambda>r. rollbackAppResource w (re_Name r) (re_HelmRevisionID r)) (rv_Resources rv1) = (cs, errs, pn)"
    and upd: "save_revision db1 (rolled_back target errs rv1) = (db2, rv2)"
    and ans: "answer_stack f cs db2 [] p (sk_UID st) = (db', calls, [WroteResult v], panicked)"
    using rest ok by (auto elim!: update_result split: prod.splits)
  have e2: "extended True db db2 (rolled_back target errs rv1)" and rv2: "rv2 = rolled_back target errs rv1"
    using extended_update [OF e1 _ upd] resaved_functions(1) by simp_all
  let ?rv1 = "rolled_back target errs rv1"
  have contents: "rv_SourceConfigs ?rv1 = rv_SourceConfigs rv1" "rv_Resources ?rv1 = rv_Resources rv1"
    "rv_EnvGroups ?rv1 = rv_EnvGroups rv1" "rv_StackID ?rv1 = rv_StackID rv1" "rv_Number ?rv1 = rv_Number rv1"
    by (simp_all add: rolled_back_def outcome_of_def)
  have deployed: "same_deployment rv ?rv1"
    using plain_same_deployment [OF plain] same by (simp add: same_deployment_def contents)
  have "rv_StackID ?rv1 = sk_ID st" "rv_Number ?rv1 = rv_Number latest + 1"
    using plain_eqD(4,5) [OF plain] own by (simp_all add: contents)
  moreover have "calls = cs" "db' = db2" using answer_result [OF ans ok] by simp_all
  moreover have "cs = map (\<lambda>r. RollbackRelease (re_Name r) (re_HelmRevisionID r)) (rv_Resources rv)"
  proof -
    let ?call = "\<lambda>(name, version, _). RollbackRelease name version"
    have "cs = map ?call (map (deployed_app (rv_SourceConfigs rv1)) (rv_Resources rv1))"
      using rollback_calls [of w "rv_Resources rv1" "rv_SourceConfigs rv1"] unfolding att fst_conv .
    also have "\<dots> = map ?call (map (deployed_app (rv_SourceConfigs rv)) (rv_Resources rv))"
      using deployed by (simp only: same_deployment_def contents)
    finally show ?thesis by (simp add: deployed_app_def)
  qed
  ultimately show ?thesis
    using target latest st deployed extended_history [OF e2, of "sk_ID st"] by auto
qed


lemma sample_created_reachable: "reachable_stacks sample_created_stack"
  unfolding sample_created_stack_def
  by (intro reachable_stacks.step [OF reachable_stacks.empty] stack_step.create)
    (simp add: sample_stack_world_def sample_random_good)

definition sample_read_stack :: stack_model where
  "sample_read_stack = (case FindStackByStringID no_stack_faults sample_created_stack 1 ''a'' of Inr st \<Rightarrow> st
     | Inl _ \<Rightarrow> \<lparr>sk_ID = 0, sk_ProjectID = 0, sk_ClusterID = 0, sk_Namespace = [], sk_Name = [], sk_UID = [], sk_Revisions = []\<rparr>)"

definition sample_rollback :: "stack_view stack_handled" where
  "sample_rollback = StackRollbackHandler no_stack_faults sample_stack_world sample_created_stack 1 sample_read_stack (Inr 1)"

lemma rollback_restores_witness:
  "\<exists>rv'. history (fst sample_rollback) 1 = history sample_created_stack 1 @ [rv'] \<and> rv_Number rv' = 2 \<and>
     fst (snd sample_rollback) = [RollbackRelease ''web'' 1]"
proof -
  have "(case snd (snd sample_rollback) of ([WroteResult _], _) \<Rightarrow> True | _ \<Rightarrow> False)" by code_simp
  then obtain v pn where "snd (snd sample_rollback) = ([WroteResult v], pn)"
    by (auto split: prod.splits list.splits written.splits)
  then have "sample_rollback = (fst sample_rollback, fst (snd sample_rollback), [WroteResult v], pn)"
    by (metis prod.collapse)
  then have run: "StackRollbackHandler no_stack_faults sample_stack_world sample_created_stack 1 sample_read_stack (Inr 1) =
      (fst sample_rollback, fst (snd sample_rollback), [WroteResult v], pn)"
    by (simp only: sample_rollback_def)
  have "good_random (sw_random sample_stack_world)" by (simp add: sample_stack_world_def sample_random_good)
  from rollback_restores [OF sample_created_reachable this run]
  obtain latest rv' where "ReadStackRevisionByNumber no_stack_faults sample_created_stack (sk_ID sample_read_stack)
      (rv_Number (hd (sk_Revisions sample_read_stack))) = Inr latest"
    and "history (fst sample_rollback) (sk_ID sample_read_stack) =
      history sample_created_stack (sk_ID sample_read_stack) @ [rv']" "rv_Number rv' = rv_Number latest + 1"
    by blast
  moreover have "map_sum id rv_Number (ReadStackRevisionByNumber no_stack_faults sample_created_stack (sk_ID sample_read_stack)
      (rv_Number (hd (sk_Revisions sample_read_stack)))) = Inr 1"
    by code_simp
  moreover have "sk_ID sample_read_stack = 1" "fst (snd sample_rollback) = [RollbackRelease ''web'' 1]"
    by code_simp+
  ultimately show ?thesis by auto
qed

section \<open>The history\<close>

text \<open>
  C7. The history of a stack is an append-only log: whatever requests come (as long as none of them
  puts new sources) and whatever the hooks do, every revision keeps its number, status and contents,
  and later revisions come after it.
\<close>

theorem stack_history_append_only:
  assumes "reachable_stacks db" and "stack_step\<^sup>*\<^sup>* db db'"
  shows "prefix (history db i) (history db' i)"
proof -
  have "prefix (history db i) (history db' i) \<and> reachable_stacks db'"
    using assms(2,1)
  proof (induction rule: rtranclp_induct)
    case (step db1 db2)
    then have "prefix (history db1 i) (history db2 i)"
      using reachable_stacks_ok step_ready ready_history by blast
    then show ?case using step by (blast intro: prefix_order.trans reachable_stacks.step)
  qed simp
  then show ?thesis ..
qed

lemma stack_history_append_only_witness:
  "prefix (history sample_created_stack 1) (history (fst (sample_rollback)) 1) \<and> history sample_created_stack 1 \<noteq> []"
proof -
  have "stack_step sample_created_stack (fst sample_rollback)"
    unfolding sample_rollback_def
    by (intro stack_step.rollback) (simp add: sample_stack_world_def sample_random_good)
  moreover have "length (history sample_created_stack 1) = 1" by code_simp
  ultimately show ?thesis using stack_history_append_only [OF sample_created_reachable r_into_rtranclp] by auto
qed

text \<open>
  C25. In every reachable state every application of every revision has a source of the revision, and
  only one with the id it is linked to: no client is ever shown an empty source.
\<close>

theorem applications_have_sources:
  assumes "reachable_stacks db" and "rv \<in> set (history db i)" and "r \<in> set (rv_Resources rv)"
  shows "(\<exists>!c. c \<in> set (rv_SourceConfigs rv) \<and> so_UID c = re_SourceConfigUID r) \<and>
    linked_source (rv_SourceConfigs rv) r \<noteq> None"
proof -
  have "linked_revision rv" using reachable_stacks_ok [OF assms(1)] assms(2) by (auto simp: history_def links_ok_def)
  then obtain c where c: "c \<in> set (rv_SourceConfigs rv)" "so_UID c = re_SourceConfigUID r"
    and d: "distinct (map so_UID (rv_SourceConfigs rv))"
    using assms(3) by (auto simp: linked_revision_def linked_contents_def link_ok_def)
  have "\<exists>!c. c \<in> set (rv_SourceConfigs rv) \<and> so_UID c = re_SourceConfigUID r"
    using c d by (auto simp: distinct_map inj_on_def)
  moreover have "linked_source (rv_SourceConfigs rv) r \<noteq> None"
    using c by (auto simp: linked_source_def find_None_iff)
  ultimately show ?thesis by simp
qed

lemma applications_have_sources_witness:
  "linked_source (rv_SourceConfigs (hd (history sample_created_stack 1)))
     (hd (rv_Resources (hd (history sample_created_stack 1)))) \<noteq> None"
proof (rule applications_have_sources [OF sample_created_reachable, THEN conjunct2])
  have "length (history sample_created_stack 1) = 1" by code_simp
  then show "hd (history sample_created_stack 1) \<in> set (history sample_created_stack 1)"
    by (intro hd_in_set) auto
  have "length (rv_Resources (hd (history sample_created_stack 1))) = 1" by code_simp
  then show "hd (rv_Resources (hd (history sample_created_stack 1))) \<in> set (rv_Resources (hd (history sample_created_stack 1)))"
    by (intro hd_in_set) auto
qed

section \<open>Where the handlers fall short\<close>

lemma moved_envs_gone:
  assumes wf: "wf_stacks db" and zero: "rv_ID rv = 0" and j: "j < sd_next db"
    and envs: "rv_EnvGroups rv = filter (\<lambda>e. eg_RevisionID e = j) (sd_envs db)"
    and run: "save_revision db rv = (db', rv')"
  shows "filter (\<lambda>e. eg_RevisionID e = j) (sd_envs db') = []"
proof -
  let ?i = "sd_next db"
  have i: "?i = (if rv_ID rv = 0 then sd_next db else rv_ID rv)"
    and n: "?i + 1 = (if rv_ID rv = 0 then sd_next db + 1 else sd_next db)" by (simp_all add: zero)
  obtain n2 es erows n3 where
    e: "save_contents env_contents ?i (rv_EnvGroups rv) (sd_envs db) n2 = (es, erows, n3)" and db': "sd_envs db' = erows"
    using save_revision_parts [OF run i n] by (metis stack_db.select_convs(5) stack_db.surjective stack_db.update_convs(1-6))
  have key: "co_key env_contents = eg_ID" "co_owner env_contents = eg_RevisionID"
    "co_set_owner env_contents = (\<lambda>i c. c\<lparr>eg_RevisionID := i\<rparr>)"
    by (simp_all add: contents_keys)
  have "save_contents env_contents ?i (map id (filter (\<lambda>r. co_owner env_contents r = j) (sd_envs db))) (sd_envs db) n2 =
      (es, erows, n3)"
    using e by (simp add: key envs)
  from envs.save_moved_loaded(4) [OF this, of ?i] wf
  have rows: "erows = map (\<lambda>r. if r \<in> set (filter (\<lambda>r. eg_RevisionID r = j) (sd_envs db)) then r\<lparr>eg_RevisionID := ?i\<rparr> else r) (sd_envs db)"
    by (simp add: key wf_stacks_def)
  show ?thesis using j by (auto simp: db' rows filter_empty_conv)
qed

text \<open>
  After new sources were put, the revision that was the latest before has lost its environment
  groups: they are the new revision's now, so a roll back to the old one deploys it without them.
\<close>

theorem put_source_strips_env_groups:
  assumes reach: "reachable_stacks db" and rand: "good_random (sw_random w)"
    and st: "sk_Revisions st = rv0 # rvs"
    and latest: "ReadStackRevisionByNumber f db (sk_ID st) (rv_Number rv0) = Inr latest"
    and run: "StackPutSourceConfigHandler f w db p st (Inr req) = (db', calls, [WroteResult v], panicked)"
  shows "rv_EnvGroups (load_revision db' latest) = [] \<and>
    (\<exists>rv'. rv' \<in> set (history db' (sk_ID st)) \<and> rv_Number rv' = rv_Number latest + 1 \<and>
       map deployed_env (rv_EnvGroups rv') = map deployed_env (rv_EnvGroups latest))"
proof -
  have ok: "no_error_written [WroteResult v]" by (simp add: no_error_written_def)
  have wf: "wf_stacks db" using reachable_stacks_ok [OF reach] by simp
  obtain s where s: "s \<in> set (sd_revisions db)" "latest = load_revision db s" "rv_StackID s = sk_ID st"
    using read_revision [OF latest] by blast
  let ?rv = "\<lambda>ss rs. latest\<lparr>rv_ID := 0, rv_Number := rv_Number latest + 1,
       rv_Status := StackRevisionStatusDeploying, rv_SourceConfigs := ss, rv_Resources := rs\<rparr>"
  obtain ss n rs m db1 rv1 where sources: "getSourceConfigModels (sw_random w) req (sd_draws db) = (Inr ss, n)"
    and resources: "CloneAppResources (sw_random w) (rv_SourceConfigs latest) ss (rv_Resources latest) n = (Inr rs, m)"
    and append: "save_revision (db\<lparr>sd_draws := m\<rparr>) (?rv ss rs) = (db1, rv1)"
    and rest: "(case attempt_all (\<lambda>r. updateAppResourceTag w (re_Name r) (tag_of ss r)) (rv_Resources rv1) of
       (calls, errs, panicked) \<Rightarrow>
     if panicked then (db1, calls, [], True)
     else on_stored calls (UpdateStackRevision f db1 (source_updated errs (rv1\<lparr>rv_Resources :=
            map (\<lambda>r. r\<lparr>re_HelmRevisionID := re_HelmRevisionID r + 1\<rparr>) (rv_Resources rv1)\<rparr>))) (\<lambda>db _.
          answer_stack f calls db [] p (sk_UID st))) = (db', calls, [WroteResult v], panicked)"
    using run ok st latest unfolding StackPutSourceConfigHandler_def
    by (elim or_fail_result) (auto elim!: or_fail_result drawn_result append_result)
  have gs: "good_sources ss" using getSourceConfigModels_new [OF rand sources] by (simp add: good_sources_def)
  have new: "new_contents ss rs"
    using gs cloned_resources_linked [OF CloneAppResources_cloned [OF resources]]
    by (auto simp: new_contents_iff linked_to_def)
  have e1: "extended False db db1 rv1" and plain: "plain rv1 = plain (?rv ss rs)"
    using extended_append [OF wf append, of False] new read_envs [OF latest] by simp_all
  obtain cs errs db2 rv2 where upd: "save_revision db1 (source_updated errs (rv1\<lparr>rv_Resources :=
            map (\<lambda>r. r\<lparr>re_HelmRevisionID := re_HelmRevisionID r + 1\<rparr>) (rv_Resources rv1)\<rparr>)) = (db2, rv2)"
    and ans: "answer_stack f cs db2 [] p (sk_UID st) = (db', calls, [WroteResult v], panicked)"
    using rest ok by (auto elim!: update_result split: prod.splits if_splits)
  let ?rv2 = "source_updated errs (rv1\<lparr>rv_Resources :=
            map (\<lambda>r. r\<lparr>re_HelmRevisionID := re_HelmRevisionID r + 1\<rparr>) (rv_Resources rv1)\<rparr>)"
  have e2: "extended False db db2 ?rv2" and rv2: "rv2 = ?rv2"
    using extended_update [OF e1 resaved_source_updated upd] by simp_all
  have db': "db' = db2" using answer_result [OF ans ok] by simp
  have contents: "rv_EnvGroups ?rv2 = rv_EnvGroups rv1" "rv_StackID ?rv2 = rv_StackID rv1" "rv_Number ?rv2 = rv_Number rv1"
    by (simp_all add: source_updated_def outcome_of_def)
  have "map deployed_env (rv_EnvGroups rv1) = map deployed_env (rv_EnvGroups latest)"
    using plain_same_deployment [OF plain] by (simp add: same_deployment_def)
  moreover have "?rv2 \<in> set (history db' (sk_ID st))"
    using e2 settled_load [of db2 ?rv2] plain_eqD(4) [OF plain] s(2,3)
    by (auto simp: db' history_def extended_def tracked_def contents load_revision_def image_iff)
  moreover have "rv_EnvGroups (load_revision db' latest) = []"
  proof -
    have "rv_ID latest < sd_next db" using s wf by (auto simp: load_revision_def wf_stacks_def keyed_def)
    then have "filter (\<lambda>e. eg_RevisionID e = rv_ID latest) (sd_envs db1) = []"
      using moved_envs_gone [OF _ _ _ _ append, of "rv_ID latest"] wf s(2) by (simp add: wf_stacks_def load_revision_def)
    moreover have "sd_envs db2 = sd_envs db1"
      using update_settles(5) [OF _ _ resaved_source_updated upd] e1 by (simp add: extended_def tracked_def ready_def)
    ultimately show ?thesis by (simp add: load_revision_def db')
  qed
  ultimately show ?thesis using plain_eqD(5) [OF plain] contents by auto
qed

definition sample_put :: "stack_view stack_handled" where
  "sample_put = StackPutSourceConfigHandler no_stack_faults sample_stack_world sample_created_stack 1 sample_read_stack
     (Inr [\<lparr>sr_DisplayName = ''Source'', sr_Name = ''src'', sr_ImageRepoURI = ''img'', sr_ImageTag = ''v2'', sr_Build = False\<rparr>])"

definition sample_latest :: stack_revision where
  "sample_latest = load_revision sample_created_stack (hd (sd_revisions sample_created_stack))"

lemma put_source_strips_env_groups_witness:
  "map eg_Name (rv_EnvGroups sample_latest) = [''env''] \<and> rv_EnvGroups (load_revision (fst sample_put) sample_latest) = []"
proof -
  have "(case snd (snd sample_put) of ([WroteResult _], _) \<Rightarrow> True | _ \<Rightarrow> False)" by code_simp
  then obtain v pn where "snd (snd sample_put) = ([WroteResult v], pn)"
    by (auto split: prod.splits list.splits written.splits)
  then have "sample_put = (fst sample_put, fst (snd sample_put), [WroteResult v], pn)" by (metis prod.collapse)
  note run = this [unfolded sample_put_def, folded sample_put_def]
  have "(case sk_Revisions sample_read_stack of [rv] \<Rightarrow> rv = sample_latest | _ \<Rightarrow> False)" by code_simp
  then have st: "sk_Revisions sample_read_stack = [sample_latest]" by (auto split: list.splits)
  have latest: "ReadStackRevisionByNumber no_stack_faults sample_created_stack (sk_ID sample_read_stack) (rv_Number sample_latest) = Inr sample_latest"
    by code_simp
  have rand: "good_random (sw_random sample_stack_world)" by (simp add: sample_stack_world_def sample_random_good)
  have "map eg_Name (rv_EnvGroups sample_latest) = [''env'']" by code_simp
  then show ?thesis
    using put_source_strips_env_groups [OF sample_created_reachable rand st latest] run
    unfolding sample_put_def by blast
qed

text \<open>
  When the chart of a new application does not install, the revision that is added is failed, and
  yet says that the application was added successfully: the reason and the message of the error are
  overwritten.
\<close>

theorem failed_install_reported_added:
  assumes reach: "reachable_stacks db" and rand: "good_random (sw_random w)"
    and run: "StackAddApplicationHandler f w db p ns st (Inr req) = (db', [call], [], False)"
    and failed: "sw_call w call = Some err"
  shows "\<exists>rv'. history db' (sk_ID st) = history db (sk_ID st) @ [rv'] \<and> rv_Status rv' = StackRevisionStatusFailed \<and>
    rv_Reason rv' = ''AddAppSuccess'' \<and> rv_Message rv' = ''New application '' @ ar_Name req @ '' added successfully.''"
proof -
  have ok: "no_error_written ([] :: stack_view written list)" by (simp add: no_error_written_def)
  have wf: "wf_stacks db" using reachable_stacks_ok [OF reach] by simp
  let ?req = "default_repo (sw_default_repo w) req"
  obtain rv0 rvs latest ss n rs m rs' m' es m'' db1 rv1 st1 where "sk_Revisions st = rv0 # rvs"
    and latest: "ReadStackRevisionByNumber f db (sk_ID st) (rv_Number rv0) = Inr latest"
    and s: "CloneSourceConfigs (sw_random w) (rv_SourceConfigs latest) (sd_draws db) = (Inr ss, n)"
    and r: "CloneAppResources (sw_random w) (rv_SourceConfigs latest) ss (rv_Resources latest) n = (Inr rs, m)"
    and r': "getResourceModels (sw_random w) ss (sw_default_repo w) [req] m = (Inr rs', m')"
    and e: "CloneEnvGroups (sw_random w) (rv_EnvGroups latest) m' = (Inr es, m'')"
    and append: "save_revision (db\<lparr>sd_draws := m''\<rparr>) (new_revision (sk_ID st) (rv_Number latest + 1)
       StackRevisionStatusDeploying (ss, rs @ rs', es)) = (db1, rv1)"
    and rest: "(case attempt_all (applyAppResource w ns st1) [?req] of (calls, errs, panicked) \<Rightarrow>
     if panicked then (db1, calls, [], True)
     else on_stored calls (UpdateStackRevision f db1 (app_installed errs rv1)) (\<lambda>db revision.
          on_stored calls (UpdateStackRevision f db (app_added (ar_Name ?req)
            (save_errors w ns (released w ns st1 [?req]) (rv_Resources revision)) revision)) (\<lambda>db _.
          (db, calls, [], False)))) = (db', [call], [] :: stack_view written list, False)"
    using run unfolding StackAddApplicationHandler_def sum.case Let_def
    by (elim latest_result [OF _ ok] drawn_result [OF _ ok] duplicate_result [OF _ ok, elim_format]
        append_result [OF _ ok] or_fail_result [OF _ ok]) (unfold draws, rule that, assumption+)
  have new: "new_contents ss (rs @ rs')" "\<forall>e\<in>set es. eg_ID e = 0"
    using CloneSourceConfigs_new [OF rand s] cloned_resources_linked [OF CloneAppResources_cloned [OF r]]
      getResourceModels_linked [OF r'] CloneEnvGroups_new [OF e]
    by (auto simp: new_contents_iff linked_to_def good_sources_def)
  have e1: "extended True db db1 rv1" and plain: "plain rv1 = plain (new_revision (sk_ID st) (rv_Number latest + 1)
       StackRevisionStatusDeploying (ss, rs @ rs', es))"
    using extended_append [OF wf append, of True] new envs_known_new by simp_all
  obtain c x pn where app: "applyAppResource w ns st1 ?req = (c, x, pn)" by (rule prod_cases3)
  then have "c = [call]" "\<not> pn"
    using rest ok by (auto elim!: update_result split: option.splits if_splits)
  with app failed have x: "x = Some err"
    by (auto simp: applyAppResource_def Let_def split: option.splits list.splits if_splits)
  from app x have att: "attempt_all (applyAppResource w ns st1) [?req] = ([call], [go_error_text err], False)"
    using \<open>c = [call]\<close> \<open>\<not> pn\<close> by simp
  have none: "save_errors w ns (released w ns st1 [?req]) rs = []" for rs
    using app x by (simp add: released_def save_errors_def)
  obtain db2 rv2 rv3 where upd1: "save_revision db1 (app_installed [go_error_text err] rv1) = (db2, rv2)"
    and upd2: "save_revision db2 (app_added (ar_Name ?req) [] rv2) = (db', rv3)"
    using rest ok unfolding att by (auto simp: none elim!: update_result)
  have e2: "extended True db db2 rv2" and rv2: "rv2 = app_installed [go_error_text err] rv1"
    using extended_update [OF e1 _ upd1] resaved_functions(2) by simp_all
  have "extended True db db' (app_added (ar_Name ?req) [] rv2)"
    using extended_update [OF e2 _ upd2] resaved_functions(3) by simp
  moreover have "rv_StackID rv1 = sk_ID st" "ar_Name ?req = ar_Name req"
    using plain_eqD(4) [OF plain] by (simp_all add: new_revision_def default_repo_def)
  ultimately show ?thesis
    using extended_history [of db db' _ "sk_ID st"]
    by (fastforce simp: rv2 app_added_def app_installed_def outcome_of_def)
qed

definition sample_failing_world :: stack_world where
  "sample_failing_world = sample_stack_world\<lparr>sw_call := (\<lambda>c. case c of InstallChart _ _ _ _ \<Rightarrow> Some (GoError ''no space'') | _ \<Rightarrow> None)\<rparr>"

definition sample_app :: app_request where
  "sample_app = \<lparr>ar_Name = ''api'', ar_TemplateRepoURL = [], ar_TemplateName = ''web'', ar_TemplateVersion = ''v1'',
     ar_SourceConfigName = ''src''\<rparr>"

definition sample_install :: cluster_call where
  "sample_install = InstallChart ''default'' (sample_app\<lparr>ar_TemplateRepoURL := ''charts''\<rparr>) ''shop'' 2"

lemma failed_install_reported_added_witness:
  "\<exists>db' rv'. StackAddApplicationHandler no_stack_faults sample_failing_world sample_created_stack 1 ''default''
       sample_read_stack (Inr sample_app) = (db', [sample_install], [], False) \<and>
     last (history db' 1) = rv' \<and> rv_Status rv' = ''failed'' \<and> rv_Reason rv' = ''AddAppSuccess''"
proof -
  let ?h = "StackAddApplicationHandler no_stack_faults sample_failing_world sample_created_stack 1 ''default''
       sample_read_stack (Inr sample_app)"
  have "snd ?h = ([sample_install], [], False)" by code_simp
  then have run: "?h = (fst ?h, [sample_install], [], False)" by (metis prod.collapse)
  have "sw_call sample_failing_world sample_install = Some (GoError ''no space'')" by code_simp
  moreover have "good_random (sw_random sample_failing_world)"
    by (simp add: sample_failing_world_def sample_stack_world_def sample_random_good)
  moreover have "sk_ID sample_read_stack = 1" by code_simp
  ultimately show ?thesis
    using failed_install_reported_added [OF sample_created_reachable _ run] run
    by (auto simp: StackRevisionStatusFailed_def)
qed

end
