(* ===== verification/Accounts.thy ===== *)
theory Accounts
  imports Members "HOL-Library.Sublist"
begin

text \<open>
  User accounts: the rows of users, of password reset tokens and of CLI authorization codes
  (\<open>internal/models\<close> and \<open>internal/repository/gorm\<close>, \<open>user.go\<close>, \<open>pw_reset_token.go\<close>, \<open>auth_code.go\<close>),
  the session of a browser (\<open>api/server/authn/session_helpers.go\<close>), and the handlers of
  \<open>api/server/handlers/user\<close>. A handler takes the tables and gives them back with what it wrote to the
  client and whether it panicked. bcrypt, the notifier, GitHub, Google and the faults of the database
  are fields of \<open>account_world\<close>.
\<close>

section \<open>Rows and state\<close>

text \<open>The whole row of a user, of which the middlewares read the first fields. Deletion is soft.\<close>

record account = user +
  ac_Password :: string
  ac_GithubUserID :: int
  ac_GoogleUserID :: string
  ac_Deleted :: bool

record pw_reset_token =
  pt_ID :: uint
  pt_Email :: string
  pt_IsValid :: bool
  pt_Expiry :: "int option"
  pt_Token :: string

record auth_code =
  au_Token :: string
  au_AuthorizationCode :: string
  au_Expiry :: "int option"

record login_session = session +
  se_email :: "string option"
  se_state :: "string option"
  se_project_id :: "uint option"
  se_integration :: "(uint \<times> string) option"

datatype mail_kind = EmailVerification | PasswordReset | GithubRelink

text \<open>A mail holds a link: its address and its query values.\<close>

record mail =
  ml_Kind :: mail_kind
  ml_To :: string
  ml_URL :: string
  ml_Query :: "(string \<times> string) list"

text \<open>Each table counts the ids it gave. Browsers have names; each has one session.\<close>

record account_db =
  ad_users :: "account list"
  ad_user_seq :: nat
  ad_tokens :: "pw_reset_token list"
  ad_token_seq :: nat
  ad_codes :: "auth_code list"
  ad_sessions :: "string \<Rightarrow> login_session"
  ad_members :: member_db
  ad_mails :: "mail list"
  ad_draws :: nat

datatype user_query = ByEmail string | ByGithubUserID int | ByGoogleUserID string

record google_info =
  gi_Email :: string
  gi_EmailVerified :: bool
  gi_HD :: string
  gi_Sub :: string

record github_email =
  ge_Email :: string
  ge_Primary :: bool
  ge_Verified :: bool

text \<open>
  bcrypt salts: \<open>aw_hash\<close> and the two sources of randomness are indexed by a counter of draws.
  \<open>aw_google_json\<close> is what unmarshalling the body leaves in the pointer to an empty struct: the
  struct, filled or not, or \<open>None\<close> for a nil pointer, which a body \<open>null\<close> makes of it.
\<close>

record account_world =
  aw_now :: int
  aw_read_user :: "user_query \<Rightarrow> go_error option"
  aw_create_user :: "go_error option"
  aw_update_user :: "go_error option"
  aw_delete_user :: "go_error option"
  aw_create_token :: "go_error option"
  aw_read_token :: "go_error option"
  aw_update_token :: "go_error option"
  aw_create_code :: "go_error option"
  aw_read_code :: "go_error option"
  aw_refused_insert :: go_error
  aw_members :: db_faults
  aw_store_get :: "go_error option"
  aw_store_save :: "go_error option"
  aw_notify :: "mail \<Rightarrow> go_error option"
  aw_AdminEmail :: string
  aw_InitInCluster :: bool
  aw_GoogleRestrictedDomain :: string
  aw_ServerURL :: string
  aw_Metadata_Email :: bool
  aw_DisableAllowlist :: bool
  aw_allowlist :: "string \<Rightarrow> (go_error, bool) go_result"
  aw_rand_int :: "nat \<Rightarrow> nat \<Rightarrow> (go_error, nat) go_result"
  aw_rand_bytes :: "nat \<Rightarrow> nat \<Rightarrow> (go_error, nat list) go_result"
  aw_hash :: "nat \<Rightarrow> string \<Rightarrow> (go_error, string) go_result"
  aw_compare :: "string \<Rightarrow> string \<Rightarrow> go_error option"
  aw_sign :: "claims \<Rightarrow> string \<Rightarrow> (string, string) go_result"
  aw_token_secret :: string
  aw_exchange :: "string \<Rightarrow> (go_error, string) go_result"
  aw_token_valid :: "string \<Rightarrow> bool"
  aw_github_user :: "string \<Rightarrow> (go_error, int option) go_result"
  aw_github_emails :: "string \<Rightarrow> (go_error, github_email list) go_result"
  aw_google_do :: "string \<Rightarrow> (go_error, (go_error, string) go_result) go_result"
  aw_google_json :: "string \<Rightarrow> google_info option"

section \<open>Repositories (\<open>internal/repository/gorm\<close>)\<close>

definition live_users :: "account_db \<Rightarrow> account list" where
  "live_users db = filter (\<lambda>a. \<not> ac_Deleted a) (ad_users db)"

fun matches_query :: "user_query \<Rightarrow> account \<Rightarrow> bool" where
  "matches_query (ByEmail email) a \<longleftrightarrow> us_Email a = email"
| "matches_query (ByGithubUserID i) a \<longleftrightarrow> ac_GithubUserID a = i"
| "matches_query (ByGoogleUserID i) a \<longleftrightarrow> ac_GoogleUserID a = i"

definition read_user :: "account_world \<Rightarrow> account_db \<Rightarrow> user_query \<Rightarrow> (go_error, account) go_result" where
  "read_user w db q = faulty_first (aw_read_user w q) (live_users db) (matches_query q)"

definition ReadUserByEmail :: "account_world \<Rightarrow> account_db \<Rightarrow> string \<Rightarrow> (go_error, account) go_result" where
  "ReadUserByEmail w db email = read_user w db (ByEmail email)"

definition ReadUserByGithubUserID :: "account_world \<Rightarrow> account_db \<Rightarrow> int \<Rightarrow> (go_error, account) go_result" where
  "ReadUserByGithubUserID w db i = read_user w db (ByGithubUserID i)"

definition ReadUserByGoogleUserID :: "account_world \<Rightarrow> account_db \<Rightarrow> string \<Rightarrow> (go_error, account) go_result" where
  "ReadUserByGoogleUserID w db i = read_user w db (ByGoogleUserID i)"

text \<open>The next id of a table, while there is one (a \<open>bigserial\<close>).\<close>

definition next_id :: "nat \<Rightarrow> uint option" where
  "next_id n = (if n < 2 ^ 63 - 1 then Some (word_of_nat (n + 1)) else None)"

text \<open>The email is unique, also among the deleted rows.\<close>

definition insert_account :: "account_db \<Rightarrow> account \<Rightarrow> account_db" where
  "insert_account db a = db\<lparr>ad_users := ad_users db @ [a], ad_user_seq := ad_user_seq db + 1\<rparr>"

definition CreateUser :: "account_world \<Rightarrow> account_db \<Rightarrow> account \<Rightarrow> account_db \<times> (go_error, account) go_result" where
  "CreateUser w db a =
     (case aw_create_user w of Some e \<Rightarrow> (db, Inl e) | None \<Rightarrow>
      case next_id (ad_user_seq db) of None \<Rightarrow> (db, Inl (aw_refused_insert w)) | Some i \<Rightarrow>
      if us_Email a \<in> us_Email ` set (ad_users db) then (db, Inl (aw_refused_insert w))
      else (let a = a\<lparr>us_ID := i\<rparr> in (insert_account db a, Inr a)))"

definition save_account :: "account list \<Rightarrow> account \<Rightarrow> account list" where
  "save_account users a = map (\<lambda>x. if us_ID x = us_ID a then a else x) users"

text \<open>\<open>Save\<close> inserts a row without an id, as that of a service account.\<close>

definition UpdateUser :: "account_world \<Rightarrow> account_db \<Rightarrow> account \<Rightarrow> account_db \<times> (go_error, account) go_result" where
  "UpdateUser w db a =
     (case aw_update_user w of Some e \<Rightarrow> (db, Inl e) | None \<Rightarrow>
      if us_ID a = 0 then CreateUser w db a
      else (db\<lparr>ad_users := save_account (ad_users db) a\<rparr>, Inr a))"

definition DeleteUser :: "account_world \<Rightarrow> account_db \<Rightarrow> account \<Rightarrow> account_db \<times> (go_error, account) go_result" where
  "DeleteUser w db a =
     (case aw_delete_user w of Some e \<Rightarrow> (db, Inl e) | None \<Rightarrow>
      if us_ID a = 0 then (db, Inl (GoError ''WHERE conditions required''))
      else (db\<lparr>ad_users := map (\<lambda>x. if us_ID x = us_ID a then x\<lparr>ac_Deleted := True\<rparr> else x) (ad_users db)\<rparr>, Inr a))"

definition CreatePWResetToken ::
  "account_world \<Rightarrow> account_db \<Rightarrow> pw_reset_token \<Rightarrow> account_db \<times> (go_error, pw_reset_token) go_result" where
  "CreatePWResetToken w db t =
     (case aw_create_token w of Some e \<Rightarrow> (db, Inl e) | None \<Rightarrow>
      case next_id (ad_token_seq db) of None \<Rightarrow> (db, Inl (aw_refused_insert w)) | Some i \<Rightarrow>
      (let t = t\<lparr>pt_ID := i\<rparr>
       in (db\<lparr>ad_tokens := ad_tokens db @ [t], ad_token_seq := ad_token_seq db + 1\<rparr>, Inr t)))"

definition ReadPWResetToken :: "account_world \<Rightarrow> account_db \<Rightarrow> uint \<Rightarrow> (go_error, pw_reset_token) go_result" where
  "ReadPWResetToken w db i = faulty_first (aw_read_token w) (ad_tokens db) (\<lambda>t. pt_ID t = i)"

definition UpdatePWResetToken :: "account_world \<Rightarrow> account_db \<Rightarrow> pw_reset_token \<Rightarrow> account_db \<times> go_error option" where
  "UpdatePWResetToken w db t =
     (case aw_update_token w of Some e \<Rightarrow> (db, Some e) | None \<Rightarrow>
      (db\<lparr>ad_tokens := map (\<lambda>x. if pt_ID x = pt_ID t then t else x) (ad_tokens db)\<rparr>, None))"

text \<open>Both the token and the code are unique.\<close>

definition CreateAuthCode :: "account_world \<Rightarrow> account_db \<Rightarrow> auth_code \<Rightarrow> account_db \<times> (go_error, auth_code) go_result" where
  "CreateAuthCode w db c =
     (case aw_create_code w of Some e \<Rightarrow> (db, Inl e) | None \<Rightarrow>
      if au_Token c \<in> au_Token ` set (ad_codes db) \<or> au_AuthorizationCode c \<in> au_AuthorizationCode ` set (ad_codes db)
      then (db, Inl (aw_refused_insert w))
      else (db\<lparr>ad_codes := ad_codes db @ [c]\<rparr>, Inr c))"

definition ReadAuthCode :: "account_world \<Rightarrow> account_db \<Rightarrow> string \<Rightarrow> (go_error, auth_code) go_result" where
  "ReadAuthCode w db code = faulty_first (aw_read_code w) (ad_codes db) (\<lambda>c. au_AuthorizationCode c = code)"

section \<open>Randomness, hashes and mail\<close>

definition randCharset :: string where
  "randCharset = ''abcdefghijklmnopqrstuvwxyz1234567890''"

text \<open>The letters, and the draws made; a failed draw ends the loop.\<close>

fun random_letters :: "(nat \<Rightarrow> nat \<Rightarrow> (go_error, nat) go_result) \<Rightarrow> string \<Rightarrow> nat \<Rightarrow> nat \<Rightarrow> (go_error, string) go_result \<times> nat" where
  "random_letters rand letters 0 n = (Inr [], n)"
| "random_letters rand letters (Suc k) n =
     (case rand n (length letters) of
        Inl e \<Rightarrow> (Inl e, n + 1)
      | Inr num \<Rightarrow>
          (case random_letters rand letters k (n + 1) of
             (Inl e, m) \<Rightarrow> (Inl e, m)
           | (Inr ret, m) \<Rightarrow> (Inr (letters ! num # ret), m)))"

definition StringWithCharset :: "account_world \<Rightarrow> account_db \<Rightarrow> nat \<Rightarrow> string \<Rightarrow> account_db \<times> (go_error, string) go_result" where
  "StringWithCharset w db len charset =
     (let letters = (if charset = [] then randCharset else charset);
          r = random_letters (aw_rand_int w) letters len (ad_draws db)
      in (db\<lparr>ad_draws := snd r\<rparr>, fst r))"

definition hex_digits :: string where
  "hex_digits = ''0123456789abcdef''"

definition hex_encode :: "nat list \<Rightarrow> string" where
  "hex_encode bs = concat (map (\<lambda>b. [hex_digits ! (b div 16), hex_digits ! (b mod 16)]) bs)"

definition GenerateRandomBytes :: "account_world \<Rightarrow> account_db \<Rightarrow> nat \<Rightarrow> account_db \<times> (go_error, string) go_result" where
  "GenerateRandomBytes w db n =
     (db\<lparr>ad_draws := ad_draws db + 1\<rparr>, map_sum id hex_encode (aw_rand_bytes w (ad_draws db) n))"

definition GenerateFromPassword :: "account_world \<Rightarrow> account_db \<Rightarrow> string \<Rightarrow> account_db \<times> (go_error, string) go_result" where
  "GenerateFromPassword w db password =
     (db\<lparr>ad_draws := ad_draws db + 1\<rparr>, aw_hash w (ad_draws db) password)"

text \<open>\<open>url.QueryEscape\<close>, byte by byte.\<close>

definition upper_hex_digits :: string where
  "upper_hex_digits = ''0123456789ABCDEF''"

definition unreserved :: "char \<Rightarrow> bool" where
  "unreserved c \<longleftrightarrow>
     c \<in> set (''abcdefghijklmnopqrstuvwxyz'' @ ''ABCDEFGHIJKLMNOPQRSTUVWXYZ'' @ ''0123456789-_.~'')"

definition QueryEscape :: "string \<Rightarrow> string" where
  "QueryEscape s = concat (map (\<lambda>c. if unreserved c then [c] else if c = CHR '' '' then ''+''
     else [CHR ''%'', upper_hex_digits ! (of_char c div 16), upper_hex_digits ! (of_char c mod 16)]) s)"

text \<open>A mail counts as sent when it was handed to the notifier.\<close>

definition send_mail :: "account_world \<Rightarrow> account_db \<Rightarrow> mail \<Rightarrow> account_db \<times> go_error option" where
  "send_mail w db m = (db\<lparr>ad_mails := ad_mails db @ [m]\<rparr>, aw_notify w m)"

end
