(* ===== verification/Account_Handlers.thy ===== *)
theory Account_Handlers
  imports Accounts
begin

text \<open>
  The session helpers of \<open>api/server/authn/session_helpers.go\<close> and the handlers of
  \<open>api/server/handlers/user\<close> over the tables of \<open>Accounts\<close>: creating, logging in and out, deleting,
  password resets, email verification, the CLI's login, and the logins through GitHub and Google. An
  \<open>account\<close> argument is the user that the authentication middleware put into the context.
\<close>

section \<open>Results\<close>

datatype account_result = UserResult user | TokenResult string | EmptyResult

type_synonym account_handled = "account_db \<times> account_result written list \<times> bool"

definition refuse :: "account_db \<Rightarrow> request_error \<Rightarrow> account_handled" where
  "refuse db e = (db, [WroteError e], False)"

definition answer :: "account_db \<Rightarrow> account_result written list \<Rightarrow> account_handled" where
  "answer db written = (db, written, False)"

definition crashed :: "account_db \<Rightarrow> account_handled" where
  "crashed db = (db, [], True)"

text \<open>\<open>if err != nil { HandleAPIError(NewErrInternal(err)); return }\<close> after a call that may write.\<close>

definition or_internal ::
  "account_db \<times> (go_error, 'b) go_result \<Rightarrow> (account_db \<Rightarrow> 'b \<Rightarrow> account_handled) \<Rightarrow> account_handled" where
  "or_internal r next =
     (case r of (db, Inl e) \<Rightarrow> refuse db (ErrInternal (go_error_text e)) | (db, Inr x) \<Rightarrow> next db x)"

definition done_or :: "account_db \<times> go_error option \<Rightarrow> account_db \<times> (go_error, unit) go_result" where
  "done_or r = (case r of (db, None) \<Rightarrow> (db, Inr ()) | (db, Some e) \<Rightarrow> (db, Inl e))"

definition on_decoded ::
  "account_db \<Rightarrow> (request_error, 'b) go_result \<Rightarrow> ('b \<Rightarrow> account_handled) \<Rightarrow> account_handled" where
  "on_decoded db decoded next = (case decoded of Inl e \<Rightarrow> refuse db e | Inr x \<Rightarrow> next x)"

text \<open>\<open>User.ToUserType\<close>: no password leaves the server.\<close>

definition ToUserType :: "account \<Rightarrow> user" where
  "ToUserType a = user.truncate a\<lparr>us_GithubAppIntegrationID := 0\<rparr>"

section \<open>Sessions (\<open>authn/session_helpers.go\<close>, \<open>handlers/handler.go\<close>)\<close>

definition StoreGet :: "account_world \<Rightarrow> account_db \<Rightarrow> string \<Rightarrow> (go_error, login_session) go_result" where
  "StoreGet w db browser = (case aw_store_get w of Some e \<Rightarrow> Inl e | None \<Rightarrow> Inr (ad_sessions db browser))"

definition StoreSave ::
  "account_world \<Rightarrow> account_db \<Rightarrow> string \<Rightarrow> login_session \<Rightarrow> account_db \<times> go_error option" where
  "StoreSave w db browser s =
     (case aw_store_save w of Some e \<Rightarrow> (db, Some e)
      | None \<Rightarrow> (db\<lparr>ad_sessions := (ad_sessions db)(browser := s)\<rparr>, None))"

definition redirect_of :: "login_session \<Rightarrow> string" where
  "redirect_of s = (case se_redirect_uri s of None \<Rightarrow> [] | Some uri \<Rightarrow> uri)"

definition SaveUserAuthenticated ::
  "account_world \<Rightarrow> account_db \<Rightarrow> string \<Rightarrow> account \<Rightarrow> account_db \<times> (go_error, string) go_result" where
  "SaveUserAuthenticated w db browser a =
     (case StoreGet w db browser of Inl e \<Rightarrow> (db, Inl e) | Inr s \<Rightarrow>
      (case StoreSave w db browser (s\<lparr>se_authenticated := Some True, se_user_id := Some (us_ID a),
              se_email := Some (us_Email a), se_redirect_uri := Some []\<rparr>) of
         (db, Some e) \<Rightarrow> (db, Inl e)
       | (db, None) \<Rightarrow> (db, Inr (redirect_of s))))"

definition SaveUserUnauthenticated :: "account_world \<Rightarrow> account_db \<Rightarrow> string \<Rightarrow> account_db \<times> go_error option" where
  "SaveUserUnauthenticated w db browser =
     (case StoreGet w db browser of Inl e \<Rightarrow> (db, Some e) | Inr s \<Rightarrow>
      StoreSave w db browser (s\<lparr>se_authenticated := Some False, se_user_id := None, se_email := None\<rparr>))"

text \<open>\<open>redirect\<close> is the query value \<open>redirect_uri\<close>; the project and the user come with the context.\<close>

record oauth_start =
  os_state :: string
  os_redirect :: string
  os_isProject :: bool
  os_isUser :: bool
  os_client :: string
  os_integrationID :: uint
  os_project :: "project option"

definition PopulateOAuthSession ::
  "account_world \<Rightarrow> account_db \<Rightarrow> string \<Rightarrow> account option \<Rightarrow> oauth_start \<Rightarrow> account_db \<times> go_error option" where
  "PopulateOAuthSession w db browser ctx_account q =
     (case StoreGet w db browser of Inl e \<Rightarrow> (db, Some e) | Inr s \<Rightarrow>
      let s = s\<lparr>se_state := Some (os_state q)\<rparr>;
          s = (if os_redirect q = [] then s else s\<lparr>se_redirect_uri := Some (os_redirect q)\<rparr>)
      in if os_isProject q \<and> os_project q = None then (db, Some (GoError ''could not read project'')) else
      let s = (if os_isProject q then s\<lparr>se_project_id := map_option pr_ID (os_project q)\<rparr> else s)
      in if os_isUser q \<and> ctx_account = None then (db, Some (GoError ''could not read user'')) else
      let s = (if os_isUser q then s\<lparr>se_user_id := map_option us_ID ctx_account\<rparr> else s);
          s = (if os_integrationID q \<noteq> 0 \<and> os_client q \<noteq> []
               then s\<lparr>se_integration := Some (os_integrationID q, os_client q)\<rparr> else s)
      in StoreSave w db browser s)"

section \<open>Shared by the handlers\<close>

definition checkUserRestrictions :: "account_world \<Rightarrow> string \<Rightarrow> string option" where
  "checkUserRestrictions w email =
     (if aw_AdminEmail w \<noteq> [] \<and> aw_AdminEmail w \<noteq> email then Some ''email not allowed'' else None)"

definition doesUserExist :: "account_world \<Rightarrow> account_db \<Rightarrow> string \<Rightarrow> bool" where
  "doesUserExist w db email = (case ReadUserByEmail w db email of Inl e \<Rightarrow> False | Inr a \<Rightarrow> True)"

definition addUserToDefaultProject :: "account_world \<Rightarrow> account_db \<Rightarrow> account \<Rightarrow> account_db \<times> go_error option" where
  "addUserToDefaultProject w db a =
     (case default_project_role (aw_members w) (aw_InitInCluster w) (ad_members db) (us_ID a) of
        (members, e) \<Rightarrow> (db\<lparr>ad_members := members\<rparr>, e))"

text \<open>So a new account changes the members' tables by one step of theirs.\<close>

lemma addUserToDefaultProject_step:
  "member_step (ad_members db) (DefaultProjectOp (aw_members w) (aw_InitInCluster w) (us_ID a))
     (ad_members (fst (addUserToDefaultProject w db a)))"
  by (auto simp: addUserToDefaultProject_def intro: step_default_project split: prod.split)

definition PWResetTokenIsExpired :: "int \<Rightarrow> pw_reset_token \<Rightarrow> bool option" where
  "PWResetTokenIsExpired now t = map_option (\<lambda>expiry. expiry - now < 0) (pt_Expiry t)"

definition show_bool :: "bool \<Rightarrow> string" where
  "show_bool b = (if b then ''true'' else ''false'')"

text \<open>\<open>VerifyToken\<close>: the error it handles, or the token; \<open>None\<close> is the panic on a missing expiry.\<close>

definition VerifyToken ::
  "account_world \<Rightarrow> account_db \<Rightarrow> uint \<times> string \<Rightarrow> string \<Rightarrow> (request_error, pw_reset_token) go_result option" where
  "VerifyToken w db request email =
     (case ReadPWResetToken w db (fst request) of
        Inl ErrRecordNotFound \<Rightarrow> Some (Inl (ErrForbidden ''verify token failed: token does not exist''))
      | Inl e \<Rightarrow> Some (Inl (ErrInternal (go_error_text e)))
      | Inr t \<Rightarrow>
          (case PWResetTokenIsExpired (aw_now w) t of None \<Rightarrow> None | Some expired \<Rightarrow>
           if \<not> pt_IsValid t \<or> expired
           then Some (Inl (ErrForbidden (''verify token failed: expired '' @ show_bool expired @
                  '', valid '' @ show_bool (pt_IsValid t))))
           else if pt_Email t \<noteq> email
           then Some (Inl (ErrForbidden ''verify token failed: token email does not match request email''))
           else case aw_compare w (pt_Token t) (snd request) of
                  Some e \<Rightarrow> Some (Inl (ErrForbidden (''verify token failed: '' @ go_error_text e)))
                | None \<Rightarrow> Some (Inr t)))"

text \<open>The token is valid for half an hour; the raw text goes into a mail, its hash into the table.\<close>

definition CreatePWResetTokenForEmail ::
  "account_world \<Rightarrow> account_db \<Rightarrow> string \<Rightarrow> account_db \<times> (go_error, pw_reset_token \<times> string) go_result" where
  "CreatePWResetTokenForEmail w db email =
     (case StringWithCharset w db 32 [] of
        (db, Inl e) \<Rightarrow> (db, Inl e)
      | (db, Inr rawToken) \<Rightarrow>
          (case GenerateFromPassword w db rawToken of
             (db, Inl e) \<Rightarrow> (db, Inl e)
           | (db, Inr hashedToken) \<Rightarrow>
               (case CreatePWResetToken w db \<lparr>pt_ID = 0, pt_Email = email, pt_IsValid = True,
                       pt_Expiry = Some (aw_now w + 30 * 60), pt_Token = hashedToken\<rparr> of
                  (db, Inl e) \<Rightarrow> (db, Inl e)
                | (db, Inr t) \<Rightarrow> (db, Inr (t, rawToken)))))"

section \<open>Email verification (\<open>handlers/user/email_verify.go\<close>)\<close>

definition verification_mail :: "account_world \<Rightarrow> string \<Rightarrow> pw_reset_token \<Rightarrow> string \<Rightarrow> mail" where
  "verification_mail w email t rawToken =
     \<lparr>ml_Kind = EmailVerification, ml_To = email, ml_URL = aw_ServerURL w @ ''/api/email/verify/finalize'',
      ml_Query = [(''token'', rawToken), (''token_id'', show_nat (unat (pt_ID t)))]\<rparr>"

definition startEmailVerification :: "account_world \<Rightarrow> account_db \<Rightarrow> account \<Rightarrow> account_db \<times> go_error option" where
  "startEmailVerification w db a =
     (case CreatePWResetTokenForEmail w db (us_Email a) of
        (db, Inl e) \<Rightarrow> (db, Some e)
      | (db, Inr (t, rawToken)) \<Rightarrow> send_mail w db (verification_mail w (us_Email a) t rawToken))"

definition VerifyEmailInitiateHandler :: "account_world \<Rightarrow> account_db \<Rightarrow> account \<Rightarrow> account_handled" where
  "VerifyEmailInitiateHandler w db a =
     or_internal (done_or (startEmailVerification w db a)) (\<lambda>db _. answer db [])"

definition verify_email_failed :: "account_db \<Rightarrow> string \<Rightarrow> account_handled" where
  "verify_email_failed db e = answer db [WroteRedirect (dashboard_error (QueryEscape e))]"

definition VerifyEmailFinalizeHandler ::
  "account_world \<Rightarrow> account_db \<Rightarrow> account \<Rightarrow> (string, uint \<times> string) go_result \<Rightarrow> account_handled" where
  "VerifyEmailFinalizeHandler w db a decoded =
     (case decoded of Inl e \<Rightarrow> verify_email_failed db e | Inr request \<Rightarrow>
      case VerifyToken w db request (us_Email a) of
        None \<Rightarrow> crashed db
      | Some (Inl e) \<Rightarrow> verify_email_failed db ''Email verification error: valid token required''
      | Some (Inr t) \<Rightarrow>
          (case UpdateUser w db (a\<lparr>us_EmailVerified := True\<rparr>) of
             (db, Inl e) \<Rightarrow> verify_email_failed db ''Could not verify email address''
           | (db, Inr a) \<Rightarrow>
               (case UpdatePWResetToken w db (t\<lparr>pt_IsValid := False\<rparr>) of
                  (db, Some e) \<Rightarrow> verify_email_failed db ''Could not verify email address''
                | (db, None) \<Rightarrow> answer db [WroteRedirect ''/dashboard''])))"

section \<open>Creating, logging in and out, deleting\<close>

text \<open>The end of every login: a redirect from the session takes the place of \<open>otherwise\<close>.\<close>

definition logged_in ::
  "account_world \<Rightarrow> account_db \<Rightarrow> string \<Rightarrow> account \<Rightarrow> account_result written \<Rightarrow> account_handled" where
  "logged_in w db browser a otherwise =
     or_internal (SaveUserAuthenticated w db browser a) (\<lambda>db redirect.
     answer db [if redirect \<noteq> [] then WroteRedirect redirect else otherwise])"

text \<open>A new user is asked to verify the email; an error of that is only logged.\<close>

definition logged_in_unverified ::
  "account_world \<Rightarrow> account_db \<Rightarrow> string \<Rightarrow> account \<Rightarrow> account_result written \<Rightarrow> account_handled" where
  "logged_in_unverified w db browser a otherwise =
     or_internal (SaveUserAuthenticated w db browser a) (\<lambda>db redirect.
     answer (if us_EmailVerified a then db else fst (startEmailVerification w db a))
       [if redirect \<noteq> [] then WroteRedirect redirect else otherwise])"

definition new_account :: "string \<Rightarrow> string \<Rightarrow> account" where
  "new_account email password =
     \<lparr>us_ID = 0, us_Email = email, us_EmailVerified = False, us_GithubAppIntegrationID = 0,
      ac_Password = password, ac_GithubUserID = 0, ac_GoogleUserID = [], ac_Deleted = False\<rparr>"

definition UserCreateHandler ::
  "account_world \<Rightarrow> account_db \<Rightarrow> string \<Rightarrow> (request_error, string \<times> string) go_result \<Rightarrow> account_handled" where
  "UserCreateHandler w db browser decoded =
     on_decoded db decoded (\<lambda>(email, password).
     if doesUserExist w db email then refuse db (ErrPassThroughToClient ''email already taken'' 400 [])
     else case checkUserRestrictions w email of Some e \<Rightarrow> refuse db (ErrPassThroughToClient e 400 []) | None \<Rightarrow>
     or_internal (GenerateFromPassword w db password) (\<lambda>db hashedPw.
     or_internal (CreateUser w db (new_account email hashedPw)) (\<lambda>db a.
     or_internal (done_or (addUserToDefaultProject w db a)) (\<lambda>db _.
     logged_in_unverified w db browser a (WroteResult (UserResult (ToUserType a)))))))"

definition UserLoginHandler ::
  "account_world \<Rightarrow> account_db \<Rightarrow> string \<Rightarrow> (request_error, string \<times> string) go_result \<Rightarrow> account_handled" where
  "UserLoginHandler w db browser decoded =
     on_decoded db decoded (\<lambda>(email, password).
     case checkUserRestrictions w email of Some e \<Rightarrow> refuse db (ErrPassThroughToClient e 400 []) | None \<Rightarrow>
     case ReadUserByEmail w db email of
       Inl ErrRecordNotFound \<Rightarrow> refuse db (ErrForbidden (go_error_text ErrRecordNotFound))
     | Inl e \<Rightarrow> refuse db (ErrInternal (go_error_text e))
     | Inr a \<Rightarrow>
         (case aw_compare w (ac_Password a) password of
            Some e \<Rightarrow> refuse db (ErrPassThroughToClient ''incorrect password'' 401 [])
          | None \<Rightarrow> logged_in w db browser a (WroteResult (UserResult (ToUserType a)))))"

definition UserLogoutHandler :: "account_world \<Rightarrow> account_db \<Rightarrow> string \<Rightarrow> account_handled" where
  "UserLogoutHandler w db browser =
     or_internal (done_or (SaveUserUnauthenticated w db browser)) (\<lambda>db _. answer db [])"

definition UserDeleteHandler :: "account_world \<Rightarrow> account_db \<Rightarrow> string \<Rightarrow> account \<Rightarrow> account_handled" where
  "UserDeleteHandler w db browser a =
     or_internal (DeleteUser w db a) (\<lambda>db a.
     or_internal (done_or (SaveUserUnauthenticated w db browser)) (\<lambda>db _.
     answer db [WroteResult (UserResult (ToUserType a))]))"

definition UserGetCurrentHandler :: "account_db \<Rightarrow> account \<Rightarrow> account_handled" where
  "UserGetCurrentHandler db a = answer db [WroteResult (UserResult (ToUserType a))]"

definition CanCreateProjectHandler :: "account_world \<Rightarrow> account_db \<Rightarrow> account \<Rightarrow> account_handled" where
  "CanCreateProjectHandler w db a =
     (if aw_DisableAllowlist w then answer db [WroteResult EmptyResult]
      else case aw_allowlist w (us_Email a) of
             Inl e \<Rightarrow> refuse db (ErrInternal (''couldn'' @ [CHR 0x27] @ ''t retrieve user: '' @ go_error_text e))
           | Inr False \<Rightarrow> refuse db (ErrPassThroughToClient ''user is not authorized'' 403 [])
           | Inr True \<Rightarrow> answer db [WroteResult EmptyResult])"

section \<open>Password resets (\<open>handlers/user/pw_reset.go\<close>)\<close>

definition relink_mail :: "account_world \<Rightarrow> string \<Rightarrow> mail" where
  "relink_mail w email =
     \<lparr>ml_Kind = GithubRelink, ml_To = email, ml_URL = aw_ServerURL w @ ''/api/oauth/login/github'', ml_Query = []\<rparr>"

definition reset_mail :: "account_world \<Rightarrow> string \<Rightarrow> string \<Rightarrow> pw_reset_token \<Rightarrow> string \<Rightarrow> mail" where
  "reset_mail w recipient email t rawToken =
     \<lparr>ml_Kind = PasswordReset, ml_To = recipient, ml_URL = aw_ServerURL w @ ''/password/reset/finalize'',
      ml_Query = [(''email'', email), (''token'', rawToken), (''token_id'', show_nat (unat (pt_ID t)))]\<rparr>"

text \<open>An unknown email is answered like a known one.\<close>

definition UserPasswordInitiateResetHandler ::
  "account_world \<Rightarrow> account_db \<Rightarrow> (request_error, string) go_result \<Rightarrow> account_handled" where
  "UserPasswordInitiateResetHandler w db decoded =
     on_decoded db decoded (\<lambda>email.
     case ReadUserByEmail w db email of
       Inl ErrRecordNotFound \<Rightarrow> answer db [WroteStatus 200]
     | Inl e \<Rightarrow> refuse db (ErrInternal (go_error_text e))
     | Inr a \<Rightarrow>
         (case checkUserRestrictions w (us_Email a) of Some e \<Rightarrow> refuse db (ErrForbidden e) | None \<Rightarrow>
          if ac_GithubUserID a \<noteq> 0
          then or_internal (done_or (send_mail w db (relink_mail w (us_Email a)))) (\<lambda>db _. answer db [WroteStatus 200])
          else or_internal (CreatePWResetTokenForEmail w db email) (\<lambda>db (t, rawToken).
               or_internal (done_or (send_mail w db (reset_mail w (us_Email a) email t rawToken))) (\<lambda>db _.
               answer db [WroteStatus 200]))))"

text \<open>The error of \<open>VerifyToken\<close> is written; the token goes on.\<close>

definition on_verified ::
  "account_world \<Rightarrow> account_db \<Rightarrow> uint \<times> string \<Rightarrow> string \<Rightarrow> (pw_reset_token \<Rightarrow> account_handled) \<Rightarrow> account_handled" where
  "on_verified w db request email next =
     (case VerifyToken w db request email of
        None \<Rightarrow> crashed db | Some (Inl e) \<Rightarrow> refuse db e | Some (Inr t) \<Rightarrow> next t)"

record reset_request =
  rr_token :: "uint \<times> string"
  rr_Email :: string
  rr_NewPassword :: string

definition UserPasswordVerifyResetHandler ::
  "account_world \<Rightarrow> account_db \<Rightarrow> (request_error, (uint \<times> string) \<times> string) go_result \<Rightarrow> account_handled" where
  "UserPasswordVerifyResetHandler w db decoded =
     on_decoded db decoded (\<lambda>(request, email). on_verified w db request email (\<lambda>_. answer db []))"

definition UserPasswordFinalizeResetHandler ::
  "account_world \<Rightarrow> account_db \<Rightarrow> (request_error, reset_request) go_result \<Rightarrow> account_handled" where
  "UserPasswordFinalizeResetHandler w db decoded =
     on_decoded db decoded (\<lambda>request.
     on_verified w db (rr_token request) (rr_Email request) (\<lambda>t.
     case ReadUserByEmail w db (rr_Email request) of
       Inl ErrRecordNotFound \<Rightarrow> refuse db (ErrForbidden ''finalize password reset failed: email does not exist'')
     | Inl e \<Rightarrow> refuse db (ErrInternal (go_error_text e))
     | Inr a \<Rightarrow>
         or_internal (GenerateFromPassword w db (rr_NewPassword request)) (\<lambda>db hashedPW.
         or_internal (UpdateUser w db (a\<lparr>ac_Password := hashedPW\<rparr>)) (\<lambda>db _.
         or_internal (done_or (UpdatePWResetToken w db (t\<lparr>pt_IsValid := False\<rparr>))) (\<lambda>db _.
         answer db [WroteStatus 200])))))"

section \<open>The CLI's login (\<open>handlers/user/cli_login.go\<close>)\<close>

definition AuthCodeIsExpired :: "int \<Rightarrow> auth_code \<Rightarrow> bool option" where
  "AuthCodeIsExpired now c = map_option (\<lambda>expiry. expiry - now < 0) (au_Expiry c)"

definition CLILoginHandler ::
  "account_world \<Rightarrow> account_db \<Rightarrow> account \<Rightarrow> (request_error, string) go_result \<Rightarrow> account_handled" where
  "CLILoginHandler w db a decoded =
     on_decoded db decoded (\<lambda>redirect.
     case checkUserRestrictions w (us_Email a) of Some e \<Rightarrow> refuse db (ErrPassThroughToClient e 400 []) | None \<Rightarrow>
     case GetTokenForUser (aw_now w) (us_ID a) of
       Inl e \<Rightarrow> refuse db (ErrInternal (''CLI token creation failed: '' @ e))
     | Inr jwt \<Rightarrow>
         (case EncodeToken (aw_sign w) (aw_token_secret w) jwt of
            Inl e \<Rightarrow> refuse db (ErrInternal (''CLI token encoding failed: '' @ e))
          | Inr encoded \<Rightarrow>
              (case GenerateRandomBytes w db 32 of
                 (db, Inl e) \<Rightarrow> refuse db (ErrInternal (''CLI random code generation failed: '' @ go_error_text e))
               | (db, Inr code) \<Rightarrow>
                   or_internal (CreateAuthCode w db \<lparr>au_Token = encoded, au_AuthorizationCode = code,
                                  au_Expiry = Some (aw_now w + 30)\<rparr>) (\<lambda>db authCode.
                   answer db [WroteRedirect (redirect @ ''/?code='' @ QueryEscape (au_AuthorizationCode authCode))]))))"

definition CLILoginExchangeHandler ::
  "account_world \<Rightarrow> account_db \<Rightarrow> (request_error, string) go_result \<Rightarrow> account_handled" where
  "CLILoginExchangeHandler w db decoded =
     on_decoded db decoded (\<lambda>code.
     case ReadAuthCode w db code of Inl e \<Rightarrow> answer db [WroteStatus 403] | Inr authCode \<Rightarrow>
     (case AuthCodeIsExpired (aw_now w) authCode of
        None \<Rightarrow> crashed db
      | Some expired \<Rightarrow>
          answer db [if expired then WroteStatus 403 else WroteResult (TokenResult (au_Token authCode))]))"

section \<open>Logins through GitHub and Google (\<open>handlers/user/{github,google}_{start,callback}.go\<close>)\<close>

text \<open>The start of a login keeps the random state in the session and goes to the provider.\<close>

definition oauth_login_start :: "string \<Rightarrow> string \<Rightarrow> oauth_start" where
  "oauth_login_start state redirect =
     \<lparr>os_state = state, os_redirect = redirect, os_isProject = False, os_isUser = False, os_client = [],
      os_integrationID = 0, os_project = None\<rparr>"

definition UserOAuthStartHandler ::
  "account_world \<Rightarrow> account_db \<Rightarrow> string \<Rightarrow> string \<Rightarrow> string \<Rightarrow> (string \<Rightarrow> string) \<Rightarrow> account_handled" where
  "UserOAuthStartHandler w db browser state redirect authCodeURL =
     or_internal (done_or (PopulateOAuthSession w db browser None (oauth_login_start state redirect))) (\<lambda>db _.
     answer db [WroteRedirect (authCodeURL state)])"

text \<open>
  The two callbacks begin alike. Without a state in the session, or with another one, the handler
  wraps the nil error of the session's read, and writing it panics.
\<close>

definition on_oauth_token ::
  "account_world \<Rightarrow> account_db \<Rightarrow> string \<Rightarrow> string \<Rightarrow> string \<Rightarrow> (string \<Rightarrow> account_handled) \<Rightarrow> account_handled" where
  "on_oauth_token w db browser state code next =
     (case StoreGet w db browser of Inl e \<Rightarrow> refuse db (ErrInternal (go_error_text e)) | Inr s \<Rightarrow>
      if se_state s \<noteq> Some state then crashed db
      else case aw_exchange w code of
             Inl e \<Rightarrow> refuse db (ErrForbidden (go_error_text e))
           | Inr tok \<Rightarrow>
               if \<not> aw_token_valid w tok then refuse db (ErrForbidden ''invalid token'') else next tok)"

text \<open>Creating the user of a provider's claims when no user has the email.\<close>

definition create_oauth_user :: "account_world \<Rightarrow> account_db \<Rightarrow> account \<Rightarrow> account_db \<times> (go_error, account) go_result" where
  "create_oauth_user w db a =
     (case ReadUserByEmail w db (us_Email a) of
        Inr _ \<Rightarrow> (db, Inl (GoError ''email already registered''))
      | Inl (GoError e) \<Rightarrow> (db, Inl (GoError e))
      | Inl ErrRecordNotFound \<Rightarrow>
          (case CreateUser w db a of
             (db, Inl e) \<Rightarrow> (db, Inl e)
           | (db, Inr a) \<Rightarrow>
               (case addUserToDefaultProject w db a of
                  (db, Some e) \<Rightarrow> (db, Inl e)
                | (db, None) \<Rightarrow> (db, Inr a))))"

fun primary_email :: "github_email list \<Rightarrow> string \<times> bool" where
  "primary_email [] = ([], False)"
| "primary_email (e # es) = (if ge_Primary e then (ge_Email e, ge_Verified e) else primary_email es)"

definition oauth_account :: "account_world \<Rightarrow> string \<Rightarrow> bool \<Rightarrow> int \<Rightarrow> string \<Rightarrow> account" where
  "oauth_account w email verified github google =
     (new_account email [])\<lparr>us_EmailVerified := \<not> aw_Metadata_Email w \<or> verified,
        ac_GithubUserID := github, ac_GoogleUserID := google\<rparr>"

definition unexpected :: "go_error \<Rightarrow> go_error" where
  "unexpected e = GoError (''unexpected error occurred:'' @ go_error_text e)"

text \<open>\<open>None\<close>: GitHub's answer had no user id, and dereferencing it panics.\<close>

definition upsertUserFromToken ::
  "account_world \<Rightarrow> account_db \<Rightarrow> string \<Rightarrow> (account_db \<times> (go_error, account) go_result) option" where
  "upsertUserFromToken w db tok =
     (case aw_github_user w tok of Inl e \<Rightarrow> Some (db, Inl e) | Inr None \<Rightarrow> None | Inr (Some githubUser) \<Rightarrow>
      Some (case ReadUserByGithubUserID w db githubUser of
        Inr a \<Rightarrow> (db, Inr a)
      | Inl (GoError e) \<Rightarrow> (db, Inl (unexpected (GoError e)))
      | Inl ErrRecordNotFound \<Rightarrow>
          (case aw_github_emails w tok of Inl e \<Rightarrow> (db, Inl e) | Inr emails \<Rightarrow>
           case primary_email emails of (primary, verified) \<Rightarrow>
           if primary = [] then (db, Inl (GoError ''github user must have an email''))
           else case checkUserRestrictions w primary of Some e \<Rightarrow> (db, Inl (GoError e)) | None \<Rightarrow>
           create_oauth_user w db (oauth_account w primary verified githubUser []))))"

text \<open>
  The error of unmarshalling the claims is dropped. The pointer it gives may be nil, which the
  caller dereferences: \<open>None\<close> is that panic.
\<close>

definition getGoogleUserInfoFromToken :: "account_world \<Rightarrow> string \<Rightarrow> (go_error, google_info option) go_result" where
  "getGoogleUserInfoFromToken w tok =
     (case aw_google_do w tok of
        Inl e \<Rightarrow> Inl (GoError (''failed getting user info: '' @ go_error_text e))
      | Inr (Inl e) \<Rightarrow> Inl (GoError (''failed reading response body: '' @ go_error_text e))
      | Inr (Inr contents) \<Rightarrow> Inr (aw_google_json w contents))"

definition upsertGoogleUserFromToken ::
  "account_world \<Rightarrow> account_db \<Rightarrow> string \<Rightarrow> (account_db \<times> (go_error, account) go_result) option" where
  "upsertGoogleUserFromToken w db tok =
     (case getGoogleUserInfoFromToken w tok of Inl e \<Rightarrow> Some (db, Inl e) | Inr None \<Rightarrow> None | Inr (Some gInfo) \<Rightarrow>
      Some (case checkUserRestrictions w (gi_Email gInfo) of Some e \<Rightarrow> (db, Inl (GoError e)) | None \<Rightarrow>
      if aw_GoogleRestrictedDomain w \<noteq> [] \<and> gi_HD gInfo \<noteq> aw_GoogleRestrictedDomain w
      then (db, Inl (GoError ''Email is not in the restricted domain group.''))
      else case ReadUserByGoogleUserID w db (gi_Sub gInfo) of
        Inr a \<Rightarrow> (db, Inr a)
      | Inl (GoError e) \<Rightarrow> (db, Inl (unexpected (GoError e)))
      | Inl ErrRecordNotFound \<Rightarrow>
          create_oauth_user w db (oauth_account w (gi_Email gInfo) (gi_EmailVerified gInfo) 0 (gi_Sub gInfo))))"

text \<open>The end of both: errors that name one of \<open>shown\<close> go to the login page.\<close>

definition oauth_logged_in ::
  "account_world \<Rightarrow> string \<Rightarrow> string list \<Rightarrow> account_db \<times> (go_error, account) go_result \<Rightarrow> account_handled" where
  "oauth_logged_in w browser shown r =
     (case r of
        (db, Inl e) \<Rightarrow>
          answer db [if \<exists>text \<in> set shown. sublist text (go_error_text e)
                     then WroteRedirect (''/login?error='' @ QueryEscape (go_error_text e)) else WroteStatus 403]
      | (db, Inr a) \<Rightarrow> logged_in_unverified w db browser a (WroteRedirect ''/dashboard''))"

definition UserOAuthGithubCallbackHandler ::
  "account_world \<Rightarrow> account_db \<Rightarrow> string \<Rightarrow> string \<Rightarrow> string \<Rightarrow> account_handled" where
  "UserOAuthGithubCallbackHandler w db browser state code =
     on_oauth_token w db browser state code (\<lambda>tok.
     case upsertUserFromToken w db tok of
       None \<Rightarrow> crashed db
     | Some r \<Rightarrow> oauth_logged_in w browser [''already registered''] r)"

definition UserOAuthGoogleCallbackHandler ::
  "account_world \<Rightarrow> account_db \<Rightarrow> string \<Rightarrow> string \<Rightarrow> string \<Rightarrow> account_handled" where
  "UserOAuthGoogleCallbackHandler w db browser state code =
     on_oauth_token w db browser state code (\<lambda>tok.
     case upsertGoogleUserFromToken w db tok of
       None \<Rightarrow> crashed db
     | Some r \<Rightarrow> oauth_logged_in w browser [''already registered'', ''restricted domain group''] r)"

end
