(* ===== verification/Account_History.thy ===== *)
theory Account_History
  imports Account_Handlers
begin

text \<open>
  All the ways the tables of accounts change: an operation is one handler run on one request, and
  every operation is a sequence of the changes of \<open>account_change\<close>, each of which says what the
  request and the tables had to hold for it. Reachable tables, and the invariants of their rows.
\<close>

section \<open>Operations\<close>

datatype account_op =
    CreateUserOp string "(request_error, string \<times> string) go_result"
  | LoginOp string "(request_error, string \<times> string) go_result"
  | LogoutOp string
  | DeleteUserOp string account
  | VerifyEmailInitiateOp account
  | VerifyEmailFinalizeOp account "(string, uint \<times> string) go_result"
  | InitiateResetOp "(request_error, string) go_result"
  | VerifyResetOp "(request_error, (uint \<times> string) \<times> string) go_result"
  | FinalizeResetOp "(request_error, reset_request) go_result"
  | CLILoginOp account "(request_error, string) go_result"
  | CLIExchangeOp "(request_error, string) go_result"
  | OAuthStartOp string "account option" oauth_start
  | GithubCallbackOp string string string
  | GoogleCallbackOp string string string

text \<open>\<open>OAuthStartOp\<close> stands for every handler that starts a flow: it writes nothing else to these tables.\<close>

fun run_account :: "account_world \<Rightarrow> account_op \<Rightarrow> account_db \<Rightarrow> account_handled" where
  "run_account w (CreateUserOp b d) db = UserCreateHandler w db b d"
| "run_account w (LoginOp b d) db = UserLoginHandler w db b d"
| "run_account w (LogoutOp b) db = UserLogoutHandler w db b"
| "run_account w (DeleteUserOp b a) db = UserDeleteHandler w db b a"
| "run_account w (VerifyEmailInitiateOp a) db = VerifyEmailInitiateHandler w db a"
| "run_account w (VerifyEmailFinalizeOp a d) db = VerifyEmailFinalizeHandler w db a d"
| "run_account w (InitiateResetOp d) db = UserPasswordInitiateResetHandler w db d"
| "run_account w (VerifyResetOp d) db = UserPasswordVerifyResetHandler w db d"
| "run_account w (FinalizeResetOp d) db = UserPasswordFinalizeResetHandler w db d"
| "run_account w (CLILoginOp a d) db = CLILoginHandler w db a d"
| "run_account w (CLIExchangeOp d) db = CLILoginExchangeHandler w db d"
| "run_account w (OAuthStartOp b a q) db = or_internal (done_or (PopulateOAuthSession w db b a q)) (\<lambda>db _. answer db [])"
| "run_account w (GithubCallbackOp b state code) db = UserOAuthGithubCallbackHandler w db b state code"
| "run_account w (GoogleCallbackOp b state code) db = UserOAuthGoogleCallbackHandler w db b state code"

fun op_account :: "account_op \<Rightarrow> account option" where
  "op_account (DeleteUserOp b a) = Some a"
| "op_account (VerifyEmailInitiateOp a) = Some a"
| "op_account (VerifyEmailFinalizeOp a d) = Some a"
| "op_account (CLILoginOp a d) = Some a"
| "op_account (OAuthStartOp b a q) = a"
| "op_account op = None"

text \<open>
  The user of a context is a row that is not deleted, or stands for the service account of an API
  token, which has no id.
\<close>

definition service_row :: "account \<Rightarrow> bool" where
  "service_row a \<longleftrightarrow> us_ID a = 0 \<and> us_EmailVerified a \<and> ac_Password a = [] \<and> \<not> ac_Deleted a"

definition in_context :: "account_db \<Rightarrow> account \<Rightarrow> bool" where
  "in_context db a \<longleftrightarrow> a \<in> set (live_users db) \<or> service_row a"

definition account_step :: "account_db \<Rightarrow> account_world \<Rightarrow> account_op \<Rightarrow> account_db \<Rightarrow> bool" where
  "account_step db w op db' \<longleftrightarrow>
     (\<forall>a. op_account op = Some a \<longrightarrow> in_context db a) \<and> fst (run_account w op db) = db'"

section \<open>Single changes\<close>

text \<open>The token that a request presents: stored, valid, not expired, of the email, and matching.\<close>

definition token_accepted :: "account_world \<Rightarrow> account_db \<Rightarrow> uint \<times> string \<Rightarrow> string \<Rightarrow> pw_reset_token \<Rightarrow> bool" where
  "token_accepted w db request email t \<longleftrightarrow>
     t \<in> set (ad_tokens db) \<and> pt_ID t = fst request \<and> pt_IsValid t \<and> pt_Email t = email \<and>
     (\<exists>expiry. pt_Expiry t = Some expiry \<and> aw_now w \<le> expiry) \<and> aw_compare w (pt_Token t) (snd request) = None"

text \<open>The rows that an operation may insert, with what its request or the provider said.\<close>

definition claims_google :: "account_world \<Rightarrow> string \<Rightarrow> google_info \<Rightarrow> bool" where
  "claims_google w code gInfo \<longleftrightarrow>
     (\<exists>tok contents. aw_exchange w code = Inr tok \<and> aw_token_valid w tok \<and>
        aw_google_do w tok = Inr (Inr contents) \<and> aw_google_json w contents = Some gInfo)"

definition claims_github :: "account_world \<Rightarrow> string \<Rightarrow> int \<Rightarrow> bool" where
  "claims_github w code i \<longleftrightarrow>
     (\<exists>tok. aw_exchange w code = Inr tok \<and> aw_token_valid w tok \<and> aw_github_user w tok = Inr (Some i))"

definition claims_github_email :: "account_world \<Rightarrow> string \<Rightarrow> string \<Rightarrow> bool \<Rightarrow> bool" where
  "claims_github_email w code email verified \<longleftrightarrow>
     (\<exists>tok emails. aw_exchange w code = Inr tok \<and> aw_github_emails w tok = Inr emails \<and>
        primary_email emails = (email, verified))"

inductive user_made :: "account_world \<Rightarrow> account_db \<Rightarrow> account_op \<Rightarrow> account \<Rightarrow> bool" for w db where
  made_password: "aw_hash w n password = Inr hashed \<Longrightarrow> us_EmailVerified a = False \<Longrightarrow> us_Email a = email \<Longrightarrow>
    ac_Password a = hashed \<Longrightarrow> checkUserRestrictions w email = None \<Longrightarrow>
    user_made w db (CreateUserOp b (Inr (email, password))) a"
| made_github: "claims_github w code (ac_GithubUserID a) \<Longrightarrow>
    claims_github_email w code (us_Email a) verified \<Longrightarrow> ac_Password a = [] \<Longrightarrow>
    us_EmailVerified a = (\<not> aw_Metadata_Email w \<or> verified) \<Longrightarrow> checkUserRestrictions w (us_Email a) = None \<Longrightarrow>
    user_made w db (GithubCallbackOp b state code) a"
| made_google: "claims_google w code gInfo \<Longrightarrow> us_Email a = gi_Email gInfo \<Longrightarrow> ac_GoogleUserID a = gi_Sub gInfo \<Longrightarrow>
    ac_Password a = [] \<Longrightarrow> us_EmailVerified a = (\<not> aw_Metadata_Email w \<or> gi_EmailVerified gInfo) \<Longrightarrow>
    checkUserRestrictions w (us_Email a) = None \<Longrightarrow>
    user_made w db (GoogleCallbackOp b state code) a"
| made_service: "service_row s \<Longrightarrow> token_accepted w db request (us_Email s) t \<Longrightarrow>
    us_EmailVerified a \<Longrightarrow> us_Email a = us_Email s \<Longrightarrow> ac_Password a = [] \<Longrightarrow>
    user_made w db (VerifyEmailFinalizeOp s (Inr request)) a"

text \<open>The rows that an operation may save over an old one.\<close>

inductive user_saved :: "account_world \<Rightarrow> account_db \<Rightarrow> account_op \<Rightarrow> account \<Rightarrow> account \<Rightarrow> bool" for w db where
  saved_password: "token_accepted w db (rr_token request) (rr_Email request) t \<Longrightarrow> us_Email a = rr_Email request \<Longrightarrow>
    aw_hash w n (rr_NewPassword request) = Inr hashed \<Longrightarrow>
    user_saved w db (FinalizeResetOp (Inr request)) a (a\<lparr>ac_Password := hashed\<rparr>)"
| saved_verified: "token_accepted w db request (us_Email a) t \<Longrightarrow>
    user_saved w db (VerifyEmailFinalizeOp a (Inr request)) a (a\<lparr>us_EmailVerified := True\<rparr>)"

text \<open>Who may be logged in by an operation.\<close>

inductive login_ok :: "account_world \<Rightarrow> account_op \<Rightarrow> string \<Rightarrow> account \<Rightarrow> bool" for w where
  ok_created: "us_Email a = email \<Longrightarrow> aw_hash w n password = Inr (ac_Password a) \<Longrightarrow>
    checkUserRestrictions w email = None \<Longrightarrow> login_ok w (CreateUserOp b (Inr (email, password))) b a"
| ok_password: "us_Email a = email \<Longrightarrow> aw_compare w (ac_Password a) password = None \<Longrightarrow>
    checkUserRestrictions w email = None \<Longrightarrow> login_ok w (LoginOp b (Inr (email, password))) b a"
| ok_github: "claims_github w code (ac_GithubUserID a) \<Longrightarrow> login_ok w (GithubCallbackOp b state code) b a"
| ok_google: "claims_google w code gInfo \<Longrightarrow> ac_GoogleUserID a = gi_Sub gInfo \<Longrightarrow>
    checkUserRestrictions w (gi_Email gInfo) = None \<Longrightarrow> login_ok w (GoogleCallbackOp b state code) b a"

inductive session_change :: "account_world \<Rightarrow> account_op \<Rightarrow> account_db \<Rightarrow> string \<Rightarrow> login_session \<Rightarrow> login_session \<Rightarrow> bool"
  for w op db b where
  session_login: "a \<in> set (live_users db) \<Longrightarrow> login_ok w op b a \<Longrightarrow>
    session_change w op db b s (s\<lparr>se_authenticated := Some True, se_user_id := Some (us_ID a),
      se_email := Some (us_Email a), se_redirect_uri := Some []\<rparr>)"
| session_logout: "session_change w op db b s (s\<lparr>se_authenticated := Some False, se_user_id := None, se_email := None\<rparr>)"
| session_start: "op = OAuthStartOp b ctx q \<Longrightarrow> se_authenticated s' = se_authenticated s \<Longrightarrow>
    se_user_id s' = se_user_id s \<or> (\<exists>a. ctx = Some a \<and> se_user_id s' = Some (us_ID a)) \<Longrightarrow>
    session_change w op db b s s'"

definition holds_token :: "mail \<Rightarrow> pw_reset_token \<Rightarrow> string \<Rightarrow> bool" where
  "holds_token m t raw \<longleftrightarrow>
     ml_To m = pt_Email t \<and> (''token'', raw) \<in> set (ml_Query m) \<and>
     (''token_id'', show_nat (unat (pt_ID t))) \<in> set (ml_Query m)"

text \<open>The two operations that take a token never issue one.\<close>

fun issues_token :: "account_op \<Rightarrow> bool" where
  "issues_token (FinalizeResetOp d) = False"
| "issues_token (VerifyEmailFinalizeOp a d) = False"
| "issues_token op = True"

inductive account_change :: "account_world \<Rightarrow> account_op \<Rightarrow> account_db \<Rightarrow> account_db \<Rightarrow> bool" for w op where
  ch_draw: "account_change w op db (db\<lparr>ad_draws := n\<rparr>)"
| ch_members: "account_change w op db (db\<lparr>ad_members := members\<rparr>)"
| ch_relink: "ml_Kind m = GithubRelink \<Longrightarrow> account_change w op db (db\<lparr>ad_mails := ad_mails db @ [m]\<rparr>)"
| ch_issue: "issues_token op \<Longrightarrow> next_id (ad_token_seq db) = Some (pt_ID t) \<Longrightarrow> pt_IsValid t \<Longrightarrow> pt_Expiry t = Some (aw_now w + 30 * 60) \<Longrightarrow>
    aw_hash w n raw = Inr (pt_Token t) \<Longrightarrow> holds_token m t raw \<Longrightarrow>
    account_change w op db (db\<lparr>ad_tokens := ad_tokens db @ [t], ad_token_seq := ad_token_seq db + 1,
      ad_mails := ad_mails db @ [m]\<rparr>)"
| ch_insert: "next_id (ad_user_seq db) = Some (us_ID a) \<Longrightarrow> us_Email a \<notin> us_Email ` set (ad_users db) \<Longrightarrow>
    \<not> ac_Deleted a \<Longrightarrow> user_made w db op a \<Longrightarrow> account_change w op db (insert_account db a)"
| ch_save: "a \<in> set (live_users db) \<Longrightarrow> user_saved w db op a a' \<Longrightarrow>
    account_change w op db (db\<lparr>ad_users := save_account (ad_users db) a'\<rparr>)"
| ch_delete: "op = DeleteUserOp b a \<Longrightarrow>
    account_change w op db (db\<lparr>ad_users :=
      map (\<lambda>x. if us_ID x = us_ID a then x\<lparr>ac_Deleted := True\<rparr> else x) (ad_users db)\<rparr>)"
| ch_spend: "t \<in> set (ad_tokens db) \<Longrightarrow>
    account_change w op db (db\<lparr>ad_tokens :=
      map (\<lambda>x. if pt_ID x = pt_ID t then t\<lparr>pt_IsValid := False\<rparr> else x) (ad_tokens db)\<rparr>)"
| ch_code: "op = CLILoginOp a d \<Longrightarrow> GetTokenForUser (aw_now w) (us_ID a) = Inr jwt \<Longrightarrow>
    EncodeToken (aw_sign w) (aw_token_secret w) jwt = Inr (au_Token c) \<Longrightarrow> au_Expiry c = Some (aw_now w + 30) \<Longrightarrow>
    account_change w op db (db\<lparr>ad_codes := ad_codes db @ [c]\<rparr>)"
| ch_session: "session_change w op db b (ad_sessions db b) s \<Longrightarrow>
    account_change w op db (db\<lparr>ad_sessions := (ad_sessions db)(b := s)\<rparr>)"

section \<open>Every operation is a sequence of changes\<close>

abbreviation reaches :: "account_world \<Rightarrow> account_op \<Rightarrow> account_db \<Rightarrow> account_db \<Rightarrow> bool" where
  "reaches w op \<equiv> rtranclp (account_change w op)"

lemma fst_ended [simp]:
  "fst (refuse db e) = db" "fst (answer db ws) = db" "fst (crashed db) = db" "fst (verify_email_failed db text) = db"
  by (simp_all add: refuse_def answer_def crashed_def verify_email_failed_def)

lemma fst_done_or [simp]: "fst (done_or r) = fst r"
  by (simp add: done_or_def split: prod.split option.split)

lemma done_or_Inr: "done_or r = (d, Inr u) \<longleftrightarrow> r = (d, None)"
  by (auto simp: done_or_def split: prod.splits option.splits)

lemma reach_or_internal:
  "reaches w op db (fst r) \<Longrightarrow> (\<And>d x. r = (d, Inr x) \<Longrightarrow> reaches w op d (fst (next d x))) \<Longrightarrow>
   reaches w op db (fst (or_internal r next))"
  unfolding or_internal_def by (cases r; cases "snd r") (auto intro: rtranclp_trans)

lemma reach_on_decoded:
  "(\<And>x. decoded = Inr x \<Longrightarrow> reaches w op db (fst (next x))) \<Longrightarrow> reaches w op db (fst (on_decoded db decoded next))"
  by (simp add: on_decoded_def split: sum.split)

lemma GenerateFromPassword_Inr:
  "GenerateFromPassword w db pw = (d, Inr h) \<longleftrightarrow> d = db\<lparr>ad_draws := ad_draws db + 1\<rparr> \<and> aw_hash w (ad_draws db) pw = Inr h"
  by (auto simp: GenerateFromPassword_def)

lemma reach_GenerateFromPassword [simp]: "reaches w op db (fst (GenerateFromPassword w db pw))"
  by (simp add: GenerateFromPassword_def ch_draw r_into_rtranclp)

lemma reach_StringWithCharset [simp]: "reaches w op db (fst (StringWithCharset w db n cs))"
  by (simp add: StringWithCharset_def Let_def ch_draw r_into_rtranclp)

lemma reach_GenerateRandomBytes [simp]: "reaches w op db (fst (GenerateRandomBytes w db n))"
  by (simp add: GenerateRandomBytes_def ch_draw r_into_rtranclp)

lemma CreateUser_result:
  "(\<exists>e. CreateUser w db a = (db, Inl e)) \<or>
   (\<exists>i. next_id (ad_user_seq db) = Some i \<and> us_Email a \<notin> us_Email ` set (ad_users db) \<and>
      CreateUser w db a = (insert_account db (a\<lparr>us_ID := i\<rparr>), Inr (a\<lparr>us_ID := i\<rparr>)))"
  by (simp add: CreateUser_def Let_def split: option.split)

lemma CreateUser_Inr:
  "CreateUser w db a = (d, Inr a') \<Longrightarrow>
   \<exists>i. next_id (ad_user_seq db) = Some i \<and> a' = a\<lparr>us_ID := i\<rparr> \<and> d = insert_account db a'"
  using CreateUser_result [of w db a] by auto

lemma reach_CreateUser:
  assumes "\<And>i. user_made w db op (a\<lparr>us_ID := i\<rparr>)" and "\<not> ac_Deleted a"
  shows "reaches w op db (fst (CreateUser w db a))"
proof (cases "\<exists>e. CreateUser w db a = (db, Inl e)")
  case False
  then obtain i where "next_id (ad_user_seq db) = Some i" "us_Email a \<notin> us_Email ` set (ad_users db)"
    and "CreateUser w db a = (insert_account db (a\<lparr>us_ID := i\<rparr>), Inr (a\<lparr>us_ID := i\<rparr>))"
    using CreateUser_result [of w db a] by blast
  then show ?thesis using ch_insert [of db "a\<lparr>us_ID := i\<rparr>" w op] assms by (auto intro: r_into_rtranclp)
qed auto

text \<open>Issuing a token and mailing it.\<close>

lemma CreatePWResetTokenForEmail_cases:
  obtains (failed) e d where "CreatePWResetTokenForEmail w db email = (d, Inl e)" "reaches w op db d"
  | (issued) d n t raw i where "reaches w op db d" "ad_tokens d = ad_tokens db"
      "next_id (ad_token_seq d) = Some i" "aw_hash w n raw = Inr (pt_Token t)"
      "t = \<lparr>pt_ID = i, pt_Email = email, pt_IsValid = True, pt_Expiry = Some (aw_now w + 30 * 60), pt_Token = pt_Token t\<rparr>"
      "CreatePWResetTokenForEmail w db email =
        (d\<lparr>ad_tokens := ad_tokens d @ [t], ad_token_seq := ad_token_seq d + 1\<rparr>, Inr (t, raw))"
proof -
  obtain d1 r1 where 1: "StringWithCharset w db 32 [] = (d1, r1)" by fastforce
  have d1: "reaches w op db d1" using reach_StringWithCharset [of w op db 32 "[]"] 1 by simp
  have t1: "ad_tokens d1 = ad_tokens db" using 1 by (auto simp: StringWithCharset_def Let_def)
  show thesis
  proof (cases r1)
    case (Inl e)
    then show ?thesis using failed [of d1 e] d1 1 by (simp add: CreatePWResetTokenForEmail_def)
  next
    case raw: (Inr raw)
    let ?d = "d1\<lparr>ad_draws := ad_draws d1 + 1\<rparr>"
    have d2: "reaches w op db ?d" using d1 ch_draw rtranclp.rtrancl_into_rtrancl by metis
    show ?thesis
    proof (cases "aw_hash w (ad_draws d1) raw")
      case (Inl e)
      then show ?thesis using failed [of ?d e] d2 1 raw
        by (simp add: CreatePWResetTokenForEmail_def GenerateFromPassword_def)
    next
      case (Inr h)
      let ?t = "\<lambda>i. \<lparr>pt_ID = i, pt_Email = email, pt_IsValid = True, pt_Expiry = Some (aw_now w + 30 * 60), pt_Token = h\<rparr>"
      note eq = 1 raw Inr CreatePWResetTokenForEmail_def GenerateFromPassword_def CreatePWResetToken_def
      show ?thesis
      proof (cases "aw_create_token w = None \<and> next_id (ad_token_seq d1) \<noteq> None")
        case True
        then obtain i where "aw_create_token w = None" "next_id (ad_token_seq d1) = Some i" by auto
        then show ?thesis using issued [of ?d i "ad_draws d1" raw "?t i"] d2 t1 by (simp add: eq Let_def)
      next
        case False
        then have "\<exists>e. CreatePWResetTokenForEmail w db email = (?d, Inl e)" by (auto simp: eq Let_def split: option.split)
        then show ?thesis using failed [of ?d] d2 by blast
      qed
    qed
  qed
qed

lemma fst_send_mail [simp]: "fst (send_mail w db m) = db\<lparr>ad_mails := ad_mails db @ [m]\<rparr>"
  by (simp add: send_mail_def)

lemma reach_issue_mail:
  assumes "reaches w op db d" and "issues_token op" and "next_id (ad_token_seq d) = Some (pt_ID t)" and "aw_hash w n raw = Inr (pt_Token t)"
    and "pt_IsValid t" and "pt_Expiry t = Some (aw_now w + 30 * 60)" and "holds_token m t raw"
  shows "reaches w op db (d\<lparr>ad_tokens := ad_tokens d @ [t], ad_token_seq := ad_token_seq d + 1,
    ad_mails := ad_mails d @ [m]\<rparr>)"
  using assms(1) ch_issue [OF assms(2,3,5,6,4,7)] by (rule rtranclp.rtrancl_into_rtrancl)

lemma reach_startEmailVerification:
  assumes "issues_token op"
  shows "reaches w op db (fst (startEmailVerification w db a))"
proof (rule CreatePWResetTokenForEmail_cases [of w db "us_Email a" op])
  fix d n t raw i
  assume i: "reaches w op db d" "next_id (ad_token_seq d) = Some i" "aw_hash w n raw = Inr (pt_Token t)"
    and t: "t = \<lparr>pt_ID = i, pt_Email = us_Email a, pt_IsValid = True, pt_Expiry = Some (aw_now w + 30 * 60),
        pt_Token = pt_Token t\<rparr>"
    and eq: "CreatePWResetTokenForEmail w db (us_Email a) =
        (d\<lparr>ad_tokens := ad_tokens d @ [t], ad_token_seq := ad_token_seq d + 1\<rparr>, Inr (t, raw))"
  have "pt_ID t = i" "pt_IsValid t" "pt_Expiry t = Some (aw_now w + 30 * 60)" "pt_Email t = us_Email a"
    by (subst t, simp)+
  then show ?thesis using reach_issue_mail [OF i(1) assms _ i(3), of "verification_mail w (us_Email a) t raw"] i(2) eq
    by (simp add: startEmailVerification_def holds_token_def verification_mail_def)
qed (simp add: startEmailVerification_def)

lemma reach_VerifyEmailInitiate:
  "issues_token op \<Longrightarrow> reaches w op db (fst (VerifyEmailInitiateHandler w db a))"
  unfolding VerifyEmailInitiateHandler_def
  by (rule reach_or_internal) (simp_all add: reach_startEmailVerification)

text \<open>What \<open>VerifyToken\<close> accepts.\<close>

lemma read_user_Inr: "read_user w db q = Inr a \<Longrightarrow> a \<in> set (live_users db) \<and> matches_query q a"
  unfolding read_user_def by (rule faulty_first_Inr)

lemma VerifyToken_Inr:
  "VerifyToken w db request email = Some (Inr t) \<longleftrightarrow>
     ReadPWResetToken w db (fst request) = Inr t \<and> pt_IsValid t \<and> pt_Email t = email \<and>
     PWResetTokenIsExpired (aw_now w) t = Some False \<and> aw_compare w (pt_Token t) (snd request) = None"
proof (cases "ReadPWResetToken w db (fst request)")
  case (Inl e)
  then show ?thesis by (cases e) (simp_all add: VerifyToken_def)
next
  case (Inr x)
  then show ?thesis
    by (cases "PWResetTokenIsExpired (aw_now w) x") (auto simp: VerifyToken_def split: option.splits)
qed

lemma VerifyToken_accepted:
  assumes "VerifyToken w db request email = Some (Inr t)"
  shows "token_accepted w db request email t"
proof -
  have "t \<in> set (ad_tokens db) \<and> pt_ID t = fst request"
    using assms faulty_first_Inr [of "aw_read_token w" "ad_tokens db" "\<lambda>t. pt_ID t = fst request" t] by (simp add: VerifyToken_Inr ReadPWResetToken_def)
  then show ?thesis
    using assms by (auto simp: VerifyToken_Inr token_accepted_def PWResetTokenIsExpired_def)
qed

lemma token_accepted_cong: "ad_tokens d = ad_tokens db \<Longrightarrow> token_accepted w d = token_accepted w db"
  by (intro ext) (simp add: token_accepted_def)

lemma reach_spend:
  "t \<in> set (ad_tokens db) \<Longrightarrow> reaches w op db (fst (UpdatePWResetToken w db (t\<lparr>pt_IsValid := False\<rparr>)))"
  using ch_spend [of t db w op] by (auto simp: UpdatePWResetToken_def split: option.split)

lemma reach_UpdateUser:
  assumes "a \<in> set (live_users db)" "user_saved w db op a a'"
    and "us_ID a' = 0 \<Longrightarrow> False"
  shows "reaches w op db (fst (UpdateUser w db a'))"
  using ch_save [OF assms(1,2)] assms(3) by (auto simp: UpdateUser_def split: option.split)

lemma UpdateUser_tokens: "ad_tokens (fst (UpdateUser w db a)) = ad_tokens db"
  using CreateUser_result [of w db a] by (auto simp: UpdateUser_def insert_account_def split: option.split)

lemma reach_VerifyEmailFinalize:
  assumes "in_context db a" and "\<forall>x\<in>set (ad_users db). us_ID x \<noteq> 0"
  shows "reaches w (VerifyEmailFinalizeOp a d) db (fst (VerifyEmailFinalizeHandler w db a d))"
proof (cases d)
  case (Inr request)
  let ?op = "VerifyEmailFinalizeOp a (Inr request)" and ?a = "a\<lparr>us_EmailVerified := True\<rparr>"
  show ?thesis
  proof (cases "\<exists>t. VerifyToken w db request (us_Email a) = Some (Inr t)")
    case True
    then obtain t where v: "VerifyToken w db request (us_Email a) = Some (Inr t)" by blast
    note t = VerifyToken_accepted [OF v]
    have save: "reaches w ?op db (fst (UpdateUser w db ?a))"
    proof (cases "service_row a")
      case True
      then have "user_made w db ?op (?a\<lparr>us_ID := i\<rparr>)" for i
        by (intro made_service [OF True t]) (simp_all add: service_row_def)
      then have "reaches w ?op db (fst (CreateUser w db ?a))"
        using True by (intro reach_CreateUser) (simp_all add: service_row_def)
      then show ?thesis using True by (simp add: UpdateUser_def service_row_def split: option.split)
    next
      case False
      then have "a \<in> set (live_users db)" using assms(1) by (simp add: in_context_def)
      then show ?thesis using assms(2)
        by (intro reach_UpdateUser [of a] saved_verified [OF t]) (auto simp: live_users_def)
    qed
    have "t \<in> set (ad_tokens d1)" if "UpdateUser w db ?a = (d1, r)" for d1 r
      using t UpdateUser_tokens [of w db ?a] that by (simp add: token_accepted_def)
    then show ?thesis using v save reach_spend [of t _ w ?op] Inr
      by (auto simp: VerifyEmailFinalizeHandler_def split: prod.split sum.split option.split
          intro: rtranclp_trans) (metis fst_conv rtranclp_trans)+
  next
    case False
    then show ?thesis using Inr
      by (auto simp: VerifyEmailFinalizeHandler_def split: sum.split option.split)
  qed
qed (simp add: VerifyEmailFinalizeHandler_def)

lemma reach_FinalizeReset:
  assumes "\<forall>x\<in>set (ad_users db). us_ID x \<noteq> 0"
  shows "reaches w (FinalizeResetOp d) db (fst (UserPasswordFinalizeResetHandler w db d))"
  unfolding UserPasswordFinalizeResetHandler_def
proof (rule reach_on_decoded)
  fix request assume d: "d = Inr request"
  let ?op = "FinalizeResetOp d"
  show "reaches w ?op db (fst (on_verified w db (rr_token request) (rr_Email request) (\<lambda>t.
     case ReadUserByEmail w db (rr_Email request) of
       Inl ErrRecordNotFound \<Rightarrow> refuse db (ErrForbidden ''finalize password reset failed: email does not exist'')
     | Inl e \<Rightarrow> refuse db (ErrInternal (go_error_text e))
     | Inr a \<Rightarrow>
         or_internal (GenerateFromPassword w db (rr_NewPassword request)) (\<lambda>db hashedPW.
         or_internal (UpdateUser w db (a\<lparr>ac_Password := hashedPW\<rparr>)) (\<lambda>db _.
         or_internal (done_or (UpdatePWResetToken w db (t\<lparr>pt_IsValid := False\<rparr>))) (\<lambda>db _.
         answer db [WroteStatus 200]))))))"
    (is "reaches w ?op db (fst (on_verified w db _ _ ?next))")
  proof (cases "\<exists>t a. VerifyToken w db (rr_token request) (rr_Email request) = Some (Inr t) \<and>
      ReadUserByEmail w db (rr_Email request) = Inr a")
    case True
    then obtain t a where v: "VerifyToken w db (rr_token request) (rr_Email request) = Some (Inr t)"
      and a: "ReadUserByEmail w db (rr_Email request) = Inr a" by blast
    note t = VerifyToken_accepted [OF v]
    have u: "a \<in> set (live_users db)" "us_Email a = rr_Email request"
      using read_user_Inr [OF a [unfolded ReadUserByEmail_def]] by simp_all
    have "reaches w ?op db (fst (?next t))"
    proof (simp only: a sum.case, intro reach_or_internal)
      fix d1 h assume "GenerateFromPassword w db (rr_NewPassword request) = (d1, Inr h)"
      then have d1: "d1 = db\<lparr>ad_draws := ad_draws db + 1\<rparr>" "aw_hash w (ad_draws db) (rr_NewPassword request) = Inr h"
        by (simp_all add: GenerateFromPassword_Inr)
      have t1: "token_accepted w d1 (rr_token request) (rr_Email request) t"
        using t token_accepted_cong [of d1 db w] d1 by simp
      have u1: "a \<in> set (live_users d1)" using u d1 by (simp add: live_users_def)
      show "reaches w ?op d1 (fst (UpdateUser w d1 (a\<lparr>ac_Password := h\<rparr>)))" unfolding d
        using u1 assms u(1) by (intro reach_UpdateUser [OF u1] saved_password [OF t1 u(2) d1(2)])
          (auto simp: live_users_def)
      fix d2 a2 assume "UpdateUser w d1 (a\<lparr>ac_Password := h\<rparr>) = (d2, Inr a2)"
      then have "t \<in> set (ad_tokens d2)"
        using UpdateUser_tokens [of w d1 "a\<lparr>ac_Password := h\<rparr>"] t1 by (simp add: token_accepted_def)
      then show "reaches w ?op d2 (fst (done_or (UpdatePWResetToken w d2 (t\<lparr>pt_IsValid := False\<rparr>))))"
        by (simp add: reach_spend)
    qed simp_all
    then show ?thesis by (simp add: on_verified_def v)
  next
    case False
    then show ?thesis
      by (cases "VerifyToken w db (rr_token request) (rr_Email request)")
        (auto simp: on_verified_def split: sum.split go_error.split)
  qed
qed

lemma reach_InitiateReset: "reaches w (InitiateResetOp d) db (fst (UserPasswordInitiateResetHandler w db d))"
  unfolding UserPasswordInitiateResetHandler_def
proof (rule reach_on_decoded)
  fix email
  let ?op = "InitiateResetOp d"
  let ?issue = "\<lambda>a. or_internal (CreatePWResetTokenForEmail w db email) (\<lambda>db (t, rawToken).
       or_internal (done_or (send_mail w db (reset_mail w (us_Email a) email t rawToken))) (\<lambda>db _.
       answer db [WroteStatus 200]))"
  have issue: "reaches w ?op db (fst (?issue a))" if a: "us_Email a = email" for a
  proof (rule CreatePWResetTokenForEmail_cases [of w db email ?op])
    fix d n t raw i
    assume i: "reaches w ?op db d" "next_id (ad_token_seq d) = Some i" "aw_hash w n raw = Inr (pt_Token t)"
      and t: "t = \<lparr>pt_ID = i, pt_Email = email, pt_IsValid = True, pt_Expiry = Some (aw_now w + 30 * 60),
          pt_Token = pt_Token t\<rparr>"
      and eq: "CreatePWResetTokenForEmail w db email =
          (d\<lparr>ad_tokens := ad_tokens d @ [t], ad_token_seq := ad_token_seq d + 1\<rparr>, Inr (t, raw))"
    have "pt_ID t = i" "pt_IsValid t" "pt_Expiry t = Some (aw_now w + 30 * 60)" "pt_Email t = email"
      by (subst t, simp)+
    then show ?thesis using reach_issue_mail [OF i(1) _ _ i(3), of "reset_mail w (us_Email a) email t raw"] i(2) eq a
      by (simp add: or_internal_def done_or_def holds_token_def reset_mail_def send_mail_def split: option.split)
  qed (simp add: or_internal_def)
  have relink: "reaches w ?op db (fst (or_internal (done_or (send_mail w db (relink_mail w e))) (\<lambda>db _. answer db [WroteStatus 200])))" for e
    using ch_relink [of "relink_mail w e" w ?op db]
    by (intro reach_or_internal) (simp_all add: relink_mail_def r_into_rtranclp)
  show "reaches w ?op db (fst (case ReadUserByEmail w db email of
       Inl ErrRecordNotFound \<Rightarrow> answer db [WroteStatus 200]
     | Inl e \<Rightarrow> refuse db (ErrInternal (go_error_text e))
     | Inr a \<Rightarrow>
         (case checkUserRestrictions w (us_Email a) of Some e \<Rightarrow> refuse db (ErrForbidden e) | None \<Rightarrow>
          if ac_GithubUserID a \<noteq> 0
          then or_internal (done_or (send_mail w db (relink_mail w (us_Email a)))) (\<lambda>db _. answer db [WroteStatus 200])
          else ?issue a)))"
  proof (cases "ReadUserByEmail w db email")
    case (Inl e)
    then show ?thesis by (cases e) simp_all
  next
    case (Inr a)
    then have e: "us_Email a = email" using read_user_Inr [of w db "ByEmail email" a] by (simp add: ReadUserByEmail_def)
    show ?thesis using Inr issue [OF e] relink e by (simp split: option.split)
  qed
qed

lemma fst_on_verified_id [simp]: "fst (on_verified w db request email (\<lambda>_. answer db ws)) = db"
  by (simp add: on_verified_def split: option.split sum.split)

lemma reach_VerifyReset: "reaches w op db (fst (UserPasswordVerifyResetHandler w db d))"
  unfolding UserPasswordVerifyResetHandler_def by (rule reach_on_decoded) (simp split: prod.split)

text \<open>Sessions.\<close>

lemma reach_StoreSave:
  "session_change w op db b (ad_sessions db b) s \<Longrightarrow> reaches w op db (fst (StoreSave w db b s))"
  using ch_session by (auto simp: StoreSave_def split: option.split)

lemma StoreGet_Inr: "StoreGet w db b = Inr s \<Longrightarrow> s = ad_sessions db b"
  by (simp add: StoreGet_def split: option.splits)

lemma fst_SaveUserAuthenticated:
  "fst (SaveUserAuthenticated w db b a) \<in> {db, fst (StoreSave w db b ((ad_sessions db b)\<lparr>se_authenticated := Some True,
     se_user_id := Some (us_ID a), se_email := Some (us_Email a), se_redirect_uri := Some []\<rparr>))}"
  by (auto simp: SaveUserAuthenticated_def StoreGet_def split: prod.split option.split sum.split)

lemma reach_SaveUserAuthenticated:
  "a \<in> set (live_users db) \<Longrightarrow> login_ok w op b a \<Longrightarrow> reaches w op db (fst (SaveUserAuthenticated w db b a))"
  using fst_SaveUserAuthenticated [of w db b a] reach_StoreSave [OF session_login [of a db w op b]] by auto

lemma reach_SaveUserUnauthenticated: "reaches w op db (fst (SaveUserUnauthenticated w db b))"
  unfolding SaveUserUnauthenticated_def
  by (cases "StoreGet w db b") (auto dest!: StoreGet_Inr intro!: reach_StoreSave session_logout)

lemma reach_logged_in:
  "a \<in> set (live_users db) \<Longrightarrow> login_ok w op b a \<Longrightarrow> reaches w op db (fst (logged_in w db b a otherwise))"
  unfolding logged_in_def by (rule reach_or_internal) (simp_all add: reach_SaveUserAuthenticated)

lemma login_ok_issues: "login_ok w op b a \<Longrightarrow> issues_token op"
  by (auto elim: login_ok.cases)

lemma reach_logged_in_unverified:
  "a \<in> set (live_users db) \<Longrightarrow> login_ok w op b a \<Longrightarrow>
   reaches w op db (fst (logged_in_unverified w db b a otherwise))"
  unfolding logged_in_unverified_def
  by (rule reach_or_internal) (simp_all add: reach_SaveUserAuthenticated reach_startEmailVerification login_ok_issues)

lemma reach_default_project: "reaches w op db (fst (addUserToDefaultProject w db a))"
  by (auto simp: addUserToDefaultProject_def ch_members r_into_rtranclp split: sum.split prod.split)

lemma default_project_users [simp]: "ad_users (fst (addUserToDefaultProject w db a)) = ad_users db"
  by (simp add: addUserToDefaultProject_def split: sum.split prod.split)

lemma live_users_cong: "ad_users d = ad_users db \<Longrightarrow> live_users d = live_users db"
  by (simp add: live_users_def)

lemma live_users_insert: "\<not> ac_Deleted a \<Longrightarrow> a \<in> set (live_users (insert_account db a))"
  by (simp add: live_users_def insert_account_def)

lemma reach_Create: "reaches w (CreateUserOp b d) db (fst (UserCreateHandler w db b d))"
  unfolding UserCreateHandler_def
proof (rule reach_on_decoded, clarify)
  fix email password assume d: "d = Inr (email, password)"
  let ?op = "CreateUserOp b (Inr (email, password))"
  let ?new = "or_internal (GenerateFromPassword w db password) (\<lambda>db hashedPw.
     or_internal (CreateUser w db (new_account email hashedPw)) (\<lambda>db a.
     or_internal (done_or (addUserToDefaultProject w db a)) (\<lambda>db _.
     logged_in_unverified w db b a (WroteResult (UserResult (ToUserType a))))))"
  have "reaches w ?op db (fst ?new)" if r: "checkUserRestrictions w email = None"
  proof (intro reach_or_internal)
    fix d1 h assume "GenerateFromPassword w db password = (d1, Inr h)"
    then have h: "aw_hash w (ad_draws db) password = Inr h" by (simp add: GenerateFromPassword_Inr)
    show "reaches w ?op d1 (fst (CreateUser w d1 (new_account email h)))"
      by (intro reach_CreateUser made_password [OF h _ _ _ r]) (simp_all add: new_account_def)
    fix d2 a assume "CreateUser w d1 (new_account email h) = (d2, Inr a)"
    then obtain i where a: "a = (new_account email h)\<lparr>us_ID := i\<rparr>" "d2 = insert_account d1 a"
      by (auto dest: CreateUser_Inr)
    show "reaches w ?op d2 (fst (done_or (addUserToDefaultProject w d2 a)))" by (simp add: reach_default_project)
    fix d3 u assume "done_or (addUserToDefaultProject w d2 a) = (d3, Inr u)"
    then have "ad_users d3 = ad_users d2" using default_project_users [of w d2 a] by (simp add: done_or_Inr)
    then have "a \<in> set (live_users d3)"
      using live_users_insert [of a d1] a by (simp add: live_users_cong [of d3 d2] new_account_def)
    moreover have "login_ok w ?op b a" using h r by (intro ok_created) (simp_all add: a new_account_def)
    ultimately show "reaches w ?op d3 (fst (logged_in_unverified w d3 b a (WroteResult (UserResult (ToUserType a)))))"
      by (rule reach_logged_in_unverified)
  qed simp
  then show "reaches w ?op db (fst (if doesUserExist w db email then refuse db (ErrPassThroughToClient ''email already taken'' 400 [])
     else case checkUserRestrictions w email of Some e \<Rightarrow> refuse db (ErrPassThroughToClient e 400 []) | None \<Rightarrow> ?new))"
    by (simp split: option.split)
qed

lemma reach_Login: "reaches w (LoginOp b d) db (fst (UserLoginHandler w db b d))"
  unfolding UserLoginHandler_def
proof (rule reach_on_decoded, clarify)
  fix email password assume "d = Inr (email, password)"
  let ?op = "LoginOp b (Inr (email, password))"
  show "reaches w ?op db (fst (case checkUserRestrictions w email of Some e \<Rightarrow> refuse db (ErrPassThroughToClient e 400 []) | None \<Rightarrow>
     case ReadUserByEmail w db email of
       Inl ErrRecordNotFound \<Rightarrow> refuse db (ErrForbidden (go_error_text ErrRecordNotFound))
     | Inl e \<Rightarrow> refuse db (ErrInternal (go_error_text e))
     | Inr a \<Rightarrow>
         (case aw_compare w (ac_Password a) password of
            Some e \<Rightarrow> refuse db (ErrPassThroughToClient ''incorrect password'' 401 [])
          | None \<Rightarrow> logged_in w db b a (WroteResult (UserResult (ToUserType a))))))"
  proof (cases "ReadUserByEmail w db email")
    case (Inl e)
    then show ?thesis by (cases e) (simp_all split: option.split)
  next
    case (Inr a)
    then have a: "a \<in> set (live_users db)" "us_Email a = email"
      using read_user_Inr [of w db "ByEmail email" a] by (simp_all add: ReadUserByEmail_def)
    then show ?thesis using Inr reach_logged_in [OF a(1) ok_password [OF a(2)]] by (simp split: option.split)
  qed
qed

lemma reach_Logout: "reaches w op db (fst (UserLogoutHandler w db b))"
  unfolding UserLogoutHandler_def
  by (rule reach_or_internal) (simp_all add: reach_SaveUserUnauthenticated)

lemma reach_Delete: "reaches w (DeleteUserOp b a) db (fst (UserDeleteHandler w db b a))"
  unfolding UserDeleteHandler_def
proof (intro reach_or_internal)
  show "reaches w (DeleteUserOp b a) db (fst (DeleteUser w db a))"
    using ch_delete [of "DeleteUserOp b a" b a w db] by (auto simp: DeleteUser_def split: option.split)
qed (simp_all add: reach_SaveUserUnauthenticated)

lemma reach_CLILogin: "reaches w (CLILoginOp a d) db (fst (CLILoginHandler w db a d))"
  unfolding CLILoginHandler_def
proof (rule reach_on_decoded)
  fix redirect assume "d = Inr redirect"
  let ?op = "CLILoginOp a d"
  have code: "reaches w ?op db (fst (case GenerateRandomBytes w db 32 of
                 (db, Inl e) \<Rightarrow> refuse db (ErrInternal (''CLI random code generation failed: '' @ go_error_text e))
               | (db, Inr code) \<Rightarrow>
                   or_internal (CreateAuthCode w db \<lparr>au_Token = encoded, au_AuthorizationCode = code,
                                  au_Expiry = Some (aw_now w + 30)\<rparr>) (\<lambda>db authCode.
                   answer db [WroteRedirect (redirect @ ''/?code='' @ QueryEscape (au_AuthorizationCode authCode))])))"
    if jwt: "GetTokenForUser (aw_now w) (us_ID a) = Inr jwt"
      "EncodeToken (aw_sign w) (aw_token_secret w) jwt = Inr encoded" for jwt encoded
  proof -
    have store: "reaches w ?op d1 (fst (or_internal (CreateAuthCode w d1 c) (\<lambda>db authCode.
        answer db [WroteRedirect (redirect @ ''/?code='' @ QueryEscape (au_AuthorizationCode authCode))])))"
      if "au_Token c = encoded" "au_Expiry c = Some (aw_now w + 30)" for d1 c
    proof (rule reach_or_internal)
      show "reaches w ?op d1 (fst (CreateAuthCode w d1 c))"
        using ch_code [of ?op a d w jwt c d1] jwt that by (auto simp: CreateAuthCode_def split: option.split)
    qed simp
    have draw: "reaches w ?op db (db\<lparr>ad_draws := Suc (ad_draws db)\<rparr>)"
      using ch_draw by (metis r_into_rtranclp)
    show ?thesis
    proof (cases "aw_rand_bytes w (ad_draws db) 32")
      case (Inl e)
      then show ?thesis using draw by (simp add: GenerateRandomBytes_def)
    next
      case (Inr bytes)
      then show ?thesis
        using rtranclp_trans [OF draw store [of "\<lparr>au_Token = encoded, au_AuthorizationCode = hex_encode bytes,
          au_Expiry = Some (aw_now w + 30)\<rparr>"]]
        by (simp add: GenerateRandomBytes_def)
    qed
  qed
  then show "reaches w ?op db (fst (case checkUserRestrictions w (us_Email a) of
     Some e \<Rightarrow> refuse db (ErrPassThroughToClient e 400 []) | None \<Rightarrow>
     case GetTokenForUser (aw_now w) (us_ID a) of
       Inl e \<Rightarrow> refuse db (ErrInternal (''CLI token creation failed: '' @ e))
     | Inr jwt \<Rightarrow>
         (case EncodeToken (aw_sign w) (aw_token_secret w) jwt of
            Inl e \<Rightarrow> refuse db (ErrInternal (''CLI token encoding failed: '' @ e))
          | Inr encoded \<Rightarrow>
              (case GenerateRandomBytes w db 32 of
                 (db, Inl e) \<Rightarrow> refuse db (ErrInternal (''CLI random code generation failed: '' @ go_error_text e))
               | (db, Inr code) \<Rightarrow>
                   or_internal (CreateAuthCode w db \<lparr>au_Token = encoded, au_AuthorizationCode = code,
                                  au_Expiry = Some (aw_now w + 30)\<rparr>) (\<lambda>db authCode.
                   answer db [WroteRedirect (redirect @ ''/?code='' @ QueryEscape (au_AuthorizationCode authCode))])))))"
    by (cases "GetTokenForUser (aw_now w) (us_ID a)"; cases "checkUserRestrictions w (us_Email a)")
      (simp_all split: sum.split)
qed

lemma fst_CLIExchange [simp]: "fst (CLILoginExchangeHandler w db d) = db"
  by (simp add: CLILoginExchangeHandler_def on_decoded_def split: sum.split option.split)

lemma reach_OAuthStart:
  "reaches w (OAuthStartOp b a q) db (fst (or_internal (done_or (PopulateOAuthSession w db b a q)) (\<lambda>db _. answer db [])))"
proof (rule reach_or_internal)
  let ?s = "ad_sessions db b"
  have "reaches w (OAuthStartOp b a q) db (fst (StoreSave w db b s'))"
    if "se_authenticated s' = se_authenticated ?s"
      "se_user_id s' = se_user_id ?s \<or> (\<exists>x. a = Some x \<and> se_user_id s' = Some (us_ID x))" for s'
    using session_start [OF refl that] by (rule reach_StoreSave)
  then show "reaches w (OAuthStartOp b a q) db (fst (done_or (PopulateOAuthSession w db b a q)))"
    by (cases a; cases "os_isUser q"; cases "os_isProject q"; cases "os_project q")
      (auto simp: PopulateOAuthSession_def StoreGet_def Let_def split: option.split)
qed simp

text \<open>Logins through a provider.\<close>

lemma reach_on_oauth_token:
  "(\<And>tok. aw_exchange w code = Inr tok \<Longrightarrow> aw_token_valid w tok \<Longrightarrow> reaches w op db (fst (next tok))) \<Longrightarrow>
   reaches w op db (fst (on_oauth_token w db b state code next))"
  by (simp add: on_oauth_token_def split: sum.split)

text \<open>A lookup that ends with a user of the table who may be logged in.\<close>

definition logs_in ::
  "account_world \<Rightarrow> account_op \<Rightarrow> string \<Rightarrow> account_db \<Rightarrow> account_db \<times> (go_error, account) go_result \<Rightarrow> bool" where
  "logs_in w op b db r \<longleftrightarrow> reaches w op db (fst r) \<and>
     (\<forall>d a. r = (d, Inr a) \<longrightarrow> a \<in> set (live_users d) \<and> login_ok w op b a)"

lemma logs_in_error [simp]: "logs_in w op b db (db, Inl e)"
  by (simp add: logs_in_def)

lemma logs_in_found: "a \<in> set (live_users db) \<Longrightarrow> login_ok w op b a \<Longrightarrow> logs_in w op b db (db, Inr a)"
  by (simp add: logs_in_def)

lemma reach_oauth_logged_in:
  assumes "logs_in w op b db r"
  shows "reaches w op db (fst (oauth_logged_in w b shown r))"
proof (cases r)
  case (Pair d res)
  then show ?thesis using assms reach_logged_in_unverified [of _ d w op b]
    by (cases res) (auto simp: oauth_logged_in_def logs_in_def intro: rtranclp_trans)
qed

lemma create_oauth_user_reaches:
  assumes "\<And>i. user_made w db op (a\<lparr>us_ID := i\<rparr>)" and "\<not> ac_Deleted a"
  shows "reaches w op db (fst (create_oauth_user w db a))"
    and "create_oauth_user w db a = (d, Inr a') \<Longrightarrow> a' \<in> set (live_users d) \<and> (\<exists>i. a' = a\<lparr>us_ID := i\<rparr>)"
proof -
  note made = reach_CreateUser [OF assms]
  show "reaches w op db (fst (create_oauth_user w db a))"
  proof (cases "ReadUserByEmail w db (us_Email a)")
    case (Inl e)
    obtain d1 r where c: "CreateUser w db a = (d1, r)" by fastforce
    have "reaches w op db (fst (addUserToDefaultProject w d1 x))" for x
      using made c reach_default_project [of w op d1 x] by (auto intro: rtranclp_trans)
    then show ?thesis using Inl c made
      by (cases e) (auto simp: create_oauth_user_def split: sum.split prod.split option.split, (metis fst_conv)+)
  qed (simp add: create_oauth_user_def)
  assume d: "create_oauth_user w db a = (d, Inr a')"
  then have none: "ReadUserByEmail w db (us_Email a) = Inl ErrRecordNotFound"
    by (auto simp: create_oauth_user_def split: sum.splits go_error.splits)
  then obtain d1 where c: "CreateUser w db a = (d1, Inr a')" "addUserToDefaultProject w d1 a' = (d, None)"
    using d by (auto simp: create_oauth_user_def split: prod.splits sum.splits option.splits)
  have "ad_users d = ad_users d1" using default_project_users [of w d1 a'] c(2) by simp
  then show "a' \<in> set (live_users d) \<and> (\<exists>i. a' = a\<lparr>us_ID := i\<rparr>)"
    using CreateUser_Inr [OF c(1)] live_users_insert [of a' db] live_users_cong [of d d1] assms(2) by auto
qed

lemma checked [simp]: "checkUserRestrictions w email = None \<longleftrightarrow> aw_AdminEmail w = [] \<or> aw_AdminEmail w = email"
  by (simp add: checkUserRestrictions_def)

lemma oauth_account_simps [simp]:
  "us_Email (oauth_account w email v g s) = email" "ac_Password (oauth_account w email v g s) = []"
  "us_EmailVerified (oauth_account w email v g s) = (\<not> aw_Metadata_Email w \<or> v)"
  "ac_GithubUserID (oauth_account w email v g s) = g" "ac_GoogleUserID (oauth_account w email v g s) = s"
  "\<not> ac_Deleted (oauth_account w email v g s)"
  by (simp_all add: oauth_account_def new_account_def)

lemma logs_in_created:
  assumes "\<And>i. user_made w db op (a\<lparr>us_ID := i\<rparr>)" and "\<not> ac_Deleted a" and "\<And>i. login_ok w op b (a\<lparr>us_ID := i\<rparr>)"
  shows "logs_in w op b db (create_oauth_user w db a)"
  using create_oauth_user_reaches [OF assms(1,2)] assms(3) unfolding logs_in_def by metis

lemma upsertUserFromToken_reaches:
  fixes b state :: string
  assumes tok: "aw_exchange w code = Inr tok" "aw_token_valid w tok" and r: "upsertUserFromToken w db tok = Some r"
  defines "op \<equiv> GithubCallbackOp b state code"
  shows "logs_in w op b db r"
proof (cases "aw_github_user w tok")
  case (Inl e)
  then show ?thesis using r by (auto simp: upsertUserFromToken_def)
next
  case (Inr user)
  then obtain u where gh: "aw_github_user w tok = Inr (Some u)"
    using r by (auto simp: upsertUserFromToken_def split: option.splits)
  then have claims: "claims_github w code u" using tok by (auto simp: claims_github_def)
  have login: "login_ok w op b a" if "ac_GithubUserID a = u" for a
    unfolding op_def using claims that by (intro ok_github) simp
  show ?thesis
  proof (cases "ReadUserByGithubUserID w db u")
    case (Inr a)
    then have "a \<in> set (live_users db)" "ac_GithubUserID a = u"
      using read_user_Inr [of w db "ByGithubUserID u" a] by (simp_all add: ReadUserByGithubUserID_def)
    then show ?thesis using r gh Inr login by (auto simp: upsertUserFromToken_def intro: logs_in_found)
  next
    case (Inl e)
    show ?thesis
    proof (cases "\<exists>emails primary v. e = ErrRecordNotFound \<and> aw_github_emails w tok = Inr emails \<and>
        primary_email emails = (primary, v) \<and> primary \<noteq> [] \<and> checkUserRestrictions w primary = None")
      case True
      then obtain emails primary v where e: "e = ErrRecordNotFound" "aw_github_emails w tok = Inr emails"
        "primary_email emails = (primary, v)" "primary \<noteq> []" "checkUserRestrictions w primary = None" by blast
      let ?a = "oauth_account w primary v u []"
      have made: "user_made w db op (?a\<lparr>us_ID := i\<rparr>)" for i
        unfolding op_def using claims e tok(1)
        by (intro made_github [of _ _ _ v]) (auto simp: claims_github_email_def)
      have "r = create_oauth_user w db ?a"
        using r gh Inl e by (simp add: upsertUserFromToken_def)
      then show ?thesis using logs_in_created [OF made] login by simp
    next
      case False
      then have "\<exists>e'. r = (db, Inl e')" using r gh Inl
        by (cases e) (auto simp: upsertUserFromToken_def split: sum.splits prod.splits if_splits option.splits)
      then show ?thesis by auto
    qed
  qed
qed

lemma upsertGoogle_reaches:
  fixes b state :: string
  assumes tok: "aw_exchange w code = Inr tok" "aw_token_valid w tok" and r: "upsertGoogleUserFromToken w db tok = Some r"
  defines "op \<equiv> GoogleCallbackOp b state code"
  shows "logs_in w op b db r"
proof (cases "\<exists>g. getGoogleUserInfoFromToken w tok = Inr (Some g) \<and> checkUserRestrictions w (gi_Email g) = None \<and>
    (aw_GoogleRestrictedDomain w \<noteq> [] \<longrightarrow> gi_HD g = aw_GoogleRestrictedDomain w)")
  case True
  then obtain g where g: "getGoogleUserInfoFromToken w tok = Inr (Some g)" "checkUserRestrictions w (gi_Email g) = None"
    "aw_GoogleRestrictedDomain w \<noteq> [] \<longrightarrow> gi_HD g = aw_GoogleRestrictedDomain w" by blast
  have claims: "claims_google w code g" using g(1) tok
    by (auto simp: claims_google_def getGoogleUserInfoFromToken_def split: sum.splits)
  have login: "login_ok w op b a" if "ac_GoogleUserID a = gi_Sub g" for a
    unfolding op_def using that by (rule ok_google [OF claims _ g(2)])
  show ?thesis
  proof (cases "ReadUserByGoogleUserID w db (gi_Sub g)")
    case (Inr a)
    then have "a \<in> set (live_users db)" "ac_GoogleUserID a = gi_Sub g"
      using read_user_Inr [of w db "ByGoogleUserID (gi_Sub g)" a] by (simp_all add: ReadUserByGoogleUserID_def)
    moreover have "r = (db, Inr a)"
      using g Inr r by (auto simp: upsertGoogleUserFromToken_def simp del: checked)
    ultimately show ?thesis using logs_in_found login by simp
  next
    case (Inl e)
    let ?a = "oauth_account w (gi_Email g) (gi_EmailVerified g) 0 (gi_Sub g)"
    have made: "user_made w db op (?a\<lparr>us_ID := i\<rparr>)" for i
      unfolding op_def using g(2) by (intro made_google [OF claims]) simp_all
    have "r = create_oauth_user w db ?a \<or> (\<exists>e'. r = (db, Inl e'))"
      using g Inl r by (cases e) (auto simp: upsertGoogleUserFromToken_def simp del: checked)
    then show ?thesis using logs_in_created [OF made] login by auto
  qed
next
  case False
  then have "\<exists>e. r = (db, Inl e)"
    using r by (auto simp: upsertGoogleUserFromToken_def simp del: checked split: sum.splits option.splits)
  then show ?thesis by auto
qed

lemma reach_Github:
  "reaches w (GithubCallbackOp b state code) db (fst (UserOAuthGithubCallbackHandler w db b state code))"
  unfolding UserOAuthGithubCallbackHandler_def
proof (rule reach_on_oauth_token)
  fix tok assume tok: "aw_exchange w code = Inr tok" "aw_token_valid w tok"
  show "reaches w (GithubCallbackOp b state code) db (fst (case upsertUserFromToken w db tok of
       None \<Rightarrow> crashed db | Some r \<Rightarrow> oauth_logged_in w b [''already registered''] r))"
    using upsertUserFromToken_reaches [OF tok] reach_oauth_logged_in
    by (cases "upsertUserFromToken w db tok") (simp_all split: option.split)
qed

lemma reach_Google:
  "reaches w (GoogleCallbackOp b state code) db (fst (UserOAuthGoogleCallbackHandler w db b state code))"
  unfolding UserOAuthGoogleCallbackHandler_def
proof (rule reach_on_oauth_token)
  fix tok assume tok: "aw_exchange w code = Inr tok" "aw_token_valid w tok"
  show "reaches w (GoogleCallbackOp b state code) db (fst (case upsertGoogleUserFromToken w db tok of
       None \<Rightarrow> crashed db
     | Some r \<Rightarrow> oauth_logged_in w b [''already registered'', ''restricted domain group''] r))"
    using upsertGoogle_reaches [OF tok] reach_oauth_logged_in
    by (cases "upsertGoogleUserFromToken w db tok") (simp_all split: option.split)
qed

theorem account_step_reaches:
  assumes "account_step db w op db'" and "\<forall>x\<in>set (ad_users db). us_ID x \<noteq> 0"
  shows "reaches w op db db'"
proof -
  have "reaches w op db (fst (run_account w op db))"
    using assms
    by (cases op) (auto simp: account_step_def reach_Create reach_Login reach_Logout reach_Delete
        reach_VerifyEmailInitiate reach_VerifyEmailFinalize reach_InitiateReset reach_VerifyReset
        reach_FinalizeReset reach_CLILogin reach_OAuthStart reach_Github reach_Google)
  then show ?thesis using assms(1) by (simp add: account_step_def)
qed

end
