(* ===== verification/Account_Safety.thy ===== *)
theory Account_Safety
  imports Account_History
begin

text \<open>
  What holds of the accounts whatever requests come, in whatever order and with whatever faults: the
  invariants of the rows, who can be logged in, and what it takes to change a password or to verify
  an email.
\<close>

section \<open>Invariants of the rows\<close>

type_synonym hashing = "nat \<Rightarrow> string \<Rightarrow> (go_error, string) go_result"

definition hashed_password :: "hashing \<Rightarrow> account \<Rightarrow> bool" where
  "hashed_password bc a \<longleftrightarrow> ac_Password a = [] \<or> (\<exists>n password. bc n password = Inr (ac_Password a))"

text \<open>The raw text of a token is only in a mail to its email; the row has the hash.\<close>

definition mailed_token :: "hashing \<Rightarrow> mail list \<Rightarrow> pw_reset_token \<Rightarrow> bool" where
  "mailed_token bc mails t \<longleftrightarrow>
     (\<exists>m\<in>set mails. \<exists>raw n. holds_token m t raw \<and> bc n raw = Inr (pt_Token t))"

definition counted :: "nat \<Rightarrow> uint list \<Rightarrow> bool" where
  "counted n ids \<longleftrightarrow> n < 2 ^ 63 \<and> distinct ids \<and> (\<forall>i\<in>set ids. 0 < unat i \<and> unat i \<le> n)"

definition users_ok :: "hashing \<Rightarrow> nat \<Rightarrow> account list \<Rightarrow> bool" where
  "users_ok bc n users \<longleftrightarrow>
     counted n (map us_ID users) \<and> distinct (map us_Email users) \<and> (\<forall>a\<in>set users. hashed_password bc a)"

definition tokens_ok :: "hashing \<Rightarrow> nat \<Rightarrow> mail list \<Rightarrow> pw_reset_token list \<Rightarrow> bool" where
  "tokens_ok bc n mails tokens \<longleftrightarrow>
     counted n (map pt_ID tokens) \<and> (\<forall>t\<in>set tokens. mailed_token bc mails t \<and> pt_Expiry t \<noteq> None)"

definition accounts_ok :: "hashing \<Rightarrow> account_db \<Rightarrow> bool" where
  "accounts_ok bc db \<longleftrightarrow>
     users_ok bc (ad_user_seq db) (ad_users db) \<and> tokens_ok bc (ad_token_seq db) (ad_mails db) (ad_tokens db)"

lemma counted_append:
  assumes "counted n ids" and "next_id n = Some i"
  shows "counted (n + 1) (ids @ [i])"
proof -
  have n: "n + 1 < 2 ^ 63" and i: "i = word_of_nat (n + 1)"
    using assms(2) by (auto simp: next_id_def split: if_splits)
  have "unat i = n + 1" unfolding i unat_of_nat using n by (intro mod_less) simp
  then show ?thesis using assms(1) n by (fastforce simp: counted_def)
qed

lemma counted_nonzero: "counted n ids \<Longrightarrow> i \<in> set ids \<Longrightarrow> i \<noteq> 0"
  by (auto simp: counted_def)

lemma same_key: "distinct (map f xs) \<Longrightarrow> x \<in> set xs \<Longrightarrow> y \<in> set xs \<Longrightarrow> f x = f y \<Longrightarrow> x = y"
  by (auto simp: distinct_map dest: inj_onD)

lemma mailed_token_more: "mailed_token bc mails t \<Longrightarrow> mailed_token bc (mails @ ms) t"
  by (auto simp: mailed_token_def)

lemma tokens_ok_mail: "tokens_ok bc n mails tokens \<Longrightarrow> tokens_ok bc n (mails @ [m]) tokens"
  by (simp add: tokens_ok_def mailed_token_more)

lemma users_ok_append:
  "users_ok bc n users \<Longrightarrow> next_id n = Some (us_ID a) \<Longrightarrow> us_Email a \<notin> us_Email ` set users \<Longrightarrow>
   hashed_password bc a \<Longrightarrow> users_ok bc (n + 1) (users @ [a])"
  using counted_append [of n "map us_ID users" "us_ID a"] by (simp add: users_ok_def)

lemma tokens_ok_append:
  "tokens_ok bc n mails tokens \<Longrightarrow> next_id n = Some (pt_ID t) \<Longrightarrow> mailed_token bc mails t \<Longrightarrow>
   pt_Expiry t \<noteq> None \<Longrightarrow> tokens_ok bc (n + 1) mails (tokens @ [t])"
  using counted_append [of n "map pt_ID tokens" "pt_ID t"] by (simp add: tokens_ok_def)

lemma users_ok_map:
  assumes "users_ok bc n users"
    and "\<And>a. a \<in> set users \<Longrightarrow> us_ID (g a) = us_ID a \<and> us_Email (g a) = us_Email a \<and> hashed_password bc (g a)"
  shows "users_ok bc n (map g users)"
proof -
  have "map us_ID (map g users) = map us_ID users" "map us_Email (map g users) = map us_Email users"
    using assms(2) by (induction users) auto
  then show ?thesis using assms by (simp add: users_ok_def del: map_map)
qed

lemma tokens_ok_map:
  assumes "tokens_ok bc n mails tokens"
    and "\<And>t. t \<in> set tokens \<Longrightarrow> pt_ID (g t) = pt_ID t \<and> mailed_token bc mails (g t) \<and> pt_Expiry (g t) \<noteq> None"
  shows "tokens_ok bc n mails (map g tokens)"
proof -
  have "map pt_ID (map g tokens) = map pt_ID tokens" using assms(2) by (induction tokens) auto
  then show ?thesis using assms by (simp add: tokens_ok_def del: map_map)
qed

lemma user_saved_keys:
  "user_saved w db op a a' \<Longrightarrow> us_ID a' = us_ID a \<and> us_Email a' = us_Email a \<and> ac_Deleted a' = ac_Deleted a"
  by (auto elim: user_saved.cases)

lemma user_saved_hashed:
  "user_saved w db op a a' \<Longrightarrow> hashed_password (aw_hash w) a \<Longrightarrow> hashed_password (aw_hash w) a'"
  by (auto elim!: user_saved.cases simp: hashed_password_def)

lemma user_made_hashed: "user_made w db op a \<Longrightarrow> hashed_password (aw_hash w) a"
  by (auto elim!: user_made.cases simp: hashed_password_def)

lemma users_ok_save:
  assumes ok: "users_ok (aw_hash w) n users" and a: "a \<in> set users" and saved: "user_saved w db op a a'"
  shows "users_ok (aw_hash w) n (save_account users a')"
  unfolding save_account_def
proof (rule users_ok_map [OF ok])
  fix x assume "x \<in> set users"
  moreover from this have "us_ID x = us_ID a' \<Longrightarrow> x = a"
    using ok a user_saved_keys [OF saved] same_key [of us_ID users x a] by (simp add: users_ok_def counted_def)
  moreover have "hashed_password (aw_hash w) a'"
    using user_saved_hashed [OF saved] ok a by (simp add: users_ok_def)
  ultimately show "us_ID (if us_ID x = us_ID a' then a' else x) = us_ID x \<and>
      us_Email (if us_ID x = us_ID a' then a' else x) = us_Email x \<and>
      hashed_password (aw_hash w) (if us_ID x = us_ID a' then a' else x)"
    using ok user_saved_keys [OF saved] by (auto simp: users_ok_def)
qed

lemma tokens_ok_spend:
  assumes ok: "tokens_ok bc n mails tokens" and t: "t \<in> set tokens"
  shows "tokens_ok bc n mails (map (\<lambda>x. if pt_ID x = pt_ID t then t\<lparr>pt_IsValid := False\<rparr> else x) tokens)"
proof (rule tokens_ok_map [OF ok])
  fix x assume x: "x \<in> set tokens"
  have "mailed_token bc mails (t\<lparr>pt_IsValid := False\<rparr>)"
    using ok t by (simp add: tokens_ok_def mailed_token_def holds_token_def)
  then show "pt_ID (if pt_ID x = pt_ID t then t\<lparr>pt_IsValid := False\<rparr> else x) = pt_ID x \<and>
      mailed_token bc mails (if pt_ID x = pt_ID t then t\<lparr>pt_IsValid := False\<rparr> else x) \<and>
      pt_Expiry (if pt_ID x = pt_ID t then t\<lparr>pt_IsValid := False\<rparr> else x) \<noteq> None"
    using ok t x by (simp add: tokens_ok_def)
qed

lemma account_change_ok:
  assumes "account_change w op db d" and "accounts_ok (aw_hash w) db"
  shows "accounts_ok (aw_hash w) d"
  using assms
proof (induction rule: account_change.induct)
  case (ch_issue db t n raw m)
  then have "mailed_token (aw_hash w) (ad_mails db @ [m]) t" by (auto simp: mailed_token_def)
  then show ?case using ch_issue tokens_ok_append [of "aw_hash w" _ "ad_mails db @ [m]" "ad_tokens db" t]
    by (simp add: accounts_ok_def tokens_ok_mail)
next
  case (ch_insert db a)
  then show ?case using users_ok_append [of "aw_hash w" _ "ad_users db" a] user_made_hashed [of w db op a]
    by (simp add: accounts_ok_def insert_account_def)
next
  case (ch_save a db a')
  then show ?case using users_ok_save [of w _ "ad_users db" a db op a'] by (simp add: accounts_ok_def live_users_def)
next
  case (ch_delete b a db)
  have "users_ok (aw_hash w) (ad_user_seq db)
      (map (\<lambda>x. if us_ID x = us_ID a then x\<lparr>ac_Deleted := True\<rparr> else x) (ad_users db))"
    using ch_delete.prems by (intro users_ok_map) (auto simp: accounts_ok_def users_ok_def hashed_password_def)
  then show ?case using ch_delete.prems by (simp add: accounts_ok_def)
next
  case (ch_spend t db)
  then show ?case by (simp add: accounts_ok_def tokens_ok_spend)
qed (simp_all add: accounts_ok_def tokens_ok_mail)

lemma reaches_ok: "reaches w op db d \<Longrightarrow> accounts_ok (aw_hash w) db \<Longrightarrow> accounts_ok (aw_hash w) d"
  by (induction rule: rtranclp_induct) (auto intro: account_change_ok)

lemma accounts_ok_ids: "accounts_ok bc db \<Longrightarrow> \<forall>x\<in>set (ad_users db). us_ID x \<noteq> 0"
  using counted_nonzero [of "ad_user_seq db" "map us_ID (ad_users db)"] by (auto simp: accounts_ok_def users_ok_def)

lemma account_step_ok:
  assumes "account_step db w op db'" and "accounts_ok (aw_hash w) db"
  shows "accounts_ok (aw_hash w) db'"
  using reaches_ok [OF account_step_reaches [OF assms(1) accounts_ok_ids [OF assms(2)]] assms(2)] .

section \<open>Reachable tables\<close>

text \<open>No account and no session at first; bcrypt stays the same.\<close>

definition no_accounts :: "account_db \<Rightarrow> bool" where
  "no_accounts db \<longleftrightarrow> ad_users db = [] \<and> ad_user_seq db = 0 \<and> ad_tokens db = [] \<and> ad_token_seq db = 0 \<and>
     ad_codes db = [] \<and> (\<forall>b. se_authenticated (ad_sessions db b) = None)"

inductive reachable_accounts :: "hashing \<Rightarrow> account_db \<Rightarrow> bool" for bc where
  reachable_no_accounts: "no_accounts db \<Longrightarrow> reachable_accounts bc db"
| reachable_account_step: "reachable_accounts bc db \<Longrightarrow> account_step db w op db' \<Longrightarrow> aw_hash w = bc \<Longrightarrow>
    reachable_accounts bc db'"

lemma reachable_ok_accounts: "reachable_accounts bc db \<Longrightarrow> accounts_ok bc db"
proof (induction rule: reachable_accounts.induct)
  case (reachable_no_accounts db)
  then show ?case
    by (simp add: no_accounts_def accounts_ok_def users_ok_def tokens_ok_def counted_def)
next
  case (reachable_account_step db w op db')
  then show ?case using account_step_ok by blast
qed

text \<open>
  C39. In every reachable state of the accounts no two users share an id or an email, deleted ones
  included; every stored password is empty or a bcrypt hash; and every stored token is the hash of a
  text that was sent to the token's email.
\<close>

theorem reachable_accounts_ok:
  assumes "reachable_accounts bc db"
  shows "distinct (map us_ID (ad_users db)) \<and> distinct (map us_Email (ad_users db)) \<and>
    (\<forall>a\<in>set (ad_users db). ac_Password a = [] \<or> (\<exists>n password. bc n password = Inr (ac_Password a))) \<and>
    (\<forall>t\<in>set (ad_tokens db). \<exists>m\<in>set (ad_mails db). \<exists>raw n.
       ml_To m = pt_Email t \<and> (''token'', raw) \<in> set (ml_Query m) \<and> bc n raw = Inr (pt_Token t))"
  using reachable_ok_accounts [OF assms]
  by (auto simp: accounts_ok_def users_ok_def tokens_ok_def counted_def hashed_password_def mailed_token_def
      holds_token_def) blast

section \<open>Tokens\<close>

lemma valid_before:
  assumes "reaches w op db d" "\<not> issues_token op" "t \<in> set (ad_tokens d)" "pt_IsValid t"
  shows "t \<in> set (ad_tokens db)"
  using assms
proof (induction arbitrary: t rule: rtranclp_induct)
  case (step d d')
  from step.hyps(2) step.prems have "t \<in> set (ad_tokens d)"
    by (induction rule: account_change.induct) (auto simp: insert_account_def split: if_splits)
  then show ?case using step by blast
qed simp

lemma accepted_before:
  "reaches w op db d \<Longrightarrow> \<not> issues_token op \<Longrightarrow> token_accepted w d request email t \<Longrightarrow>
   token_accepted w db request email t"
  by (auto simp: token_accepted_def valid_before)

lemma user_made_before: "reaches w op db d \<Longrightarrow> user_made w d op a \<Longrightarrow> user_made w db op a"
  by (auto elim!: user_made.cases intro: user_made.intros dest: accepted_before)

section \<open>What becomes of the users\<close>

lemma image_map_same: "(\<And>x. f (g x) = f x) \<Longrightarrow> f ` set (map g xs) = f ` set xs"
  by (simp add: image_image)

lemma account_change_ids: "account_change w op db d \<Longrightarrow> us_ID ` set (ad_users db) \<subseteq> us_ID ` set (ad_users d)"
proof (induction rule: account_change.induct)
  case (ch_save a db a')
  show ?case using image_map_same [of us_ID "\<lambda>x. if us_ID x = us_ID a' then a' else x" "ad_users db"]
    by (simp add: save_account_def)
next
  case (ch_delete b a db)
  show ?case using image_map_same [of us_ID "\<lambda>x. if us_ID x = us_ID a then x\<lparr>ac_Deleted := True\<rparr> else x" "ad_users db"]
    by simp
qed (auto simp: insert_account_def)

lemma reaches_ids: "reaches w op db d \<Longrightarrow> us_ID ` set (ad_users db) \<subseteq> us_ID ` set (ad_users d)"
proof (induction rule: rtranclp_induct)
  case (step d d')
  show ?case using step.IH account_change_ids [OF step.hyps(2)] by (rule order_trans)
qed simp

lemma next_id_fresh: "counted n ids \<Longrightarrow> next_id n = Some i \<Longrightarrow> i \<notin> set ids"
  using counted_append [of n ids i] by (simp add: counted_def)

text \<open>A password set by this operation, with a token of the user's email; and an email verified by it.\<close>

definition password_reset :: "account_world \<Rightarrow> account_op \<Rightarrow> account_db \<Rightarrow> account \<Rightarrow> bool" where
  "password_reset w op db a \<longleftrightarrow>
     (\<exists>request t n. op = FinalizeResetOp (Inr request) \<and> rr_Email request = us_Email a \<and>
        token_accepted w db (rr_token request) (us_Email a) t \<and> aw_hash w n (rr_NewPassword request) = Inr (ac_Password a))"

definition email_verified :: "account_world \<Rightarrow> account_op \<Rightarrow> account_db \<Rightarrow> account \<Rightarrow> bool" where
  "email_verified w op db a \<longleftrightarrow>
     (\<exists>x request t. op = VerifyEmailFinalizeOp x (Inr request) \<and> us_Email x = us_Email a \<and>
        token_accepted w db request (us_Email a) t)"

definition kept_user :: "account_world \<Rightarrow> account_op \<Rightarrow> account_db \<Rightarrow> account \<Rightarrow> account \<Rightarrow> bool" where
  "kept_user w op db a a' \<longleftrightarrow>
     us_ID a' = us_ID a \<and> us_Email a' = us_Email a \<and> (ac_Deleted a \<longrightarrow> ac_Deleted a') \<and>
     (ac_Password a' = ac_Password a \<or> password_reset w op db a') \<and>
     (us_EmailVerified a' = us_EmailVerified a \<or> email_verified w op db a')"

definition traced :: "account_world \<Rightarrow> account_op \<Rightarrow> account_db \<Rightarrow> account \<Rightarrow> bool" where
  "traced w op db a' \<longleftrightarrow>
     (\<exists>a\<in>set (ad_users db). kept_user w op db a a') \<or>
     (us_ID a' \<notin> us_ID ` set (ad_users db) \<and> (\<exists>a. user_made w db op a \<and> kept_user w op db a a'))"

lemma kept_user_refl: "kept_user w op db a a"
  by (simp add: kept_user_def)

lemma traced_kept:
  assumes "traced w op db a'" and "\<And>a. kept_user w op db a a' \<Longrightarrow> kept_user w op db a a''" and "us_ID a'' = us_ID a'"
  shows "traced w op db a''"
  using assms unfolding traced_def by auto

lemma user_saved_kept:
  assumes "reaches w op db d" "user_saved w d op a' a''" "kept_user w op db a a'"
  shows "kept_user w op db a a''"
  using assms(2)
proof cases
  case (saved_password request t n hashed)
  then have "password_reset w op db a''"
    using accepted_before [OF assms(1), of "rr_token request"] by (auto simp: password_reset_def)
  then show ?thesis using assms(3) saved_password by (auto simp: kept_user_def email_verified_def)
next
  case (saved_verified request t)
  then have "email_verified w op db a''"
    using accepted_before [OF assms(1), of request] by (auto simp: email_verified_def)
  then show ?thesis using assms(3) saved_verified by (auto simp: kept_user_def password_reset_def)
qed

lemma reaches_traced:
  assumes "reaches w op db d" and "accounts_ok (aw_hash w) db"
  shows "\<forall>a\<in>set (ad_users d). traced w op db a"
  using assms
proof (induction rule: rtranclp_induct)
  case base
  then show ?case unfolding traced_def by (blast intro: kept_user_refl)
next
  case (step d d')
  note traced = step.IH [OF step.prems]
  note ok = reaches_ok [OF step.hyps(1) step.prems]
  from step.hyps(2) show ?case
  proof cases
    case (ch_insert a)
    have "us_ID a \<notin> us_ID ` set (ad_users d)"
      using next_id_fresh [of _ "map us_ID (ad_users d)"] ok ch_insert(2) by (auto simp: accounts_ok_def users_ok_def)
    then have "us_ID a \<notin> us_ID ` set (ad_users db)" using reaches_ids [OF step.hyps(1)] by auto
    moreover have "user_made w db op a" using user_made_before [OF step.hyps(1)] ch_insert by simp
    ultimately have "traced w op db a" using kept_user_refl by (auto simp: traced_def)
    then show ?thesis using traced ch_insert(1) by (simp add: insert_account_def)
  next
    case (ch_save a a')
    have "a \<in> set (ad_users d)" using ch_save by (simp add: live_users_def)
    then have "traced w op db a'"
      using traced user_saved_kept [OF step.hyps(1) ch_save(3)] user_saved_keys [OF ch_save(3)] traced_kept by blast
    then show ?thesis using traced ch_save(1) by (auto simp: save_account_def)
  next
    case (ch_delete b a)
    have "traced w op db (x\<lparr>ac_Deleted := True\<rparr>)" if "x \<in> set (ad_users d)" for x
      using bspec [OF traced that] by (rule traced_kept) (auto simp: kept_user_def password_reset_def email_verified_def)
    then show ?thesis using traced ch_delete(1) by auto
  qed (use traced in simp_all)
qed

lemma step_traced:
  assumes "reachable_accounts bc db" "account_step db w op db'" "aw_hash w = bc" "a \<in> set (ad_users db')"
  shows "traced w op db a"
proof -
  have ok: "accounts_ok (aw_hash w) db" using reachable_ok_accounts assms(1,3) by blast
  show ?thesis
    using reaches_traced [OF account_step_reaches [OF assms(2) accounts_ok_ids [OF ok]] ok] assms(4) by blast
qed

lemma accepted_mailed:
  assumes "reachable_accounts bc db" "token_accepted w db request email t"
  obtains m raw n where "m \<in> set (ad_mails db)" "ml_To m = email" "(''token'', raw) \<in> set (ml_Query m)"
    "(''token_id'', show_nat (unat (fst request))) \<in> set (ml_Query m)" "bc n raw = Inr (pt_Token t)"
  using reachable_ok_accounts [OF assms(1)] assms(2)
  by (auto simp: accounts_ok_def tokens_ok_def token_accepted_def mailed_token_def holds_token_def)

text \<open>
  C10. A stored password changes only by finishing a reset of the user's email: with a stored token of
  that email that is valid and not expired, whose hash accepts the presented text, and which was
  issued with a mail to that email; the new password is the hash of the one the request gave.
\<close>

theorem passwords_change_by_mail:
  assumes "reachable_accounts bc db" "account_step db w op db'" "aw_hash w = bc"
    and "a \<in> set (ad_users db)" "a' \<in> set (ad_users db')" "us_ID a' = us_ID a" "ac_Password a' \<noteq> ac_Password a"
  shows "\<exists>request t m raw n k.
    op = FinalizeResetOp (Inr request) \<and> rr_Email request = us_Email a \<and>
    t \<in> set (ad_tokens db) \<and> pt_ID t = fst (rr_token request) \<and> pt_Email t = us_Email a \<and> pt_IsValid t \<and>
    (\<exists>expiry. pt_Expiry t = Some expiry \<and> aw_now w \<le> expiry) \<and>
    aw_compare w (pt_Token t) (snd (rr_token request)) = None \<and>
    m \<in> set (ad_mails db) \<and> ml_To m = us_Email a \<and> (''token'', raw) \<in> set (ml_Query m) \<and>
    bc n raw = Inr (pt_Token t) \<and> bc k (rr_NewPassword request) = Inr (ac_Password a')"
proof -
  have "distinct (map us_ID (ad_users db))"
    using reachable_ok_accounts [OF assms(1)] by (simp add: accounts_ok_def users_ok_def counted_def)
  then have "x = a" if "x \<in> set (ad_users db)" "us_ID x = us_ID a'" for x
    using that assms(4,6) same_key [of us_ID "ad_users db" x a] by simp
  moreover have "us_ID a' \<in> us_ID ` set (ad_users db)" using assms(4,6) by force
  ultimately have "kept_user w op db a a'"
    using step_traced [OF assms(1-3,5)] unfolding traced_def by (metis kept_user_def)
  then have email: "us_Email a' = us_Email a" and "password_reset w op db a'"
    using assms(7) by (simp_all add: kept_user_def)
  then obtain request t k where r: "op = FinalizeResetOp (Inr request)" "rr_Email request = us_Email a"
    and t: "token_accepted w db (rr_token request) (us_Email a) t"
    and k: "aw_hash w k (rr_NewPassword request) = Inr (ac_Password a')"
    unfolding password_reset_def by auto
  obtain m raw n where "m \<in> set (ad_mails db)" "ml_To m = us_Email a" "(''token'', raw) \<in> set (ml_Query m)"
    "bc n raw = Inr (pt_Token t)"
    using accepted_mailed [OF assms(1) t] by metis
  then show ?thesis using r t k assms(3) unfolding token_accepted_def by blast
qed


section \<open>Sessions\<close>

lemma login_ok_keeps_live:
  assumes "account_change w op d d'" "login_ok w op b a"
  shows "set (live_users d) \<subseteq> set (live_users d')"
  using assms
  by (induction rule: account_change.induct)
    (auto simp: live_users_def insert_account_def elim: user_saved.cases login_ok.cases)

definition signed_in :: "account_db \<Rightarrow> string \<Rightarrow> uint \<Rightarrow> bool" where
  "signed_in db b i \<longleftrightarrow> se_authenticated (ad_sessions db b) = Some True \<and> se_user_id (ad_sessions db b) = Some i"

lemma oauth_start_authenticated:
  assumes "reaches w (OAuthStartOp b' ctx q) db d"
  shows "se_authenticated (ad_sessions d b) = Some True \<Longrightarrow> se_authenticated (ad_sessions db b) = Some True"
  using assms
proof (induction rule: rtranclp_induct)
  case (step d d')
  from step.hyps(2) step.prems have "se_authenticated (ad_sessions d b) = Some True"
  proof cases
    case (ch_session b'' s)
    from ch_session(2) show ?thesis using ch_session(1) step.prems
      by cases (auto simp: fun_upd_def elim: login_ok.cases split: if_splits)
  qed (simp_all add: insert_account_def)
  then show ?case by (rule step.IH)
qed simp

definition signed_in_by :: "account_world \<Rightarrow> account_op \<Rightarrow> account_db \<Rightarrow> account_db \<Rightarrow> string \<Rightarrow> uint \<Rightarrow> bool" where
  "signed_in_by w op db d b i \<longleftrightarrow>
     signed_in db b i \<or> (\<exists>a\<in>set (live_users d). us_ID a = i \<and> login_ok w op b a) \<or>
     (\<exists>a q. op = OAuthStartOp b (Some a) q \<and> us_ID a = i \<and> se_authenticated (ad_sessions db b) = Some True)"

lemma reaches_signed_in:
  "reaches w op db d \<Longrightarrow> signed_in d b i \<Longrightarrow> signed_in_by w op db d b i"
proof (induction rule: rtranclp_induct)
  case base
  then show ?case by (simp add: signed_in_by_def)
next
  case (step d d')
  have later: "signed_in_by w op db d' b i" if "signed_in_by w op db d b i"
    using that login_ok_keeps_live [OF step.hyps(2)] unfolding signed_in_by_def by blast
  from step.hyps(2) show ?case
  proof cases
    case (ch_session b' s)
    show ?thesis
    proof (cases "b' = b")
      case True
      from ch_session(2) show ?thesis
      proof cases
        case (session_login a)
        then show ?thesis using step.prems ch_session(1) True
          by (auto simp: signed_in_def signed_in_by_def live_users_def)
      next
        case session_logout
        then show ?thesis using step.prems ch_session(1) True by (simp add: signed_in_def)
      next
        case (session_start ctx q)
        have authenticated: "se_authenticated (ad_sessions d b) = Some True"
          using step.prems ch_session(1) session_start(2) True by (simp add: signed_in_def)
        then have "se_authenticated (ad_sessions db b) = Some True"
          using oauth_start_authenticated step.hyps(1) session_start(1) by blast
        moreover have "signed_in d b i \<or> (\<exists>a. ctx = Some a \<and> us_ID a = i)"
          using step.prems ch_session(1) session_start True by (auto simp: signed_in_def)
        ultimately show ?thesis using step.IH later session_start(1) True by (auto simp: signed_in_by_def)
      qed
    next
      case False
      then show ?thesis using step.prems step.IH later ch_session(1) by (simp add: signed_in_def)
    qed
  qed (use step.prems step.IH later in \<open>simp_all add: signed_in_def insert_account_def\<close>)
qed

definition email_allowed :: "account_world \<Rightarrow> string \<Rightarrow> bool" where
  "email_allowed w email \<longleftrightarrow> aw_AdminEmail w = [] \<or> aw_AdminEmail w = email"

text \<open>
  C9. A browser's session becomes that of a user only by creating that user, by giving the password
  that the user's hash accepts, or by a provider vouching for the user's GitHub or Google id; or, when
  it was signed in before, by starting an integration's OAuth flow as that user. An instance with an
  admin email lets no other email in, except through GitHub.
\<close>

theorem sessions_need_login:
  assumes "reachable_accounts bc db" "account_step db w op db'" "aw_hash w = bc"
    and "signed_in db' b i" "\<not> signed_in db b i"
  shows "(\<exists>a\<in>set (live_users db'). us_ID a = i \<and>
      ((\<exists>password n. op = CreateUserOp b (Inr (us_Email a, password)) \<and> bc n password = Inr (ac_Password a) \<and>
          email_allowed w (us_Email a)) \<or>
       (\<exists>password. op = LoginOp b (Inr (us_Email a, password)) \<and> aw_compare w (ac_Password a) password = None \<and>
          email_allowed w (us_Email a)) \<or>
       (\<exists>state code. op = GithubCallbackOp b state code \<and> claims_github w code (ac_GithubUserID a)) \<or>
       (\<exists>state code g. op = GoogleCallbackOp b state code \<and> claims_google w code g \<and>
          gi_Sub g = ac_GoogleUserID a \<and> email_allowed w (gi_Email g)))) \<or>
    (\<exists>a q. op = OAuthStartOp b (Some a) q \<and> us_ID a = i \<and> se_authenticated (ad_sessions db b) = Some True)"
proof -
  have ok: "accounts_ok (aw_hash w) db" using reachable_ok_accounts assms(1,3) by blast
  have "signed_in_by w op db db' b i"
    using reaches_signed_in [OF account_step_reaches [OF assms(2) accounts_ok_ids [OF ok]] assms(4)] .
  then consider (login) a where "a \<in> set (live_users db')" "us_ID a = i" "login_ok w op b a"
    | (start) "\<exists>a q. op = OAuthStartOp b (Some a) q \<and> us_ID a = i \<and> se_authenticated (ad_sessions db b) = Some True"
    using assms(5) unfolding signed_in_by_def by blast
  then show ?thesis
  proof cases
    case login
    from login(3) show ?thesis
    proof cases
      case (ok_google code g state)
      then show ?thesis using login(1,2) unfolding email_allowed_def checked by metis
    qed (use login(1,2) assms(3) in \<open>auto simp: email_allowed_def\<close>)
  qed blast
qed

end
