(* ===== verification/Account_Recovery.thy ===== *)
theory Account_Recovery
  imports Account_Safety Authn
begin

text \<open>
  Recovering an account, and what the accounts' handlers do in states and for answers they were not
  written for: a token resets one password, a lost password can be recovered through the mail, and the
  mail that verifies an email can do the same; deleted emails; logins through GitHub and Google that no
  check holds back; and the sessions that the authentication middleware accepts.
\<close>

section \<open>Later states\<close>

definition account_next :: "hashing \<Rightarrow> account_db \<Rightarrow> account_db \<Rightarrow> bool" where
  "account_next bc db db' \<longleftrightarrow> (\<exists>w op. aw_hash w = bc \<and> account_step db w op db')"

definition later_accounts :: "hashing \<Rightarrow> account_db \<Rightarrow> account_db \<Rightarrow> bool" where
  "later_accounts bc = rtranclp (account_next bc)"

lemma later_reachable: "reachable_accounts bc db \<Longrightarrow> later_accounts bc db db' \<Longrightarrow> reachable_accounts bc db'"
  unfolding later_accounts_def
  by (rotate_tac, induction rule: rtranclp_induct) (auto simp: account_next_def intro: reachable_account_step)

text \<open>What every single change keeps, every later state keeps.\<close>

lemma later_keeps:
  assumes "reachable_accounts bc db" "later_accounts bc db db'" "P db"
    and "\<And>w op d d'. accounts_ok (aw_hash w) d \<Longrightarrow> account_change w op d d' \<Longrightarrow> P d \<Longrightarrow> P d'"
  shows "P db'"
  using assms(2) unfolding later_accounts_def
proof (induction rule: rtranclp_induct)
  case base
  show ?case by (rule assms(3))
next
  case (step d d')
  obtain w op where w: "aw_hash w = bc" "account_step d w op d'" using step.hyps(2) by (auto simp: account_next_def)
  have ok: "accounts_ok (aw_hash w) d"
    using later_reachable [OF assms(1)] step.hyps(1) w(1) reachable_ok_accounts unfolding later_accounts_def by blast
  from account_step_reaches [OF w(2) accounts_ok_ids [OF ok]] ok step.IH show ?case
    by (induction rule: converse_rtranclp_induct) (auto intro: assms(4) account_change_ok)
qed

section \<open>A token resets one password\<close>

definition spent :: "account_db \<Rightarrow> uint \<Rightarrow> bool" where
  "spent db i \<longleftrightarrow> (\<exists>t\<in>set (ad_tokens db). pt_ID t = i \<and> \<not> pt_IsValid t)"

lemma account_change_spent: "account_change w op db d \<Longrightarrow> spent db i \<Longrightarrow> spent d i"
proof (induction rule: account_change.induct)
  case (ch_spend t db)
  then obtain x where "x \<in> set (ad_tokens db)" "pt_ID x = i" "\<not> pt_IsValid x" by (auto simp: spent_def)
  then show ?case unfolding spent_def
    by (intro bexI [of _ "if pt_ID x = pt_ID t then t\<lparr>pt_IsValid := False\<rparr> else x"]) auto
qed (auto simp: spent_def insert_account_def)

lemma spent_refused:
  assumes "accounts_ok bc db" "spent db (fst request)"
  shows "\<exists>e. VerifyToken w db request email = Some (Inl e)"
proof (cases "ReadPWResetToken w db (fst request)")
  case (Inl e)
  then show ?thesis by (cases e) (simp_all add: VerifyToken_def)
next
  case (Inr t)
  then have t: "t \<in> set (ad_tokens db)" "pt_ID t = fst request"
    using faulty_first_Inr [of "aw_read_token w" "ad_tokens db" "\<lambda>t. pt_ID t = fst request" t]
    by (simp_all add: ReadPWResetToken_def)
  obtain x where x: "x \<in> set (ad_tokens db)" "pt_ID x = fst request" "\<not> pt_IsValid x"
    using assms(2) by (auto simp: spent_def)
  have "distinct (map pt_ID (ad_tokens db))" and "pt_Expiry t \<noteq> None"
    using assms(1) t(1) by (simp_all add: accounts_ok_def tokens_ok_def counted_def)
  moreover from this have "t = x" using same_key [of pt_ID "ad_tokens db" t x] t x by simp
  ultimately have "\<not> pt_IsValid t" "pt_Expiry t \<noteq> None" using x by simp_all
  then show ?thesis using Inr by (auto simp: VerifyToken_def PWResetTokenIsExpired_def)
qed

lemma or_internal_200:
  "or_internal r next = (d, [WroteStatus s], p) \<Longrightarrow> \<exists>d1 x. r = (d1, Inr x) \<and> next d1 x = (d, [WroteStatus s], p)"
  by (auto simp: or_internal_def refuse_def split: prod.splits sum.splits)

lemma UpdatePWResetToken_spends:
  assumes "UpdatePWResetToken w db (t\<lparr>pt_IsValid := False\<rparr>) = (db', None)" "t \<in> set (ad_tokens db)"
  shows "spent db' (pt_ID t)"
proof -
  have "t\<lparr>pt_IsValid := False\<rparr> \<in> set (ad_tokens db')"
    using assms by (force simp: UpdatePWResetToken_def split: option.splits)
  then show ?thesis unfolding spent_def by (intro bexI [of _ "t\<lparr>pt_IsValid := False\<rparr>"]) simp_all
qed

lemma FinalizeReset_spends:
  assumes "UserPasswordFinalizeResetHandler w db (Inr request) = (db', [WroteStatus 200], p)"
  shows "spent db' (fst (rr_token request))"
proof -
  obtain t where t: "VerifyToken w db (rr_token request) (rr_Email request) = Some (Inr t)"
    using assms by (auto simp: UserPasswordFinalizeResetHandler_def on_decoded_def on_verified_def refuse_def crashed_def
        split: option.splits sum.splits)
  obtain a where a: "ReadUserByEmail w db (rr_Email request) = Inr a"
    using assms t by (auto simp: UserPasswordFinalizeResetHandler_def on_decoded_def on_verified_def refuse_def
        split: go_error.splits sum.splits)
  have "or_internal (GenerateFromPassword w db (rr_NewPassword request)) (\<lambda>db hashedPW.
         or_internal (UpdateUser w db (a\<lparr>ac_Password := hashedPW\<rparr>)) (\<lambda>db _.
         or_internal (done_or (UpdatePWResetToken w db (t\<lparr>pt_IsValid := False\<rparr>))) (\<lambda>db _.
         answer db [WroteStatus 200]))) = (db', [WroteStatus 200], p)"
    using assms t a by (simp add: UserPasswordFinalizeResetHandler_def on_decoded_def on_verified_def)
  from or_internal_200 [OF this] obtain d1 h where 1: "GenerateFromPassword w db (rr_NewPassword request) = (d1, Inr h)"
    and r1: "or_internal (UpdateUser w d1 (a\<lparr>ac_Password := h\<rparr>)) (\<lambda>db _.
         or_internal (done_or (UpdatePWResetToken w db (t\<lparr>pt_IsValid := False\<rparr>))) (\<lambda>db _.
         answer db [WroteStatus 200])) = (db', [WroteStatus 200], p)"
    by blast
  obtain d2 a2 where 2: "UpdateUser w d1 (a\<lparr>ac_Password := h\<rparr>) = (d2, Inr a2)"
    and r2: "or_internal (done_or (UpdatePWResetToken w d2 (t\<lparr>pt_IsValid := False\<rparr>))) (\<lambda>db _.
         answer db [WroteStatus 200]) = (db', [WroteStatus 200], p)"
    using or_internal_200 [OF r1] by blast
  have "ad_tokens d2 = ad_tokens db"
    using UpdateUser_tokens [of w d1 "a\<lparr>ac_Password := h\<rparr>"] 1 2 by (simp add: GenerateFromPassword_Inr)
  then have "t \<in> set (ad_tokens d2)" "pt_ID t = fst (rr_token request)"
    using VerifyToken_accepted [OF t] by (simp_all add: token_accepted_def)
  moreover have "UpdatePWResetToken w d2 (t\<lparr>pt_IsValid := False\<rparr>) = (db', None)"
    using or_internal_200 [OF r2] by (auto simp: done_or_Inr answer_def)
  ultimately show ?thesis using UpdatePWResetToken_spends by metis
qed

text \<open>
  C18. A token resets a password once: after a reset that was answered with 200, no request in any
  later state can use the token again, neither to set a password nor to verify an email; both refuse
  and change nothing.
\<close>

theorem reset_token_once:
  assumes "reachable_accounts bc db" "aw_hash w = bc"
    and "UserPasswordFinalizeResetHandler w db (Inr request) = (db1, [WroteStatus 200], False)"
    and "later_accounts bc db1 db2" "fst (rr_token request') = fst (rr_token request)"
  shows "(\<exists>e. UserPasswordFinalizeResetHandler w' db2 (Inr request') = (db2, [WroteError e], False)) \<and>
    fst (VerifyEmailFinalizeHandler w' db2 a (Inr (rr_token request'))) = db2"
proof -
  have "account_step db w (FinalizeResetOp (Inr request)) db1" using assms(3) by (simp add: account_step_def)
  then have db1: "reachable_accounts bc db1" using assms(1,2) reachable_account_step by blast
  have ok: "accounts_ok bc db2" using reachable_ok_accounts [OF later_reachable [OF db1 assms(4)]] .
  have "spent db2 (fst (rr_token request))"
    using later_keeps [OF db1 assms(4), of "\<lambda>db. spent db (fst (rr_token request))"]
      FinalizeReset_spends [OF assms(3)] account_change_spent by blast
  then have refused: "\<exists>e. VerifyToken w' db2 (rr_token request') email = Some (Inl e)" for email
    using spent_refused [OF ok] assms(5) by simp
  obtain e where "VerifyToken w' db2 (rr_token request') (rr_Email request') = Some (Inl e)" using refused by blast
  moreover obtain e' where "VerifyToken w' db2 (rr_token request') (us_Email a) = Some (Inl e')" using refused by blast
  ultimately show ?thesis
    by (simp add: UserPasswordFinalizeResetHandler_def on_decoded_def on_verified_def refuse_def VerifyEmailFinalizeHandler_def)
qed

section \<open>Recovering a password\<close>

text \<open>Nothing fails, and bcrypt accepts what it hashed.\<close>

definition nothing_fails :: "account_world \<Rightarrow> bool" where
  "nothing_fails w \<longleftrightarrow>
     (\<forall>q. aw_read_user w q = None) \<and> aw_create_user w = None \<and> aw_update_user w = None \<and>
     aw_create_token w = None \<and> aw_read_token w = None \<and> aw_update_token w = None \<and>
     aw_store_get w = None \<and> aw_store_save w = None \<and> (\<forall>m. aw_notify w m = None) \<and>
     (\<forall>n k. \<exists>x. aw_rand_int w n k = Inr x) \<and> (\<forall>n p. \<exists>h. aw_hash w n p = Inr h)"

definition bcrypt_accepts :: "account_world \<Rightarrow> bool" where
  "bcrypt_accepts w \<longleftrightarrow> (\<forall>n p h. aw_hash w n p = Inr h \<longrightarrow> aw_compare w h p = None)"

lemma random_letters_Inr:
  "(\<And>n k. \<exists>x. rand n k = Inr x) \<Longrightarrow> \<exists>raw m. random_letters rand letters k n = (Inr raw, m)"
proof (induction k arbitrary: n)
  case (Suc k)
  obtain x where "rand n (length letters) = Inr x" using Suc.prems by blast
  moreover obtain raw m where "random_letters rand letters k (n + 1) = (Inr raw, m)" using Suc by blast
  ultimately show ?case by simp
qed simp

text \<open>A token issued when nothing fails.\<close>

definition issued_token :: "account_world \<Rightarrow> account_db \<Rightarrow> account_db \<Rightarrow> string \<Rightarrow> pw_reset_token \<Rightarrow> string \<Rightarrow> bool" where
  "issued_token w db d email t raw \<longleftrightarrow>
     ad_users d = ad_users db \<and> ad_tokens d = ad_tokens db @ [t] \<and>
     pt_Email t = email \<and> pt_IsValid t \<and> pt_Expiry t = Some (aw_now w + 30 * 60) \<and>
     (\<exists>n. aw_hash w n raw = Inr (pt_Token t)) \<and> pt_ID t \<notin> pt_ID ` set (ad_tokens db)"

lemma CreatePWResetTokenForEmail_issues:
  assumes ok: "accounts_ok bc db" and w: "nothing_fails w" and room: "next_id (ad_token_seq db) \<noteq> None"
  shows "\<exists>d t raw. CreatePWResetTokenForEmail w db email = (d, Inr (t, raw)) \<and> issued_token w db d email t raw \<and>
    ad_mails d = ad_mails db"
proof -
  obtain raw m where raw: "random_letters (aw_rand_int w) randCharset 32 (ad_draws db) = (Inr raw, m)"
    using random_letters_Inr [of "aw_rand_int w"] w unfolding nothing_fails_def by blast
  obtain h where h: "aw_hash w m raw = Inr h" using w unfolding nothing_fails_def by blast
  obtain i where i: "next_id (ad_token_seq db) = Some i" using room by blast
  have "i \<notin> pt_ID ` set (ad_tokens db)"
    using next_id_fresh [of _ "map pt_ID (ad_tokens db)"] i ok by (auto simp: accounts_ok_def tokens_ok_def)
  then show ?thesis using raw h i w
    by (auto simp: CreatePWResetTokenForEmail_def StringWithCharset_def GenerateFromPassword_def CreatePWResetToken_def
        Let_def nothing_fails_def issued_token_def)
qed

lemma find_last: "P x \<Longrightarrow> \<forall>y\<in>set xs. \<not> P y \<Longrightarrow> find P (xs @ [x]) = Some x"
  by (induction xs) auto

lemma issued_token_verifies:
  assumes "issued_token w db d email t raw" "ad_tokens d' = ad_tokens d"
    and "nothing_fails w2" "bcrypt_accepts w2" "aw_hash w2 = aw_hash w" "aw_now w2 \<le> aw_now w + 30 * 60"
  shows "VerifyToken w2 d' (pt_ID t, raw) email = Some (Inr t)"
proof -
  have "find (\<lambda>x. pt_ID x = pt_ID t) (ad_tokens d) = Some t"
    using assms(1) unfolding issued_token_def by (metis (mono_tags, lifting) find_last image_eqI)
  then have "ReadPWResetToken w2 d' (pt_ID t) = Inr t"
    using assms(2,3) by (simp add: ReadPWResetToken_def faulty_first_def table_first_def nothing_fails_def)
  then show ?thesis
    using assms by (auto simp: VerifyToken_Inr issued_token_def PWResetTokenIsExpired_def bcrypt_accepts_def)
qed

text \<open>A user is found by the email, and only that one.\<close>

lemma find_key:
  assumes "distinct (map f xs)"
  shows "find (\<lambda>x. f x = k) xs = Some a \<longleftrightarrow> a \<in> set xs \<and> f a = k"
proof
  assume a: "a \<in> set xs \<and> f a = k"
  then have "find (\<lambda>x. f x = k) xs \<noteq> None" by (auto simp: find_None_iff)
  then obtain x where x: "find (\<lambda>x. f x = k) xs = Some x" by blast
  then have "x \<in> set xs" "f x = k" by (auto simp: find_Some_iff)
  then show "find (\<lambda>x. f x = k) xs = Some a" using x a same_key [OF assms, of x a] by simp
qed (auto simp: find_Some_iff)

lemma live_users_distinct:
  assumes "accounts_ok bc db"
  shows "distinct (map us_ID (live_users db))" "distinct (map us_Email (live_users db))"
  using assms by (simp_all add: accounts_ok_def users_ok_def counted_def live_users_def distinct_map_filter)

lemma matches_query_eta:
  "matches_query (ByEmail email) = (\<lambda>a. us_Email a = email)"
  "matches_query (ByGithubUserID i) = (\<lambda>a. ac_GithubUserID a = i)"
  "matches_query (ByGoogleUserID s) = (\<lambda>a. ac_GoogleUserID a = s)"
  by (intro ext, simp)+

lemma ReadUserByEmail_live:
  assumes ok: "accounts_ok bc db" and a: "a \<in> set (live_users db)" and w: "nothing_fails w"
  shows "ReadUserByEmail w db (us_Email a) = Inr a"
proof -
  have "find (\<lambda>x. us_Email x = us_Email a) (live_users db) = Some a"
    using find_key [OF live_users_distinct(2) [OF ok]] a by simp
  then show ?thesis using w
    by (simp add: ReadUserByEmail_def read_user_def faulty_first_def table_first_def nothing_fails_def matches_query_eta)
qed

text \<open>The password that a user has after a reset, and a login with it.\<close>

lemma FinalizeReset_resets:
  assumes ok: "accounts_ok bc d" and a: "a \<in> set (live_users d)"
    and t: "VerifyToken w d (rr_token request) (us_Email a) = Some (Inr t)"
    and w: "nothing_fails w" and email: "rr_Email request = us_Email a"
  shows "\<exists>d' n h. UserPasswordFinalizeResetHandler w d (Inr request) = (d', [WroteStatus 200], False) \<and>
    aw_hash w n (rr_NewPassword request) = Inr h \<and> ad_users d' = save_account (ad_users d) (a\<lparr>ac_Password := h\<rparr>) \<and>
    ad_sessions d' = ad_sessions d"
proof -
  obtain h where h: "aw_hash w (ad_draws d) (rr_NewPassword request) = Inr h" using w unfolding nothing_fails_def by blast
  have "us_ID a \<noteq> 0" using accounts_ok_ids [OF ok] a by (simp add: live_users_def)
  then have "UpdateUser w (d\<lparr>ad_draws := ad_draws d + 1\<rparr>) (a\<lparr>ac_Password := h\<rparr>) =
      (d\<lparr>ad_draws := ad_draws d + 1, ad_users := save_account (ad_users d) (a\<lparr>ac_Password := h\<rparr>)\<rparr>, Inr (a\<lparr>ac_Password := h\<rparr>))"
    using w by (simp add: UpdateUser_def nothing_fails_def)
  then show ?thesis using t email ReadUserByEmail_live [OF ok a w] w h
    by (auto simp: UserPasswordFinalizeResetHandler_def on_decoded_def on_verified_def GenerateFromPassword_def
        or_internal_def done_or_def answer_def UpdatePWResetToken_def nothing_fails_def)
qed

lemma Login_succeeds:
  assumes ok: "accounts_ok bc d" and a: "a \<in> set (live_users d)" and w: "nothing_fails w"
    and "aw_compare w (ac_Password a) password = None" and "email_allowed w (us_Email a)"
  shows "signed_in (fst (UserLoginHandler w d b (Inr (us_Email a, password)))) b (us_ID a)"
proof -
  have "checkUserRestrictions w (us_Email a) = None" using assms(5) by (simp add: email_allowed_def)
  then show ?thesis using ReadUserByEmail_live [OF ok a w] assms(4) w
    by (simp del: checked add: UserLoginHandler_def on_decoded_def logged_in_def or_internal_def SaveUserAuthenticated_def
        StoreGet_def StoreSave_def nothing_fails_def signed_in_def)
qed

definition recovers ::
  "account_world \<Rightarrow> account_world \<Rightarrow> account_db \<Rightarrow> account \<Rightarrow> uint \<times> string \<Rightarrow> string \<Rightarrow> string \<Rightarrow> bool" where
  "recovers w2 w3 d a request new b \<longleftrightarrow>
     (\<exists>d2. UserPasswordFinalizeResetHandler w2 d
        (Inr \<lparr>rr_token = request, rr_Email = us_Email a, rr_NewPassword = new\<rparr>) = (d2, [WroteStatus 200], False) \<and>
      signed_in (fst (UserLoginHandler w3 d2 b (Inr (us_Email a, new)))) b (us_ID a))"

lemma issued_token_recovers:
  assumes reach: "reachable_accounts bc d" and t: "issued_token w db d (us_Email a) t raw"
    and a: "a \<in> set (live_users d)"
    and w2: "nothing_fails w2" "bcrypt_accepts w2" "aw_hash w2 = aw_hash w" "aw_now w2 \<le> aw_now w + 30 * 60"
    and w3: "nothing_fails w3" "bcrypt_accepts w3" "aw_hash w3 = aw_hash w" "email_allowed w3 (us_Email a)"
    and w: "aw_hash w = bc"
  shows "recovers w2 w3 d a (pt_ID t, raw) new b"
proof -
  let ?r = "\<lparr>rr_token = (pt_ID t, raw), rr_Email = us_Email a, rr_NewPassword = new\<rparr>"
  note ok = reachable_ok_accounts [OF reach]
  obtain d2 n h where d2: "UserPasswordFinalizeResetHandler w2 d (Inr ?r) = (d2, [WroteStatus 200], False)"
    and h: "aw_hash w2 n new = Inr h" "ad_users d2 = save_account (ad_users d) (a\<lparr>ac_Password := h\<rparr>)"
    using FinalizeReset_resets [OF ok a _ w2(1), of ?r t] issued_token_verifies [OF t refl w2] by auto
  have "account_step d w2 (FinalizeResetOp (Inr ?r)) d2" using d2 by (simp add: account_step_def)
  then have ok2: "accounts_ok bc d2"
    using reachable_ok_accounts reachable_account_step [OF reach] w w2(3) by metis
  have a2: "a\<lparr>ac_Password := h\<rparr> \<in> set (live_users d2)"
    using a h(2) by (force simp: live_users_def save_account_def)
  have "aw_compare w3 h new = None" using h(1) w2(3) w3(2,3) by (auto simp: bcrypt_accepts_def)
  then show ?thesis using d2 Login_succeeds [OF ok2 a2 w3(1)] w3(4) by (auto simp: recovers_def)
qed

text \<open>
  C17. A lost password can be recovered: for every user who did not sign up through GitHub, a reset
  request is answered with 200 and sends a mail to the user, and for the next half hour the text in
  that mail sets any new password, with which the user can log in.
\<close>

theorem lost_password_recovered:
  assumes "reachable_accounts bc db" "a \<in> set (live_users db)" "ac_GithubUserID a = 0"
    and "next_id (ad_token_seq db) \<noteq> None" "aw_hash w = bc" "email_allowed w (us_Email a)"
    and "\<forall>v\<in>{w, w2, w3}. nothing_fails v \<and> bcrypt_accepts v \<and> aw_hash v = aw_hash w"
    and "aw_now w2 \<le> aw_now w + 30 * 60" "email_allowed w3 (us_Email a)"
  shows "\<exists>d t raw. UserPasswordInitiateResetHandler w db (Inr (us_Email a)) = (d, [WroteStatus 200], False) \<and>
    ad_mails d = ad_mails db @ [reset_mail w (us_Email a) (us_Email a) t raw] \<and>
    (\<forall>new b. recovers w2 w3 d a (pt_ID t, raw) new b)"
proof -
  note ok = reachable_ok_accounts [OF assms(1)]
  have v: "nothing_fails w" "nothing_fails w2" "bcrypt_accepts w2" "aw_hash w2 = aw_hash w"
    "nothing_fails w3" "bcrypt_accepts w3" "aw_hash w3 = aw_hash w" using assms(7) by blast+
  note w = v(1)
  obtain d t raw where c: "CreatePWResetTokenForEmail w db (us_Email a) = (d, Inr (t, raw))"
    and t: "issued_token w db d (us_Email a) t raw" and mails: "ad_mails d = ad_mails db"
    using CreatePWResetTokenForEmail_issues [OF ok w assms(4)] by blast
  let ?d = "d\<lparr>ad_mails := ad_mails db @ [reset_mail w (us_Email a) (us_Email a) t raw]\<rparr>"
  have "checkUserRestrictions w (us_Email a) = None" using assms(6) by (simp add: email_allowed_def)
  then have run: "UserPasswordInitiateResetHandler w db (Inr (us_Email a)) = (?d, [WroteStatus 200], False)"
    using ReadUserByEmail_live [OF ok assms(2) w] c mails assms(3) w
    by (simp del: checked add: UserPasswordInitiateResetHandler_def on_decoded_def or_internal_def done_or_def send_mail_def
        answer_def nothing_fails_def)
  then have "account_step db w (InitiateResetOp (Inr (us_Email a))) ?d" by (simp add: account_step_def)
  then have reach: "reachable_accounts bc ?d" using reachable_account_step [OF assms(1)] assms(5) by blast
  have "issued_token w db ?d (us_Email a) t raw" using t by (simp add: issued_token_def)
  moreover have "a \<in> set (live_users ?d)" using assms(2) t by (simp add: live_users_def issued_token_def)
  ultimately have "recovers w2 w3 ?d a (pt_ID t, raw) new b" for new b
    by (rule issued_token_recovers [OF reach]) (rule assms(5,8,9) v)+
  then show ?thesis using run by auto
qed

text \<open>
  C28. The mail that verifies an email is as good as a reset: for every user who is not deleted,
  however the account was made, its text sets any new password for half an hour (when no call fails,
  bcrypt takes the password and the instance admits the email). For a user with a
  GitHub account too, whom a reset request only sends a link to log in with GitHub, without issuing
  a token.
\<close>

theorem verification_mail_resets_password:
  assumes "reachable_accounts bc db" "a \<in> set (live_users db)"
    and "next_id (ad_token_seq db) \<noteq> None" "aw_hash w = bc" "email_allowed w (us_Email a)"
    and "\<forall>v\<in>{w, w2, w3}. nothing_fails v \<and> bcrypt_accepts v \<and> aw_hash v = aw_hash w"
    and "aw_now w2 \<le> aw_now w + 30 * 60" "email_allowed w3 (us_Email a)"
  shows "(ac_GithubUserID a \<noteq> 0 \<longrightarrow> UserPasswordInitiateResetHandler w db (Inr (us_Email a)) =
      (db\<lparr>ad_mails := ad_mails db @ [relink_mail w (us_Email a)]\<rparr>, [WroteStatus 200], False)) \<and>
    (\<exists>d t raw. VerifyEmailInitiateHandler w db a = (d, [], False) \<and>
      ad_mails d = ad_mails db @ [verification_mail w (us_Email a) t raw] \<and>
      (\<forall>new b. recovers w2 w3 d a (pt_ID t, raw) new b))"
proof
  note ok = reachable_ok_accounts [OF assms(1)]
  have v: "nothing_fails w" "nothing_fails w2" "bcrypt_accepts w2" "aw_hash w2 = aw_hash w"
    "nothing_fails w3" "bcrypt_accepts w3" "aw_hash w3 = aw_hash w" using assms(6) by blast+
  note w = v(1)
  have "checkUserRestrictions w (us_Email a) = None" using assms(5) by (simp add: email_allowed_def)
  then have "UserPasswordInitiateResetHandler w db (Inr (us_Email a)) =
      (db\<lparr>ad_mails := ad_mails db @ [relink_mail w (us_Email a)]\<rparr>, [WroteStatus 200], False)"
    if "ac_GithubUserID a \<noteq> 0"
    using ReadUserByEmail_live [OF ok assms(2) w] that w
    by (simp del: checked add: UserPasswordInitiateResetHandler_def on_decoded_def or_internal_def done_or_def send_mail_def
        answer_def nothing_fails_def)
  then show "ac_GithubUserID a \<noteq> 0 \<longrightarrow> UserPasswordInitiateResetHandler w db (Inr (us_Email a)) =
      (db\<lparr>ad_mails := ad_mails db @ [relink_mail w (us_Email a)]\<rparr>, [WroteStatus 200], False)" by blast
  obtain d t raw where c: "CreatePWResetTokenForEmail w db (us_Email a) = (d, Inr (t, raw))"
    and t: "issued_token w db d (us_Email a) t raw" and mails: "ad_mails d = ad_mails db"
    using CreatePWResetTokenForEmail_issues [OF ok w assms(3)] by blast
  let ?d = "d\<lparr>ad_mails := ad_mails db @ [verification_mail w (us_Email a) t raw]\<rparr>"
  have run: "VerifyEmailInitiateHandler w db a = (?d, [], False)"
    using c mails w
    by (simp add: VerifyEmailInitiateHandler_def startEmailVerification_def or_internal_def done_or_def send_mail_def
        answer_def nothing_fails_def)
  then have "account_step db w (VerifyEmailInitiateOp a) ?d" using assms(2) by (simp add: account_step_def in_context_def)
  then have reach: "reachable_accounts bc ?d" using reachable_account_step [OF assms(1)] assms(4) by blast
  have "issued_token w db ?d (us_Email a) t raw" using t by (simp add: issued_token_def)
  moreover have "a \<in> set (live_users ?d)" using assms(2) t by (simp add: live_users_def issued_token_def)
  ultimately have "recovers w2 w3 ?d a (pt_ID t, raw) new b" for new b
    by (rule issued_token_recovers [OF reach]) (rule assms(4,7,8) v)+
  then show "\<exists>d t raw. VerifyEmailInitiateHandler w db a = (d, [], False) \<and>
      ad_mails d = ad_mails db @ [verification_mail w (us_Email a) t raw] \<and>
      (\<forall>new b. recovers w2 w3 d a (pt_ID t, raw) new b)" using run by auto
qed

section \<open>Deleted users\<close>

definition deleted_email :: "account_db \<Rightarrow> string \<Rightarrow> bool" where
  "deleted_email db email \<longleftrightarrow> (\<exists>x\<in>set (ad_users db). us_Email x = email \<and> ac_Deleted x)"

lemma account_change_deleted:
  assumes "account_change w op db d" "accounts_ok (aw_hash w) db" "deleted_email db email"
  shows "deleted_email d email"
  using assms
proof (induction rule: account_change.induct)
  case (ch_save a db a')
  then obtain x where x: "x \<in> set (ad_users db)" "us_Email x = email" "ac_Deleted x" by (auto simp: deleted_email_def)
  have "distinct (map us_ID (ad_users db))" using ch_save.prems by (simp add: accounts_ok_def users_ok_def counted_def)
  then have "us_ID x \<noteq> us_ID a'"
    using same_key [of us_ID "ad_users db" x a] x ch_save.hyps user_saved_keys [OF ch_save.hyps(2)]
    by (auto simp: live_users_def)
  then show ?case using x unfolding deleted_email_def by (intro bexI [of _ x]) (auto simp: save_account_def)
next
  case (ch_delete b a db)
  then obtain x where "x \<in> set (ad_users db)" "us_Email x = email" "ac_Deleted x" by (auto simp: deleted_email_def)
  then show ?case unfolding deleted_email_def
    by (intro bexI [of _ "if us_ID x = us_ID a then x\<lparr>ac_Deleted := True\<rparr> else x"]) auto
qed (auto simp: deleted_email_def insert_account_def)

text \<open>
  The email of a deleted user is lost for good: in every later state no user who is not deleted
  has it, and creating one, although the email does not count as taken, ends in an internal error.
\<close>

theorem deleted_email_unusable:
  assumes "reachable_accounts bc db" "x \<in> set (ad_users db)" "ac_Deleted x" "later_accounts bc db db2"
    and "nothing_fails w" "email_allowed w (us_Email x)" "next_id (ad_user_seq db2) \<noteq> None"
  shows "(\<forall>a\<in>set (live_users db2). us_Email a \<noteq> us_Email x) \<and> \<not> doesUserExist w db2 (us_Email x) \<and>
    (\<exists>d. UserCreateHandler w db2 b (Inr (us_Email x, password)) =
       (d, [WroteError (ErrInternal (go_error_text (aw_refused_insert w)))], False) \<and> ad_users d = ad_users db2)"
proof -
  have "deleted_email db (us_Email x)" using assms(2,3) by (auto simp: deleted_email_def)
  then have "deleted_email db2 (us_Email x)"
    using later_keeps [OF assms(1,4), of "\<lambda>db. deleted_email db (us_Email x)"] account_change_deleted by blast
  then obtain y where y: "y \<in> set (ad_users db2)" "us_Email y = us_Email x" "ac_Deleted y"
    by (auto simp: deleted_email_def)
  have "distinct (map us_Email (ad_users db2))"
    using reachable_ok_accounts [OF later_reachable [OF assms(1,4)]] by (simp add: accounts_ok_def users_ok_def)
  then have "a = y" if "a \<in> set (ad_users db2)" "us_Email a = us_Email x" for a
    using same_key [of us_Email "ad_users db2" a y] y that by simp
  then have live: "\<forall>a\<in>set (live_users db2). us_Email a \<noteq> us_Email x"
    using y(3) by (auto simp: live_users_def)
  have no: "\<not> doesUserExist w db2 (us_Email x)"
  proof (cases "ReadUserByEmail w db2 (us_Email x)")
    case (Inr a)
    then have "a \<in> set (live_users db2) \<and> us_Email a = us_Email x"
      using read_user_Inr [of w db2 "ByEmail (us_Email x)" a] by (simp add: ReadUserByEmail_def)
    then show ?thesis using live by blast
  qed (simp add: doesUserExist_def)
  obtain h where "aw_hash w (ad_draws db2) password = Inr h" using assms(5) unfolding nothing_fails_def by blast
  moreover have "us_Email x \<in> us_Email ` set (ad_users db2)" using y by (metis image_eqI)
  moreover have "checkUserRestrictions w (us_Email x) = None" using assms(6) by (simp add: email_allowed_def)
  ultimately show ?thesis using live no assms(5,7)
    by (simp del: checked add: UserCreateHandler_def on_decoded_def or_internal_def GenerateFromPassword_def
        CreateUser_def new_account_def nothing_fails_def refuse_def split: option.split)
qed

section \<open>Logins that no check holds back\<close>

definition oauth_answers :: "account_world \<Rightarrow> account_db \<Rightarrow> string \<Rightarrow> string \<Rightarrow> string \<Rightarrow> string \<Rightarrow> bool" where
  "oauth_answers w db b state code tok \<longleftrightarrow>
     aw_store_get w = None \<and> aw_store_save w = None \<and> se_state (ad_sessions db b) = Some state \<and>
     aw_exchange w code = Inr tok \<and> aw_token_valid w tok"

lemma sessions_startEmailVerification [simp]: "ad_sessions (fst (startEmailVerification w db a)) = ad_sessions db"
  by (simp add: startEmailVerification_def CreatePWResetTokenForEmail_def StringWithCharset_def Let_def
      GenerateFromPassword_def CreatePWResetToken_def split: sum.split prod.split option.split)

lemma logged_in_unverified_signs_in:
  assumes "aw_store_get w = None" "aw_store_save w = None"
  shows "signed_in (fst (logged_in_unverified w db b a otherwise)) b (us_ID a)"
  using assms
  by (simp add: logged_in_unverified_def or_internal_def SaveUserAuthenticated_def StoreGet_def StoreSave_def
      signed_in_def)

text \<open>
  C29. A login through Google signs in as another user when Google's answer holds no claims, as an
  error page does: the first user without a Google id, whoever that is, on an instance without an
  admin email and without a restricted domain.
\<close>

theorem google_without_claims_signs_in:
  assumes "oauth_answers w db b state code tok" "aw_google_do w tok = Inr (Inr contents)"
    and "aw_google_json w contents = Some \<lparr>gi_Email = [], gi_EmailVerified = False, gi_HD = [], gi_Sub = []\<rparr>"
    and "aw_AdminEmail w = []" "aw_GoogleRestrictedDomain w = []" "aw_read_user w (ByGoogleUserID []) = None"
    and "find (\<lambda>a. ac_GoogleUserID a = []) (live_users db) = Some a"
  shows "signed_in (fst (UserOAuthGoogleCallbackHandler w db b state code)) b (us_ID a)"
proof -
  have "ReadUserByGoogleUserID w db [] = Inr a"
    using assms(6,7) by (simp add: ReadUserByGoogleUserID_def read_user_def faulty_first_def table_first_def matches_query_eta)
  then have "upsertGoogleUserFromToken w db tok = Some (db, Inr a)"
    using assms(2-5) by (simp add: upsertGoogleUserFromToken_def getGoogleUserInfoFromToken_def checkUserRestrictions_def)
  then show ?thesis using assms(1) logged_in_unverified_signs_in [of w db b a]
    by (simp add: UserOAuthGoogleCallbackHandler_def on_oauth_token_def oauth_answers_def StoreGet_def oauth_logged_in_def)
qed

text \<open>
  A user who signed up through GitHub logs in through GitHub on any instance: the admin email that
  every other login checks is not looked at.
\<close>

theorem github_login_skips_admin_email:
  assumes "oauth_answers w db b state code tok" "aw_github_user w tok = Inr (Some i)"
    and "aw_read_user w (ByGithubUserID i) = None" "find (\<lambda>a. ac_GithubUserID a = i) (live_users db) = Some a"
  shows "signed_in (fst (UserOAuthGithubCallbackHandler (w\<lparr>aw_AdminEmail := email\<rparr>) db b state code)) b (us_ID a)"
proof -
  let ?w = "w\<lparr>aw_AdminEmail := email\<rparr>"
  have "ReadUserByGithubUserID ?w db i = Inr a"
    using assms(3,4) by (simp add: ReadUserByGithubUserID_def read_user_def faulty_first_def table_first_def matches_query_eta)
  then have "upsertUserFromToken ?w db tok = Some (db, Inr a)" using assms(2) by (simp add: upsertUserFromToken_def)
  then show ?thesis using assms(1) logged_in_unverified_signs_in [of ?w db b a]
    by (simp add: UserOAuthGithubCallbackHandler_def on_oauth_token_def oauth_answers_def StoreGet_def oauth_logged_in_def)
qed

section \<open>What the middleware makes of the sessions\<close>

text \<open>The server over the accounts' tables: its users are those not deleted, its sessions the browsers'.\<close>

definition serving :: "server_env \<Rightarrow> account_db \<Rightarrow> server_env" where
  "serving env db =
     env\<lparr>ev_store_get := (\<lambda>b. (session.truncate (ad_sessions db b), None)),
         ev_repo := (ev_repo env)\<lparr>q_users := table_first (map user.truncate (live_users db))\<rparr>\<rparr>"

lemma truncate_simps [simp]:
  "us_ID (user.truncate a) = us_ID a" "us_Email (user.truncate a) = us_Email a"
  "se_authenticated (session.truncate s) = se_authenticated s" "se_user_id (session.truncate s) = se_user_id s"
  by (simp_all add: user.truncate_def session.truncate_def)

lemma find_image: "find P (map g xs) = map_option g (find (\<lambda>x. P (g x)) xs)"
  by (induction xs) simp_all

text \<open>
  C14. A request without a bearer token passes the authentication middleware exactly when its browser
  is signed in as a user who is not deleted, and it passes as that user.
\<close>

theorem sessions_authenticate:
  assumes "reachable_accounts bc db" "length (Split (rq_Authorization r) ''Bearer'') \<noteq> 2"
  shows "fst (AuthN redirect (serving env db) r) = Next r' \<longleftrightarrow>
    (\<exists>a\<in>set (live_users db). signed_in db (rq_Cookie r) (us_ID a) \<and>
       r' = r\<lparr>rq_ctx := (rq_ctx r)\<lparr>ctx_user := Some (user.truncate a)\<rparr>\<rparr>)"
proof -
  let ?s = "ad_sessions db (rq_Cookie r)"
  have token: "getTokenFromRequest (serving env db) r = Inl errInvalidAuthHeader"
    using assms(2) by (simp add: getTokenFromRequest_def)
  have read: "ReadUser (ev_repo (serving env db)) i = Inr u \<longleftrightarrow>
      (\<exists>a\<in>set (live_users db). us_ID a = i \<and> u = user.truncate a)" for i u
  proof -
    have "ReadUser (ev_repo (serving env db)) i =
        table_first (map user.truncate (live_users db)) (\<lambda>u. us_ID u = i)"
      by (simp add: ReadUser_def serving_def)
    also have "... = map_sum id user.truncate (table_first (live_users db) (\<lambda>a. us_ID a = i))"
      by (simp add: table_first_def find_image split: option.split)
    finally have "ReadUser (ev_repo (serving env db)) i = Inr u \<longleftrightarrow>
        (\<exists>a. find (\<lambda>a. us_ID a = i) (live_users db) = Some a \<and> u = user.truncate a)"
      by (auto simp: table_first_def split: option.split)
    then show ?thesis
      unfolding find_key [OF live_users_distinct(1) [OF reachable_ok_accounts [OF assms(1)]]] by blast
  qed
  have "claimed_user (serving env db) r = session_user (serving env db) r" by (simp add: claimed_user_def token)
  moreover have "session_user (serving env db) r = Some i \<longleftrightarrow> signed_in db (rq_Cookie r) i" for i
    by (auto simp: session_user_def serving_def signed_in_def)
  ultimately have "fst (AuthN redirect (serving env db) r) = Next r' \<longleftrightarrow>
      (\<exists>i u. signed_in db (rq_Cookie r) i \<and> ReadUser (ev_repo (serving env db)) i = Inr u \<and>
         r' = r\<lparr>rq_ctx := (rq_ctx r)\<lparr>ctx_user := Some u\<rparr>\<rparr>)"
    unfolding AuthN_Next nextWithUserID_Next by (simp add: token)
  then show ?thesis unfolding read by blast
qed

end
