(* ===== verification/Account_Samples.thy ===== *)
theory Account_Samples
  imports Account_Recovery
begin

text \<open>
  A concrete run of the accounts' handlers, from the empty tables, on which the hypotheses of the
  theorems of \<open>Account_Safety\<close> and \<open>Account_Recovery\<close> are checked.
\<close>

section \<open>The surroundings\<close>

definition sample_accounts_world :: account_world where
  "sample_accounts_world = \<lparr>aw_now = 100, aw_read_user = (\<lambda>_. None), aw_create_user = None, aw_update_user = None,
     aw_delete_user = None, aw_create_token = None, aw_read_token = None, aw_update_token = None,
     aw_create_code = None, aw_read_code = None, aw_refused_insert = GoError ''duplicate key'',
     aw_members = no_faults, aw_store_get = None, aw_store_save = None, aw_notify = (\<lambda>_. None),
     aw_AdminEmail = [], aw_InitInCluster = False, aw_GoogleRestrictedDomain = [], aw_ServerURL = ''https://p.dev'',
     aw_Metadata_Email = True, aw_DisableAllowlist = True, aw_allowlist = (\<lambda>_. Inr True),
     aw_rand_int = (\<lambda>_ _. Inr 0), aw_rand_bytes = (\<lambda>_ n. Inr (replicate n 7)),
     aw_hash = (\<lambda>_ p. Inr (''h:'' @ p)), aw_compare = (\<lambda>h p. if h = ''h:'' @ p then None else Some (GoError ''mismatch'')),
     aw_sign = (\<lambda>_ _. Inr ''jwt''), aw_token_secret = ''k'', aw_exchange = (\<lambda>code. Inr code),
     aw_token_valid = (\<lambda>_. True), aw_github_user = (\<lambda>_. Inr (Some 77)),
     aw_github_emails = (\<lambda>_. Inr [\<lparr>ge_Email = ''g@b.co'', ge_Primary = True, ge_Verified = False\<rparr>]),
     aw_google_do = (\<lambda>_. Inr (Inr ''<html>'')),
     aw_google_json = (\<lambda>_. Some \<lparr>gi_Email = [], gi_EmailVerified = False, gi_HD = [], gi_Sub = []\<rparr>)\<rparr>"

definition sample_new_session :: login_session where
  "sample_new_session = \<lparr>se_authenticated = None, se_user_id = None, se_redirect_uri = None, se_email = None,
     se_state = None, se_project_id = None, se_integration = None\<rparr>"

definition sample_no_accounts :: account_db where
  "sample_no_accounts = \<lparr>ad_users = [], ad_user_seq = 0, ad_tokens = [], ad_token_seq = 0, ad_codes = [],
     ad_sessions = (\<lambda>_. sample_new_session), ad_members = empty_db, ad_mails = [], ad_draws = 0\<rparr>"

text \<open>A sequence of requests from the empty tables.\<close>

definition sample_run :: "account_op list \<Rightarrow> account_db" where
  "sample_run ops = fold (\<lambda>op db. fst (run_account sample_accounts_world op db)) ops sample_no_accounts"

definition sample_join :: account_op where
  "sample_join = CreateUserOp ''firefox'' (Inr (''a@b.co'', ''secret''))"

text \<open>The bound of the ids is evaluated as an integer.\<close>

lemma next_id_code [code]:
  "next_id n = (if int n < 9223372036854775807 then Some (word_of_int (int n + 1)) else None)"
proof -
  have "n < 2 ^ 63 - 1 \<longleftrightarrow> int n < 9223372036854775807" by simp
  then show ?thesis by (simp add: next_id_def)
qed

abbreviation sample_bc :: hashing where
  "sample_bc \<equiv> aw_hash sample_accounts_world"

lemma sample_run_step:
  "(\<And>a. op_account op = Some a \<Longrightarrow> in_context (sample_run ops) a) \<Longrightarrow>
   account_step (sample_run ops) sample_accounts_world op (sample_run (ops @ [op]))"
  by (simp add: account_step_def sample_run_def)

lemma sample_run_reachable:
  "reachable_accounts sample_bc (sample_run ops) \<Longrightarrow>
   (\<And>a. op_account op = Some a \<Longrightarrow> in_context (sample_run ops) a) \<Longrightarrow>
   reachable_accounts sample_bc (sample_run (ops @ [op]))"
  using reachable_account_step sample_run_step by blast

lemma sample_start_reachable: "reachable_accounts sample_bc (sample_run [])"
  by (rule reachable_no_accounts) (simp add: no_accounts_def sample_run_def sample_no_accounts_def sample_new_session_def)

lemma sample_world_ok: "nothing_fails sample_accounts_world" "bcrypt_accepts sample_accounts_world"
  by (simp_all add: nothing_fails_def bcrypt_accepts_def sample_accounts_world_def)

lemma sample_allowed: "email_allowed sample_accounts_world email"
  by (simp add: email_allowed_def sample_accounts_world_def)

definition sample_account :: account where
  "sample_account = (new_account ''a@b.co'' ''h:secret'')\<lparr>us_ID := 1\<rparr>"

lemma sample_account_simps:
  "us_Email sample_account = ''a@b.co''" "us_ID sample_account = 1" "ac_GithubUserID sample_account = 0"
  "\<not> us_EmailVerified sample_account" "ac_GoogleUserID sample_account = []"
  by (simp_all add: sample_account_def new_account_def)

definition sample_raw :: string where
  "sample_raw = replicate 32 (CHR ''a'')"

definition sample_reset :: "uint \<Rightarrow> reset_request" where
  "sample_reset i = \<lparr>rr_token = (i, sample_raw), rr_Email = ''a@b.co'', rr_NewPassword = ''new''\<rparr>"

abbreviation sample_joined :: account_db where
  "sample_joined \<equiv> sample_run [sample_join]"

abbreviation sample_recovered :: account_db where
  "sample_recovered \<equiv> sample_run [sample_join, FinalizeResetOp (Inr (sample_reset 1))]"

lemma sample_joined_reachable: "reachable_accounts sample_bc sample_joined"
  using sample_run_reachable [OF sample_start_reachable, of sample_join] by (simp add: sample_join_def)

lemma sample_joined_live: "live_users sample_joined = [sample_account]"
  by code_simp

lemma sample_joined_users: "ad_users sample_joined = [sample_account]"
  by code_simp

lemma sample_joined_ids: "next_id (ad_token_seq sample_joined) \<noteq> None"
  by code_simp

theorem reachable_accounts_ok_witness:
  "distinct (map us_Email (ad_users sample_joined)) \<and> us_Email sample_account \<in> us_Email ` set (ad_users sample_joined)"
  using reachable_accounts_ok [OF sample_joined_reachable] by (simp add: sample_joined_users)

lemma sample_recovered_step:
  "account_step sample_joined sample_accounts_world (FinalizeResetOp (Inr (sample_reset 1))) sample_recovered"
  using sample_run_step [of "FinalizeResetOp (Inr (sample_reset 1))" "[sample_join]"] by simp

lemma sample_recovered_users: "ad_users sample_recovered = [sample_account\<lparr>ac_Password := ''h:new''\<rparr>]"
  by code_simp

theorem passwords_change_by_mail_witness:
  "\<exists>t m raw. t \<in> set (ad_tokens sample_joined) \<and> pt_ID t = 1 \<and> m \<in> set (ad_mails sample_joined) \<and>
     ml_To m = ''a@b.co'' \<and> (''token'', raw) \<in> set (ml_Query m) \<and> sample_bc 0 raw = Inr (pt_Token t)"
proof -
  have "sample_account \<in> set (ad_users sample_joined)" by (simp add: sample_joined_users)
  moreover have "sample_account\<lparr>ac_Password := ''h:new''\<rparr> \<in> set (ad_users sample_recovered)"
    by (simp add: sample_recovered_users)
  moreover have "ac_Password (sample_account\<lparr>ac_Password := ''h:new''\<rparr>) \<noteq> ac_Password sample_account" by code_simp
  ultimately obtain request t m raw n where "FinalizeResetOp (Inr (sample_reset 1)) = FinalizeResetOp (Inr request)"
    and "t \<in> set (ad_tokens sample_joined)" "pt_ID t = fst (rr_token request)" "m \<in> set (ad_mails sample_joined)"
      "ml_To m = us_Email sample_account" "(''token'', raw) \<in> set (ml_Query m)" "sample_bc n raw = Inr (pt_Token t)"
    using passwords_change_by_mail [OF sample_joined_reachable sample_recovered_step refl, of sample_account
        "sample_account\<lparr>ac_Password := ''h:new''\<rparr>"] by auto
  moreover have "sample_bc n raw = sample_bc 0 raw" by (simp add: sample_accounts_world_def)
  moreover from calculation have "request = sample_reset 1" by simp
  then have "fst (rr_token request) = 1" by (simp add: sample_reset_def)
  ultimately show ?thesis unfolding sample_account_simps by metis
qed




theorem sessions_need_login_witness:
  "\<exists>a\<in>set (live_users sample_joined). us_ID a = 1 \<and> email_allowed sample_accounts_world (us_Email a)"
proof -
  have step: "account_step (sample_run []) sample_accounts_world sample_join sample_joined"
    using sample_run_step [of sample_join "[]"] by (simp add: sample_join_def)
  have "signed_in sample_joined ''firefox'' 1" and "\<not> signed_in (sample_run []) ''firefox'' 1" by code_simp+
  then show ?thesis using sessions_need_login [OF sample_start_reachable step refl] by (auto simp: sample_join_def)
qed

theorem reset_token_once_witness:
  "\<exists>e. UserPasswordFinalizeResetHandler sample_accounts_world sample_recovered (Inr (sample_reset 1)) =
     (sample_recovered, [WroteError e], False)"
proof -
  let ?h = "UserPasswordFinalizeResetHandler sample_accounts_world sample_joined (Inr (sample_reset 1))"
  have "fst ?h = sample_recovered" by (simp add: sample_run_def)
  moreover have "snd ?h = ([WroteStatus 200], False)" by code_simp
  ultimately have "?h = (sample_recovered, [WroteStatus 200], False)" by (metis prod.collapse)
  from reset_token_once [OF sample_joined_reachable refl this, of sample_recovered "sample_reset 1"]
  show ?thesis by (simp add: later_accounts_def)
qed

theorem lost_password_recovered_witness:
  "\<exists>d (t::pw_reset_token) raw. UserPasswordInitiateResetHandler sample_accounts_world sample_joined (Inr ''a@b.co'') =
       (d, [WroteStatus 200], False) \<and>
     recovers sample_accounts_world sample_accounts_world d sample_account (pt_ID t, raw) ''new'' ''chrome''"
proof -
  have "\<exists>d t raw. UserPasswordInitiateResetHandler sample_accounts_world sample_joined (Inr (us_Email sample_account)) =
       (d, [WroteStatus 200], False) \<and>
     ad_mails d = ad_mails sample_joined @ [reset_mail sample_accounts_world (us_Email sample_account) (us_Email sample_account) t raw] \<and>
     (\<forall>new b. recovers sample_accounts_world sample_accounts_world d sample_account (pt_ID t, raw) new b)"
    by (rule lost_password_recovered [OF sample_joined_reachable])
      (simp_all add: sample_joined_live sample_account_simps sample_joined_ids sample_world_ok sample_allowed)
  then show ?thesis unfolding sample_account_simps by blast
qed

text \<open>A user who joins through GitHub.\<close>

definition sample_github_ops :: "account_op list" where
  "sample_github_ops = [OAuthStartOp ''safari'' None (oauth_login_start ''st'' [])] @
     [GithubCallbackOp ''safari'' ''st'' ''code'']"

definition sample_github_account :: account where
  "sample_github_account = (oauth_account sample_accounts_world ''g@b.co'' False 77 [])\<lparr>us_ID := 1\<rparr>"

lemma sample_github_simps:
  "live_users (sample_run sample_github_ops) = [sample_github_account]"
  "next_id (ad_token_seq (sample_run sample_github_ops)) \<noteq> None"
  "us_Email sample_github_account = ''g@b.co''" "ac_GithubUserID sample_github_account = 77"
  "us_ID sample_github_account = 1"
  by code_simp+

lemma sample_github_reachable: "reachable_accounts sample_bc (sample_run sample_github_ops)"
  unfolding sample_github_ops_def
  using sample_run_reachable [OF sample_start_reachable, of "OAuthStartOp ''safari'' None (oauth_login_start ''st'' [])"]
  by (intro sample_run_reachable) simp_all

theorem verification_mail_resets_password_witness:
  "\<exists>d (t::pw_reset_token) raw. VerifyEmailInitiateHandler sample_accounts_world (sample_run sample_github_ops) sample_github_account = (d, [], False) \<and>
     recovers sample_accounts_world sample_accounts_world d sample_github_account (pt_ID t, raw) ''new'' ''chrome''"
proof -
  let ?w = sample_accounts_world and ?db = "sample_run sample_github_ops" and ?a = sample_github_account
  have "\<exists>d t raw. VerifyEmailInitiateHandler ?w ?db ?a = (d, [], False) \<and>
      ad_mails d = ad_mails ?db @ [verification_mail ?w (us_Email ?a) t raw] \<and>
      (\<forall>new b. recovers ?w ?w d ?a (pt_ID t, raw) new b)"
    by (rule conjunct2 [OF verification_mail_resets_password [OF sample_github_reachable]])
      (simp_all add: sample_github_simps sample_world_ok sample_allowed)
  then show ?thesis by blast
qed

lemma sample_deleted_users:
  "ad_users (sample_run ([sample_join] @ [DeleteUserOp ''firefox'' sample_account])) = [sample_account\<lparr>ac_Deleted := True\<rparr>]"
  "next_id (ad_user_seq (sample_run ([sample_join] @ [DeleteUserOp ''firefox'' sample_account]))) \<noteq> None"
  by code_simp+

theorem deleted_email_unusable_witness:
  "\<exists>d. UserCreateHandler sample_accounts_world (sample_run ([sample_join] @ [DeleteUserOp ''firefox'' sample_account])) ''firefox''
     (Inr (''a@b.co'', ''again'')) = (d, [WroteError (ErrInternal ''duplicate key'')], False)"
proof -
  let ?db = "sample_run ([sample_join] @ [DeleteUserOp ''firefox'' sample_account])"
  let ?x = "sample_account\<lparr>ac_Deleted := True\<rparr>"
  have reach: "reachable_accounts sample_bc ?db"
    using sample_joined_reachable by (intro sample_run_reachable) (simp_all add: in_context_def sample_joined_live)
  have "\<exists>d. UserCreateHandler sample_accounts_world ?db ''firefox'' (Inr (us_Email ?x, ''again'')) =
       (d, [WroteError (ErrInternal (go_error_text (aw_refused_insert sample_accounts_world)))], False) \<and> ad_users d = ad_users ?db"
    using deleted_email_unusable [OF reach, of ?x ?db sample_accounts_world "''firefox''" "''again''"]
      sample_deleted_users sample_world_ok sample_allowed by (simp add: later_accounts_def)
  moreover have "us_Email ?x = ''a@b.co''" by (simp add: sample_account_simps)
  moreover have "go_error_text (aw_refused_insert sample_accounts_world) = ''duplicate key''"
    by (simp add: sample_accounts_world_def)
  ultimately show ?thesis by auto
qed

lemma sample_oauth_answers:
  "oauth_answers sample_accounts_world (sample_run [sample_join, OAuthStartOp ''safari'' None (oauth_login_start ''st'' [])])
     ''safari'' ''st'' ''code'' ''code''"
  "oauth_answers sample_accounts_world (sample_run (sample_github_ops @ [LogoutOp ''safari'']))
     ''safari'' ''st'' ''code'' ''code''"
  by code_simp+

theorem google_without_claims_signs_in_witness:
  "signed_in (fst (UserOAuthGoogleCallbackHandler sample_accounts_world
     (sample_run [sample_join, OAuthStartOp ''safari'' None (oauth_login_start ''st'' [])]) ''safari'' ''st'' ''code''))
     ''safari'' (us_ID sample_account)"
  by (rule google_without_claims_signs_in [OF sample_oauth_answers(1), where contents = "''<html>''"]) code_simp+

theorem github_login_skips_admin_email_witness:
  "signed_in (fst (UserOAuthGithubCallbackHandler (sample_accounts_world\<lparr>aw_AdminEmail := ''boss@b.co''\<rparr>)
     (sample_run (sample_github_ops @ [LogoutOp ''safari''])) ''safari'' ''st'' ''code'')) ''safari'' (us_ID sample_github_account)"
  by (rule github_login_skips_admin_email [OF sample_oauth_answers(2), where i = 77]) code_simp+

theorem sessions_authenticate_witness:
  "fst (AuthN False (serving sample_env sample_joined) (sample_request [] ''firefox'')) =
     Next ((sample_request [] ''firefox'')\<lparr>rq_ctx := empty_ctx\<lparr>ctx_user := Some (user.truncate sample_account)\<rparr>\<rparr>)"
proof -
  have "length (Split (rq_Authorization (sample_request [] ''firefox'')) ''Bearer'') \<noteq> 2" by code_simp
  moreover have "signed_in sample_joined ''firefox'' 1" by code_simp
  ultimately show ?thesis
    using sessions_authenticate [OF sample_joined_reachable, of "sample_request [] ''firefox''" False sample_env]
    by (simp add: sample_joined_live sample_account_simps sample_request_def)
qed

end
