(* ===== verification/Session_Store.thy ===== *)
theory Session_Store
  imports Account_Recovery
begin

text \<open>
  The session store (\<open>internal/auth/sessionstore/sessionstore.go\<close>) over the table of sessions
  (\<open>internal/repository/gorm/session.go\<close>, \<open>internal/models/session.go\<close>): a cookie holds the signed key
  of a row, the row the signed values. The signing library is a record of functions. What the
  accounts rely on, one session per browser, is a locale; the store and the accounts' sessions are
  both instances of it.
\<close>

section \<open>State\<close>

record session_row =
  sn_Key :: string
  sn_Data :: string
  sn_ExpiresAt :: int
  sn_Deleted :: bool

record 'v http_session =
  hs_ID :: string
  hs_Values :: 'v
  hs_IsNew :: bool
  hs_MaxAge :: int

record pg_db =
  pg_rows :: "session_row list"
  pg_draws :: nat

text \<open>
  \<open>securecookie\<close> signs with the time of the signature. \<open>co_expires_on\<close> reads the value \<open>expires_on\<close>,
  \<open>co_empty\<close> is the empty map of values.
\<close>

record 'v codec =
  co_encode_id :: "int \<Rightarrow> string \<Rightarrow> (go_error, string) go_result"
  co_decode_id :: "int \<Rightarrow> string \<Rightarrow> (go_error, string) go_result"
  co_encode :: "int \<Rightarrow> 'v \<Rightarrow> (go_error, string) go_result"
  co_decode :: "int \<Rightarrow> string \<Rightarrow> (go_error, 'v) go_result"
  co_expires_on :: "'v \<Rightarrow> int option"
  co_empty :: 'v

text \<open>\<open>pg_base32\<close> is the random key in base 32; \<open>pg_MaxAge\<close> the age of \<open>store.Options\<close>.\<close>

record 'v pg_world =
  pg_codec :: "'v codec"
  pg_now :: int
  pg_MaxAge :: int
  pg_base32 :: "nat \<Rightarrow> string"
  pg_select :: "go_error option"
  pg_create :: "go_error option"
  pg_update :: "go_error option"
  pg_delete :: "go_error option"
  pg_conflict :: go_error

section \<open>The table (\<open>gorm/session.go\<close>)\<close>

definition SelectSession :: "'v pg_world \<Rightarrow> pg_db \<Rightarrow> string \<Rightarrow> (go_error, session_row) go_result" where
  "SelectSession w db key = faulty_first (pg_select w) (pg_rows db) (\<lambda>s. sn_Key s = key \<and> \<not> sn_Deleted s)"

text \<open>The key is unique, also among the deleted rows.\<close>

definition CreateSession :: "'v pg_world \<Rightarrow> pg_db \<Rightarrow> session_row \<Rightarrow> pg_db \<times> go_error option" where
  "CreateSession w db s =
     (case pg_create w of Some e \<Rightarrow> (db, Some e) | None \<Rightarrow>
      if sn_Key s \<in> sn_Key ` set (pg_rows db) then (db, Some (pg_conflict w))
      else (db\<lparr>pg_rows := pg_rows db @ [s]\<rparr>, None))"

definition UpdateSession :: "'v pg_world \<Rightarrow> pg_db \<Rightarrow> session_row \<Rightarrow> pg_db \<times> go_error option" where
  "UpdateSession w db s =
     (case pg_update w of Some e \<Rightarrow> (db, Some e) | None \<Rightarrow>
      (db\<lparr>pg_rows := map (\<lambda>x. if sn_Key x = sn_Key s \<and> \<not> sn_Deleted x
         then x\<lparr>sn_Data := sn_Data s, sn_ExpiresAt := sn_ExpiresAt s\<rparr> else x) (pg_rows db)\<rparr>, None))"

definition DeleteSession :: "'v pg_world \<Rightarrow> pg_db \<Rightarrow> string \<Rightarrow> pg_db \<times> go_error option" where
  "DeleteSession w db key =
     (case pg_delete w of Some e \<Rightarrow> (db, Some e) | None \<Rightarrow>
      (db\<lparr>pg_rows := map (\<lambda>x. if sn_Key x = key then x\<lparr>sn_Deleted := True\<rparr> else x) (pg_rows db)\<rparr>, None))"

section \<open>The store (\<open>sessionstore.go\<close>)\<close>

definition TrimRight :: "string \<Rightarrow> string \<Rightarrow> string" where
  "TrimRight s cutset = rev (dropWhile (\<lambda>c. c \<in> set cutset) (rev s))"

text \<open>\<open>load\<close>: the values stay as they are on an error.\<close>

definition PG_load :: "'v pg_world \<Rightarrow> pg_db \<Rightarrow> 'v http_session \<Rightarrow> 'v http_session \<times> go_error option" where
  "PG_load w db s =
     (case SelectSession w db (hs_ID s) of
        Inl e \<Rightarrow> (s, Some e)
      | Inr res \<Rightarrow>
          (case co_decode (pg_codec w) (pg_now w) (sn_Data res) of
             Inl e \<Rightarrow> (s, Some e)
           | Inr v \<Rightarrow> (s\<lparr>hs_Values := v\<rparr>, None)))"

definition expires_at :: "int \<Rightarrow> int \<Rightarrow> int option \<Rightarrow> int" where
  "expires_at now age exOn =
     (case exOn of None \<Rightarrow> now + age
      | Some expiresOn \<Rightarrow> if expiresOn - (now + age) < 0 then now + age else expiresOn)"

definition PG_save :: "'v pg_world \<Rightarrow> pg_db \<Rightarrow> 'v http_session \<Rightarrow> pg_db \<times> go_error option" where
  "PG_save w db s =
     (case co_encode (pg_codec w) (pg_now w) (hs_Values s) of Inl e \<Rightarrow> (db, Some e) | Inr encoded \<Rightarrow>
      let row = \<lparr>sn_Key = hs_ID s, sn_Data = encoded,
                 sn_ExpiresAt = expires_at (pg_now w) (hs_MaxAge s) (co_expires_on (pg_codec w) (hs_Values s)),
                 sn_Deleted = False\<rparr>
      in if hs_IsNew s then CreateSession w db row else UpdateSession w db row)"

definition new_session :: "'v pg_world \<Rightarrow> 'v http_session" where
  "new_session w = \<lparr>hs_ID = [], hs_Values = co_empty (pg_codec w), hs_IsNew = True, hs_MaxAge = pg_MaxAge w\<rparr>"

definition PG_New :: "'v pg_world \<Rightarrow> pg_db \<Rightarrow> string option \<Rightarrow> 'v http_session \<times> go_error option" where
  "PG_New w db cookie =
     (case cookie of None \<Rightarrow> (new_session w, None) | Some c \<Rightarrow>
      case co_decode_id (pg_codec w) (pg_now w) c of Inl e \<Rightarrow> (new_session w, Some e) | Inr key \<Rightarrow>
      (case PG_load w db ((new_session w)\<lparr>hs_ID := key\<rparr>) of
         (s, None) \<Rightarrow> (s\<lparr>hs_IsNew := False\<rparr>, None)
       | (s, Some e) \<Rightarrow>
           if e = ErrRecordNotFound then (s, None)
           else if sublist ''expired timestamp'' (go_error_text e) then (s\<lparr>hs_IsNew := False\<rparr>, None)
           else (s, Some e)))"

text \<open>The result is the text of the cookie that is set.\<close>

definition PG_Save :: "'v pg_world \<Rightarrow> pg_db \<Rightarrow> 'v http_session \<Rightarrow> pg_db \<times> (go_error, string) go_result" where
  "PG_Save w db s =
     (if hs_MaxAge s < 0
      then case DeleteSession w db (hs_ID s) of (db, Some e) \<Rightarrow> (db, Inl e) | (db, None) \<Rightarrow> (db, Inr [])
      else let (db, s) = (if hs_ID s = []
                          then (db\<lparr>pg_draws := pg_draws db + 1\<rparr>,
                                s\<lparr>hs_ID := TrimRight (pg_base32 w (pg_draws db)) ''=''\<rparr>)
                          else (db, s))
           in case PG_save w db s of
                (db, Some e) \<Rightarrow> (db, Inl e)
              | (db, None) \<Rightarrow> (db, co_encode_id (pg_codec w) (pg_now w) (hs_ID s)))"

section \<open>One session per browser\<close>

text \<open>
  The contract that the login helpers rely on: a browser reads what was last saved for it, whatever
  was saved for others. \<open>inside\<close> are the circumstances in which nothing fails.
\<close>

locale browser_sessions =
  fixes ok :: "'st \<Rightarrow> bool"
    and inside :: "'st \<Rightarrow> 'w \<Rightarrow> bool"
    and storable :: "'st \<Rightarrow> 'v \<Rightarrow> bool"
    and read :: "'st \<Rightarrow> 'w \<Rightarrow> string \<Rightarrow> (go_error, 'v) go_result"
    and store :: "'st \<Rightarrow> 'w \<Rightarrow> string \<Rightarrow> 'v \<Rightarrow> 'st"
  assumes read_store: "ok st \<Longrightarrow> inside st w \<Longrightarrow> inside st w' \<Longrightarrow> storable st v \<Longrightarrow>
      read (store st w b v) w' b' = (if b' = b then Inr v else read st w' b')"
    and ok_store: "ok st \<Longrightarrow> inside st w \<Longrightarrow> storable st v \<Longrightarrow> ok (store st w b v)"
    and inside_store: "inside (store st w b v) = inside st"
    and storable_store: "storable (store st w b v) = storable st"
begin

definition stores :: "('w \<times> string \<times> 'v) list \<Rightarrow> 'st \<Rightarrow> 'st" where
  "stores ops st = fold (\<lambda>(w, b, v) st. store st w b v) ops st"

definition possible :: "'st \<Rightarrow> 'w \<times> string \<times> 'v \<Rightarrow> bool" where
  "possible st = (\<lambda>(w, b, v). inside st w \<and> storable st v)"

lemma stores_ok:
  "ok st \<Longrightarrow> list_all (possible st) ops \<Longrightarrow>
   ok (stores ops st) \<and> inside (stores ops st) = inside st \<and> storable (stores ops st) = storable st"
proof (induction ops arbitrary: st)
  case (Cons op ops)
  obtain w b v where op: "op = (w, b, v)" by (cases op)
  have "possible (store st w b v) = possible st" by (simp add: possible_def inside_store storable_store)
  then show ?case using Cons.prems Cons.IH [of "store st w b v"]
    by (simp add: op stores_def possible_def ok_store inside_store storable_store)
qed (simp add: stores_def)

lemma last_store_wins:
  "ok st \<Longrightarrow> list_all (possible st) ops \<Longrightarrow> inside st w \<Longrightarrow>
   read (stores ops st) w b =
     (case find (\<lambda>op. fst (snd op) = b) (rev ops) of None \<Rightarrow> read st w b | Some op \<Rightarrow> Inr (snd (snd op)))"
proof (induction ops rule: rev_induct)
  case (snoc op ops)
  obtain w' b' v where op: "op = (w', b', v)" by (cases op)
  have "read (stores (ops @ [op]) st) w b = (if b = b' then Inr v else read (stores ops st) w b)"
    using snoc.prems stores_ok [of st ops] read_store [of "stores ops st" w' w v]
    by (simp add: op stores_def possible_def)
  then show ?case using snoc by (simp add: op)
qed (simp add: stores_def)

end

section \<open>The store as such sessions\<close>

text \<open>
  The table, the cookie each browser holds, and what stays the same while cookies are valid: from
  \<open>si_start\<close> on for \<open>si_age\<close> seconds.
\<close>

record 'v site =
  si_codec :: "'v codec"
  si_base32 :: "nat \<Rightarrow> string"
  si_start :: int
  si_age :: int
  si_db :: pg_db
  si_jar :: "string \<Rightarrow> string option"

definition site_read :: "'v site \<Rightarrow> 'v pg_world \<Rightarrow> string \<Rightarrow> (go_error, 'v) go_result" where
  "site_read st w b =
     (case PG_New w (si_db st) (si_jar st b) of (s, None) \<Rightarrow> Inr (hs_Values s) | (s, Some e) \<Rightarrow> Inl e)"

definition site_store :: "'v site \<Rightarrow> 'v pg_world \<Rightarrow> string \<Rightarrow> 'v \<Rightarrow> 'v site" where
  "site_store st w b v =
     (case PG_New w (si_db st) (si_jar st b) of
        (s, Some e) \<Rightarrow> st
      | (s, None) \<Rightarrow>
          (case PG_Save w (si_db st) (s\<lparr>hs_Values := v\<rparr>) of
             (db, Inl e) \<Rightarrow> st\<lparr>si_db := db\<rparr>
           | (db, Inr cookie) \<Rightarrow> st\<lparr>si_db := db, si_jar := (si_jar st)(b := Some cookie)\<rparr>))"

text \<open>What \<open>securecookie\<close> documents: a signed value is read back until its age is reached.\<close>

definition lawful_codec :: "int \<Rightarrow> 'v codec \<Rightarrow> bool" where
  "lawful_codec age c \<longleftrightarrow>
     (\<forall>t k. \<exists>x. co_encode_id c t k = Inr x) \<and>
     (\<forall>t t' k x. co_encode_id c t k = Inr x \<longrightarrow> t' \<le> t + age \<longrightarrow> co_decode_id c t' x = Inr k) \<and>
     (\<forall>t t' v x. co_encode c t v = Inr x \<longrightarrow> t' \<le> t + age \<longrightarrow> co_decode c t' x = Inr v)"

definition key_of :: "'v site \<Rightarrow> nat \<Rightarrow> string" where
  "key_of st n = TrimRight (si_base32 st n) ''=''"

definition site_inside :: "'v site \<Rightarrow> 'v pg_world \<Rightarrow> bool" where
  "site_inside st w \<longleftrightarrow>
     pg_codec w = si_codec st \<and> pg_base32 w = si_base32 st \<and> pg_MaxAge w = si_age st \<and>
     pg_select w = None \<and> pg_create w = None \<and> pg_update w = None \<and>
     si_start st \<le> pg_now w \<and> pg_now w \<le> si_start st + si_age st"

definition site_storable :: "'v site \<Rightarrow> 'v \<Rightarrow> bool" where
  "site_storable st v \<longleftrightarrow> (\<forall>t. \<exists>x. co_encode (si_codec st) t v = Inr x)"

definition live_cookie :: "'v site \<Rightarrow> string \<Rightarrow> string \<Rightarrow> bool" where
  "live_cookie st c key \<longleftrightarrow> (\<forall>t \<le> si_start st + si_age st. co_decode_id (si_codec st) t c = Inr key)"

definition live_data :: "'v site \<Rightarrow> string \<Rightarrow> 'v \<Rightarrow> bool" where
  "live_data st d v \<longleftrightarrow> (\<forall>t \<le> si_start st + si_age st. co_decode (si_codec st) t d = Inr v)"

definition rows_ok :: "'v site \<Rightarrow> bool" where
  "rows_ok st \<longleftrightarrow>
     distinct (map sn_Key (pg_rows (si_db st))) \<and>
     (\<forall>r\<in>set (pg_rows (si_db st)). \<not> sn_Deleted r \<and> (\<exists>v. live_data st (sn_Data r) v) \<and>
        (\<exists>n < pg_draws (si_db st). sn_Key r = key_of st n))"

definition jar_ok :: "'v site \<Rightarrow> bool" where
  "jar_ok st \<longleftrightarrow>
     (\<forall>b c. si_jar st b = Some c \<longrightarrow> (\<exists>key \<in> sn_Key ` set (pg_rows (si_db st)). live_cookie st c key)) \<and>
     (\<forall>b b' c c' key. si_jar st b = Some c \<longrightarrow> si_jar st b' = Some c' \<longrightarrow>
        live_cookie st c key \<longrightarrow> live_cookie st c' key \<longrightarrow> b = b')"

definition site_ok :: "'v site \<Rightarrow> bool" where
  "site_ok st \<longleftrightarrow>
     0 \<le> si_age st \<and> lawful_codec (si_age st) (si_codec st) \<and>
     (\<forall>n. key_of st n \<noteq> []) \<and> inj (key_of st) \<and> rows_ok st \<and> jar_ok st"

lemma live_cookie_unique: "live_cookie st c key \<Longrightarrow> live_cookie st c key' \<Longrightarrow> key = key'"
  unfolding live_cookie_def by (metis order_refl sum.inject(2))

lemma site_encode:
  assumes "site_ok st" "site_inside st w"
  shows "co_encode_id (si_codec st) (pg_now w) key = Inr c \<Longrightarrow> live_cookie st c key"
    and "co_encode (si_codec st) (pg_now w) v = Inr d \<Longrightarrow> live_data st d v"
proof -
  have "t \<le> pg_now w + si_age st" if "t \<le> si_start st + si_age st" for t
    using assms(2) that by (simp add: site_inside_def)
  then show "co_encode_id (si_codec st) (pg_now w) key = Inr c \<Longrightarrow> live_cookie st c key"
    and "co_encode (si_codec st) (pg_now w) v = Inr d \<Longrightarrow> live_data st d v"
    using assms(1) unfolding site_ok_def lawful_codec_def live_cookie_def live_data_def by metis+
qed

lemma SelectSession_row:
  assumes "rows_ok st" "pg_select w = None" "r \<in> set (pg_rows (si_db st))"
  shows "SelectSession w (si_db st) (sn_Key r) = Inr r"
proof -
  have "find (\<lambda>s. sn_Key s = sn_Key r \<and> \<not> sn_Deleted s) (pg_rows (si_db st)) =
      find (\<lambda>s. sn_Key s = sn_Key r) (pg_rows (si_db st))"
    using assms(1) by (intro find_cong) (auto simp: rows_ok_def)
  also have "... = Some r" using find_key [of sn_Key "pg_rows (si_db st)"] assms by (simp add: rows_ok_def)
  finally show ?thesis using assms(2) by (simp add: SelectSession_def faulty_first_def table_first_def)
qed

lemma New_row:
  assumes "rows_ok st" "site_inside st w" "live_cookie st c (sn_Key r)" "r \<in> set (pg_rows (si_db st))"
    and "live_data st (sn_Data r) v"
  shows "PG_New w (si_db st) (Some c) =
    (\<lparr>hs_ID = sn_Key r, hs_Values = v, hs_IsNew = False, hs_MaxAge = si_age st\<rparr>, None)"
  using assms SelectSession_row [OF assms(1) _ assms(4), of w]
  by (simp add: PG_New_def PG_load_def new_session_def site_inside_def live_cookie_def live_data_def)

lemma New_none: "PG_New w db None = (new_session w, None)"
  by (simp add: PG_New_def)

text \<open>What storing does: the row of the cookie's key, or a new row.\<close>

definition put_row :: "'v site \<Rightarrow> string \<Rightarrow> string \<Rightarrow> int \<Rightarrow> session_row list" where
  "put_row st key d e =
     (if key \<in> sn_Key ` set (pg_rows (si_db st))
      then map (\<lambda>x. if sn_Key x = key \<and> \<not> sn_Deleted x then x\<lparr>sn_Data := d, sn_ExpiresAt := e\<rparr> else x) (pg_rows (si_db st))
      else pg_rows (si_db st) @ [\<lparr>sn_Key = key, sn_Data = d, sn_ExpiresAt = e, sn_Deleted = False\<rparr>])"

lemma site_store_known:
  assumes ok: "site_ok st" and w: "site_inside st w" and v: "site_storable st v"
    and c: "si_jar st b = Some c" "live_cookie st c key" "key \<in> sn_Key ` set (pg_rows (si_db st))"
  shows "\<exists>d e c'. site_store st w b v =
      st\<lparr>si_db := (si_db st)\<lparr>pg_rows := put_row st key d e\<rparr>, si_jar := (si_jar st)(b := Some c')\<rparr> \<and>
    live_data st d v \<and> live_cookie st c' key"
proof -
  obtain r where r: "r \<in> set (pg_rows (si_db st))" "sn_Key r = key" using c(3) by auto
  have rows: "rows_ok st" using ok by (simp add: site_ok_def)
  obtain v' where v': "live_data st (sn_Data r) v'" using rows r(1) by (auto simp: rows_ok_def)
  have "key \<noteq> []" "0 \<le> si_age st" using ok rows r by (auto simp: site_ok_def rows_ok_def)
  obtain d where d: "co_encode (si_codec st) (pg_now w) v = Inr d" using v by (auto simp: site_storable_def)
  obtain c' where c': "co_encode_id (si_codec st) (pg_now w) key = Inr c'"
    using ok unfolding site_ok_def lawful_codec_def by blast
  have "PG_New w (si_db st) (Some c) = (\<lparr>hs_ID = key, hs_Values = v', hs_IsNew = False, hs_MaxAge = si_age st\<rparr>, None)"
    using New_row [OF rows w _ r(1) v', of c] c(2) r(2) by simp
  then have "site_store st w b v = st\<lparr>si_db := (si_db st)\<lparr>pg_rows := put_row st key d
      (expires_at (pg_now w) (si_age st) (co_expires_on (si_codec st) v))\<rparr>, si_jar := (si_jar st)(b := Some c')\<rparr>"
    using d c' c(1,3) w \<open>0 \<le> si_age st\<close> \<open>key \<noteq> []\<close>
    by (simp add: site_store_def PG_Save_def PG_save_def UpdateSession_def Let_def site_inside_def put_row_def)
  then show ?thesis using site_encode [OF ok w] d c' by blast
qed

lemma site_store_fresh:
  assumes ok: "site_ok st" and w: "site_inside st w" and v: "site_storable st v" and b: "si_jar st b = None"
  defines "key \<equiv> key_of st (pg_draws (si_db st))"
  shows "key \<notin> sn_Key ` set (pg_rows (si_db st))"
    and "\<exists>d e c'. site_store st w b v =
      st\<lparr>si_db := \<lparr>pg_rows = put_row st key d e, pg_draws = pg_draws (si_db st) + 1\<rparr>, si_jar := (si_jar st)(b := Some c')\<rparr> \<and>
    live_data st d v \<and> live_cookie st c' key"
proof -
  show new: "key \<notin> sn_Key ` set (pg_rows (si_db st))"
  proof
    assume "key \<in> sn_Key ` set (pg_rows (si_db st))"
    then obtain n where "n < pg_draws (si_db st)" "key_of st n = key"
      using ok unfolding site_ok_def rows_ok_def by force
    then show False using ok injD [of "key_of st" n "pg_draws (si_db st)"] by (simp add: key_def site_ok_def)
  qed
  obtain d where d: "co_encode (si_codec st) (pg_now w) v = Inr d" using v by (auto simp: site_storable_def)
  obtain c' where c': "co_encode_id (si_codec st) (pg_now w) key = Inr c'"
    using ok unfolding site_ok_def lawful_codec_def by blast
  have "key \<noteq> []" using ok by (simp add: key_def site_ok_def)
  have "TrimRight (pg_base32 w (pg_draws (si_db st))) ''='' = key"
    using w by (simp add: key_def key_of_def site_inside_def)
  then have "site_store st w b v = st\<lparr>si_db := \<lparr>pg_rows = put_row st key d
        (expires_at (pg_now w) (si_age st) (co_expires_on (si_codec st) v)),
      pg_draws = pg_draws (si_db st) + 1\<rparr>, si_jar := (si_jar st)(b := Some c')\<rparr>"
    using d c' b w new \<open>key \<noteq> []\<close> by (simp add: site_store_def New_none new_session_def PG_Save_def PG_save_def
        CreateSession_def Let_def site_inside_def put_row_def)
  then show "\<exists>d e c'. site_store st w b v =
      st\<lparr>si_db := \<lparr>pg_rows = put_row st key d e, pg_draws = pg_draws (si_db st) + 1\<rparr>, si_jar := (si_jar st)(b := Some c')\<rparr> \<and>
    live_data st d v \<and> live_cookie st c' key"
    using site_encode [OF ok w] d c' by blast
qed

text \<open>Both as one fact: the row of some key of the table or a drawn one.\<close>

definition put_site :: "'v site \<Rightarrow> string \<Rightarrow> string \<Rightarrow> string \<Rightarrow> int \<Rightarrow> string \<Rightarrow> 'v site" where
  "put_site st b key d e c =
     st\<lparr>si_db := \<lparr>pg_rows = put_row st key d e,
                  pg_draws = (if si_jar st b = None then pg_draws (si_db st) + 1 else pg_draws (si_db st))\<rparr>,
        si_jar := (si_jar st)(b := Some c)\<rparr>"

definition key_for :: "'v site \<Rightarrow> string \<Rightarrow> string \<Rightarrow> bool" where
  "key_for st b key \<longleftrightarrow>
     (case si_jar st b of
        None \<Rightarrow> key = key_of st (pg_draws (si_db st)) \<and> key \<notin> sn_Key ` set (pg_rows (si_db st))
      | Some c \<Rightarrow> live_cookie st c key \<and> key \<in> sn_Key ` set (pg_rows (si_db st)))"

lemma site_store_put:
  assumes "site_ok st" "site_inside st w" "site_storable st v"
  shows "\<exists>key d e c. site_store st w b v = put_site st b key d e c \<and> key_for st b key \<and>
    live_data st d v \<and> live_cookie st c key"
proof (cases "si_jar st b")
  case None
  then show ?thesis using site_store_fresh [OF assms None] by (auto simp: put_site_def key_for_def)
next
  case (Some c)
  then obtain key where key: "live_cookie st c key" "key \<in> sn_Key ` set (pg_rows (si_db st))"
    using assms(1) unfolding site_ok_def jar_ok_def by blast
  then obtain d e c' where "site_store st w b v =
      st\<lparr>si_db := (si_db st)\<lparr>pg_rows := put_row st key d e\<rparr>, si_jar := (si_jar st)(b := Some c')\<rparr>"
      "live_data st d v" "live_cookie st c' key"
    using site_store_known [OF assms Some] by blast
  moreover from this have "site_store st w b v = put_site st b key d e c'"
    by (cases "si_db st") (simp add: put_site_def Some)
  moreover have "key_for st b key" using key Some by (simp add: key_for_def)
  ultimately show ?thesis by blast
qed

lemma live_put [simp]:
  "live_cookie (put_site st b key d e c) = live_cookie st"
  "live_data (put_site st b key d e c) = live_data st"
  "key_of (put_site st b key d e c) = key_of st"
  by (simp_all add: put_site_def live_cookie_def live_data_def key_of_def fun_eq_iff)

lemma map_keys_put_row: "map sn_Key (put_row st key d e) =
    (if key \<in> sn_Key ` set (pg_rows (si_db st)) then map sn_Key (pg_rows (si_db st))
     else map sn_Key (pg_rows (si_db st)) @ [key])"
  by (simp add: put_row_def)

lemma keys_put_row: "sn_Key ` set (put_row st key d e) = insert key (sn_Key ` set (pg_rows (si_db st)))"
proof -
  have "sn_Key ` set (put_row st key d e) = set (map sn_Key (put_row st key d e))" by simp
  also have "... = insert key (sn_Key ` set (pg_rows (si_db st)))" unfolding map_keys_put_row by auto
  finally show ?thesis .
qed

lemma distinct_put_row:
  "distinct (map sn_Key (pg_rows (si_db st))) \<Longrightarrow> distinct (map sn_Key (put_row st key d e))"
  unfolding map_keys_put_row by simp

lemma put_row_cases:
  assumes "rows_ok st" "r \<in> set (put_row st key d e)"
  shows "(sn_Key r = key \<and> sn_Data r = d \<and> \<not> sn_Deleted r) \<or> (sn_Key r \<noteq> key \<and> r \<in> set (pg_rows (si_db st)))"
proof (cases "key \<in> sn_Key ` set (pg_rows (si_db st))")
  case True
  then obtain x where "x \<in> set (pg_rows (si_db st))"
      "r = (if sn_Key x = key \<and> \<not> sn_Deleted x then x\<lparr>sn_Data := d, sn_ExpiresAt := e\<rparr> else x)"
    using assms(2) by (auto simp: put_row_def)
  moreover from this(1) have "\<not> sn_Deleted x" using assms(1) by (simp add: rows_ok_def)
  ultimately show ?thesis by (cases "sn_Key x = key") auto
next
  case False
  then show ?thesis using assms(2) by (auto simp: put_row_def)
qed

lemma key_for_drawn:
  "site_ok st \<Longrightarrow> key_for st b key \<Longrightarrow>
   \<exists>n < (if si_jar st b = None then pg_draws (si_db st) + 1 else pg_draws (si_db st)). key = key_of st n"
  unfolding site_ok_def rows_ok_def key_for_def by (auto split: option.splits)

lemma put_rows_ok:
  assumes ok: "site_ok st" and key: "key_for st b key" and d: "live_data st d v"
  shows "rows_ok (put_site st b key d e c)"
proof -
  have rows: "rows_ok st" using ok by (simp add: site_ok_def)
  define st' where "st' = put_site st b key d e c"
  have db: "si_db st' = \<lparr>pg_rows = put_row st key d e,
      pg_draws = (if si_jar st b = None then pg_draws (si_db st) + 1 else pg_draws (si_db st))\<rparr>"
    by (simp add: st'_def put_site_def)
  have live: "live_data st' = live_data st" "key_of st' = key_of st" unfolding st'_def by (rule live_put)+
  have "\<not> sn_Deleted r \<and> (\<exists>v. live_data st (sn_Data r) v) \<and> (\<exists>n < pg_draws (si_db st'). sn_Key r = key_of st n)"
    if "r \<in> set (put_row st key d e)" for r
    using put_row_cases [OF rows that] key_for_drawn [OF ok key] d rows
    unfolding rows_ok_def db by (auto intro: less_SucI)
  moreover have "distinct (map sn_Key (put_row st key d e))" using rows by (simp add: rows_ok_def distinct_put_row)
  ultimately show ?thesis unfolding st'_def [symmetric] rows_ok_def live by (simp add: db)
qed

lemma put_jar_ok:
  assumes ok: "site_ok st" and key: "key_for st b key" and c: "live_cookie st c key"
  shows "jar_ok (put_site st b key d e c)"
proof -
  define st' where "st' = put_site st b key d e c"
  have jar: "si_jar st' = (si_jar st)(b := Some c)" and rows: "pg_rows (si_db st') = put_row st key d e"
    by (simp_all add: st'_def put_site_def)
  have live: "live_cookie st' = live_cookie st" unfolding st'_def by (rule live_put)
  have jar_st: "jar_ok st" using ok by (simp add: site_ok_def)
  have other: "b = b'" if "si_jar st b' = Some c'" "live_cookie st c' key" for b' c'
  proof (cases "si_jar st b")
    case None
    then have "key \<notin> sn_Key ` set (pg_rows (si_db st))" using key unfolding key_for_def by auto
    then show ?thesis using jar_st that live_cookie_unique unfolding jar_ok_def by metis
  next
    case (Some c0)
    then have "live_cookie st c0 key" using key by (simp add: key_for_def)
    then show ?thesis using jar_st that Some unfolding jar_ok_def by metis
  qed
  have "\<exists>k \<in> sn_Key ` set (pg_rows (si_db st')). live_cookie st' c' k" if "si_jar st' b' = Some c'" for b' c'
    using that jar_st c unfolding rows keys_put_row live jar jar_ok_def by (auto split: if_splits)
  moreover have "b1 = b2" if "si_jar st' b1 = Some c1" "si_jar st' b2 = Some c2"
      "live_cookie st' c1 k" "live_cookie st' c2 k" for b1 b2 c1 c2 k
    using that jar_st c other live_cookie_unique [of st] unfolding live jar jar_ok_def
    by (auto split: if_splits; metis)
  ultimately show ?thesis unfolding st'_def [symmetric] jar_ok_def by blast
qed

lemma site_store_ok:
  assumes "site_ok st" "site_inside st w" "site_storable st v"
  shows "site_ok (site_store st w b v)"
proof -
  obtain key d e c where put: "site_store st w b v = put_site st b key d e c" "key_for st b key"
      "live_data st d v" "live_cookie st c key"
    using site_store_put [OF assms] by blast
  have "si_age (put_site st b key d e c) = si_age st" "si_codec (put_site st b key d e c) = si_codec st"
    by (simp_all add: put_site_def)
  then show ?thesis using assms(1) put_rows_ok [OF assms(1) put(2,3)] put_jar_ok [OF assms(1) put(2,4)]
    by (simp add: put(1) site_ok_def)
qed

lemma site_store_fixed:
  "si_codec (site_store st w b v) = si_codec st" "si_base32 (site_store st w b v) = si_base32 st"
  "si_start (site_store st w b v) = si_start st" "si_age (site_store st w b v) = si_age st"
  by (simp_all add: site_store_def split: prod.split option.split sum.split)

lemma site_inside_store: "site_inside (site_store st w b v) = site_inside st"
  by (simp add: site_inside_def site_store_fixed fun_eq_iff)

lemma site_storable_store: "site_storable (site_store st w b v) = site_storable st"
  by (simp add: site_storable_def site_store_fixed fun_eq_iff)

section \<open>What a browser reads\<close>

lemma site_read_row:
  assumes "rows_ok st" "site_inside st w" "si_jar st b = Some c" "live_cookie st c (sn_Key r)"
    and "r \<in> set (pg_rows (si_db st))" "live_data st (sn_Data r) v"
  shows "site_read st w b = Inr v"
  using New_row [OF assms(1,2,4-6)] assms(3) by (simp add: site_read_def)

lemma put_row_hit: "rows_ok st \<Longrightarrow> \<exists>r \<in> set (put_row st key d e). sn_Key r = key \<and> sn_Data r = d"
proof -
  assume rows: "rows_ok st"
  have "key \<in> sn_Key ` set (put_row st key d e)" by (simp add: keys_put_row)
  then obtain r where "r \<in> set (put_row st key d e)" "sn_Key r = key" by auto
  then show ?thesis using put_row_cases [OF rows, of r key d e] by blast
qed

lemma put_row_kept: "r \<in> set (pg_rows (si_db st)) \<Longrightarrow> sn_Key r \<noteq> key \<Longrightarrow> r \<in> set (put_row st key d e)"
  by (force simp: put_row_def)

lemma live_cookie_other:
  assumes "site_ok st" "key_for st b key" "b' \<noteq> b" "si_jar st b' = Some c" "live_cookie st c key'"
    and "key' \<in> sn_Key ` set (pg_rows (si_db st))"
  shows "key' \<noteq> key"
proof (cases "si_jar st b")
  case None
  then have "key \<notin> sn_Key ` set (pg_rows (si_db st))" using assms(2) unfolding key_for_def by auto
  then show ?thesis using assms(6) by metis
next
  case (Some c0)
  then have "live_cookie st c0 key" using assms(2) by (simp add: key_for_def)
  then show ?thesis using assms(1,3-5) Some unfolding site_ok_def jar_ok_def by metis
qed

lemma site_read_store:
  assumes ok: "site_ok st" and w: "site_inside st w" and w': "site_inside st w'" and v: "site_storable st v"
  shows "site_read (site_store st w b v) w' b' = (if b' = b then Inr v else site_read st w' b')"
proof -
  obtain key d e c where put: "site_store st w b v = put_site st b key d e c" "key_for st b key"
      "live_data st d v" "live_cookie st c key"
    using site_store_put [OF ok w v] by blast
  define st' where "st' = put_site st b key d e c"
  have jar: "si_jar st' = (si_jar st)(b := Some c)" and rows: "pg_rows (si_db st') = put_row st key d e"
    by (simp_all add: st'_def put_site_def)
  have live: "live_cookie st' = live_cookie st" "live_data st' = live_data st" unfolding st'_def by (rule live_put)+
  have rows_st: "rows_ok st" "rows_ok st'"
    using ok put_rows_ok [OF ok put(2,3)] by (simp_all add: site_ok_def st'_def)
  have inside: "site_inside st' w'" using w' site_inside_store [of st w b v] by (simp add: put(1) st'_def)
  have "site_read st' w' b = Inr v"
    using put_row_hit [OF rows_st(1), of key d e] site_read_row [OF rows_st(2) inside, of b c] put(3,4)
    unfolding jar rows live by auto
  moreover have "site_read st' w' b' = site_read st w' b'" if b': "b' \<noteq> b"
  proof (cases "si_jar st b'")
    case None
    then show ?thesis using b' by (simp add: site_read_def jar New_none)
  next
    case (Some c')
    then obtain r where r: "r \<in> set (pg_rows (si_db st))" "live_cookie st c' (sn_Key r)"
      using ok unfolding site_ok_def jar_ok_def by blast
    obtain v' where v': "live_data st (sn_Data r) v'" using rows_st(1) r(1) unfolding rows_ok_def by blast
    have "sn_Key r \<noteq> key" using live_cookie_other [OF ok put(2) b' Some r(2)] r(1) by blast
    then have "r \<in> set (pg_rows (si_db st'))" using r(1) by (simp add: rows put_row_kept)
    then have "site_read st' w' b' = Inr v'"
      using site_read_row [OF rows_st(2) inside, of b' c' r v'] b' Some r(2) v' by (simp add: jar live)
    then show ?thesis using site_read_row [OF rows_st(1) w' Some r(2,1) v'] by simp
  qed
  ultimately show ?thesis by (simp add: put(1) st'_def)
qed

interpretation site: browser_sessions site_ok site_inside site_storable site_read site_store
  by unfold_locales (simp_all add: site_read_store site_store_ok site_inside_store site_storable_store)

section \<open>The accounts' sessions as such sessions\<close>

definition accounts_read :: "account_db \<Rightarrow> account_world \<Rightarrow> string \<Rightarrow> (go_error, login_session) go_result" where
  "accounts_read db w b = StoreGet w db b"

definition accounts_store :: "account_db \<Rightarrow> account_world \<Rightarrow> string \<Rightarrow> login_session \<Rightarrow> account_db" where
  "accounts_store db w b v = fst (StoreSave w db b v)"

definition accounts_inside :: "account_db \<Rightarrow> account_world \<Rightarrow> bool" where
  "accounts_inside db w \<longleftrightarrow> aw_store_get w = None \<and> aw_store_save w = None"

interpretation accounts: browser_sessions "\<lambda>_. True" accounts_inside "\<lambda>_ _. True" accounts_read accounts_store
  by unfold_locales (auto simp: accounts_inside_def accounts_read_def accounts_store_def StoreGet_def StoreSave_def fun_eq_iff)

section \<open>Properties\<close>

text \<open>A save by browser \<open>b\<close> as the two sides see it: the circumstances of the store and of the accounts.\<close>

type_synonym save_op = "login_session pg_world \<times> account_world \<times> string \<times> login_session"

definition possible_save :: "login_session site \<Rightarrow> account_db \<Rightarrow> save_op \<Rightarrow> bool" where
  "possible_save st db = (\<lambda>(w, aw, b, v). site_inside st w \<and> accounts_inside db aw \<and> site_storable st v)"

definition site_saves :: "save_op list \<Rightarrow> login_session site \<Rightarrow> login_session site" where
  "site_saves ops st = fold (\<lambda>(w, aw, b, v) st. site_store st w b v) ops st"

definition accounts_saves :: "save_op list \<Rightarrow> account_db \<Rightarrow> account_db" where
  "accounts_saves ops db = fold (\<lambda>(w, aw, b, v) db. fst (StoreSave aw db b v)) ops db"

lemma site_saves_stores: "site_saves ops st = site.stores (map (\<lambda>(w, aw, b, v). (w, b, v)) ops) st"
  by (simp add: site_saves_def site.stores_def fold_map comp_def case_prod_unfold)

lemma accounts_saves_stores: "accounts_saves ops db = accounts.stores (map (\<lambda>(w, aw, b, v). (aw, b, v)) ops) db"
  by (simp add: accounts_saves_def accounts.stores_def fold_map comp_def case_prod_unfold accounts_store_def)

lemma possible_saves:
  assumes "list_all (possible_save st db) ops"
  shows "list_all (site.possible st) (map (\<lambda>(w, aw, b, v). (w, b, v)) ops)"
    and "list_all (accounts.possible db) (map (\<lambda>(w, aw, b, v). (aw, b, v)) ops)"
  using assms by (auto simp: list_all_iff possible_save_def site.possible_def accounts.possible_def)

lemma find_save:
  "find (\<lambda>op. fst (snd op) = b) (rev (map (\<lambda>(w, aw, b, v). (f w aw, b, v)) ops)) =
   map_option (\<lambda>(w, aw, b, v). (f w aw, b, v)) (find (\<lambda>(w, aw, b', v). b' = b) (rev ops))"
  by (induction ops rule: rev_induct) auto

text \<open>
  C12. The store keeps what the login helpers take for granted: after any saves of any browsers, while
  the cookies live and the database answers, every browser reads from the store exactly the session
  the accounts have for it. The table, its keys, the cookies and the signatures cannot be told from a
  map from browsers to sessions.
\<close>
theorem store_refines_sessions:
  assumes "site_ok st" "list_all (possible_save st db) ops" "site_inside st w" "accounts_inside db aw"
    and "site_read st w b = StoreGet aw db b"
  shows "site_read (site_saves ops st) w b = StoreGet aw (accounts_saves ops db) b"
proof -
  define last where "last = find (\<lambda>(w, aw, b', v). b' = b) (rev ops)"
  have "site_read (site_saves ops st) w b =
      (case last of None \<Rightarrow> site_read st w b | Some (w', aw', b', v) \<Rightarrow> Inr v)"
    using site.last_store_wins [OF assms(1) possible_saves(1) [OF assms(2)] assms(3), of b]
      find_save [of b "\<lambda>w aw. w" ops]
    by (simp add: site_saves_stores last_def [symmetric] split: option.splits prod.splits)
  moreover have "StoreGet aw (accounts_saves ops db) b =
      (case last of None \<Rightarrow> StoreGet aw db b | Some (w', aw', b', v) \<Rightarrow> Inr v)"
    using accounts.last_store_wins [OF TrueI possible_saves(2) [OF assms(2)] assms(4), of b]
      find_save [of b "\<lambda>w aw. aw" ops]
    by (simp add: accounts_saves_stores accounts_read_def last_def [symmetric] split: option.splits prod.splits)
  ultimately show ?thesis using assms(5) by (simp split: option.split)
qed

text \<open>
  C27. Signing in does not change the key of a session: the cookie that a browser had before a save
  gives the values saved later, to whoever sends it. A cookie that somebody else knows beforehand is
  signed in with its browser, and every copy of a cookie is signed out with it.
\<close>
theorem old_cookie_reads_new_values:
  assumes "site_ok st" "site_inside st w" "site_inside st w'" "site_storable st v"
    and "si_jar st b = Some cookie"
  shows "\<exists>s. PG_New w' (si_db (site_store st w b v)) (Some cookie) = (s, None) \<and> hs_Values s = v \<and> \<not> hs_IsNew s"
proof -
  obtain key where key: "live_cookie st cookie key" "key \<in> sn_Key ` set (pg_rows (si_db st))"
    using assms(1,5) unfolding site_ok_def jar_ok_def by blast
  obtain d e c where st': "site_store st w b v =
      st\<lparr>si_db := (si_db st)\<lparr>pg_rows := put_row st key d e\<rparr>, si_jar := (si_jar st)(b := Some c)\<rparr>"
      and d: "live_data st d v"
    using site_store_known [OF assms(1,2,4,5) key] by blast
  have rows: "rows_ok st" "rows_ok (site_store st w b v)"
    using assms(1) site_store_ok [OF assms(1,2,4)] by (simp_all add: site_ok_def)
  obtain r where r: "r \<in> set (put_row st key d e)" "sn_Key r = key" "sn_Data r = d"
    using put_row_hit [OF rows(1)] by blast
  have "live_cookie (site_store st w b v) cookie (sn_Key r)" "live_data (site_store st w b v) (sn_Data r) v"
    "r \<in> set (pg_rows (si_db (site_store st w b v)))" "site_inside (site_store st w b v) w'"
    using key(1) d r assms(3) site_inside_store [of st w b v]
    by (simp_all add: live_cookie_def live_data_def site_store_fixed) (simp add: st')
  then show ?thesis using New_row [OF rows(2), of w' cookie r v] by simp
qed

text \<open>
  A deleted session does not come back: once the store was told to delete the session of a key
  of the table (an age below zero), a cookie with that key gives an empty new session and no error,
  and saving anything through it is refused, as the deleted row still has the key; the table stays
  as it is.
\<close>
theorem deleted_session_refused:
  assumes "hs_MaxAge s < 0" "hs_ID s \<noteq> []" "hs_ID s \<in> sn_Key ` set (pg_rows db)"
    and "PG_Save w db s = (db', Inr [])"
    and "co_decode_id (pg_codec w') (pg_now w') cookie = Inr (hs_ID s)"
    and "pg_select w' = None" "pg_create w' = None" "0 \<le> pg_MaxAge w'"
    and "co_encode (pg_codec w') (pg_now w') v = Inr d"
  shows "\<exists>s'. PG_New w' db' (Some cookie) = (s', None) \<and> hs_Values s' = co_empty (pg_codec w') \<and> hs_IsNew s' \<and>
    PG_Save w' db' (s'\<lparr>hs_Values := v\<rparr>) = (db', Inl (pg_conflict w'))"
proof -
  have db': "db' = db\<lparr>pg_rows := map (\<lambda>x. if sn_Key x = hs_ID s then x\<lparr>sn_Deleted := True\<rparr> else x) (pg_rows db)\<rparr>"
    using assms(1,4) by (auto simp: PG_Save_def DeleteSession_def split: option.splits)
  have "find (\<lambda>x. sn_Key x = hs_ID s \<and> \<not> sn_Deleted x) (pg_rows db') = None"
    by (auto simp: db' find_None_iff split: if_splits)
  then have "SelectSession w' db' (hs_ID s) = Inl ErrRecordNotFound"
    using assms(6) by (simp add: SelectSession_def faulty_first_def table_first_def)
  moreover have "map sn_Key (pg_rows db') = map sn_Key (pg_rows db)" by (simp add: db')
  then have "hs_ID s \<in> sn_Key ` set (pg_rows db')" using assms(3) by (metis list.set_map)
  ultimately show ?thesis using assms
    by (simp add: PG_New_def PG_load_def new_session_def PG_Save_def PG_save_def CreateSession_def Let_def)
qed

end
