(* ===== verification/Session_Samples.thy ===== *)
theory Session_Samples
  imports Session_Store Account_Samples
begin

text \<open>
  The hypotheses of the theorems of \<open>Session_Store\<close> hold: a codec that signs two sessions, an empty
  table and browsers without cookies.
\<close>

section \<open>The surroundings\<close>

definition sample_signed_in :: login_session where
  "sample_signed_in = sample_new_session\<lparr>se_authenticated := Some True, se_user_id := Some 1\<rparr>"

definition sample_codec :: "login_session codec" where
  "sample_codec = \<lparr>co_encode_id = \<lambda>t k. Inr k, co_decode_id = \<lambda>t x. Inr x,
     co_encode = \<lambda>t v. if v = sample_new_session then Inr ''0'' else if v = sample_signed_in then Inr ''1'' else Inl (GoError ''too long''),
     co_decode = \<lambda>t x. if x = ''0'' then Inr sample_new_session else if x = ''1'' then Inr sample_signed_in else Inl (GoError ''not valid''),
     co_expires_on = \<lambda>v. None, co_empty = sample_new_session\<rparr>"

definition sample_site :: "login_session site" where
  "sample_site = \<lparr>si_codec = sample_codec, si_base32 = \<lambda>n. replicate (Suc n) (CHR ''A''), si_start = 0, si_age = 100,
     si_db = \<lparr>pg_rows = [], pg_draws = 0\<rparr>, si_jar = \<lambda>b. None\<rparr>"

definition sample_pg :: "login_session pg_world" where
  "sample_pg = \<lparr>pg_codec = sample_codec, pg_now = 7, pg_MaxAge = 100, pg_base32 = \<lambda>n. replicate (Suc n) (CHR ''A''),
     pg_select = None, pg_create = None, pg_update = None, pg_delete = None, pg_conflict = GoError ''duplicate key''\<rparr>"

lemma TrimRight_A: "TrimRight (replicate n (CHR ''A'')) ''='' = replicate n (CHR ''A'')"
  by (cases n) (simp_all add: TrimRight_def dropWhile_eq_self_iff del: replicate_Suc)

lemma two_sessions: "sample_new_session \<noteq> sample_signed_in" "sample_signed_in \<noteq> sample_new_session"
  by (simp_all add: sample_signed_in_def sample_new_session_def)

lemma sample_site_ok: "site_ok sample_site"
proof -
  have "key_of sample_site n = replicate (Suc n) (CHR ''A'')" for n
    by (simp only: key_of_def sample_site_def site.simps TrimRight_A)
  then have "inj (key_of sample_site)" "\<forall>n. key_of sample_site n \<noteq> []"
    by (metis injI length_replicate nat.inject) (simp add: \<open>\<And>n. key_of sample_site n = _ n\<close>)
  moreover have "lawful_codec 100 sample_codec"
    by (auto simp: lawful_codec_def sample_codec_def two_sessions split: if_splits)
  ultimately show ?thesis by (simp add: site_ok_def rows_ok_def jar_ok_def sample_site_def)
qed

lemma sample_inside: "site_inside sample_site sample_pg"
  by (simp add: site_inside_def sample_site_def sample_pg_def)

lemma sample_storable: "site_storable sample_site sample_new_session" "site_storable sample_site sample_signed_in"
  by (simp_all add: site_storable_def sample_site_def sample_codec_def two_sessions)

section \<open>The theorems applied\<close>

text \<open>Firefox signs in and out, Safari signs in.\<close>

definition sample_saves :: "save_op list" where
  "sample_saves = [(sample_pg, sample_accounts_world, ''firefox'', sample_signed_in),
     (sample_pg, sample_accounts_world, ''safari'', sample_signed_in),
     (sample_pg, sample_accounts_world, ''firefox'', sample_new_session)]"

lemma sample_accounts_inside: "accounts_inside sample_no_accounts sample_accounts_world"
  by (simp add: accounts_inside_def sample_accounts_world_def)

theorem store_refines_sessions_witness:
  "site_read (site_saves sample_saves sample_site) sample_pg ''safari'' =
   StoreGet sample_accounts_world (accounts_saves sample_saves sample_no_accounts) ''safari''"
proof (rule store_refines_sessions)
  show "list_all (possible_save sample_site sample_no_accounts) sample_saves"
    by (simp add: sample_saves_def possible_save_def sample_inside sample_accounts_inside sample_storable)
  show "site_read sample_site sample_pg ''safari'' = StoreGet sample_accounts_world sample_no_accounts ''safari''"
    by (simp add: site_read_def PG_New_def new_session_def StoreGet_def sample_site_def sample_pg_def
        sample_codec_def sample_accounts_world_def sample_no_accounts_def)
qed (fact sample_site_ok sample_inside sample_accounts_inside)+

text \<open>Firefox has the cookie \<open>A\<close> from a first save.\<close>

definition sample_visited :: "login_session site" where
  "sample_visited = site_store sample_site sample_pg ''firefox'' sample_new_session"

lemma sample_visited_ok: "site_ok sample_visited" "site_inside sample_visited sample_pg"
  "site_storable sample_visited sample_signed_in"
  unfolding sample_visited_def site_inside_store site_storable_store
  using site_store_ok [OF sample_site_ok sample_inside sample_storable(1)] sample_inside sample_storable by auto

lemma sample_visited_cookie: "si_jar sample_visited ''firefox'' = Some ''A''"
  by (simp add: sample_visited_def site_store_def PG_New_def new_session_def PG_Save_def PG_save_def CreateSession_def
      TrimRight_def expires_at_def sample_site_def sample_pg_def sample_codec_def)

theorem old_cookie_reads_new_values_witness:
  "\<exists>s. PG_New sample_pg (si_db (site_store sample_visited sample_pg ''firefox'' sample_signed_in)) (Some ''A'') = (s, None) \<and>
     hs_Values s = sample_signed_in \<and> \<not> hs_IsNew s"
  using old_cookie_reads_new_values [OF sample_visited_ok(1,2,2,3) sample_visited_cookie] .

definition sample_table :: pg_db where
  "sample_table = \<lparr>pg_rows = [\<lparr>sn_Key = ''A'', sn_Data = ''1'', sn_ExpiresAt = 107, sn_Deleted = False\<rparr>], pg_draws = 1\<rparr>"

definition sample_leaving :: "login_session http_session" where
  "sample_leaving = \<lparr>hs_ID = ''A'', hs_Values = sample_signed_in, hs_IsNew = False, hs_MaxAge = - 1\<rparr>"

theorem deleted_session_refused_witness:
  "\<exists>db' s'. PG_Save sample_pg sample_table sample_leaving = (db', Inr []) \<and>
     PG_New sample_pg db' (Some ''A'') = (s', None) \<and> hs_Values s' = sample_new_session \<and> hs_IsNew s' \<and>
     PG_Save sample_pg db' (s'\<lparr>hs_Values := sample_signed_in\<rparr>) = (db', Inl (GoError ''duplicate key''))"
proof -
  define db' where "db' = sample_table\<lparr>pg_rows := map (\<lambda>x. x\<lparr>sn_Deleted := True\<rparr>) (pg_rows sample_table)\<rparr>"
  have save: "PG_Save sample_pg sample_table sample_leaving = (db', Inr [])"
    by (simp add: PG_Save_def DeleteSession_def db'_def sample_table_def sample_leaving_def sample_pg_def)
  have "\<exists>s'. PG_New sample_pg db' (Some ''A'') = (s', None) \<and> hs_Values s' = co_empty (pg_codec sample_pg) \<and> hs_IsNew s' \<and>
      PG_Save sample_pg db' (s'\<lparr>hs_Values := sample_signed_in\<rparr>) = (db', Inl (pg_conflict sample_pg))"
    by (rule deleted_session_refused [OF _ _ _ save, where d = "''1''"])
      (simp_all add: sample_leaving_def sample_table_def sample_pg_def sample_codec_def two_sessions)
  then show ?thesis using save by (simp add: sample_pg_def sample_codec_def)
qed

end
