(* ===== verification/Grapher_Yaml.thy ===== *)
theory Grapher_Yaml
  imports Authn
begin

text \<open>
  The documents of a Helm manifest and the objects in them (\<open>internal/helm/grapher/parser.go\<close>,
  \<open>object.go\<close>). The YAML library gives the documents; a failed type assertion, which panics, is
  \<open>None\<close>. A map is a list of its entries in an order in which \<open>range\<close> may visit them.
\<close>

section \<open>Values\<close>

text \<open>
  \<open>SOther\<close> is a scalar of another type, by its text. \<open>YMaps\<close> is a slice of maps, of which Go code makes
  values but no decoder.
\<close>

datatype scalar = SNil | SBool bool | SInt int | SStr string | SOther string

datatype yaml =
  YScalar scalar
| YList "yaml list"
| YMap "(string \<times> yaml) list"
| YAny "(scalar \<times> yaml) list"
| YMaps "(string \<times> yaml) list list"

type_synonym yaml_map = "(string \<times> yaml) list"

abbreviation YNil :: yaml where "YNil \<equiv> YScalar SNil"

abbreviation YStr :: "string \<Rightarrow> yaml" where "YStr s \<equiv> YScalar (SStr s)"

text \<open>The type assertions.\<close>

fun as_string :: "yaml \<Rightarrow> string option" where
  "as_string (YScalar (SStr s)) = Some s"
| "as_string _ = None"

fun as_int :: "yaml \<Rightarrow> int option" where
  "as_int (YScalar (SInt n)) = Some n"
| "as_int _ = None"

fun as_list :: "yaml \<Rightarrow> yaml list option" where
  "as_list (YList ys) = Some ys"
| "as_list _ = None"

fun as_map :: "yaml \<Rightarrow> yaml_map option" where
  "as_map (YMap m) = Some m"
| "as_map _ = None"

text \<open>Reading a key that is missing gives the nil interface.\<close>

definition field :: "yaml_map \<Rightarrow> string \<Rightarrow> yaml" where
  "field m k = (case map_of m k of None \<Rightarrow> YNil | Some v \<Rightarrow> v)"

definition or_default :: "yaml \<Rightarrow> yaml \<Rightarrow> yaml" where
  "or_default d v = (if v = YNil then d else v)"

section \<open>Parsing (\<open>parser.go\<close>)\<close>

fun getField :: "yaml_map \<Rightarrow> string list \<Rightarrow> yaml option" where
  "getField m [] = None"
| "getField m [k] = Some (field m k)"
| "getField m (k # k' # ks) =
     (if field m k = YNil then Some YNil
      else case as_map (field m k) of None \<Rightarrow> None | Some m' \<Rightarrow> getField m' (k' # ks))"

fun Sprint :: "scalar \<Rightarrow> string" where
  "Sprint SNil = ''<nil>''"
| "Sprint (SBool b) = (if b then ''true'' else ''false'')"
| "Sprint (SInt n) = (if n < 0 then ''-'' @ show_nat (nat (- n)) else show_nat (nat n))"
| "Sprint (SStr s) = s"
| "Sprint (SOther t) = t"

text \<open>Assigning the entries of a list to a new map, one after the other.\<close>

definition assign_all :: "(string \<times> yaml) list \<Rightarrow> yaml_map" where
  "assign_all es = fold (\<lambda>(k, v). AList.update k v) es []"

fun recursiveConv :: "yaml \<Rightarrow> yaml" where
  "recursiveConv (YMap m) = YMap (map (\<lambda>(k, v). (k, recursiveConv v)) m)"
| "recursiveConv (YAny m) = YMap (assign_all (map (\<lambda>(k, v). (Sprint k, recursiveConv v)) m))"
| "recursiveConv (YList vs) = YList (map recursiveConv vs)"
| "recursiveConv (YScalar s) = YScalar s"
| "recursiveConv (YMaps ms) = YMaps ms"

text \<open>The results of the calls of the decoder; reading stops at the first error, the end included.\<close>

fun ImportMultiDocYAML :: "(go_error, (scalar \<times> yaml) list) go_result list \<Rightarrow> yaml_map list" where
  "ImportMultiDocYAML (Inr doc # docs) =
     (case recursiveConv (YAny doc) of YMap strmap \<Rightarrow> strmap # ImportMultiDocYAML docs | _ \<Rightarrow> [])"
| "ImportMultiDocYAML (Inl e # docs) = []"
| "ImportMultiDocYAML [] = []"

section \<open>Objects (\<open>object.go\<close>)\<close>

record relation =
  rl_Source :: nat
  rl_Target :: nat

record control_rel = relation +
  cr_Replicas :: int

record relations =
  rs_ControlRels :: "control_rel list"
  rs_LabelRels :: "relation list"
  rs_SpecRels :: "relation list"

record object = relations +
  ob_ID :: nat
  ob_Kind :: string
  ob_Name :: string
  ob_Namespace :: string
  ob_RawYAML :: yaml_map

definition new_object :: "nat \<Rightarrow> string \<Rightarrow> string \<Rightarrow> string \<Rightarrow> yaml_map \<Rightarrow> object" where
  "new_object i kind name ns raw = \<lparr>rs_ControlRels = [], rs_LabelRels = [], rs_SpecRels = [],
     ob_ID = i, ob_Kind = kind, ob_Name = name, ob_Namespace = ns, ob_RawYAML = raw\<rparr>"

text \<open>The object of document \<open>i\<close>; \<open>Some None\<close> when it has no kind.\<close>

definition parse_object :: "string \<Rightarrow> nat \<Rightarrow> yaml_map \<Rightarrow> object option option" where
  "parse_object releaseNamespace i obj =
     Option.bind (getField obj [''kind'']) (\<lambda>kind.
       if kind = YNil then Some None else
       Option.bind (getField obj [''metadata'', ''name'']) (\<lambda>name.
       Option.bind (getField obj [''metadata'', ''namespace'']) (\<lambda>ns.
       Option.bind (as_string kind) (\<lambda>kind.
       Option.bind (as_string (or_default (YStr []) name)) (\<lambda>name.
       Option.bind (as_string (or_default (YStr releaseNamespace) ns)) (\<lambda>ns.
         Some (Some (new_object i kind name ns obj))))))))"

fun parse_from :: "(nat \<Rightarrow> yaml_map \<Rightarrow> object option option) \<Rightarrow> nat \<Rightarrow> yaml_map list \<Rightarrow> object list option" where
  "parse_from p i [] = Some []"
| "parse_from p i (obj # objs) =
     Option.bind (p i obj) (\<lambda>r.
     Option.bind (parse_from p (Suc i) objs) (\<lambda>objArr.
       Some (case r of None \<Rightarrow> objArr | Some parsedObj \<Rightarrow> parsedObj # objArr)))"

definition ParseObjs :: "yaml_map list \<Rightarrow> string \<Rightarrow> object list option" where
  "ParseObjs objs releaseNamespace = parse_from (parse_object releaseNamespace) 0 objs"

text \<open>The YAML of a controller is not kept.\<close>

definition parse_controller :: "nat \<Rightarrow> yaml_map \<Rightarrow> object option option" where
  "parse_controller i obj =
     Option.bind (getField obj [''kind'']) (\<lambda>kind.
       if kind = YNil then Some None else
       Option.bind (as_string kind) (\<lambda>kind.
       if kind \<notin> {''Deployment'', ''StatefulSet'', ''ReplicaSet'', ''DaemonSet'', ''Job'', ''CronJob''} then Some None else
       Option.bind (getField obj [''metadata'', ''name'']) (\<lambda>name.
       Option.bind (getField obj [''metadata'', ''namespace'']) (\<lambda>ns.
       Option.bind (as_string (or_default (YStr []) name)) (\<lambda>name.
       Option.bind (as_string (or_default (YStr ''default'') ns)) (\<lambda>ns.
         Some (Some (new_object i kind name ns []))))))))"

definition ParseControllers :: "yaml_map list \<Rightarrow> object list option" where
  "ParseControllers objs = parse_from parse_controller 0 objs"

section \<open>Conversion\<close>

text \<open>Values with maps of string keys only, each key once.\<close>

fun string_keyed :: "yaml \<Rightarrow> bool" where
  "string_keyed (YScalar s) \<longleftrightarrow> True"
| "string_keyed (YList vs) \<longleftrightarrow> list_all string_keyed vs"
| "string_keyed (YMap m) \<longleftrightarrow> distinct (map fst m) \<and> list_all (\<lambda>(k, v). string_keyed v) m"
| "string_keyed (YAny m) \<longleftrightarrow> False"
| "string_keyed (YMaps ms) \<longleftrightarrow> list_all (\<lambda>m. distinct (map fst m) \<and> list_all (\<lambda>(k, v). string_keyed v) m) ms"

text \<open>What the decoder and Go give: the keys of a map are distinct.\<close>

fun go_value :: "yaml \<Rightarrow> bool" where
  "go_value (YScalar s) \<longleftrightarrow> True"
| "go_value (YList vs) \<longleftrightarrow> list_all go_value vs"
| "go_value (YMap m) \<longleftrightarrow> distinct (map fst m) \<and> list_all (\<lambda>(k, v). go_value v) m"
| "go_value (YAny m) \<longleftrightarrow> distinct (map fst m) \<and> list_all (\<lambda>(k, v). go_value v) m"
| "go_value (YMaps ms) \<longleftrightarrow> False"

lemma assign_all_snoc: "assign_all (es @ [(k, v)]) = AList.update k v (assign_all es)"
  by (simp add: assign_all_def)

lemma map_of_assign_all: "map_of (assign_all es) = map_of (rev es)"
proof (induction es rule: rev_induct)
  case (snoc e es)
  then show ?case by (cases e) (simp add: assign_all_snoc update_conv')
qed (simp add: assign_all_def)

lemma distinct_assign_all: "distinct (map fst (assign_all es))"
proof (induction es rule: rev_induct)
  case (snoc e es)
  then show ?case by (cases e) (simp add: assign_all_snoc distinct_update)
qed (simp add: assign_all_def)

lemma set_assign_all: "set (assign_all es) \<subseteq> set es"
proof
  fix e assume "e \<in> set (assign_all es)"
  then have "map_of (assign_all es) (fst e) = Some (snd e)"
    using distinct_assign_all [of es] by (simp add: map_of_eq_Some_iff)
  then show "e \<in> set es" using map_of_SomeD by (fastforce simp: map_of_assign_all)
qed

lemma assign_all_distinct: "distinct (map fst es) \<Longrightarrow> map_of (assign_all es) = map_of es"
  unfolding map_of_assign_all by (rule map_of_inject_set [THEN iffD2]) (simp_all flip: rev_map)

lemma string_keyed_conv: "go_value y \<Longrightarrow> string_keyed (recursiveConv y)"
proof (induction y rule: recursiveConv.induct)
  case (1 m)
  then show ?case by (force simp: list_all_iff comp_def case_prod_unfold)
next
  case (2 m)
  have "string_keyed v" if "(k, v) \<in> set (assign_all (map (\<lambda>(k, v). (Sprint k, recursiveConv v)) m))" for k v
    using that set_assign_all [of "map (\<lambda>(k, v). (Sprint k, recursiveConv v)) m"] 2
    by (fastforce simp: list_all_iff)
  then show ?case by (auto simp: list_all_iff distinct_assign_all)
qed (auto simp: list_all_iff)

lemma conv_string_keyed: "string_keyed y \<Longrightarrow> recursiveConv y = y"
  by (induction y rule: string_keyed.induct) (auto simp: list_all_iff intro!: map_idI)

text \<open>Values that are shared through an anchor are converted twice, which changes nothing.\<close>

lemma field_converted:
  assumes "distinct (map fst doc)" "inj_on Sprint (set (map fst doc))" "(k, v) \<in> set doc"
  shows "recursiveConv (YAny doc) = YMap m \<Longrightarrow> field m (Sprint k) = recursiveConv v"
proof -
  let ?es = "map (\<lambda>(k, v). (Sprint k, recursiveConv v)) doc"
  have keys: "map fst ?es = map Sprint (map fst doc)" by (simp add: case_prod_unfold)
  have "distinct (map fst ?es)" unfolding keys using assms(1,2) by (metis distinct_map)
  moreover have "(Sprint k, recursiveConv v) \<in> set ?es" using assms(3) by force
  ultimately have "map_of (assign_all ?es) (Sprint k) = Some (recursiveConv v)"
    by (simp add: assign_all_distinct)
  then show "recursiveConv (YAny doc) = YMap m \<Longrightarrow> field m (Sprint k) = recursiveConv v"
    by (auto simp: field_def)
qed

text \<open>
  C35. Whatever the decoder gives, the converted value has maps with string keys only, at every depth,
  and each key once; converting it again changes nothing.
\<close>
theorem recursiveConv_string_keyed:
  assumes "go_value y"
  shows "string_keyed (recursiveConv y) \<and> recursiveConv (recursiveConv y) = recursiveConv y"
  using string_keyed_conv [OF assms] by (simp add: conv_string_keyed)

text \<open>A document with an integer key and a list of maps.\<close>

definition sample_doc :: yaml where
  "sample_doc = YAny [(SStr ''kind'', YStr ''Job''), (SInt 7, YList [YAny [(SBool True, YNil)]])]"

theorem recursiveConv_string_keyed_witness:
  "string_keyed (recursiveConv sample_doc) \<and> recursiveConv (recursiveConv sample_doc) = recursiveConv sample_doc \<and>
   recursiveConv sample_doc =
     YMap [(''kind'', YStr ''Job''), (''7'', YList [YMap [(''true'', YNil)]])]"
proof -
  have "show_nat 7 = ''7''" by (subst show_nat.simps) code_simp
  then have "recursiveConv sample_doc = YMap [(''kind'', YStr ''Job''), (''7'', YList [YMap [(''true'', YNil)]])]"
    by (simp add: sample_doc_def assign_all_def)
  moreover have "go_value sample_doc" by (simp add: sample_doc_def)
  ultimately show ?thesis using recursiveConv_string_keyed [of sample_doc] by blast
qed

end
