(* ===== verification/Grapher.thy ===== *)
theory Grapher
  imports Grapher_Yaml
begin

text \<open>
  The relations between the objects of a release (\<open>internal/helm/grapher/relation.go\<close>) as the
  endpoint of its components draws them (\<open>handlers/release/get_components.go\<close>): controllers and their
  pods, selectors and the pods they select, references in specifications. \<open>None\<close> is a panic.
\<close>

section \<open>Selectors\<close>

record parsed_objs =
  po_Objects :: "object list"
  po_PodSelectors :: "string list"

record match_label =
  ml_key :: string
  ml_value :: string

record match_expression =
  me_key :: string
  me_operator :: string
  me_values :: "string list"

text \<open>A loop whose body may panic.\<close>

fun each :: "('x \<Rightarrow> 's \<Rightarrow> 's option) \<Rightarrow> 'x list \<Rightarrow> 's \<Rightarrow> 's option" where
  "each body [] s = Some s"
| "each body (x # xs) s = Option.bind (body x s) (each body xs)"

definition appendIfNotDuplicate :: "string list \<Rightarrow> string \<Rightarrow> string list" where
  "appendIfNotDuplicate selectors selector =
     (if selector \<in> set selectors then selectors else selectors @ [selector])"

definition addMatchLabels :: "match_label list \<Rightarrow> yaml_map \<Rightarrow> match_label list option" where
  "addMatchLabels matchLabels ml =
     each (\<lambda>(k, v) ls. Option.bind (as_string v) (\<lambda>v. Some (ls @ [\<lparr>ml_key = k, ml_value = v\<rparr>]))) ml matchLabels"

definition match_expression_of :: "yaml \<Rightarrow> match_expression option" where
  "match_expression_of x =
     Option.bind (as_map x) (\<lambda>ot.
     Option.bind (as_list (field ot ''values'')) (\<lambda>args.
     Option.bind (each (\<lambda>arg vs. Option.bind (as_string arg) (\<lambda>arg. Some (vs @ [arg]))) args []) (\<lambda>vals.
     Option.bind (as_string (field ot ''key'')) (\<lambda>key.
     Option.bind (as_string (field ot ''operator'')) (\<lambda>op.
       Some \<lparr>me_key = key, me_operator = op, me_values = vals\<rparr>)))))"

definition aggregateLabelSelectors :: "yaml_map \<Rightarrow> (match_label list \<times> match_expression list) option" where
  "aggregateLabelSelectors y =
     Option.bind (getField y [''spec'', ''selector'']) (\<lambda>l.
     if l = YNil then Some ([], []) else
     Option.bind (getField y [''spec'', ''selector'', ''matchLabels'']) (\<lambda>ml.
     Option.bind (if ml = YNil then Some [] else Option.bind (as_map ml) (addMatchLabels [])) (\<lambda>matchLabels.
     Option.bind (getField y [''spec'', ''selector'', ''matchExpressions'']) (\<lambda>me.
     Option.bind (if me = YNil then Some []
                  else Option.bind (as_list me) (\<lambda>os.
                       each (\<lambda>x es. Option.bind (match_expression_of x) (\<lambda>e. Some (es @ [e]))) os [])) (\<lambda>matchExpressions.
     if ml = YNil \<and> me = YNil
     then Option.bind (as_map l) (\<lambda>l. map_option (\<lambda>ls. (ls, matchExpressions)) (addMatchLabels matchLabels l))
     else Some (matchLabels, matchExpressions))))))"

section \<open>Controllers and their pods\<close>

definition selector_text :: "match_label list \<Rightarrow> string" where
  "selector_text mls = concat (map (\<lambda>(i, ml). ml_key ml @ ''='' @ ml_value ml @ (if i \<noteq> length mls - 1 then '','' else []))
     (enumerate 0 mls))"

text \<open>The pods of a controller: \<open>cid\<close> is the id of the first.\<close>

definition control_pod :: "nat \<Rightarrow> object \<Rightarrow> int \<Rightarrow> yaml_map \<Rightarrow> nat \<Rightarrow> object" where
  "control_pod cid obj rs template j =
     \<lparr>rs_ControlRels = [\<lparr>rl_Source = ob_ID obj, rl_Target = cid + j, cr_Replicas = rs\<rparr>],
      rs_LabelRels = [], rs_SpecRels = [],
      ob_ID = cid + j, ob_Kind = ''Pod'', ob_Name = ob_Name obj @ ''-'' @ show_nat j,
      ob_Namespace = ob_Namespace obj, ob_RawYAML = template\<rparr>"

text \<open>The assertion on the template is made for each pod.\<close>

definition control_pods :: "nat \<Rightarrow> object \<Rightarrow> int \<Rightarrow> yaml \<Rightarrow> object list option" where
  "control_pods cid obj rs template =
     (if rs \<le> 0 then Some []
      else Option.bind (as_map template) (\<lambda>t. Some (map (control_pod cid obj rs t) [0..<nat rs])))"

definition with_pods :: "object \<Rightarrow> object list \<Rightarrow> object" where
  "with_pods obj pods = obj\<lparr>rs_ControlRels := rs_ControlRels obj @ concat (map rs_ControlRels pods)\<rparr>"

definition control_step :: "nat \<Rightarrow> object \<Rightarrow> object list \<times> string list \<Rightarrow> (object \<times> object list \<times> string list) option" where
  "control_step n obj = (\<lambda>(children, selectors).
     Option.bind (getField (ob_RawYAML obj) [''kind'']) (\<lambda>kind.
     Option.bind (as_string (or_default (YStr []) kind)) (\<lambda>kind.
     if kind \<notin> {''Deployment'', ''StatefulSet'', ''ReplicaSet'', ''DaemonSet'', ''Job''} then Some (obj, children, selectors) else
     Option.bind (getField (ob_RawYAML obj) [''spec'', ''replicas'']) (\<lambda>rs.
     Option.bind (getField (ob_RawYAML obj) [''spec'', ''template'']) (\<lambda>template.
     if template = YNil then Some (obj, children, selectors) else
     Option.bind (as_int (or_default (YScalar (SInt 1)) rs)) (\<lambda>rs.
     Option.bind (control_pods (n + length children) obj rs template) (\<lambda>pods.
     Option.bind (aggregateLabelSelectors (ob_RawYAML obj)) (\<lambda>(matchLabels, _).
       Some (with_pods obj pods, children @ pods, appendIfNotDuplicate selectors (selector_text matchLabels))))))))))"

text \<open>The objects before the current one are finished; \<open>n\<close> is the number of all.\<close>

fun control_loop :: "nat \<Rightarrow> object list \<Rightarrow> object list \<times> string list \<Rightarrow> (object list \<times> object list \<times> string list) option" where
  "control_loop n [] acc = (case acc of (children, selectors) \<Rightarrow> Some ([], children, selectors))"
| "control_loop n (obj # objs) acc =
     Option.bind (control_step n obj acc) (\<lambda>(obj, acc).
     Option.bind (control_loop n objs acc) (\<lambda>(objs, children, selectors). Some (obj # objs, children, selectors)))"

definition GetControlRel :: "parsed_objs \<Rightarrow> parsed_objs option" where
  "GetControlRel parsed =
     Option.bind (control_loop (length (po_Objects parsed)) (po_Objects parsed) ([], [])) (\<lambda>(objs, children, selectors).
       Some \<lparr>po_Objects = objs @ children, po_PodSelectors = selectors\<rparr>)"

section \<open>Selectors and pods\<close>

definition new_rel :: "nat \<Rightarrow> nat \<Rightarrow> relation" where
  "new_rel source target = \<lparr>rl_Source = source, rl_Target = target\<rparr>"

definition add_label :: "relation list \<Rightarrow> object \<Rightarrow> object" where
  "add_label rels x = x\<lparr>rs_LabelRels := rs_LabelRels x @ rels\<rparr>"

text \<open>The expressions of a selector are not used. Do the labels of a pod meet all of the selector's? Without labels the assertion panics.\<close>

definition labels_match :: "match_label list \<Rightarrow> object \<Rightarrow> bool option" where
  "labels_match ml x =
     Option.bind (getField (ob_RawYAML x) [''metadata'', ''labels'']) (\<lambda>labels.
     if ml = [] then Some False else
     Option.bind (as_map labels) (\<lambda>labels.
       let match = length (filter (\<lambda>l. field labels (ml_key l) = YStr (ml_value l)) ml)
       in Some (match = length ml \<and> match > 0)))"

fun findLabelsBySelector :: "nat \<Rightarrow> match_label list \<Rightarrow> object list \<Rightarrow> (object list \<times> nat list) option" where
  "findLabelsBySelector parentID ml [] = Some ([], [])"
| "findLabelsBySelector parentID ml (x # os) =
     Option.bind (if ob_Kind x \<noteq> ''Pod'' then Some False else labels_match ml x) (\<lambda>match.
     Option.bind (findLabelsBySelector parentID ml os) (\<lambda>(os, ids).
       Some (if match then (add_label [new_rel parentID (ob_ID x)] x # os, ob_ID x # ids) else (x # os, ids))))"

definition label_step :: "nat \<Rightarrow> object list \<Rightarrow> object list option" where
  "label_step i objs =
     Option.bind (aggregateLabelSelectors (ob_RawYAML (objs ! i))) (\<lambda>(matchLabels, matchExpressions).
     Option.bind (findLabelsBySelector (ob_ID (objs ! i)) matchLabels objs) (\<lambda>(objs', targetID).
       Some (objs'[i := (objs' ! i)\<lparr>rs_LabelRels := rs_LabelRels (objs ! i) @ map (new_rel (ob_ID (objs ! i))) targetID\<rparr>])))"

definition GetLabelRel :: "parsed_objs \<Rightarrow> parsed_objs option" where
  "GetLabelRel parsed =
     map_option (\<lambda>objs. parsed\<lparr>po_Objects := objs\<rparr>) (each label_step [0..<length (po_Objects parsed)] (po_Objects parsed))"

section \<open>References\<close>

definition add_spec :: "relation list \<Rightarrow> object \<Rightarrow> object" where
  "add_spec rels x = x\<lparr>rs_SpecRels := rs_SpecRels x @ rels\<rparr>"

fun find_object :: "nat \<Rightarrow> string \<Rightarrow> string \<Rightarrow> object list \<Rightarrow> object list \<times> nat list" where
  "find_object parentID name kind [] = ([], [])"
| "find_object parentID name kind (x # os) =
     (if ob_Name x = name \<and> ob_Kind x = kind then (add_spec [new_rel parentID (ob_ID x)] x # os, [ob_ID x])
      else case find_object parentID name kind os of (os, ids) \<Rightarrow> (x # os, ids))"

definition findObjectByNameAndKind :: "nat \<Rightarrow> yaml \<Rightarrow> string \<Rightarrow> object list \<Rightarrow> (object list \<times> nat list) option" where
  "findObjectByNameAndKind parentID name kind objs =
     (if name = YNil then Some (objs, [])
      else Option.bind (as_string name) (\<lambda>name. Some (find_object parentID name kind objs)))"

definition rbac_match :: "object \<Rightarrow> yaml_map \<Rightarrow> bool" where
  "rbac_match x tr =
     (YStr (ob_Kind x) = field tr ''kind'' \<and> YStr (ob_Name x) = field tr ''name'' \<and>
      (field tr ''namespace'' = YNil \<or> YStr (ob_Namespace x) = field tr ''namespace'' \<or> ob_Namespace x = ''default''))"

definition rbac_rels :: "nat \<Rightarrow> yaml_map list \<Rightarrow> object \<Rightarrow> relation list" where
  "rbac_rels parentID rules x = map (\<lambda>_. new_rel parentID (ob_ID x)) (filter (rbac_match x) rules)"

definition findRBACTargets :: "nat \<Rightarrow> yaml_map \<Rightarrow> object list \<Rightarrow> (object list \<times> nat list) option" where
  "findRBACTargets parentID y objs =
     Option.bind (getField y [''roleRef'']) (\<lambda>roleRef.
     Option.bind (getField y [''subjects'']) (\<lambda>subjects.
     Option.bind (as_list subjects) (\<lambda>subjects.
     Option.bind (each (\<lambda>r rs. Option.bind (as_map r) (\<lambda>tr. Some (rs @ [tr]))) (subjects @ [roleRef]) []) (\<lambda>rules.
       Some (map (\<lambda>x. add_spec (rbac_rels parentID rules x) x) objs,
             concat (map (\<lambda>x. map rl_Target (rbac_rels parentID rules x)) objs))))))"

definition ingress_backend :: "yaml_map \<Rightarrow> (yaml \<times> string) option" where
  "ingress_backend p =
     Option.bind (getField p [''backend'', ''serviceName'']) (\<lambda>name.
     if name \<noteq> YNil then Some (name, ''Service'') else
     Option.bind (getField p [''backend'', ''service'', ''name'']) (\<lambda>name.
     if name \<noteq> YNil then Some (name, ''Service'') else
     Option.bind (getField p [''backend'', ''resource'', ''name'']) (\<lambda>name.
     Option.bind (getField p [''backend'', ''resource'', ''kind'']) (\<lambda>kind.
     Option.bind (as_string kind) (\<lambda>kind. Some (name, kind))))))"

text \<open>Every path replaces the targets of the one before.\<close>

definition ingress_path :: "nat \<Rightarrow> yaml \<Rightarrow> object list \<times> nat list \<Rightarrow> (object list \<times> nat list) option" where
  "ingress_path parentID p = (\<lambda>(objs, tid).
     Option.bind (as_map p) (\<lambda>p.
     Option.bind (ingress_backend p) (\<lambda>(name, kind). findObjectByNameAndKind parentID name kind objs)))"

definition ingress_rule :: "nat \<Rightarrow> yaml \<Rightarrow> object list \<times> nat list \<Rightarrow> (object list \<times> nat list) option" where
  "ingress_rule parentID r acc =
     Option.bind (as_map r) (\<lambda>r.
     Option.bind (getField r [''http'', ''paths'']) (\<lambda>paths.
     Option.bind (as_list (or_default (YList []) paths)) (\<lambda>paths. each (ingress_path parentID) paths acc)))"

text \<open>The targets are appended.\<close>

definition more_targets ::
  "nat \<Rightarrow> yaml \<Rightarrow> string \<Rightarrow> object list \<times> nat list \<Rightarrow> (object list \<times> nat list) option" where
  "more_targets parentID name kind = (\<lambda>(objs, tid).
     Option.bind (findObjectByNameAndKind parentID name kind objs) (\<lambda>(objs, ids). Some (objs, tid @ ids)))"

definition pod_volume :: "nat \<Rightarrow> yaml \<Rightarrow> object list \<times> nat list \<Rightarrow> (object list \<times> nat list) option" where
  "pod_volume parentID v acc =
     Option.bind (as_map v) (\<lambda>vt.
     Option.bind (getField vt [''configMap'', ''name'']) (\<lambda>configMap.
     Option.bind (getField vt [''persistentVolumeClaim'', ''claimName'']) (\<lambda>pvc.
     Option.bind (getField vt [''secret'', ''secretName'']) (\<lambda>secret.
     Option.bind (more_targets parentID configMap ''ConfigMap'' acc) (\<lambda>acc.
     Option.bind (more_targets parentID pvc ''PersistentVolumeClaim'' acc) (more_targets parentID secret ''Secret''))))))"

definition spec_targets :: "object \<Rightarrow> object list \<Rightarrow> (object list \<times> nat list) option" where
  "spec_targets x objs =
     (if ob_Kind x \<in> {''ClusterRoleBinding'', ''RoleBinding''} then findRBACTargets (ob_ID x) (ob_RawYAML x) objs
      else if ob_Kind x = ''Ingress'' then
        Option.bind (getField (ob_RawYAML x) [''spec'', ''rules'']) (\<lambda>rules.
        Option.bind (as_list (or_default (YList []) rules)) (\<lambda>rules. each (ingress_rule (ob_ID x)) rules (objs, [])))
      else if ob_Kind x = ''StatefulSet'' then
        Option.bind (getField (ob_RawYAML x) [''spec'', ''serviceName'']) (\<lambda>serviceName.
          more_targets (ob_ID x) serviceName ''Service'' (objs, []))
      else if ob_Kind x = ''Pod'' then
        Option.bind (getField (ob_RawYAML x) [''spec'', ''volumes'']) (\<lambda>volume.
        Option.bind (getField (ob_RawYAML x) [''spec'', ''ImagePullSecrets'']) (\<lambda>imageSecrets.
        Option.bind (getField (ob_RawYAML x) [''spec'', ''serviceAccountName'']) (\<lambda>serviceAccount.
        Option.bind (as_list (or_default (YList []) imageSecrets)) (\<lambda>imageSecrets.
        Option.bind (as_list (or_default (YList []) volume)) (\<lambda>volume.
        Option.bind (each (\<lambda>sec. more_targets (ob_ID x) sec ''Secret'') imageSecrets (objs, [])) (\<lambda>acc.
        Option.bind (more_targets (ob_ID x) serviceAccount ''ServiceAccount'' acc) (each (pod_volume (ob_ID x)) volume)))))))
      else Some (objs, []))"

definition spec_step :: "nat \<Rightarrow> object list \<Rightarrow> object list option" where
  "spec_step i objs =
     Option.bind (spec_targets (objs ! i) objs) (\<lambda>(objs', tid).
       Some (objs'[i := (objs' ! i)\<lparr>rs_SpecRels := rs_SpecRels (objs ! i) @ map (new_rel (ob_ID (objs ! i))) tid\<rparr>]))"

definition GetSpecRel :: "parsed_objs \<Rightarrow> parsed_objs option" where
  "GetSpecRel parsed =
     map_option (\<lambda>objs. parsed\<lparr>po_Objects := objs\<rparr>) (each spec_step [0..<length (po_Objects parsed)] (po_Objects parsed))"

section \<open>The components of a release (\<open>get_components.go\<close>)\<close>

definition GetComponentsHandler ::
  "(go_error, (scalar \<times> yaml) list) go_result list \<Rightarrow> string \<Rightarrow> parsed_objs option" where
  "GetComponentsHandler manifest ns =
     Option.bind (ParseObjs (ImportMultiDocYAML manifest) ns) (\<lambda>objects.
     Option.bind (GetControlRel \<lparr>po_Objects = objects, po_PodSelectors = []\<rparr>) (\<lambda>parsed.
     Option.bind (GetLabelRel parsed) GetSpecRel))"

end
