(* ===== verification/Grapher_Edges.thy ===== *)
theory Grapher_Edges
  imports Grapher
begin

text \<open>
  What the drawn edges mean: each is held by the objects at its ends, and the edges of labels are
  exactly those from a selector to the pods it selects. What the passes over labels and references
  share is a locale.
\<close>

section \<open>Drawing edges\<close>

text \<open>
  Every edge that an object holds is held by an object with the id of its target and by one with the
  id of its source; the latter may miss it when its kind is one of \<open>loose\<close>.
\<close>

definition at_both_ends :: "string set \<Rightarrow> (object \<Rightarrow> 'r relation_scheme list) \<Rightarrow> object list \<Rightarrow> bool" where
  "at_both_ends loose edges objs \<longleftrightarrow>
     (\<forall>x\<in>set objs. \<forall>e\<in>set (edges x).
        (\<exists>t\<in>set objs. ob_ID t = rl_Target e \<and> e \<in> set (edges t)) \<and>
        (\<exists>s\<in>set objs. ob_ID s = rl_Source e \<and> (e \<in> set (edges s) \<or> ob_Kind s \<in> loose)))"

lemma ex_nth: "(\<exists>x\<in>set xs. P x) \<longleftrightarrow> (\<exists>i<length xs. P (xs ! i))"
  by (metis in_set_conv_nth)

lemma at_both_ends_nth:
  "at_both_ends loose edges objs \<longleftrightarrow>
     (\<forall>k<length objs. \<forall>e\<in>set (edges (objs ! k)).
        (\<exists>t<length objs. ob_ID (objs ! t) = rl_Target e \<and> e \<in> set (edges (objs ! t))) \<and>
        (\<exists>s<length objs. ob_ID (objs ! s) = rl_Source e \<and> (e \<in> set (edges (objs ! s)) \<or> ob_Kind (objs ! s) \<in> loose)))"
  unfolding at_both_ends_def by (simp only: all_set_conv_all_nth ex_nth [of objs])

text \<open>\<open>ys\<close> is \<open>xs\<close> with edges from \<open>p\<close> added at their targets, whose ids are \<open>ids\<close>.\<close>

definition marked ::
  "(object \<Rightarrow> relation list) \<Rightarrow> (relation list \<Rightarrow> object \<Rightarrow> object) \<Rightarrow> nat \<Rightarrow> object list \<Rightarrow> object list \<Rightarrow> nat list \<Rightarrow> bool" where
  "marked edges put p xs ys ids \<longleftrightarrow>
     list_all2 (\<lambda>x y. \<exists>es. y = put (edges x @ es) x \<and> set es \<subseteq> {new_rel p (ob_ID x)} \<and> (es \<noteq> [] \<longrightarrow> ob_ID x \<in> set ids)) xs ys \<and>
     (\<forall>t\<in>set ids. \<exists>y\<in>set ys. ob_ID y = t \<and> new_rel p t \<in> set (edges y))"

text \<open>One of the lists of edges of an object.\<close>

locale edge_field =
  fixes edges :: "object \<Rightarrow> relation list"
    and put :: "relation list \<Rightarrow> object \<Rightarrow> object"
  assumes edges_put: "edges (put es x) = es"
    and put_put: "put es (put es' x) = put es x"
    and put_edges: "put (edges x) x = x"
    and put_ID: "ob_ID (put es x) = ob_ID x"
    and put_Kind: "ob_Kind (put es x) = ob_Kind x"
begin

lemma marked_same: "marked edges put p xs xs []"
  by (auto simp: marked_def list_all2_conv_all_nth put_edges intro: exI [of _ "[]"])

lemma marked_nth:
  "marked edges put p xs ys ids \<Longrightarrow> i < length xs \<Longrightarrow>
   \<exists>es. ys ! i = put (edges (xs ! i) @ es) (xs ! i) \<and> set es \<subseteq> {new_rel p (ob_ID (xs ! i))} \<and>
     (es \<noteq> [] \<longrightarrow> ob_ID (xs ! i) \<in> set ids)"
  by (simp add: marked_def list_all2_conv_all_nth)

lemma marked_length: "marked edges put p xs ys ids \<Longrightarrow> length ys = length xs"
  by (auto simp: marked_def dest: list_all2_lengthD)

lemma marked_Cons: "marked edges put p xs ys ids \<Longrightarrow> marked edges put p (x # xs) (x # ys) ids"
  by (auto simp: marked_def put_edges intro: exI [of _ "[]"])

lemma marked_hit: "marked edges put p (x # xs) (put (edges x @ [new_rel p (ob_ID x)]) x # xs) [ob_ID x]"
proof -
  have "list_all2 (\<lambda>z y. \<exists>es. y = put (edges z @ es) z \<and> set es \<subseteq> {new_rel p (ob_ID z)} \<and> (es \<noteq> [] \<longrightarrow> ob_ID z = ob_ID x)) xs xs"
    by (auto simp: list_all2_conv_all_nth put_edges intro: exI [of _ "[]"])
  then show ?thesis
    unfolding marked_def by (auto simp: edges_put put_ID intro!: exI [of _ "[new_rel p (ob_ID x)]"])
qed

lemma marked_target:
  assumes "marked edges put p xs ys ids" "t \<in> set ids"
  shows "\<exists>k<length ys. ob_ID (ys ! k) = t \<and> new_rel p t \<in> set (edges (ys ! k))"
proof -
  have "\<exists>y\<in>set ys. ob_ID y = t \<and> new_rel p t \<in> set (edges y)"
    using conjunct2 [OF assms(1) [unfolded marked_def]] assms(2) by blast
  then show ?thesis by (metis in_set_conv_nth)
qed

lemma marked_trans:
  assumes "marked edges put p xs ys ids" "marked edges put p ys zs ids'"
  shows "marked edges put p xs zs (ids @ ids')"
proof -
  have len: "length xs = length ys" "length ys = length zs"
    using assms by (auto simp: marked_def dest: list_all2_lengthD)
  have at: "\<exists>es. zs ! i = put (edges (xs ! i) @ es) (xs ! i) \<and> set es \<subseteq> {new_rel p (ob_ID (xs ! i))} \<and>
      (es \<noteq> [] \<longrightarrow> ob_ID (xs ! i) \<in> set (ids @ ids')) \<and> set (edges (ys ! i)) \<subseteq> set (edges (zs ! i)) \<and>
      ob_ID (zs ! i) = ob_ID (ys ! i)"
    if i: "i < length xs" for i
  proof -
    obtain es where es: "ys ! i = put (edges (xs ! i) @ es) (xs ! i)" "set es \<subseteq> {new_rel p (ob_ID (xs ! i))}"
        "es \<noteq> [] \<longrightarrow> ob_ID (xs ! i) \<in> set ids"
      using marked_nth [OF assms(1) i] by blast
    obtain es' where es': "zs ! i = put (edges (ys ! i) @ es') (ys ! i)" "set es' \<subseteq> {new_rel p (ob_ID (ys ! i))}"
        "es' \<noteq> [] \<longrightarrow> ob_ID (ys ! i) \<in> set ids'"
      using marked_nth [OF assms(2), of i] i len by auto
    have "zs ! i = put (edges (xs ! i) @ (es @ es')) (xs ! i)" by (simp add: es' es(1) edges_put put_put)
    then show ?thesis using es es' by (intro exI [of _ "es @ es'"]) (auto simp: edges_put put_ID)
  qed
  have "\<exists>z\<in>set zs. ob_ID z = t \<and> new_rel p t \<in> set (edges z)" if t: "t \<in> set ids" for t
  proof -
    obtain i where "i < length ys" "ob_ID (ys ! i) = t" "new_rel p t \<in> set (edges (ys ! i))"
      using marked_target [OF assms(1) t] by blast
    then show ?thesis using at [of i] len by (intro bexI [of _ "zs ! i"]) auto
  qed
  moreover have "\<exists>z\<in>set zs. ob_ID z = t \<and> new_rel p t \<in> set (edges z)" if "t \<in> set ids'" for t
    using conjunct2 [OF assms(2) [unfolded marked_def]] that by blast
  moreover have "\<exists>es. zs ! i = put (edges (xs ! i) @ es) (xs ! i) \<and> set es \<subseteq> {new_rel p (ob_ID (xs ! i))} \<and>
      (es \<noteq> [] \<longrightarrow> ob_ID (xs ! i) \<in> set (ids @ ids'))" if "i < length xs" for i
    using at [OF that] by blast
  ultimately show ?thesis unfolding marked_def list_all2_conv_all_nth
    by (intro conjI allI impI ballI) (use len in auto)
qed

lemma marked_map:
  assumes "\<And>x. set (f x) \<subseteq> {new_rel p (ob_ID x)}" "ids = concat (map (map rl_Target \<circ> f) xs)"
  shows "marked edges put p xs (map (\<lambda>x. put (edges x @ f x) x) xs) ids"
proof -
  have "ob_ID x \<in> set ids" if x: "x \<in> set xs" "f x \<noteq> []" for x
  proof -
    obtain e where "e \<in> set (f x)" using x(2) by (cases "f x") auto
    then have "ob_ID x \<in> rl_Target ` set (f x)" using assms(1) [of x] by (force simp: new_rel_def)
    then show ?thesis using x(1) by (auto simp: assms(2))
  qed
  moreover have "\<exists>y\<in>set (map (\<lambda>x. put (edges x @ f x) x) xs). ob_ID y = t \<and> new_rel p t \<in> set (edges y)"
    if t: "t \<in> set ids" for t
  proof -
    obtain x e where x: "x \<in> set xs" "e \<in> set (f x)" "t = rl_Target e" using t by (auto simp: assms(2))
    then have "e = new_rel p (ob_ID x)" using assms(1) [of x] by blast
    then show ?thesis using x by (auto simp: edges_put put_ID new_rel_def)
  qed
  moreover have "\<exists>es. put (edges x @ f x) x = put (edges x @ es) x \<and> set es \<subseteq> {new_rel p (ob_ID x)} \<and>
      (es \<noteq> [] \<longrightarrow> ob_ID x \<in> set ids)" if "x \<in> set xs" for x
    using assms(1) [of x] calculation(1) [OF that] by blast
  ultimately show ?thesis unfolding marked_def list_all2_map2 by (intro conjI list.rel_refl_strong ballI) blast+
qed

end

text \<open>
  A pass: step \<open>i\<close> adds the edges from object \<open>i\<close> at their targets and then at the object itself,
  where it may drop some of them if the kind of the object is one of \<open>loose\<close>.
\<close>

locale drawing = edge_field +
  fixes step :: "nat \<Rightarrow> object list \<Rightarrow> object list option"
    and loose :: "string set"
  assumes step_draws: "step i xs = Some zs \<Longrightarrow> i < length xs \<Longrightarrow>
      \<exists>ys ids kept. marked edges put (ob_ID (xs ! i)) xs ys ids \<and> set kept \<subseteq> set ids \<and>
        (kept = ids \<or> ob_Kind (xs ! i) \<in> loose) \<and>
        zs = ys[i := put (edges (xs ! i) @ map (new_rel (ob_ID (xs ! i))) kept) (ys ! i)]"
begin

lemma drawn:
  assumes "marked edges put (ob_ID (xs ! i)) xs ys ids" "set kept \<subseteq> set ids" "kept = ids \<or> ob_Kind (xs ! i) \<in> loose"
    and i: "i < length xs" and both: "at_both_ends loose edges xs"
    and zs: "zs = ys[i := put (edges (xs ! i) @ map (new_rel (ob_ID (xs ! i))) kept) (ys ! i)]"
  shows "at_both_ends loose edges zs"
proof -
  define p where "p = ob_ID (xs ! i)"
  note marked = assms(1) [folded p_def]
  have len: "length zs = length xs" "length ys = length xs" using marked_length [OF marked] by (simp_all add: zs)
  have pointwise: "ob_ID (zs ! k) = ob_ID (xs ! k) \<and> ob_Kind (zs ! k) = ob_Kind (xs ! k) \<and>
      set (edges (xs ! k)) \<subseteq> set (edges (zs ! k)) \<and>
      (\<forall>e\<in>set (edges (zs ! k)). e \<in> set (edges (xs ! k)) \<or> (\<exists>t\<in>set ids. e = new_rel p t \<and> (k = i \<or> t = ob_ID (xs ! k))))"
    if k: "k < length xs" for k
  proof -
    obtain es where es: "ys ! k = put (edges (xs ! k) @ es) (xs ! k)" "set es \<subseteq> {new_rel p (ob_ID (xs ! k))}"
        "es \<noteq> [] \<longrightarrow> ob_ID (xs ! k) \<in> set ids"
      using marked_nth [OF marked k] by blast
    show ?thesis
    proof (cases "k = i")
      case True
      then have "zs ! k = put (edges (xs ! k) @ map (new_rel p) kept) (ys ! k)" using k len by (simp add: zs p_def)
      moreover have "ob_ID (ys ! k) = ob_ID (xs ! k)" "ob_Kind (ys ! k) = ob_Kind (xs ! k)"
        by (simp_all add: es(1) put_ID put_Kind)
      ultimately show ?thesis using True assms(2) by (auto simp: edges_put put_ID put_Kind)
    next
      case False
      then have "zs ! k = ys ! k" using k len by (simp add: zs)
      then show ?thesis using es(2,3) by (cases "es = []") (auto simp: es(1) edges_put put_ID put_Kind)
    qed
  qed
  have same: "ob_ID (zs ! k) = ob_ID (xs ! k)" "ob_Kind (zs ! k) = ob_Kind (xs ! k)" if "k < length xs" for k
    using pointwise [OF that] by blast+
  have more: "set (edges (xs ! k)) \<subseteq> set (edges (zs ! k))" if "k < length xs" for k
    using pointwise [OF that] by blast
  have old_or_new: "e \<in> set (edges (xs ! k)) \<or> (\<exists>t\<in>set ids. e = new_rel p t \<and> (k = i \<or> t = ob_ID (xs ! k)))"
    if "k < length xs" "e \<in> set (edges (zs ! k))" for k e
    using pointwise [OF that(1)] that(2) by blast
  have sources: "new_rel p t \<in> set (edges (zs ! i)) \<or> ob_Kind (zs ! i) \<in> loose" if "t \<in> set ids" for t
    using assms(3) that i len same(2) [OF i] by (auto simp: zs edges_put p_def)
  have targets: "\<exists>k<length xs. ob_ID (zs ! k) = t \<and> new_rel p t \<in> set (edges (zs ! k))"
    if t: "t \<in> set ids" and held: "\<exists>k<length xs. new_rel p t \<in> set (edges (zs ! k)) \<and> (k = i \<or> t = ob_ID (xs ! k))" for t
  proof -
    obtain k where k: "k < length xs" "ob_ID (ys ! k) = t" "new_rel p t \<in> set (edges (ys ! k))"
      using marked_target [OF marked t] len by auto
    obtain k' where k': "k' < length xs" "new_rel p t \<in> set (edges (zs ! k'))" "k' = i \<or> t = ob_ID (xs ! k')"
      using held by blast
    show ?thesis
    proof (cases "k = i")
      case True
      then show ?thesis using k k' same(1) marked_nth [OF marked, of i] i by (metis put_ID)
    next
      case False
      then show ?thesis using k len by (intro exI [of _ k]) (simp add: zs)
    qed
  qed
  have "(\<exists>t\<in>set zs. ob_ID t = rl_Target e \<and> e \<in> set (edges t)) \<and>
      (\<exists>s\<in>set zs. ob_ID s = rl_Source e \<and> (e \<in> set (edges s) \<or> ob_Kind s \<in> loose))"
    if k: "k < length xs" and e: "e \<in> set (edges (zs ! k))" for k e
    using old_or_new [OF k e]
  proof
    assume "e \<in> set (edges (xs ! k))"
    then obtain t s where t: "t < length xs" "ob_ID (xs ! t) = rl_Target e" "e \<in> set (edges (xs ! t))"
        and s: "s < length xs" "ob_ID (xs ! s) = rl_Source e" "e \<in> set (edges (xs ! s)) \<or> ob_Kind (xs ! s) \<in> loose"
      using both k unfolding at_both_ends_nth by blast
    have "\<exists>t\<in>set zs. ob_ID t = rl_Target e \<and> e \<in> set (edges t)"
      using t more [OF t(1)] same [OF t(1)] len by (intro bexI [of _ "zs ! t"]) auto
    moreover have "\<exists>s\<in>set zs. ob_ID s = rl_Source e \<and> (e \<in> set (edges s) \<or> ob_Kind s \<in> loose)"
      using s more [OF s(1)] same [OF s(1)] len by (intro bexI [of _ "zs ! s"]) auto
    ultimately show ?thesis by blast
  next
    assume "\<exists>t\<in>set ids. e = new_rel p t \<and> (k = i \<or> t = ob_ID (xs ! k))"
    then obtain t where t: "t \<in> set ids" "e = new_rel p t" "k = i \<or> t = ob_ID (xs ! k)" by blast
    have "\<exists>k<length xs. new_rel p t \<in> set (edges (zs ! k)) \<and> (k = i \<or> t = ob_ID (xs ! k))"
      using k e t(2,3) by blast
    then obtain k2 where "k2 < length xs" "ob_ID (zs ! k2) = t" "new_rel p t \<in> set (edges (zs ! k2))"
      using targets [OF t(1)] by blast
    then have "\<exists>t\<in>set zs. ob_ID t = rl_Target e \<and> e \<in> set (edges t)"
      using len by (intro bexI [of _ "zs ! k2"]) (simp_all add: t(2) new_rel_def)
    moreover have "\<exists>s\<in>set zs. ob_ID s = rl_Source e \<and> (e \<in> set (edges s) \<or> ob_Kind s \<in> loose)"
      using sources [OF t(1)] same(1) [OF i] len i by (intro bexI [of _ "zs ! i"]) (simp_all add: t(2) new_rel_def p_def)
    ultimately show ?thesis by blast
  qed
  then show ?thesis unfolding at_both_ends_def all_set_conv_all_nth [of zs] len(1) by blast
qed

lemma step_length: "step i xs = Some zs \<Longrightarrow> i < length xs \<Longrightarrow> length zs = length xs"
  using step_draws marked_length by fastforce

text \<open>A pass changes nothing but the edges.\<close>

lemma step_keeps:
  assumes "step i xs = Some zs" "i < length xs"
  shows "map (put []) zs = map (put []) xs"
proof -
  obtain ys ids kept where marked: "marked edges put (ob_ID (xs ! i)) xs ys ids"
      and zs: "zs = ys[i := put (edges (xs ! i) @ map (new_rel (ob_ID (xs ! i))) kept) (ys ! i)]"
    using step_draws [OF assms] by blast
  have len: "length ys = length xs" using marked_length [OF marked] .
  have "put [] (zs ! k) = put [] (xs ! k)" if "k < length xs" for k
    using marked_nth [OF marked that] that len by (cases "k = i") (auto simp: zs put_put)
  then show ?thesis using len by (intro nth_equalityI) (simp_all add: zs)
qed

lemma pass_keeps:
  "each step is xs = Some zs \<Longrightarrow> \<forall>i\<in>set is. i < length xs \<Longrightarrow> map (put []) zs = map (put []) xs"
proof (induction "is" arbitrary: xs)
  case (Cons i "is")
  then obtain ys where ys: "step i xs = Some ys" "each step is ys = Some zs" by (cases "step i xs") auto
  then show ?case using Cons.IH [OF ys(2)] Cons.prems(2) step_length [OF ys(1)] step_keeps [OF ys(1)] by simp
qed simp

theorem pass_both_ends:
  "each step is xs = Some zs \<Longrightarrow> \<forall>i\<in>set is. i < length xs \<Longrightarrow> at_both_ends loose edges xs \<Longrightarrow>
   at_both_ends loose edges zs"
proof (induction "is" arbitrary: xs)
  case (Cons i "is")
  then obtain ys where ys: "step i xs = Some ys" "each step is ys = Some zs" by (cases "step i xs") auto
  have "at_both_ends loose edges ys" using step_draws [OF ys(1)] drawn Cons.prems(2,3) by fastforce
  then show ?case using Cons.IH [OF ys(2)] Cons.prems(2) step_length [OF ys(1)] by simp
qed simp

end

section \<open>Labels\<close>

definition selected :: "match_label list \<Rightarrow> object \<Rightarrow> bool" where
  "selected ml x \<longleftrightarrow> ob_Kind x = ''Pod'' \<and> labels_match ml x = Some True"

definition label_rels :: "nat \<Rightarrow> match_label list \<Rightarrow> object \<Rightarrow> relation list" where
  "label_rels p ml x = (if selected ml x then [new_rel p (ob_ID x)] else [])"

lemma findLabels_exact:
  "findLabelsBySelector p ml objs = Some (objs', ids) \<Longrightarrow>
   objs' = map (\<lambda>x. x\<lparr>rs_LabelRels := rs_LabelRels x @ label_rels p ml x\<rparr>) objs \<and>
   ids = map ob_ID (filter (selected ml) objs)"
proof (induction objs arbitrary: objs' ids)
  case (Cons x objs)
  then obtain m os rest where "(if ob_Kind x \<noteq> ''Pod'' then Some False else labels_match ml x) = Some m"
      "findLabelsBySelector p ml objs = Some (os, rest)"
      "(objs', ids) = (if m then (add_label [new_rel p (ob_ID x)] x # os, ob_ID x # rest) else (x # os, rest))"
    by (auto simp: bind_eq_Some_conv)
  then show ?case using Cons.IH by (auto simp: selected_def label_rels_def add_label_def split: if_splits)
qed simp

interpretation label_field: edge_field rs_LabelRels "\<lambda>es x. x\<lparr>rs_LabelRels := es\<rparr>"
  by unfold_locales simp_all

lemma label_rels_own: "set (label_rels p ml x) \<subseteq> {new_rel p (ob_ID x)}"
  by (auto simp: label_rels_def)

lemma label_targets: "concat (map (map rl_Target \<circ> label_rels p ml) xs) = map ob_ID (filter (selected ml) xs)"
  by (induction xs) (auto simp: label_rels_def new_rel_def)

interpretation labels: drawing rs_LabelRels "\<lambda>es x. x\<lparr>rs_LabelRels := es\<rparr>" label_step "{}"
proof unfold_locales
  fix i :: nat and xs zs :: "object list"
  let ?p = "ob_ID (xs ! i)"
  assume step: "label_step i xs = Some zs" and i: "i < length xs"
  then obtain ml me ys ids where found: "findLabelsBySelector ?p ml xs = Some (ys, ids)"
      "zs = ys[i := (ys ! i)\<lparr>rs_LabelRels := rs_LabelRels (xs ! i) @ map (new_rel ?p) ids\<rparr>]"
    by (auto simp: label_step_def bind_eq_Some_conv)
  have "marked rs_LabelRels (\<lambda>es x. x\<lparr>rs_LabelRels := es\<rparr>) ?p xs ys ids"
    using label_field.marked_map [OF label_rels_own [of ?p ml], of ids xs] findLabels_exact [OF found(1)]
    by (simp add: label_targets)
  then show "\<exists>ys ids kept. marked rs_LabelRels (\<lambda>es x. x\<lparr>rs_LabelRels := es\<rparr>) ?p xs ys ids \<and> set kept \<subseteq> set ids \<and>
      (kept = ids \<or> ob_Kind (xs ! i) \<in> {}) \<and>
      zs = ys[i := (ys ! i)\<lparr>rs_LabelRels := rs_LabelRels (xs ! i) @ map (new_rel ?p) kept\<rparr>]"
    using found(2) by blast
qed

section \<open>References\<close>

lemma each_keeps:
  "(\<And>x s s'. J s \<Longrightarrow> body x s = Some s' \<Longrightarrow> J s') \<Longrightarrow> J s \<Longrightarrow> each body xs s = Some s' \<Longrightarrow> J s'"
  by (induction xs arbitrary: s) (auto simp: bind_eq_Some_conv)

abbreviation put_spec :: "relation list \<Rightarrow> object \<Rightarrow> object" where
  "put_spec es x \<equiv> x\<lparr>rs_SpecRels := es\<rparr>"

interpretation spec_field: edge_field rs_SpecRels put_spec
  by unfold_locales simp_all

lemma find_object_marked:
  "find_object p name kind xs = (ys, ids) \<Longrightarrow> marked rs_SpecRels put_spec p xs ys ids"
proof (induction xs arbitrary: ys)
  case (Cons x xs)
  show ?case
  proof (cases "ob_Name x = name \<and> ob_Kind x = kind")
    case True
    then show ?thesis using Cons.prems spec_field.marked_hit [of p x xs] by (auto simp: add_spec_def)
  next
    case False
    then obtain ys' where "find_object p name kind xs = (ys', ids)" "ys = x # ys'"
      using Cons.prems by (auto split: prod.splits)
    then show ?thesis using spec_field.marked_Cons Cons.IH by blast
  qed
qed (simp add: spec_field.marked_same)

lemma findObject_marked:
  "findObjectByNameAndKind p name kind xs = Some (ys, ids) \<Longrightarrow> marked rs_SpecRels put_spec p xs ys ids"
  using find_object_marked [of p _ kind xs ys ids] spec_field.marked_same [of p xs]
  by (auto simp: findObjectByNameAndKind_def bind_eq_Some_conv split: if_splits)

lemma findRBAC_marked:
  assumes "findRBACTargets p y xs = Some (ys, ids)"
  shows "marked rs_SpecRels put_spec p xs ys ids"
proof -
  obtain rules where "ys = map (\<lambda>x. add_spec (rbac_rels p rules x) x) xs"
      "ids = concat (map (\<lambda>x. map rl_Target (rbac_rels p rules x)) xs)"
    using assms by (auto simp: findRBACTargets_def bind_eq_Some_conv)
  then show ?thesis using spec_field.marked_map [of "rbac_rels p rules" p ids xs]
    by (auto simp: add_spec_def comp_def rbac_rels_def)
qed

text \<open>Targets that are appended are all kept, those of an ingress in part.\<close>

definition all_kept :: "nat \<Rightarrow> object list \<Rightarrow> object list \<times> nat list \<Rightarrow> bool" where
  "all_kept p xs acc \<longleftrightarrow> marked rs_SpecRels put_spec p xs (fst acc) (snd acc)"

definition some_kept :: "nat \<Rightarrow> object list \<Rightarrow> object list \<times> nat list \<Rightarrow> bool" where
  "some_kept p xs acc \<longleftrightarrow> (\<exists>ids. marked rs_SpecRels put_spec p xs (fst acc) ids \<and> set (snd acc) \<subseteq> set ids)"

lemma kept_start: "all_kept p xs (xs, [])" "some_kept p xs (xs, [])"
  using spec_field.marked_same [of p xs] by (auto simp: all_kept_def some_kept_def)

lemma more_targets_kept: "all_kept p xs acc \<Longrightarrow> more_targets p name kind acc = Some acc' \<Longrightarrow> all_kept p xs acc'"
proof (cases acc)
  fix objs tid assume kept: "all_kept p xs acc" and acc: "acc = (objs, tid)" and "more_targets p name kind acc = Some acc'"
  then obtain objs' ids where new: "findObjectByNameAndKind p name kind objs = Some (objs', ids)" "acc' = (objs', tid @ ids)"
    by (auto simp: more_targets_def bind_eq_Some_conv)
  then show "all_kept p xs acc'"
    using spec_field.marked_trans [OF _ findObject_marked [OF new(1)]] kept by (simp add: all_kept_def acc)
qed

lemma pod_volume_kept: "all_kept p xs acc \<Longrightarrow> pod_volume p v acc = Some acc' \<Longrightarrow> all_kept p xs acc'"
  unfolding pod_volume_def bind_eq_Some_conv using more_targets_kept by blast

lemma ingress_path_kept:
  assumes "some_kept p xs acc" "ingress_path p y acc = Some acc'"
  shows "some_kept p xs acc'"
proof -
  obtain name kind where "findObjectByNameAndKind p name kind (fst acc) = Some acc'"
    using assms(2) by (auto simp: ingress_path_def bind_eq_Some_conv split: prod.splits)
  then have "marked rs_SpecRels put_spec p (fst acc) (fst acc') (snd acc')"
    using findObject_marked by (metis prod.collapse)
  moreover obtain ids where "marked rs_SpecRels put_spec p xs (fst acc) ids" using assms(1) by (auto simp: some_kept_def)
  ultimately show ?thesis using spec_field.marked_trans unfolding some_kept_def by (metis set_append sup_ge2)
qed

lemma ingress_rule_kept: "some_kept p xs acc \<Longrightarrow> ingress_rule p r acc = Some acc' \<Longrightarrow> some_kept p xs acc'"
  unfolding ingress_rule_def bind_eq_Some_conv
  using each_keeps [where J = "some_kept p xs"] ingress_path_kept by metis

lemma spec_targets_kept:
  assumes "spec_targets x xs = Some acc"
  shows "some_kept (ob_ID x) xs acc" and "ob_Kind x \<noteq> ''Ingress'' \<Longrightarrow> all_kept (ob_ID x) xs acc"
proof -
  let ?p = "ob_ID x"
  show all: "all_kept ?p xs acc" if kind: "ob_Kind x \<noteq> ''Ingress''"
  proof -
    consider "ob_Kind x \<in> {''ClusterRoleBinding'', ''RoleBinding''}" | "ob_Kind x = ''StatefulSet''" | "ob_Kind x = ''Pod''" |
      "ob_Kind x \<notin> {''ClusterRoleBinding'', ''RoleBinding'', ''Ingress'', ''StatefulSet'', ''Pod''}"
      using kind by auto
    then show ?thesis
    proof cases
      case 1
      then show ?thesis using assms findRBAC_marked by (cases acc) (simp add: spec_targets_def all_kept_def)
    next
      case 2
      then obtain name where "more_targets ?p name ''Service'' (xs, []) = Some acc"
        using assms by (auto simp: spec_targets_def bind_eq_Some_conv)
      then show ?thesis by (rule more_targets_kept [OF kept_start(1)])
    next
      case 3
      then obtain secrets name volumes acc1 acc2 where acc1: "each (\<lambda>sec. more_targets ?p sec ''Secret'') secrets (xs, []) = Some acc1"
        and acc2: "more_targets ?p name ''ServiceAccount'' acc1 = Some acc2" and acc: "each (pod_volume ?p) volumes acc2 = Some acc"
        using assms by (simp add: spec_targets_def del: getField.simps) (simp only: bind_eq_Some_conv, blast)
      have "all_kept ?p xs acc1"
        using more_targets_kept by (rule each_keeps [where J = "all_kept ?p xs", OF _ kept_start(1) acc1])
      then have "all_kept ?p xs acc2" using acc2 by (rule more_targets_kept)
      then show ?thesis using pod_volume_kept by (rule each_keeps [where J = "all_kept ?p xs", OF _ _ acc, rotated])
    next
      case 4
      then show ?thesis using assms by (auto simp: spec_targets_def kept_start)
    qed
  qed
  show "some_kept ?p xs acc"
  proof (cases "ob_Kind x = ''Ingress''")
    case True
    then obtain rules where "each (ingress_rule ?p) rules (xs, []) = Some acc"
      using assms by (auto simp: spec_targets_def bind_eq_Some_conv)
    then show ?thesis
      by (rule each_keeps [where J = "some_kept ?p xs", rotated 2]) (auto intro: ingress_rule_kept kept_start)
  next
    case False
    then show ?thesis using all by (auto simp: all_kept_def some_kept_def)
  qed
qed

interpretation specs: drawing rs_SpecRels put_spec spec_step "{''Ingress''}"
proof unfold_locales
  fix i :: nat and xs zs :: "object list"
  let ?p = "ob_ID (xs ! i)"
  assume step: "spec_step i xs = Some zs" and i: "i < length xs"
  then obtain ys kept where found: "spec_targets (xs ! i) xs = Some (ys, kept)"
      "zs = ys[i := put_spec (rs_SpecRels (xs ! i) @ map (new_rel ?p) kept) (ys ! i)]"
    by (auto simp: spec_step_def bind_eq_Some_conv)
  have "\<exists>ids. marked rs_SpecRels put_spec ?p xs ys ids \<and> set kept \<subseteq> set ids \<and> (kept = ids \<or> ob_Kind (xs ! i) \<in> {''Ingress''})"
    using spec_targets_kept [OF found(1)] by (auto simp: all_kept_def some_kept_def)
  then show "\<exists>ys ids kept. marked rs_SpecRels put_spec ?p xs ys ids \<and> set kept \<subseteq> set ids \<and>
      (kept = ids \<or> ob_Kind (xs ! i) \<in> {''Ingress''}) \<and>
      zs = ys[i := put_spec (rs_SpecRels (xs ! i) @ map (new_rel ?p) kept) (ys ! i)]"
    using found(2) by blast
qed

end
