(* ===== verification/Grapher_Components.thy ===== *)
theory Grapher_Components
  imports Grapher_Edges
begin

text \<open>
  The components of a release: the three passes composed. Edges are held at both ends, label edges are
  exactly the selections, and the ids of objects are their positions if no document was skipped.
\<close>

section \<open>Ids of parsed objects\<close>

definition has_kind :: "yaml_map \<Rightarrow> bool" where
  "has_kind obj \<longleftrightarrow> field obj ''kind'' \<noteq> YNil"

lemma parse_object_ID: "parse_object ns i obj = Some r \<Longrightarrow> r = None \<and> \<not> has_kind obj \<or> (\<exists>x. r = Some x \<and> has_kind obj \<and>
    ob_ID x = i \<and> rs_ControlRels x = [] \<and> rs_LabelRels x = [] \<and> rs_SpecRels x = [])"
  by (auto simp: parse_object_def has_kind_def bind_eq_Some_conv new_object_def split: if_splits)

lemma parse_from_IDs:
  "parse_from (parse_object ns) i docs = Some objs \<Longrightarrow>
   map ob_ID objs = map fst (filter (has_kind \<circ> snd) (enumerate i docs)) \<and>
   (\<forall>x\<in>set objs. rs_ControlRels x = [] \<and> rs_LabelRels x = [] \<and> rs_SpecRels x = [])"
proof (induction docs arbitrary: i objs)
  case (Cons doc docs)
  then obtain r rest where r: "parse_object ns i doc = Some r" "parse_from (parse_object ns) (Suc i) docs = Some rest"
      "objs = (case r of None \<Rightarrow> rest | Some x \<Rightarrow> x # rest)"
    by (auto simp: bind_eq_Some_conv)
  show ?case using parse_object_ID [OF r(1)] Cons.IH [OF r(2)] r(3) by auto
qed simp

lemma ParseObjs_fresh:
  assumes "ParseObjs docs ns = Some objs" "x \<in> set objs"
  shows "rs_ControlRels x = []" "rs_LabelRels x = []" "rs_SpecRels x = []"
  using parse_from_IDs [of ns 0 docs objs] assms by (auto simp: ParseObjs_def)

lemma ParseObjs_IDs: "ParseObjs docs ns = Some objs \<Longrightarrow> map ob_ID objs = map fst (filter (has_kind \<circ> snd) (enumerate 0 docs))"
  using parse_from_IDs [of ns 0 docs objs] by (simp add: ParseObjs_def)

lemma filter_enumerate_all: "list_all has_kind docs \<Longrightarrow> filter (has_kind \<circ> snd) (enumerate i docs) = enumerate i docs"
  by (induction docs arbitrary: i) auto

lemma ParseObjs_positions: "ParseObjs docs ns = Some objs \<Longrightarrow> list_all has_kind docs \<Longrightarrow> map ob_ID objs = [0..<length docs]"
  by (simp add: ParseObjs_IDs filter_enumerate_all)

section \<open>Controllers\<close>

text \<open>The edge of a pod and its controller, held by both.\<close>

definition controls :: "object \<Rightarrow> object \<Rightarrow> bool" where
  "controls y c \<longleftrightarrow> (\<exists>e. rs_ControlRels c = [e] \<and> e \<in> set (rs_ControlRels y) \<and> rl_Source e = ob_ID y \<and> rl_Target e = ob_ID c)"

definition drawn_pods :: "object list \<Rightarrow> object list \<Rightarrow> bool" where
  "drawn_pods objs pods \<longleftrightarrow>
     (\<forall>y\<in>set objs. \<forall>e\<in>set (rs_ControlRels y). \<exists>c\<in>set pods. controls y c \<and> e \<in> set (rs_ControlRels c)) \<and>
     (\<forall>c\<in>set pods. \<exists>y\<in>set objs. controls y c)"

lemma drawn_pods_Cons: "drawn_pods [y] ps \<Longrightarrow> drawn_pods ys qs \<Longrightarrow> drawn_pods (y # ys) (ps @ qs)"
  unfolding drawn_pods_def set_append list.set by blast

lemma control_step_pods:
  assumes "control_step n x (children, selectors) = Some (y, children', selectors')" "rs_ControlRels x = []"
  shows "\<exists>pods. children' = children @ pods \<and> drawn_pods [y] pods \<and> ob_ID y = ob_ID x \<and> rs_LabelRels y = rs_LabelRels x \<and>
    rs_SpecRels y = rs_SpecRels x \<and> map ob_ID pods = [n + length children..<n + length children + length pods] \<and>
    (\<forall>c\<in>set pods. rs_LabelRels c = [] \<and> rs_SpecRels c = [])"
proof -
  consider "y = x" "children' = children" |
    rs template pods where "control_pods (n + length children) x rs template = Some pods"
      "y = with_pods x pods" "children' = children @ pods"
    using assms(1) unfolding control_step_def by (auto simp: bind_eq_Some_conv simp del: getField.simps split: if_splits)
  then show ?thesis
  proof cases
    case 1
    then show ?thesis using assms(2) by (simp add: drawn_pods_def)
  next
    case 2
    then obtain t where "pods = (if rs \<le> 0 then [] else map (control_pod (n + length children) x rs t) [0..<nat rs])"
      by (auto simp: control_pods_def bind_eq_Some_conv split: if_splits)
    then show ?thesis using 2(2,3) assms(2)
      by (auto simp: with_pods_def drawn_pods_def controls_def control_pod_def comp_def map_add_upt add.commute)
  qed
qed

lemma control_loop_pods:
  "control_loop n objs (children, selectors) = Some (objs', children', selectors') \<Longrightarrow>
   \<forall>x\<in>set objs. rs_ControlRels x = [] \<Longrightarrow>
   \<exists>pods. children' = children @ pods \<and> drawn_pods objs' pods \<and> map ob_ID objs' = map ob_ID objs \<and>
     map rs_LabelRels objs' = map rs_LabelRels objs \<and> map rs_SpecRels objs' = map rs_SpecRels objs \<and>
     map ob_ID pods = [n + length children..<n + length children + length pods] \<and>
     (\<forall>c\<in>set pods. rs_LabelRels c = [] \<and> rs_SpecRels c = [])"
proof (induction objs arbitrary: children selectors objs')
  case (Cons x objs)
  then obtain y ch sel ys where step: "control_step n x (children, selectors) = Some (y, ch, sel)"
      and loop: "control_loop n objs (ch, sel) = Some (ys, children', selectors')" and objs': "objs' = y # ys"
    by (auto simp: bind_eq_Some_conv)
  obtain ps where ps: "ch = children @ ps" "drawn_pods [y] ps" "ob_ID y = ob_ID x" "rs_LabelRels y = rs_LabelRels x"
      "rs_SpecRels y = rs_SpecRels x" "map ob_ID ps = [n + length children..<n + length children + length ps]"
      "\<forall>c\<in>set ps. rs_LabelRels c = [] \<and> rs_SpecRels c = []"
    using control_step_pods [OF step] Cons.prems(2) by auto
  obtain qs where qs: "children' = ch @ qs" "drawn_pods ys qs" "map ob_ID ys = map ob_ID objs"
      "map rs_LabelRels ys = map rs_LabelRels objs" "map rs_SpecRels ys = map rs_SpecRels objs"
      "map ob_ID qs = [n + length ch..<n + length ch + length qs]"
      "\<forall>c\<in>set qs. rs_LabelRels c = [] \<and> rs_SpecRels c = []"
    using Cons.IH [OF loop] Cons.prems(2) by auto
  have "drawn_pods objs' (ps @ qs)" using drawn_pods_Cons [OF ps(2) qs(2)] by (simp add: objs')
  moreover have "map ob_ID (ps @ qs) = [n + length children..<n + length children + length (ps @ qs)]"
    using ps(1,6) qs(6) upt_add_eq_append [of "n + length children" "n + length children + length ps" "length qs"]
    by (simp add: add.assoc)
  ultimately show ?case using ps qs objs' by (intro exI [of _ "ps @ qs"]) auto
qed (simp add: drawn_pods_def)

lemma drawn_pods_both_ends: "drawn_pods objs pods \<Longrightarrow> at_both_ends {} rs_ControlRels (objs @ pods)"
proof -
  assume drawn: "drawn_pods objs pods"
  have "(\<exists>t\<in>set (objs @ pods). ob_ID t = rl_Target e \<and> e \<in> set (rs_ControlRels t)) \<and>
      (\<exists>s\<in>set (objs @ pods). ob_ID s = rl_Source e \<and> e \<in> set (rs_ControlRels s))"
    if x: "x \<in> set (objs @ pods)" "e \<in> set (rs_ControlRels x)" for x e
  proof -
    obtain y c where "y \<in> set objs" "c \<in> set pods" "controls y c" "e \<in> set (rs_ControlRels c)"
      using drawn x unfolding drawn_pods_def by fastforce
    then show ?thesis by (auto simp: controls_def)
  qed
  then show "at_both_ends {} rs_ControlRels (objs @ pods)" unfolding at_both_ends_def by blast
qed

section \<open>Passes leave the rest alone\<close>

lemma at_both_ends_cong:
  "map (\<lambda>x. (ob_ID x, ob_Kind x, edges x)) xs = map (\<lambda>x. (ob_ID x, ob_Kind x, edges x)) ys \<Longrightarrow>
   at_both_ends loose edges xs = at_both_ends loose edges ys"
proof -
  assume same: "map (\<lambda>x. (ob_ID x, ob_Kind x, edges x)) xs = map (\<lambda>x. (ob_ID x, ob_Kind x, edges x)) ys"
  have "at_both_ends loose edges zs = (\<forall>(i, k, es)\<in>set (map (\<lambda>x. (ob_ID x, ob_Kind x, edges x)) zs). \<forall>e\<in>set es.
      (\<exists>(i, k, es)\<in>set (map (\<lambda>x. (ob_ID x, ob_Kind x, edges x)) zs). i = rl_Target e \<and> e \<in> set es) \<and>
      (\<exists>(i, k, es)\<in>set (map (\<lambda>x. (ob_ID x, ob_Kind x, edges x)) zs). i = rl_Source e \<and> (e \<in> set es \<or> k \<in> loose)))" for zs
    by (simp add: at_both_ends_def)
  then show ?thesis by (simp only: same)
qed

lemma map_keeps: "map f xs = map f ys \<Longrightarrow> (\<And>x. g (f x) = g x) \<Longrightarrow> map g xs = map g ys"
proof -
  assume same: "map f xs = map f ys" and g: "\<And>x. g (f x) = g x"
  have "map g zs = map g (map f zs)" for zs by (simp add: comp_def g)
  then show ?thesis using same by metis
qed

lemma map_all: "map f xs = map f ys \<Longrightarrow> \<forall>y\<in>set ys. f y = c \<Longrightarrow> \<forall>x\<in>set xs. f x = c"
  by (metis (no_types, lifting) imageE image_eqI list.set_map)

lemma map_nth_eq: "map f xs = map f ys \<Longrightarrow> j < length xs \<Longrightarrow> f (xs ! j) = f (ys ! j)"
  by (metis length_map nth_map)

abbreviation no_labels :: "object \<Rightarrow> object" where "no_labels x \<equiv> x\<lparr>rs_LabelRels := []\<rparr>"

abbreviation no_specs :: "object \<Rightarrow> object" where "no_specs x \<equiv> x\<lparr>rs_SpecRels := []\<rparr>"

lemma GetLabelRel_pass:
  assumes "GetLabelRel parsed = Some parsed'"
  shows "each label_step [0..<length (po_Objects parsed)] (po_Objects parsed) = Some (po_Objects parsed')"
    and "map no_labels (po_Objects parsed') = map no_labels (po_Objects parsed)"
  using assms labels.pass_keeps [of "[0..<length (po_Objects parsed)]" "po_Objects parsed"] by (auto simp: GetLabelRel_def)

lemma GetSpecRel_pass:
  assumes "GetSpecRel parsed = Some parsed'"
  shows "each spec_step [0..<length (po_Objects parsed)] (po_Objects parsed) = Some (po_Objects parsed')"
    and "map no_specs (po_Objects parsed') = map no_specs (po_Objects parsed)"
  using assms specs.pass_keeps [of "[0..<length (po_Objects parsed)]" "po_Objects parsed"] by (auto simp: GetSpecRel_def)

text \<open>What the endpoint computes, pass by pass.\<close>

lemma components_passes:
  assumes "GetComponentsHandler manifest ns = Some parsed"
  obtains objs objs1 pods p1 p2 where
    "ParseObjs (ImportMultiDocYAML manifest) ns = Some objs" "drawn_pods objs1 pods" "map ob_ID objs1 = map ob_ID objs"
    "map ob_ID pods = [length objs..<length objs + length pods]" "po_Objects p1 = objs1 @ pods"
    "\<forall>x\<in>set (objs1 @ pods). rs_LabelRels x = [] \<and> rs_SpecRels x = []"
    "GetLabelRel p1 = Some p2" "GetSpecRel p2 = Some parsed"
proof -
  obtain objs p1 p2 where objs: "ParseObjs (ImportMultiDocYAML manifest) ns = Some objs"
      and p1: "GetControlRel \<lparr>po_Objects = objs, po_PodSelectors = []\<rparr> = Some p1"
      and rest: "GetLabelRel p1 = Some p2" "GetSpecRel p2 = Some parsed"
    using assms by (auto simp: GetComponentsHandler_def bind_eq_Some_conv)
  obtain objs1 pods selectors where loop: "control_loop (length objs) objs ([], []) = Some (objs1, pods, selectors)"
      "po_Objects p1 = objs1 @ pods"
    using p1 by (auto simp: GetControlRel_def bind_eq_Some_conv)
  have fresh: "\<forall>x\<in>set objs. rs_ControlRels x = [] \<and> rs_LabelRels x = [] \<and> rs_SpecRels x = []"
    using ParseObjs_fresh [OF objs] by blast
  have "drawn_pods objs1 pods" "map ob_ID objs1 = map ob_ID objs" "map rs_LabelRels objs1 = map rs_LabelRels objs"
      "map rs_SpecRels objs1 = map rs_SpecRels objs" "map ob_ID pods = [length objs..<length objs + length pods]"
      "\<forall>c\<in>set pods. rs_LabelRels c = [] \<and> rs_SpecRels c = []"
    using control_loop_pods [OF loop(1)] fresh by auto
  note pods = this
  have "\<forall>x\<in>set objs1. rs_LabelRels x = []" "\<forall>x\<in>set objs1. rs_SpecRels x = []"
    using map_all [OF pods(3)] map_all [OF pods(4)] fresh by simp_all
  then have "\<forall>x\<in>set (objs1 @ pods). rs_LabelRels x = [] \<and> rs_SpecRels x = []" using pods(6) by auto
  then show ?thesis using that objs pods(1,2,5) loop(2) rest by blast
qed

text \<open>
  C31. The relations are bi-directional, as their comment says, except for those of an ingress: every
  edge of control and labels in the components of a release is held by an object with the id of its
  source and by one with the id of its target, and every edge of a specification is held by its
  target and by its source, unless the source is an ingress, which keeps the edges of its last path only.
\<close>
theorem components_at_both_ends:
  assumes "GetComponentsHandler manifest ns = Some parsed"
  shows "at_both_ends {} rs_ControlRels (po_Objects parsed) \<and> at_both_ends {} rs_LabelRels (po_Objects parsed) \<and>
    at_both_ends {''Ingress''} rs_SpecRels (po_Objects parsed)"
proof -
  obtain objs objs1 pods p1 p2 where pods: "drawn_pods objs1 pods" and p1: "po_Objects p1 = objs1 @ pods"
      and fresh: "\<forall>x\<in>set (objs1 @ pods). rs_LabelRels x = [] \<and> rs_SpecRels x = []"
      and p2: "GetLabelRel p1 = Some p2" and p3: "GetSpecRel p2 = Some parsed"
    using components_passes [OF assms] by metis
  note pass2 = GetLabelRel_pass [OF p2] and pass3 = GetSpecRel_pass [OF p3]
  have "at_both_ends {} rs_LabelRels (po_Objects p1)" using fresh by (simp add: p1 at_both_ends_def)
  then have labels: "at_both_ends {} rs_LabelRels (po_Objects p2)"
    using labels.pass_both_ends [OF pass2(1)] by simp
  have "map rs_SpecRels (po_Objects p2) = map rs_SpecRels (po_Objects p1)"
    using pass2(2) by (rule map_keeps) simp
  then have "\<forall>x\<in>set (po_Objects p2). rs_SpecRels x = []"
    by (rule map_all) (use fresh in \<open>simp add: p1\<close>)
  then have "at_both_ends {''Ingress''} rs_SpecRels (po_Objects p2)" by (simp add: at_both_ends_def)
  then have specs: "at_both_ends {''Ingress''} rs_SpecRels (po_Objects parsed)"
    using specs.pass_both_ends [OF pass3(1)] by simp
  have "map (\<lambda>x. (ob_ID x, ob_Kind x, rs_LabelRels x)) (po_Objects parsed) = map (\<lambda>x. (ob_ID x, ob_Kind x, rs_LabelRels x)) (po_Objects p2)"
    using pass3(2) by (rule map_keeps) simp
  from at_both_ends_cong [OF this] have "at_both_ends {} rs_LabelRels (po_Objects parsed)" using labels by simp
  moreover have "map (\<lambda>x. (ob_ID x, ob_Kind x, rs_ControlRels x)) (po_Objects parsed) = map (\<lambda>x. (ob_ID x, ob_Kind x, rs_ControlRels x)) (po_Objects p1)"
    using map_keeps [OF pass3(2), of "\<lambda>x. (ob_ID x, ob_Kind x, rs_ControlRels x)"]
      map_keeps [OF pass2(2), of "\<lambda>x. (ob_ID x, ob_Kind x, rs_ControlRels x)"] by simp
  from at_both_ends_cong [OF this] have "at_both_ends {} rs_ControlRels (po_Objects parsed)"
    using drawn_pods_both_ends [OF pods] by (simp add: p1)
  ultimately show ?thesis using specs by blast
qed

section \<open>Which pods a selector selects\<close>

text \<open>The labels of a selector are those of the object's specification; a pod is selected when it has all of them.\<close>

definition selects :: "object \<Rightarrow> object \<Rightarrow> bool" where
  "selects s t \<longleftrightarrow> ob_Kind t = ''Pod'' \<and>
     (\<exists>ml me labels. aggregateLabelSelectors (ob_RawYAML s) = Some (ml, me) \<and> ml \<noteq> [] \<and>
        getField (ob_RawYAML t) [''metadata'', ''labels''] = Some (YMap labels) \<and>
        (\<forall>l\<in>set ml. field labels (ml_key l) = YStr (ml_value l)))"

lemma as_map_Some: "as_map y = Some m \<longleftrightarrow> y = YMap m"
  by (cases y rule: as_map.cases) auto

lemma selected_iff:
  "selected ml t \<longleftrightarrow> ob_Kind t = ''Pod'' \<and> ml \<noteq> [] \<and>
     (\<exists>labels. getField (ob_RawYAML t) [''metadata'', ''labels''] = Some (YMap labels) \<and>
        (\<forall>l\<in>set ml. field labels (ml_key l) = YStr (ml_value l)))"
proof -
  have "length (filter P ml) = length ml \<longleftrightarrow> (\<forall>l\<in>set ml. P l)" for P
    by (metis filter_id_conv length_filter_less less_irrefl)
  then show ?thesis
    by (auto simp: selected_def labels_match_def bind_eq_Some_conv as_map_Some Let_def simp del: getField.simps split: if_splits)
qed

definition label_edges :: "object list \<Rightarrow> relation set" where
  "label_edges objs = (\<Union>x\<in>set objs. set (rs_LabelRels x))"

lemma label_step_edges:
  assumes "label_step i xs = Some zs" "i < length xs"
  shows "label_edges zs = label_edges xs \<union> {new_rel (ob_ID (xs ! i)) (ob_ID t) |t. t \<in> set xs \<and> selects (xs ! i) t}"
proof -
  let ?p = "ob_ID (xs ! i)"
  obtain ml me ys ids where ml: "aggregateLabelSelectors (ob_RawYAML (xs ! i)) = Some (ml, me)"
      and found: "findLabelsBySelector ?p ml xs = Some (ys, ids)"
      and zs: "zs = ys[i := (ys ! i)\<lparr>rs_LabelRels := rs_LabelRels (xs ! i) @ map (new_rel ?p) ids\<rparr>]"
    using assms(1) by (auto simp: label_step_def bind_eq_Some_conv)
  have selects: "selects (xs ! i) t \<longleftrightarrow> selected ml t" for t by (auto simp add: selects_def selected_iff ml)
  note found = findLabels_exact [OF found]
  define new where "new = {new_rel ?p (ob_ID t) |t. t \<in> set xs \<and> selected ml t}"
  have at_i: "set (rs_LabelRels (zs ! i)) = set (rs_LabelRels (xs ! i)) \<union> new"
    using assms(2) found by (auto simp: zs new_def)
  have at_k: "set (rs_LabelRels (zs ! k)) = set (rs_LabelRels (xs ! k)) \<union> set (label_rels ?p ml (xs ! k))"
    if "k < length xs" "k \<noteq> i" for k using that found by (simp add: zs)
  have own: "set (label_rels ?p ml (xs ! k)) \<subseteq> new" if "k < length xs" for k
    using that by (auto simp: label_rels_def new_def)
  have len: "length zs = length xs" using found by (simp add: zs)
  have nth: "label_edges us = (\<Union>k<length us. set (rs_LabelRels (us ! k)))" for us
    by (force simp: label_edges_def set_conv_nth)
  have "label_edges zs = label_edges xs \<union> new"
  proof
    show "label_edges zs \<subseteq> label_edges xs \<union> new"
    proof
      fix e assume "e \<in> label_edges zs"
      then obtain k where k: "k < length xs" "e \<in> set (rs_LabelRels (zs ! k))" unfolding nth len by blast
      then have "e \<in> set (rs_LabelRels (xs ! k)) \<union> new" using at_i at_k [OF k(1)] own [OF k(1)] by (cases "k = i") auto
      then show "e \<in> label_edges xs \<union> new" using k(1) unfolding nth by blast
    qed
    have "set (rs_LabelRels (xs ! k)) \<subseteq> set (rs_LabelRels (zs ! k))" if "k < length xs" for k
      using at_i at_k [OF that] by (cases "k = i") auto
    moreover have "new \<subseteq> set (rs_LabelRels (zs ! i))" using at_i by blast
    ultimately show "label_edges xs \<union> new \<subseteq> label_edges zs" unfolding nth len using assms(2) by blast
  qed
  then show ?thesis by (simp add: new_def selects)
qed

lemma label_pass_edges:
  "each label_step is xs = Some zs \<Longrightarrow> \<forall>i\<in>set is. i < length xs \<Longrightarrow>
   label_edges zs = label_edges xs \<union> {new_rel (ob_ID (xs ! i)) (ob_ID t) |i t. i \<in> set is \<and> t \<in> set xs \<and> selects (xs ! i) t}"
proof (induction "is" arbitrary: xs)
  case (Cons i "is")
  obtain ys where ys: "label_step i xs = Some ys" "each label_step is ys = Some zs"
    using Cons.prems(1) by (cases "label_step i xs") auto
  have i: "i < length xs" "\<forall>j\<in>set is. j < length xs" using Cons.prems(2) by auto
  note keeps = labels.step_keeps [OF ys(1) i(1)]
  have len: "length ys = length xs" using labels.step_length [OF ys(1) i(1)] .
  have "map ob_ID ys = map ob_ID xs" "map ob_Kind ys = map ob_Kind xs" "map ob_RawYAML ys = map ob_RawYAML xs"
    using keeps by (rule map_keeps, simp)+
  then have at: "ob_ID (ys ! j) = ob_ID (xs ! j)" "ob_Kind (ys ! j) = ob_Kind (xs ! j)" "ob_RawYAML (ys ! j) = ob_RawYAML (xs ! j)"
    if "j < length xs" for j
    using that map_nth_eq len by metis+
  have "{new_rel (ob_ID (ys ! j)) (ob_ID t) |j t. j \<in> set is \<and> t \<in> set ys \<and> selects (ys ! j) t} =
      {new_rel (ob_ID (xs ! j)) (ob_ID t) |j t. j \<in> set is \<and> t \<in> set xs \<and> selects (xs ! j) t}"
  proof -
    have *: "{new_rel (ob_ID (us ! j)) (ob_ID t) |j t. j \<in> set is \<and> t \<in> set us \<and> selects (us ! j) t} =
        {new_rel (ob_ID (us ! j)) (ob_ID (us ! k)) |j k. j \<in> set is \<and> k < length us \<and> selects (us ! j) (us ! k)}" for us
      unfolding in_set_conv_nth [of _ us] by blast
    have "selects (ys ! j) (ys ! k) = selects (xs ! j) (xs ! k)" if "j < length xs" "k < length xs" for j k
      using at [OF that(1)] at [OF that(2)] by (simp add: selects_def del: getField.simps)
    then show ?thesis unfolding * len using i(2) at by (intro Collect_cong ex_cong1) auto
  qed
  then show ?case using Cons.IH [OF ys(2)] i len label_step_edges [OF ys(1) i(1)] by auto
qed auto

definition selections :: "object list \<Rightarrow> (nat \<times> nat) set" where
  "selections objs = {(ob_ID s, ob_ID t) |s t. s \<in> set objs \<and> t \<in> set objs \<and> selects s t}"

lemma selections_cong:
  assumes "map (\<lambda>x. (ob_ID x, ob_Kind x, ob_RawYAML x)) xs = map (\<lambda>x. (ob_ID x, ob_Kind x, ob_RawYAML x)) ys"
  shows "selections xs = selections ys"
proof -
  have le: "selections us \<subseteq> selections vs"
    if same: "map (\<lambda>x. (ob_ID x, ob_Kind x, ob_RawYAML x)) us = map (\<lambda>x. (ob_ID x, ob_Kind x, ob_RawYAML x)) vs" for us vs
  proof -
    have key: "\<exists>v\<in>set vs. ob_ID v = ob_ID u \<and> ob_Kind v = ob_Kind u \<and> ob_RawYAML v = ob_RawYAML u" if "u \<in> set us" for u
    proof -
      have "(ob_ID u, ob_Kind u, ob_RawYAML u) \<in> set (map (\<lambda>x. (ob_ID x, ob_Kind x, ob_RawYAML x)) us)" using that by simp
      then show ?thesis unfolding same by auto
    qed
    show ?thesis
    proof
      fix e assume "e \<in> selections us"
      then obtain s t where st: "e = (ob_ID s, ob_ID t)" "s \<in> set us" "t \<in> set us" "selects s t"
        by (auto simp: selections_def)
      obtain s' t' where "s' \<in> set vs" "ob_ID s' = ob_ID s" "ob_RawYAML s' = ob_RawYAML s"
          "t' \<in> set vs" "ob_ID t' = ob_ID t" "ob_Kind t' = ob_Kind t" "ob_RawYAML t' = ob_RawYAML t"
        using key [OF st(2)] key [OF st(3)] by blast
      moreover from this have "selects s' t'" using st(4) by (simp add: selects_def del: getField.simps)
      ultimately show "e \<in> selections vs" unfolding selections_def st(1) mem_Collect_eq by metis
    qed
  qed
  show ?thesis using le [OF assms] le [OF assms [symmetric]] by (rule equalityI)
qed

text \<open>
  C30. The label edges among the components of a release are exactly the selections: there is an edge
  from one id to another if and only if an object with the first id selects by its labels a pod with
  the second, that is, it has a selector with labels and the pod has every one of them.
\<close>
theorem label_edges_exact:
  assumes "GetComponentsHandler manifest ns = Some parsed"
  shows "(\<exists>x\<in>set (po_Objects parsed). new_rel a b \<in> set (rs_LabelRels x)) \<longleftrightarrow>
    (\<exists>s\<in>set (po_Objects parsed). \<exists>t\<in>set (po_Objects parsed). ob_ID s = a \<and> ob_ID t = b \<and> selects s t)"
proof -
  obtain objs objs1 pods p1 p2 where p1: "po_Objects p1 = objs1 @ pods"
      and fresh: "\<forall>x\<in>set (objs1 @ pods). rs_LabelRels x = [] \<and> rs_SpecRels x = []"
      and p2: "GetLabelRel p1 = Some p2" and p3: "GetSpecRel p2 = Some parsed"
    using components_passes [OF assms] by metis
  note pass2 = GetLabelRel_pass [OF p2] and pass3 = GetSpecRel_pass [OF p3]
  have "map rs_LabelRels (po_Objects parsed) = map rs_LabelRels (po_Objects p2)" using pass3(2) by (rule map_keeps) simp
  then have "label_edges (po_Objects parsed) = label_edges (po_Objects p2)"
    unfolding label_edges_def by (metis image_image list.set_map)
  also have "... = label_edges (po_Objects p1) \<union> {new_rel (ob_ID (po_Objects p1 ! i)) (ob_ID t) |i t.
      i \<in> set [0..<length (po_Objects p1)] \<and> t \<in> set (po_Objects p1) \<and> selects (po_Objects p1 ! i) t}"
    by (rule label_pass_edges [OF pass2(1)]) simp
  also have "label_edges (po_Objects p1) = {}" using fresh by (simp add: label_edges_def p1)
  finally have edges: "new_rel a b \<in> label_edges (po_Objects parsed) \<longleftrightarrow> (a, b) \<in> selections (po_Objects p1)"
    by (auto simp: selections_def new_rel_def in_set_conv_nth)
  have "map (\<lambda>x. (ob_ID x, ob_Kind x, ob_RawYAML x)) (po_Objects parsed) = map (\<lambda>x. (ob_ID x, ob_Kind x, ob_RawYAML x)) (po_Objects p1)"
    using map_keeps [OF pass3(2), of "\<lambda>x. (ob_ID x, ob_Kind x, ob_RawYAML x)"]
      map_keeps [OF pass2(2), of "\<lambda>x. (ob_ID x, ob_Kind x, ob_RawYAML x)"] by simp
  from selections_cong [OF this] edges have "new_rel a b \<in> label_edges (po_Objects parsed) \<longleftrightarrow> (a, b) \<in> selections (po_Objects parsed)"
    by simp
  then show ?thesis unfolding label_edges_def selections_def by blast
qed

section \<open>Ids\<close>

lemma component_IDs:
  assumes "GetComponentsHandler manifest ns = Some parsed"
  obtains objs n where "ParseObjs (ImportMultiDocYAML manifest) ns = Some objs"
    "map ob_ID (po_Objects parsed) = map ob_ID objs @ [length objs..<length objs + n]"
proof -
  obtain objs objs1 pods p1 p2 where objs: "ParseObjs (ImportMultiDocYAML manifest) ns = Some objs"
      and ids: "map ob_ID objs1 = map ob_ID objs" "map ob_ID pods = [length objs..<length objs + length pods]"
      and p1: "po_Objects p1 = objs1 @ pods" and p2: "GetLabelRel p1 = Some p2" and p3: "GetSpecRel p2 = Some parsed"
    using components_passes [OF assms] by metis
  have "map ob_ID (po_Objects parsed) = map ob_ID (po_Objects p1)"
    using map_keeps [OF GetSpecRel_pass(2) [OF p3], of ob_ID] map_keeps [OF GetLabelRel_pass(2) [OF p2], of ob_ID] by simp
  then show ?thesis using that objs by (simp add: p1 ids)
qed

text \<open>
  C32. When every document of the manifest has a kind, the id of each component is its position in the
  list, so that an edge names its two ends.
\<close>
theorem component_ids_are_positions:
  assumes "GetComponentsHandler manifest ns = Some parsed"
    and "list_all has_kind (ImportMultiDocYAML manifest)"
  shows "map ob_ID (po_Objects parsed) = [0..<length (po_Objects parsed)]"
proof -
  obtain objs n where objs: "ParseObjs (ImportMultiDocYAML manifest) ns = Some objs"
      and ids: "map ob_ID (po_Objects parsed) = map ob_ID objs @ [length objs..<length objs + n]"
    using component_IDs [OF assms(1)] by blast
  have positions: "map ob_ID objs = [0..<length objs]"
    using ParseObjs_positions [OF objs assms(2)] by (metis length_map diff_zero length_upt)
  have "length (po_Objects parsed) = length objs + n" using arg_cong [OF ids, of length] by simp
  then show ?thesis using upt_add_eq_append [of 0 "length objs" n] by (simp add: ids positions)
qed

text \<open>
  Documents without a kind, such as block comments, are skipped, but the ids of objects count
  them while the ids of pods do not: when the document at the position that equals the number of
  objects is one of the objects, the first pod of a controller has the same id as it.
\<close>
theorem skipped_document_clashes:
  assumes "GetComponentsHandler manifest ns = Some parsed"
  defines "docs \<equiv> ImportMultiDocYAML manifest"
  defines "m \<equiv> length (filter has_kind docs)"
  assumes "m < length docs" "has_kind (docs ! m)" "m < length (po_Objects parsed)"
  shows "\<exists>i<m. ob_ID (po_Objects parsed ! i) = m \<and> ob_ID (po_Objects parsed ! m) = m"
proof -
  obtain objs n where objs: "ParseObjs docs ns = Some objs"
      and ids: "map ob_ID (po_Objects parsed) = map ob_ID objs @ [length objs..<length objs + n]"
    using component_IDs [OF assms(1)] unfolding docs_def by blast
  have "length (map ob_ID objs) = length (map fst (filter (has_kind \<circ> snd) (enumerate 0 docs)))"
    using ParseObjs_IDs [OF objs] by simp
  also have "... = m" unfolding m_def length_map by (metis filter_map length_map map_snd_enumerate)
  finally have len: "length objs = m" by simp
  have "(m, docs ! m) \<in> set (enumerate 0 docs)" using assms(4) by (simp add: in_set_enumerate_eq)
  then have "m \<in> set (map ob_ID objs)" unfolding ParseObjs_IDs [OF objs] using assms(5) by force
  then obtain i where i: "i < m" "map ob_ID objs ! i = m" by (metis in_set_conv_nth len length_map)
  have all: "length (po_Objects parsed) = m + n" using arg_cong [OF ids, of length] len by simp
  have nth: "ob_ID (po_Objects parsed ! k) = (map ob_ID objs @ [m..<m + n]) ! k" if "k < m + n" for k
    using arg_cong [OF ids, of "\<lambda>xs. xs ! k"] that all len by simp
  have "ob_ID (po_Objects parsed ! i) = m" using nth [of i] i len by (simp add: nth_append)
  moreover have "ob_ID (po_Objects parsed ! m) = m" using nth [of m] assms(6) all len by (simp add: nth_append)
  ultimately show ?thesis using i(1) by blast
qed

section \<open>Panics\<close>

lemma each_reaches: "each body (xs @ x # ys) s = Some s' \<Longrightarrow> \<exists>s1 s2. each body xs s = Some s1 \<and> body x s1 = Some s2"
  by (induction xs arbitrary: s) (auto simp: bind_eq_Some_conv)

lemma findLabels_panics:
  "t \<in> set objs \<Longrightarrow> ob_Kind t = ''Pod'' \<Longrightarrow> labels_match ml t = None \<Longrightarrow> findLabelsBySelector p ml objs = None"
  by (induction objs) (auto simp: bind_eq_None_conv)

text \<open>
  A pod without labels stops the components of its release: as soon as any object has a selector
  with labels, the assertion on the missing labels panics.
\<close>
theorem unlabelled_pod_panics:
  assumes "s \<in> set (po_Objects parsed)" "aggregateLabelSelectors (ob_RawYAML s) = Some (ml, me)" "ml \<noteq> []"
    and "t \<in> set (po_Objects parsed)" "ob_Kind t = ''Pod''"
    and "getField (ob_RawYAML t) [''metadata'', ''labels''] = Some YNil"
  shows "GetLabelRel parsed = None"
proof (rule ccontr)
  assume "GetLabelRel parsed \<noteq> None"
  then obtain zs where pass: "each label_step [0..<length (po_Objects parsed)] (po_Objects parsed) = Some zs"
    by (auto simp: GetLabelRel_def)
  obtain i where i: "i < length (po_Objects parsed)" "po_Objects parsed ! i = s" using assms(1) by (auto simp: in_set_conv_nth)
  have "[0..<length (po_Objects parsed)] = [0..<i] @ i # [Suc i..<length (po_Objects parsed)]"
    using i(1) upt_add_eq_append [of 0 i "length (po_Objects parsed) - i"] by (simp add: upt_conv_Cons)
  with pass obtain xs ys where xs: "each label_step [0..<i] (po_Objects parsed) = Some xs" "label_step i xs = Some ys"
    using each_reaches [of label_step "[0..<i]" i] by metis
  have keeps: "map no_labels xs = map no_labels (po_Objects parsed)" using labels.pass_keeps [OF xs(1)] i(1) by simp
  have raw: "map ob_RawYAML xs = map ob_RawYAML (po_Objects parsed)" using keeps by (rule map_keeps) simp
  have "length xs = length (po_Objects parsed)" using map_eq_imp_length_eq [OF keeps] .
  then have "ob_RawYAML (xs ! i) = ob_RawYAML s" using map_nth_eq [OF raw, of i] i by simp
  moreover obtain t' where t': "t' \<in> set xs" "ob_Kind t' = ''Pod''" "ob_RawYAML t' = ob_RawYAML t"
  proof -
    have "map (\<lambda>x. (ob_Kind x, ob_RawYAML x)) xs = map (\<lambda>x. (ob_Kind x, ob_RawYAML x)) (po_Objects parsed)"
      using keeps by (rule map_keeps) simp
    moreover have "(ob_Kind t, ob_RawYAML t) \<in> set (map (\<lambda>x. (ob_Kind x, ob_RawYAML x)) (po_Objects parsed))"
      using assms(4) by simp
    ultimately have "(ob_Kind t, ob_RawYAML t) \<in> set (map (\<lambda>x. (ob_Kind x, ob_RawYAML x)) xs)" by simp
    then show ?thesis using that assms(5) by auto
  qed
  moreover have "labels_match ml t' = None" using t'(3) assms(3,6) by (simp add: labels_match_def del: getField.simps)
  ultimately have "label_step i xs = None" using assms(2) findLabels_panics [of t' xs ml]
    by (simp add: label_step_def del: getField.simps)
  then show False using xs(2) by simp
qed

end
