(* ===== verification/Grapher_Samples.thy ===== *)
theory Grapher_Samples
  imports Grapher_Components
begin

text \<open>A release with a service and a deployment, and the hypotheses of the theorems on it.\<close>

section \<open>A manifest\<close>

definition sample_labels :: yaml where
  "sample_labels = YAny [(SStr ''app'', YStr ''web'')]"

definition sample_service :: "(scalar \<times> yaml) list" where
  "sample_service = [(SStr ''kind'', YStr ''Service''), (SStr ''metadata'', YAny [(SStr ''name'', YStr ''web'')]),
     (SStr ''spec'', YAny [(SStr ''selector'', sample_labels)])]"

text \<open>Two pods, whose template may have labels.\<close>

definition sample_deployment :: "(scalar \<times> yaml) list \<Rightarrow> (scalar \<times> yaml) list" where
  "sample_deployment meta = [(SStr ''kind'', YStr ''Deployment''), (SStr ''metadata'', YAny [(SStr ''name'', YStr ''web'')]),
     (SStr ''spec'', YAny [(SStr ''replicas'', YScalar (SInt 2)),
        (SStr ''selector'', YAny [(SStr ''matchLabels'', sample_labels)]),
        (SStr ''template'', YAny [(SStr ''metadata'', YAny meta)])])]"

definition sample_manifest :: "(go_error, (scalar \<times> yaml) list) go_result list" where
  "sample_manifest = [Inr sample_service, Inr (sample_deployment [(SStr ''labels'', sample_labels)]), Inl (GoError ''EOF'')]"

text \<open>A block comment in front.\<close>

definition commented_manifest :: "(go_error, (scalar \<times> yaml) list) go_result list" where
  "commented_manifest = Inr [] # sample_manifest"

text \<open>The service, the deployment and its two pods; the service selects both pods.\<close>

lemma sample_components:
  "map_option (\<lambda>p. map (\<lambda>x. (ob_ID x, ob_Name x, map (\<lambda>e. (rl_Source e, rl_Target e)) (rs_LabelRels x))) (po_Objects p))
     (GetComponentsHandler sample_manifest ''default'') =
   Some [(0, ''web'', [(0, 2), (0, 3)]), (1, ''web'', [(1, 2), (1, 3)]), (2, ''web-0'', [(0, 2), (1, 2)]), (3, ''web-1'', [(0, 3), (1, 3)])]"
  by code_simp

lemma commented_runs: "map_option (\<lambda>p. map ob_ID (po_Objects p)) (GetComponentsHandler commented_manifest ''default'') = Some [1, 2, 2, 3]"
  by code_simp

section \<open>The theorems applied\<close>

theorem components_at_both_ends_witness:
  "\<exists>parsed. GetComponentsHandler sample_manifest ''default'' = Some parsed \<and> length (po_Objects parsed) = 4 \<and>
     at_both_ends {} rs_ControlRels (po_Objects parsed) \<and> at_both_ends {} rs_LabelRels (po_Objects parsed) \<and>
     at_both_ends {''Ingress''} rs_SpecRels (po_Objects parsed)"
proof -
  obtain parsed where parsed: "GetComponentsHandler sample_manifest ''default'' = Some parsed"
      "map (\<lambda>x. (ob_ID x, ob_Name x, map (\<lambda>e. (rl_Source e, rl_Target e)) (rs_LabelRels x))) (po_Objects parsed) =
       [(0, ''web'', [(0, 2), (0, 3)]), (1, ''web'', [(1, 2), (1, 3)]), (2, ''web-0'', [(0, 2), (1, 2)]), (3, ''web-1'', [(0, 3), (1, 3)])]"
    using sample_components by auto
  have "length (po_Objects parsed) = 4" using arg_cong [OF parsed(2), of length] by simp
  then show ?thesis using parsed(1) components_at_both_ends [OF parsed(1)] by blast
qed

theorem label_edges_exact_witness:
  "\<exists>parsed. GetComponentsHandler sample_manifest ''default'' = Some parsed \<and>
     ((\<exists>x\<in>set (po_Objects parsed). new_rel 0 3 \<in> set (rs_LabelRels x)) \<longleftrightarrow>
      (\<exists>s\<in>set (po_Objects parsed). \<exists>t\<in>set (po_Objects parsed). ob_ID s = 0 \<and> ob_ID t = 3 \<and> selects s t))"
proof -
  obtain parsed where "GetComponentsHandler sample_manifest ''default'' = Some parsed" using sample_components by auto
  then show ?thesis using label_edges_exact by blast
qed

theorem component_ids_are_positions_witness:
  "\<exists>parsed. GetComponentsHandler sample_manifest ''default'' = Some parsed \<and>
     map ob_ID (po_Objects parsed) = [0..<length (po_Objects parsed)]"
proof -
  obtain parsed where parsed: "GetComponentsHandler sample_manifest ''default'' = Some parsed" using sample_components by auto
  have "list_all has_kind (ImportMultiDocYAML sample_manifest)" by code_simp
  then show ?thesis using component_ids_are_positions [OF parsed] parsed by blast
qed

theorem skipped_document_clashes_witness:
  "\<exists>parsed. GetComponentsHandler commented_manifest ''default'' = Some parsed \<and>
     (\<exists>i<2. ob_ID (po_Objects parsed ! i) = 2 \<and> ob_ID (po_Objects parsed ! 2) = 2)"
proof -
  obtain parsed where parsed: "GetComponentsHandler commented_manifest ''default'' = Some parsed"
      "map ob_ID (po_Objects parsed) = [1, 2, 2, 3]"
    using commented_runs by auto
  have m: "length (filter has_kind (ImportMultiDocYAML commented_manifest)) = 2"
      "length (ImportMultiDocYAML commented_manifest) = 3" "has_kind (ImportMultiDocYAML commented_manifest ! 2)"
    by code_simp+
  have "length (po_Objects parsed) = 4" using arg_cong [OF parsed(2), of length] by simp
  then show ?thesis using skipped_document_clashes [OF parsed(1)] m parsed(1) by simp
qed

text \<open>The objects before the labels are compared, with pods that have none.\<close>

definition unlabelled_objects :: parsed_objs where
  "unlabelled_objects = the (Option.bind (ParseObjs (ImportMultiDocYAML [Inr sample_service, Inr (sample_deployment [])]) ''default'')
     (\<lambda>objs. GetControlRel \<lparr>po_Objects = objs, po_PodSelectors = []\<rparr>))"

lemma unlabelled_pods:
  "map (\<lambda>x. (ob_Kind x, getField (ob_RawYAML x) [''metadata'', ''labels''])) (po_Objects unlabelled_objects) =
     [(''Service'', Some YNil), (''Deployment'', Some YNil), (''Pod'', Some YNil), (''Pod'', Some YNil)]"
  "aggregateLabelSelectors (ob_RawYAML (po_Objects unlabelled_objects ! 0)) = Some ([\<lparr>ml_key = ''app'', ml_value = ''web''\<rparr>], [])"
  by code_simp+

theorem unlabelled_pod_panics_witness: "GetLabelRel unlabelled_objects = None"
proof -
  have len: "length (po_Objects unlabelled_objects) = 4" using arg_cong [OF unlabelled_pods(1), of length] by simp
  then have "ob_Kind (po_Objects unlabelled_objects ! 2) = ''Pod''"
    "getField (ob_RawYAML (po_Objects unlabelled_objects ! 2)) [''metadata'', ''labels''] = Some YNil"
    using arg_cong [OF unlabelled_pods(1), of "\<lambda>xs. xs ! 2"] by (simp_all del: getField.simps)
  then show ?thesis using unlabelled_pod_panics [OF nth_mem unlabelled_pods(2) _ nth_mem, of 2] len
    by (simp del: getField.simps)
qed

end
