(* ===== verification/Postrender.thy ===== *)
theory Postrender
  imports Grapher API_Tokens "HOL-Library.Char_ord" "HOL-Library.List_Lexorder"
begin

text \<open>
  The post-renderers that every chart passes through (\<open>internal/helm/postrenderer.go\<close>) and the image
  pull secrets they create (\<open>CreateImagePullSecrets\<close> of \<open>internal/kubernetes/agent.go\<close>). The YAML
  library, URLs, image references and the answers of the cluster are parameters. Maps are lists of
  entries; what the code changes in place in the pod specifications it collected is an update at
  their place in the document.
\<close>

section \<open>Resources\<close>

type_synonym resource = "(scalar \<times> yaml) list"

abbreviation get :: "resource \<Rightarrow> string \<Rightarrow> yaml option" where
  "get res k \<equiv> map_of res (SStr k)"

fun getNestedResource :: "resource \<Rightarrow> string list \<Rightarrow> resource option" where
  "getNestedResource res [] = Some res"
| "getNestedResource res (key # keys) =
     (case get res key of Some (YAny cur) \<Rightarrow> getNestedResource cur keys | _ \<Rightarrow> None)"

text \<open>A change in place of the nested resource.\<close>

fun update_nested :: "(resource \<Rightarrow> resource) \<Rightarrow> string list \<Rightarrow> resource \<Rightarrow> resource" where
  "update_nested f [] res = f res"
| "update_nested f (key # keys) res =
     (case get res key of
        Some (YAny cur) \<Rightarrow> AList.update (SStr key) (YAny (update_nested f keys cur)) res
      | _ \<Rightarrow> res)"

definition pod_path :: "string \<Rightarrow> string list option" where
  "pod_path kind =
     (if kind = ''Pod'' then Some [''spec'']
      else if kind \<in> {''DaemonSet'', ''Deployment'', ''Job'', ''ReplicaSet'', ''ReplicationController'', ''StatefulSet''}
      then Some [''spec'', ''template'', ''spec'']
      else if kind = ''PodTemplate'' then Some [''template'', ''spec'']
      else if kind = ''CronJob'' then Some [''spec'', ''jobTemplate'', ''spec'', ''template'', ''spec'']
      else None)"

definition getPodSpecFromResource :: "string \<Rightarrow> resource \<Rightarrow> resource option" where
  "getPodSpecFromResource kind res = Option.bind (pod_path kind) (getNestedResource res)"

definition kind_of :: "resource \<Rightarrow> string option" where
  "kind_of res = Option.bind (get res ''kind'') as_string"

lemma size_map_of: "map_of res k = Some v \<Longrightarrow> size v < size (YAny res)"
proof -
  assume "map_of res k = Some v"
  then have "(k, v) \<in> set res" by (rule map_of_SomeD)
  then show ?thesis by (induction res) auto
qed

lemma size_item: "v \<in> set vs \<Longrightarrow> size v < size (YList vs)"
  by (induction vs) auto

lemma size_items: "map_of res k = Some (YList vs) \<Longrightarrow> YAny r \<in> set vs \<Longrightarrow> size (YAny r) < size (YAny res)"
  using size_map_of size_item by fastforce

text \<open>The pod specifications of a resource, those of the items of a list included.\<close>

function pod_specs :: "resource \<Rightarrow> resource list" where
  "pod_specs res =
     (case kind_of res of None \<Rightarrow> [] | Some kind \<Rightarrow>
        (case get res ''items'' of
           Some (YList items) \<Rightarrow> concat (map (\<lambda>item. case item of YAny r \<Rightarrow> pod_specs r | _ \<Rightarrow> []) items)
         | Some _ \<Rightarrow> []
         | None \<Rightarrow> (case getPodSpecFromResource kind res of None \<Rightarrow> [] | Some podSpec \<Rightarrow> [podSpec])))"
  by auto
termination by (relation "measure (\<lambda>res. size (YAny res))") (auto dest: size_items)

declare pod_specs.simps [simp del]

definition getPodSpecs :: "resource list \<Rightarrow> resource list" where
  "getPodSpecs resources = concat (map pod_specs resources)"

text \<open>A change in place of every pod specification of a resource.\<close>

function map_pod_specs :: "(resource \<Rightarrow> resource) \<Rightarrow> resource \<Rightarrow> resource" where
  "map_pod_specs f res =
     (case kind_of res of None \<Rightarrow> res | Some kind \<Rightarrow>
        (case get res ''items'' of
           Some (YList items) \<Rightarrow>
             AList.update (SStr ''items'')
               (YList (map (\<lambda>item. case item of YAny r \<Rightarrow> YAny (map_pod_specs f r) | _ \<Rightarrow> item) items)) res
         | Some _ \<Rightarrow> res
         | None \<Rightarrow> (case pod_path kind of None \<Rightarrow> res | Some path \<Rightarrow> update_nested f path res)))"
  by auto
termination by (relation "measure (\<lambda>(f, res). size (YAny res))") (auto dest: size_items)

declare map_pod_specs.simps [simp del]

section \<open>Reading and writing manifests\<close>

record yaml_lib =
  yl_docs :: "string \<Rightarrow> (go_error, resource) go_result list"
  yl_encode :: "nat \<Rightarrow> resource \<Rightarrow> (go_error, string) go_result"

text \<open>The results of the calls of the decoder end with the end of the text.\<close>

fun decode_all :: "(go_error, resource) go_result list \<Rightarrow> (go_error, resource list) go_result" where
  "decode_all [] = Inr []"
| "decode_all (Inl e # rs) = Inl e"
| "decode_all (Inr res # rs) =
     (case decode_all rs of Inl e \<Rightarrow> Inl e | Inr resArr \<Rightarrow> Inr (if res \<noteq> [] then res # resArr else resArr))"

definition decodeRenderedManifests :: "yaml_lib \<Rightarrow> string \<Rightarrow> (go_error, resource list) go_result" where
  "decodeRenderedManifests lib renderedManifests = decode_all (yl_docs lib renderedManifests)"

text \<open>An encoder separates documents: what it writes depends on how many it has written.\<close>

fun encode_from :: "yaml_lib \<Rightarrow> nat \<Rightarrow> resource list \<Rightarrow> (go_error, string) go_result" where
  "encode_from lib i [] = Inr []"
| "encode_from lib i (res # rs) =
     (case yl_encode lib i res of Inl e \<Rightarrow> Inl e | Inr s \<Rightarrow>
        (case encode_from lib (Suc i) rs of Inl e \<Rightarrow> Inl e | Inr t \<Rightarrow> Inr (s @ t)))"

section \<open>Manifests in config maps\<close>

text \<open>The manifest in a config map with the label for it.\<close>

definition inner_manifest :: "resource \<Rightarrow> string option" where
  "inner_manifest res =
     (if kind_of res = Some ''ConfigMap''
      then Option.bind (getNestedResource res [''metadata'', ''labels'']) (\<lambda>labels.
           if Option.bind (get labels ''getporter.dev/manifest'') as_string = Some ''true''
           then Option.bind (getNestedResource res [''data'']) (\<lambda>data. Option.bind (get data ''manifest'') as_string)
           else None)
      else None)"

definition set_manifest :: "string \<Rightarrow> resource \<Rightarrow> resource" where
  "set_manifest newData = update_nested (AList.update (SStr ''manifest'') (YStr newData)) [''data'']"

section \<open>Environment variables\<close>

text \<open>\<open>fmt.Sprintf\<close> with the verb v; the keys of a map are sorted, here as if all were strings.\<close>

fun Join :: "string \<Rightarrow> string list \<Rightarrow> string" where
  "Join sep [] = []"
| "Join sep [s] = s"
| "Join sep (s # t # ts) = s @ sep @ Join sep (t # ts)"

fun Sprintf_v :: "yaml \<Rightarrow> string" where
  "Sprintf_v (YScalar s) = Sprint s"
| "Sprintf_v (YList vs) = ''['' @ Join '' '' (map Sprintf_v vs) @ '']''"
| "Sprintf_v (YMap m) =
     ''map['' @ Join '' '' (map (\<lambda>(k, t). k @ '':'' @ t) (sort_key fst (map (\<lambda>(k, v). (k, Sprintf_v v)) m))) @ '']''"
| "Sprintf_v (YAny m) =
     ''map['' @ Join '' '' (map (\<lambda>(k, t). k @ '':'' @ t) (sort_key fst (map (\<lambda>(k, v). (Sprint k, Sprintf_v v)) m))) @ '']''"
| "Sprintf_v (YMaps ms) =
     ''['' @ Join '' '' (map (\<lambda>m. ''map['' @ Join '' '' (map (\<lambda>(k, t). k @ '':'' @ t)
        (sort_key fst (map (\<lambda>(k, v). (k, Sprintf_v v)) m))) @ '']'') ms) @ '']''"

text \<open>The map of variables, by name: a variable that takes its value from elsewhere stays.\<close>

definition reconcile :: "(string \<times> resource) list \<Rightarrow> yaml \<Rightarrow> (string \<times> resource) list" where
  "reconcile envVars envVar =
     (case envVar of
        YAny envVarMap \<Rightarrow>
          (case Option.bind (get envVarMap ''name'') as_string of
             None \<Rightarrow> envVars
           | Some name \<Rightarrow>
               (case map_of envVars name of
                  Some currVal \<Rightarrow>
                    if get currVal ''valueFrom'' \<noteq> None then envVars else AList.update name envVarMap envVars
                | None \<Rightarrow> AList.update name envVarMap envVars))
      | _ \<Rightarrow> envVars)"

text \<open>\<open>order\<close> is the order in which \<open>range\<close> visits the map. The stable sort puts greater texts first.\<close>

definition sort_down :: "yaml list \<Rightarrow> yaml list" where
  "sort_down vs = rev (sort_key Sprintf_v (rev vs))"

definition flatten_env :: "((string \<times> resource) list \<Rightarrow> (string \<times> resource) list) \<Rightarrow> yaml list \<Rightarrow> yaml list" where
  "flatten_env order env = sort_down (map (YAny \<circ> snd) (order (fold (\<lambda>v m. reconcile m v) env [])))"

definition update_container ::
  "((string \<times> resource) list \<Rightarrow> (string \<times> resource) list) \<Rightarrow> yaml \<Rightarrow> yaml list" where
  "update_container order container =
     (case container of
        YAny c \<Rightarrow>
          (case Option.bind (get c ''env'') as_list of
             None \<Rightarrow> [container]
           | Some env \<Rightarrow> [YAny (AList.update (SStr ''env'') (YList (flatten_env order env)) c)])
      | _ \<Rightarrow> [])"

definition update_env :: "((string \<times> resource) list \<Rightarrow> (string \<times> resource) list) \<Rightarrow> resource \<Rightarrow> resource" where
  "update_env order podSpec =
     (case Option.bind (get podSpec ''containers'') as_list of
        None \<Rightarrow> podSpec
      | Some containers \<Rightarrow>
          AList.update (SStr ''containers'') (YList (concat (map (update_container order) containers))) podSpec)"

text \<open>
  \<open>EnvironmentVariablePostrenderer.Run\<close>. The manifests in config maps are rendered by a run of their
  own; \<open>None\<close> when these are nested deeper than the fuel. An error of an inner run leaves its manifest.
\<close>

definition render_inner ::
  "(string \<Rightarrow> (go_error, string) go_result option) \<Rightarrow> resource \<Rightarrow> resource option" where
  "render_inner run res =
     (case inner_manifest res of None \<Rightarrow> Some res | Some text \<Rightarrow>
        (case run text of
           None \<Rightarrow> None
         | Some (Inl e) \<Rightarrow> Some res
         | Some (Inr newData) \<Rightarrow> Some (set_manifest newData res)))"

fun all_some :: "'a option list \<Rightarrow> 'a list option" where
  "all_some [] = Some []"
| "all_some (x # xs) = Option.bind x (\<lambda>x. map_option ((#) x) (all_some xs))"

fun env_Run ::
  "yaml_lib \<Rightarrow> ((string \<times> resource) list \<Rightarrow> (string \<times> resource) list) \<Rightarrow> nat \<Rightarrow> string \<Rightarrow> (go_error, string) go_result option" where
  "env_Run lib order 0 renderedManifests = None"
| "env_Run lib order (Suc fuel) renderedManifests =
     (case decodeRenderedManifests lib renderedManifests of
        Inl e \<Rightarrow> Some (Inl e)
      | Inr resources \<Rightarrow>
          map_option (\<lambda>resources. encode_from lib 0 (map (map_pod_specs (update_env order)) resources))
            (all_some (map (render_inner (env_Run lib order fuel)) resources)))"

end
