(* ===== verification/Pull_Secrets.thy ===== *)
theory Pull_Secrets
  imports Postrender "HOL-Library.Sublist"
begin

text \<open>
  The post-renderer for image pull secrets, the secrets it creates in the namespace, the composed
  post-renderer and the mapper of deprecated API versions.
\<close>

section \<open>Registries\<close>

record linked_registry = registry +
  rg_URL :: string
  rg_AWSIntegrationID :: uint
  rg_GCPIntegrationID :: uint
  rg_DOIntegrationID :: uint
  rg_AzureIntegrationID :: uint

definition registry_service :: "linked_registry \<Rightarrow> string" where
  "registry_service r =
     (if rg_AWSIntegrationID r \<noteq> 0 then ''ecr''
      else if rg_GCPIntegrationID r \<noteq> 0 then (if sublist ''pkg.dev'' (rg_URL r) then ''gar'' else ''gcr'')
      else if rg_DOIntegrationID r \<noteq> 0 then ''docr''
      else if rg_AzureIntegrationID r \<noteq> 0 then ''acr''
      else if sublist ''index.docker.io'' (rg_URL r) then ''dockerhub''
      else [])"

definition Trim_slashes :: "string \<Rightarrow> string" where
  "Trim_slashes s = rev (dropWhile (\<lambda>c. c = CHR ''/'') (rev (dropWhile (\<lambda>c. c = CHR ''/'') s)))"

text \<open>\<open>url.Parse\<close> gives the host and the path.\<close>

definition registry_key :: "(string \<Rightarrow> (go_error, string \<times> string) go_result) \<Rightarrow> linked_registry \<Rightarrow> string option" where
  "registry_key parse reg =
     (case parse (if sublist ''http'' (rg_URL reg) then rg_URL reg else ''https://'' @ rg_URL reg) of
        Inl e \<Rightarrow> None
      | Inr (host, path) \<Rightarrow> Some (if path \<noteq> [] then host @ ''/'' @ Trim_slashes path else host))"

definition registries_of ::
  "(string \<Rightarrow> (go_error, string \<times> string) go_result) \<Rightarrow> linked_registry list \<Rightarrow> (string \<times> linked_registry) list" where
  "registries_of parse regs =
     fold (\<lambda>reg m. case registry_key parse reg of None \<Rightarrow> m | Some addReg \<Rightarrow> AList.update addReg reg m) regs []"

text \<open>\<open>reference.ParseNormalizedNamed\<close> gives the domain and the path of an image.\<close>

definition getRegNameFromImageRef ::
  "(string \<Rightarrow> (go_error, string \<times> string) go_result) \<Rightarrow> string \<Rightarrow> (go_error, string) go_result" where
  "getRegNameFromImageRef named img =
     (case named img of Inl e \<Rightarrow> Inl e | Inr (domain, path) \<Rightarrow>
        Inr (if sublist ''docker.io'' domain then ''index.docker.io/'' @ path
             else if sublist ''pkg.dev'' domain then domain @ ''/'' @ hd (Split path ''/'')
             else let pathArr = Split path ''/''
                  in if length pathArr > 1 then domain @ ''/'' @ Join ''/'' (butlast pathArr) else domain))"

text \<open>The expression of ECR hosts: the account and the region.\<close>

definition ecr_char :: "char \<Rightarrow> bool" where
  "ecr_char c \<longleftrightarrow> (let n = (of_char c :: nat) in n \<in> {48..57} \<or> n \<in> {65..90} \<or> n \<in> {97..122} \<or> c = CHR ''-'' \<or> c = CHR ''_'')"

definition ecr_word :: "string \<Rightarrow> bool" where
  "ecr_word s \<longleftrightarrow> s \<noteq> [] \<and> hd s \<noteq> CHR ''-'' \<and> hd s \<noteq> CHR ''_''"

definition cut :: "string \<Rightarrow> string \<Rightarrow> string option" where
  "cut p s = (if prefix p s then Some (drop (length p) s) else None)"

definition ecrPattern :: "string \<Rightarrow> (string \<times> string) option" where
  "ecrPattern s =
     (let account = takeWhile ecr_char s in
      Option.bind (cut ''.dkr.ecr'' (dropWhile ecr_char s)) (\<lambda>r.
      Option.bind (cut ''.'' (case cut ''-fips'' r of Some r' \<Rightarrow> r' | None \<Rightarrow> r)) (\<lambda>r.
      let region = takeWhile ecr_char r in
      Option.bind (cut ''.amazonaws.com'' (dropWhile ecr_char r)) (\<lambda>_.
        if ecr_word account \<and> ecr_word region then Some (account, region) else None))))"

text \<open>
  The renderer: the registries of the project, how the cluster authenticates, and account and region
  of the ARN of its AWS integration.
\<close>

record docker_renderer =
  dr_lib :: yaml_lib
  dr_named :: "string \<Rightarrow> (go_error, string \<times> string) go_result"
  dr_AuthMechanism :: string
  dr_arn :: "(go_error, string \<times> string) go_result"
  dr_registries :: "(string \<times> linked_registry) list"

definition isRegistryNative :: "docker_renderer \<Rightarrow> string \<Rightarrow> bool" where
  "isRegistryNative d regName =
     (if sublist ''gcr'' regName \<and> dr_AuthMechanism d = ''gcp-sa'' then False
      else if sublist ''ecr'' regName \<and> dr_AuthMechanism d = ''aws-sa'' then
        (case ecrPattern regName of None \<Rightarrow> False | Some (eksAccountID, eksRegion) \<Rightarrow>
           (case dr_arn d of Inl e \<Rightarrow> False | Inr (account, region) \<Rightarrow> account = eksAccountID \<and> region = eksRegion))
      else False)"

section \<open>Secrets\<close>

text \<open>
  The secrets of the namespace, by name: their data. The faults of the calls by the name of the
  secret; \<open>ka_config\<close> is \<open>GetDockerConfigJSON\<close>.
\<close>

type_synonym secret_store = "string \<rightharpoonup> string"

record k8s_agent =
  ka_config :: "linked_registry \<Rightarrow> (go_error, string) go_result"
  ka_get :: "string \<Rightarrow> go_error option"
  ka_create :: "string \<Rightarrow> go_error option"
  ka_update :: "string \<Rightarrow> go_error option"

definition secret_name :: "linked_registry \<Rightarrow> string" where
  "secret_name reg = ''porter-'' @ registry_service reg @ ''-'' @ show_nat (unat (rg_ID reg))"

definition put_secret :: "k8s_agent \<Rightarrow> secret_store \<Rightarrow> linked_registry \<Rightarrow> secret_store \<times> (go_error, string) go_result" where
  "put_secret a st reg =
     (case ka_config a reg of Inl e \<Rightarrow> (st, Inl e) | Inr data \<Rightarrow>
      let secretName = secret_name reg in
      case ka_get a secretName of Some e \<Rightarrow> (st, Inl e) | None \<Rightarrow>
      (case st secretName of
         None \<Rightarrow> (case ka_create a secretName of Some e \<Rightarrow> (st, Inl e) | None \<Rightarrow> (st(secretName \<mapsto> data), Inr secretName))
       | Some old \<Rightarrow>
           if old \<noteq> data
           then (case ka_update a secretName of Some e \<Rightarrow> (st, Inl e) | None \<Rightarrow> (st(secretName \<mapsto> data), Inr secretName))
           else (st, Inr secretName)))"

fun CreateImagePullSecrets ::
  "k8s_agent \<Rightarrow> secret_store \<Rightarrow> (string \<times> linked_registry) list \<Rightarrow> secret_store \<times> (go_error, (string \<times> string) list) go_result" where
  "CreateImagePullSecrets a st [] = (st, Inr [])"
| "CreateImagePullSecrets a st ((key, val) # linkedRegs) =
     (case put_secret a st val of
        (st, Inl e) \<Rightarrow> (st, Inl e)
      | (st, Inr secretName) \<Rightarrow>
          (case CreateImagePullSecrets a st linkedRegs of
             (st, Inl e) \<Rightarrow> (st, Inl e)
           | (st, Inr res) \<Rightarrow> (st, Inr (AList.update key secretName res))))"

section \<open>The renderer of pull secrets\<close>

definition image_of :: "yaml \<Rightarrow> string option" where
  "image_of container = (case container of YAny c \<Rightarrow> Option.bind (get c ''image'') as_string | _ \<Rightarrow> None)"

definition getImageList :: "resource \<Rightarrow> string list" where
  "getImageList podSpec =
     (case Option.bind (get podSpec ''containers'') as_list of
        None \<Rightarrow> [] | Some containers \<Rightarrow> map the (filter (\<lambda>i. i \<noteq> None) (map image_of containers)))"

definition link_image :: "docker_renderer \<Rightarrow> string \<Rightarrow> (string \<times> linked_registry) list \<Rightarrow> (string \<times> linked_registry) list" where
  "link_image d img linkedRegs =
     (case getRegNameFromImageRef (dr_named d) img of Inl e \<Rightarrow> linkedRegs | Inr regName \<Rightarrow>
        if isRegistryNative d regName then linkedRegs
        else (case map_of (dr_registries d) regName of None \<Rightarrow> linkedRegs | Some reg \<Rightarrow> AList.update regName reg linkedRegs))"

definition getRegistriesToLink :: "docker_renderer \<Rightarrow> resource list \<Rightarrow> (string \<times> linked_registry) list" where
  "getRegistriesToLink d resources = fold (link_image d) (concat (map getImageList (getPodSpecs resources))) []"

fun as_maps :: "yaml \<Rightarrow> yaml_map list option" where
  "as_maps (YMaps ms) = Some ms"
| "as_maps _ = None"

definition pull_secret :: "docker_renderer \<Rightarrow> (string \<times> string) list \<Rightarrow> string \<Rightarrow> yaml_map list" where
  "pull_secret d secrets img =
     (case getRegNameFromImageRef (dr_named d) img of Inl e \<Rightarrow> [] | Inr regName \<Rightarrow>
        (case map_of secrets regName of
           None \<Rightarrow> []
         | Some secretName \<Rightarrow> if secretName \<noteq> [] then [[(''name'', YStr secretName)]] else []))"

definition add_pull_secrets :: "docker_renderer \<Rightarrow> (string \<times> string) list \<Rightarrow> resource \<Rightarrow> resource" where
  "add_pull_secrets d secrets podSpec =
     (if Option.bind (get podSpec ''containers'') as_list = None then podSpec
      else let existing = (case Option.bind (get podSpec ''imagePullSecrets'') as_maps of None \<Rightarrow> [] | Some ms \<Rightarrow> ms);
               imagePullSecrets = existing @ concat (map (pull_secret d secrets) (getImageList podSpec))
           in if imagePullSecrets \<noteq> [] then AList.update (SStr ''imagePullSecrets'') (YMaps imagePullSecrets) podSpec
              else podSpec)"

text \<open>The manifests of config maps, one after the other; an inner run may create secrets.\<close>

fun docker_inner ::
  "(secret_store \<Rightarrow> string \<Rightarrow> (secret_store \<times> (go_error, string) go_result) option) \<Rightarrow> secret_store \<Rightarrow> resource list \<Rightarrow>
   (secret_store \<times> resource list) option" where
  "docker_inner run st [] = Some (st, [])"
| "docker_inner run st (res # rs) =
     (case inner_manifest res of
        None \<Rightarrow> map_option (\<lambda>(st, rs). (st, res # rs)) (docker_inner run st rs)
      | Some text \<Rightarrow>
          Option.bind (run st text) (\<lambda>(st, r).
            map_option (\<lambda>(st, rs). (st, (case r of Inl e \<Rightarrow> res | Inr newData \<Rightarrow> set_manifest newData res) # rs))
              (docker_inner run st rs)))"

fun docker_Run ::
  "docker_renderer \<Rightarrow> k8s_agent \<Rightarrow> nat \<Rightarrow> secret_store \<Rightarrow> string \<Rightarrow> (secret_store \<times> (go_error, string) go_result) option" where
  "docker_Run d a 0 st renderedManifests = None"
| "docker_Run d a (Suc fuel) st renderedManifests =
     (case decodeRenderedManifests (dr_lib d) renderedManifests of
        Inl e \<Rightarrow> Some (st, Inr renderedManifests)
      | Inr resources \<Rightarrow>
          Option.bind (docker_inner (docker_Run d a fuel) st resources) (\<lambda>(st, resources').
            Some (case CreateImagePullSecrets a st (getRegistriesToLink d resources) of
                    (st, Inl e) \<Rightarrow> (st, Inr renderedManifests)
                  | (st, Inr secrets) \<Rightarrow>
                      (st, encode_from (dr_lib d) 0 (filter (\<lambda>res. res \<noteq> []) (map (map_pod_specs (add_pull_secrets d secrets)) resources'))))))"

text \<open>\<open>PorterPostrenderer.Run\<close>: the first renderer only exists for a cluster with registries.\<close>

definition porter_Run ::
  "yaml_lib \<Rightarrow> ((string \<times> resource) list \<Rightarrow> (string \<times> resource) list) \<Rightarrow> docker_renderer option \<Rightarrow> k8s_agent \<Rightarrow> nat \<Rightarrow>
   secret_store \<Rightarrow> string \<Rightarrow> (secret_store \<times> (go_error, string) go_result) option" where
  "porter_Run lib order docker a fuel st renderedManifests =
     (case docker of
        None \<Rightarrow> map_option (Pair st) (env_Run lib order fuel renderedManifests)
      | Some d \<Rightarrow>
          Option.bind (docker_Run d a fuel st renderedManifests) (\<lambda>(st, r).
            case r of Inl e \<Rightarrow> Some (st, Inl e) | Inr renderedManifests \<Rightarrow> map_option (Pair st) (env_Run lib order fuel renderedManifests)))"

section \<open>Deprecated API versions\<close>

definition getResourceName :: "resource \<Rightarrow> string option" where
  "getResourceName res = Option.bind (getNestedResource res [''metadata'']) (\<lambda>metadata. Option.bind (get metadata ''name'') as_string)"

definition getKindAndAPIVersion :: "resource \<Rightarrow> (string \<times> string) option" where
  "getKindAndAPIVersion res =
     Option.bind (kind_of res) (\<lambda>kind. map_option (Pair kind) (Option.bind (get res ''apiVersion'') as_string))"

text \<open>
  The key of the new manifest's map. The source writes it out twice, for the new resources and for
  the old ones. It joins kind and name by a dash, and so does not tell every pair of them apart.
\<close>

definition uniqueName :: "resource \<Rightarrow> string option" where
  "uniqueName res =
     Option.bind (getResourceName res) (\<lambda>name.
     Option.bind (getKindAndAPIVersion res) (\<lambda>(kind, _). Some (ToLower kind @ ''-'' @ name)))"

definition newNameResourceMap :: "resource list \<Rightarrow> (string \<times> resource) list" where
  "newNameResourceMap newResources =
     fold (\<lambda>newRes m. case uniqueName newRes of None \<Rightarrow> m | Some n \<Rightarrow> AList.update n newRes m) newResources []"

definition map_version :: "(string \<times> resource) list \<Rightarrow> resource \<Rightarrow> resource" where
  "map_version names oldRes =
     (case uniqueName oldRes of None \<Rightarrow> oldRes | Some n \<Rightarrow>
        (case map_of names n of None \<Rightarrow> oldRes | Some newRes \<Rightarrow>
           (case (getKindAndAPIVersion oldRes, getKindAndAPIVersion newRes) of
              (Some (_, oldAPIVersion), Some (_, newAPIVersion)) \<Rightarrow>
                if oldAPIVersion \<noteq> newAPIVersion then AList.update (SStr ''apiVersion'') (YStr newAPIVersion) oldRes else oldRes
            | _ \<Rightarrow> oldRes)))"

definition mapper_Run :: "yaml_lib \<Rightarrow> string \<Rightarrow> string \<Rightarrow> (go_error, string) go_result" where
  "mapper_Run lib oldRenderedManifests newRenderedManifests =
     (case decodeRenderedManifests lib oldRenderedManifests of Inl e \<Rightarrow> Inl e | Inr oldResources \<Rightarrow>
        (case decodeRenderedManifests lib newRenderedManifests of Inl e \<Rightarrow> Inl e | Inr newResources \<Rightarrow>
           encode_from lib 0 (map (map_version (newNameResourceMap newResources)) oldResources)))"

end
