(* ===== verification/Postrender_Props.thy ===== *)
theory Postrender_Props
  imports Pull_Secrets
begin

text \<open>
  What the post-renderers promise: they change pod specifications only, leave one variable per name,
  give every image of a known registry its pull secret, and return.
\<close>

section \<open>Changes in place\<close>

lemma get_update: "get (AList.update (SStr k) v res) k' = (if k' = k then Some v else get res k')"
  by (simp add: update_conv')

lemma getNested_update_nested:
  "getNestedResource (update_nested f keys res) keys = map_option f (getNestedResource res keys)"
proof (induction keys arbitrary: res)
  case (Cons key keys)
  then show ?case by (auto simp: get_update split: option.split yaml.split)
qed simp

lemma kind_of_update: "k \<noteq> ''kind'' \<Longrightarrow> kind_of (AList.update (SStr k) v res) = kind_of res"
  by (simp add: kind_of_def get_update)

lemma get_update_nested: "k \<noteq> key \<Longrightarrow> get (update_nested f (key # keys) res) k = get res k"
  by (auto simp: get_update split: option.split yaml.split)

lemma pod_path_head: "pod_path kind = Some path \<Longrightarrow> \<exists>key keys. path = key # keys \<and> key \<noteq> ''kind'' \<and> key \<noteq> ''items''"
  by (auto simp: pod_path_def split: if_splits)

text \<open>Nothing but the pod specifications changes, each by the function.\<close>

lemma pod_specs_map: "pod_specs (map_pod_specs f res) = map f (pod_specs res)"
proof (induction f res rule: map_pod_specs.induct)
  case (1 f res)
  show ?case
  proof (cases "kind_of res")
    case None
    then show ?thesis by (simp add: map_pod_specs.simps pod_specs.simps)
  next
    case kind: (Some kind)
    show ?thesis
    proof (cases "get res ''items''")
      case None
      show ?thesis
      proof (cases "pod_path kind")
        case path: (Some path)
        obtain key keys where key: "path = key # keys" "key \<noteq> ''kind''" "key \<noteq> ''items''" using pod_path_head [OF path] by blast
        have "map_pod_specs f res = update_nested f path res" by (simp add: map_pod_specs.simps [of f res] kind None path)
        moreover have "kind_of (update_nested f path res) = Some kind" "get (update_nested f path res) ''items'' = None"
          using key kind None by (simp_all add: kind_of_def get_update_nested del: update_nested.simps)
        ultimately show ?thesis
          by (simp add: pod_specs.simps [of res] pod_specs.simps [of "update_nested f path res"] kind None path
              getPodSpecFromResource_def getNested_update_nested split: option.split)
      qed (simp add: map_pod_specs.simps [of f res] pod_specs.simps kind None getPodSpecFromResource_def)
    next
      case items: (Some v)
      show ?thesis
      proof (cases v)
        case (YList vs)
        define ws where "ws = map (\<lambda>item. case item of YAny r \<Rightarrow> YAny (map_pod_specs f r) | _ \<Rightarrow> item) vs"
        have "map_pod_specs f res = AList.update (SStr ''items'') (YList ws) res"
          by (simp add: map_pod_specs.simps [of f res] kind items YList ws_def)
        moreover have "pod_specs (AList.update (SStr ''items'') (YList ws) res) =
            concat (map (\<lambda>item. case item of YAny r \<Rightarrow> pod_specs r | _ \<Rightarrow> []) ws)"
          by (simp add: pod_specs.simps [of "AList.update (SStr ''items'') (YList ws) res"] kind_of_update kind get_update)
        moreover have "map (\<lambda>item. case item of YAny r \<Rightarrow> pod_specs r | _ \<Rightarrow> []) ws =
            map (map f) (map (\<lambda>item. case item of YAny r \<Rightarrow> pod_specs r | _ \<Rightarrow> []) vs)"
          using 1 [OF kind items YList] by (auto simp: ws_def split: yaml.split)
        ultimately show ?thesis by (simp add: pod_specs.simps [of res] kind items YList map_concat)
      qed (simp_all add: map_pod_specs.simps [of f res] pod_specs.simps kind items)
    qed
  qed
qed

section \<open>Variables\<close>

definition env_name :: "resource \<Rightarrow> string option" where
  "env_name e = Option.bind (get e ''name'') as_string"

text \<open>
  The variable of a name that counts: the first that takes its value from elsewhere, or the last.
\<close>

definition named :: "string \<Rightarrow> yaml list \<Rightarrow> resource list" where
  "named name env = concat (map (\<lambda>v. case v of YAny e \<Rightarrow> if env_name e = Some name then [e] else [] | _ \<Rightarrow> []) env)"

definition last_or_external :: "resource list \<Rightarrow> resource option" where
  "last_or_external es =
     (case find (\<lambda>e. get e ''valueFrom'' \<noteq> None) es of
        Some e \<Rightarrow> Some e
      | None \<Rightarrow> if es = [] then None else Some (last es))"

definition chosen :: "yaml list \<Rightarrow> string \<Rightarrow> resource option" where
  "chosen env name = last_or_external (named name env)"

definition env_map :: "yaml list \<Rightarrow> (string \<times> resource) list" where
  "env_map env = fold (\<lambda>v m. reconcile m v) env []"

lemma env_map_snoc: "env_map (env @ [v]) = reconcile (env_map env) v"
  by (simp add: env_map_def)

lemma distinct_reconcile: "distinct (map fst m) \<Longrightarrow> distinct (map fst (reconcile m v))"
  by (auto simp: reconcile_def distinct_update split: yaml.split option.split)

lemma distinct_env_map: "distinct (map fst (env_map env))"
  by (induction env rule: rev_induct) (simp_all add: env_map_def distinct_reconcile)

lemma named_snoc: "named name (env @ [v]) = named name env @ named name [v]"
  by (simp add: named_def)

lemma last_or_external_snoc: "last_or_external (es @ [e]) =
    (case last_or_external es of None \<Rightarrow> Some e | Some x \<Rightarrow> if get x ''valueFrom'' \<noteq> None then Some x else Some e)"
proof (cases "find (\<lambda>e. get e ''valueFrom'' \<noteq> None) es")
  case None
  then have "es \<noteq> [] \<Longrightarrow> get (last es) ''valueFrom'' = None" by (simp add: find_None_iff)
  moreover have "find (\<lambda>e. get e ''valueFrom'' \<noteq> None) (es @ [e]) = (if get e ''valueFrom'' \<noteq> None then Some e else None)"
    using None by (simp add: find_None_iff, induction es) auto
  ultimately show ?thesis using None by (simp add: last_or_external_def)
next
  case (Some x)
  then have "get x ''valueFrom'' \<noteq> None" by (auto simp: find_Some_iff)
  moreover have "find (\<lambda>e. get e ''valueFrom'' \<noteq> None) (es @ [e]) = Some x"
    using Some by (induction es) (auto split: if_splits)
  ultimately show ?thesis using Some by (simp add: last_or_external_def)
qed

lemma named_one: "named name [v] = (case v of YAny e \<Rightarrow> if env_name e = Some name then [e] else [] | _ \<Rightarrow> [])"
  by (simp add: named_def)

lemma map_of_env_map: "map_of (env_map env) name = chosen env name"
proof (induction env rule: rev_induct)
  case (snoc v env)
  then show ?case
    by (auto simp: env_map_snoc chosen_def named_snoc named_one last_or_external_snoc reconcile_def env_name_def
        update_conv' split: yaml.split option.split)
qed (simp add: env_map_def chosen_def named_def last_or_external_def)

lemma chosen_named: "chosen env name = Some e \<Longrightarrow> env_name e = Some name"
proof -
  assume "chosen env name = Some e"
  then have "e \<in> set (named name env)"
    by (auto simp: chosen_def last_or_external_def find_Some_iff split: option.splits if_splits)
  then show ?thesis by (auto simp: named_def split: yaml.splits if_splits)
qed

lemma sort_down_set: "set (sort_down vs) = set vs"
  by (simp add: sort_down_def)

lemma sort_down_sorted: "sorted (rev (map Sprintf_v (sort_down vs)))"
  by (simp add: sort_down_def rev_map)

definition is_order :: "('a list \<Rightarrow> 'a list) \<Rightarrow> bool" where
  "is_order order \<longleftrightarrow> (\<forall>xs. mset (order xs) = mset xs)"

lemma flatten_env_set:
  "is_order order \<Longrightarrow> set (flatten_env order env) = {YAny e |name e. chosen env name = Some e}"
proof -
  assume "is_order order"
  then have "set (flatten_env order env) = YAny ` snd ` set (env_map env)"
    by (simp add: flatten_env_def sort_down_set is_order_def env_map_def image_comp) (metis set_mset_mset)
  also have "... = {YAny e |name e. map_of (env_map env) name = Some e}"
    using distinct_env_map [of env] by (force simp: map_of_eq_Some_iff)
  finally show ?thesis by (simp add: map_of_env_map)
qed

lemma flatten_env_mset:
  "is_order order \<Longrightarrow> mset (flatten_env order env) = mset (map (YAny \<circ> snd) (env_map env))"
  by (simp add: flatten_env_def sort_down_def is_order_def env_map_def)

lemma update_container_exact:
  assumes "is_order order" "Option.bind (get c ''env'') as_list = Some env"
  shows "\<exists>env' c'. update_container order (YAny c) = [YAny c'] \<and> get c' ''env'' = Some (YList env') \<and>
    (\<forall>k. k \<noteq> ''env'' \<longrightarrow> get c' k = get c k) \<and>
    set env' = {YAny e |name e. chosen env name = Some e} \<and>
    distinct (map (\<lambda>v. case v of YAny e \<Rightarrow> env_name e | _ \<Rightarrow> None) env') \<and>
    sorted (rev (map Sprintf_v env'))"
proof -
  let ?name = "\<lambda>v. case v of YAny e \<Rightarrow> env_name e | _ \<Rightarrow> None"
  have "map (?name \<circ> (YAny \<circ> snd)) (env_map env) = map (Some \<circ> fst) (env_map env)"
    by (auto dest!: map_of_is_SomeI [OF distinct_env_map] chosen_named simp: map_of_env_map)
  then have "distinct (map ?name (map (YAny \<circ> snd) (env_map env)))"
    using distinct_env_map [of env] by (simp add: distinct_map inj_on_def)
  moreover have "mset (map ?name (flatten_env order env)) = mset (map ?name (map (YAny \<circ> snd) (env_map env)))"
    using flatten_env_mset [OF assms(1)] by (metis mset_map)
  ultimately have "distinct (map ?name (flatten_env order env))" by (metis mset_eq_imp_distinct_iff)
  moreover have "sorted (rev (map Sprintf_v (flatten_env order env)))"
    unfolding flatten_env_def by (rule sort_down_sorted)
  ultimately show ?thesis using assms flatten_env_set [OF assms(1)]
    by (simp add: update_container_def get_update)
qed

lemma getPodSpecs_map: "getPodSpecs (map (map_pod_specs f) resources) = map f (getPodSpecs resources)"
  by (simp add: getPodSpecs_def pod_specs_map map_concat comp_def)

text \<open>A config map has no pods but those of its items, so that its manifest may be replaced.\<close>

lemma pod_specs_set_manifest: "kind_of res = Some ''ConfigMap'' \<Longrightarrow> pod_specs (set_manifest newData res) = pod_specs res"
proof -
  assume kind: "kind_of res = Some ''ConfigMap''"
  have "kind_of (set_manifest newData res) = kind_of res" "get (set_manifest newData res) ''items'' = get res ''items''"
    by (simp_all add: set_manifest_def kind_of_def get_update_nested del: update_nested.simps)
  then show ?thesis
    by (simp add: pod_specs.simps [of res] pod_specs.simps [of "set_manifest newData res"] kind getPodSpecFromResource_def pod_path_def
        split: option.split)
qed

lemma inner_manifest_kind: "inner_manifest res = Some inner \<Longrightarrow> kind_of res = Some ''ConfigMap''"
  by (simp add: inner_manifest_def split: if_splits)

lemma render_inner_pods: "render_inner run res = Some res' \<Longrightarrow> pod_specs res' = pod_specs res"
  by (auto simp: render_inner_def pod_specs_set_manifest inner_manifest_kind split: option.splits sum.splits)

lemma all_render_inner_pods: "all_some (map (render_inner run) rs) = Some rs' \<Longrightarrow> getPodSpecs rs' = getPodSpecs rs"
  by (induction rs arbitrary: rs') (auto simp: getPodSpecs_def bind_eq_Some_conv dest: render_inner_pods)

lemma env_Run_pods:
  assumes "env_Run lib order (Suc fuel) manifest = Some r" "decodeRenderedManifests lib manifest = Inr resources"
  obtains res where "r = encode_from lib 0 res" "getPodSpecs res = map (update_env order) (getPodSpecs resources)"
proof -
  obtain rs where rs: "all_some (map (render_inner (env_Run lib order fuel)) resources) = Some rs"
      "r = encode_from lib 0 (map (map_pod_specs (update_env order)) rs)"
    using assms by auto
  show ?thesis using that [OF rs(2)] all_render_inner_pods [OF rs(1)] by (simp add: getPodSpecs_map)
qed

text \<open>
  C24. After the renderer, every container of the manifest that has variables has one per name:
  exactly, for every name, the first variable of that name that takes its value from elsewhere, or
  else the last one of that name. Entries that are no maps or have no name are gone, the other
  fields of the container stay, and the greater text comes first, whatever the order in which the
  map of variables is visited.
\<close>
theorem env_vars_reconciled:
  assumes "env_Run lib order (Suc fuel) manifest = Some r" "decodeRenderedManifests lib manifest = Inr resources"
    and "is_order order" "p \<in> set (getPodSpecs resources)" "get p ''containers'' = Some (YList containers)"
    and "YAny c \<in> set containers" "get c ''env'' = Some (YList env)"
  shows "\<exists>res p' containers' c' env'. r = encode_from lib 0 res \<and> p' \<in> set (getPodSpecs res) \<and>
    get p' ''containers'' = Some (YList containers') \<and> YAny c' \<in> set containers' \<and> get c' ''env'' = Some (YList env') \<and>
    (\<forall>k. k \<noteq> ''env'' \<longrightarrow> get c' k = get c k) \<and>
    set env' = {YAny e |name e. chosen env name = Some e} \<and>
    distinct (map (\<lambda>v. case v of YAny e \<Rightarrow> env_name e | _ \<Rightarrow> None) env') \<and>
    sorted (rev (map Sprintf_v env'))"
proof -
  obtain res where res: "r = encode_from lib 0 res" "getPodSpecs res = map (update_env order) (getPodSpecs resources)"
    using env_Run_pods [OF assms(1,2)] by blast
  have "Option.bind (get c ''env'') as_list = Some env" using assms(7) by simp
  then obtain env' c' where c': "update_container order (YAny c) = [YAny c']" "get c' ''env'' = Some (YList env')"
      "\<forall>k. k \<noteq> ''env'' \<longrightarrow> get c' k = get c k" "set env' = {YAny e |name e. chosen env name = Some e}"
      "distinct (map (\<lambda>v. case v of YAny e \<Rightarrow> env_name e | _ \<Rightarrow> None) env')" "sorted (rev (map Sprintf_v env'))"
    using update_container_exact [OF assms(3)] by blast
  have "get (update_env order p) ''containers'' = Some (YList (concat (map (update_container order) containers)))"
    using assms(5) by (simp add: update_env_def get_update)
  moreover have "YAny c' \<in> set (concat (map (update_container order) containers))" using assms(6) c'(1) by force
  moreover have "update_env order p \<in> set (getPodSpecs res)" using assms(4) by (simp add: res(2))
  ultimately show ?thesis using res(1) c'(2-6) by blast
qed

lemma sorted_inj_unique:
  "inj_on f (set ys) \<Longrightarrow> sorted (map f xs) \<Longrightarrow> sorted (map f ys) \<Longrightarrow> mset xs = mset ys \<Longrightarrow> xs = ys"
proof -
  assume f: "inj_on f (set ys)" "sorted (map f xs)" "sorted (map f ys)" and m: "mset xs = mset ys"
  have "mset (map f xs) = mset (map f ys)" using m by simp
  then have "map f xs = map f ys" using f(2,3) by (metis properties_for_sort)
  moreover have "set xs = set ys" using m by (metis set_mset_mset)
  ultimately show "xs = ys" using f(1) inj_on_map_eq_map [of f xs ys] by simp
qed

lemma set_named: "set (named name env) = {e. YAny e \<in> set env \<and> env_name e = Some name}"
  by (fastforce simp: named_def split: yaml.splits if_splits)

lemma found_in_set: "find P xs = Some x \<Longrightarrow> x \<in> set xs"
  by (induction xs) (auto split: if_splits)

lemma last_or_external_same: "set es = set_option x \<Longrightarrow> last_or_external es = x"
proof (cases x)
  case (Some e)
  assume "set es = set_option x"
  then have es: "set es = {e}" unfolding Some by (simp only: option.set)
  then have "es \<noteq> []" by (cases es) simp_all
  then have "last es = e" using es last_in_set [of es] by simp
  show "last_or_external es = x"
  proof (cases "find (\<lambda>e. get e ''valueFrom'' \<noteq> None) es")
    case None
    then show ?thesis using \<open>last es = e\<close> \<open>es \<noteq> []\<close> by (simp add: last_or_external_def Some)
  next
    case found: (Some e')
    then have "e' = e" using found_in_set [OF found] es by simp
    then show ?thesis using found by (simp add: last_or_external_def Some)
  qed
qed (simp add: last_or_external_def)

lemma chosen_flatten: "is_order order \<Longrightarrow> chosen (flatten_env order env) = chosen env"
proof
  fix name assume order: "is_order order"
  have "set (named name (flatten_env order env)) = set_option (chosen env name)"
    unfolding set_named flatten_env_set [OF order] using chosen_named by fastforce
  then show "chosen (flatten_env order env) name = chosen env name"
    unfolding chosen_def [of "flatten_env order env"] by (rule last_or_external_same)
qed

lemma env_map_mset:
  assumes "chosen env' = chosen env"
  shows "mset (map (YAny \<circ> snd) (env_map env')) = mset (map (YAny \<circ> snd) (env_map env))"
proof -
  have "map_of (env_map env') = map_of (env_map env)" by (simp add: fun_eq_iff map_of_env_map assms)
  then have "set (env_map env') = set (env_map env)"
    using distinct_env_map by (metis (no_types, opaque_lifting) map_of_eq_Some_iff subsetI subset_antisym surj_pair)
  then have "mset (env_map env') = mset (env_map env)"
    using distinct_env_map by (metis distinct_map set_eq_iff_mset_eq_distinct)
  then show ?thesis by simp
qed

text \<open>
  The renderer is canonical: as long as different variables print differently, its result does not
  depend on the order in which the map is visited, and rendering the result again changes nothing.
\<close>
theorem env_vars_canonical:
  assumes "is_order order" "is_order order'" "inj_on Sprintf_v {YAny e |name e. chosen env name = Some e}"
  shows "flatten_env order' env = flatten_env order env \<and>
    flatten_env order' (flatten_env order env) = flatten_env order env"
proof -
  let ?S = "{YAny e |name e. chosen env name = Some e}"
  have same: "flatten_env o1 e1 = flatten_env order env"
    if o1: "is_order o1" and e1: "mset (map (YAny \<circ> snd) (env_map e1)) = mset (map (YAny \<circ> snd) (env_map env))" for o1 e1
  proof -
    have m: "mset (rev (flatten_env o1 e1)) = mset (rev (flatten_env order env))"
      using flatten_env_mset [OF o1, of e1] flatten_env_mset [OF assms(1), of env] e1 by simp
    have "inj_on Sprintf_v (set (rev (flatten_env order env)))" using assms(3) flatten_env_set [OF assms(1), of env] by simp
    moreover have "sorted (map Sprintf_v (rev (flatten_env o1 e1)))" "sorted (map Sprintf_v (rev (flatten_env order env)))"
      by (simp_all add: flatten_env_def sort_down_sorted [unfolded rev_map] rev_map)
    ultimately have "rev (flatten_env o1 e1) = rev (flatten_env order env)"
      using m by (intro sorted_inj_unique) simp_all
    then show ?thesis by simp
  qed
  have "flatten_env order' env = flatten_env order env" using same [OF assms(2)] by blast
  moreover have "mset (map (YAny \<circ> snd) (env_map (flatten_env order env))) = mset (map (YAny \<circ> snd) (env_map env))"
    using chosen_flatten [OF assms(1)] by (intro env_map_mset) simp
  ultimately show ?thesis using same [OF assms(2)] by blast
qed

section \<open>Pull secrets\<close>

lemma put_secret_keeps:
  assumes "put_secret a st reg = (st', Inr n)"
  shows "n = secret_name reg" "\<exists>data. ka_config a reg = Inr data \<and> st' n = Some data" "\<And>m. m \<noteq> n \<Longrightarrow> st' m = st m"
  using assms by (auto simp: put_secret_def Let_def split: sum.splits option.splits if_splits)

lemma CreateImagePullSecrets_Cons:
  assumes "CreateImagePullSecrets a st ((key, reg) # linked) = (st', Inr secrets)"
  obtains st1 rest where "put_secret a st reg = (st1, Inr (secret_name reg))"
    "CreateImagePullSecrets a st1 linked = (st', Inr rest)" "secrets = AList.update key (secret_name reg) rest"
proof -
  obtain st1 r where put: "put_secret a st reg = (st1, r)" by (cases "put_secret a st reg")
  obtain st2 r2 where rest: "CreateImagePullSecrets a st1 linked = (st2, r2)" by (cases "CreateImagePullSecrets a st1 linked")
  show ?thesis
  proof (cases r)
    case Inl
    then show ?thesis using assms put by simp
  next
    case (Inr n)
    have n: "n = secret_name reg" using put_secret_keeps(1) put Inr by metis
    show ?thesis
    proof (cases r2)
      case Inl
      then show ?thesis using assms put rest Inr by simp
    next
      case rest2: (Inr res)
      then show ?thesis using assms put rest Inr n that by simp
    qed
  qed
qed

lemma CreateImagePullSecrets_names:
  "CreateImagePullSecrets a st linked = (st', Inr secrets) \<Longrightarrow> map_of secrets key = map_option secret_name (map_of linked key)"
proof (induction linked arbitrary: st secrets)
  case (Cons l linked)
  obtain k reg where l: "l = (k, reg)" by (cases l)
  obtain st1 rest where "CreateImagePullSecrets a st1 linked = (st', Inr rest)" "secrets = AList.update k (secret_name reg) rest"
    using CreateImagePullSecrets_Cons Cons.prems unfolding l by metis
  then show ?case using Cons.IH by (auto simp: l update_conv')
qed simp

lemma CreateImagePullSecrets_others:
  "CreateImagePullSecrets a st linked = (st', Inr secrets) \<Longrightarrow> n \<notin> secret_name ` snd ` set linked \<Longrightarrow> st' n = st n"
proof (induction linked arbitrary: st secrets)
  case (Cons l linked)
  obtain k reg where l: "l = (k, reg)" by (cases l)
  obtain st1 rest where st1: "put_secret a st reg = (st1, Inr (secret_name reg))" "CreateImagePullSecrets a st1 linked = (st', Inr rest)"
    using CreateImagePullSecrets_Cons Cons.prems(1) unfolding l by metis
  then show ?case using Cons.IH [OF st1(2)] Cons.prems(2) put_secret_keeps(3) [OF st1(1), of n] by (auto simp: l)
qed simp

text \<open>Every linked registry gets its secret, with its current configuration.\<close>

lemma CreateImagePullSecrets_data:
  "CreateImagePullSecrets a st linked = (st', Inr secrets) \<Longrightarrow> inj_on secret_name (snd ` set linked) \<Longrightarrow>
   reg \<in> snd ` set linked \<Longrightarrow> \<exists>data. ka_config a reg = Inr data \<and> st' (secret_name reg) = Some data"
proof (induction linked arbitrary: st secrets)
  case (Cons l linked)
  obtain k r where l: "l = (k, r)" by (cases l)
  obtain st1 rest where st1: "put_secret a st r = (st1, Inr (secret_name r))" "CreateImagePullSecrets a st1 linked = (st', Inr rest)"
    using CreateImagePullSecrets_Cons Cons.prems(1) unfolding l by metis
  show ?case
  proof (cases "reg \<in> snd ` set linked")
    case True
    then show ?thesis using Cons.IH [OF st1(2)] Cons.prems(2) by (auto simp: l intro: inj_on_subset)
  next
    case False
    then have "reg = r" using Cons.prems(3) by (auto simp: l)
    moreover have "secret_name r \<notin> secret_name ` snd ` set linked"
      using False Cons.prems(2) \<open>reg = r\<close> by (simp add: l)
    ultimately show ?thesis
      using put_secret_keeps(2) [OF st1(1)] CreateImagePullSecrets_others [OF st1(2)] by simp
  qed
qed simp

section \<open>Images\<close>

text \<open>The registry of an image, if the renderer links it.\<close>

definition registry_for :: "docker_renderer \<Rightarrow> string \<Rightarrow> (string \<times> linked_registry) option" where
  "registry_for d img =
     (case getRegNameFromImageRef (dr_named d) img of Inl e \<Rightarrow> None | Inr regName \<Rightarrow>
        if isRegistryNative d regName then None else map_option (Pair regName) (map_of (dr_registries d) regName))"

lemma link_image_registry: "link_image d img m = (case registry_for d img of None \<Rightarrow> m | Some (n, reg) \<Rightarrow> AList.update n reg m)"
  by (simp add: link_image_def registry_for_def split: sum.split option.split)

lemma registry_for_key: "registry_for d img = Some (n, reg) \<Longrightarrow> map_of (dr_registries d) n = Some reg"
  by (auto simp: registry_for_def split: sum.splits if_splits)

lemma linked_images:
  "map_of (fold (link_image d) imgs []) n =
     (if \<exists>img\<in>set imgs. \<exists>reg. registry_for d img = Some (n, reg) then map_of (dr_registries d) n else None)"
proof (induction imgs rule: rev_induct)
  case (snoc img imgs)
  then show ?case
    by (auto simp: link_image_registry update_conv' dest: registry_for_key split: option.split)
qed simp

lemma distinct_linked: "distinct (map fst (fold (link_image d) imgs []))"
proof (induction imgs rule: rev_induct)
  case (snoc img imgs)
  then show ?case by (simp add: link_image_registry distinct_update split: option.split)
qed simp

lemma registries_linked:
  assumes "p \<in> set (getPodSpecs resources)" "img \<in> set (getImageList p)" "registry_for d img = Some (n, reg)"
  shows "map_of (getRegistriesToLink d resources) n = Some reg"
  using assms registry_for_key [OF assms(3)] by (auto simp: getRegistriesToLink_def linked_images)

lemma docker_inner_pods: "docker_inner run st rs = Some (st', rs') \<Longrightarrow> getPodSpecs rs' = getPodSpecs rs"
proof (induction rs arbitrary: st rs')
  case (Cons res rs)
  show ?case
  proof (cases "inner_manifest res")
    case None
    then show ?thesis using Cons by (auto simp: getPodSpecs_def)
  next
    case (Some inner)
    then show ?thesis using Cons pod_specs_set_manifest [OF inner_manifest_kind [OF Some]]
      by (auto simp: getPodSpecs_def bind_eq_Some_conv split: sum.split)
  qed
qed simp

lemma pod_specs_Nil: "pod_specs [] = []"
  by (simp add: pod_specs.simps kind_of_def)

lemma getPodSpecs_nonempty: "getPodSpecs (filter (\<lambda>res. res \<noteq> []) rs) = getPodSpecs rs"
  by (induction rs) (auto simp: getPodSpecs_def pod_specs_Nil)

lemma docker_Run_pods:
  assumes "docker_Run d a (Suc fuel) st manifest = Some (st', r)" "decodeRenderedManifests (dr_lib d) manifest = Inr resources"
  obtains st1 e where "CreateImagePullSecrets a st1 (getRegistriesToLink d resources) = (st', Inl e)" "r = Inr manifest"
  | st1 secrets res where "CreateImagePullSecrets a st1 (getRegistriesToLink d resources) = (st', Inr secrets)"
      "r = encode_from (dr_lib d) 0 res" "getPodSpecs res = map (add_pull_secrets d secrets) (getPodSpecs resources)"
proof -
  obtain st1 rs where rs: "docker_inner (docker_Run d a fuel) st resources = Some (st1, rs)"
      and out: "(st', r) = (case CreateImagePullSecrets a st1 (getRegistriesToLink d resources) of
         (st, Inl e) \<Rightarrow> (st, Inr manifest)
       | (st, Inr secrets) \<Rightarrow> (st, encode_from (dr_lib d) 0 (filter (\<lambda>res. res \<noteq> []) (map (map_pod_specs (add_pull_secrets d secrets)) rs))))"
    using assms by (auto simp: bind_eq_Some_conv)
  obtain st2 x where x: "CreateImagePullSecrets a st1 (getRegistriesToLink d resources) = (st2, x)"
    by (cases "CreateImagePullSecrets a st1 (getRegistriesToLink d resources)")
  show ?thesis
  proof (cases x)
    case (Inl e)
    then show ?thesis using that(1) out x by simp
  next
    case (Inr secrets)
    then show ?thesis using that(2) out x docker_inner_pods [OF rs] by (simp add: getPodSpecs_nonempty getPodSpecs_map)
  qed
qed

lemma linked_secret:
  assumes "CreateImagePullSecrets a st (getRegistriesToLink d resources) = (st', Inr secrets)"
    and "p \<in> set (getPodSpecs resources)" "img \<in> set (getImageList p)" "registry_for d img = Some (n, reg)"
    and "inj_on secret_name (snd ` set (dr_registries d))"
  shows "(\<exists>ms. get (add_pull_secrets d secrets p) ''imagePullSecrets'' = Some (YMaps ms) \<and> [(''name'', YStr (secret_name reg))] \<in> set ms) \<and>
    (\<exists>data. ka_config a reg = Inr data \<and> st' (secret_name reg) = Some data)"
proof (intro conjI)
  let ?f = "add_pull_secrets d secrets"
  have linked: "map_of (getRegistriesToLink d resources) n = Some reg" using registries_linked [OF assms(2-4)] .
  then have "map_of secrets n = Some (secret_name reg)" using CreateImagePullSecrets_names [OF assms(1)] by simp
  moreover have "getRegNameFromImageRef (dr_named d) img = Inr n"
    using assms(4) by (auto simp: registry_for_def split: sum.splits if_splits)
  ultimately have secret: "[(''name'', YStr (secret_name reg))] \<in> set (pull_secret d secrets img)"
    by (simp add: pull_secret_def secret_name_def)
  have "Option.bind (get p ''containers'') as_list \<noteq> None" using assms(3)
    by (cases "Option.bind (get p ''containers'') as_list") (simp_all add: getImageList_def)
  then show "\<exists>ms. get (?f p) ''imagePullSecrets'' = Some (YMaps ms) \<and> [(''name'', YStr (secret_name reg))] \<in> set ms"
    using secret assms(3) by (auto simp: add_pull_secrets_def Let_def get_update)
  have "set (getRegistriesToLink d resources) \<subseteq> set (dr_registries d)"
  proof
    fix l assume l: "l \<in> set (getRegistriesToLink d resources)"
    then have "map_of (getRegistriesToLink d resources) (fst l) = Some (snd l)"
      using distinct_linked by (simp add: getRegistriesToLink_def map_of_eq_Some_iff)
    then have "map_of (dr_registries d) (fst l) = Some (snd l)"
      by (auto simp: getRegistriesToLink_def linked_images split: if_splits)
    then show "l \<in> set (dr_registries d)" using map_of_SomeD by fastforce
  qed
  then have "inj_on secret_name (snd ` set (getRegistriesToLink d resources))" using assms(5) by (auto intro: inj_on_subset)
  then show "\<exists>data. ka_config a reg = Inr data \<and> st' (secret_name reg) = Some data"
    using CreateImagePullSecrets_data [OF assms(1)] map_of_SomeD [OF linked] by force
qed

lemma add_pull_secrets_other: "k \<noteq> ''imagePullSecrets'' \<Longrightarrow> get (add_pull_secrets d secrets p) k = get p k"
  by (simp add: add_pull_secrets_def Let_def get_update)

text \<open>
  C23. Every image whose registry is one of the project's, and not native to the cluster, can be
  pulled: unless creating the secrets fails, which leaves the manifest as it was, each pod
  specification with such an image in its containers comes out with the secret of the registry
  among its pull secrets and all other fields as they were, and the namespace has that secret, with
  the registry's current credentials.
\<close>
theorem images_get_pull_secrets:
  assumes "docker_Run d a (Suc fuel) st manifest = Some (st', r)" "decodeRenderedManifests (dr_lib d) manifest = Inr resources"
    and "p \<in> set (getPodSpecs resources)" "img \<in> set (getImageList p)" "registry_for d img = Some (n, reg)"
    and "inj_on secret_name (snd ` set (dr_registries d))"
  shows "(\<exists>st1 e. CreateImagePullSecrets a st1 (getRegistriesToLink d resources) = (st', Inl e) \<and> r = Inr manifest) \<or>
    (\<exists>res. \<exists>p' \<in> set (getPodSpecs res). r = encode_from (dr_lib d) 0 res \<and>
       (\<exists>ms. get p' ''imagePullSecrets'' = Some (YMaps ms) \<and> [(''name'', YStr (secret_name reg))] \<in> set ms) \<and>
       (\<forall>k. k \<noteq> ''imagePullSecrets'' \<longrightarrow> get p' k = get p k) \<and>
       (\<exists>data. ka_config a reg = Inr data \<and> st' (secret_name reg) = Some data))"
  using assms(1,2)
proof (cases rule: docker_Run_pods)
  case (2 st1 secrets res)
  have "add_pull_secrets d secrets p \<in> set (getPodSpecs res)" using assms(3) by (simp add: 2(3))
  then show ?thesis using linked_secret [OF 2(1) assms(3-6)] 2(2) add_pull_secrets_other by blast
qed blast

text \<open>
  C37. A pod specification loses its own pull secrets as soon as it is given one: the decoder makes
  lists of values of them, the renderer looks for a list of maps, and so starts with none.
\<close>
theorem existing_pull_secrets_lost:
  assumes "get p ''containers'' = Some (YList containers)" "get p ''imagePullSecrets'' = Some (YList existing)"
    and "img \<in> set (getImageList p)" "pull_secret d secrets img \<noteq> []"
  shows "get (add_pull_secrets d secrets p) ''imagePullSecrets'' =
    Some (YMaps (concat (map (pull_secret d secrets) (getImageList p))))"
  using assms by (auto simp: add_pull_secrets_def Let_def get_update)

lemma ecrPattern_region: "ecrPattern s = Some (account, region) \<Longrightarrow> region \<noteq> []"
  by (auto simp: ecrPattern_def Let_def bind_eq_Some_conv ecr_word_def split: if_splits)

text \<open>
  The ARN of an identity names no region, as identities are global: then no registry counts as
  native, and a pull secret is made for ECR registries of the cluster's own account, too.
\<close>

lemma registries_never_native: "dr_arn d = Inr (account, []) \<Longrightarrow> \<not> isRegistryNative d regName"
  using ecrPattern_region by (auto simp: isRegistryNative_def split: option.splits)

section \<open>API versions\<close>

lemma map_of_new_names: "map_of (newNameResourceMap news) n = find (\<lambda>r. uniqueName r = Some n) (rev news)"
proof (induction news rule: rev_induct)
  case (snoc r news)
  then show ?case by (simp add: newNameResourceMap_def update_conv' split: option.split)
qed (simp add: newNameResourceMap_def)

text \<open>
  What identifies a resource, said of its fields: its kind, with the case of the letters put aside,
  and its name. It takes the strings \<open>kind\<close> and \<open>apiVersion\<close> and the string \<open>metadata.name\<close>;
  a resource that lacks one of them is not identified and matches nothing.
\<close>

definition identity :: "resource \<Rightarrow> (string \<times> string) option" where
  "identity r =
     (case (get r ''kind'', get r ''apiVersion'', get r ''metadata'') of
        (Some (YStr kind), Some (YStr version), Some (YAny metadata)) \<Rightarrow>
          (case get metadata ''name'' of Some (YStr name) \<Rightarrow> Some (ToLower kind, name) | _ \<Rightarrow> None)
      | _ \<Rightarrow> None)"

definition same_resource :: "resource \<Rightarrow> resource \<Rightarrow> bool" where
  "same_resource r x \<longleftrightarrow> identity r \<noteq> None \<and> identity x = identity r"

text \<open>
  The code joins the two by a dash, so that they stay apart as long as no kind has a dash in it.
\<close>

definition plain_kind :: "resource \<Rightarrow> bool" where
  "plain_kind r \<longleftrightarrow> (case get r ''kind'' of Some (YStr kind) \<Rightarrow> CHR ''-'' \<notin> set kind | _ \<Rightarrow> True)"

lemma as_string_Some: "as_string v = Some s \<longleftrightarrow> v = YStr s"
  by (cases v rule: as_string.cases) auto

lemma uniqueName_identity: "uniqueName r = map_option (\<lambda>(kind, name). kind @ ''-'' @ name) (identity r)"
  by (auto simp: uniqueName_def identity_def getResourceName_def getKindAndAPIVersion_def kind_of_def
      split: option.split yaml.split scalar.split)

lemma lowered_not_dash:
  assumes "(of_char c :: nat) \<in> {65..90}"
  shows "char_of ((of_char c :: nat) + 32) \<noteq> CHR ''-''"
proof
  assume "char_of ((of_char c :: nat) + 32) = CHR ''-''"
  then have "(of_char (char_of ((of_char c :: nat) + 32) :: char) :: nat) = of_char (CHR ''-'')" by (rule arg_cong)
  then have "((of_char c :: nat) + 32) mod 256 = 45" by (simp del: char_of_char of_char_of add: of_char_of)
  with assms show False by simp
qed

lemma dash_lower: "CHR ''-'' \<notin> set s \<Longrightarrow> CHR ''-'' \<notin> set (ToLower s)"
proof (induction s rule: ToLower.induct)
  case (2 c cs)
  have "CHR ''-'' \<notin> set (tl cs)" using 2(4) by (cases cs) auto
  then show ?case using 2 lowered_not_dash [of c] by (auto simp del: char_of_char)
qed simp

lemma identity_plain: "plain_kind r \<Longrightarrow> identity r = Some (kind, name) \<Longrightarrow> CHR ''-'' \<notin> set kind"
  by (auto simp: plain_kind_def identity_def dash_lower split: option.splits yaml.splits scalar.splits)

lemma dash_cut: "c \<notin> set k \<Longrightarrow> c \<notin> set k' \<Longrightarrow> k @ c # n = k' @ c # n' \<longleftrightarrow> k = k' \<and> n = n'"
proof (induction k arbitrary: k')
  case Nil
  then show ?case by (cases k') auto
next
  case (Cons a k)
  then show ?case by (cases k') auto
qed

lemma uniqueName_same:
  assumes "plain_kind r" "plain_kind x" "uniqueName r = Some n"
  shows "uniqueName x = Some n \<longleftrightarrow> same_resource r x"
proof -
  obtain kind name where r: "identity r = Some (kind, name)" "n = kind @ ''-'' @ name"
    using assms(3) by (auto simp: uniqueName_identity)
  show ?thesis
  proof (cases "identity x")
    case (Some y)
    obtain kind' name' where y: "y = (kind', name')" by (cases y)
    have "CHR ''-'' \<notin> set kind" "CHR ''-'' \<notin> set kind'"
      using identity_plain assms(1,2) r(1) Some y by blast+
    then show ?thesis using r Some y dash_cut [of "CHR ''-''" kind' kind name' name]
      by (auto simp: uniqueName_identity same_resource_def)
  qed (simp add: uniqueName_identity same_resource_def r)
qed

lemma find_rev_last: "find P (rev xs) = (if filter P xs = [] then None else Some (last (filter P xs)))"
  by (induction xs rule: rev_induct) simp_all

lemma identity_version: "identity r \<noteq> None \<Longrightarrow> \<exists>kind version. getKindAndAPIVersion r = Some (kind, version) \<and> get r ''apiVersion'' = Some (YStr version)"
  by (auto simp: identity_def getKindAndAPIVersion_def kind_of_def split: option.splits yaml.splits scalar.splits)

text \<open>
  C33. The mapper changes API versions only, and those to the new manifest's: each resource of the
  old manifest comes out with every other field as it was; its API version is that of the last
  resource of the new manifest that has the same kind (letters of either case) and the same name;
  and when there is none, or the resource lacks a kind, an API version or a name that is a string,
  it comes out as it was. The hypothesis is that no kind has a dash in it.
\<close>
theorem mapper_exact:
  assumes "decodeRenderedManifests lib old = Inr olds" "decodeRenderedManifests lib new = Inr news"
    and "list_all plain_kind (olds @ news)"
  shows "\<exists>res. mapper_Run lib old new = encode_from lib 0 res \<and>
    list_all2 (\<lambda>r r'. (\<forall>k. k \<noteq> ''apiVersion'' \<longrightarrow> get r' k = get r k) \<and>
      (case filter (same_resource r) news of
         [] \<Rightarrow> r' = r
       | x # xs \<Rightarrow> get r' ''apiVersion'' = get (last (x # xs)) ''apiVersion'')) olds res"
proof -
  let ?f = "map_version (newNameResourceMap news)"
  have "(\<forall>k. k \<noteq> ''apiVersion'' \<longrightarrow> get (?f r) k = get r k) \<and>
      (case filter (same_resource r) news of
         [] \<Rightarrow> ?f r = r
       | x # xs \<Rightarrow> get (?f r) ''apiVersion'' = get (last (x # xs)) ''apiVersion'')" if r: "r \<in> set olds" for r
  proof (cases "uniqueName r")
    case None
    then have "identity r = None" by (simp add: uniqueName_identity)
    then have "filter (same_resource r) news = []" by (simp add: same_resource_def)
    then show ?thesis using None by (simp add: map_version_def)
  next
    case n: (Some n)
    have "uniqueName x = Some n \<longleftrightarrow> same_resource r x" if "x \<in> set news" for x
      using uniqueName_same [OF _ _ n] assms(3) r that by (auto simp: list_all_iff)
    then have "filter (\<lambda>x. uniqueName x = Some n) news = filter (same_resource r) news" by (auto intro: filter_cong)
    then have found: "map_of (newNameResourceMap news) n =
        (if filter (same_resource r) news = [] then None else Some (last (filter (same_resource r) news)))"
      by (simp add: map_of_new_names find_rev_last)
    have "identity r \<noteq> None" using n by (auto simp: uniqueName_identity)
    then obtain kind version where old: "getKindAndAPIVersion r = Some (kind, version)" "get r ''apiVersion'' = Some (YStr version)"
      using identity_version by blast
    show ?thesis
    proof (cases "filter (same_resource r) news")
      case Nil
      then show ?thesis using n found by (simp add: map_version_def)
    next
      case (Cons x xs)
      have "last (x # xs) \<in> set (filter (same_resource r) news)" unfolding Cons by (rule last_in_set) simp
      then have "identity (last (x # xs)) \<noteq> None" by (auto simp: same_resource_def)
      then obtain kind' version' where new: "getKindAndAPIVersion (last (x # xs)) = Some (kind', version')"
        "get (last (x # xs)) ''apiVersion'' = Some (YStr version')" using identity_version by blast
      have "?f r = (if version \<noteq> version' then AList.update (SStr ''apiVersion'') (YStr version') r else r)"
        using found Cons new(1) by (simp add: map_version_def n old(1))
      then show ?thesis using Cons old(2) new(2) by (auto simp: get_update)
    qed
  qed
  then show ?thesis using assms
    by (intro exI [of _ "map ?f olds"]) (simp add: mapper_Run_def list_all2_map2 list_all2_same)
qed

section \<open>Termination\<close>

text \<open>A manifest in a config map of a text is smaller than the text.\<close>

definition inner_smaller :: "yaml_lib \<Rightarrow> (string \<Rightarrow> nat) \<Rightarrow> bool" where
  "inner_smaller lib m \<longleftrightarrow>
     (\<forall>manifest res inner. Inr res \<in> set (yl_docs lib manifest) \<longrightarrow> inner_manifest res = Some inner \<longrightarrow> m inner < m manifest)"

lemma decode_all_set: "decode_all rs = Inr resources \<Longrightarrow> res \<in> set resources \<Longrightarrow> Inr res \<in> set rs"
  by (induction rs arbitrary: resources rule: decode_all.induct) (auto split: sum.splits if_splits)

lemma decoded_smaller:
  "inner_smaller lib m \<Longrightarrow> decodeRenderedManifests lib manifest = Inr resources \<Longrightarrow> res \<in> set resources \<Longrightarrow>
   inner_manifest res = Some inner \<Longrightarrow> m inner < m manifest"
  using decode_all_set by (fastforce simp: inner_smaller_def decodeRenderedManifests_def)

lemma all_some_Some: "\<forall>x\<in>set xs. x \<noteq> None \<Longrightarrow> all_some xs \<noteq> None"
  by (induction xs) auto

lemma env_Run_returns: "inner_smaller lib m \<Longrightarrow> m manifest < fuel \<Longrightarrow> env_Run lib order fuel manifest \<noteq> None"
proof (induction fuel arbitrary: manifest)
  case (Suc fuel)
  show ?case
  proof (cases "decodeRenderedManifests lib manifest")
    case (Inr resources)
    have "render_inner (env_Run lib order fuel) res \<noteq> None" if "res \<in> set resources" for res
    proof (cases "inner_manifest res")
      case (Some inner)
      then have "m inner < fuel" using decoded_smaller [OF Suc.prems(1) Inr that Some] Suc.prems(2) by simp
      then have "env_Run lib order fuel inner \<noteq> None" using Suc.IH Suc.prems(1) by blast
      then show ?thesis by (auto simp: render_inner_def Some split: sum.split)
    qed (simp add: render_inner_def)
    then have "all_some (map (render_inner (env_Run lib order fuel)) resources) \<noteq> None" by (intro all_some_Some) auto
    then show ?thesis by (simp add: Inr)
  qed simp
qed simp

lemma docker_inner_returns:
  "\<forall>st. \<forall>res\<in>set rs. \<forall>manifest. inner_manifest res = Some manifest \<longrightarrow> run st manifest \<noteq> None \<Longrightarrow> docker_inner run st rs \<noteq> None"
proof (induction rs arbitrary: st)
  case (Cons res rs)
  show ?case
  proof (cases "inner_manifest res")
    case None
    then show ?thesis using Cons by simp
  next
    case (Some manifest)
    then obtain st' r where "run st manifest = Some (st', r)" using Cons.prems by fastforce
    then show ?thesis using Some Cons by simp
  qed
qed simp

lemma docker_Run_returns: "inner_smaller (dr_lib d) m \<Longrightarrow> m manifest < fuel \<Longrightarrow> docker_Run d a fuel st manifest \<noteq> None"
proof (induction fuel arbitrary: manifest st)
  case (Suc fuel)
  show ?case
  proof (cases "decodeRenderedManifests (dr_lib d) manifest")
    case (Inr resources)
    have "docker_Run d a fuel st inner \<noteq> None" if "res \<in> set resources" "inner_manifest res = Some inner" for st res inner
      using decoded_smaller [OF Suc.prems(1) Inr that] Suc by simp
    then have "docker_inner (docker_Run d a fuel) st resources \<noteq> None" by (intro docker_inner_returns) blast
    then show ?thesis by (auto simp: Inr)
  qed simp
qed simp

text \<open>
  C34. Rendering ends: manifests may hold manifests in config maps, each rendered by a run of its own,
  but as each is smaller than the text it is in, by any measure, fuel above the measure of the text
  suffices for either renderer.
\<close>
theorem renderers_return:
  assumes "inner_smaller lib m" "m manifest < fuel" "dr_lib d = lib"
  shows "(\<exists>r. env_Run lib order fuel manifest = Some r) \<and> (\<exists>st' r. docker_Run d a fuel st manifest = Some (st', r))"
  using env_Run_returns [OF assms(1,2)] docker_Run_returns [of d m manifest fuel] assms by auto

end
