(* ===== verification/Postrender_Samples.thy ===== *)
theory Postrender_Samples
  imports Postrender_Props
begin

text \<open>A manifest with a deployment, alone and in a config map, and the theorems on it.\<close>

section \<open>The manifest\<close>

definition variable :: "(string \<times> string) list \<Rightarrow> resource" where
  "variable es = map (\<lambda>(k, v). (SStr k, YStr v)) es"

definition sample_vars :: "yaml list" where
  "sample_vars = [YAny (variable [(''name'', ''A''), (''value'', ''1'')]), YAny (variable [(''name'', ''A''), (''valueFrom'', ''s'')]),
     YAny (variable [(''name'', ''A''), (''value'', ''2'')]), YAny (variable [(''name'', ''B''), (''value'', ''3'')]), YStr ''C'']"

definition sample_container :: resource where
  "sample_container = [(SStr ''image'', YStr ''gcr.io/p/app:1''), (SStr ''env'', YList sample_vars)]"

definition sample_pod :: resource where
  "sample_pod = [(SStr ''containers'', YList [YAny sample_container]), (SStr ''imagePullSecrets'', YList [YAny (variable [(''name'', ''own'')])])]"

definition sample_app :: "string \<Rightarrow> resource" where
  "sample_app version = [(SStr ''kind'', YStr ''Deployment''), (SStr ''apiVersion'', YStr version),
     (SStr ''metadata'', YAny (variable [(''name'', ''web'')])),
     (SStr ''spec'', YAny [(SStr ''template'', YAny [(SStr ''spec'', YAny sample_pod)])])]"

definition sample_config_map :: resource where
  "sample_config_map = [(SStr ''kind'', YStr ''ConfigMap''),
     (SStr ''metadata'', YAny [(SStr ''labels'', YAny (variable [(''getporter.dev/manifest'', ''true'')]))]),
     (SStr ''data'', YAny (variable [(''manifest'', ''app'')]))]"

definition sample_yaml :: yaml_lib where
  "sample_yaml = \<lparr>yl_docs = (\<lambda>t. if t = ''app'' then [Inr (sample_app ''apps/v1beta1'')]
       else if t = ''new'' then [Inr (sample_app ''apps/v1'')]
       else if t = ''config'' then [Inr sample_config_map] else []),
     yl_encode = \<lambda>i r. Inr ''doc''\<rparr>"

definition sample_registry :: linked_registry where
  "sample_registry = \<lparr>rg_ID = 3, rg_ProjectID = 1, rg_TokenCache = undefined, rg_URL = ''gcr.io/p'', rg_AWSIntegrationID = 0,
     rg_GCPIntegrationID = 2, rg_DOIntegrationID = 0, rg_AzureIntegrationID = 0\<rparr>"

definition sample_renderer :: docker_renderer where
  "sample_renderer = \<lparr>dr_lib = sample_yaml, dr_named = \<lambda>i. Inr (''gcr.io'', ''p/app''), dr_AuthMechanism = ''aws-sa'',
     dr_arn = Inl (GoError ''no ARN''), dr_registries = [(''gcr.io/p'', sample_registry)]\<rparr>"

definition sample_agent :: k8s_agent where
  "sample_agent = \<lparr>ka_config = \<lambda>r. Inr ''auths'', ka_get = \<lambda>n. None, ka_create = \<lambda>n. None, ka_update = \<lambda>n. None\<rparr>"

lemma sample_decoded: "decodeRenderedManifests sample_yaml ''app'' = Inr [sample_app ''apps/v1beta1'']"
  "decodeRenderedManifests sample_yaml ''new'' = Inr [sample_app ''apps/v1'']"
  by (simp_all add: decodeRenderedManifests_def sample_yaml_def sample_app_def)

lemma sample_pods: "getPodSpecs [sample_app version] = [sample_pod]"
  by (simp add: getPodSpecs_def pod_specs.simps kind_of_def sample_app_def getPodSpecFromResource_def pod_path_def)

lemma sample_pod_fields: "get sample_pod ''containers'' = Some (YList [YAny sample_container])"
  "get sample_pod ''imagePullSecrets'' = Some (YList [YAny (variable [(''name'', ''own'')])])"
  "get sample_container ''env'' = Some (YList sample_vars)" "getImageList sample_pod = [''gcr.io/p/app:1'']"
  by (simp_all add: sample_pod_def sample_container_def getImageList_def image_of_def)

section \<open>The theorems applied\<close>

lemma id_order: "is_order (\<lambda>es. es)"
  by (simp add: is_order_def)

theorem env_vars_reconciled_witness:
  "\<exists>r res p' containers' c' env'. env_Run sample_yaml (\<lambda>es. es) 1 ''app'' = Some r \<and> r = encode_from sample_yaml 0 res \<and>
    p' \<in> set (getPodSpecs res) \<and> get p' ''containers'' = Some (YList containers') \<and> YAny c' \<in> set containers' \<and>
    get c' ''env'' = Some (YList env') \<and> set env' = {YAny e |name e. chosen sample_vars name = Some e} \<and>
    chosen sample_vars ''A'' = Some (variable [(''name'', ''A''), (''valueFrom'', ''s'')])"
proof -
  obtain r where r: "env_Run sample_yaml (\<lambda>es. es) (Suc 0) ''app'' = Some r"
    by (simp add: sample_decoded render_inner_def inner_manifest_def kind_of_def sample_app_def)
  have "chosen sample_vars ''A'' = Some (variable [(''name'', ''A''), (''valueFrom'', ''s'')])"
    by code_simp
  moreover have "sample_pod \<in> set (getPodSpecs [sample_app ''apps/v1beta1''])" by (simp add: sample_pods)
  then obtain res p' containers' c' env' where "r = encode_from sample_yaml 0 res" "p' \<in> set (getPodSpecs res)"
      "get p' ''containers'' = Some (YList containers')" "YAny c' \<in> set containers'" "get c' ''env'' = Some (YList env')"
      "set env' = {YAny e |name e. chosen sample_vars name = Some e}"
    using env_vars_reconciled [OF r sample_decoded(1) id_order, of sample_pod "[YAny sample_container]" sample_container sample_vars]
    by (simp only: sample_pod_fields) auto
  ultimately show ?thesis using r by (simp only: One_nat_def) blast
qed

text \<open>Two variables that print differently.\<close>

theorem env_vars_canonical_witness:
  "flatten_env rev sample_vars = flatten_env (\<lambda>es. es) sample_vars \<and>
   flatten_env rev (flatten_env (\<lambda>es. es) sample_vars) = flatten_env (\<lambda>es. es) sample_vars"
proof -
  have "is_order rev" by (simp add: is_order_def)
  have "{YAny e |name e. chosen sample_vars name = Some e} = set (flatten_env (\<lambda>es. es) sample_vars)"
    by (simp add: flatten_env_set [OF id_order])
  also have "... = set [YAny (variable [(''name'', ''B''), (''value'', ''3'')]), YAny (variable [(''name'', ''A''), (''valueFrom'', ''s'')])]"
    by code_simp
  finally have "inj_on Sprintf_v {YAny e |name e. chosen sample_vars name = Some e}"
    by (simp add: variable_def Join.simps)
  then show ?thesis using env_vars_canonical [OF id_order \<open>is_order rev\<close>] by blast
qed

lemma sample_registry_for: "registry_for sample_renderer ''gcr.io/p/app:1'' = Some (''gcr.io/p'', sample_registry)"
  by code_simp

theorem images_get_pull_secrets_witness:
  "\<exists>st' r. docker_Run sample_renderer sample_agent 1 Map.empty ''app'' = Some (st', r) \<and>
    ((\<exists>st1 e. CreateImagePullSecrets sample_agent st1 (getRegistriesToLink sample_renderer [sample_app ''apps/v1beta1'']) = (st', Inl e) \<and> r = Inr ''app'') \<or>
     (\<exists>res. \<exists>p' \<in> set (getPodSpecs res). r = encode_from sample_yaml 0 res \<and>
       (\<exists>ms. get p' ''imagePullSecrets'' = Some (YMaps ms) \<and> [(''name'', YStr (secret_name sample_registry))] \<in> set ms) \<and>
       (\<forall>k. k \<noteq> ''imagePullSecrets'' \<longrightarrow> get p' k = get sample_pod k) \<and>
       (\<exists>data. ka_config sample_agent sample_registry = Inr data \<and> st' (secret_name sample_registry) = Some data)))"
proof -
  have lib: "dr_lib sample_renderer = sample_yaml" by (simp add: sample_renderer_def)
  have "inner_manifest (sample_app ''apps/v1beta1'') = None" by (simp add: inner_manifest_def kind_of_def sample_app_def)
  then have "\<exists>x. docker_Run sample_renderer sample_agent (Suc 0) Map.empty ''app'' = Some x"
    by (simp add: lib sample_decoded)
  then obtain st' r where run: "docker_Run sample_renderer sample_agent (Suc 0) Map.empty ''app'' = Some (st', r)" by auto
  have "inj_on secret_name (snd ` set (dr_registries sample_renderer))" by (simp add: sample_renderer_def)
  then show ?thesis
    using images_get_pull_secrets [OF run, unfolded lib, OF sample_decoded(1), of sample_pod, OF _ _ sample_registry_for] run
    by (simp add: sample_pods sample_pod_fields)
qed

theorem existing_pull_secrets_lost_witness:
  "get (add_pull_secrets sample_renderer [(''gcr.io/p'', ''porter-gcr-3'')] sample_pod) ''imagePullSecrets'' =
   Some (YMaps [[(''name'', YStr ''porter-gcr-3'')]])"
proof -
  have secret: "pull_secret sample_renderer [(''gcr.io/p'', ''porter-gcr-3'')] ''gcr.io/p/app:1'' = [[(''name'', YStr ''porter-gcr-3'')]]"
    by code_simp
  then show ?thesis
    using existing_pull_secrets_lost [OF sample_pod_fields(1,2), of "''gcr.io/p/app:1''" sample_renderer "[(''gcr.io/p'', ''porter-gcr-3'')]"]
    by (simp add: sample_pod_fields)
qed

theorem mapper_exact_witness:
  "\<exists>r'. mapper_Run sample_yaml ''app'' ''new'' = encode_from sample_yaml 0 [r'] \<and>
    (\<forall>k. k \<noteq> ''apiVersion'' \<longrightarrow> get r' k = get (sample_app ''apps/v1beta1'') k) \<and>
    get r' ''apiVersion'' = Some (YStr ''apps/v1'')"
proof -
  have "list_all plain_kind ([sample_app ''apps/v1beta1''] @ [sample_app ''apps/v1''])" by code_simp
  from mapper_exact [OF sample_decoded this]
  obtain res where res: "mapper_Run sample_yaml ''app'' ''new'' = encode_from sample_yaml 0 res"
      and r: "list_all2 (\<lambda>r r'. (\<forall>k. k \<noteq> ''apiVersion'' \<longrightarrow> get r' k = get r k) \<and>
        (case filter (same_resource r) [sample_app ''apps/v1''] of
           [] \<Rightarrow> r' = r
         | x # xs \<Rightarrow> get r' ''apiVersion'' = get (last (x # xs)) ''apiVersion'')) [sample_app ''apps/v1beta1''] res"
    by blast
  have "same_resource (sample_app ''apps/v1beta1'') (sample_app ''apps/v1'')"
    "get (sample_app ''apps/v1'') ''apiVersion'' = Some (YStr ''apps/v1'')"
    by code_simp+
  then show ?thesis using r res by (auto simp: list_all2_Cons1)
qed

theorem renderers_return_witness:
  "(\<exists>r. env_Run sample_yaml (\<lambda>es. es) 7 ''config'' = Some r) \<and>
   (\<exists>st' r. docker_Run sample_renderer sample_agent 7 Map.empty ''config'' = Some (st', r))"
proof -
  have "inner_manifest (sample_app v) = None" for v by (simp add: inner_manifest_def kind_of_def sample_app_def)
  moreover have "inner_manifest sample_config_map = Some ''app''" by code_simp
  ultimately have "inner_smaller sample_yaml length"
    by (auto simp: inner_smaller_def sample_yaml_def split: if_splits)
  then show ?thesis using renderers_return [of sample_yaml length "''config''" 7 sample_renderer] by (simp add: sample_renderer_def)
qed

end
