(* ===== verification/Spec2Isabelle.thy ===== *)
theory Spec2Isabelle
  imports Route_Table Members API_Tokens Rotate_All Stack_Rollback Account_Samples Session_Samples Grapher_Samples Postrender_Samples
begin

text \<open>
  A model of the API server of Porter (\<open>api/server\<close>, \<open>internal/repository/gorm\<close>,
  \<open>internal/usage\<close>, \<open>internal/auth/token\<close>, \<open>ee/api/server/handlers/invite\<close>), with
  the theorems that say who may do what through it; and of the secrets it keeps
  (\<open>internal/encryption\<close>, the integration repositories, \<open>cmd/migrate/keyrotate\<close>), with the
  theorems that the integration repositories store none in the clear and lose none, and what a
  rotation of the key keeps and wipes; and of the stacks that are deployed
  through it (\<open>handlers/stack\<close>, \<open>internal/stacks\<close>), with the theorems on their histories.

  A request enters at a route. \<open>NewAPIRouter\<close> (router/router.go and the files beside it) makes
  the table of routes; \<open>registerRoutes\<close> computes from the metadata of an endpoint the chain of
  middlewares in front of its handler: authentication (authn/handler.go), the policy check
  (authz/policy.go and authz/policy), one middleware per scope that reads the resource the URL
  names and puts it into the request's context (authz), then logging, the websocket upgrade and
  the usage limit (router/middleware). The handler trusts that context.

  Theories, from the bottom up:
  \<^item> Prelude: machine integers, Go's maps and results, decimal numbers, strings.
  \<^item> Api_Types: api/types (scopes, verbs, policies, presets, metadata) and the API errors.
  \<^item> Policy_Check: HasScopeAccess, its declarative meaning, independence of the map order.
  \<^item> Policy_Presets: what the admin, developer and viewer policies permit; what no policy checks.
  \<^item> Repository: the rows of the database and the reads of the repositories. Each table is a
    parameter, a query by predicate, which \<open>lawful_repo\<close> obliges to give only rows of the table.
  \<^item> Scoped_Reads: the contract of a read by project and id, as a locale, with an instance for each
    repository.
  \<^item> Token: the claims of a token, encoded and decoded; the JWT library is a parameter.
  \<^item> Http: requests, contexts, outcomes, chains of middlewares, URL parameters.
  \<^item> Sample_Server: a concrete server on which hypotheses are checked.
  \<^item> Authn, Policy_Middleware, Scoped_Middleware, Git_Installation, Usage: the middlewares; the
    locale of Scoped_Middleware extends the one of Scoped_Reads by what a middleware attaches.
  \<^item> Request_Chain: the chain of a route and what holds of the context it builds, by induction over
    the scopes: \<open>in_project\<close> and \<open>as_asked\<close> say whose the attached rows are and that the URL names
    them, \<open>fetched_as_asked\<close> the same of what is not a row of the project: the namespace, the
    release, the git installation.
  \<^item> Routes, Routes_Base, Routes_Project, Routes_Cluster, Routes_V1, Router: every route of the API
    with its metadata; Route_Table: what is checked on each of them.
  \<^item> Members: the projects, roles and invites tables, the handlers that change them as steps, with the
    default project of a server in its cluster and the role its first user gets; reachable tables.
  \<^item> API_Tokens: the handlers of API tokens and custom policies over explicit tables, which the
    authentication and the policy loader then read; what a token lets through until it is revoked.
  \<^item> Encryption: the format of what is encrypted, and the secret fields of a row as a list of
    getters and setters, encrypted and decrypted the way every Encrypt...Data function does.
  \<^item> Integrations: the integration repositories over an explicit table with the credential storage;
    the locale integration_kind holds what they rely on, with an instance for each kind of row, and
    \<open>represents\<close> is the abstraction they refine: it says what the rows stand for and that no secret
    stays in a row beside a credential storage.
  \<^item> Key_Rotation, Rotate_All: the rotation of the key, table by table in pages, and the clusters with
    their token caches, shown to be the rotation of one table of whole clusters.
  \<^item> Stacks, Stack_Handlers: stacks and their revisions over explicit tables (internal/models/stack.go,
    gorm/stack.go, internal/stacks) and every handler of handlers/stack, with the calls of the
    cluster recorded. GORM is configured to save all associations: a row without a key is created,
    one with a key replaced, and its owner set; primary keys are natural numbers.
  \<^item> Stack_Saving: what saving a revision does to the tables, over the locale owned_contents with an
    instance for each kind of contents; Stack_History: a rule per construct of the handlers, with
    which each is shown to keep the older revisions and the links from applications to sources;
    Stack_Rollback: the history as an append-only log, what a roll back restores, and where the
    handlers fall short.
  \<^item> Accounts, Account_Handlers: users, reset tokens, CLI codes and the sessions of browsers over
    explicit tables (gorm/user.go, pw_reset_token.go, auth_code.go, authn/session_helpers.go) and the
    handlers of handlers/user; a mail counts as sent when it is handed to the notifier, bcrypt and the
    OAuth providers are functions. Account_History: the handlers as steps, each a sequence of the
    single changes of an inductive relation that says what a change needed; Account_Safety: the
    invariants of the rows and what it takes to sign in, to set a password, to verify an email;
    Account_Recovery: resets from request to login, and where the handlers fall short;
    Account_Samples: a concrete run.
  \<^item> Session_Store: \<open>internal/auth/sessionstore\<close> over \<open>gorm/session.go\<close>: the rows, the signed cookies
    (the signing library is a record of functions) and \<open>New\<close> and \<open>Save\<close>. The locale
    \<open>browser_sessions\<close> is what the login helpers rely on, one session per browser; it is interpreted
    by the store and by the sessions of Account_Handlers, so that the one refines the other.
    Session_Samples: a codec and tables on which its hypotheses hold.
  \<^item> Grapher_Yaml, Grapher: \<open>internal/helm/grapher\<close> and \<open>handlers/release/get_components.go\<close>: the
    documents of a manifest, the objects in them and the three passes that draw edges; a failed type
    assertion is \<open>None\<close>. Grapher_Edges: the locales \<open>edge_field\<close> and \<open>drawing\<close>, what a pass keeps,
    interpreted by the passes over labels and references; Grapher_Components: the handler, which ends
    hold an edge, which pods a selector selects, ids; Grapher_Samples: a manifest.
  \<^item> Postrender, Pull_Secrets: \<open>internal/helm/postrenderer.go\<close> and \<open>CreateImagePullSecrets\<close> of
    \<open>internal/kubernetes/agent.go\<close>: decoded manifests, changes in place of pod specifications, variables,
    pull secrets and the secrets of the namespace, API versions. Manifests nested in config maps are
    rendered with fuel; any measure by which they shrink gives enough of it. Postrender_Props: what the
    renderers promise; Postrender_Samples: a deployment, alone and in a config map.
  \<^item> this theory: the guarantees of the served API, which span the table, the chain and the handlers.

  How the code's values are modelled. Go's \<open>uint\<close> is a 64 bit word. A result with an error is a sum
  whose left side is the error. A nil dereference is the outcome \<open>Panic\<close>, a loop that does not end
  \<open>Diverges\<close>; what is written to the client is a \<open>Reply\<close>; calling the next handler is \<open>Next\<close>. Maps
  whose order Go leaves open are association lists, and theorems state where the order cannot
  matter. Times are seconds. Effects on other systems (session, database rows saved by a
  middleware) are a list beside the outcome.

  Parameters of the model: the database (\<open>repo\<close>), AES, the JWT library, the session store, JSON
  decoding of stored policies, the Helm and Kubernetes clients, GitHub's API, the clock. The one
  loop that may not end, the paging of organizations, is a partial function; only the post-renderers use fuel.

  Not modelled: the handlers other than those of Members, API_Tokens, Stack_Handlers, Account_Handlers
  and GetComponentsHandler (they call Kubernetes, Helm or GitHub and reply), the Helm, Kubernetes and registry
  clients, the CI integrations, the provisioner, the CLI, the workers, the dashboard.
\<close>

section \<open>The served API\<close>

lemma table_scoped:
  assumes "rt \<in> set (NewAPIRouter secret)"
  shows "well_scoped [] (md_Scopes (rt_Meta rt))"
  using table_checked [OF assms] by (simp add: route_checked_def scoped_route_def)

lemma user_only_scopes:
  assumes "well_scoped [] ss" "UserScope \<in> set ss" "ProjectScope \<notin> set ss"
  shows "ss = [UserScope]"
proof -
  obtain s rest where ss: "ss = s # rest" using assms(2) by (cases ss) auto
  then have "needs s = []" using assms(1) by (cases "needs s") auto
  then have s: "s = UserScope" by (cases s) (simp_all add: needs_def)
  have "rest = []"
  proof (cases rest)
    case (Cons t ts)
    then have "set (needs t) \<subseteq> {UserScope}" "t \<noteq> UserScope" "t \<noteq> ProjectScope"
      using assms(1,3) by (auto simp: ss s list_all_iff)
    then have False by (cases t) (auto simp: needs_def)
    then show ?thesis ..
  qed simp
  then show ?thesis by (simp add: ss s)
qed

lemma served_authenticated:
  assumes "lawful_repo (ev_repo env)" "rq_ctx r = empty_ctx"
    and "well_scoped [] (md_Scopes meta)" "UserScope \<in> set (md_Scopes meta)"
    and "fst (serve env meta r) = Next r'"
  shows "authenticated env r (rq_ctx r')"
proof (cases "ProjectScope \<in> set (md_Scopes meta)")
  case True
  then show ?thesis using served_context [OF assms(1-3) _ assms(5)] by (auto simp: authorized_def)
next
  case False
  then have ss: "md_Scopes meta = [UserScope]" using user_only_scopes assms(3,4) by blast
  obtain r1 where auth: "fst (AuthN (md_ShouldRedirect meta) env r) = Next r1"
    and rest: "fst (run_chain (flags_chain env meta) r1) = Next r'"
    using assms(5)
    by (auto simp: fst_serve route_chain_def ss scopes_chain_def scope_middlewares_def split: outcome.splits)
  have "authenticated env r (rq_ctx r1)" using assms(1,2) auth by (intro AuthN_authenticated) simp_all
  moreover have "authenticated env r ((rq_ctx r1)\<lparr>ctx_websocket := True\<rparr>) = authenticated env r (rq_ctx r1)"
    by (simp add: authenticated_def)
  ultimately show ?thesis using flags_chain_Next [OF rest] by auto
qed

text \<open>
  C1. Project isolation, for every route of the API: if the handler of a route with a project runs,
  its subject is authenticated, has a policy in the project of the URL and the policy permits the
  request; the context holds that project and the resource of each of the route's scopes. The
  cluster, registry, helm repository, infra, invite, stack and GitLab integration of the context
  belong to the project and have the ids of the URL, and the operation is the one named, of the
  infra named. The cluster is the one stored for the project. The namespace is the one of the URL,
  and a release is the one Helm answers for the URL's name and version, in that namespace, on the
  cluster stored for the project. A git installation, which has no project, has the id of the
  URL, and GitHub lists an account with that installation for the authenticated user.
\<close>

theorem project_routes_isolated:
  assumes "rt \<in> set (NewAPIRouter secret)" and "ProjectScope \<in> set (md_Scopes (rt_Meta rt))"
    and "lawful_repo (ev_repo env)" and "rq_ctx r = empty_ctx"
    and "fst (serve env (rt_Meta rt) r) = Next r'"
  shows "\<exists>req p. authorized env (rt_Meta rt) r req p (rq_ctx r') \<and>
    project_id (rq_ctx r') = Some p \<and> in_project p (rq_ctx r') \<and> as_asked req (rq_ctx r') \<and>
    fetched_as_asked env req p r' \<and> same_wire r r' \<and>
    list_all (\<lambda>s. attached s (rq_ctx r')) (md_Scopes (rt_Meta rt))"
proof -
  obtain req p where "authorized env (rt_Meta rt) r req p (rq_ctx r')" "same_wire r r'"
    "scoped_ctx env req p (md_Scopes (rt_Meta rt)) r'"
    using served_context [OF assms(3,4) table_scoped [OF assms(1)] assms(2,5)] by blast
  then show ?thesis unfolding scoped_ctx_def by blast
qed

text \<open>
  C2. Every route outside the list \<open>public_handlers\<close> runs its handler only for an authenticated
  subject: the holder of a live API token of the project it names, or the user of a session or of
  a user token.
\<close>

theorem private_routes_authenticated:
  assumes "rt \<in> set (NewAPIRouter secret)" and "rt_Handler rt \<notin> set public_handlers"
    and "lawful_repo (ev_repo env)" and "rq_ctx r = empty_ctx"
    and "fst (serve env (rt_Meta rt) r) = Next r'"
  shows "authenticated env r (rq_ctx r')"
proof (rule served_authenticated [OF assms(3,4) table_scoped [OF assms(1)] _ assms(5)])
  show "UserScope \<in> set (md_Scopes (rt_Meta rt))"
    using table_checked [OF assms(1)] assms(2) by (simp add: route_checked_def public_checked_def)
qed

lemma url_project:
  assumes "requested r meta req" and "project_of req = Some q" and "ProjectScope \<in> set (md_Scopes meta)"
    and "GetURLParamUint r URLParamProjectID = Inr p"
  shows "q = p"
  using requested_action [OF assms(1,3)] assms(2,4)
  by (auto simp: project_of_def scope_resource_def uint_resource_def)

text \<open>
  C11. Viewers only read: on every route with a project, a user whose role in the project of the
  URL is viewer, whatever the user's roles in other projects, reaches a handler only with the
  method GET, but for the template of the GitHub action; and never one of the project's settings.
\<close>

theorem viewers_only_read:
  assumes "rt \<in> set (NewAPIRouter secret)" and "ProjectScope \<in> set (md_Scopes (rt_Meta rt))"
    and "lawful_repo (ev_repo env)" and "rq_ctx r = empty_ctx"
    and "fst (serve env (rt_Meta rt) r) = Next r'"
    and "ctx_api_token (rq_ctx r') = None" "ctx_user (rq_ctx r') = Some u"
    and "GetURLParamUint r URLParamProjectID = Inr p"
    and "ReadProjectRole (ev_repo env) p (us_ID u) = Inr role" and "ro_Kind role = RoleViewer"
  shows "(md_Method (rt_Meta rt) = HTTPVerbGet \<or> rt_Handler rt = ''release.NewGetGHATemplateHandler'') \<and>
    SettingsScope \<notin> set (md_Scopes (rt_Meta rt))"
proof -
  obtain req q pol where req: "requested r (rt_Meta rt) req" "project_of req = Some q"
    "subject_policy env (rq_ctx r') q = Some pol" "policy_permits pol req"
    using served_context [OF assms(3,4) table_scoped [OF assms(1)] assms(2,5)]
    unfolding authorized_def by blast
  have "q = p" using url_project [OF req(1,2) assms(2,8)] by simp
  with role_bounds [OF req assms(6,7)] assms(9,10) have "role_allows RoleViewer (rt_Meta rt)" by auto
  then show ?thesis
    using table_checked [OF assms(1)] by (auto simp: role_allows_def route_checked_def read_is_get_def)
qed

text \<open>
  C40. On a route with a project the middlewares panic in one case only, which the panic middleware
  turns into a 500: the request bears a stored API token that is not revoked and has no expiry.
\<close>

theorem project_routes_panic:
  assumes "rt \<in> set (NewAPIRouter secret)" and "ProjectScope \<in> set (md_Scopes (rt_Meta rt))"
    and "lawful_repo (ev_repo env)" and "rq_ctx r = empty_ctx"
    and "fst (run_chain (route_chain env (rt_Meta rt)) r) = Panic"
  shows "fst (serve env (rt_Meta rt) r) = Reply (ApiError (ErrInternal ''panic'')) \<and>
    (\<exists>t. stored_token env r = Some t \<and> \<not> at_Revoked t \<and> at_Expiry t = None)"
  using route_no_panic [OF assms(3,4) table_scoped [OF assms(1)] assms(2,5)] assms(5)
  by (simp add: fst_serve)

text \<open>Every route without a git installation is served in a finite time.\<close>

theorem routes_return:
  assumes "rt \<in> set (NewAPIRouter secret)" and "GitInstallationScope \<notin> set (md_Scopes (rt_Meta rt))"
  shows "fst (serve env (rt_Meta rt) r) \<noteq> Diverges"
  by (rule route_returns [OF assms(2)])

text \<open>
  The paths and the scopes of the table agree: every scope of a route finds its parameter in
  the path except on the deletion of a release in the v1 API, and every resource parameter of a
  path has its scope in the route, so that the policy is asked about it, except on the routes of
  \<open>unguarded_handlers\<close>.
\<close>

theorem routes_guard_their_params:
  assumes "rt \<in> set (NewAPIRouter secret)"
  shows "(params_present rt \<longleftrightarrow> rt \<noteq> v1_release_deleteEndpoint v1_namespace_router) \<and>
    (params_guarded rt \<longleftrightarrow> rt_Handler rt \<notin> set unguarded_handlers)"
  using table_checked [OF assms] by (simp add: route_checked_def v1_delete_release_def)

text \<open>
  The deletion of a release in the v1 API never runs: its path has no release name, which its
  policy check asks for, so whatever the request, the handler is not called. The hypothesis is
  what the router does: parameters that the pattern does not have are empty.
\<close>

theorem v1_release_deletion_unreachable:
  assumes "lawful_repo (ev_repo env)" and "rq_ctx r = empty_ctx"
    and rt: "rt = v1_release_deleteEndpoint v1_namespace_router"
    and routed: "\<And>p. p \<notin> set (path_params (full_path rt)) \<Longrightarrow> rq_params r p = []"
  shows "fst (serve env (rt_Meta rt) r) \<noteq> Next r'"
proof
  assume run: "fst (serve env (rt_Meta rt) r) = Next r'"
  have scopes: "md_Scopes (rt_Meta rt) = [UserScope, ProjectScope, ClusterScope, NamespaceScope, ReleaseScope]"
    by (simp add: rt v1_release_deleteEndpoint_def new_route_def new_endpoint_def)
  have "well_scoped [] (md_Scopes (rt_Meta rt))" by (simp add: scopes needs_def)
  then obtain req p where "requested r (rt_Meta rt) req"
    using served_context [OF assms(1,2) _ _ run] by (auto simp: scopes authorized_def)
  from requested_action [OF this, of ReleaseScope]
  obtain x where "GetURLParamString r URLParamReleaseName = Inr x"
    by (cases "GetURLParamString r URLParamReleaseName") (auto simp: scopes scope_resource_def name_resource_def)
  moreover have "URLParamReleaseName \<notin> set (path_params (full_path rt))"
    by (simp add: rt full_path_def path_params_def check_simps)
  ultimately show False using routed by (simp add: GetURLParamString_def)
qed

text \<open>
  C22. Developers promote themselves: the endpoint that changes roles asks for the scopes of user
  and project only, so the policy of a developer permits it, and its handler then makes the
  developer's own role in the project the one asked for, here admin.
\<close>

theorem developers_promote_themselves:
  assumes role: "ReadProjectRole (ev_repo env) p (us_ID u) = Inr role" "ro_Kind role = RoleDeveloper"
    and who: "ctx_api_token (rq_ctx r) = None" "ctx_user (rq_ctx r) = Some u" "us_ID u \<noteq> 0"
    and url: "GetURLParamUint r URLParamProjectID = Inr p" "p \<noteq> 0"
    and db: "wf_db db" "roles_of db p (us_ID u) = stored # rest" and ctx: "project_id ctx = Some p"
  shows "(\<exists>r'. PolicyHandler env (rt_Meta (project_updateRoleEndpoint api_router)) r = Next r') \<and>
    roles_of (fst (RoleUpdateHandler no_faults db ctx (Inr (us_ID u, ''admin'')))) p (us_ID u) =
      stored\<lparr>ro_Kind := RoleAdmin\<rparr> # rest"
proof
  let ?meta = "rt_Meta (project_updateRoleEndpoint api_router)"
  let ?req = "[UserScope \<mapsto> \<lparr>ra_Verb = APIVerbUpdate, ra_Resource = \<lparr>Name = [], UInt = 0\<rparr>\<rparr>,
    ProjectScope \<mapsto> \<lparr>ra_Verb = APIVerbUpdate, ra_Resource = \<lparr>Name = [], UInt = p\<rparr>\<rparr>]"
  have "getRequestActionForEndpoint r ?meta = Inr ?req"
    using url(1) by (simp add: project_updateRoleEndpoint_def new_route_def new_endpoint_def
        getRequestActionForEndpoint_def scope_resource_def uint_resource_def)
  moreover have "project_of ?req = Some p" by (simp add: project_of_def)
  moreover have "subject_policy env (rq_ctx r) p = Some DeveloperPolicy"
    using role who url(2) by (simp add: subject_policy_def member_policy_def)
  moreover have "policy_permits DeveloperPolicy ?req"
    by (simp add: policy_permits_HasScopeAccess preset_rights_simps hierarchy_scopes_def action_in_def
        ReadWriteVerbGroup_def)
  ultimately show "\<exists>r'. PolicyHandler env ?meta r = Next r'"
    unfolding PolicyHandler_Next by blast
next
  obtain proj where proj: "ctx_project ctx = Some proj" "pr_ID proj = p"
    using ctx by (auto simp: project_id_def)
  let ?run = "RoleUpdateHandler no_faults db ctx (Inr (us_ID u, ''admin''))"
  have "?run = (fst ?run, fst (snd ?run), snd (snd ?run))" by simp
  from RoleUpdate_effect [OF db(1) proj(1) this]
  show "roles_of (fst ?run) p (us_ID u) = stored\<lparr>ro_Kind := RoleAdmin\<rparr> # rest"
    using db(2) by (simp add: proj(2) RoleKind.simps)
qed

section \<open>Witnesses\<close>

text \<open>The sample server when its user has another role, and the user's session on it.\<close>

definition sample_env_as :: "role_kind \<Rightarrow> server_env" where
  "sample_env_as kind = sample_env\<lparr>ev_repo := sample_repo\<lparr>q_roles := table_first [sample_role\<lparr>ro_Kind := kind\<rparr>]\<rparr>\<rparr>"

abbreviation sample_session :: request where
  "sample_session \<equiv> sample_request [] ''cookie''"

lemma sample_lawful_as: "lawful_repo (ev_repo (sample_env_as kind))"
  by (simp add: sample_env_as_def sample_repo_def lawful_repo_def)

lemma sample_get_cluster: "rt_Meta (cluster_getEndpoint project_router) = sample_meta"
  by (simp add: cluster_getEndpoint_def new_route_def new_endpoint_def cluster_relPath_def sample_meta_def
      URLParamClusterID_def)

lemma sample_get_cluster_route: "cluster_getEndpoint project_router \<in> set (NewAPIRouter secret)"
  by (simp add: NewAPIRouter_files route_files_def getClusterRoutes_def)

lemma sample_viewer_role:
  "ReadProjectRole (ev_repo (sample_env_as RoleViewer)) 1 (us_ID sample_user) =
     Inr (sample_role\<lparr>ro_Kind := RoleViewer\<rparr>)"
  by (simp add: ReadProjectRole_def sample_env_as_def table_first_def sample_role_def sample_user_def)

lemma sample_session_url: "GetURLParamUint sample_session URLParamProjectID = Inr 1"
  by (simp add: GetURLParamUint_def GetURLParamString_def url_param_defs sample_params ParseUint_small)

definition sample_viewed :: request where
  "sample_viewed = sample_session\<lparr>rq_ctx := empty_ctx\<lparr>ctx_user := Some sample_user,
     ctx_req_scopes := Some sample_actions,
     ctx_project := Some (sample_project 1),
     ctx_cluster := Some ((sample_cluster 1 2)\<lparr>cl_TokenCache := empty_token_cache\<rparr>)\<rparr>\<rparr>"

lemma sample_session_user:
  "fst (AuthN redirect (sample_env_as kind) sample_session) = Next (with_user sample_session sample_user)"
  by (simp add: AuthN_def getTokenFromRequest_def with_user_def sample_env_as_def sample_defs
      nextWithUserID_def ReadUser_def table_first_def Split_def TrimSpace_def)

lemma sample_cluster_read:
  "ReadCluster (ev_repo (sample_env_as kind)) 1 2 = Inr ((sample_cluster 1 2)\<lparr>cl_TokenCache := empty_token_cache\<rparr>)"
  by (simp add: ReadCluster_def sample_env_as_def sample_repo_def table_first_def sample_cluster_def
      DecryptClusterData_def empty_token_cache_def no_cache_def Let_def)

lemma sample_viewer_served: "fst (serve (sample_env_as RoleViewer) sample_meta sample_session) = Next sample_viewed"
proof -
  let ?env = "sample_env_as RoleViewer" and ?u = "with_user sample_session sample_user"
  let ?p = "?u\<lparr>rq_ctx := (rq_ctx ?u)\<lparr>ctx_req_scopes := Some sample_actions\<rparr>\<rparr>"
  let ?j = "?p\<lparr>rq_ctx := (rq_ctx ?p)\<lparr>ctx_project := Some (sample_project 1)\<rparr>\<rparr>"
  have "getRequestActionForEndpoint ?u sample_meta = Inr sample_actions"
    by (rule sample_actions_of [of _ "[]" "''cookie''"]) (simp add: with_user_def)
  moreover have "subject_policy ?env (rq_ctx ?u) 1 = Some ViewerPolicy"
    by (simp add: subject_policy_def with_user_def empty_ctx_def member_policy_def ReadProjectRole_def
        sample_env_as_def table_first_def sample_role_def)
  moreover have "policy_permits ViewerPolicy sample_actions"
    by (simp add: policy_permits_HasScopeAccess preset_rights_simps hierarchy_scopes_def action_in_def
        sample_actions_def ReadVerbGroup_def)
  ultimately have policy: "PolicyHandler ?env sample_meta ?u = Next ?p"
    unfolding PolicyHandler_Next using sample_actions_project by blast
  have project: "ProjectScopedMiddleware ?env ?p = Next ?j"
    by (simp add: ProjectScopedMiddleware_def wanted_def sample_actions_def ReadProject_def sample_env_as_def
        sample_repo_def table_first_def sample_project_def attach_def)
  have cluster: "ClusterScopedMiddleware ?env ?j = Next sample_viewed"
    by (simp add: ClusterScopedMiddleware_def wanted_def sample_actions_def sample_cluster_read
        sample_project_def)
      (simp add: attach_def sample_viewed_def with_user_def sample_actions_def sample_project_def)
  show ?thesis
    using sample_session_user [of "md_ShouldRedirect sample_meta" RoleViewer] policy project cluster
    by (simp add: fst_serve route_chain_def scopes_chain_def scope_middlewares_def flags_chain_def
        sample_meta_def RequestLoggerMiddleware_def)
qed

lemma sample_viewed_ctx:
  "ctx_api_token (rq_ctx sample_viewed) = None" "ctx_user (rq_ctx sample_viewed) = Some sample_user"
  by (simp_all add: sample_viewed_def empty_ctx_def)

lemma sample_scopes: "ProjectScope \<in> set (md_Scopes (rt_Meta (cluster_getEndpoint project_router)))"
  by (simp add: sample_get_cluster sample_meta_def)

lemmas sample_run = sample_viewer_served [folded sample_get_cluster]

theorem project_routes_isolated_witness:
  "in_project 1 (rq_ctx sample_viewed) \<and> ctx_cluster (rq_ctx sample_viewed) \<noteq> None \<and>
   (\<exists>req. fetched_as_asked (sample_env_as RoleViewer) req 1 sample_viewed)"
proof -
  obtain p req where h: "project_id (rq_ctx sample_viewed) = Some p" "in_project p (rq_ctx sample_viewed)"
    "fetched_as_asked (sample_env_as RoleViewer) req p sample_viewed"
    "list_all (\<lambda>s. attached s (rq_ctx sample_viewed)) (md_Scopes sample_meta)"
    using project_routes_isolated [OF sample_get_cluster_route sample_scopes sample_lawful_as sample_request_ctx
        sample_run] by (auto simp: sample_get_cluster)
  moreover have "p = 1" using h(1) by (simp add: sample_viewed_def project_id_def sample_project_def)
  ultimately show ?thesis by (auto simp: sample_meta_def attached_def)
qed

theorem private_routes_authenticated_witness:
  "authenticated (sample_env_as RoleViewer) sample_session (rq_ctx sample_viewed)"
proof -
  have "rt_Handler (cluster_getEndpoint project_router) \<notin> set public_handlers"
    by (simp add: cluster_getEndpoint_def new_route_def public_handlers_def)
  from private_routes_authenticated [OF sample_get_cluster_route this sample_lawful_as sample_request_ctx
      sample_run] show ?thesis .
qed

theorem viewers_only_read_witness:
  "md_Method sample_meta = HTTPVerbGet \<or>
   rt_Handler (cluster_getEndpoint project_router) = ''release.NewGetGHATemplateHandler''"
  using viewers_only_read [OF sample_get_cluster_route sample_scopes sample_lawful_as sample_request_ctx
      sample_run sample_viewed_ctx sample_session_url sample_viewer_role]
  by (simp add: sample_get_cluster)

text \<open>The server on which the stored token of the sample has no expiry.\<close>

definition timeless_env :: server_env where
  "timeless_env = sample_env\<lparr>ev_repo := sample_repo\<lparr>q_api_tokens :=
     table_first [sample_api_token\<lparr>at_Expiry := None\<rparr>]\<rparr>\<rparr>"

theorem project_routes_panic_witness:
  "fst (serve timeless_env sample_meta (sample_request ''Bearer good'' [])) =
   Reply (ApiError (ErrInternal ''panic''))"
proof -
  let ?r = "sample_request ''Bearer good'' []"
  have law: "lawful_repo (ev_repo timeless_env)"
    by (simp add: timeless_env_def sample_repo_def lawful_repo_def)
  have read: "ReadAPIToken (ev_repo timeless_env) 1 ''t1'' = Inr (sample_api_token\<lparr>at_Expiry := None\<rparr>)"
    by (simp add: ReadAPIToken_def timeless_env_def sample_repo_def table_first_def)
      (simp add: sample_api_token_def)
  have jwt: "ev_jwt_parse timeless_env = ev_jwt_parse sample_env" "ev_token_secret timeless_env = ev_token_secret sample_env"
    by (simp_all add: timeless_env_def)
  have tok: "getTokenFromRequest timeless_env ?r = getTokenFromRequest sample_env ?r"
    unfolding getTokenFromRequest_def jwt ..
  have "fst (AuthN False timeless_env ?r) = Panic"
    by (simp add: AuthN_def tok sample_bearer verifyTokenWithNext_def read IsExpired_def)
  then have "fst (run_chain (route_chain timeless_env sample_meta) ?r) = Panic"
    by (simp add: route_chain_def scopes_chain_def scope_middlewares_def sample_meta_def)
  from project_routes_panic [OF sample_get_cluster_route sample_scopes law sample_request_ctx
      this [folded sample_get_cluster]]
  show ?thesis by (simp add: sample_get_cluster)
qed

theorem routes_return_witness: "fst (serve sample_env sample_meta sample_session) \<noteq> Diverges"
  using routes_return [OF sample_get_cluster_route, of sample_env sample_session]
  by (simp add: sample_get_cluster) (simp add: sample_meta_def)

theorem routes_guard_their_params_witness:
  "params_guarded (cluster_getEndpoint project_router)"
  using routes_guard_their_params [OF sample_get_cluster_route]
  by (simp add: cluster_getEndpoint_def new_route_def unguarded_handlers_def)

theorem v1_release_deletion_unreachable_witness:
  "\<nexists>r'. fst (serve sample_env (rt_Meta (v1_release_deleteEndpoint v1_namespace_router))
     (sample_session\<lparr>rq_params := (\<lambda>p. if p \<in> set [''project_id'', ''cluster_id''] then ''1''
        else if p = ''namespace'' then ''default'' else [])\<rparr>)) = Next r'"
proof (rule notI, erule exE)
  let ?rt = "v1_release_deleteEndpoint v1_namespace_router"
  let ?r = "sample_session\<lparr>rq_params := (\<lambda>p. if p \<in> set [''project_id'', ''cluster_id''] then ''1''
        else if p = ''namespace'' then ''default'' else [])\<rparr>"
  have ctx: "rq_ctx ?r = empty_ctx" by simp
  have routed: "rq_params ?r p = []" if "p \<notin> set (path_params (full_path ?rt))" for p
    using that by (auto simp: full_path_def path_params_def check_simps)
  fix r' assume "fst (serve sample_env (rt_Meta ?rt) ?r) = Next r'"
  then show False
    using v1_release_deletion_unreachable [OF sample_repo_lawful ctx refl routed] by blast
qed

theorem developers_promote_themselves_witness:
  "\<exists>r'. PolicyHandler (sample_env_as RoleDeveloper) (rt_Meta (project_updateRoleEndpoint api_router))
     (with_user sample_session sample_user) = Next r'"
proof -
  let ?db = "sample_members" and ?r = "with_user sample_session sample_user"
  have role: "ReadProjectRole (ev_repo (sample_env_as RoleDeveloper)) 1 (us_ID sample_user) =
      Inr (sample_role\<lparr>ro_Kind := RoleDeveloper\<rparr>)"
    by (simp add: ReadProjectRole_def sample_env_as_def sample_role_def table_first_def)
  have url: "GetURLParamUint ?r URLParamProjectID = Inr 1"
    by (simp add: GetURLParamUint_def GetURLParamString_def url_param_defs with_user_def sample_request_def
        ParseUint_small)
  have db: "wf_db ?db" "roles_of ?db 1 (us_ID sample_user) = hd (m_roles ?db) # []"
    using sample_members_ok(1) sample_roles by (simp_all add: members_ok_def) (simp add: sample_members_def)
  have "project_id sample_in_project = Some 1"
    using sample_in_project by (simp add: project_id_def)
  from developers_promote_themselves [OF role _ _ _ _ url _ db this] show ?thesis
    by (simp add: with_user_def empty_ctx_def)
qed

end
